(* ===== verification/Prelude.thy ===== *)
theory Prelude
  imports Complex_Main "HOL-Library.Char_ord" "HOL-Library.List_Lexorder"
begin

text \<open>
  The vocabulary every other theory uses: the exceptions the Python code raises as a datatype,
  fallible results as a sum type, checks as optional exceptions run in order, the loops of the
  code over lists, and the generic facts about them.  The two enumerations an exception carries
  (the port and the error code of a \<open>PortError\<close>) are those of \<open>ports.py\<close>.
\<close>

section \<open>Exceptions and results\<close>

datatype port_kind =
    VIDEO_SOURCE
  | ORIGINAL_FRAME_READER
  | FRAME_SAMPLER
  | FRAME_DISCONTINUITY
  | DETECTOR
  | TRACKER
  | EVIDENCE_SELECTOR
  | EVIDENCE_STORE
  | WORLD_STORE

datatype port_error_code =
    INVALID_REQUEST
  | LIMIT_EXCEEDED
  | NOT_FOUND
  | CONFLICT
  | CAPABILITY_DENIED
  | UNSUPPORTED
  | ISOLATION_UNAVAILABLE
  | CANCELLED
  | TIMEOUT
  | DECODE_FAILED
  | CORRUPT
  | STORAGE_FAILED

text \<open>
  One constructor per exception class of the modelled code.  \<open>RecordValidationError\<close> carries the
  code and the path, \<open>CropError\<close> the code, \<open>ValueError\<close> the message, \<open>PortError\<close> the error code,
  the port and the operation (its \<open>retryable\<close> flag is \<open>False\<close> in all of it), the others the message.
\<close>

datatype exn =
    RecordValidationError string string
  | CropError string
  | ValueError string
  | PortError port_error_code port_kind string
  | AssertionError string
  | KeyError string
  | OSError string
  | SubprocessError string

text \<open>
  \<open>except (TypeError, ValueError)\<close> catches exactly the subclasses of \<open>ValueError\<close> here:
  \<open>RecordValidationError\<close> and \<open>CropError\<close> derive from it, \<open>PortError\<close> from \<open>RuntimeError\<close>.
\<close>

fun is_value_error :: "exn \<Rightarrow> bool" where
  "is_value_error (RecordValidationError _ _) = True"
| "is_value_error (CropError _) = True"
| "is_value_error (ValueError _) = True"
| "is_value_error (PortError _ _ _) = False"
| "is_value_error (AssertionError _) = False"
| "is_value_error (KeyError _) = False"
| "is_value_error (OSError _) = False"
| "is_value_error (SubprocessError _) = False"

type_synonym 'a res = "exn + 'a"

type_synonym check = "exn option"

named_theorems outcome "when a checked computation succeeds"

definition bindE :: "'e + 'a \<Rightarrow> ('a \<Rightarrow> 'e + 'b) \<Rightarrow> 'e + 'b" where
  "bindE m f = (case m of Inl e \<Rightarrow> Inl e | Inr x \<Rightarrow> f x)"

definition require :: "bool \<Rightarrow> 'e \<Rightarrow> 'e option" where
  "require b e = (if b then None else Some e)"

fun run_checks :: "'e option list \<Rightarrow> 'e option" where
  "run_checks [] = None"
| "run_checks (c # cs) = (case c of None \<Rightarrow> run_checks cs | Some e \<Rightarrow> Some e)"

definition checked :: "'e option \<Rightarrow> 'a \<Rightarrow> 'e + 'a" where
  "checked c x = (case c of None \<Rightarrow> Inr x | Some e \<Rightarrow> Inl e)"

definition check_of :: "'e + 'a \<Rightarrow> 'e option" where
  "check_of m = (case m of Inl e \<Rightarrow> Some e | Inr _ \<Rightarrow> None)"

fun mapE :: "('a \<Rightarrow> 'e + 'b) \<Rightarrow> 'a list \<Rightarrow> 'e + 'b list" where
  "mapE f [] = Inr []"
| "mapE f (x # xs) = bindE (f x) (\<lambda>y. bindE (mapE f xs) (\<lambda>ys. Inr (y # ys)))"

fun mapE_from :: "nat \<Rightarrow> (nat \<Rightarrow> 'a \<Rightarrow> 'e + 'b) \<Rightarrow> 'a list \<Rightarrow> 'e + 'b list" where
  "mapE_from i f [] = Inr []"
| "mapE_from i f (x # xs) =
     bindE (f i x) (\<lambda>y. bindE (mapE_from (Suc i) f xs) (\<lambda>ys. Inr (y # ys)))"

text \<open>\<open>try: m except (TypeError, ValueError): raise e\<close>\<close>

definition except_value :: "'a res \<Rightarrow> exn \<Rightarrow> 'a res" where
  "except_value m e = (case m of Inl x \<Rightarrow> if is_value_error x then Inl e else Inl x | Inr y \<Rightarrow> Inr y)"

definition except_value_check :: "check \<Rightarrow> exn \<Rightarrow> check" where
  "except_value_check c e = (case c of None \<Rightarrow> None | Some x \<Rightarrow> Some (if is_value_error x then e else x))"

lemma bindE_simps [simp]: "bindE (Inl e) f = Inl e" "bindE (Inr x) f = f x"
  by (simp_all add: bindE_def)

lemma bindE_cong [fundef_cong]:
  "m = m' \<Longrightarrow> (\<And>x. m' = Inr x \<Longrightarrow> f x = g x) \<Longrightarrow> bindE m f = bindE m' g"
  by (cases m') simp_all

lemma bindE_Inr_iff [outcome]: "bindE m f = Inr y \<longleftrightarrow> (\<exists>x. m = Inr x \<and> f x = Inr y)"
  by (cases m) auto

lemma bindE_Inl_iff: "bindE m f = Inl e \<longleftrightarrow> m = Inl e \<or> (\<exists>x. m = Inr x \<and> f x = Inl e)"
  by (cases m) auto

lemma require_None [simp]: "require b e = None \<longleftrightarrow> b"
  by (simp add: require_def)

lemma require_Some [simp]: "require b e = Some x \<longleftrightarrow> \<not> b \<and> x = e"
  by (auto simp: require_def)

lemma Some_require [simp]: "Some x = require b e \<longleftrightarrow> \<not> b \<and> x = e"
  by (auto simp: require_def)

lemma require_simps [simp]: "require True e = None" "require False e = Some e"
  by (simp_all add: require_def)

lemma run_checks_Cons_None: "run_checks (None # cs) = run_checks cs"
  by simp

lemma run_checks_None: "run_checks cs = None \<longleftrightarrow> (\<forall>c \<in> set cs. c = None)"
  by (induction cs) (auto split: option.splits)

lemma run_checks_append: "run_checks (as @ bs) = None \<longleftrightarrow> run_checks as = None \<and> run_checks bs = None"
  by (auto simp: run_checks_None)

lemma run_checks_Some_mem: "run_checks cs = Some e \<Longrightarrow> Some e \<in> set cs"
  by (induction cs) (auto split: option.splits)

lemma run_checks_error:
  assumes "run_checks cs = Some e" and "\<And>c x. c \<in> set cs \<Longrightarrow> c = Some x \<Longrightarrow> P x"
  shows "P e"
  using assms(2) [OF run_checks_Some_mem [OF assms(1)]] by simp

lemma run_checks_ConsN: "run_checks (c # cs) = None \<longleftrightarrow> c = None \<and> run_checks cs = None"
  by (auto split: option.splits)

declare run_checks.simps(2) [simp del]
declare run_checks_ConsN [simp] run_checks_Cons_None [simp]

lemma checked_simps [simp]: "checked None x = Inr x" "checked (Some e) x = Inl e"
  by (simp_all add: checked_def)

lemma checked_Inr_iff [outcome]: "checked c x = Inr y \<longleftrightarrow> c = None \<and> y = x"
  by (cases c) auto

lemma checked_Inl_iff: "checked c x = Inl e \<longleftrightarrow> c = Some e"
  by (cases c) auto

lemma check_of_simps [simp]: "check_of (Inl e) = Some e" "check_of (Inr x) = None"
  by (simp_all add: check_of_def)

lemma check_of_None [outcome]: "check_of m = None \<longleftrightarrow> (\<exists>x. m = Inr x)"
  by (cases m) auto

lemma except_value_Inr [outcome]: "except_value m e = Inr y \<longleftrightarrow> m = Inr y"
  by (auto simp: except_value_def split: sum.splits if_splits)

lemma except_value_check_None [outcome]: "except_value_check c e = None \<longleftrightarrow> c = None"
  by (auto simp: except_value_check_def split: option.splits)

lemma except_value_simps [simp]: "except_value (Inr y) e = Inr y"
  by (simp add: except_value_def)

lemma except_value_check_simps [simp]: "except_value_check None e = None"
  by (simp add: except_value_check_def)

lemma mapE_Inr_iff: "mapE f xs = Inr ys \<longleftrightarrow> list_all2 (\<lambda>x y. f x = Inr y) xs ys"
  by (induction xs arbitrary: ys) (auto simp: outcome list_all2_Cons1)

lemma mapE_cong_Inr: "(\<And>x. x \<in> set xs \<Longrightarrow> f x = Inr (g x)) \<Longrightarrow> mapE f xs = Inr (map g xs)"
  by (induction xs) auto

lemma mapE_from_cong_Inr:
  "(\<And>j x. x \<in> set xs \<Longrightarrow> f j x = Inr (g x)) \<Longrightarrow> mapE_from i f xs = Inr (map g xs)"
  by (induction xs arbitrary: i) auto

section \<open>Characters and decimal numerals\<close>

definition code :: "char \<Rightarrow> nat" where
  "code c = of_char c"

definition is_digit :: "char \<Rightarrow> bool" where
  "is_digit c \<longleftrightarrow> 48 \<le> code c \<and> code c \<le> 57"

definition is_lower_hex :: "char \<Rightarrow> bool" where
  "is_lower_hex c \<longleftrightarrow> is_digit c \<or> 97 \<le> code c \<and> code c \<le> 102"

definition is_lower :: "char \<Rightarrow> bool" where
  "is_lower c \<longleftrightarrow> 97 \<le> code c \<and> code c \<le> 122"

definition is_upper :: "char \<Rightarrow> bool" where
  "is_upper c \<longleftrightarrow> 65 \<le> code c \<and> code c \<le> 90"

definition is_ascii :: "char \<Rightarrow> bool" where
  "is_ascii c \<longleftrightarrow> code c < 128"

definition digit_char :: "nat \<Rightarrow> char" where
  "digit_char d = char_of (48 + d)"

definition digit_val :: "char \<Rightarrow> nat" where
  "digit_val c = code c - 48"

text \<open>The decimal numeral of a natural number and of an integer, as \<open>str(int)\<close> writes it.\<close>

fun show_nat :: "nat \<Rightarrow> string" where
  "show_nat n = (if n < 10 then [digit_char n] else show_nat (n div 10) @ [digit_char (n mod 10)])"

declare show_nat.simps [simp del]

definition show_int :: "int \<Rightarrow> string" where
  "show_int i = (if i < 0 then CHR ''-'' # show_nat (nat (- i)) else show_nat (nat i))"

text \<open>\<open>int(text)\<close> on a string of decimal digits, with an optional minus sign.\<close>

definition nat_of_digits :: "string \<Rightarrow> nat" where
  "nat_of_digits s = foldl (\<lambda>n c. 10 * n + digit_val c) 0 s"

fun int_of_decimal :: "string \<Rightarrow> int" where
  "int_of_decimal (c # s) =
     (if c = CHR ''-'' then - int (nat_of_digits s) else int (nat_of_digits (c # s)))"
| "int_of_decimal [] = 0"

lemma code_digit_char: "d < 10 \<Longrightarrow> code (digit_char d) = 48 + d"
  by (simp add: code_def digit_char_def)

lemma digit_val_digit_char [simp]: "d < 10 \<Longrightarrow> digit_val (digit_char d) = d"
  by (simp add: digit_val_def code_digit_char)

lemma is_digit_digit_char [simp]: "d < 10 \<Longrightarrow> is_digit (digit_char d)"
  by (simp add: is_digit_def code_digit_char)

lemma show_nat_digits: "\<forall>c \<in> set (show_nat n). is_digit c"
proof (induction n rule: show_nat.induct)
  case (1 n)
  then show ?case
    by (cases "n < 10") (simp_all add: show_nat.simps [of n])
qed

lemma show_nat_not_Nil [simp]: "show_nat n \<noteq> []"
  by (simp add: show_nat.simps [of n])

lemma nat_of_digits_snoc: "nat_of_digits (s @ [c]) = 10 * nat_of_digits s + digit_val c"
  by (simp add: nat_of_digits_def)

lemma nat_of_digits_show_nat [simp]: "nat_of_digits (show_nat n) = n"
proof (induction n rule: show_nat.induct)
  case (1 n)
  show ?case
  proof (cases "n < 10")
    case True
    then show ?thesis by (simp add: show_nat.simps [of n] nat_of_digits_def)
  next
    case False
    with 1 show ?thesis
      by (simp add: show_nat.simps [of n] nat_of_digits_snoc)
  qed
qed

lemma digit_not_minus: "is_digit c \<Longrightarrow> c \<noteq> CHR ''-''"
  by (auto simp: is_digit_def code_def)

lemma int_of_decimal_show_int [simp]: "int_of_decimal (show_int i) = i"
proof (cases "i < 0")
  case True
  then show ?thesis by (simp add: show_int_def)
next
  case False
  obtain c s where cs: "show_nat (nat i) = c # s"
    by (cases "show_nat (nat i)") simp_all
  then have "is_digit c" using show_nat_digits [of "nat i"] by auto
  then have "int_of_decimal (show_nat (nat i)) = int (nat_of_digits (show_nat (nat i)))"
    using cs by (simp add: digit_not_minus)
  with False show ?thesis by (simp add: show_int_def)
qed

end
