(* ===== verification/Sha256.thy ===== *)
theory Sha256
  imports Prelude "HOL-Library.Word"
begin

text \<open>
  SHA-256 (FIPS 180-4) and HMAC-SHA256 (RFC 2104) on byte strings: the two functions of Python's
  \<open>hashlib\<close> and \<open>hmac\<close> modules the repository calls.  They are defined, not assumed, so that every
  content-derived identifier of the model is a value; nothing in the development relies on more
  than the shape of a digest (64 lower-case hexadecimal digits).
\<close>

unbundle bit_operations_syntax

type_synonym w32 = "32 word"

definition sha_k :: "w32 list" where
  "sha_k =
    [1116352408, 1899447441, 3049323471, 3921009573, 961987163, 1508970993, 2453635748, 2870763221,
     3624381080, 310598401, 607225278, 1426881987, 1925078388, 2162078206, 2614888103, 3248222580,
     3835390401, 4022224774, 264347078, 604807628, 770255983, 1249150122, 1555081692, 1996064986,
     2554220882, 2821834349, 2952996808, 3210313671, 3336571891, 3584528711, 113926993, 338241895,
     666307205, 773529912, 1294757372, 1396182291, 1695183700, 1986661051, 2177026350, 2456956037,
     2730485921, 2820302411, 3259730800, 3345764771, 3516065817, 3600352804, 4094571909, 275423344,
     430227734, 506948616, 659060556, 883997877, 958139571, 1322822218, 1537002063, 1747873779,
     1955562222, 2024104815, 2227730452, 2361852424, 2428436474, 2756734187, 3204031479, 3329325298]"

type_synonym sha_state = "w32 \<times> w32 \<times> w32 \<times> w32 \<times> w32 \<times> w32 \<times> w32 \<times> w32"

definition sha_init :: sha_state where
  "sha_init = (1779033703, 3144134277, 1013904242, 2773480762, 1359893119, 2600822924, 528734635, 1541459225)"

definition rotr :: "nat \<Rightarrow> w32 \<Rightarrow> w32" where
  "rotr n x = drop_bit n x OR push_bit (32 - n) x"

fun sha_extend :: "nat \<Rightarrow> w32 list \<Rightarrow> w32 list" where
  "sha_extend 0 rev_w = rev rev_w"
| "sha_extend (Suc n) rev_w =
     (let x15 = rev_w ! 14; x2 = rev_w ! 1;
          s0 = rotr 7 x15 XOR rotr 18 x15 XOR drop_bit 3 x15;
          s1 = rotr 17 x2 XOR rotr 19 x2 XOR drop_bit 10 x2
      in sha_extend n ((rev_w ! 15 + s0 + rev_w ! 6 + s1) # rev_w))"

fun sha_rounds :: "(w32 \<times> w32) list \<Rightarrow> sha_state \<Rightarrow> sha_state" where
  "sha_rounds [] st = st"
| "sha_rounds ((k, w) # kws) (a, b, c, d, e, f, g, h) =
     (let s1 = rotr 6 e XOR rotr 11 e XOR rotr 25 e;
          ch = (e AND f) XOR (NOT e AND g);
          t1 = h + s1 + ch + k + w;
          s0 = rotr 2 a XOR rotr 13 a XOR rotr 22 a;
          maj = (a AND b) XOR (a AND c) XOR (b AND c);
          t2 = s0 + maj
      in sha_rounds kws (t1 + t2, a, b, c, d + t1, e, f, g))"

fun sha_add :: "sha_state \<Rightarrow> sha_state \<Rightarrow> sha_state" where
  "sha_add (a, b, c, d, e, f, g, h) (a', b', c', d', e', f', g', h') =
     (a + a', b + b', c + c', d + d', e + e', f + f', g + g', h + h')"

fun be_words :: "nat list \<Rightarrow> w32 list" where
  "be_words (a # b # c # d # bs) = of_nat (((a * 256 + b) * 256 + c) * 256 + d) # be_words bs"
| "be_words _ = []"

definition sha_block :: "sha_state \<Rightarrow> nat list \<Rightarrow> sha_state" where
  "sha_block st block = sha_add st (sha_rounds (zip sha_k (sha_extend 48 (rev (be_words block)))) st)"

fun sha_blocks :: "nat \<Rightarrow> sha_state \<Rightarrow> nat list \<Rightarrow> sha_state" where
  "sha_blocks 0 st bytes = st"
| "sha_blocks (Suc n) st bytes = sha_blocks n (sha_block st (take 64 bytes)) (drop 64 bytes)"

definition be64 :: "nat \<Rightarrow> nat list" where
  "be64 n = map (\<lambda>i. (n div 256 ^ i) mod 256) [7, 6, 5, 4, 3, 2, 1, 0]"

definition sha_pad :: "nat list \<Rightarrow> nat list" where
  "sha_pad bytes =
     bytes @ [0x80] @ replicate ((119 - length bytes mod 64) mod 64) 0 @ be64 (8 * length bytes)"

definition sha256_state :: "nat list \<Rightarrow> sha_state" where
  "sha256_state bytes = (let p = sha_pad bytes in sha_blocks (length p div 64) sha_init p)"

definition hex_digit :: "nat \<Rightarrow> char" where
  "hex_digit d = (if d < 10 then char_of (48 + d) else char_of (87 + d))"

definition hex_word :: "w32 \<Rightarrow> string" where
  "hex_word x = map (\<lambda>i. hex_digit (unat (drop_bit i x) mod 16)) [28, 24, 20, 16, 12, 8, 4, 0]"

fun hex_state :: "sha_state \<Rightarrow> string" where
  "hex_state (a, b, c, d, e, f, g, h) =
     hex_word a @ hex_word b @ hex_word c @ hex_word d @ hex_word e @ hex_word f @ hex_word g @ hex_word h"

text \<open>\<open>hashlib.sha256(content).hexdigest()\<close>\<close>

definition sha256_hex :: "string \<Rightarrow> string" where
  "sha256_hex content = hex_state (sha256_state (map code content))"

definition word_bytes :: "w32 \<Rightarrow> nat list" where
  "word_bytes x = map (\<lambda>i. unat (drop_bit i x) mod 256) [24, 16, 8, 0]"

fun state_bytes :: "sha_state \<Rightarrow> nat list" where
  "state_bytes (a, b, c, d, e, f, g, h) = concat (map word_bytes [a, b, c, d, e, f, g, h])"

text \<open>\<open>hmac.new(key, content, hashlib.sha256).hexdigest()\<close> for keys of at most 64 bytes\<close>

definition hmac_sha256_hex :: "string \<Rightarrow> string \<Rightarrow> string" where
  "hmac_sha256_hex key content =
     (let k = map code key @ replicate (64 - length key) 0;
          inner = state_bytes (sha256_state (map (\<lambda>b. b XOR 0x36) k @ map code content))
      in hex_state (sha256_state (map (\<lambda>b. b XOR 0x5c) k @ inner)))"

section \<open>The shape of a digest\<close>

lemma is_lower_hex_hex_digit: "d < 16 \<Longrightarrow> is_lower_hex (hex_digit d)"
  by (auto simp: hex_digit_def is_lower_hex_def is_digit_def code_def)

lemma hex_word_shape: "length (hex_word x) = 8 \<and> list_all is_lower_hex (hex_word x)"
  by (simp add: hex_word_def is_lower_hex_hex_digit)

lemma hex_state_shape: "length (hex_state st) = 64 \<and> list_all is_lower_hex (hex_state st)"
  by (cases st rule: hex_state.cases) (simp add: hex_word_shape)

lemma sha256_hex_length [simp]: "length (sha256_hex s) = 64"
  and sha256_hex_lower_hex [simp]: "list_all is_lower_hex (sha256_hex s)"
  by (simp_all add: sha256_hex_def hex_state_shape)

lemma hmac_hex_length [simp]: "length (hmac_sha256_hex k s) = 64"
  and hmac_hex_lower_hex [simp]: "list_all is_lower_hex (hmac_sha256_hex k s)"
  by (simp_all add: hmac_sha256_hex_def Let_def hex_state_shape)

end
