(* ===== verification/Validators.thy ===== *)
theory Validators
  imports Prelude Sha256
begin

text \<open>
  The scalar validators and the canonical JSON writer of \<open>ingestion.py\<close>.

  A Python \<open>str\<close> is modelled by its (generalised) UTF-8 bytes, a HOL \<open>string\<close>: the encoding is
  injective, keeps the order of code points and its length is the length \<open>value.encode("utf-8")\<close>
  has; a \<open>str\<close> the strict encoder refuses is one whose bytes hold an encoded surrogate.
  \<open>unicodedata.normalize("NFC", .)\<close> is the parameter \<open>nfc\<close> of every definition that uses it; the
  only documented fact about it that is ever assumed is \<open>nfc_ascii\<close>.
\<close>

section \<open>Bounds\<close>

definition MAX_RECORD_BYTES :: nat where "MAX_RECORD_BYTES = 256 * 1024"
definition MAX_DEPTH :: nat where "MAX_DEPTH = 16"
definition MAX_OBJECT_MEMBERS :: nat where "MAX_OBJECT_MEMBERS = 128"
definition MAX_ARRAY_ITEMS :: nat where "MAX_ARRAY_ITEMS = 64"
definition MAX_GENERAL_STRING_BYTES :: nat where "MAX_GENERAL_STRING_BYTES = 4096"
definition MAX_TOKEN_BYTES :: nat where "MAX_TOKEN_BYTES = 128"
definition MAX_STREAMS :: nat where "MAX_STREAMS = 32"
definition MAX_PRODUCERS :: nat where "MAX_PRODUCERS = 64"
definition MAX_I31 :: int where "MAX_I31 = 2 ^ 31 - 1"
definition MAX_U32 :: int where "MAX_U32 = 2 ^ 32 - 1"
definition MAX_U64 :: int where "MAX_U64 = 2 ^ 64 - 1"
definition MIN_I64 :: int where "MIN_I64 = - (2 ^ 63)"
definition MAX_I64 :: int where "MAX_I64 = 2 ^ 63 - 1"

lemmas bound_defs = MAX_I31_def MAX_U32_def MAX_U64_def MIN_I64_def MAX_I64_def

section \<open>The text patterns\<close>

definition is_sha256 :: "string \<Rightarrow> bool" where
  "is_sha256 s \<longleftrightarrow> length s = 64 \<and> list_all is_lower_hex s"

fun is_unsigned_decimal :: "string \<Rightarrow> bool" where
  "is_unsigned_decimal [] = False"
| "is_unsigned_decimal (c # s) =
     (c = CHR ''0'' \<and> s = [] \<or> is_digit c \<and> c \<noteq> CHR ''0'' \<and> list_all is_digit s)"

fun is_signed_decimal :: "string \<Rightarrow> bool" where
  "is_signed_decimal [] = False"
| "is_signed_decimal (c # s) =
     (if c = CHR ''-'' then is_unsigned_decimal s \<and> s \<noteq> ''0'' else is_unsigned_decimal (c # s))"

definition is_token_head :: "char \<Rightarrow> bool" where
  "is_token_head c \<longleftrightarrow> is_upper c \<or> is_lower c \<or> is_digit c"

definition is_token_tail :: "char \<Rightarrow> bool" where
  "is_token_tail c \<longleftrightarrow> is_token_head c \<or> c \<in> {CHR ''.'', CHR ''_'', CHR ''+'', CHR ''/'', CHR ''-''}"

fun is_token :: "string \<Rightarrow> bool" where
  "is_token [] = False"
| "is_token (c # s) = (is_token_head c \<and> list_all is_token_tail s)"

definition is_typed_id :: "string \<Rightarrow> string \<Rightarrow> bool" where
  "is_typed_id prefix s \<longleftrightarrow>
     take (length prefix + 1) s = prefix @ ''_'' \<and> is_sha256 (drop (length prefix + 1) s)"

text \<open>A lone surrogate: the bytes \<open>ED A0..BF xx\<close>, which strict UTF-8 never holds.\<close>

fun has_surrogate :: "string \<Rightarrow> bool" where
  "has_surrogate (a # b # s) = (code a = 0xED \<and> 0xA0 \<le> code b \<or> has_surrogate (b # s))"
| "has_surrogate _ = False"

section \<open>Checks on values of a known type\<close>

definition fail :: "string \<Rightarrow> string \<Rightarrow> exn" where
  "fail c path = RecordValidationError c path"

definition general_string_check :: "(string \<Rightarrow> string) \<Rightarrow> string \<Rightarrow> string \<Rightarrow> check" where
  "general_string_check nfc s path = run_checks
     [require (\<not> has_surrogate s) (fail ''invalid_unicode'' path),
      require (length s \<le> MAX_GENERAL_STRING_BYTES) (fail ''string_too_long'' path),
      require (nfc s = s) (fail ''string_not_nfc'' path)]"

definition token_check :: "(string \<Rightarrow> string) \<Rightarrow> string \<Rightarrow> string \<Rightarrow> string list option \<Rightarrow> check" where
  "token_check nfc s path allowed = run_checks
     [general_string_check nfc s path,
      require (list_all is_ascii s) (fail ''token_not_ascii'' path),
      require (length s \<le> MAX_TOKEN_BYTES \<and> is_token s) (fail ''invalid_token'' path),
      (case allowed of None \<Rightarrow> None
       | Some names \<Rightarrow> require (s \<in> set names) (fail ''unknown_enum'' path))]"

definition bounded_int_check :: "int \<Rightarrow> int \<Rightarrow> int \<Rightarrow> string \<Rightarrow> check" where
  "bounded_int_check i minimum maximum path =
     require (minimum \<le> i \<and> i \<le> maximum) (fail ''integer_out_of_range'' path)"

text \<open>
  \<open>int(decimal)\<close> itself raises only beyond 4300 digits, and a general string has at most 4096
  bytes, so the handler around it is never reached.
\<close>

definition decimal_check ::
  "(string \<Rightarrow> string) \<Rightarrow> string \<Rightarrow> bool \<Rightarrow> int \<Rightarrow> int \<Rightarrow> string \<Rightarrow> check" where
  "decimal_check nfc s is_signed minimum maximum path = run_checks
     [general_string_check nfc s path,
      require (if is_signed then is_signed_decimal s else is_unsigned_decimal s) (fail ''invalid_decimal'' path),
      require (minimum \<le> int_of_decimal s \<and> int_of_decimal s \<le> maximum) (fail ''decimal_out_of_range'' path)]"

definition sha256_check :: "(string \<Rightarrow> string) \<Rightarrow> string \<Rightarrow> string \<Rightarrow> check" where
  "sha256_check nfc s path = run_checks
     [general_string_check nfc s path, require (is_sha256 s) (fail ''invalid_sha256'' path)]"

definition typed_id_check :: "(string \<Rightarrow> string) \<Rightarrow> string \<Rightarrow> string \<Rightarrow> string \<Rightarrow> check" where
  "typed_id_check nfc s prefix path = run_checks
     [general_string_check nfc s path, require (is_typed_id prefix s) (fail ''invalid_identifier'' path)]"

section \<open>JSON values and their readers\<close>

text \<open>
  The values \<open>json.loads\<close> returns and \<open>json.dumps\<close> is given here; floats are refused while
  parsing.  A \<open>dict\<close> keeps its insertion order.
\<close>

datatype json =
    JNull
  | JBool bool
  | JInt int
  | JStr string
  | JArr "json list"
  | JObj "(string \<times> json) list"

fun as_mapping :: "json \<Rightarrow> string \<Rightarrow> (string \<times> json) list res" where
  "as_mapping (JObj kvs) path = Inr kvs"
| "as_mapping _ path = Inl (fail ''expected_object'' path)"

fun as_array :: "json \<Rightarrow> string \<Rightarrow> json list res" where
  "as_array (JArr js) path = Inr js"
| "as_array _ path = Inl (fail ''expected_array'' path)"

definition exact_fields ::
  "json \<Rightarrow> string list \<Rightarrow> string \<Rightarrow> string list \<Rightarrow> (string \<times> json) list res" where
  "exact_fields v required path optional =
     bindE (as_mapping v path) (\<lambda>mapping.
       let keys = map fst mapping
       in checked (run_checks
            [require (list_all (\<lambda>k. k \<in> set keys) required) (fail ''missing_field'' path),
             require (list_all (\<lambda>k. k \<in> set required \<or> k \<in> set optional) keys) (fail ''unknown_field'' path)])
            mapping)"

text \<open>
  \<open>mapping.get(key)\<close>, with Python's \<open>None\<close> for a missing key; also \<open>mapping[key]\<close> after
  \<open>exact_fields\<close>, which has made sure that the key is there.
\<close>

definition get :: "(string \<times> json) list \<Rightarrow> string \<Rightarrow> json" where
  "get kvs k = (case map_of kvs k of None \<Rightarrow> JNull | Some v \<Rightarrow> v)"

fun read_string :: "(string \<Rightarrow> string) \<Rightarrow> json \<Rightarrow> string \<Rightarrow> string res" where
  "read_string nfc (JStr s) path = checked (general_string_check nfc s path) s"
| "read_string nfc _ path = Inl (fail ''expected_string'' path)"

fun read_token :: "(string \<Rightarrow> string) \<Rightarrow> json \<Rightarrow> string \<Rightarrow> string list option \<Rightarrow> string res" where
  "read_token nfc (JStr s) path allowed = checked (token_check nfc s path allowed) s"
| "read_token nfc _ path allowed = Inl (fail ''expected_string'' path)"

fun read_int :: "json \<Rightarrow> int \<Rightarrow> int \<Rightarrow> string \<Rightarrow> int res" where
  "read_int (JInt i) minimum maximum path = checked (bounded_int_check i minimum maximum path) i"
| "read_int _ minimum maximum path = Inl (fail ''expected_integer'' path)"

fun read_bool :: "json \<Rightarrow> string \<Rightarrow> bool res" where
  "read_bool (JBool b) path = Inr b"
| "read_bool _ path = Inl (fail ''expected_boolean'' path)"

section \<open>Shape and canonical bytes\<close>

definition item_path :: "string \<Rightarrow> nat \<Rightarrow> string" where
  "item_path path i = path @ ''['' @ show_nat i @ '']''"

fun validate_shape :: "(string \<Rightarrow> string) \<Rightarrow> json \<Rightarrow> nat \<Rightarrow> string \<Rightarrow> check"
and validate_members :: "(string \<Rightarrow> string) \<Rightarrow> (string \<times> json) list \<Rightarrow> nat \<Rightarrow> string \<Rightarrow> check"
and validate_items :: "(string \<Rightarrow> string) \<Rightarrow> json list \<Rightarrow> nat \<Rightarrow> nat \<Rightarrow> string \<Rightarrow> check" where
  "validate_shape nfc v depth path =
     (if MAX_DEPTH < depth then Some (fail ''maximum_depth_exceeded'' path)
      else case v of
        JObj kvs \<Rightarrow>
          (if MAX_OBJECT_MEMBERS < length kvs then Some (fail ''too_many_object_members'' path)
           else validate_members nfc kvs depth path)
      | JArr js \<Rightarrow>
          (if MAX_ARRAY_ITEMS < length js then Some (fail ''too_many_array_items'' path)
           else validate_items nfc js 0 depth path)
      | JStr s \<Rightarrow> general_string_check nfc s path
      | _ \<Rightarrow> None)"
| "validate_members nfc [] depth path = None"
| "validate_members nfc ((k, v) # kvs) depth path = run_checks
     [general_string_check nfc k (path @ ''.<key>''),
      validate_shape nfc v (Suc depth) (path @ ''.<member>''),
      validate_members nfc kvs depth path]"
| "validate_items nfc [] i depth path = None"
| "validate_items nfc (v # vs) i depth path = run_checks
     [validate_shape nfc v (Suc depth) (item_path path i),
      validate_items nfc vs (Suc i) depth path]"

definition hex4 :: "nat \<Rightarrow> string" where
  "hex4 n = map (\<lambda>i. hex_digit (n div 16 ^ i mod 16)) [3, 2, 1, 0]"

definition escape_char :: "char \<Rightarrow> string" where
  "escape_char c =
     (if c = CHR 0x22 then [CHR 0x5C, CHR 0x22]
      else if c = CHR 0x5C then [CHR 0x5C, CHR 0x5C]
      else if code c = 10 then [CHR 0x5C, CHR ''n'']
      else if code c = 13 then [CHR 0x5C, CHR ''r'']
      else if code c = 9 then [CHR 0x5C, CHR ''t'']
      else if code c = 12 then [CHR 0x5C, CHR ''f'']
      else if code c = 8 then [CHR 0x5C, CHR ''b'']
      else if code c < 32 then [CHR 0x5C, CHR ''u''] @ hex4 (code c)
      else [c])"

definition quote :: "string \<Rightarrow> string" where
  "quote s = [CHR 0x22] @ concat (map escape_char s) @ [CHR 0x22]"

fun sort_json :: "json \<Rightarrow> json"
and sort_members :: "(string \<times> json) list \<Rightarrow> (string \<times> json) list"
and sort_items :: "json list \<Rightarrow> json list" where
  "sort_json (JObj kvs) = JObj (sort_key fst (sort_members kvs))"
| "sort_json (JArr js) = JArr (sort_items js)"
| "sort_json JNull = JNull"
| "sort_json (JBool b) = JBool b"
| "sort_json (JInt i) = JInt i"
| "sort_json (JStr s) = JStr s"
| "sort_members [] = []"
| "sort_members ((k, v) # kvs) = (k, sort_json v) # sort_members kvs"
| "sort_items [] = []"
| "sort_items (v # vs) = sort_json v # sort_items vs"

fun render :: "json \<Rightarrow> string"
and render_members :: "(string \<times> json) list \<Rightarrow> string"
and render_items :: "json list \<Rightarrow> string" where
  "render JNull = ''null''"
| "render (JBool b) = (if b then ''true'' else ''false'')"
| "render (JInt i) = show_int i"
| "render (JStr s) = quote s"
| "render (JArr js) = ''['' @ render_items js @ '']''"
| "render (JObj kvs) = ''{'' @ render_members kvs @ ''}''"
| "render_members [] = []"
| "render_members [(k, v)] = quote k @ '':'' @ render v"
| "render_members ((k, v) # kv # kvs) = quote k @ '':'' @ render v @ '','' @ render_members (kv # kvs)"
| "render_items [] = []"
| "render_items [v] = render v"
| "render_items (v # w # vs) = render v @ '','' @ render_items (w # vs)"

text \<open>
  \<open>json.dumps\<close> writes an integer with \<open>int.__repr__\<close>, which raises \<open>ValueError\<close> beyond 4300
  digits (\<open>canonicalization_failed\<close>); the other two exceptions it names cannot happen after
  \<open>validate_shape\<close>.
\<close>

fun printable :: "json \<Rightarrow> bool"
and printable_members :: "(string \<times> json) list \<Rightarrow> bool"
and printable_items :: "json list \<Rightarrow> bool" where
  "printable (JInt i) = (length (show_nat (nat \<bar>i\<bar>)) \<le> 4300)"
| "printable (JArr js) = printable_items js"
| "printable (JObj kvs) = printable_members kvs"
| "printable _ = True"
| "printable_members [] = True"
| "printable_members ((k, v) # kvs) = (printable v \<and> printable_members kvs)"
| "printable_items [] = True"
| "printable_items (v # vs) = (printable v \<and> printable_items vs)"

definition canonical_bytes :: "(string \<Rightarrow> string) \<Rightarrow> json \<Rightarrow> string res" where
  "canonical_bytes nfc v =
     (let encoded = render (sort_json v)
      in checked (run_checks
           [validate_shape nfc v 1 ''$'',
            require (printable v) (fail ''canonicalization_failed'' ''$''),
            require (length encoded \<le> MAX_RECORD_BYTES) (fail ''canonical_record_too_large'' ''$'')])
           encoded)"

definition mk_identifier :: "(string \<Rightarrow> string) \<Rightarrow> string \<Rightarrow> json \<Rightarrow> string res" where
  "mk_identifier nfc prefix projection =
     bindE (canonical_bytes nfc projection) (\<lambda>bytes. Inr (prefix @ ''_'' @ sha256_hex bytes))"

section \<open>What the checks accept\<close>

text \<open>The accepted strings do not depend on the path an error would carry.\<close>

definition general_ok :: "(string \<Rightarrow> string) \<Rightarrow> string \<Rightarrow> bool" where
  "general_ok nfc s \<longleftrightarrow> \<not> has_surrogate s \<and> length s \<le> MAX_GENERAL_STRING_BYTES \<and> nfc s = s"

text \<open>The documented behaviour of \<open>unicodedata.normalize\<close> on ASCII text.\<close>

definition nfc_ascii :: "(string \<Rightarrow> string) \<Rightarrow> bool" where
  "nfc_ascii nfc \<longleftrightarrow> (\<forall>s. list_all is_ascii s \<longrightarrow> nfc s = s)"

lemma general_string_check_None [outcome]: "general_string_check nfc s path = None \<longleftrightarrow> general_ok nfc s"
  by (auto simp: general_string_check_def general_ok_def)

lemma token_check_None [outcome]:
  "token_check nfc s path allowed = None \<longleftrightarrow>
     general_ok nfc s \<and> list_all is_ascii s \<and> length s \<le> MAX_TOKEN_BYTES \<and> is_token s \<and>
     pred_option (\<lambda>names. s \<in> set names) allowed"
  by (auto simp: token_check_def outcome split: option.splits)

lemma bounded_int_check_None [outcome]: "bounded_int_check i lo hi path = None \<longleftrightarrow> lo \<le> i \<and> i \<le> hi"
  by (simp add: bounded_int_check_def)

lemma decimal_check_None [outcome]:
  "decimal_check nfc s is_signed lo hi path = None \<longleftrightarrow>
     general_ok nfc s \<and> (if is_signed then is_signed_decimal s else is_unsigned_decimal s) \<and>
     lo \<le> int_of_decimal s \<and> int_of_decimal s \<le> hi"
  by (simp add: decimal_check_def outcome)

lemma sha256_check_None [outcome]:
  "sha256_check nfc s path = None \<longleftrightarrow> general_ok nfc s \<and> is_sha256 s"
  by (simp add: sha256_check_def outcome)

lemma typed_id_check_None [outcome]:
  "typed_id_check nfc s prefix path = None \<longleftrightarrow> general_ok nfc s \<and> is_typed_id prefix s"
  by (simp add: typed_id_check_def outcome)

lemma is_ascii_lower_hex: "is_lower_hex c \<Longrightarrow> is_ascii c"
  by (auto simp: is_lower_hex_def is_digit_def is_ascii_def)

lemma is_ascii_digit: "is_digit c \<Longrightarrow> is_ascii c"
  by (auto simp: is_digit_def is_ascii_def)

lemma ascii_no_surrogate: "list_all is_ascii s \<Longrightarrow> \<not> has_surrogate s"
  by (induction s rule: has_surrogate.induct) (auto simp: is_ascii_def)

lemma general_ok_ascii:
  "nfc_ascii nfc \<Longrightarrow> list_all is_ascii s \<Longrightarrow> length s \<le> MAX_GENERAL_STRING_BYTES \<Longrightarrow> general_ok nfc s"
  by (simp add: general_ok_def nfc_ascii_def ascii_no_surrogate)

lemma is_sha256_ascii: "is_sha256 s \<Longrightarrow> list_all is_ascii s"
  by (auto simp: is_sha256_def list_all_iff is_ascii_lower_hex)

lemma is_sha256_sha256_hex [simp]: "is_sha256 (sha256_hex s)"
  by (simp add: is_sha256_def)

lemma is_typed_id_hash [simp]: "is_typed_id prefix (prefix @ ''_'' @ sha256_hex s)"
  by (simp add: is_typed_id_def)

lemma general_ok_hash_id:
  "nfc_ascii nfc \<Longrightarrow> list_all is_ascii prefix \<Longrightarrow> length prefix \<le> 100 \<Longrightarrow>
   general_ok nfc (prefix @ ''_'' @ sha256_hex s)"
  by (rule general_ok_ascii)
    (simp_all add: MAX_GENERAL_STRING_BYTES_def is_sha256_ascii, simp add: is_ascii_def code_def)

lemma read_string_ok: "read_string nfc (JStr s) path = Inr s \<longleftrightarrow> general_ok nfc s"
  by (auto simp: outcome)

lemma read_string_simp [simp]: "general_ok nfc s \<Longrightarrow> read_string nfc (JStr s) path = Inr s"
  by (simp add: outcome)

lemma read_token_simp [simp]:
  "token_check nfc s path allowed = None \<Longrightarrow> read_token nfc (JStr s) path allowed = Inr s"
  by simp

lemma read_int_simp [simp]: "lo \<le> i \<Longrightarrow> i \<le> hi \<Longrightarrow> read_int (JInt i) lo hi path = Inr i"
  by (simp add: outcome)

lemma exact_fields_simp:
  "list_all (\<lambda>k. k \<in> set (map fst kvs)) required \<Longrightarrow>
   list_all (\<lambda>k. k \<in> set required \<or> k \<in> set optional) (map fst kvs) \<Longrightarrow>
   exact_fields (JObj kvs) required path optional = Inr kvs"
  by (simp add: exact_fields_def)

lemma get_Cons [simp]: "get ((k, v) # kvs) k' = (if k' = k then v else get kvs k')"
  by (simp add: get_def)

lemma get_Nil [simp]: "get [] k = JNull"
  by (simp add: get_def)

end
