(* ===== verification/Ingestion_Values.thy ===== *)
theory Ingestion_Values
  imports Validators
begin

text \<open>
  The value classes of \<open>ingestion.py\<close>: fingerprints, time bases, producers, exact media times,
  streams, rationals, boxes, the affine detector-to-source geometry and artifacts.  For a class
  \<open>X\<close> there is the record \<open>x\<close>, \<open>x_post\<close> (its \<open>__post_init__\<close>, the checks in the code's order),
  \<open>x_to_mapping\<close> and \<open>x_from_mapping\<close>.  Tests of a field's Python class are decided by the types of
  the record; a field that holds another validated object holds one that passed its own checks,
  which is what \<open>x_valid\<close> adds to \<open>x_post\<close>.
\<close>

section \<open>Fingerprint\<close>

record fingerprint =
  fp_digest :: string
  fp_bytes :: string
  fp_algorithm :: string

definition fingerprint_post :: "(string \<Rightarrow> string) \<Rightarrow> fingerprint \<Rightarrow> check" where
  "fingerprint_post nfc v = run_checks
     [token_check nfc (fp_algorithm v) ''fingerprint.algorithm'' (Some [''sha256'']),
      sha256_check nfc (fp_digest v) ''fingerprint.digest'',
      decimal_check nfc (fp_bytes v) False 0 MAX_U64 ''fingerprint.bytes'']"

definition fingerprint_to_mapping :: "fingerprint \<Rightarrow> json" where
  "fingerprint_to_mapping v = JObj
     [(''algorithm'', JStr (fp_algorithm v)), (''bytes'', JStr (fp_bytes v)), (''digest'', JStr (fp_digest v))]"

definition fingerprint_from_mapping :: "(string \<Rightarrow> string) \<Rightarrow> json \<Rightarrow> string \<Rightarrow> fingerprint res" where
  "fingerprint_from_mapping nfc value path =
     bindE (exact_fields value [''algorithm'', ''bytes'', ''digest''] path []) (\<lambda>item.
     bindE (read_token nfc (get item ''algorithm'') (path @ ''.algorithm'') None) (\<lambda>algorithm.
     bindE (read_string nfc (get item ''bytes'') (path @ ''.bytes'')) (\<lambda>bytes.
     bindE (read_string nfc (get item ''digest'') (path @ ''.digest'')) (\<lambda>digest.
     let v = \<lparr>fp_digest = digest, fp_bytes = bytes, fp_algorithm = algorithm\<rparr>
     in checked (fingerprint_post nfc v) v))))"

section \<open>TimeBase\<close>

record time_base =
  tb_numerator :: string
  tb_denominator :: string

definition time_base_post :: "(string \<Rightarrow> string) \<Rightarrow> time_base \<Rightarrow> check" where
  "time_base_post nfc v = run_checks
     [decimal_check nfc (tb_numerator v) False 1 MAX_U32 ''time_base.numerator'',
      decimal_check nfc (tb_denominator v) False 1 MAX_U32 ''time_base.denominator'']"

definition time_base_to_mapping :: "time_base \<Rightarrow> json" where
  "time_base_to_mapping v = JObj
     [(''denominator'', JStr (tb_denominator v)), (''numerator'', JStr (tb_numerator v))]"

definition time_base_from_mapping :: "(string \<Rightarrow> string) \<Rightarrow> json \<Rightarrow> string \<Rightarrow> time_base res" where
  "time_base_from_mapping nfc value path =
     bindE (exact_fields value [''denominator'', ''numerator''] path []) (\<lambda>item.
     bindE (read_string nfc (get item ''numerator'') (path @ ''.numerator'')) (\<lambda>numerator.
     bindE (read_string nfc (get item ''denominator'') (path @ ''.denominator'')) (\<lambda>denominator.
     let v = \<lparr>tb_numerator = numerator, tb_denominator = denominator\<rparr>
     in checked (time_base_post nfc v) v)))"

section \<open>Producer\<close>

record producer =
  pr_name :: string
  pr_version :: string
  pr_configuration_sha256 :: string

definition producer_post :: "(string \<Rightarrow> string) \<Rightarrow> producer \<Rightarrow> check" where
  "producer_post nfc v = run_checks
     [token_check nfc (pr_name v) ''producer.name'' None,
      token_check nfc (pr_version v) ''producer.version'' None,
      sha256_check nfc (pr_configuration_sha256 v) ''producer.configuration_sha256'']"

definition producer_to_mapping :: "producer \<Rightarrow> json" where
  "producer_to_mapping v = JObj
     [(''configuration_sha256'', JStr (pr_configuration_sha256 v)),
      (''name'', JStr (pr_name v)),
      (''version'', JStr (pr_version v))]"

definition producer_from_mapping :: "(string \<Rightarrow> string) \<Rightarrow> json \<Rightarrow> string \<Rightarrow> producer res" where
  "producer_from_mapping nfc value path =
     bindE (exact_fields value [''configuration_sha256'', ''name'', ''version''] path []) (\<lambda>item.
     bindE (read_token nfc (get item ''name'') (path @ ''.name'') None) (\<lambda>name.
     bindE (read_token nfc (get item ''version'') (path @ ''.version'') None) (\<lambda>version.
     bindE (read_string nfc (get item ''configuration_sha256'') (path @ ''.configuration_sha256'')) (\<lambda>digest.
     let v = \<lparr>pr_name = name, pr_version = version, pr_configuration_sha256 = digest\<rparr>
     in checked (producer_post nfc v) v))))"

section \<open>MediaTime\<close>

record media_time =
  mt_value :: string
  mt_time_base :: time_base
  mt_basis :: string
  mt_estimate_method :: "string option"
  mt_estimate_producer :: "producer option"

definition media_time_post :: "(string \<Rightarrow> string) \<Rightarrow> media_time \<Rightarrow> check" where
  "media_time_post nfc v = run_checks
     [token_check nfc (mt_basis v) ''media_time.basis'' (Some [''measured'', ''estimated'']),
      decimal_check nfc (mt_value v) True MIN_I64 MAX_I64 ''media_time.value'',
      (if mt_basis v = ''measured''
       then require (mt_estimate_method v = None \<and> mt_estimate_producer v = None)
              (fail ''estimate_forbidden'' ''media_time.estimate'')
       else case (mt_estimate_method v, mt_estimate_producer v) of
         (Some method, Some _) \<Rightarrow>
           token_check nfc method ''media_time.estimate.method'' (Some [''previous_pts_plus_duration''])
       | _ \<Rightarrow> Some (fail ''estimate_required'' ''media_time.estimate''))]"

definition media_time_valid :: "(string \<Rightarrow> string) \<Rightarrow> media_time \<Rightarrow> bool" where
  "media_time_valid nfc v \<longleftrightarrow>
     time_base_post nfc (mt_time_base v) = None \<and>
     pred_option (\<lambda>p. producer_post nfc p = None) (mt_estimate_producer v) \<and>
     media_time_post nfc v = None"

text \<open>
  The \<open>estimate_required\<close> guard of \<open>to_mapping\<close> repeats one of \<open>__post_init__\<close>; an estimated time
  without its estimate is never constructed, and its image below leaves the member out.
\<close>

definition media_time_to_mapping :: "media_time \<Rightarrow> json" where
  "media_time_to_mapping v = JObj
     ([(''basis'', JStr (mt_basis v)),
       (''time_base'', time_base_to_mapping (mt_time_base v)),
       (''value'', JStr (mt_value v))] @
      (if mt_basis v = ''estimated''
       then case (mt_estimate_method v, mt_estimate_producer v) of
         (Some method, Some p) \<Rightarrow>
           [(''estimate'', JObj [(''method'', JStr method), (''producer'', producer_to_mapping p)])]
       | _ \<Rightarrow> []
       else []))"

definition media_time_from_mapping :: "(string \<Rightarrow> string) \<Rightarrow> json \<Rightarrow> string \<Rightarrow> media_time res" where
  "media_time_from_mapping nfc value path =
     bindE (as_mapping value path) (\<lambda>base.
     bindE (read_token nfc (get base ''basis'') (path @ ''.basis'') (Some [''measured'', ''estimated''])) (\<lambda>basis.
     bindE (exact_fields value
        ([''basis'', ''time_base'', ''value''] @ (if basis = ''estimated'' then [''estimate''] else [])) path []) (\<lambda>item.
     bindE (if basis = ''estimated'' then
         bindE (exact_fields (get item ''estimate'') [''method'', ''producer''] (path @ ''.estimate'') []) (\<lambda>estimate.
         bindE (read_token nfc (get estimate ''method'') (path @ ''.estimate.method'') None) (\<lambda>method.
         bindE (producer_from_mapping nfc (get estimate ''producer'') (path @ ''.estimate.producer'')) (\<lambda>p.
         Inr (Some method, Some p))))
       else Inr (None, None)) (\<lambda>(estimate_method, estimate_producer).
     bindE (read_string nfc (get item ''value'') (path @ ''.value'')) (\<lambda>val.
     bindE (time_base_from_mapping nfc (get item ''time_base'') (path @ ''.time_base'')) (\<lambda>tb.
     let v = \<lparr>mt_value = val, mt_time_base = tb, mt_basis = basis,
              mt_estimate_method = estimate_method, mt_estimate_producer = estimate_producer\<rparr>
     in checked (media_time_post nfc v) v))))))"

definition compare_media_time :: "media_time \<Rightarrow> media_time \<Rightarrow> int" where
  "compare_media_time left right =
     (let left_value = int_of_decimal (mt_value left) * int_of_decimal (tb_numerator (mt_time_base left))
                       * int_of_decimal (tb_denominator (mt_time_base right));
          right_value = int_of_decimal (mt_value right) * int_of_decimal (tb_numerator (mt_time_base right))
                        * int_of_decimal (tb_denominator (mt_time_base left))
      in of_bool (right_value < left_value) - of_bool (left_value < right_value))"

section \<open>SourceStream\<close>

record source_stream =
  ss_stream_index :: int
  ss_width :: int
  ss_height :: int
  ss_rotation_degrees :: int
  ss_time_base :: time_base
  ss_media_type :: string

definition source_stream_post :: "(string \<Rightarrow> string) \<Rightarrow> source_stream \<Rightarrow> check" where
  "source_stream_post nfc v = run_checks
     [bounded_int_check (ss_stream_index v) 0 MAX_I31 ''stream.stream_index'',
      bounded_int_check (ss_width v) 1 MAX_I31 ''stream.width'',
      bounded_int_check (ss_height v) 1 MAX_I31 ''stream.height'',
      bounded_int_check (ss_rotation_degrees v) (- MAX_I31) MAX_I31 ''stream.rotation_degrees'',
      token_check nfc (ss_media_type v) ''stream.media_type'' (Some [''video''])]"

definition source_stream_valid :: "(string \<Rightarrow> string) \<Rightarrow> source_stream \<Rightarrow> bool" where
  "source_stream_valid nfc v \<longleftrightarrow>
     time_base_post nfc (ss_time_base v) = None \<and> source_stream_post nfc v = None"

definition source_stream_to_mapping :: "source_stream \<Rightarrow> json" where
  "source_stream_to_mapping v = JObj
     [(''height'', JInt (ss_height v)),
      (''media_type'', JStr (ss_media_type v)),
      (''rotation_degrees'', JInt (ss_rotation_degrees v)),
      (''stream_index'', JInt (ss_stream_index v)),
      (''time_base'', time_base_to_mapping (ss_time_base v)),
      (''width'', JInt (ss_width v))]"

definition source_stream_from_mapping :: "(string \<Rightarrow> string) \<Rightarrow> json \<Rightarrow> string \<Rightarrow> source_stream res" where
  "source_stream_from_mapping nfc value path =
     bindE (exact_fields value
        [''height'', ''media_type'', ''rotation_degrees'', ''stream_index'', ''time_base'', ''width''] path []) (\<lambda>item.
     bindE (read_int (get item ''stream_index'') 0 MAX_I31 (path @ ''.stream_index'')) (\<lambda>stream_index.
     bindE (read_int (get item ''width'') 1 MAX_I31 (path @ ''.width'')) (\<lambda>width.
     bindE (read_int (get item ''height'') 1 MAX_I31 (path @ ''.height'')) (\<lambda>height.
     bindE (read_int (get item ''rotation_degrees'') (- MAX_I31) MAX_I31 (path @ ''.rotation_degrees'')) (\<lambda>rotation.
     bindE (time_base_from_mapping nfc (get item ''time_base'') (path @ ''.time_base'')) (\<lambda>tb.
     bindE (read_token nfc (get item ''media_type'') (path @ ''.media_type'') None) (\<lambda>media_type.
     let v = \<lparr>ss_stream_index = stream_index, ss_width = width, ss_height = height,
              ss_rotation_degrees = rotation, ss_time_base = tb, ss_media_type = media_type\<rparr>
     in checked (source_stream_post nfc v) v)))))))"

section \<open>Rational and affine coefficients\<close>

record rational =
  ra_numerator :: string
  ra_denominator :: string

definition rational_post :: "(string \<Rightarrow> string) \<Rightarrow> rational \<Rightarrow> check" where
  "rational_post nfc v = run_checks
     [decimal_check nfc (ra_numerator v) True MIN_I64 MAX_I64 ''rational.numerator'',
      decimal_check nfc (ra_denominator v) False 1 MAX_U32 ''rational.denominator'']"

definition rational_to_mapping :: "rational \<Rightarrow> json" where
  "rational_to_mapping v = JObj
     [(''denominator'', JStr (ra_denominator v)), (''numerator'', JStr (ra_numerator v))]"

definition rational_from_mapping :: "(string \<Rightarrow> string) \<Rightarrow> json \<Rightarrow> string \<Rightarrow> rational res" where
  "rational_from_mapping nfc value path =
     bindE (exact_fields value [''denominator'', ''numerator''] path []) (\<lambda>item.
     bindE (read_string nfc (get item ''numerator'') (path @ ''.numerator'')) (\<lambda>numerator.
     bindE (read_string nfc (get item ''denominator'') (path @ ''.denominator'')) (\<lambda>denominator.
     let v = \<lparr>ra_numerator = numerator, ra_denominator = denominator\<rparr>
     in checked (rational_post nfc v) v)))"

text \<open>\<open>Fraction(int(numerator), int(denominator))\<close>; the denominator is at least 1.\<close>

definition fraction :: "rational \<Rightarrow> rat" where
  "fraction v = of_int (int_of_decimal (ra_numerator v)) / of_int (int_of_decimal (ra_denominator v))"

record affine_coefficients =
  ac_a :: rational
  ac_b :: rational
  ac_c :: rational
  ac_d :: rational
  ac_e :: rational
  ac_f :: rational

definition affine_coefficients_valid :: "(string \<Rightarrow> string) \<Rightarrow> affine_coefficients \<Rightarrow> bool" where
  "affine_coefficients_valid nfc v \<longleftrightarrow>
     list_all (\<lambda>r. rational_post nfc r = None) [ac_a v, ac_b v, ac_c v, ac_d v, ac_e v, ac_f v]"

definition affine_coefficients_to_mapping :: "affine_coefficients \<Rightarrow> json" where
  "affine_coefficients_to_mapping v = JObj
     [(''a'', rational_to_mapping (ac_a v)), (''b'', rational_to_mapping (ac_b v)),
      (''c'', rational_to_mapping (ac_c v)), (''d'', rational_to_mapping (ac_d v)),
      (''e'', rational_to_mapping (ac_e v)), (''f'', rational_to_mapping (ac_f v))]"

definition affine_coefficients_from_mapping ::
  "(string \<Rightarrow> string) \<Rightarrow> json \<Rightarrow> string \<Rightarrow> affine_coefficients res" where
  "affine_coefficients_from_mapping nfc value path =
     bindE (exact_fields value [''a'', ''b'', ''c'', ''d'', ''e'', ''f''] path []) (\<lambda>item.
     bindE (rational_from_mapping nfc (get item ''a'') (path @ ''.a'')) (\<lambda>a.
     bindE (rational_from_mapping nfc (get item ''b'') (path @ ''.b'')) (\<lambda>b.
     bindE (rational_from_mapping nfc (get item ''c'') (path @ ''.c'')) (\<lambda>c.
     bindE (rational_from_mapping nfc (get item ''d'') (path @ ''.d'')) (\<lambda>d.
     bindE (rational_from_mapping nfc (get item ''e'') (path @ ''.e'')) (\<lambda>e.
     bindE (rational_from_mapping nfc (get item ''f'') (path @ ''.f'')) (\<lambda>f.
     Inr \<lparr>ac_a = a, ac_b = b, ac_c = c, ac_d = d, ac_e = e, ac_f = f\<rparr>)))))))"

section \<open>Boxes and ProducerSpace\<close>

text \<open>\<open>(x_min, y_min, x_max, y_max)\<close>, half open\<close>

type_synonym box = "int \<times> int \<times> int \<times> int"

fun validate_box :: "box \<Rightarrow> int \<Rightarrow> int \<Rightarrow> string \<Rightarrow> check" where
  "validate_box (x_min, y_min, x_max, y_max) width height path = run_checks
     [bounded_int_check x_min 0 MAX_I31 (item_path path 0),
      bounded_int_check y_min 0 MAX_I31 (item_path path 1),
      bounded_int_check x_max 0 MAX_I31 (item_path path 2),
      bounded_int_check y_max 0 MAX_I31 (item_path path 3),
      require (x_min < x_max \<and> x_max \<le> width \<and> y_min < y_max \<and> y_max \<le> height)
        (fail ''box_out_of_bounds'' path)]"

definition box_ok :: "box \<Rightarrow> int \<Rightarrow> int \<Rightarrow> bool" where
  "box_ok b width height = (case b of (x_min, y_min, x_max, y_max) \<Rightarrow>
     0 \<le> x_min \<and> x_min < x_max \<and> x_max \<le> width \<and> x_max \<le> MAX_I31 \<and>
     0 \<le> y_min \<and> y_min < y_max \<and> y_max \<le> height \<and> y_max \<le> MAX_I31)"

lemma validate_box_None [outcome]: "validate_box b width height path = None \<longleftrightarrow> box_ok b width height"
  by (cases b) (auto simp: box_ok_def outcome)

fun box_to_json :: "box \<Rightarrow> json" where
  "box_to_json (x_min, y_min, x_max, y_max) = JArr [JInt x_min, JInt y_min, JInt x_max, JInt y_max]"

definition parse_box :: "json \<Rightarrow> int \<Rightarrow> int \<Rightarrow> string \<Rightarrow> box res" where
  "parse_box value width height path =
     bindE (as_array value path) (\<lambda>items.
       case items of
         [i0, i1, i2, i3] \<Rightarrow>
           bindE (read_int i0 0 MAX_I31 (item_path path 0)) (\<lambda>x_min.
           bindE (read_int i1 0 MAX_I31 (item_path path 1)) (\<lambda>y_min.
           bindE (read_int i2 0 MAX_I31 (item_path path 2)) (\<lambda>x_max.
           bindE (read_int i3 0 MAX_I31 (item_path path 3)) (\<lambda>y_max.
           checked (validate_box (x_min, y_min, x_max, y_max) width height path) (x_min, y_min, x_max, y_max)))))
       | _ \<Rightarrow> Inl (fail ''invalid_box'' path))"

record producer_space =
  ps_width :: int
  ps_height :: int
  ps_box_xyxy :: box

definition producer_space_post :: "producer_space \<Rightarrow> check" where
  "producer_space_post v = run_checks
     [bounded_int_check (ps_width v) 1 MAX_I31 ''producer_space.width'',
      bounded_int_check (ps_height v) 1 MAX_I31 ''producer_space.height'',
      validate_box (ps_box_xyxy v) (ps_width v) (ps_height v) ''producer_space.box_xyxy'']"

definition producer_space_to_mapping :: "producer_space \<Rightarrow> json" where
  "producer_space_to_mapping v = JObj
     [(''box_xyxy'', box_to_json (ps_box_xyxy v)), (''height'', JInt (ps_height v)), (''width'', JInt (ps_width v))]"

definition producer_space_from_mapping :: "json \<Rightarrow> string \<Rightarrow> producer_space res" where
  "producer_space_from_mapping value path =
     bindE (exact_fields value [''box_xyxy'', ''height'', ''width''] path []) (\<lambda>item.
     bindE (read_int (get item ''width'') 1 MAX_I31 (path @ ''.width'')) (\<lambda>width.
     bindE (read_int (get item ''height'') 1 MAX_I31 (path @ ''.height'')) (\<lambda>height.
     bindE (parse_box (get item ''box_xyxy'') width height (path @ ''.box_xyxy'')) (\<lambda>box.
     let v = \<lparr>ps_width = width, ps_height = height, ps_box_xyxy = box\<rparr>
     in checked (producer_space_post v) v))))"

section \<open>Geometry\<close>

record geometry =
  ge_source_width :: int
  ge_source_height :: int
  ge_box_xyxy :: box
  ge_measurement :: string
  ge_transform_kind :: string
  ge_producer_space :: "producer_space option"
  ge_coefficients :: "affine_coefficients option"
  ge_space :: string

definition measurements :: "string list" where
  "measurements = [''measured'', ''calibrated'', ''estimated'', ''inferred'', ''unknown'']"

text \<open>The four corners of a box under the affine map, then outward rounding and clamping.\<close>

definition min4 :: "rat \<Rightarrow> rat \<Rightarrow> rat \<Rightarrow> rat \<Rightarrow> rat" where
  "min4 p q r s = min (min p q) (min r s)"

definition max4 :: "rat \<Rightarrow> rat \<Rightarrow> rat \<Rightarrow> rat \<Rightarrow> rat" where
  "max4 p q r s = max (max p q) (max r s)"

definition clamp_to :: "int \<Rightarrow> int \<Rightarrow> int" where
  "clamp_to limit v = max 0 (min limit v)"

definition affine_x :: "affine_coefficients \<Rightarrow> rat \<Rightarrow> rat \<Rightarrow> rat" where
  "affine_x k x y = fraction (ac_a k) * x + fraction (ac_b k) * y + fraction (ac_c k)"

definition affine_y :: "affine_coefficients \<Rightarrow> rat \<Rightarrow> rat \<Rightarrow> rat" where
  "affine_y k x y = fraction (ac_d k) * x + fraction (ac_e k) * y + fraction (ac_f k)"

fun transformed_box :: "box \<Rightarrow> affine_coefficients \<Rightarrow> int \<Rightarrow> int \<Rightarrow> box" where
  "transformed_box (x_min, y_min, x_max, y_max) k source_width source_height =
     (let x0 = of_int x_min; y0 = of_int y_min; x1 = of_int x_max; y1 = of_int y_max
      in (clamp_to source_width \<lfloor>min4 (affine_x k x0 y0) (affine_x k x0 y1) (affine_x k x1 y0) (affine_x k x1 y1)\<rfloor>,
          clamp_to source_height \<lfloor>min4 (affine_y k x0 y0) (affine_y k x0 y1) (affine_y k x1 y0) (affine_y k x1 y1)\<rfloor>,
          clamp_to source_width \<lceil>max4 (affine_x k x0 y0) (affine_x k x0 y1) (affine_x k x1 y0) (affine_x k x1 y1)\<rceil>,
          clamp_to source_height \<lceil>max4 (affine_y k x0 y0) (affine_y k x0 y1) (affine_y k x1 y0) (affine_y k x1 y1)\<rceil>))"

definition geometry_post :: "(string \<Rightarrow> string) \<Rightarrow> geometry \<Rightarrow> check" where
  "geometry_post nfc v = run_checks
     [token_check nfc (ge_space v) ''geometry.space'' (Some [''source_pixels'']),
      bounded_int_check (ge_source_width v) 1 MAX_I31 ''geometry.source_width'',
      bounded_int_check (ge_source_height v) 1 MAX_I31 ''geometry.source_height'',
      validate_box (ge_box_xyxy v) (ge_source_width v) (ge_source_height v) ''geometry.box_xyxy'',
      token_check nfc (ge_measurement v) ''geometry.measurement'' (Some measurements),
      token_check nfc (ge_transform_kind v) ''geometry.transform_to_source.kind''
        (Some [''identity'', ''affine_rational'']),
      (if ge_transform_kind v = ''identity''
       then require (ge_producer_space v = None \<and> ge_coefficients v = None)
              (fail ''identity_transform_has_producer_space'' ''geometry'')
       else case (ge_producer_space v, ge_coefficients v) of
         (Some space, Some k) \<Rightarrow>
           require (transformed_box (ps_box_xyxy space) k (ge_source_width v) (ge_source_height v) = ge_box_xyxy v)
             (fail ''affine_box_mismatch'' ''geometry.box_xyxy'')
       | _ \<Rightarrow> Some (fail ''affine_transform_missing_producer_space'' ''geometry''))]"

definition geometry_valid :: "(string \<Rightarrow> string) \<Rightarrow> geometry \<Rightarrow> bool" where
  "geometry_valid nfc v \<longleftrightarrow>
     pred_option (\<lambda>s. producer_space_post s = None) (ge_producer_space v) \<and>
     pred_option (affine_coefficients_valid nfc) (ge_coefficients v) \<and>
     geometry_post nfc v = None"

text \<open>As for a media time, the guard of the affine branch repeats one of \<open>__post_init__\<close>.\<close>

definition geometry_to_mapping :: "geometry \<Rightarrow> json" where
  "geometry_to_mapping v = JObj
     ([(''box_xyxy'', box_to_json (ge_box_xyxy v)),
       (''measurement'', JStr (ge_measurement v)),
       (''source_height'', JInt (ge_source_height v)),
       (''source_width'', JInt (ge_source_width v)),
       (''space'', JStr (ge_space v))] @
      (if ge_transform_kind v = ''identity''
       then [(''transform_to_source'', JObj [(''kind'', JStr ''identity'')])]
       else case (ge_producer_space v, ge_coefficients v) of
         (Some space, Some k) \<Rightarrow>
           [(''producer_space'', producer_space_to_mapping space),
            (''transform_to_source'', JObj
               [(''coefficients'', affine_coefficients_to_mapping k), (''kind'', JStr ''affine_rational'')])]
       | _ \<Rightarrow> []))"

definition geometry_from_mapping :: "(string \<Rightarrow> string) \<Rightarrow> json \<Rightarrow> string \<Rightarrow> geometry res" where
  "geometry_from_mapping nfc value path =
     bindE (as_mapping value path) (\<lambda>base.
     bindE (as_mapping (get base ''transform_to_source'') (path @ ''.transform_to_source'')) (\<lambda>transform0.
     bindE (read_token nfc (get transform0 ''kind'') (path @ ''.transform_to_source.kind'')
              (Some [''identity'', ''affine_rational''])) (\<lambda>kind.
     let affine = (kind = ''affine_rational'') in
     bindE (exact_fields (get base ''transform_to_source'')
              (if affine then [''coefficients'', ''kind''] else [''kind''])
              (path @ ''.transform_to_source'') []) (\<lambda>transform.
     bindE (exact_fields value
              ([''box_xyxy'', ''measurement'', ''source_height'', ''source_width'', ''space'', ''transform_to_source''] @
               (if affine then [''producer_space''] else [])) path []) (\<lambda>item.
     bindE (read_int (get item ''source_width'') 1 MAX_I31 (path @ ''.source_width'')) (\<lambda>width.
     bindE (read_int (get item ''source_height'') 1 MAX_I31 (path @ ''.source_height'')) (\<lambda>height.
     bindE (parse_box (get item ''box_xyxy'') width height (path @ ''.box_xyxy'')) (\<lambda>box.
     bindE (read_token nfc (get item ''measurement'') (path @ ''.measurement'') None) (\<lambda>measurement.
     bindE (if affine
            then bindE (producer_space_from_mapping (get item ''producer_space'') (path @ ''.producer_space''))
                   (\<lambda>s. Inr (Some s))
            else Inr None) (\<lambda>space_of_producer.
     bindE (if affine
            then bindE (affine_coefficients_from_mapping nfc (get transform ''coefficients'')
                          (path @ ''.transform_to_source.coefficients'')) (\<lambda>k. Inr (Some k))
            else Inr None) (\<lambda>coefficients.
     bindE (read_token nfc (get item ''space'') (path @ ''.space'') None) (\<lambda>space.
     let v = \<lparr>ge_source_width = width, ge_source_height = height, ge_box_xyxy = box,
              ge_measurement = measurement, ge_transform_kind = kind,
              ge_producer_space = space_of_producer, ge_coefficients = coefficients, ge_space = space\<rparr>
     in checked (geometry_post nfc v) v))))))))))))"

section \<open>Artifact\<close>

record artifact =
  ar_sha256 :: string
  ar_bytes :: string
  ar_media_type :: string

definition RGB24_MEDIA_TYPE :: string where
  "RGB24_MEDIA_TYPE = ''application/vnd.visualworld.rgb24''"

definition artifact_post :: "(string \<Rightarrow> string) \<Rightarrow> artifact \<Rightarrow> check" where
  "artifact_post nfc v = run_checks
     [sha256_check nfc (ar_sha256 v) ''artifact.sha256'',
      decimal_check nfc (ar_bytes v) False 0 MAX_U64 ''artifact.bytes'',
      token_check nfc (ar_media_type v) ''artifact.media_type'' (Some [RGB24_MEDIA_TYPE])]"

definition artifact_to_mapping :: "artifact \<Rightarrow> json" where
  "artifact_to_mapping v = JObj
     [(''bytes'', JStr (ar_bytes v)), (''media_type'', JStr (ar_media_type v)), (''sha256'', JStr (ar_sha256 v))]"

definition artifact_from_mapping :: "(string \<Rightarrow> string) \<Rightarrow> json \<Rightarrow> string \<Rightarrow> artifact res" where
  "artifact_from_mapping nfc value path =
     bindE (exact_fields value [''bytes'', ''media_type'', ''sha256''] path []) (\<lambda>item.
     bindE (read_string nfc (get item ''sha256'') (path @ ''.sha256'')) (\<lambda>digest.
     bindE (read_string nfc (get item ''bytes'') (path @ ''.bytes'')) (\<lambda>bytes.
     bindE (read_token nfc (get item ''media_type'') (path @ ''.media_type'') None) (\<lambda>media_type.
     let v = \<lparr>ar_sha256 = digest, ar_bytes = bytes, ar_media_type = media_type\<rparr>
     in checked (artifact_post nfc v) v))))"

end
