(* ===== verification/Ingestion.thy ===== *)
theory Ingestion
  imports Ingestion_Values
begin

text \<open>
  The four version-1 ingestion records of \<open>ingestion.py\<close> (source, frame reference, evidence
  reference, run manifest), their content-derived identifiers, their mappings and the two
  serialisers \<open>dumps_record\<close> and \<open>identity_bytes\<close>.
\<close>

section \<open>Fields common to all records\<close>

definition record_fields ::
  "(string \<Rightarrow> string) \<Rightarrow> json \<Rightarrow> string list \<Rightarrow> string \<Rightarrow> string list \<Rightarrow> (string \<times> json) list res" where
  "record_fields nfc value body expected_schema optional =
     bindE (exact_fields value ([''identity_version'', ''schema'', ''schema_version''] @ body) ''$'' optional) (\<lambda>item.
     bindE (read_token nfc (get item ''schema'') ''schema'' None) (\<lambda>schema.
     bindE (checked (require (schema = expected_schema) (fail ''schema_mismatch'' ''schema'')) ()) (\<lambda>_.
     bindE (read_int (get item ''schema_version'') 1 MAX_I31 ''schema_version'') (\<lambda>schema_version.
     bindE (checked (require (schema_version = 1) (fail ''unknown_schema_version'' ''schema_version'')) ()) (\<lambda>_.
     bindE (read_int (get item ''identity_version'') 1 MAX_I31 ''identity_version'') (\<lambda>identity_version.
     bindE (checked (require (identity_version = 1) (fail ''unknown_identity_version'' ''identity_version'')) ()) (\<lambda>_.
     Inr item)))))))"

text \<open>\<open>if self.x_id != _identifier(...): _fail("identifier_mismatch", ...)\<close>\<close>

definition identifier_check :: "string res \<Rightarrow> string \<Rightarrow> string \<Rightarrow> check" where
  "identifier_check expected actual path =
     (case expected of Inl e \<Rightarrow> Some e
      | Inr i \<Rightarrow> require (actual = i) (fail ''identifier_mismatch'' path))"

section \<open>Source\<close>

record source =
  so_source_id :: string
  so_fingerprint :: fingerprint
  so_streams :: "source_stream list"

definition source_identity :: "fingerprint \<Rightarrow> json" where
  "source_identity fingerprint = JObj
     [(''fingerprint'', fingerprint_to_mapping fingerprint), (''identity_version'', JInt 1)]"

definition source_post :: "(string \<Rightarrow> string) \<Rightarrow> source \<Rightarrow> check" where
  "source_post nfc v = run_checks
     [typed_id_check nfc (so_source_id v) ''src'' ''source_id'',
      require (length (so_streams v) \<le> MAX_STREAMS) (fail ''too_many_streams'' ''streams''),
      require (distinct (map ss_stream_index (so_streams v))) (fail ''duplicate_stream_index'' ''streams''),
      identifier_check (mk_identifier nfc ''src'' (source_identity (so_fingerprint v))) (so_source_id v) ''source_id'']"

definition source_valid :: "(string \<Rightarrow> string) \<Rightarrow> source \<Rightarrow> bool" where
  "source_valid nfc v \<longleftrightarrow>
     fingerprint_post nfc (so_fingerprint v) = None \<and>
     list_all (source_stream_valid nfc) (so_streams v) \<and>
     source_post nfc v = None"

definition source_create :: "(string \<Rightarrow> string) \<Rightarrow> fingerprint \<Rightarrow> source_stream list \<Rightarrow> source res" where
  "source_create nfc fingerprint streams =
     bindE (mk_identifier nfc ''src'' (source_identity fingerprint)) (\<lambda>source_id.
     let v = \<lparr>so_source_id = source_id, so_fingerprint = fingerprint, so_streams = streams\<rparr>
     in checked (source_post nfc v) v)"

definition source_schema :: string where "source_schema = ''visualworld.source''"

definition source_to_mapping :: "source \<Rightarrow> json" where
  "source_to_mapping v = JObj
     [(''access'', JObj [(''classification'', JStr ''private''), (''retention'', JStr ''source_controlled'')]),
      (''fingerprint'', fingerprint_to_mapping (so_fingerprint v)),
      (''identity_version'', JInt 1),
      (''origin'', JObj [(''kind'', JStr ''local_file''), (''locator_stored'', JBool False)]),
      (''schema'', JStr source_schema),
      (''schema_version'', JInt 1),
      (''source_id'', JStr (so_source_id v)),
      (''streams'', JArr (map source_stream_to_mapping (so_streams v)))]"

definition source_from_mapping :: "(string \<Rightarrow> string) \<Rightarrow> json \<Rightarrow> source res" where
  "source_from_mapping nfc value =
     bindE (record_fields nfc value [''access'', ''fingerprint'', ''origin'', ''source_id'', ''streams'']
              source_schema []) (\<lambda>item.
     bindE (exact_fields (get item ''origin'') [''kind'', ''locator_stored''] ''origin'' []) (\<lambda>origin.
     bindE (read_token nfc (get origin ''kind'') ''origin.kind'' (Some [''local_file''])) (\<lambda>_.
     bindE (read_bool (get origin ''locator_stored'') ''origin.locator_stored'') (\<lambda>stored.
     bindE (checked (require (\<not> stored) (fail ''stored_locator_forbidden'' ''origin.locator_stored'')) ()) (\<lambda>_.
     bindE (exact_fields (get item ''access'') [''classification'', ''retention''] ''access'' []) (\<lambda>access.
     bindE (read_token nfc (get access ''classification'') ''access.classification'' (Some [''private''])) (\<lambda>_.
     bindE (read_token nfc (get access ''retention'') ''access.retention'' (Some [''source_controlled''])) (\<lambda>_.
     bindE (as_array (get item ''streams'') ''streams'') (\<lambda>stream_values.
     bindE (checked (require (length stream_values \<le> MAX_STREAMS) (fail ''too_many_streams'' ''streams'')) ()) (\<lambda>_.
     bindE (read_string nfc (get item ''source_id'') ''source_id'') (\<lambda>source_id.
     bindE (fingerprint_from_mapping nfc (get item ''fingerprint'') ''fingerprint'') (\<lambda>fingerprint.
     bindE (mapE_from 0 (\<lambda>i j. source_stream_from_mapping nfc j (item_path ''streams'' i)) stream_values) (\<lambda>streams.
     let v = \<lparr>so_source_id = source_id, so_fingerprint = fingerprint, so_streams = streams\<rparr>
     in checked (source_post nfc v) v)))))))))))))"

section \<open>FrameRef\<close>

record frame_ref =
  fr_frame_id :: string
  fr_source_id :: string
  fr_stream_index :: int
  fr_decode_index :: string
  fr_pts :: media_time
  fr_duration :: "media_time option"
  fr_key_frame :: "bool option"

definition frame_identity :: "string \<Rightarrow> int \<Rightarrow> string \<Rightarrow> media_time \<Rightarrow> json" where
  "frame_identity source_id stream_index decode_index pts = JObj
     [(''decode_index'', JStr decode_index), (''identity_version'', JInt 1), (''pts'', media_time_to_mapping pts),
      (''source_id'', JStr source_id), (''stream_index'', JInt stream_index)]"

definition frame_identity_projection :: "frame_ref \<Rightarrow> json" where
  "frame_identity_projection v = frame_identity (fr_source_id v) (fr_stream_index v) (fr_decode_index v) (fr_pts v)"

definition frame_post :: "(string \<Rightarrow> string) \<Rightarrow> frame_ref \<Rightarrow> check" where
  "frame_post nfc v = run_checks
     [typed_id_check nfc (fr_frame_id v) ''frm'' ''frame_id'',
      typed_id_check nfc (fr_source_id v) ''src'' ''source_id'',
      bounded_int_check (fr_stream_index v) 0 MAX_I31 ''stream_index'',
      decimal_check nfc (fr_decode_index v) False 0 MAX_U64 ''decode_index'',
      identifier_check (mk_identifier nfc ''frm'' (frame_identity_projection v)) (fr_frame_id v) ''frame_id'']"

definition frame_valid :: "(string \<Rightarrow> string) \<Rightarrow> frame_ref \<Rightarrow> bool" where
  "frame_valid nfc v \<longleftrightarrow>
     media_time_valid nfc (fr_pts v) \<and>
     pred_option (media_time_valid nfc) (fr_duration v) \<and>
     frame_post nfc v = None"

definition frame_create ::
  "(string \<Rightarrow> string) \<Rightarrow> string \<Rightarrow> int \<Rightarrow> string \<Rightarrow> media_time \<Rightarrow> media_time option \<Rightarrow> bool option \<Rightarrow> frame_ref res" where
  "frame_create nfc source_id stream_index decode_index pts duration key_frame =
     bindE (mk_identifier nfc ''frm'' (frame_identity source_id stream_index decode_index pts)) (\<lambda>frame_id.
     let v = \<lparr>fr_frame_id = frame_id, fr_source_id = source_id, fr_stream_index = stream_index,
              fr_decode_index = decode_index, fr_pts = pts, fr_duration = duration, fr_key_frame = key_frame\<rparr>
     in checked (frame_post nfc v) v)"

definition frame_schema :: string where "frame_schema = ''visualworld.frame_ref''"

definition frame_to_mapping :: "frame_ref \<Rightarrow> json" where
  "frame_to_mapping v = JObj
     ([(''decode_index'', JStr (fr_decode_index v)),
       (''frame_id'', JStr (fr_frame_id v)),
       (''identity_version'', JInt 1),
       (''pts'', media_time_to_mapping (fr_pts v)),
       (''schema'', JStr frame_schema),
       (''schema_version'', JInt 1),
       (''source_id'', JStr (fr_source_id v)),
       (''stream_index'', JInt (fr_stream_index v))] @
      (case fr_duration v of None \<Rightarrow> [] | Some d \<Rightarrow> [(''duration'', media_time_to_mapping d)]) @
      (case fr_key_frame v of None \<Rightarrow> [] | Some k \<Rightarrow> [(''key_frame'', JBool k)]))"

definition frame_from_mapping :: "(string \<Rightarrow> string) \<Rightarrow> json \<Rightarrow> frame_ref res" where
  "frame_from_mapping nfc value =
     bindE (record_fields nfc value [''decode_index'', ''frame_id'', ''pts'', ''source_id'', ''stream_index'']
              frame_schema [''duration'', ''key_frame'']) (\<lambda>item.
     bindE (read_string nfc (get item ''frame_id'') ''frame_id'') (\<lambda>frame_id.
     bindE (read_string nfc (get item ''source_id'') ''source_id'') (\<lambda>source_id.
     bindE (read_int (get item ''stream_index'') 0 MAX_I31 ''stream_index'') (\<lambda>stream_index.
     bindE (read_string nfc (get item ''decode_index'') ''decode_index'') (\<lambda>decode_index.
     bindE (media_time_from_mapping nfc (get item ''pts'') ''pts'') (\<lambda>pts.
     bindE (case map_of item ''duration'' of None \<Rightarrow> Inr None
            | Some d \<Rightarrow> bindE (media_time_from_mapping nfc d ''duration'') (\<lambda>t. Inr (Some t))) (\<lambda>duration.
     bindE (case map_of item ''key_frame'' of None \<Rightarrow> Inr None
            | Some k \<Rightarrow> bindE (read_bool k ''key_frame'') (\<lambda>b. Inr (Some b))) (\<lambda>key_frame.
     let v = \<lparr>fr_frame_id = frame_id, fr_source_id = source_id, fr_stream_index = stream_index,
              fr_decode_index = decode_index, fr_pts = pts, fr_duration = duration, fr_key_frame = key_frame\<rparr>
     in checked (frame_post nfc v) v))))))))"

section \<open>EvidenceRef\<close>

record evidence_ref =
  ev_evidence_id :: string
  ev_frame_id :: string
  ev_artifact :: artifact
  ev_geometry :: "geometry option"
  ev_kind :: string
  ev_retention :: string

definition optional_geometry_json :: "geometry option \<Rightarrow> json" where
  "optional_geometry_json g = (case g of None \<Rightarrow> JNull | Some x \<Rightarrow> geometry_to_mapping x)"

definition evidence_identity :: "string \<Rightarrow> string \<Rightarrow> geometry option \<Rightarrow> string \<Rightarrow> json" where
  "evidence_identity artifact_sha256 frame_id geometry kind = JObj
     [(''artifact_sha256'', JStr artifact_sha256), (''frame_id'', JStr frame_id),
      (''geometry'', optional_geometry_json geometry), (''identity_version'', JInt 1), (''kind'', JStr kind)]"

definition evidence_identity_projection :: "evidence_ref \<Rightarrow> json" where
  "evidence_identity_projection v =
     evidence_identity (ar_sha256 (ev_artifact v)) (ev_frame_id v) (ev_geometry v) (ev_kind v)"

definition evidence_post :: "(string \<Rightarrow> string) \<Rightarrow> evidence_ref \<Rightarrow> check" where
  "evidence_post nfc v = run_checks
     [typed_id_check nfc (ev_evidence_id v) ''evi'' ''evidence_id'',
      typed_id_check nfc (ev_frame_id v) ''frm'' ''frame_id'',
      token_check nfc (ev_kind v) ''kind'' (Some [''original_frame'']),
      token_check nfc (ev_retention v) ''retention'' (Some [''derived_private'']),
      identifier_check (mk_identifier nfc ''evi'' (evidence_identity_projection v)) (ev_evidence_id v) ''evidence_id'']"

definition evidence_valid :: "(string \<Rightarrow> string) \<Rightarrow> evidence_ref \<Rightarrow> bool" where
  "evidence_valid nfc v \<longleftrightarrow>
     artifact_post nfc (ev_artifact v) = None \<and>
     pred_option (geometry_valid nfc) (ev_geometry v) \<and>
     evidence_post nfc v = None"

definition evidence_create ::
  "(string \<Rightarrow> string) \<Rightarrow> string \<Rightarrow> artifact \<Rightarrow> geometry option \<Rightarrow> string \<Rightarrow> string \<Rightarrow> evidence_ref res" where
  "evidence_create nfc frame_id artifact geometry kind retention =
     bindE (mk_identifier nfc ''evi'' (evidence_identity (ar_sha256 artifact) frame_id geometry kind)) (\<lambda>evidence_id.
     let v = \<lparr>ev_evidence_id = evidence_id, ev_frame_id = frame_id, ev_artifact = artifact,
              ev_geometry = geometry, ev_kind = kind, ev_retention = retention\<rparr>
     in checked (evidence_post nfc v) v)"

definition evidence_schema :: string where "evidence_schema = ''visualworld.evidence_ref''"

definition evidence_to_mapping :: "evidence_ref \<Rightarrow> json" where
  "evidence_to_mapping v = JObj
     [(''artifact'', artifact_to_mapping (ev_artifact v)),
      (''evidence_id'', JStr (ev_evidence_id v)),
      (''frame_id'', JStr (ev_frame_id v)),
      (''geometry'', optional_geometry_json (ev_geometry v)),
      (''identity_version'', JInt 1),
      (''kind'', JStr (ev_kind v)),
      (''retention'', JStr (ev_retention v)),
      (''schema'', JStr evidence_schema),
      (''schema_version'', JInt 1)]"

definition optional_geometry_from_mapping :: "(string \<Rightarrow> string) \<Rightarrow> json \<Rightarrow> geometry option res" where
  "optional_geometry_from_mapping nfc j =
     (if j = JNull then Inr None
      else bindE (geometry_from_mapping nfc j ''geometry'') (\<lambda>x. Inr (Some x)))"

definition evidence_from_mapping :: "(string \<Rightarrow> string) \<Rightarrow> json \<Rightarrow> evidence_ref res" where
  "evidence_from_mapping nfc value =
     bindE (record_fields nfc value [''artifact'', ''evidence_id'', ''frame_id'', ''geometry'', ''kind'', ''retention'']
              evidence_schema []) (\<lambda>item.
     bindE (read_string nfc (get item ''evidence_id'') ''evidence_id'') (\<lambda>evidence_id.
     bindE (read_string nfc (get item ''frame_id'') ''frame_id'') (\<lambda>frame_id.
     bindE (artifact_from_mapping nfc (get item ''artifact'') ''artifact'') (\<lambda>artifact.
     bindE (optional_geometry_from_mapping nfc (get item ''geometry'')) (\<lambda>geometry.
     bindE (read_token nfc (get item ''kind'') ''kind'' None) (\<lambda>kind.
     bindE (read_token nfc (get item ''retention'') ''retention'' None) (\<lambda>retention.
     let v = \<lparr>ev_evidence_id = evidence_id, ev_frame_id = frame_id, ev_artifact = artifact,
              ev_geometry = geometry, ev_kind = kind, ev_retention = retention\<rparr>
     in checked (evidence_post nfc v) v)))))))"

section \<open>Sampling, RunOutputs and RunManifest\<close>

record sampling =
  sa_target_fps :: rational
  sa_policy :: string

definition sampling_post :: "(string \<Rightarrow> string) \<Rightarrow> sampling \<Rightarrow> check" where
  "sampling_post nfc v = run_checks
     [token_check nfc (sa_policy v) ''sampling.policy'' (Some [''nearest_eligible_pts'']),
      require (0 < int_of_decimal (ra_numerator (sa_target_fps v)))
        (fail ''target_fps_must_be_positive'' ''sampling.target_fps.numerator'')]"

definition sampling_valid :: "(string \<Rightarrow> string) \<Rightarrow> sampling \<Rightarrow> bool" where
  "sampling_valid nfc v \<longleftrightarrow> rational_post nfc (sa_target_fps v) = None \<and> sampling_post nfc v = None"

definition sampling_to_mapping :: "sampling \<Rightarrow> json" where
  "sampling_to_mapping v = JObj
     [(''policy'', JStr (sa_policy v)), (''target_fps'', rational_to_mapping (sa_target_fps v))]"

definition sampling_from_mapping :: "(string \<Rightarrow> string) \<Rightarrow> json \<Rightarrow> string \<Rightarrow> sampling res" where
  "sampling_from_mapping nfc value path =
     bindE (exact_fields value [''policy'', ''target_fps''] path []) (\<lambda>item.
     bindE (read_token nfc (get item ''policy'') (path @ ''.policy'') None) (\<lambda>policy.
     bindE (rational_from_mapping nfc (get item ''target_fps'') (path @ ''.target_fps'')) (\<lambda>target_fps.
     let v = \<lparr>sa_target_fps = target_fps, sa_policy = policy\<rparr>
     in checked (sampling_post nfc v) v)))"

record run_outputs =
  ro_sample_count :: string
  ro_sample_index_sha256 :: string

definition run_outputs_post :: "(string \<Rightarrow> string) \<Rightarrow> run_outputs \<Rightarrow> check" where
  "run_outputs_post nfc v = run_checks
     [decimal_check nfc (ro_sample_count v) False 0 MAX_U64 ''outputs.sample_count'',
      sha256_check nfc (ro_sample_index_sha256 v) ''outputs.sample_index_sha256'']"

definition run_outputs_to_mapping :: "run_outputs \<Rightarrow> json" where
  "run_outputs_to_mapping v = JObj
     [(''sample_count'', JStr (ro_sample_count v)), (''sample_index_sha256'', JStr (ro_sample_index_sha256 v))]"

definition run_outputs_from_mapping :: "(string \<Rightarrow> string) \<Rightarrow> json \<Rightarrow> string \<Rightarrow> run_outputs res" where
  "run_outputs_from_mapping nfc value path =
     bindE (exact_fields value [''sample_count'', ''sample_index_sha256''] path []) (\<lambda>item.
     bindE (read_string nfc (get item ''sample_count'') (path @ ''.sample_count'')) (\<lambda>sample_count.
     bindE (read_string nfc (get item ''sample_index_sha256'') (path @ ''.sample_index_sha256'')) (\<lambda>digest.
     let v = \<lparr>ro_sample_count = sample_count, ro_sample_index_sha256 = digest\<rparr>
     in checked (run_outputs_post nfc v) v)))"

record run_manifest =
  rm_run_id :: string
  rm_source_id :: string
  rm_producers :: "producer list"
  rm_sampling :: sampling
  rm_state :: string
  rm_outputs :: "run_outputs option"

definition contract_names :: "string list" where
  "contract_names = [''evidence_ref'', ''frame_ref'', ''run_manifest'', ''source'']"

definition contracts_json :: json where
  "contracts_json = JObj (map (\<lambda>n. (n, JInt 1)) contract_names)"

definition run_identity :: "string \<Rightarrow> producer list \<Rightarrow> sampling \<Rightarrow> json" where
  "run_identity source_id producers sampling = JObj
     [(''contracts'', contracts_json), (''identity_version'', JInt 1),
      (''producers'', JArr (map producer_to_mapping producers)),
      (''sampling'', sampling_to_mapping sampling), (''source_id'', JStr source_id)]"

definition run_identity_projection :: "run_manifest \<Rightarrow> json" where
  "run_identity_projection v = run_identity (rm_source_id v) (rm_producers v) (rm_sampling v)"

definition run_manifest_post :: "(string \<Rightarrow> string) \<Rightarrow> run_manifest \<Rightarrow> check" where
  "run_manifest_post nfc v = run_checks
     [typed_id_check nfc (rm_run_id v) ''run'' ''run_id'',
      typed_id_check nfc (rm_source_id v) ''src'' ''source_id'',
      require (length (rm_producers v) \<le> MAX_PRODUCERS) (fail ''too_many_producers'' ''producers''),
      token_check nfc (rm_state v) ''state'' (Some [''preparing'', ''committed'', ''failed'', ''cancelled'']),
      require (rm_state v = ''committed'' \<longrightarrow> rm_outputs v \<noteq> None) (fail ''committed_outputs_required'' ''outputs''),
      require (rm_state v \<noteq> ''committed'' \<longrightarrow> rm_outputs v = None) (fail ''incomplete_outputs_forbidden'' ''outputs''),
      identifier_check (mk_identifier nfc ''run'' (run_identity_projection v)) (rm_run_id v) ''run_id'']"

definition run_manifest_valid :: "(string \<Rightarrow> string) \<Rightarrow> run_manifest \<Rightarrow> bool" where
  "run_manifest_valid nfc v \<longleftrightarrow>
     list_all (\<lambda>p. producer_post nfc p = None) (rm_producers v) \<and>
     sampling_valid nfc (rm_sampling v) \<and>
     pred_option (\<lambda>r. run_outputs_post nfc r = None) (rm_outputs v) \<and>
     run_manifest_post nfc v = None"

definition run_manifest_create ::
  "(string \<Rightarrow> string) \<Rightarrow> string \<Rightarrow> producer list \<Rightarrow> sampling \<Rightarrow> string \<Rightarrow> run_outputs option \<Rightarrow> run_manifest res" where
  "run_manifest_create nfc source_id producers sampling state outputs =
     bindE (mk_identifier nfc ''run'' (run_identity source_id producers sampling)) (\<lambda>run_id.
     let v = \<lparr>rm_run_id = run_id, rm_source_id = source_id, rm_producers = producers,
              rm_sampling = sampling, rm_state = state, rm_outputs = outputs\<rparr>
     in checked (run_manifest_post nfc v) v)"

definition run_manifest_schema :: string where "run_manifest_schema = ''visualworld.run_manifest''"

definition run_manifest_to_mapping :: "run_manifest \<Rightarrow> json" where
  "run_manifest_to_mapping v = JObj
     ([(''contracts'', contracts_json),
       (''identity_version'', JInt 1),
       (''producers'', JArr (map producer_to_mapping (rm_producers v))),
       (''run_id'', JStr (rm_run_id v)),
       (''sampling'', sampling_to_mapping (rm_sampling v)),
       (''schema'', JStr run_manifest_schema),
       (''schema_version'', JInt 1),
       (''source_id'', JStr (rm_source_id v)),
       (''state'', JStr (rm_state v))] @
      (case rm_outputs v of None \<Rightarrow> [] | Some r \<Rightarrow> [(''outputs'', run_outputs_to_mapping r)]))"

definition contract_check :: "(string \<times> json) list \<Rightarrow> string \<Rightarrow> check" where
  "contract_check contracts name =
     (case read_int (get contracts name) 1 MAX_I31 (''contracts.'' @ name) of
        Inl e \<Rightarrow> Some e
      | Inr i \<Rightarrow> require (i = 1) (fail ''unknown_contract_version'' (''contracts.'' @ name)))"

definition run_manifest_from_mapping :: "(string \<Rightarrow> string) \<Rightarrow> json \<Rightarrow> run_manifest res" where
  "run_manifest_from_mapping nfc value =
     bindE (record_fields nfc value [''contracts'', ''producers'', ''run_id'', ''sampling'', ''source_id'', ''state'']
              run_manifest_schema [''outputs'']) (\<lambda>item.
     bindE (exact_fields (get item ''contracts'') contract_names ''contracts'' []) (\<lambda>contracts.
     bindE (checked (run_checks (map (contract_check contracts) contract_names)) ()) (\<lambda>_.
     bindE (as_array (get item ''producers'') ''producers'') (\<lambda>producer_values.
     bindE (checked (require (length producer_values \<le> MAX_PRODUCERS) (fail ''too_many_producers'' ''producers'')) ()) (\<lambda>_.
     bindE (read_string nfc (get item ''run_id'') ''run_id'') (\<lambda>run_id.
     bindE (read_string nfc (get item ''source_id'') ''source_id'') (\<lambda>source_id.
     bindE (mapE_from 0 (\<lambda>i j. producer_from_mapping nfc j (item_path ''producers'' i)) producer_values) (\<lambda>producers.
     bindE (sampling_from_mapping nfc (get item ''sampling'') ''sampling'') (\<lambda>sampling.
     bindE (read_token nfc (get item ''state'') ''state'' None) (\<lambda>state.
     bindE (case map_of item ''outputs'' of None \<Rightarrow> Inr None
            | Some r \<Rightarrow> bindE (run_outputs_from_mapping nfc r ''outputs'') (\<lambda>x. Inr (Some x))) (\<lambda>outputs.
     let v = \<lparr>rm_run_id = run_id, rm_source_id = source_id, rm_producers = producers,
              rm_sampling = sampling, rm_state = state, rm_outputs = outputs\<rparr>
     in checked (run_manifest_post nfc v) v)))))))))))"

section \<open>The record union\<close>

datatype ingestion_record =
    RSource source
  | RFrame frame_ref
  | REvidence evidence_ref
  | RRun run_manifest

fun record_to_mapping :: "ingestion_record \<Rightarrow> json" where
  "record_to_mapping (RSource v) = source_to_mapping v"
| "record_to_mapping (RFrame v) = frame_to_mapping v"
| "record_to_mapping (REvidence v) = evidence_to_mapping v"
| "record_to_mapping (RRun v) = run_manifest_to_mapping v"

fun record_identity_projection :: "ingestion_record \<Rightarrow> json" where
  "record_identity_projection (RSource v) = source_identity (so_fingerprint v)"
| "record_identity_projection (RFrame v) = frame_identity_projection v"
| "record_identity_projection (REvidence v) = evidence_identity_projection v"
| "record_identity_projection (RRun v) = run_identity_projection v"

fun record_valid :: "(string \<Rightarrow> string) \<Rightarrow> ingestion_record \<Rightarrow> bool" where
  "record_valid nfc (RSource v) = source_valid nfc v"
| "record_valid nfc (RFrame v) = frame_valid nfc v"
| "record_valid nfc (REvidence v) = evidence_valid nfc v"
| "record_valid nfc (RRun v) = run_manifest_valid nfc v"

definition dumps_record :: "(string \<Rightarrow> string) \<Rightarrow> ingestion_record \<Rightarrow> string res" where
  "dumps_record nfc v = canonical_bytes nfc (record_to_mapping v)"

definition identity_bytes :: "(string \<Rightarrow> string) \<Rightarrow> ingestion_record \<Rightarrow> string res" where
  "identity_bytes nfc v = canonical_bytes nfc (record_identity_projection v)"

text \<open>The readers \<open>loads_record\<close> dispatches to, on an already parsed object.\<close>

definition record_from_mapping :: "(string \<Rightarrow> string) \<Rightarrow> json \<Rightarrow> ingestion_record res" where
  "record_from_mapping nfc value =
     bindE (as_mapping value ''$'') (\<lambda>item.
     bindE (read_token nfc (get item ''schema'') ''schema'' None) (\<lambda>schema.
     bindE (read_int (get item ''schema_version'') 1 MAX_I31 ''schema_version'') (\<lambda>version.
     bindE (checked (require (version = 1) (fail ''unknown_schema_version'' ''schema_version'')) ()) (\<lambda>_.
     if schema = source_schema then bindE (source_from_mapping nfc value) (\<lambda>v. Inr (RSource v))
     else if schema = frame_schema then bindE (frame_from_mapping nfc value) (\<lambda>v. Inr (RFrame v))
     else if schema = evidence_schema then bindE (evidence_from_mapping nfc value) (\<lambda>v. Inr (REvidence v))
     else if schema = run_manifest_schema then bindE (run_manifest_from_mapping nfc value) (\<lambda>v. Inr (RRun v))
     else Inl (fail ''unknown_schema'' ''schema'')))))"

end
