(* ===== verification/Ingestion_Codec.thy ===== *)
theory Ingestion_Codec
  imports Ingestion
begin

text \<open>
  Every mapping reader inverts its writer on validated values, both on the mapping the writer
  builds (as the code's copy helpers use it) and on the same mapping with sorted keys (as the
  canonical bytes carry it).
\<close>

named_theorems roundtrip "a reader applied to its writer's mapping"

text \<open>A check that passes, as a rewrite rule; its condition is the accepted set.\<close>

lemma check_accepts:
  "general_ok nfc s \<Longrightarrow> general_string_check nfc s path = None"
  "general_ok nfc s \<and> list_all is_ascii s \<and> length s \<le> MAX_TOKEN_BYTES \<and> is_token s \<and>
     pred_option (\<lambda>names. s \<in> set names) allowed \<Longrightarrow> token_check nfc s path allowed = None"
  "lo \<le> i \<and> i \<le> hi \<Longrightarrow> bounded_int_check i lo hi path = None"
  "general_ok nfc s \<and> (if is_signed then is_signed_decimal s else is_unsigned_decimal s) \<and>
     lo \<le> int_of_decimal s \<and> int_of_decimal s \<le> hi \<Longrightarrow> decimal_check nfc s is_signed lo hi path = None"
  "general_ok nfc s \<and> is_sha256 s \<Longrightarrow> sha256_check nfc s path = None"
  "general_ok nfc s \<and> is_typed_id prefix s \<Longrightarrow> typed_id_check nfc s prefix path = None"
  "box_ok b w h \<Longrightarrow> validate_box b w h path = None"
  by (simp_all add: outcome)

lemma require_accept: "b \<Longrightarrow> require b e = None"
  by simp

lemmas check_iffs = general_string_check_None token_check_None bounded_int_check_None decimal_check_None
  sha256_check_None typed_id_check_None validate_box_None

lemmas codec_simps = exact_fields_simp Let_def less_char_def check_iffs check_accepts require_accept

text \<open>A continuation is not simplified before its argument is known.\<close>

lemma bindE_weak_cong: "m = m' \<Longrightarrow> bindE m f = bindE m' f"
  by simp

lemma sort_items_map: "sort_items js = map sort_json js"
  by (induction js) auto

lemma fingerprint_roundtrip [roundtrip]:
  assumes "fingerprint_post nfc v = None"
  shows "fingerprint_from_mapping nfc (fingerprint_to_mapping v) path = Inr v"
    and "fingerprint_from_mapping nfc (sort_json (fingerprint_to_mapping v)) path = Inr v"
  using assms
  by (cases v, simp add: fingerprint_post_def fingerprint_from_mapping_def fingerprint_to_mapping_def codec_simps cong: bindE_weak_cong)+

lemma time_base_roundtrip [roundtrip]:
  assumes "time_base_post nfc v = None"
  shows "time_base_from_mapping nfc (time_base_to_mapping v) path = Inr v"
    and "time_base_from_mapping nfc (sort_json (time_base_to_mapping v)) path = Inr v"
  using assms
  by (cases v, simp add: time_base_post_def time_base_from_mapping_def time_base_to_mapping_def codec_simps cong: bindE_weak_cong)+

lemma producer_roundtrip [roundtrip]:
  assumes "producer_post nfc v = None"
  shows "producer_from_mapping nfc (producer_to_mapping v) path = Inr v"
    and "producer_from_mapping nfc (sort_json (producer_to_mapping v)) path = Inr v"
  using assms
  by (cases v, simp add: producer_post_def producer_from_mapping_def producer_to_mapping_def codec_simps cong: bindE_weak_cong)+

lemma rational_roundtrip [roundtrip]:
  assumes "rational_post nfc v = None"
  shows "rational_from_mapping nfc (rational_to_mapping v) path = Inr v"
    and "rational_from_mapping nfc (sort_json (rational_to_mapping v)) path = Inr v"
  using assms
  by (cases v, simp add: rational_post_def rational_from_mapping_def rational_to_mapping_def codec_simps cong: bindE_weak_cong)+

lemma artifact_roundtrip [roundtrip]:
  assumes "artifact_post nfc v = None"
  shows "artifact_from_mapping nfc (artifact_to_mapping v) path = Inr v"
    and "artifact_from_mapping nfc (sort_json (artifact_to_mapping v)) path = Inr v"
  using assms
  by (cases v, simp add: artifact_post_def artifact_from_mapping_def artifact_to_mapping_def codec_simps cong: bindE_weak_cong)+

lemma run_outputs_roundtrip [roundtrip]:
  assumes "run_outputs_post nfc v = None"
  shows "run_outputs_from_mapping nfc (run_outputs_to_mapping v) path = Inr v"
    and "run_outputs_from_mapping nfc (sort_json (run_outputs_to_mapping v)) path = Inr v"
  using assms
  by (cases v, simp add: run_outputs_post_def run_outputs_from_mapping_def run_outputs_to_mapping_def codec_simps cong: bindE_weak_cong)+

lemma sampling_roundtrip [roundtrip]:
  assumes "sampling_valid nfc v"
  shows "sampling_from_mapping nfc (sampling_to_mapping v) path = Inr v"
    and "sampling_from_mapping nfc (sort_json (sampling_to_mapping v)) path = Inr v"
  using assms
  by (cases v, simp add: sampling_valid_def sampling_post_def sampling_from_mapping_def sampling_to_mapping_def
      roundtrip codec_simps cong: bindE_weak_cong)+

lemma source_stream_roundtrip [roundtrip]:
  assumes "source_stream_valid nfc v"
  shows "source_stream_from_mapping nfc (source_stream_to_mapping v) path = Inr v"
    and "source_stream_from_mapping nfc (sort_json (source_stream_to_mapping v)) path = Inr v"
  using assms
  by (cases v, simp add: source_stream_valid_def source_stream_post_def source_stream_from_mapping_def
      source_stream_to_mapping_def roundtrip codec_simps cong: bindE_weak_cong)+

lemma media_time_estimate_cases:
  assumes "media_time_valid nfc v"
  obtains (measured) "mt_basis v = ''measured''" "mt_estimate_method v = None" "mt_estimate_producer v = None"
  | (estimated) m p where "mt_basis v = ''estimated''" "mt_estimate_method v = Some m"
      "mt_estimate_producer v = Some p" "producer_post nfc p = None"
      "token_check nfc m ''media_time.estimate.method'' (Some [''previous_pts_plus_duration'']) = None"
  using assms
  by (auto simp: media_time_valid_def media_time_post_def token_check_None split: if_splits option.splits)

lemma media_time_roundtrip [roundtrip]:
  assumes "media_time_valid nfc v"
  shows "media_time_from_mapping nfc (media_time_to_mapping v) path = Inr v"
    and "media_time_from_mapping nfc (sort_json (media_time_to_mapping v)) path = Inr v"
proof -
  from assms show "media_time_from_mapping nfc (media_time_to_mapping v) path = Inr v"
    by (cases rule: media_time_estimate_cases; cases v) (simp_all add: media_time_valid_def media_time_post_def
        media_time_from_mapping_def media_time_to_mapping_def roundtrip codec_simps cong: bindE_weak_cong)
  from assms show "media_time_from_mapping nfc (sort_json (media_time_to_mapping v)) path = Inr v"
    by (cases rule: media_time_estimate_cases; cases v) (simp_all add: media_time_valid_def media_time_post_def
        media_time_from_mapping_def media_time_to_mapping_def roundtrip codec_simps cong: bindE_weak_cong)
qed

lemma box_roundtrip [roundtrip]:
  assumes "box_ok b w h"
  shows "parse_box (box_to_json b) w h path = Inr b" and "parse_box (sort_json (box_to_json b)) w h path = Inr b"
  using assms by (cases b, simp add: parse_box_def box_ok_def codec_simps del: validate_box.simps)+

lemma producer_space_roundtrip [roundtrip]:
  assumes "producer_space_post v = None"
  shows "producer_space_from_mapping (producer_space_to_mapping v) path = Inr v"
    and "producer_space_from_mapping (sort_json (producer_space_to_mapping v)) path = Inr v"
  using assms
  by (cases v, simp add: producer_space_post_def producer_space_from_mapping_def producer_space_to_mapping_def
      roundtrip codec_simps cong: bindE_weak_cong)+

lemma affine_coefficients_roundtrip [roundtrip]:
  assumes "affine_coefficients_valid nfc v"
  shows "affine_coefficients_from_mapping nfc (affine_coefficients_to_mapping v) path = Inr v"
    and "affine_coefficients_from_mapping nfc (sort_json (affine_coefficients_to_mapping v)) path = Inr v"
  using assms
  by (cases v, simp add: affine_coefficients_valid_def affine_coefficients_from_mapping_def
      affine_coefficients_to_mapping_def roundtrip codec_simps cong: bindE_weak_cong)+

lemma geometry_transform_cases:
  assumes "geometry_valid nfc v"
  obtains (identity) "ge_transform_kind v = ''identity''" "ge_producer_space v = None" "ge_coefficients v = None"
  | (affine) s k where "ge_transform_kind v = ''affine_rational''" "ge_producer_space v = Some s"
      "ge_coefficients v = Some k" "producer_space_post s = None" "affine_coefficients_valid nfc k"
      "transformed_box (ps_box_xyxy s) k (ge_source_width v) (ge_source_height v) = ge_box_xyxy v"
  using assms
  by (auto simp: geometry_valid_def geometry_post_def token_check_None split: if_splits option.splits)

lemma geometry_roundtrip [roundtrip]:
  assumes "geometry_valid nfc v"
  shows "geometry_from_mapping nfc (geometry_to_mapping v) path = Inr v"
    and "geometry_from_mapping nfc (sort_json (geometry_to_mapping v)) path = Inr v"
proof -
  from assms show "geometry_from_mapping nfc (geometry_to_mapping v) path = Inr v"
    by (cases rule: geometry_transform_cases; cases v) (simp_all add: geometry_valid_def geometry_post_def
        geometry_from_mapping_def geometry_to_mapping_def roundtrip codec_simps cong: bindE_weak_cong)
  from assms show "geometry_from_mapping nfc (sort_json (geometry_to_mapping v)) path = Inr v"
    by (cases rule: geometry_transform_cases; cases v) (simp_all add: geometry_valid_def geometry_post_def
        geometry_from_mapping_def geometry_to_mapping_def roundtrip codec_simps cong: bindE_weak_cong)
qed

section \<open>Literal tokens\<close>

lemma token_check_literal:
  "nfc_ascii nfc \<Longrightarrow> list_all is_ascii s \<Longrightarrow> length s \<le> MAX_TOKEN_BYTES \<Longrightarrow> is_token s \<Longrightarrow>
   pred_option (\<lambda>names. s \<in> set names) allowed \<Longrightarrow> token_check nfc s path allowed = None"
  by (simp add: token_check_None general_ok_ascii MAX_TOKEN_BYTES_def MAX_GENERAL_STRING_BYTES_def)

lemma literal_tokens:
  assumes "nfc_ascii nfc"
  shows "token_check nfc ''visualworld.source'' p None = None"
    and "token_check nfc ''visualworld.frame_ref'' p None = None"
    and "token_check nfc ''visualworld.evidence_ref'' p None = None"
    and "token_check nfc ''visualworld.run_manifest'' p None = None"
    and "token_check nfc ''local_file'' p (Some [''local_file'']) = None"
    and "token_check nfc ''private'' p (Some [''private'']) = None"
    and "token_check nfc ''source_controlled'' p (Some [''source_controlled'']) = None"
  using assms
  by (simp_all add: token_check_literal is_token_tail_def is_token_head_def is_upper_def is_lower_def
      is_digit_def is_ascii_def code_def MAX_TOKEN_BYTES_def)

section \<open>Records\<close>

lemma mapE_from_roundtrip:
  assumes "\<And>x i. x \<in> set xs \<Longrightarrow> f i (g x) = Inr x"
  shows "mapE_from i f (map g xs) = Inr xs"
  using assms by (induction xs arbitrary: i) auto

lemma record_fields_simp:
  assumes "exact_fields (JObj kvs) ([''identity_version'', ''schema'', ''schema_version''] @ body) ''$'' optional = Inr kvs"
    and "get kvs ''schema'' = JStr schema" and "token_check nfc schema ''schema'' None = None"
    and "get kvs ''schema_version'' = JInt 1" and "get kvs ''identity_version'' = JInt 1"
  shows "record_fields nfc (JObj kvs) body schema optional = Inr kvs"
  using assms by (simp add: record_fields_def check_accepts MAX_I31_def)

lemma source_roundtrip [roundtrip]:
  assumes nfc: "nfc_ascii nfc" and valid: "source_valid nfc v"
  shows "source_from_mapping nfc (source_to_mapping v) = Inr v"
    and "source_from_mapping nfc (sort_json (source_to_mapping v)) = Inr v"
proof -
  have post: "source_post nfc v = None" and fp: "fingerprint_post nfc (so_fingerprint v) = None"
    and ss: "\<And>x. x \<in> set (so_streams v) \<Longrightarrow> source_stream_valid nfc x"
    and len: "length (so_streams v) \<le> MAX_STREAMS" and id: "general_ok nfc (so_source_id v)"
    using valid by (auto simp: source_valid_def list_all_iff source_post_def outcome)
  note facts = post fp ss len id
  show "source_from_mapping nfc (source_to_mapping v) = Inr v"
    using facts by (cases v) (simp add: source_from_mapping_def source_to_mapping_def source_schema_def record_fields_simp
        literal_tokens [OF nfc] mapE_from_roundtrip roundtrip codec_simps cong: bindE_weak_cong)
  have streams: "mapE_from 0 (\<lambda>i j. source_stream_from_mapping nfc j (item_path ''streams'' i))
      (map (sort_json \<circ> source_stream_to_mapping) (so_streams v)) = Inr (so_streams v)"
    using ss by (intro mapE_from_roundtrip) (simp add: roundtrip)
  show "source_from_mapping nfc (sort_json (source_to_mapping v)) = Inr v"
    using facts streams by (cases v) (simp add: source_from_mapping_def source_to_mapping_def source_schema_def
        record_fields_simp literal_tokens [OF nfc] sort_items_map roundtrip codec_simps cong: bindE_weak_cong)
qed

lemma frame_roundtrip [roundtrip]:
  assumes nfc: "nfc_ascii nfc" and valid: "frame_valid nfc v"
  shows "frame_from_mapping nfc (frame_to_mapping v) = Inr v"
    and "frame_from_mapping nfc (sort_json (frame_to_mapping v)) = Inr v"
proof -
  have post: "frame_post nfc v = None" and pts: "media_time_valid nfc (fr_pts v)"
    and dur: "\<And>d. fr_duration v = Some d \<Longrightarrow> media_time_valid nfc d"
    and ids: "general_ok nfc (fr_frame_id v)" "general_ok nfc (fr_source_id v)" "general_ok nfc (fr_decode_index v)"
    and stream: "0 \<le> fr_stream_index v" "fr_stream_index v \<le> MAX_I31"
    using valid by (auto simp: frame_valid_def frame_post_def outcome)
  note facts = post pts dur ids stream
  show "frame_from_mapping nfc (frame_to_mapping v) = Inr v"
    using facts by (cases v; cases "fr_duration v"; cases "fr_key_frame v")
     (simp_all add: frame_from_mapping_def frame_to_mapping_def frame_schema_def record_fields_simp
        literal_tokens [OF nfc] roundtrip codec_simps cong: bindE_weak_cong)
  show "frame_from_mapping nfc (sort_json (frame_to_mapping v)) = Inr v"
    using facts by (cases v; cases "fr_duration v"; cases "fr_key_frame v")
     (simp_all add: frame_from_mapping_def frame_to_mapping_def frame_schema_def record_fields_simp
        literal_tokens [OF nfc] roundtrip codec_simps cong: bindE_weak_cong)
qed

lemma token_check_weaken: "token_check nfc s path (Some names) = None \<Longrightarrow> token_check nfc s path None = None"
  by (simp add: token_check_None)

lemma evidence_roundtrip [roundtrip]:
  assumes nfc: "nfc_ascii nfc" and valid: "evidence_valid nfc v"
  shows "evidence_from_mapping nfc (evidence_to_mapping v) = Inr v"
    and "evidence_from_mapping nfc (sort_json (evidence_to_mapping v)) = Inr v"
proof -
  have post: "evidence_post nfc v = None" and art: "artifact_post nfc (ev_artifact v) = None"
    and geo0: "pred_option (geometry_valid nfc) (ev_geometry v)"
    using valid by (simp_all only: evidence_valid_def)
  then have checks: "typed_id_check nfc (ev_evidence_id v) ''evi'' ''evidence_id'' = None"
      "typed_id_check nfc (ev_frame_id v) ''frm'' ''frame_id'' = None"
      "token_check nfc (ev_kind v) ''kind'' (Some [''original_frame'']) = None"
      "token_check nfc (ev_retention v) ''retention'' (Some [''derived_private'']) = None"
    by (simp_all only: evidence_post_def run_checks_ConsN)
  have ids: "general_ok nfc (ev_evidence_id v)" "general_ok nfc (ev_frame_id v)"
    and kind: "token_check nfc (ev_kind v) ''kind'' None = None"
    and retention: "token_check nfc (ev_retention v) ''retention'' None = None"
    using checks by (blast dest: token_check_weaken typed_id_check_None [THEN iffD1])+
  have geo: "\<And>g. ev_geometry v = Some g \<Longrightarrow> geometry_valid nfc g"
    using geo0 by simp
  have present: "geometry_to_mapping g \<noteq> JNull" "sort_json (geometry_to_mapping g) \<noteq> JNull" for g
    by (simp_all add: geometry_to_mapping_def)
  have opt: "optional_geometry_from_mapping nfc (optional_geometry_json (ev_geometry v)) = Inr (ev_geometry v)"
    "optional_geometry_from_mapping nfc (sort_json (optional_geometry_json (ev_geometry v))) = Inr (ev_geometry v)"
    using geo present
    by (cases "ev_geometry v"; simp add: optional_geometry_from_mapping_def optional_geometry_json_def roundtrip)+
  note facts = post art ids kind retention
  show "evidence_from_mapping nfc (evidence_to_mapping v) = Inr v"
    using facts opt by (cases v) (simp add: evidence_from_mapping_def evidence_to_mapping_def evidence_schema_def
        record_fields_simp literal_tokens [OF nfc] roundtrip codec_simps cong: bindE_weak_cong)
  show "evidence_from_mapping nfc (sort_json (evidence_to_mapping v)) = Inr v"
    using facts opt by (cases v) (simp add: evidence_from_mapping_def evidence_to_mapping_def evidence_schema_def
        record_fields_simp literal_tokens [OF nfc] roundtrip codec_simps cong: bindE_weak_cong)
qed

lemma contracts_accepted:
  "exact_fields contracts_json contract_names ''contracts'' [] = Inr (map (\<lambda>n. (n, JInt 1)) contract_names)"
  "exact_fields (sort_json contracts_json) contract_names ''contracts'' [] = Inr (map (\<lambda>n. (n, JInt 1)) contract_names)"
  "run_checks (map (contract_check (map (\<lambda>n. (n, JInt 1)) contract_names)) contract_names) = None"
  by (simp_all add: contracts_json_def contract_names_def contract_check_def codec_simps MAX_I31_def)

lemma run_manifest_roundtrip [roundtrip]:
  assumes nfc: "nfc_ascii nfc" and valid: "run_manifest_valid nfc v"
  shows "run_manifest_from_mapping nfc (run_manifest_to_mapping v) = Inr v"
    and "run_manifest_from_mapping nfc (sort_json (run_manifest_to_mapping v)) = Inr v"
proof -
  have post: "run_manifest_post nfc v = None" and samp: "sampling_valid nfc (rm_sampling v)"
    and prods: "\<And>x. x \<in> set (rm_producers v) \<Longrightarrow> producer_post nfc x = None"
    and outs: "\<And>r. rm_outputs v = Some r \<Longrightarrow> run_outputs_post nfc r = None"
    and len: "length (rm_producers v) \<le> MAX_PRODUCERS"
    and ids: "general_ok nfc (rm_run_id v)" "general_ok nfc (rm_source_id v)"
    and state: "token_check nfc (rm_state v) ''state'' None = None"
    using valid by (auto simp: run_manifest_valid_def run_manifest_post_def list_all_iff outcome)
  have producers: "mapE_from 0 (\<lambda>i j. producer_from_mapping nfc j (item_path ''producers'' i))
      (map (sort_json \<circ> producer_to_mapping) (rm_producers v)) = Inr (rm_producers v)"
    "mapE_from 0 (\<lambda>i j. producer_from_mapping nfc j (item_path ''producers'' i))
      (map producer_to_mapping (rm_producers v)) = Inr (rm_producers v)"
    using prods by (intro mapE_from_roundtrip; simp add: roundtrip)+
  note facts = post samp outs len ids state producers
  show "run_manifest_from_mapping nfc (run_manifest_to_mapping v) = Inr v"
    using facts by (cases v; cases "rm_outputs v")
     (simp_all add: run_manifest_from_mapping_def run_manifest_to_mapping_def run_manifest_schema_def
        record_fields_simp literal_tokens [OF nfc] contracts_accepted roundtrip codec_simps cong: bindE_weak_cong)
  show "run_manifest_from_mapping nfc (sort_json (run_manifest_to_mapping v)) = Inr v"
    using facts by (cases v; cases "rm_outputs v")
     (simp_all add: run_manifest_from_mapping_def run_manifest_to_mapping_def run_manifest_schema_def
        record_fields_simp literal_tokens [OF nfc] contracts_accepted sort_items_map roundtrip codec_simps
        cong: bindE_weak_cong)
qed

section \<open>The record union\<close>

lemma schemas_distinct:
  "frame_schema \<noteq> source_schema" "evidence_schema \<noteq> source_schema" "run_manifest_schema \<noteq> source_schema"
  "evidence_schema \<noteq> frame_schema" "run_manifest_schema \<noteq> frame_schema" "run_manifest_schema \<noteq> evidence_schema"
  by (simp_all add: source_schema_def frame_schema_def evidence_schema_def run_manifest_schema_def)

lemma record_dispatch:
  assumes "nfc_ascii nfc" and "j = JObj kvs"
    and "get kvs ''schema'' = JStr schema" and "get kvs ''schema_version'' = JInt 1"
    and "schema \<in> {source_schema, frame_schema, evidence_schema, run_manifest_schema}"
  shows "record_from_mapping nfc j =
     (if schema = source_schema then bindE (source_from_mapping nfc j) (\<lambda>v. Inr (RSource v))
      else if schema = frame_schema then bindE (frame_from_mapping nfc j) (\<lambda>v. Inr (RFrame v))
      else if schema = evidence_schema then bindE (evidence_from_mapping nfc j) (\<lambda>v. Inr (REvidence v))
      else bindE (run_manifest_from_mapping nfc j) (\<lambda>v. Inr (RRun v)))"
proof -
  have "read_token nfc (JStr schema) ''schema'' None = Inr schema"
    using assms(5) literal_tokens [OF assms(1)]
    by (auto simp: source_schema_def frame_schema_def evidence_schema_def run_manifest_schema_def)
  then have "record_from_mapping nfc j =
     (if schema = source_schema then bindE (source_from_mapping nfc j) (\<lambda>v. Inr (RSource v))
      else if schema = frame_schema then bindE (frame_from_mapping nfc j) (\<lambda>v. Inr (RFrame v))
      else if schema = evidence_schema then bindE (evidence_from_mapping nfc j) (\<lambda>v. Inr (REvidence v))
      else if schema = run_manifest_schema then bindE (run_manifest_from_mapping nfc j) (\<lambda>v. Inr (RRun v))
      else Inl (fail ''unknown_schema'' ''schema''))"
    by (simp only: record_from_mapping_def as_mapping.simps assms(2-4) bindE_simps read_int.simps
        bounded_int_check_def MAX_I31_def) simp
  with assms(5) show ?thesis by auto
qed

fun record_schema :: "ingestion_record \<Rightarrow> string" where
  "record_schema (RSource v) = source_schema"
| "record_schema (RFrame v) = frame_schema"
| "record_schema (REvidence v) = evidence_schema"
| "record_schema (RRun v) = run_manifest_schema"

lemma record_schema_members:
  "\<exists>kvs. record_to_mapping r = JObj kvs \<and> get kvs ''schema'' = JStr (record_schema r) \<and>
     get kvs ''schema_version'' = JInt 1 \<and> distinct (map fst kvs)"
proof (cases r)
  case (RFrame v)
  then show ?thesis
    by (cases "fr_duration v"; cases "fr_key_frame v") (simp_all add: frame_to_mapping_def)
next
  case (RRun v)
  then show ?thesis by (cases "rm_outputs v") (simp_all add: run_manifest_to_mapping_def)
qed (simp_all add: source_to_mapping_def evidence_to_mapping_def)

lemma map_of_sort_members: "map_of (sort_members kvs) k = map_option sort_json (map_of kvs k)"
  by (induction kvs) auto

lemma sort_members_keys [simp]: "map fst (sort_members kvs) = map fst kvs"
  by (induction kvs) auto

lemma map_of_sorted: "distinct (map fst kvs) \<Longrightarrow> map_of (sort_key fst kvs) = map_of kvs"
  by (subst map_of_inject_set) (simp_all add: distinct_map)

lemma get_sorted:
  "distinct (map fst kvs) \<Longrightarrow> get (sort_key fst (sort_members kvs)) k = sort_json (get kvs k)"
  by (simp add: get_def map_of_sorted map_of_sort_members split: option.splits)

lemma record_roundtrip [roundtrip]:
  assumes nfc: "nfc_ascii nfc" and valid: "record_valid nfc r"
  shows "record_from_mapping nfc (record_to_mapping r) = Inr r"
    and "record_from_mapping nfc (sort_json (record_to_mapping r)) = Inr r"
proof -
  obtain kvs where kvs: "record_to_mapping r = JObj kvs" "get kvs ''schema'' = JStr (record_schema r)"
      "get kvs ''schema_version'' = JInt 1" "distinct (map fst kvs)"
    using record_schema_members [of r] by blast
  then have sorted: "sort_json (record_to_mapping r) = JObj (sort_key fst (sort_members kvs))"
    "get (sort_key fst (sort_members kvs)) ''schema'' = JStr (record_schema r)"
    "get (sort_key fst (sort_members kvs)) ''schema_version'' = JInt 1"
    by (simp_all add: get_sorted)
  have schema: "record_schema r \<in> {source_schema, frame_schema, evidence_schema, run_manifest_schema}"
    by (cases r) simp_all
  note plain = record_dispatch [OF nfc kvs(1-3) schema]
  note canonical = record_dispatch [OF nfc sorted(1-3) schema]
  show "record_from_mapping nfc (record_to_mapping r) = Inr r"
    using plain valid nfc by (cases r) (simp_all add: schemas_distinct schemas_distinct [symmetric] roundtrip)
  show "record_from_mapping nfc (sort_json (record_to_mapping r)) = Inr r"
    using canonical valid nfc by (cases r) (simp_all add: schemas_distinct schemas_distinct [symmetric] roundtrip)
qed

end
