(* ===== verification/Decimal.thy ===== *)
theory Decimal
  imports Validators
begin

text \<open>The decimal strings \<open>str(int)\<close> writes are accepted by the code's decimal validator.\<close>

lemma digit_char_zero: "d < 10 \<Longrightarrow> digit_char d = CHR ''0'' \<longleftrightarrow> d = 0"
proof -
  assume d: "d < 10"
  have "code (digit_char d) = code (CHR ''0'') \<longleftrightarrow> d = 0"
    using d by (simp add: code_digit_char) (simp add: code_def)
  moreover have "code a = code b \<longleftrightarrow> a = b" for a b :: char
    by (simp add: code_def)
  ultimately show ?thesis by simp
qed

lemma show_nat_head: "0 < n \<Longrightarrow> \<exists>c s. show_nat n = c # s \<and> c \<noteq> CHR ''0''"
proof (induction n rule: show_nat.induct)
  case (1 n)
  show ?case
  proof (cases "n < 10")
    case True
    with 1 show ?thesis by (simp add: show_nat.simps [of n] digit_char_zero)
  next
    case False
    then have "0 < n div 10" by simp
    with 1 False obtain c s where "show_nat (n div 10) = c # s" "c \<noteq> CHR ''0''" by blast
    with False show ?thesis by (simp add: show_nat.simps [of n])
  qed
qed

lemma show_nat_zero: "show_nat 0 = ''0''"
  by (simp add: show_nat.simps [of 0] digit_char_zero)

lemma is_unsigned_decimal_show_nat [simp]: "is_unsigned_decimal (show_nat n)"
proof (cases "n = 0")
  case False
  then obtain c s where cs: "show_nat n = c # s" "c \<noteq> CHR ''0''"
    using show_nat_head [of n] by auto
  then show ?thesis
    using show_nat_digits [of n] by (auto simp: list_all_iff)
qed (simp add: show_nat_zero)

lemma is_signed_decimal_unsigned: "is_unsigned_decimal s \<Longrightarrow> is_signed_decimal s"
  by (cases s) (auto simp: is_digit_def code_def)

lemma show_nat_eq_zero: "show_nat n = ''0'' \<longleftrightarrow> n = 0"
  using show_nat_head [of n] by (cases "n = 0") (auto simp: show_nat_zero)

lemma is_signed_decimal_show_int [simp]: "is_signed_decimal (show_int i)"
  by (simp add: show_int_def show_nat_eq_zero is_signed_decimal_unsigned)

lemma is_unsigned_decimal_show_int [simp]: "0 \<le> i \<Longrightarrow> is_unsigned_decimal (show_int i)"
  by (simp add: show_int_def)

lemma show_nat_length: "n < 10 ^ Suc k \<Longrightarrow> length (show_nat n) \<le> Suc k"
proof (induction k arbitrary: n)
  case 0
  then show ?case by (simp add: show_nat.simps [of n])
next
  case (Suc k)
  then have "n div 10 < 10 ^ Suc k" by simp
  with Suc.IH [of "n div 10"] show ?case by (simp add: show_nat.simps [of n])
qed

lemma show_int_eq [simp]: "show_int i = show_int j \<longleftrightarrow> i = j"
  by (metis int_of_decimal_show_int)

lemma show_nat_ascii: "list_all is_ascii (show_nat n)"
  using show_nat_digits [of n] by (auto simp: list_all_iff is_ascii_digit)

lemma show_int_ascii [simp]: "list_all is_ascii (show_int i)"
  by (simp add: show_int_def show_nat_ascii is_ascii_def code_def)

lemma show_int_length:
  assumes "\<bar>i\<bar> < 2 ^ 128"
  shows "length (show_int i) \<le> 41"
proof -
  have "nat \<bar>i\<bar> < 10 ^ Suc 39"
    using assms by (simp add: nat_less_iff)
  then have "length (show_nat (nat \<bar>i\<bar>)) \<le> Suc 39"
    by (rule show_nat_length)
  moreover have "length (show_int i) \<le> Suc (length (show_nat (nat \<bar>i\<bar>)))"
    by (simp add: show_int_def)
  ultimately show ?thesis by simp
qed

lemma general_ok_show_int:
  assumes nfc: "nfc_ascii nfc" and i: "\<bar>i\<bar> < 2 ^ 128"
  shows "general_ok nfc (show_int i)"
proof (rule general_ok_ascii [OF nfc show_int_ascii])
  show "length (show_int i) \<le> MAX_GENERAL_STRING_BYTES"
    using show_int_length [OF i] by (simp add: MAX_GENERAL_STRING_BYTES_def)
qed

lemma decimal_check_show_int:
  assumes "nfc_ascii nfc" and "lo \<le> i" and "i \<le> hi" and "0 \<le> i \<or> is_signed" and "\<bar>i\<bar> < 2 ^ 128"
  shows "decimal_check nfc (show_int i) is_signed lo hi path = None"
proof -
  have "general_ok nfc (show_int i)"
    using assms(1,5) by (rule general_ok_show_int)
  with assms(2-4) show ?thesis by (auto simp: decimal_check_None)
qed

end
