(* ===== verification/Geometry.thy ===== *)
theory Geometry
  imports Ingestion_Codec Decimal
begin

text \<open>
  The exact detector-to-source geometry and the RGB24 crops of \<open>geometry.py\<close>.  A \<open>Fraction\<close> is a
  \<open>rat\<close>; its numerator and denominator in lowest terms are \<open>quotient_of\<close>.  The file sink
  \<open>write_rgb24_crop\<close> is system calls and is not modelled, but for the destination names it accepts.
\<close>

section \<open>Checks that raise \<open>CropError\<close>\<close>

definition dimension_check :: "int \<Rightarrow> check" where
  "dimension_check v = require (1 \<le> v \<and> v \<le> MAX_I31) (CropError ''invalid_dimension'')"

fun crop_box_check :: "box \<Rightarrow> int \<Rightarrow> int \<Rightarrow> string \<Rightarrow> check" where
  "crop_box_check (x_min, y_min, x_max, y_max) width height c =
     require (0 \<le> x_min \<and> x_min < x_max \<and> x_max \<le> width \<and> 0 \<le> y_min \<and> y_min < y_max \<and> y_max \<le> height)
       (CropError c)"

definition measurement_check :: "string \<Rightarrow> check" where
  "measurement_check m = require (m \<in> set measurements) (CropError ''invalid_measurement'')"

section \<open>DetectorTransform\<close>

text \<open>\<open>_rational\<close>, with the checks of the constructor it calls.\<close>

definition rational_of :: "rat \<Rightarrow> rational" where
  "rational_of q = \<lparr>ra_numerator = show_int (fst (quotient_of q)), ra_denominator = show_int (snd (quotient_of q))\<rparr>"

definition mk_rational :: "(string \<Rightarrow> string) \<Rightarrow> rat \<Rightarrow> rational res" where
  "mk_rational nfc q = checked (rational_post nfc (rational_of q)) (rational_of q)"

definition source_box :: "box \<Rightarrow> affine_coefficients \<Rightarrow> int \<Rightarrow> int \<Rightarrow> box res" where
  "source_box producer_box k source_width source_height =
     (let (x0, y0, x1, y1) = transformed_box producer_box k source_width source_height
      in if x1 \<le> x0 \<or> y1 \<le> y0 then Inl (CropError ''empty_source_box'') else Inr (x0, y0, x1, y1))"

record detector_transform =
  dt_source_width :: int
  dt_source_height :: int
  dt_detector_width :: int
  dt_detector_height :: int
  dt_rotation_degrees :: int
  dt_content_box_xyxy :: box

text \<open>
  The constructor with \<open>__post_init__\<close>: the rotation is normalised modulo 360 and a missing content
  box becomes the whole detector input.
\<close>

definition detector_transform_create ::
  "int \<Rightarrow> int \<Rightarrow> int \<Rightarrow> int \<Rightarrow> int \<Rightarrow> box option \<Rightarrow> detector_transform res" where
  "detector_transform_create source_width source_height detector_width detector_height rotation content =
     checked (run_checks
       [dimension_check source_width, dimension_check source_height,
        dimension_check detector_width, dimension_check detector_height,
        require (rotation mod 90 = 0) (CropError ''unsupported_rotation''),
        (case content of None \<Rightarrow> None
         | Some b \<Rightarrow> crop_box_check b detector_width detector_height ''invalid_content_box'')])
       \<lparr>dt_source_width = source_width, dt_source_height = source_height,
        dt_detector_width = detector_width, dt_detector_height = detector_height,
        dt_rotation_degrees = rotation mod 360,
        dt_content_box_xyxy = (case content of None \<Rightarrow> (0, 0, detector_width, detector_height) | Some b \<Rightarrow> b)\<rparr>"

definition coefficient_values :: "detector_transform \<Rightarrow> rat list" where
  "coefficient_values t = (case dt_content_box_xyxy t of (left, upper, right, lower) \<Rightarrow>
     let content_width = of_int (right - left); content_height = of_int (lower - upper);
         width = of_int (dt_source_width t); height = of_int (dt_source_height t);
         l = of_int left; u = of_int upper
     in if dt_rotation_degrees t = 0 then
          let x_scale = width / content_width; y_scale = height / content_height
          in [x_scale, 0, - l * x_scale, 0, y_scale, - u * y_scale]
        else if dt_rotation_degrees t = 90 then
          let x_scale = width / content_height; y_scale = height / content_width
          in [0, x_scale, - u * x_scale, - y_scale, 0, height + l * y_scale]
        else if dt_rotation_degrees t = 180 then
          let x_scale = width / content_width; y_scale = height / content_height
          in [- x_scale, 0, width + l * x_scale, 0, - y_scale, height + u * y_scale]
        else
          let x_scale = width / content_height; y_scale = height / content_width
          in [0, - x_scale, width + u * x_scale, y_scale, 0, - l * y_scale])"

definition coefficients :: "(string \<Rightarrow> string) \<Rightarrow> detector_transform \<Rightarrow> affine_coefficients res" where
  "coefficients nfc t = bindE (mapE (mk_rational nfc) (coefficient_values t)) (\<lambda>ks.
     case ks of
       [a, b, c, d, e, f] \<Rightarrow> Inr \<lparr>ac_a = a, ac_b = b, ac_c = c, ac_d = d, ac_e = e, ac_f = f\<rparr>
     | _ \<Rightarrow> Inl (AssertionError ''six coefficients''))"

definition map_box ::
  "(string \<Rightarrow> string) \<Rightarrow> detector_transform \<Rightarrow> box \<Rightarrow> string \<Rightarrow> geometry res" where
  "map_box nfc t producer_box measurement =
     bindE (checked (run_checks
        [crop_box_check producer_box (dt_detector_width t) (dt_detector_height t) ''invalid_detector_box'',
         measurement_check measurement]) ()) (\<lambda>_.
     bindE (coefficients nfc t) (\<lambda>k.
     bindE (source_box producer_box k (dt_source_width t) (dt_source_height t)) (\<lambda>mapped.
     let space = \<lparr>ps_width = dt_detector_width t, ps_height = dt_detector_height t, ps_box_xyxy = producer_box\<rparr>;
         v = \<lparr>ge_source_width = dt_source_width t, ge_source_height = dt_source_height t, ge_box_xyxy = mapped,
              ge_measurement = measurement, ge_transform_kind = ''affine_rational'',
              ge_producer_space = Some space, ge_coefficients = Some k, ge_space = ''source_pixels''\<rparr>
     in bindE (checked (producer_space_post space) ()) (\<lambda>_. checked (geometry_post nfc v) v))))"

definition source_geometry ::
  "(string \<Rightarrow> string) \<Rightarrow> int \<Rightarrow> int \<Rightarrow> box \<Rightarrow> string \<Rightarrow> geometry res" where
  "source_geometry nfc width height b measurement =
     bindE (checked (run_checks
        [dimension_check width, dimension_check height, crop_box_check b width height ''invalid_source_box'',
         measurement_check measurement]) ()) (\<lambda>_.
     let v = \<lparr>ge_source_width = width, ge_source_height = height, ge_box_xyxy = b, ge_measurement = measurement,
              ge_transform_kind = ''identity'', ge_producer_space = None, ge_coefficients = None,
              ge_space = ''source_pixels''\<rparr>
     in checked (geometry_post nfc v) v)"

section \<open>Crops\<close>

record rgb24_crop =
  cr_width :: int
  cr_height :: int
  cr_pixels :: string
  cr_sha256 :: string

definition rgb24_crop_create :: "int \<Rightarrow> int \<Rightarrow> string \<Rightarrow> rgb24_crop res" where
  "rgb24_crop_create width height pixels =
     checked (run_checks
       [dimension_check width, dimension_check height,
        require (int (length pixels) = width * height * 3) (CropError ''invalid_crop_bytes'')])
       \<lparr>cr_width = width, cr_height = height, cr_pixels = pixels, cr_sha256 = sha256_hex pixels\<rparr>"

definition crop_artifact :: "(string \<Rightarrow> string) \<Rightarrow> rgb24_crop \<Rightarrow> artifact res" where
  "crop_artifact nfc c =
     (let v = \<lparr>ar_sha256 = cr_sha256 c, ar_bytes = show_int (int (length (cr_pixels c))),
               ar_media_type = RGB24_MEDIA_TYPE\<rparr>
      in checked (artifact_post nfc v) v)"

text \<open>\<open>view[start:stop]\<close> for non-negative bounds\<close>

definition slice :: "nat \<Rightarrow> nat \<Rightarrow> 'a list \<Rightarrow> 'a list" where
  "slice start stop xs = take (stop - start) (drop start xs)"

fun crop_rows :: "string \<Rightarrow> int \<Rightarrow> box \<Rightarrow> string" where
  "crop_rows frame width (x_min, y_min, x_max, y_max) =
     concat (map (\<lambda>y. slice (nat (int y * (width * 3) + x_min * 3)) (nat (int y * (width * 3) + x_max * 3)) frame)
       [nat y_min..<nat y_max])"

definition extract_rgb24_crop :: "string \<Rightarrow> int \<Rightarrow> int \<Rightarrow> geometry \<Rightarrow> rgb24_crop res" where
  "extract_rgb24_crop frame width height g =
     bindE (checked (run_checks
        [dimension_check width, dimension_check height,
         require (int (length frame) = width * height * 3) (CropError ''invalid_frame_bytes''),
         require (ge_source_width g = width \<and> ge_source_height g = height) (CropError ''geometry_source_mismatch'')])
        ()) (\<lambda>_.
     case ge_box_xyxy g of (x_min, y_min, x_max, y_max) \<Rightarrow>
       rgb24_crop_create (x_max - x_min) (y_max - y_min) (crop_rows frame width (ge_box_xyxy g)))"

section \<open>Destination names\<close>

definition MAX_DESTINATION_BYTES :: nat where "MAX_DESTINATION_BYTES = 4096"
definition MAX_DESTINATION_DEPTH :: nat where "MAX_DESTINATION_DEPTH = 16"

text \<open>\<open>value.split(sep)\<close>\<close>

fun split_on :: "char \<Rightarrow> string \<Rightarrow> string list" where
  "split_on sep [] = [[]]"
| "split_on sep (c # s) =
     (if c = sep then [] # split_on sep s
      else case split_on sep s of [] \<Rightarrow> [[c]] | part # parts \<Rightarrow> (c # part) # parts)"

definition is_component_tail :: "char \<Rightarrow> bool" where
  "is_component_tail c \<longleftrightarrow> is_token_head c \<or> c \<in> {CHR ''.'', CHR ''_'', CHR ''-''}"

fun is_component :: "string \<Rightarrow> bool" where
  "is_component [] = False"
| "is_component (c # s) = (is_token_head c \<and> length s \<le> 127 \<and> list_all is_component_tail s)"

definition destination_parts :: "string \<Rightarrow> string list res" where
  "destination_parts value =
     (let parts = split_on (CHR ''/'') value
      in checked (run_checks
       [require (list_all is_ascii value) (CropError ''invalid_destination''),
        require (value \<noteq> [] \<and> length value \<le> MAX_DESTINATION_BYTES \<and> CHR 0x5C \<notin> set value)
          (CropError ''invalid_destination''),
        require (length parts \<le> MAX_DESTINATION_DEPTH \<and>
                 list_all (\<lambda>part. part \<notin> {[], ''.'', ''..''} \<and> is_component part) parts)
          (CropError ''invalid_destination'')])
       parts)"

section \<open>Exact arithmetic\<close>

lemma fraction_rational_of [simp]: "fraction (rational_of q) = q"
  by (cases "quotient_of q") (simp add: fraction_def rational_of_def quotient_of_div [symmetric])

lemma min4_le: "min4 p q r s \<le> p" "min4 p q r s \<le> q" "min4 p q r s \<le> r" "min4 p q r s \<le> s"
  by (auto simp: min4_def min_def)

lemma max4_ge: "p \<le> max4 p q r s" "q \<le> max4 p q r s" "r \<le> max4 p q r s" "s \<le> max4 p q r s"
  by (auto simp: max4_def max_def)

lemma min4_cases: "min4 p q r s \<in> {p, q, r, s}"
  by (auto simp: min4_def min_def)

lemma max4_cases: "max4 p q r s \<in> {p, q, r, s}"
  by (auto simp: max4_def max_def)

lemma linear_between:
  fixes a x x0 x1 c :: rat
  assumes "x0 \<le> x" "x \<le> x1"
  shows "min (a * x0 + c) (a * x1 + c) \<le> a * x + c" and "a * x + c \<le> max (a * x0 + c) (a * x1 + c)"
proof -
  have "a * x0 \<le> a * x \<and> a * x \<le> a * x1 \<or> a * x1 \<le> a * x \<and> a * x \<le> a * x0"
    using assms by (cases "0 \<le> a") (auto intro: mult_left_mono mult_left_mono_neg)
  then show "min (a * x0 + c) (a * x1 + c) \<le> a * x + c" and "a * x + c \<le> max (a * x0 + c) (a * x1 + c)"
    by (auto simp: min_def max_def)
qed

text \<open>An affine function on a rectangle takes its extremes at the corners.\<close>

lemma affine_between:
  fixes a b c x x0 x1 y y0 y1 :: rat
  assumes "x0 \<le> x" "x \<le> x1" "y0 \<le> y" "y \<le> y1"
  defines "g \<equiv> \<lambda>x y. a * x + b * y + c"
  shows "min4 (g x0 y0) (g x0 y1) (g x1 y0) (g x1 y1) \<le> g x y"
    and "g x y \<le> max4 (g x0 y0) (g x0 y1) (g x1 y0) (g x1 y1)"
proof -
  have along_x: "min (g x0 z) (g x1 z) \<le> g x z" "g x z \<le> max (g x0 z) (g x1 z)" for z
    using linear_between [OF assms(1,2), of a "b * z + c"] by (simp_all add: g_def algebra_simps)
  have along_y: "min (g z y0) (g z y1) \<le> g z y" "g z y \<le> max (g z y0) (g z y1)" for z
    using linear_between [OF assms(3,4), of b "a * z + c"] by (simp_all add: g_def algebra_simps)
  show "min4 (g x0 y0) (g x0 y1) (g x1 y0) (g x1 y1) \<le> g x y"
    using along_x(1) [of y] along_y(1) [of x0] along_y(1) [of x1]
    by (auto simp: min4_def min_def split: if_splits)
  show "g x y \<le> max4 (g x0 y0) (g x0 y1) (g x1 y0) (g x1 y1)"
    using along_x(2) [of y] along_y(2) [of x0] along_y(2) [of x1]
    by (auto simp: max4_def max_def split: if_splits)
qed

text \<open>The lowest terms of a fraction are no larger than the terms it is written with.\<close>

lemma dvd_div_abs_le: "(g::int) dvd n \<Longrightarrow> 0 < g \<Longrightarrow> \<bar>n div g\<bar> \<le> \<bar>n\<bar>"
  by (elim dvdE) (simp add: abs_mult mult_le_cancel_right1)

lemma quotient_of_bound:
  assumes "0 < d"
  shows "\<bar>fst (quotient_of (of_int n / of_int d))\<bar> \<le> \<bar>n\<bar>"
    and "0 < snd (quotient_of (of_int n / of_int d))" and "snd (quotient_of (of_int n / of_int d)) \<le> d"
proof -
  define g where "g = gcd n d"
  have g: "0 < g" "g dvd n" "g dvd d"
    using assms by (simp_all add: g_def)
  have q: "quotient_of (of_int n / of_int d) = (n div g, d div g)"
    using assms by (simp add: Fract_of_int_quotient [symmetric] quotient_of_Fract normalize_def g_def Let_def)
  show "\<bar>fst (quotient_of (of_int n / of_int d))\<bar> \<le> \<bar>n\<bar>"
    using dvd_div_abs_le [OF g(2,1)] by (simp add: q)
  show "0 < snd (quotient_of (of_int n / of_int d))"
    using assms g by (simp add: q pos_imp_zdiv_pos_iff zdvd_imp_le)
  show "snd (quotient_of (of_int n / of_int d)) \<le> d"
    using dvd_div_abs_le [OF g(3,1)] assms by (simp add: q)
qed

lemma mk_rational_quotient:
  assumes nfc: "nfc_ascii nfc" and d: "1 \<le> d" "d \<le> MAX_U32" and n: "\<bar>n\<bar> \<le> MAX_I64"
  shows "mk_rational nfc (of_int n / of_int d) = Inr (rational_of (of_int n / of_int d))"
proof -
  define q :: rat where "q = of_int n / of_int d"
  have bounds: "\<bar>fst (quotient_of q)\<bar> \<le> \<bar>n\<bar>" "0 < snd (quotient_of q)" "snd (quotient_of q) \<le> d"
    using quotient_of_bound [of d n] d by (simp_all add: q_def)
  have "decimal_check nfc (show_int (fst (quotient_of q))) True MIN_I64 MAX_I64 path = None" for path
    using bounds(1) n by (intro decimal_check_show_int [OF nfc]) (simp_all add: bound_defs)
  moreover have "decimal_check nfc (show_int (snd (quotient_of q))) False 1 MAX_U32 path = None" for path
    using bounds(2,3) d by (intro decimal_check_show_int [OF nfc]) (simp_all add: bound_defs)
  ultimately have "rational_post nfc (rational_of q) = None"
    by (simp add: rational_post_def rational_of_def)
  then show ?thesis by (simp add: mk_rational_def q_def)
qed

section \<open>The transform\<close>

text \<open>What the constructor establishes.\<close>

definition transform_ok :: "detector_transform \<Rightarrow> bool" where
  "transform_ok t \<longleftrightarrow>
     1 \<le> dt_source_width t \<and> dt_source_width t \<le> MAX_I31 \<and>
     1 \<le> dt_source_height t \<and> dt_source_height t \<le> MAX_I31 \<and>
     1 \<le> dt_detector_width t \<and> dt_detector_width t \<le> MAX_I31 \<and>
     1 \<le> dt_detector_height t \<and> dt_detector_height t \<le> MAX_I31 \<and>
     dt_rotation_degrees t \<in> {0, 90, 180, 270} \<and>
     box_ok (dt_content_box_xyxy t) (dt_detector_width t) (dt_detector_height t)"

lemma dimension_check_None [outcome]: "dimension_check v = None \<longleftrightarrow> 1 \<le> v \<and> v \<le> MAX_I31"
  by (simp add: dimension_check_def)

lemma crop_box_check_None [outcome]:
  "width \<le> MAX_I31 \<Longrightarrow> height \<le> MAX_I31 \<Longrightarrow> crop_box_check b width height c = None \<longleftrightarrow> box_ok b width height"
  by (cases b) (auto simp: box_ok_def)

lemma measurement_check_None [outcome]: "measurement_check m = None \<longleftrightarrow> m \<in> set measurements"
  by (simp add: measurement_check_def)

lemma quarter_turns: "(r::int) mod 90 = 0 \<Longrightarrow> r mod 360 \<in> {0, 90, 180, 270}"
proof -
  assume "r mod 90 = 0"
  then obtain k where k: "r = 90 * k" by (auto elim: dvdE simp: mod_eq_0_iff_dvd)
  have "r mod 360 = 90 * (k mod 4)"
    using mod_mult_mult1 [of 90 k 4] by (simp add: k)
  moreover have "k mod 4 \<in> {0, 1, 2, 3}" by (simp only: insert_iff empty_iff) presburger
  ultimately show ?thesis by auto
qed

lemma detector_transform_create_ok:
  assumes "detector_transform_create sw sh dw dh rotation content = Inr t"
  shows "transform_ok t"
proof -
  define b where "b = (case content of None \<Rightarrow> (0, 0, dw, dh) | Some b \<Rightarrow> b)"
  have dims: "1 \<le> sw \<and> sw \<le> MAX_I31" "1 \<le> sh \<and> sh \<le> MAX_I31" "1 \<le> dw \<and> dw \<le> MAX_I31"
      "1 \<le> dh \<and> dh \<le> MAX_I31" and rot: "rotation mod 90 = 0"
      and content: "\<And>c. content = Some c \<Longrightarrow> crop_box_check c dw dh ''invalid_content_box'' = None"
      and t: "t = \<lparr>dt_source_width = sw, dt_source_height = sh, dt_detector_width = dw, dt_detector_height = dh,
                dt_rotation_degrees = rotation mod 360, dt_content_box_xyxy = b\<rparr>"
    using assms by (simp_all add: detector_transform_create_def checked_Inr_iff dimension_check_None b_def)
  have "box_ok b dw dh"
    using content dims by (cases content) (auto simp: b_def box_ok_def crop_box_check_None)
  moreover have "rotation mod 360 \<in> {0, 90, 180, 270}"
    using rot by (rule quarter_turns)
  ultimately show ?thesis
    unfolding transform_ok_def t using dims by (simp only: detector_transform.simps simp_thms)
qed

text \<open>
  The display geometry the transform inverts: the encoded frame is rotated clockwise by the display
  rotation, and the display image is resized onto the content box of the detector input.
\<close>

fun display_point :: "int \<Rightarrow> rat \<Rightarrow> rat \<Rightarrow> rat \<times> rat \<Rightarrow> rat \<times> rat" where
  "display_point rotation w h (x, y) =
     (if rotation = 0 then (x, y) else if rotation = 90 then (h - y, x)
      else if rotation = 180 then (w - x, h - y) else (y, w - x))"

definition display_size :: "int \<Rightarrow> rat \<Rightarrow> rat \<Rightarrow> rat \<times> rat" where
  "display_size rotation w h = (if rotation = 0 \<or> rotation = 180 then (w, h) else (h, w))"

definition detector_point :: "detector_transform \<Rightarrow> rat \<times> rat \<Rightarrow> rat \<times> rat" where
  "detector_point t p =
     (let w = of_int (dt_source_width t); h = of_int (dt_source_height t);
          (display_width, display_height) = display_size (dt_rotation_degrees t) w h;
          (x, y) = display_point (dt_rotation_degrees t) w h p;
          (left, upper, right, lower) = dt_content_box_xyxy t
      in (of_int left + x * of_int (right - left) / display_width,
          of_int upper + y * of_int (lower - upper) / display_height))"

definition affine_of :: "rat list \<Rightarrow> rat \<times> rat \<Rightarrow> rat \<times> rat" where
  "affine_of ks p = (ks ! 0 * fst p + ks ! 1 * snd p + ks ! 2, ks ! 3 * fst p + ks ! 4 * snd p + ks ! 5)"

lemma transform_nonzero:
  assumes "transform_ok t" "dt_content_box_xyxy t = (left, upper, right, lower)"
  shows "(of_int (right - left) :: rat) \<noteq> 0" "(of_int (lower - upper) :: rat) \<noteq> 0"
    "(of_int (dt_source_width t) :: rat) \<noteq> 0" "(of_int (dt_source_height t) :: rat) \<noteq> 0"
  using assms by (auto simp: transform_ok_def box_ok_def)

lemma rescale: "c \<noteq> 0 \<Longrightarrow> w \<noteq> 0 \<Longrightarrow> w / c * (l + x * c / w) = l * (w / c) + (x :: rat)"
  by (simp add: field_simps)

lemma coefficient_values_invert:
  assumes ok: "transform_ok t"
  shows "affine_of (coefficient_values t) (detector_point t p) = p"
proof -
  obtain left upper right lower where b: "dt_content_box_xyxy t = (left, upper, right, lower)"
    by (cases "dt_content_box_xyxy t")
  note nz = transform_nonzero [OF ok b]
  have "dt_rotation_degrees t \<in> {0, 90, 180, 270}"
    using ok by (simp add: transform_ok_def)
  then show ?thesis
    using b rescale [OF nz(1,3)] rescale [OF nz(1,4)] rescale [OF nz(2,3)] rescale [OF nz(2,4)]
    by (cases p) (auto simp: affine_of_def coefficient_values_def detector_point_def display_size_def Let_def
        eval_nat_numeral simp del: of_int_diff)
qed

definition small_quotient :: "rat \<Rightarrow> bool" where
  "small_quotient q \<longleftrightarrow>
     (\<exists>n d. q = of_int n / of_int d \<and> 1 \<le> d \<and> d \<le> MAX_U32 \<and> \<bar>n\<bar> \<le> MAX_I64)"

lemma small_quotientI:
  "q = of_int n / of_int d \<Longrightarrow> 1 \<le> d \<Longrightarrow> d \<le> MAX_I31 \<Longrightarrow> \<bar>n\<bar> \<le> MAX_I31 * MAX_I31 \<Longrightarrow> small_quotient q"
  unfolding small_quotient_def bound_defs by (intro exI [of _ n] exI [of _ d]) simp

lemma product_bound:
  fixes a b m :: int
  shows "0 \<le> a \<Longrightarrow> a \<le> m \<Longrightarrow> 0 \<le> b \<Longrightarrow> b \<le> m \<Longrightarrow> \<bar>a * b\<bar> \<le> m * m \<and> \<bar>- (a * b)\<bar> \<le> m * m"
  by (auto intro: mult_mono)

text \<open>The three shapes a coefficient has: a scale, an offset from the near edge, one from the far edge.\<close>

lemma small_scales:
  fixes n l r w :: int
  assumes "0 \<le> l" "l < r" "r \<le> MAX_I31" "1 \<le> w" "w \<le> MAX_I31"
  defines "s \<equiv> of_int w / of_int (r - l) :: rat"
  shows "small_quotient s" "small_quotient (- s)" "small_quotient (- of_int l * s)" "small_quotient (of_int w + of_int l * s)"
proof -
  have d: "1 \<le> r - l" "r - l \<le> MAX_I31" and nz: "of_int (r - l) \<noteq> (0::rat)" using assms by simp_all
  have w: "\<bar>w\<bar> \<le> MAX_I31 * MAX_I31"
    using assms by (intro order_trans [OF _ mult_mono [of 1 MAX_I31 w MAX_I31]]) (simp_all add: bound_defs)
  show "small_quotient s" by (rule small_quotientI [OF _ d w]) (simp add: s_def)
  show "small_quotient (- s)" by (rule small_quotientI [OF _ d, of _ "- w"]) (use w in \<open>simp_all add: s_def\<close>)
  have lw: "\<bar>l * w\<bar> \<le> MAX_I31 * MAX_I31 \<and> \<bar>- (l * w)\<bar> \<le> MAX_I31 * MAX_I31"
    using assms by (intro product_bound) simp_all
  show "small_quotient (- of_int l * s)"
    by (rule small_quotientI [OF _ d, of _ "- (l * w)"]) (use lw in \<open>simp_all add: s_def\<close>)
  have rw: "\<bar>r * w\<bar> \<le> MAX_I31 * MAX_I31 \<and> \<bar>- (r * w)\<bar> \<le> MAX_I31 * MAX_I31"
    using assms by (intro product_bound) simp_all
  have "of_int w + of_int l * s = of_int (r * w) / of_int (r - l)"
    using nz by (simp add: s_def field_simps)
  then show "small_quotient (of_int w + of_int l * s)"
    by (rule small_quotientI [OF _ d]) (use rw in simp)
qed

lemma small_zero: "small_quotient 0"
  by (rule small_quotientI [of _ 0 1]) (simp_all add: bound_defs)

lemma coefficient_values_small:
  assumes ok: "transform_ok t"
  shows "list_all small_quotient (coefficient_values t)"
proof -
  obtain left upper right lower where b: "dt_content_box_xyxy t = (left, upper, right, lower)"
    by (cases "dt_content_box_xyxy t")
  have x: "0 \<le> left" "left < right" "right \<le> MAX_I31" and y: "0 \<le> upper" "upper < lower" "lower \<le> MAX_I31"
    and w: "1 \<le> dt_source_width t" "dt_source_width t \<le> MAX_I31"
    and h: "1 \<le> dt_source_height t" "dt_source_height t \<le> MAX_I31"
    using ok by (simp_all add: transform_ok_def b box_ok_def)
  show ?thesis
    using small_scales [OF x w] small_scales [OF x h] small_scales [OF y w] small_scales [OF y h] small_zero
    by (simp add: coefficient_values_def b Let_def del: of_int_diff)
qed

lemma coefficients_ok:
  assumes nfc: "nfc_ascii nfc" and ok: "transform_ok t"
  obtains k where "coefficients nfc t = Inr k" "affine_coefficients_valid nfc k"
    "\<And>p. (affine_x k (fst p) (snd p), affine_y k (fst p) (snd p)) = affine_of (coefficient_values t) p"
proof -
  have mk: "mk_rational nfc q = Inr (rational_of q)" if "q \<in> set (coefficient_values t)" for q
    using coefficient_values_small [OF ok] that mk_rational_quotient [OF nfc]
    by (auto simp: list_all_iff small_quotient_def)
  have valid: "rational_post nfc (rational_of q) = None" if "q \<in> set (coefficient_values t)" for q
    using mk [OF that] by (simp add: mk_rational_def checked_Inr_iff)
  have "length (coefficient_values t) = 6"
    by (cases "dt_content_box_xyxy t") (simp add: coefficient_values_def Let_def)
  then obtain a b c d e f where vs: "coefficient_values t = [a, b, c, d, e, f]"
    by (auto simp: eval_nat_numeral length_Suc_conv)
  let ?k = "\<lparr>ac_a = rational_of a, ac_b = rational_of b, ac_c = rational_of c,
             ac_d = rational_of d, ac_e = rational_of e, ac_f = rational_of f\<rparr>"
  have "coefficients nfc t = Inr ?k"
    using mk by (simp add: coefficients_def vs)
  moreover have "affine_coefficients_valid nfc ?k"
    using valid by (simp add: affine_coefficients_valid_def vs)
  moreover have "(affine_x ?k (fst p) (snd p), affine_y ?k (fst p) (snd p)) = affine_of (coefficient_values t) p" for p
    by (simp add: affine_x_def affine_y_def affine_of_def vs eval_nat_numeral)
  ultimately show ?thesis by (rule that)
qed

section \<open>Mapping a box\<close>

text \<open>Points of the closed rectangle a half-open pixel box covers.\<close>

fun in_box :: "rat \<times> rat \<Rightarrow> box \<Rightarrow> bool" where
  "in_box (x, y) (x0, y0, x1, y1) \<longleftrightarrow>
     of_int x0 \<le> x \<and> x \<le> of_int x1 \<and> of_int y0 \<le> y \<and> y \<le> of_int y1"

fun box_le :: "box \<Rightarrow> box \<Rightarrow> bool" where
  "box_le (x0, y0, x1, y1) (p0, q0, p1, q1) \<longleftrightarrow> p0 \<le> x0 \<and> q0 \<le> y0 \<and> x1 \<le> p1 \<and> y1 \<le> q1"

lemma clamp_bounds: "0 \<le> w \<Longrightarrow> 0 \<le> clamp_to w v \<and> clamp_to w v \<le> w"
  by (auto simp: clamp_to_def)

lemma clamp_floor_le: "0 \<le> z \<Longrightarrow> m \<le> z \<Longrightarrow> of_int (clamp_to w \<lfloor>m\<rfloor>) \<le> (z :: rat)"
  by (auto simp: clamp_to_def max_def min_def not_le intro: order_trans [OF of_int_floor_le] order_trans [of _ "of_int \<lfloor>m\<rfloor>"])

lemma clamp_ceiling_ge: "0 \<le> w \<Longrightarrow> z \<le> of_int w \<Longrightarrow> z \<le> m \<Longrightarrow> z \<le> (of_int (clamp_to w \<lceil>m\<rceil>) :: rat)"
  by (auto simp: clamp_to_def max_def min_def not_le intro: order_trans [OF _ le_of_int_ceiling] order_trans [of _ "of_int \<lceil>m\<rceil>"])

lemma transformed_box_contains:
  assumes pt: "in_box (x, y) b" and src: "in_box (affine_x k x y, affine_y k x y) (0, 0, w, h)"
  shows "in_box (affine_x k x y, affine_y k x y) (transformed_box b k w h)"
proof -
  obtain x0 y0 x1 y1 where b: "b = (x0, y0, x1, y1)" by (cases b)
  have in_x: "of_int x0 \<le> x" "x \<le> of_int x1" and in_y: "of_int y0 \<le> y" "y \<le> of_int y1"
    using pt by (simp_all add: b)
  have s: "0 \<le> affine_x k x y" "affine_x k x y \<le> of_int w" "0 \<le> affine_y k x y" "affine_y k x y \<le> of_int h"
    using src by simp_all
  then have wh: "0 \<le> w" "0 \<le> h"
    by (metis of_int_0_le_iff order_trans)+
  note bx = affine_between [OF in_x in_y, of "fraction (ac_a k)" "fraction (ac_b k)" "fraction (ac_c k)", folded affine_x_def]
  note byy = affine_between [OF in_x in_y, of "fraction (ac_d k)" "fraction (ac_e k)" "fraction (ac_f k)", folded affine_y_def]
  show ?thesis
    using s wh bx byy by (simp add: b Let_def clamp_floor_le clamp_ceiling_ge)
qed

lemma transformed_box_least:
  assumes q: "0 \<le> p0" "p0 \<le> w" "0 \<le> q0" "q0 \<le> h" "0 \<le> p1" "0 \<le> q1"
    and all: "\<And>x y. in_box (x, y) b \<Longrightarrow> in_box (affine_x k x y, affine_y k x y) (p0, q0, p1, q1)"
    and b: "b = (x0, y0, x1, y1)" "x0 \<le> x1" "y0 \<le> y1"
  shows "box_le (transformed_box b k w h) (p0, q0, p1, q1)"
proof -
  have corner: "of_int p0 \<le> affine_x k x y \<and> affine_x k x y \<le> of_int p1 \<and>
      of_int q0 \<le> affine_y k x y \<and> affine_y k x y \<le> of_int q1"
    if "x \<in> {of_int x0, of_int x1}" "y \<in> {of_int y0, of_int y1}" for x y
    using all [of x y] that b by auto
  have "of_int p0 \<le> min4 (affine_x k (of_int x0) (of_int y0)) (affine_x k (of_int x0) (of_int y1))
         (affine_x k (of_int x1) (of_int y0)) (affine_x k (of_int x1) (of_int y1))"
    "max4 (affine_x k (of_int x0) (of_int y0)) (affine_x k (of_int x0) (of_int y1))
         (affine_x k (of_int x1) (of_int y0)) (affine_x k (of_int x1) (of_int y1)) \<le> of_int p1"
    "of_int q0 \<le> min4 (affine_y k (of_int x0) (of_int y0)) (affine_y k (of_int x0) (of_int y1))
         (affine_y k (of_int x1) (of_int y0)) (affine_y k (of_int x1) (of_int y1))"
    "max4 (affine_y k (of_int x0) (of_int y0)) (affine_y k (of_int x0) (of_int y1))
         (affine_y k (of_int x1) (of_int y0)) (affine_y k (of_int x1) (of_int y1)) \<le> of_int q1"
    using corner by (simp_all add: min4_def max4_def)
  then show ?thesis
    using q by (auto simp: b Let_def clamp_to_def le_floor_iff ceiling_le_iff intro: min.coboundedI2)
qed

lemma transformed_box_ok:
  assumes "transformed_box b k w h = (x0, y0, x1, y1)" "1 \<le> w" "w \<le> MAX_I31" "1 \<le> h" "h \<le> MAX_I31"
    and "x0 < x1" "y0 < y1"
  shows "box_ok (x0, y0, x1, y1) w h"
proof -
  obtain p0 q0 p1 q1 where b: "b = (p0, q0, p1, q1)" by (cases b)
  have "0 \<le> x0 \<and> x0 \<le> w \<and> 0 \<le> x1 \<and> x1 \<le> w \<and> 0 \<le> y0 \<and> y0 \<le> h \<and> 0 \<le> y1 \<and> y1 \<le> h"
    using assms(1,2,4) clamp_bounds [of w] clamp_bounds [of h] by (auto simp: b Let_def)
  with assms show ?thesis by (auto simp: box_ok_def)
qed

text \<open>The geometry \<open>map_box\<close> builds, once the source box is not empty.\<close>

definition mapped_geometry :: "detector_transform \<Rightarrow> affine_coefficients \<Rightarrow> box \<Rightarrow> string \<Rightarrow> geometry" where
  "mapped_geometry t k b measurement =
     \<lparr>ge_source_width = dt_source_width t, ge_source_height = dt_source_height t,
      ge_box_xyxy = transformed_box b k (dt_source_width t) (dt_source_height t),
      ge_measurement = measurement, ge_transform_kind = ''affine_rational'',
      ge_producer_space = Some \<lparr>ps_width = dt_detector_width t, ps_height = dt_detector_height t, ps_box_xyxy = b\<rparr>,
      ge_coefficients = Some k, ge_space = ''source_pixels''\<rparr>"

lemma literal_geometry_tokens:
  assumes "nfc_ascii nfc"
  shows "token_check nfc ''source_pixels'' p (Some [''source_pixels'']) = None"
    and "m \<in> set measurements \<Longrightarrow> token_check nfc m p (Some measurements) = None"
    and "token_check nfc ''affine_rational'' p (Some [''identity'', ''affine_rational'']) = None"
    and "token_check nfc ''identity'' p (Some [''identity'', ''affine_rational'']) = None"
  using assms
  by (auto simp: token_check_literal is_token_tail_def is_token_head_def is_upper_def is_lower_def
      is_digit_def is_ascii_def code_def MAX_TOKEN_BYTES_def measurements_def)

lemma map_box_eval:
  assumes nfc: "nfc_ascii nfc" and ok: "transform_ok t"
    and b: "box_ok b (dt_detector_width t) (dt_detector_height t)" and m: "m \<in> set measurements"
    and k: "coefficients nfc t = Inr k" "affine_coefficients_valid nfc k"
  shows "map_box nfc t b m =
      (if box_ok (transformed_box b k (dt_source_width t) (dt_source_height t)) (dt_source_width t) (dt_source_height t)
       then Inr (mapped_geometry t k b m) else Inl (CropError ''empty_source_box''))"
    and "box_ok (transformed_box b k (dt_source_width t) (dt_source_height t)) (dt_source_width t) (dt_source_height t) \<Longrightarrow>
      geometry_valid nfc (mapped_geometry t k b m)"
proof -
  obtain x0 y0 x1 y1 where tb: "transformed_box b k (dt_source_width t) (dt_source_height t) = (x0, y0, x1, y1)"
    by (metis prod_cases4)
  have dims: "1 \<le> dt_source_width t" "dt_source_width t \<le> MAX_I31" "1 \<le> dt_source_height t"
      "dt_source_height t \<le> MAX_I31" "1 \<le> dt_detector_width t" "dt_detector_width t \<le> MAX_I31"
      "1 \<le> dt_detector_height t" "dt_detector_height t \<le> MAX_I31"
    using ok by (simp_all add: transform_ok_def)
  have empty: "(x1 \<le> x0 \<or> y1 \<le> y0) \<longleftrightarrow> \<not> box_ok (x0, y0, x1, y1) (dt_source_width t) (dt_source_height t)"
    using transformed_box_ok [OF tb dims(1-4)]
    by (cases "x0 < x1"; cases "y0 < y1") (auto simp: box_ok_def)
  have space: "producer_space_post \<lparr>ps_width = dt_detector_width t, ps_height = dt_detector_height t, ps_box_xyxy = b\<rparr> = None"
    using dims b by (simp add: producer_space_post_def outcome)
  have post: "geometry_post nfc (mapped_geometry t k b m) = None"
    if "box_ok (x0, y0, x1, y1) (dt_source_width t) (dt_source_height t)"
    using dims that literal_geometry_tokens [OF nfc] m
    by (simp add: geometry_post_def mapped_geometry_def tb validate_box_None bounded_int_check_None
        del: validate_box.simps)
  have guards: "crop_box_check b (dt_detector_width t) (dt_detector_height t) ''invalid_detector_box'' = None"
      "measurement_check m = None"
    using dims b m by (simp_all add: crop_box_check_None measurement_check_None)
  show "map_box nfc t b m =
      (if box_ok (transformed_box b k (dt_source_width t) (dt_source_height t)) (dt_source_width t) (dt_source_height t)
       then Inr (mapped_geometry t k b m) else Inl (CropError ''empty_source_box''))"
    using post space empty guards
    by (simp add: map_box_def source_box_def k tb mapped_geometry_def)
  show "geometry_valid nfc (mapped_geometry t k b m)"
    if "box_ok (transformed_box b k (dt_source_width t) (dt_source_height t)) (dt_source_width t) (dt_source_height t)"
    using post space that k(2) by (simp add: geometry_valid_def tb) (simp add: mapped_geometry_def)
qed

section \<open>Crops and destinations\<close>

lemma slice_nth: "stop \<le> length xs \<Longrightarrow> start + i < stop \<Longrightarrow> slice start stop xs ! i = xs ! (start + i)"
  by (simp add: slice_def)

lemma length_slice [simp]: "stop \<le> length xs \<Longrightarrow> length (slice start stop xs) = stop - start"
  by (simp add: slice_def)

lemma length_concat_rows:
  "(\<And>r. r \<in> set rows \<Longrightarrow> length r = n) \<Longrightarrow> length (concat rows) = length rows * n"
  by (induction rows) auto

lemma nth_concat_rows:
  assumes "\<And>r. r \<in> set rows \<Longrightarrow> length r = n" and "j < length rows" and "i < n"
  shows "concat rows ! (j * n + i) = rows ! j ! i"
  using assms
proof (induction rows arbitrary: j)
  case (Cons r rows)
  then show ?case by (cases j) (auto simp: nth_append algebra_simps)
qed simp

text \<open>The rows of a crop, over natural numbers.\<close>

lemma row_bounds:
  fixes x y w h :: nat
  assumes "y < h" and "x \<le> w * 3"
  shows "y * (w * 3) + x \<le> w * h * 3"
proof -
  have "(y + 1) * (w * 3) \<le> h * (w * 3)"
    using assms(1) by (intro mult_right_mono) simp_all
  with assms(2) show ?thesis by (simp add: algebra_simps)
qed

lemma crop_rows_nat:
  "crop_rows frame (int w) (int x0, int y0, int x1, int y1) =
     concat (map (\<lambda>y. slice (y * (w * 3) + x0 * 3) (y * (w * 3) + x1 * 3) frame) [y0..<y1])"
proof -
  have "nat (int y * (int w * 3) + int x * 3) = y * (w * 3) + x * 3" for x y
    by (metis nat_int of_nat_add of_nat_mult of_nat_numeral)
  then show ?thesis by simp
qed

lemma crop_rows_spec:
  assumes len: "length frame = w * h * 3" and x: "x0 \<le> x1" "x1 \<le> w" and y: "y0 \<le> y1" "y1 \<le> h"
  defines "rows \<equiv> map (\<lambda>y. slice (y * (w * 3) + x0 * 3) (y * (w * 3) + x1 * 3) frame) [y0..<y1]"
  shows "length (concat rows) = (y1 - y0) * ((x1 - x0) * 3)"
    and "j < y1 - y0 \<Longrightarrow> i < x1 - x0 \<Longrightarrow> c < 3 \<Longrightarrow>
      concat rows ! (j * ((x1 - x0) * 3) + (i * 3 + c)) = frame ! ((y0 + j) * (w * 3) + (x0 + i) * 3 + c)"
proof -
  have fits: "y * (w * 3) + x1 * 3 \<le> length frame" if "y < y1" for y
    using row_bounds [of y h "x1 * 3" w] that x y by (simp add: len)
  have row: "length r = (x1 - x0) * 3" if "r \<in> set rows" for r
    using that fits by (auto simp: rows_def diff_mult_distrib)
  have "length (concat rows) = length rows * ((x1 - x0) * 3)"
    by (rule length_concat_rows [OF row])
  then show "length (concat rows) = (y1 - y0) * ((x1 - x0) * 3)"
    by (simp add: rows_def)
  assume j: "j < y1 - y0" and i: "i < x1 - x0" and c: "c < 3"
  have inner: "i * 3 + c < (x1 - x0) * 3" using i c by linarith
  have "concat rows ! (j * ((x1 - x0) * 3) + (i * 3 + c)) = rows ! j ! (i * 3 + c)"
    using nth_concat_rows [of rows "(x1 - x0) * 3" j "i * 3 + c"] row j inner by (simp add: rows_def)
  also have "\<dots> = frame ! ((y0 + j) * (w * 3) + (x0 + i) * 3 + c)"
    using fits [of "y0 + j"] j i c inner x
    by (subst rows_def, subst nth_map, simp, subst slice_nth) (simp_all add: add_ac add_mult_distrib)
  finally show "concat rows ! (j * ((x1 - x0) * 3) + (i * 3 + c)) = frame ! ((y0 + j) * (w * 3) + (x0 + i) * 3 + c)" .
qed

lemma split_on_not_Nil [simp]: "split_on sep s \<noteq> []"
  by (induction s) (auto split: list.splits)

fun join_on :: "char \<Rightarrow> string list \<Rightarrow> string" where
  "join_on sep [] = []"
| "join_on sep [part] = part"
| "join_on sep (part # q # parts) = part @ [sep] @ join_on sep (q # parts)"

lemma join_on_Cons: "join_on sep ((c # part) # parts) = c # join_on sep (part # parts)"
  by (cases parts) auto

lemma join_split_on: "join_on sep (split_on sep s) = s"
proof (induction s)
  case (Cons c s)
  obtain part parts where "split_on sep s = part # parts"
    by (cases "split_on sep s") simp_all
  with Cons show ?case by (cases parts) (auto simp: join_on_Cons)
qed simp

lemma split_on_no_sep: "\<forall>part \<in> set (split_on sep s). sep \<notin> set part"
  by (induction s) (auto split: list.splits)

section \<open>Properties\<close>

lemma coefficients_inverse:
  assumes nfc: "nfc_ascii nfc" and ok: "transform_ok t"
  obtains k where "coefficients nfc t = Inr k" "affine_coefficients_valid nfc k"
    "\<And>p. (affine_x k (fst (detector_point t p)) (snd (detector_point t p)),
          affine_y k (fst (detector_point t p)) (snd (detector_point t p))) = p"
proof -
  obtain k where k: "coefficients nfc t = Inr k" "affine_coefficients_valid nfc k"
    "\<And>p. (affine_x k (fst p) (snd p), affine_y k (fst p) (snd p)) = affine_of (coefficient_values t) p"
    using coefficients_ok [OF nfc ok] by blast
  have "(affine_x k (fst (detector_point t p)) (snd (detector_point t p)),
         affine_y k (fst (detector_point t p)) (snd (detector_point t p))) = p" for p
    by (simp only: k(3) coefficient_values_invert [OF ok])
  with k(1,2) show ?thesis by (rule that)
qed

text \<open>
  C30: the affine coefficients of a constructed transform are representable as validated rationals,
  and the map they denote is the exact inverse of the display pipeline (clockwise quarter turn of
  the source, then resize onto the content box), at every rational point and for every rotation.
\<close>

theorem coefficients_invert_display:
  assumes "nfc_ascii nfc"
    and "detector_transform_create sw sh dw dh rotation content = Inr t"
  shows "\<exists>k. coefficients nfc t = Inr k \<and> affine_coefficients_valid nfc k \<and>
     (\<forall>p. case detector_point t p of (u, v) \<Rightarrow> (affine_x k u v, affine_y k u v) = p)"
proof -
  obtain k where "coefficients nfc t = Inr k" "affine_coefficients_valid nfc k"
    "\<And>p. (affine_x k (fst (detector_point t p)) (snd (detector_point t p)),
          affine_y k (fst (detector_point t p)) (snd (detector_point t p))) = p"
    using coefficients_inverse [OF assms(1) detector_transform_create_ok [OF assms(2)]] by blast
  then show ?thesis by (intro exI [of _ k]) (simp add: case_prod_beta)
qed

definition example_transform :: detector_transform where
  "example_transform = \<lparr>dt_source_width = 640, dt_source_height = 480, dt_detector_width = 416,
     dt_detector_height = 416, dt_rotation_degrees = 90, dt_content_box_xyxy = (52, 0, 364, 416)\<rparr>"

lemma example_transform_create:
  "detector_transform_create 640 480 416 416 450 (Some (52, 0, 364, 416)) = Inr example_transform"
  by (simp add: detector_transform_create_def dimension_check_def MAX_I31_def example_transform_def)

lemma nfc_ascii_id: "nfc_ascii id"
  by (simp add: nfc_ascii_def)

lemma coefficients_invert_display_witness:
  "\<exists>k. coefficients id example_transform = Inr k \<and> affine_coefficients_valid id k \<and>
     (\<forall>p. case detector_point example_transform p of (u, v) \<Rightarrow> (affine_x k u v, affine_y k u v) = p)"
  by (rule coefficients_invert_display [OF nfc_ascii_id example_transform_create])

lemma map_box_Inr:
  assumes nfc: "nfc_ascii nfc" and ok: "transform_ok t" and g: "map_box nfc t b m = Inr g"
  obtains k where "coefficients nfc t = Inr k" "g = mapped_geometry t k b m"
    "\<And>p. (affine_x k (fst (detector_point t p)) (snd (detector_point t p)),
          affine_y k (fst (detector_point t p)) (snd (detector_point t p))) = p"
    "geometry_valid nfc g" "box_ok (ge_box_xyxy g) (dt_source_width t) (dt_source_height t)"
proof -
  obtain k where k: "coefficients nfc t = Inr k" "affine_coefficients_valid nfc k"
    "\<And>p. (affine_x k (fst (detector_point t p)) (snd (detector_point t p)),
          affine_y k (fst (detector_point t p)) (snd (detector_point t p))) = p"
    using coefficients_inverse [OF nfc ok] by blast
  have "crop_box_check b (dt_detector_width t) (dt_detector_height t) ''invalid_detector_box'' = None"
    "measurement_check m = None"
    using g by (auto simp: map_box_def bindE_Inr_iff checked_Inr_iff)
  then have b: "box_ok b (dt_detector_width t) (dt_detector_height t)" and m: "m \<in> set measurements"
    using ok by (simp_all add: crop_box_check_None measurement_check_None transform_ok_def)
  note eval = map_box_eval [OF nfc ok b m k(1,2)]
  have box: "box_ok (transformed_box b k (dt_source_width t) (dt_source_height t)) (dt_source_width t) (dt_source_height t)"
    and "g = mapped_geometry t k b m"
    using g eval(1) by (auto split: if_splits)
  with eval(2) [OF box] show ?thesis
    by (intro that [OF k(1) _ k(3)]) (simp_all add: mapped_geometry_def)
qed

text \<open>
  C25: a box \<open>map_box\<close> returns passes every check of \<open>Geometry\<close>, lies in the source frame, and misses
  no source pixel the detector box covers: every point of the source frame whose display position
  falls in the detector box lies in the mapped box.
\<close>

theorem map_box_covers:
  assumes nfc: "nfc_ascii nfc"
    and t: "detector_transform_create sw sh dw dh rotation content = Inr t"
    and g: "map_box nfc t b m = Inr g"
  shows "geometry_valid nfc g \<and> box_ok (ge_box_xyxy g) sw sh \<and>
    (\<forall>p. in_box p (0, 0, sw, sh) \<longrightarrow> in_box (detector_point t p) b \<longrightarrow> in_box p (ge_box_xyxy g))"
proof -
  obtain k where k: "g = mapped_geometry t k b m" "geometry_valid nfc g"
      "box_ok (ge_box_xyxy g) (dt_source_width t) (dt_source_height t)"
      "\<And>p. (affine_x k (fst (detector_point t p)) (snd (detector_point t p)),
          affine_y k (fst (detector_point t p)) (snd (detector_point t p))) = p"
    using map_box_Inr [OF nfc detector_transform_create_ok [OF t] g] by blast
  have dims: "dt_source_width t = sw" "dt_source_height t = sh"
    using t by (auto simp: detector_transform_create_def checked_Inr_iff)
  have "in_box p (ge_box_xyxy g)" if "in_box p (0, 0, sw, sh)" "in_box (detector_point t p) b" for p
    using transformed_box_contains [of "fst (detector_point t p)" "snd (detector_point t p)" b k sw sh] that
    by (simp add: k(1,4) mapped_geometry_def dims del: in_box.simps)
  with k dims show ?thesis by simp
qed

lemma detector_corners:
  fixes l u r lo :: int
  assumes b: "dt_content_box_xyxy t = (l, u, r, lo)" and wh: "w = of_int (dt_source_width t)" "h = of_int (dt_source_height t)"
    and nz: "w \<noteq> 0" "h \<noteq> 0"
  shows "dt_rotation_degrees t = 0 \<Longrightarrow>
      detector_point t (0, 0) = (of_int l, of_int u) \<and> detector_point t (0, h) = (of_int l, of_int lo) \<and>
      detector_point t (w, 0) = (of_int r, of_int u) \<and> detector_point t (w, h) = (of_int r, of_int lo)"
    and "dt_rotation_degrees t = 90 \<Longrightarrow>
      detector_point t (0, h) = (of_int l, of_int u) \<and> detector_point t (w, h) = (of_int l, of_int lo) \<and>
      detector_point t (0, 0) = (of_int r, of_int u) \<and> detector_point t (w, 0) = (of_int r, of_int lo)"
    and "dt_rotation_degrees t = 180 \<Longrightarrow>
      detector_point t (w, h) = (of_int l, of_int u) \<and> detector_point t (w, 0) = (of_int l, of_int lo) \<and>
      detector_point t (0, h) = (of_int r, of_int u) \<and> detector_point t (0, 0) = (of_int r, of_int lo)"
    and "dt_rotation_degrees t = 270 \<Longrightarrow>
      detector_point t (w, 0) = (of_int l, of_int u) \<and> detector_point t (0, 0) = (of_int l, of_int lo) \<and>
      detector_point t (w, h) = (of_int r, of_int u) \<and> detector_point t (0, h) = (of_int r, of_int lo)"
  using b nz unfolding wh by (simp_all add: detector_point_def display_size_def Let_def)

lemma transformed_content:
  assumes ok: "transform_ok t"
    and inv: "\<And>p. (affine_x k (fst (detector_point t p)) (snd (detector_point t p)),
          affine_y k (fst (detector_point t p)) (snd (detector_point t p))) = p"
  shows "transformed_box (dt_content_box_xyxy t) k (dt_source_width t) (dt_source_height t) =
     (0, 0, dt_source_width t, dt_source_height t)"
proof -
  obtain l u r lo where b: "dt_content_box_xyxy t = (l, u, r, lo)"
    by (cases "dt_content_box_xyxy t")
  define w h :: rat where "w = of_int (dt_source_width t)" and "h = of_int (dt_source_height t)"
  have pos: "0 < w" "0 < h" using ok by (simp_all add: transform_ok_def w_def h_def)
  then have nz: "w \<noteq> 0" "h \<noteq> 0" by simp_all
  have image: "affine_x k x y = fst p \<and> affine_y k x y = snd p" if "detector_point t p = (x, y)" for p x y
    using inv [of p] by (simp add: that) (metis fst_conv snd_conv)
  note corners = detector_corners [OF b w_def h_def nz]
  have size: "clamp_to (dt_source_width t) \<lfloor>0::rat\<rfloor> = 0" "clamp_to (dt_source_height t) \<lfloor>0::rat\<rfloor> = 0"
      "clamp_to (dt_source_width t) \<lceil>w\<rceil> = dt_source_width t" "clamp_to (dt_source_height t) \<lceil>h\<rceil> = dt_source_height t"
    using ok by (simp_all add: transform_ok_def clamp_to_def w_def h_def)
  have extremes: "min4 0 0 z z = 0" "min4 z z 0 0 = 0" "min4 0 z 0 z = 0" "min4 z 0 z 0 = 0"
     "max4 0 0 z z = z" "max4 z z 0 0 = z" "max4 0 z 0 z = z" "max4 z 0 z 0 = z" if "0 < z" for z :: rat
    using that by (simp_all add: min4_def max4_def)
  consider "dt_rotation_degrees t = 0" | "dt_rotation_degrees t = 90" | "dt_rotation_degrees t = 180"
    | "dt_rotation_degrees t = 270"
    using ok by (auto simp: transform_ok_def)
  then show ?thesis
  proof cases
    case 1
    note c = corners(1) [OF 1]
    note vals = c [THEN conjunct1, THEN image] c [THEN conjunct2, THEN conjunct1, THEN image]
      c [THEN conjunct2, THEN conjunct2, THEN conjunct1, THEN image] c [THEN conjunct2, THEN conjunct2, THEN conjunct2, THEN image]
    show ?thesis using vals size extremes [OF pos(1)] extremes [OF pos(2)] by (simp add: b Let_def)
  next
    case 2
    note c = corners(2) [OF 2]
    note vals = c [THEN conjunct1, THEN image] c [THEN conjunct2, THEN conjunct1, THEN image]
      c [THEN conjunct2, THEN conjunct2, THEN conjunct1, THEN image] c [THEN conjunct2, THEN conjunct2, THEN conjunct2, THEN image]
    show ?thesis using vals size extremes [OF pos(1)] extremes [OF pos(2)] by (simp add: b Let_def)
  next
    case 3
    note c = corners(3) [OF 3]
    note vals = c [THEN conjunct1, THEN image] c [THEN conjunct2, THEN conjunct1, THEN image]
      c [THEN conjunct2, THEN conjunct2, THEN conjunct1, THEN image] c [THEN conjunct2, THEN conjunct2, THEN conjunct2, THEN image]
    show ?thesis using vals size extremes [OF pos(1)] extremes [OF pos(2)] by (simp add: b Let_def)
  next
    case 4
    note c = corners(4) [OF 4]
    note vals = c [THEN conjunct1, THEN image] c [THEN conjunct2, THEN conjunct1, THEN image]
      c [THEN conjunct2, THEN conjunct2, THEN conjunct1, THEN image] c [THEN conjunct2, THEN conjunct2, THEN conjunct2, THEN image]
    show ?thesis using vals size extremes [OF pos(1)] extremes [OF pos(2)] by (simp add: b Let_def)
  qed
qed

text \<open>
  C34: the content box is mapped to the whole source frame, for every rotation and scale, so nothing
  of the frame is lost and the letterbox padding adds nothing.
\<close>

theorem map_box_full_content:
  assumes nfc: "nfc_ascii nfc"
    and t: "detector_transform_create sw sh dw dh rotation content = Inr t" and m: "m \<in> set measurements"
  shows "\<exists>g. map_box nfc t (dt_content_box_xyxy t) m = Inr g \<and> ge_box_xyxy g = (0, 0, sw, sh)"
proof -
  have ok: "transform_ok t" by (rule detector_transform_create_ok [OF t])
  obtain k where k: "coefficients nfc t = Inr k" "affine_coefficients_valid nfc k"
    "\<And>p. (affine_x k (fst (detector_point t p)) (snd (detector_point t p)),
          affine_y k (fst (detector_point t p)) (snd (detector_point t p))) = p"
    using coefficients_inverse [OF nfc ok] by blast
  have b: "box_ok (dt_content_box_xyxy t) (dt_detector_width t) (dt_detector_height t)"
    using ok by (simp add: transform_ok_def)
  have full: "transformed_box (dt_content_box_xyxy t) k (dt_source_width t) (dt_source_height t) =
      (0, 0, dt_source_width t, dt_source_height t)"
    by (rule transformed_content [OF ok k(3)])
  have dims: "dt_source_width t = sw" "dt_source_height t = sh"
    using t by (auto simp: detector_transform_create_def checked_Inr_iff)
  have "box_ok (0, 0, sw, sh) sw sh"
    using ok by (simp add: transform_ok_def box_ok_def dims)
  then show ?thesis
    using map_box_eval(1) [OF nfc ok b m k(1,2)] by (simp add: full [unfolded dims] dims mapped_geometry_def)
qed

lemma map_box_full_content_witness:
  "\<exists>g. map_box id example_transform (52, 0, 364, 416) ''calibrated'' = Inr g \<and> ge_box_xyxy g = (0, 0, 640, 480)"
  using map_box_full_content [OF nfc_ascii_id example_transform_create, of "''calibrated''"]
  by (simp add: measurements_def) (simp add: example_transform_def)

text \<open>A second, independent evaluation of the same input.\<close>

lemma example_map_box: "\<exists>g. map_box id example_transform (52, 0, 364, 416) ''calibrated'' = Inr g"
proof -
  have ok: "transform_ok example_transform"
    by (rule detector_transform_create_ok [OF example_transform_create])
  obtain k where k: "coefficients id example_transform = Inr k" "affine_coefficients_valid id k"
    "\<And>p. (affine_x k (fst (detector_point example_transform p)) (snd (detector_point example_transform p)),
          affine_y k (fst (detector_point example_transform p)) (snd (detector_point example_transform p))) = p"
    using coefficients_inverse [OF nfc_ascii_id ok] by blast
  have "box_ok (52, 0, 364, 416) (dt_detector_width example_transform) (dt_detector_height example_transform)"
    by (simp add: example_transform_def box_ok_def MAX_I31_def)
  from map_box_eval(1) [OF nfc_ascii_id ok this _ k(1,2), of "''calibrated''"] transformed_content [OF ok k(3)]
  show ?thesis
    by (simp add: measurements_def) (simp add: example_transform_def box_ok_def MAX_I31_def)
qed

lemma map_box_covers_witness:
  "\<exists>g. map_box id example_transform (52, 0, 364, 416) ''calibrated'' = Inr g \<and> geometry_valid id g \<and>
     box_ok (ge_box_xyxy g) 640 480 \<and>
     (\<forall>p. in_box p (0, 0, 640, 480) \<longrightarrow> in_box (detector_point example_transform p) (52, 0, 364, 416) \<longrightarrow>
        in_box p (ge_box_xyxy g))"
  using example_map_box map_box_covers [OF nfc_ascii_id example_transform_create] by blast

lemma extract_crop_spec:
  assumes g: "geometry_valid nfc g" "ge_box_xyxy g = (x0, y0, x1, y1)"
    and frame: "int (length frame) = ge_source_width g * ge_source_height g * 3"
  shows "\<exists>c. extract_rgb24_crop frame (ge_source_width g) (ge_source_height g) g = Inr c \<and>
     cr_width c = x1 - x0 \<and> cr_height c = y1 - y0 \<and> cr_sha256 c = sha256_hex (cr_pixels c) \<and>
     int (length (cr_pixels c)) = cr_width c * cr_height c * 3 \<and>
     (\<forall>i j ch. i < nat (x1 - x0) \<longrightarrow> j < nat (y1 - y0) \<longrightarrow> ch < 3 \<longrightarrow>
        cr_pixels c ! ((j * nat (x1 - x0) + i) * 3 + ch) =
        frame ! (((nat y0 + j) * nat (ge_source_width g) + (nat x0 + i)) * 3 + ch))"
proof -
  have "geometry_post nfc g = None" using g by (simp add: geometry_valid_def)
  then have dims: "1 \<le> ge_source_width g" "ge_source_width g \<le> MAX_I31" "1 \<le> ge_source_height g"
      "ge_source_height g \<le> MAX_I31" and box: "box_ok (x0, y0, x1, y1) (ge_source_width g) (ge_source_height g)"
    by (simp_all add: geometry_post_def bounded_int_check_None validate_box_None g(2) del: validate_box.simps)
  define w h a b c d where n: "w = nat (ge_source_width g)" "h = nat (ge_source_height g)"
      "a = nat x0" "b = nat y0" "c = nat x1" "d = nat y1"
  have ints: "ge_source_width g = int w" "ge_source_height g = int h" "x0 = int a" "y0 = int b" "x1 = int c" "y1 = int d"
    using dims box by (simp_all add: n box_ok_def)
  have ord: "a \<le> c" "c \<le> w" "b \<le> d" "d \<le> h" "a < c" "b < d"
    using box by (simp_all add: ints box_ok_def)
  have "int (length frame) = int (w * h * 3)"
    using frame by (simp add: ints)
  then have len: "length frame = w * h * 3"
    by (simp only: of_nat_eq_iff)
  define pixels where "pixels = concat (map (\<lambda>y. slice (y * (w * 3) + a * 3) (y * (w * 3) + c * 3) frame) [b..<d])"
  note spec = crop_rows_spec [OF len ord(1-4), folded pixels_def]
  have rows: "crop_rows frame (ge_source_width g) (x0, y0, x1, y1) = pixels"
    unfolding pixels_def ints by (rule crop_rows_nat)
  have checks: "dimension_check (ge_source_width g) = None" "dimension_check (ge_source_height g) = None"
      "dimension_check (x1 - x0) = None" "dimension_check (y1 - y0) = None"
    using dims box by (simp_all add: dimension_check_None box_ok_def)
  have plen: "int (length pixels) = (x1 - x0) * (y1 - y0) * 3"
    using ord by (simp add: spec(1) ints of_nat_diff)
  have "extract_rgb24_crop frame (ge_source_width g) (ge_source_height g) g =
      Inr \<lparr>cr_width = x1 - x0, cr_height = y1 - y0, cr_pixels = pixels, cr_sha256 = sha256_hex pixels\<rparr>"
    using checks frame plen rows
    by (simp add: extract_rgb24_crop_def rgb24_crop_create_def g(2) del: crop_rows.simps)
  moreover have "pixels ! ((j * nat (x1 - x0) + i) * 3 + ch) = frame ! (((b + j) * w + (a + i)) * 3 + ch)"
    if "i < nat (x1 - x0)" "j < nat (y1 - y0)" "ch < 3" for i j ch
    using spec(2) [of j i ch] that ord by (simp add: ints nat_diff_distrib algebra_simps)
  ultimately show ?thesis
    using plen by (simp add: n)
qed

text \<open>
  C31: cropping a full frame by a validated geometry of the same size always succeeds and copies byte
  for byte: channel \<open>ch\<close> of pixel \<open>(i, j)\<close> of the crop is that of pixel \<open>(x0 + i, y0 + j)\<close> of the
  frame, the crop has the size of the box, and its digest is that of its pixels.
\<close>

theorem crop_copies_box:
  assumes g: "geometry_valid nfc g" "ge_box_xyxy g = (x0, y0, x1, y1)"
    and frame: "int (length frame) = ge_source_width g * ge_source_height g * 3"
  shows "\<exists>c. extract_rgb24_crop frame (ge_source_width g) (ge_source_height g) g = Inr c \<and>
     cr_width c = x1 - x0 \<and> cr_height c = y1 - y0 \<and> cr_sha256 c = sha256_hex (cr_pixels c) \<and>
     int (length (cr_pixels c)) = cr_width c * cr_height c * 3 \<and>
     (\<forall>i j ch. i < nat (x1 - x0) \<longrightarrow> j < nat (y1 - y0) \<longrightarrow> ch < 3 \<longrightarrow>
        cr_pixels c ! ((j * nat (x1 - x0) + i) * 3 + ch) =
        frame ! (((nat y0 + j) * nat (ge_source_width g) + (nat x0 + i)) * 3 + ch))"
  by (rule extract_crop_spec [OF assms])

definition example_geometry :: geometry where
  "example_geometry = \<lparr>ge_source_width = 2, ge_source_height = 1, ge_box_xyxy = (1, 0, 2, 1),
     ge_measurement = ''measured'', ge_transform_kind = ''identity'', ge_producer_space = None,
     ge_coefficients = None, ge_space = ''source_pixels''\<rparr>"

lemma example_geometry_valid: "geometry_valid id example_geometry"
  using literal_geometry_tokens [OF nfc_ascii_id]
  by (simp add: geometry_valid_def geometry_post_def example_geometry_def measurements_def bounded_int_check_None MAX_I31_def)

lemma crop_copies_box_witness:
  "\<exists>c. extract_rgb24_crop ''abcdef'' 2 1 example_geometry = Inr c \<and> cr_width c = 1 \<and> cr_pixels c ! 2 = CHR ''f''"
proof -
  have "\<exists>c. extract_rgb24_crop ''abcdef'' 2 1 example_geometry = Inr c \<and> cr_width c = 1 \<and>
      (\<forall>i j ch. i < nat 1 \<longrightarrow> j < nat 1 \<longrightarrow> ch < 3 \<longrightarrow>
        cr_pixels c ! ((j * nat 1 + i) * 3 + ch) = ''abcdef'' ! ((j * nat 2 + (1 + i)) * 3 + ch))"
    using crop_copies_box [OF example_geometry_valid, of 1 0 2 1 "''abcdef''"]
    by (simp add: example_geometry_def) blast
  then obtain c where c: "extract_rgb24_crop ''abcdef'' 2 1 example_geometry = Inr c" "cr_width c = 1"
    and px: "\<And>i j ch. i < nat 1 \<Longrightarrow> j < nat 1 \<Longrightarrow> ch < 3 \<Longrightarrow>
        cr_pixels c ! ((j * nat 1 + i) * 3 + ch) = ''abcdef'' ! ((j * nat 2 + (1 + i)) * 3 + ch)" by blast
  have "cr_pixels c ! 2 = CHR ''f''" using px [of 0 0 2] by (simp add: numeral_2_eq_2)
  with c show ?thesis by blast
qed

lemma crop_artifact_ok:
  assumes nfc: "nfc_ascii nfc" and g: "geometry_valid nfc g" "ge_box_xyxy g = (x0, y0, x1, y1)"
    and c: "rgb24_crop_create (x1 - x0) (y1 - y0) pixels = Inr c"
  shows "\<exists>a. crop_artifact nfc c = Inr a \<and> artifact_post nfc a = None \<and> ar_sha256 a = sha256_hex pixels"
proof -
  have dims: "1 \<le> x1 - x0" "x1 - x0 \<le> MAX_I31" "1 \<le> y1 - y0" "y1 - y0 \<le> MAX_I31"
    and len: "int (length pixels) = (x1 - x0) * (y1 - y0) * 3"
    and c': "c = \<lparr>cr_width = x1 - x0, cr_height = y1 - y0, cr_pixels = pixels, cr_sha256 = sha256_hex pixels\<rparr>"
    using c by (simp_all add: rgb24_crop_create_def checked_Inr_iff dimension_check_None)
  have "(x1 - x0) * (y1 - y0) \<le> MAX_I31 * MAX_I31"
    using dims by (intro mult_mono) simp_all
  then have "int (length pixels) \<le> MAX_U64"
    by (simp add: len bound_defs)
  then have "decimal_check nfc (show_int (int (length pixels))) False 0 MAX_U64 ''artifact.bytes'' = None"
    by (intro decimal_check_show_int [OF nfc]) (simp_all add: bound_defs)
  moreover have "general_ok nfc (sha256_hex pixels)"
    using is_sha256_ascii [OF is_sha256_sha256_hex [of pixels]]
    by (rule general_ok_ascii [OF nfc]) (simp add: MAX_GENERAL_STRING_BYTES_def)
  moreover have "token_check nfc RGB24_MEDIA_TYPE ''artifact.media_type'' (Some [RGB24_MEDIA_TYPE]) = None"
    using nfc by (simp add: token_check_literal RGB24_MEDIA_TYPE_def is_token_tail_def is_token_head_def
        is_upper_def is_lower_def is_digit_def is_ascii_def code_def MAX_TOKEN_BYTES_def)
  ultimately have "artifact_post nfc \<lparr>ar_sha256 = sha256_hex pixels, ar_bytes = show_int (int (length pixels)),
      ar_media_type = RGB24_MEDIA_TYPE\<rparr> = None"
    by (simp add: artifact_post_def sha256_check_None)
  then show ?thesis by (simp add: crop_artifact_def c')
qed

text \<open>
  C36: a destination name \<open>write_rgb24_crop\<close> accepts is a relative path of at most 16 plain components:
  joining the parts with slashes gives the name back, and no part is empty, a dot name, or contains
  a separator, so the name cannot leave the artifact root.
\<close>

theorem destination_parts_safe:
  assumes "destination_parts value = Inr parts"
  shows "join_on (CHR ''/'') parts = value \<and> parts \<noteq> [] \<and> length parts \<le> 16 \<and>
     (\<forall>part \<in> set parts. part \<notin> {[], ''.'', ''..''} \<and> CHR ''/'' \<notin> set part \<and> CHR 0x5C \<notin> set part \<and>
        length part \<le> 128)"
proof -
  have parts: "parts = split_on (CHR ''/'') value" and len: "length parts \<le> 16"
    and ok: "\<forall>part \<in> set parts. part \<notin> {[], ''.'', ''..''} \<and> is_component part"
    using assms
    by (auto simp: destination_parts_def Let_def checked_Inr_iff MAX_DESTINATION_DEPTH_def list_all_iff)
  have component: "CHR 0x5C \<notin> set part \<and> length part \<le> 128" if "is_component part" for part
    using that
    by (cases part) (auto simp: is_component_tail_def is_token_head_def is_upper_def is_lower_def is_digit_def
        code_def list_all_iff)
  show ?thesis
    using join_split_on [of "CHR ''/''" "value"] split_on_no_sep [of "CHR ''/''" "value"] len ok component
    by (auto simp: parts)
qed

lemma destination_parts_safe_witness:
  "destination_parts ''crops/frame-1.rgb'' = Inr [''crops'', ''frame-1.rgb''] \<and>
   join_on (CHR ''/'') [''crops'', ''frame-1.rgb''] = ''crops/frame-1.rgb''"
proof -
  have d: "destination_parts ''crops/frame-1.rgb'' = Inr [''crops'', ''frame-1.rgb'']"
    by (simp add: destination_parts_def MAX_DESTINATION_BYTES_def MAX_DESTINATION_DEPTH_def is_component_tail_def
        is_token_head_def is_upper_def is_lower_def is_digit_def code_def is_ascii_def)
  from destination_parts_safe [OF d] d show ?thesis by blast
qed

end
