(* ===== verification/Geometry_Images.thy ===== *)
theory Geometry_Images
  imports Geometry
begin

text \<open>
  The image of a detector box in the source frame: an axis-parallel rectangle with rational corners, of
  which \<open>map_box\<close> keeps the pixels it meets.  When \<open>map_box\<close> refuses a box, and when it returns.
\<close>

section \<open>The axes of the display pipeline\<close>

lemma detector_axes:
  assumes ok: "transform_ok t"
  obtains swapped and a1 b1 a2 b2 :: rat where "b1 \<noteq> 0" "b2 \<noteq> 0"
    "\<And>p. detector_point t p =
       (a1 + b1 * (if swapped then snd p else fst p), a2 + b2 * (if swapped then fst p else snd p))"
proof -
  obtain l u r lo where b: "dt_content_box_xyxy t = (l, u, r, lo)" by (cases "dt_content_box_xyxy t")
  define w h :: rat where "w = of_int (dt_source_width t)" and "h = of_int (dt_source_height t)"
  define cx cy :: rat where "cx = of_int (r - l)" and "cy = of_int (lo - u)"
  have nz: "cx \<noteq> 0" "cy \<noteq> 0" "w \<noteq> 0" "h \<noteq> 0"
    using transform_nonzero [OF ok b] by (simp_all only: cx_def cy_def w_def h_def not_False_eq_True)
  have c: "(of_int r :: rat) = of_int l + cx" "(of_int lo :: rat) = of_int u + cy" by (simp_all add: cx_def cy_def)
  note point = detector_point_def display_size_def b Let_def c
  consider "dt_rotation_degrees t = 0" | "dt_rotation_degrees t = 90" | "dt_rotation_degrees t = 180"
    | "dt_rotation_degrees t = 270"
    using ok by (auto simp: transform_ok_def)
  then show ?thesis
  proof cases
    case 1
    show ?thesis
      by (rule that [of "cx / w" "cy / h" "of_int l" False "of_int u"])
        (use 1 nz in \<open>auto simp: point simp flip: w_def h_def\<close>)
  next
    case 2
    show ?thesis
      by (rule that [of "- cx / h" "cy / w" "of_int l + cx" True "of_int u"])
        (use 2 nz in \<open>auto simp: point field_simps simp flip: w_def h_def\<close>)
  next
    case 3
    show ?thesis
      by (rule that [of "- cx / w" "- cy / h" "of_int l + cx" False "of_int u + cy"])
        (use 3 nz in \<open>auto simp: point field_simps simp flip: w_def h_def\<close>)
  next
    case 4
    show ?thesis
      by (rule that [of "cx / h" "- cy / w" "of_int l" True "of_int u + cy"])
        (use 4 nz in \<open>auto simp: point field_simps simp flip: w_def h_def\<close>)
  qed
qed

lemma axis_between:
  fixes a b s x y :: rat
  assumes "b \<noteq> 0" and "x \<le> y"
  shows "x \<le> a + b * s \<and> a + b * s \<le> y \<longleftrightarrow> min ((x - a) / b) ((y - a) / b) \<le> s \<and> s \<le> max ((x - a) / b) ((y - a) / b)"
proof (cases "0 < b")
  case True
  then have "(x - a) / b \<le> (y - a) / b" using assms(2) by (simp add: divide_right_mono)
  with True show ?thesis by (simp add: min_def max_def field_simps)
next
  case False
  with assms(1) have neg: "b < 0" by simp
  then have "(y - a) / b \<le> (x - a) / b" using assms(2) by (simp add: divide_right_mono_neg)
  with neg show ?thesis by (cases "x = y") (auto simp: min_def max_def field_simps)
qed

section \<open>The image of a box\<close>

lemma box_image:
  assumes ok: "transform_ok t" and b: "b = (x0, y0, x1, y1)" "x0 < x1" "y0 < y1"
    and inv: "\<And>p. (affine_x k (fst (detector_point t p)) (snd (detector_point t p)),
          affine_y k (fst (detector_point t p)) (snd (detector_point t p))) = p"
  obtains m n M N :: rat where "m < M" "n < N"
    "\<And>p. in_box (detector_point t p) b \<longleftrightarrow> m \<le> fst p \<and> fst p \<le> M \<and> n \<le> snd p \<and> snd p \<le> N"
    "\<And>w h. transformed_box b k w h = (clamp_to w \<lfloor>m\<rfloor>, clamp_to h \<lfloor>n\<rfloor>, clamp_to w \<lceil>M\<rceil>, clamp_to h \<lceil>N\<rceil>)"
proof -
  obtain swapped and a1 b1 a2 b2 :: rat where nz: "b1 \<noteq> 0" "b2 \<noteq> 0"
    and axes: "\<And>p. detector_point t p =
       (a1 + b1 * (if swapped then snd p else fst p), a2 + b2 * (if swapped then fst p else snd p))"
    by (rule detector_axes [OF ok]) (rule that)
  let ?L = "(of_int x0 - a1) / b1" and ?R = "(of_int x1 - a1) / b1"
    and ?T = "(of_int y0 - a2) / b2" and ?B = "(of_int y1 - a2) / b2"
  have ne: "?L \<noteq> ?R" "?T \<noteq> ?B" using nz b(2,3) by (simp_all add: field_simps)
  have corner: "(affine_x k u v, affine_y k u v) =
      (if swapped then ((v - a2) / b2, (u - a1) / b1) else ((u - a1) / b1, (v - a2) / b2))" for u v
  proof -
    define p where "p = (if swapped then ((v - a2) / b2, (u - a1) / b1) else ((u - a1) / b1, (v - a2) / b2))"
    have "detector_point t p = (u, v)" using nz by (simp add: axes p_def)
    with inv [of p] show ?thesis by (simp add: p_def)
  qed
  have box: "in_box (detector_point t p) b \<longleftrightarrow>
      (min ?L ?R \<le> (if swapped then snd p else fst p) \<and> (if swapped then snd p else fst p) \<le> max ?L ?R) \<and>
      (min ?T ?B \<le> (if swapped then fst p else snd p) \<and> (if swapped then fst p else snd p) \<le> max ?T ?B)" for p
    using axis_between [OF nz(1), of "of_int x0" "of_int x1" a1 "if swapped then snd p else fst p"]
      axis_between [OF nz(2), of "of_int y0" "of_int y1" a2 "if swapped then fst p else snd p"] b(2,3)
    unfolding axes b(1) in_box.simps by (simp only: of_int_le_iff less_imp_le conj_assoc simp_thms) blast
  have spread: "min p q < max p q" if "p \<noteq> q" for p q :: rat using that by (cases "p < q") simp_all
  note lt = spread [OF ne(1)] spread [OF ne(2)]
  show ?thesis
  proof (cases swapped)
    case True
    show ?thesis
      by (rule that [OF lt(2,1)])
        (use corner box True in \<open>auto simp: b(1) min4_def max4_def Let_def simp del: in_box.simps\<close>)
  next
    case False
    show ?thesis
      by (rule that [OF lt])
        (use corner box False in \<open>auto simp: b(1) min4_def max4_def Let_def simp del: in_box.simps\<close>)
  qed
qed

lemma clamp_nonempty:
  assumes "(m :: rat) < M" and "1 \<le> w"
  shows "clamp_to w \<lfloor>m\<rfloor> < clamp_to w \<lceil>M\<rceil> \<longleftrightarrow> m < of_int w \<and> 0 < M"
proof -
  have "of_int \<lfloor>m\<rfloor> < (of_int \<lceil>M\<rceil> :: rat)"
    using assms(1) of_int_floor_le [of m] le_of_int_ceiling [of M] by linarith
  then have "\<lfloor>m\<rfloor> < \<lceil>M\<rceil>" by simp
  moreover have "m < of_int w \<longleftrightarrow> \<lfloor>m\<rfloor> < w" by (simp add: floor_less_iff)
  moreover have "0 < M \<longleftrightarrow> 0 < \<lceil>M\<rceil>" by (simp add: less_ceiling_iff)
  ultimately show ?thesis using assms(2) unfolding clamp_to_def by linarith
qed

lemma open_overlap:
  assumes "(m :: rat) < M" and "0 < w"
  shows "m < w \<and> 0 < M \<longleftrightarrow> (\<exists>s. 0 < s \<and> s < w \<and> m \<le> s \<and> s \<le> M)"
proof
  assume "m < w \<and> 0 < M"
  with assms have "max 0 m < min w M" by simp
  from dense [OF this] obtain s where "max 0 m < s" "s < min w M" by blast
  then show "\<exists>s. 0 < s \<and> s < w \<and> m \<le> s \<and> s \<le> M" by (intro exI [of _ s]) simp
qed (use assms in auto)

text \<open>a transform's image of a box has a pixel exactly when it meets the open frame\<close>

lemma transformed_box_meets:
  assumes ok: "transform_ok t" and b: "box_ok b dw dh"
    and inv: "\<And>p. (affine_x k (fst (detector_point t p)) (snd (detector_point t p)),
          affine_y k (fst (detector_point t p)) (snd (detector_point t p))) = p"
  shows "box_ok (transformed_box b k (dt_source_width t) (dt_source_height t)) (dt_source_width t) (dt_source_height t) \<longleftrightarrow>
    (\<exists>x y. 0 < x \<and> x < of_int (dt_source_width t) \<and> 0 < y \<and> y < of_int (dt_source_height t) \<and>
       in_box (detector_point t (x, y)) b)"
proof -
  let ?W = "dt_source_width t" and ?H = "dt_source_height t"
  obtain x0 y0 x1 y1 where xy: "b = (x0, y0, x1, y1)" by (cases b)
  have lt: "x0 < x1" "y0 < y1" using b by (simp_all add: xy box_ok_def)
  obtain m n M N :: rat where image: "m < M" "n < N"
    "\<And>p. in_box (detector_point t p) b \<longleftrightarrow> m \<le> fst p \<and> fst p \<le> M \<and> n \<le> snd p \<and> snd p \<le> N"
    "\<And>w h. transformed_box b k w h = (clamp_to w \<lfloor>m\<rfloor>, clamp_to h \<lfloor>n\<rfloor>, clamp_to w \<lceil>M\<rceil>, clamp_to h \<lceil>N\<rceil>)"
    by (rule box_image [OF ok xy lt inv]) (rule that)
  have dims: "1 \<le> ?W" "1 \<le> ?H" "?W \<le> MAX_I31" "?H \<le> MAX_I31" using ok by (simp_all add: transform_ok_def)
  have "box_ok (transformed_box b k ?W ?H) ?W ?H \<longleftrightarrow>
      clamp_to ?W \<lfloor>m\<rfloor> < clamp_to ?W \<lceil>M\<rceil> \<and> clamp_to ?H \<lfloor>n\<rfloor> < clamp_to ?H \<lceil>N\<rceil>"
    using transformed_box_ok [OF image(4) dims(1,3,2,4)] unfolding image(4) by (auto simp: box_ok_def)
  also have "\<dots> \<longleftrightarrow> (m < of_int ?W \<and> 0 < M) \<and> (n < of_int ?H \<and> 0 < N)"
    using image(1,2) dims by (simp only: clamp_nonempty)
  also have "\<dots> \<longleftrightarrow> (\<exists>s. 0 < s \<and> s < of_int ?W \<and> m \<le> s \<and> s \<le> M) \<and> (\<exists>s. 0 < s \<and> s < of_int ?H \<and> n \<le> s \<and> s \<le> N)"
    using open_overlap [OF image(1), of "of_int ?W"] open_overlap [OF image(2), of "of_int ?H"] dims by simp
  finally show ?thesis unfolding image(3) fst_conv snd_conv by blast
qed

section \<open>The outcomes of \<open>map_box\<close>\<close>

text \<open>
  C35: for a constructed transform \<open>map_box\<close> has exactly four outcomes: it refuses a box outside the
  detector input, then an unknown measurement, then a box that no point of the source's interior is
  mapped into, and otherwise returns a geometry that passes every check; no coefficient overflows its
  representation and no constructor of \<open>ingestion.py\<close> raises.
\<close>

theorem map_box_outcomes:
  assumes nfc: "nfc_ascii nfc"
    and t: "detector_transform_create sw sh dw dh rotation content = Inr t"
  shows "if \<not> box_ok b dw dh then map_box nfc t b m = Inl (CropError ''invalid_detector_box'')
     else if m \<notin> set measurements then map_box nfc t b m = Inl (CropError ''invalid_measurement'')
     else if \<exists>x y. 0 < x \<and> x < of_int sw \<and> 0 < y \<and> y < of_int sh \<and> in_box (detector_point t (x, y)) b
     then \<exists>g. map_box nfc t b m = Inr g \<and> geometry_valid nfc g
     else map_box nfc t b m = Inl (CropError ''empty_source_box'')"
proof -
  have ok: "transform_ok t" by (rule detector_transform_create_ok [OF t])
  have dims: "dt_detector_width t = dw" "dt_detector_height t = dh" "dt_source_width t = sw" "dt_source_height t = sh"
    using t by (auto simp: detector_transform_create_def checked_Inr_iff)
  have small: "dw \<le> MAX_I31" "dh \<le> MAX_I31"
    using ok by (simp_all add: transform_ok_def dims)
  have box: "crop_box_check b dw dh ''invalid_detector_box'' =
      (if box_ok b dw dh then None else Some (CropError ''invalid_detector_box''))"
    using crop_box_check_None [OF small, of b "''invalid_detector_box''"]
    by (cases b) (auto simp: require_def)
  have meas: "measurement_check m = (if m \<in> set measurements then None else Some (CropError ''invalid_measurement''))"
    by (simp add: measurement_check_def require_def)
  show ?thesis
  proof (cases "box_ok b dw dh \<and> m \<in> set measurements")
    case True
    then have accepted: "box_ok b dw dh" "m \<in> set measurements" by simp_all
    obtain k where k: "coefficients nfc t = Inr k" "affine_coefficients_valid nfc k"
      "\<And>p. (affine_x k (fst (detector_point t p)) (snd (detector_point t p)),
          affine_y k (fst (detector_point t p)) (snd (detector_point t p))) = p"
      using coefficients_inverse [OF nfc ok] by blast
    note eval = map_box_eval [OF nfc ok _ accepted(2) k(1,2), of b, unfolded dims, OF accepted(1)]
    note meets = transformed_box_meets [OF ok accepted(1) k(3), unfolded dims]
    show ?thesis using eval meets accepted by (simp only: if_True if_False not_True_eq_False simp_thms split: if_split) auto
  qed (auto simp: map_box_def box meas dims run_checks.simps checked_def)
qed

lemma map_box_outcomes_witness:
  "map_box id example_transform (0, 0, 500, 10) ''measured'' = Inl (CropError ''invalid_detector_box'') \<and>
   map_box id example_transform (0, 0, 10, 10) ''guessed'' = Inl (CropError ''invalid_measurement'') \<and>
   map_box id example_transform (0, 0, 10, 10) ''measured'' = Inl (CropError ''empty_source_box'') \<and>
   (\<exists>g. map_box id example_transform (52, 0, 364, 416) ''measured'' = Inr g \<and> geometry_valid id g)"
proof -
  have point: "detector_point example_transform (x, y) = (52 + (480 - y) * 312 / 480, x * 416 / 640)" for x y
    by (simp add: detector_point_def display_size_def example_transform_def)
  have padding: "\<not> (\<exists>x y. 0 < x \<and> x < of_int 640 \<and> 0 < y \<and> y < of_int 480 \<and> in_box (detector_point example_transform (x, y)) (0, 0, 10, 10))"
    by (auto simp: point field_simps)
  have middle: "\<exists>x y. 0 < x \<and> x < of_int 640 \<and> 0 < y \<and> y < of_int 480 \<and> in_box (detector_point example_transform (x, y)) (52, 0, 364, 416)"
    by (intro exI [of _ 320] exI [of _ 240]) (simp add: point)
  have boxes: "\<not> box_ok (0, 0, 500, 10) 416 416" "box_ok (0, 0, 10, 10) 416 416" "box_ok (52, 0, 364, 416) 416 416"
    "''measured'' \<in> set measurements" "''guessed'' \<notin> set measurements"
    by (simp_all add: box_ok_def MAX_I31_def measurements_def)
  note outcomes = map_box_outcomes [OF nfc_ascii_id example_transform_create]
  show ?thesis
    using outcomes [of "(0, 0, 500, 10)" "''measured''"] outcomes [of "(0, 0, 10, 10)" "''guessed''"]
      outcomes [of "(0, 0, 10, 10)" "''measured''"] outcomes [of "(52, 0, 364, 416)" "''measured''"] boxes
    unfolding if_not_P [OF padding] if_P [OF middle] by simp
qed

end
