(* ===== verification/Ports.thy ===== *)
theory Ports
  imports Ingestion_Codec Decimal
begin

text \<open>
  The version-1 port vocabulary of \<open>ports.py\<close>: bounds, capability descriptors, call records, result
  states and the validators shared by the in-memory fakes.  An operation that changes an object
  returns its new state with its result, \<open>('a \<times> 's) res\<close>; an operation that raises leaves the
  object as it was, since every mutation comes after the last check.  The ports' protocols are the
  interfaces the locales of the later theories state laws for.
\<close>

section \<open>Bounds and enumerations\<close>

definition MAX_PORT_BATCH_ITEMS :: nat where "MAX_PORT_BATCH_ITEMS = 64"
definition MAX_PERCEPTION_OBSERVATIONS :: nat where
  "MAX_PERCEPTION_OBSERVATIONS = MAX_PORT_BATCH_ITEMS * MAX_PORT_BATCH_ITEMS"
definition MAX_FAKE_ARTIFACT_BYTES :: int where "MAX_FAKE_ARTIFACT_BYTES = 1024 * 1024"
definition MAX_STREAM_INDEX :: int where "MAX_STREAM_INDEX = 2 ^ 31 - 1"

datatype effect = SHELL | NETWORK | ARBITRARY_FILESYSTEM | RAW_SQL

datatype perception_result_state = COMPLETE | UNKNOWN | UNSUPPORTED_RESULT

fun perception_state_value :: "perception_result_state \<Rightarrow> string" where
  "perception_state_value COMPLETE = ''complete''"
| "perception_state_value UNKNOWN = ''unknown''"
| "perception_state_value UNSUPPORTED_RESULT = ''unsupported''"

fun port_kind_value :: "port_kind \<Rightarrow> string" where
  "port_kind_value VIDEO_SOURCE = ''video_source''"
| "port_kind_value ORIGINAL_FRAME_READER = ''original_frame_reader''"
| "port_kind_value FRAME_SAMPLER = ''frame_sampler''"
| "port_kind_value FRAME_DISCONTINUITY = ''frame_discontinuity''"
| "port_kind_value DETECTOR = ''detector''"
| "port_kind_value TRACKER = ''tracker''"
| "port_kind_value EVIDENCE_SELECTOR = ''evidence_selector''"
| "port_kind_value EVIDENCE_STORE = ''evidence_store''"
| "port_kind_value WORLD_STORE = ''world_store''"

text \<open>\<open>_TOKEN_RE\<close> (with its length bound) and \<open>_REASON_RE\<close>\<close>

definition is_port_token :: "string \<Rightarrow> bool" where
  "is_port_token s \<longleftrightarrow> is_token s \<and> length s \<le> 128"

fun is_reason :: "string \<Rightarrow> bool" where
  "is_reason [] = False"
| "is_reason (c # s) =
     (is_lower c \<and> length s \<le> 63 \<and> list_all (\<lambda>d. is_lower d \<or> is_digit d \<or> d = CHR ''_'') s)"

definition validate_result :: "perception_result_state \<Rightarrow> string option \<Rightarrow> nat \<Rightarrow> check" where
  "validate_result state reason output_count =
     (if state = COMPLETE
      then require (reason = None) (ValueError ''complete result cannot have a reason'')
      else run_checks
        [require (output_count = 0) (ValueError ''incomplete result cannot contain outputs''),
         require (pred_option is_reason reason \<and> reason \<noteq> None)
           (ValueError ''incomplete result requires a bounded stable reason code'')])"

section \<open>Capability descriptors and call records\<close>

record capability_descriptor =
  cd_port :: port_kind
  cd_implementation :: string
  cd_implementation_version :: string
  cd_deterministic :: bool
  cd_offline :: bool
  cd_max_batch_items :: int
  cd_max_payload_bytes :: "int option"
  cd_contract_version :: int
  cd_allowed_effects :: "effect list"

definition capability_descriptor_post :: "capability_descriptor \<Rightarrow> check" where
  "capability_descriptor_post v = run_checks
     [require (is_port_token (cd_implementation v) \<and> is_port_token (cd_implementation_version v))
        (ValueError ''implementation identity must be a bounded ASCII token''),
      require (cd_contract_version v = 1) (ValueError ''only port contract version 1 is supported''),
      require (1 \<le> cd_max_batch_items v \<and> cd_max_batch_items v \<le> int MAX_PORT_BATCH_ITEMS)
        (ValueError ''max_batch_items is outside the v1 bound''),
      require (pred_option (\<lambda>n. 0 \<le> n \<and> n \<le> MAX_I64) (cd_max_payload_bytes v))
        (ValueError ''max_payload_bytes is outside the v1 bound''),
      require (cd_allowed_effects v = []) (ValueError ''v1 orchestration never grants ambient effects'')]"

text \<open>\<open>descriptor.require(effect)\<close>\<close>

definition require_effect :: "capability_descriptor \<Rightarrow> effect \<Rightarrow> check" where
  "require_effect v e =
     require (e \<in> set (cd_allowed_effects v)) (PortError CAPABILITY_DENIED (cd_port v) ''require_effect'')"

record port_call =
  pc_port :: port_kind
  pc_operation :: string
  pc_item_count :: nat

definition port_call_post :: "port_call \<Rightarrow> check" where
  "port_call_post v = run_checks
     [require (is_port_token (pc_operation v)) (ValueError ''operation must be a bounded ASCII token''),
      require (pc_item_count v \<le> MAX_PORT_BATCH_ITEMS) (ValueError ''item_count is outside the v1 bound'')]"

definition mk_port_call :: "port_kind \<Rightarrow> string \<Rightarrow> nat \<Rightarrow> port_call res" where
  "mk_port_call port operation count =
     (let v = \<lparr>pc_port = port, pc_operation = operation, pc_item_count = count\<rparr>
      in checked (port_call_post v) v)"

definition fake_descriptor :: "port_kind \<Rightarrow> int option \<Rightarrow> capability_descriptor res" where
  "fake_descriptor port max_payload_bytes =
     (let v = \<lparr>cd_port = port, cd_implementation = ''visualworld.fake.'' @ port_kind_value port,
               cd_implementation_version = ''1'', cd_deterministic = True, cd_offline = True,
               cd_max_batch_items = int MAX_PORT_BATCH_ITEMS, cd_max_payload_bytes = max_payload_bytes,
               cd_contract_version = 1, cd_allowed_effects = []\<rparr>
      in checked (capability_descriptor_post v) v)"

section \<open>Validators shared by the fakes\<close>

definition bounded_limit :: "int \<Rightarrow> port_kind \<Rightarrow> string \<Rightarrow> nat res" where
  "bounded_limit limit port operation =
     checked (require (1 \<le> limit \<and> limit \<le> int MAX_PORT_BATCH_ITEMS) (PortError LIMIT_EXCEEDED port operation))
       (nat limit)"

definition unsigned_decimal :: "string \<Rightarrow> port_kind \<Rightarrow> string \<Rightarrow> int res" where
  "unsigned_decimal s port operation =
     checked (run_checks
       [require (is_unsigned_decimal s) (PortError INVALID_REQUEST port operation),
        require (length s \<le> 20) (PortError LIMIT_EXCEEDED port operation),
        require (int_of_decimal s \<le> MAX_U64) (PortError LIMIT_EXCEEDED port operation)])
       (int_of_decimal s)"

definition stream_index_check :: "int \<Rightarrow> port_kind \<Rightarrow> string \<Rightarrow> check" where
  "stream_index_check i port operation =
     require (0 \<le> i \<and> i \<le> MAX_STREAM_INDEX) (PortError INVALID_REQUEST port operation)"

definition digest_check :: "string \<Rightarrow> port_kind \<Rightarrow> string \<Rightarrow> check" where
  "digest_check s port operation = require (is_sha256 s) (PortError INVALID_REQUEST port operation)"

definition record_id_check :: "string \<Rightarrow> port_kind \<Rightarrow> string \<Rightarrow> check" where
  "record_id_check s port operation =
     require (is_typed_id ''src'' s \<or> is_typed_id ''frm'' s \<or> is_typed_id ''evi'' s \<or> is_typed_id ''run'' s)
       (PortError INVALID_REQUEST port operation)"

fun record_identifier :: "ingestion_record \<Rightarrow> string" where
  "record_identifier (RSource v) = so_source_id v"
| "record_identifier (RFrame v) = fr_frame_id v"
| "record_identifier (REvidence v) = ev_evidence_id v"
| "record_identifier (RRun v) = rm_run_id v"

text \<open>\<open>self._record_call(operation, item_count)\<close> on the call log\<close>

definition record_call :: "port_call list \<Rightarrow> port_kind \<Rightarrow> string \<Rightarrow> nat \<Rightarrow> port_call list res" where
  "record_call calls port operation count =
     bindE (mk_port_call port operation count) (\<lambda>c. Inr (calls @ [c]))"

section \<open>Facts\<close>

lemma validate_result_None [outcome]:
  "validate_result state reason n = None \<longleftrightarrow>
     (if state = COMPLETE then reason = None else n = 0 \<and> (\<exists>r. reason = Some r \<and> is_reason r))"
  by (cases reason) (auto simp: validate_result_def)

lemma mk_port_call_ok:
  "is_port_token operation \<Longrightarrow> n \<le> MAX_PORT_BATCH_ITEMS \<Longrightarrow>
   mk_port_call port operation n = Inr \<lparr>pc_port = port, pc_operation = operation, pc_item_count = n\<rparr>"
  by (simp add: mk_port_call_def port_call_post_def)

lemma record_call_ok:
  "is_port_token operation \<Longrightarrow> n \<le> MAX_PORT_BATCH_ITEMS \<Longrightarrow>
   record_call calls port operation n =
     Inr (calls @ [\<lparr>pc_port = port, pc_operation = operation, pc_item_count = n\<rparr>])"
  by (simp add: record_call_def mk_port_call_ok)

lemmas token_evaluation = is_token_tail_def is_token_head_def is_upper_def is_lower_def is_digit_def
  is_ascii_def code_def

lemma operation_tokens:
  "is_port_token ''put''" "is_port_token ''get''" "is_port_token ''commit''" "is_port_token ''list_frames''"
  "is_port_token ''list_evidence''" "is_port_token ''probe''" "is_port_token ''read_frames''" "is_port_token ''sample''"
  "is_port_token ''sample_page''" "is_port_token ''detect''" "is_port_token ''track''" "is_port_token ''select''"
  by (simp_all add: is_port_token_def token_evaluation)

lemma fake_descriptor_ok:
  assumes "pred_option (\<lambda>n. 0 \<le> n \<and> n \<le> MAX_I64) payload"
  shows "\<exists>d. fake_descriptor port payload = Inr d \<and> cd_port d = port \<and> cd_max_payload_bytes d = payload"
  using assms
  by (cases port) (simp_all add: fake_descriptor_def capability_descriptor_post_def is_port_token_def
      token_evaluation MAX_PORT_BATCH_ITEMS_def)

lemma no_effect_granted:
  "capability_descriptor_post v = None \<Longrightarrow>
   require_effect v e = Some (PortError CAPABILITY_DENIED (cd_port v) ''require_effect'')"
  by (simp add: capability_descriptor_post_def require_effect_def)

end
