(* ===== verification/Ingestion_Examples.thy ===== *)
theory Ingestion_Examples
  imports Ingestion_Codec Decimal
begin

text \<open>
  Concrete validated ingestion records, used to show that hypotheses of later theorems can hold.
  Identifiers stay symbolic applications of the hash.
\<close>

lemma escape_char_length: "length (escape_char c) \<le> 6"
  by (simp add: escape_char_def hex4_def)

lemma length_quote: "length (quote s) \<le> 6 * length s + 2"
proof -
  have "length (concat (map escape_char s)) \<le> 6 * length s"
  proof (induction s)
    case (Cons c s)
    then show ?case using escape_char_length [of c] by simp
  qed simp
  then show ?thesis by (simp add: quote_def)
qed

lemma quote_Cons: "quote (c # s) = [CHR 0x22] @ concat (map escape_char (c # s)) @ [CHR 0x22]"
  by (simp add: quote_def)

lemma mk_identifier_eval:
  "validate_shape nfc j 1 ''$'' = None \<Longrightarrow> printable j \<Longrightarrow> length (render (sort_json j)) \<le> MAX_RECORD_BYTES \<Longrightarrow>
   mk_identifier nfc p j = Inr (p @ ''_'' @ sha256_hex (render (sort_json j)))"
  by (simp add: mk_identifier_def canonical_bytes_def)

lemma nfc_id: "nfc_ascii id"
  by (simp add: nfc_ascii_def)

lemma general_ok_id_ascii: "list_all is_ascii s \<Longrightarrow> length s \<le> MAX_GENERAL_STRING_BYTES \<Longrightarrow> general_ok id s"
  by (rule general_ok_ascii [OF nfc_id])

lemma general_ok_id_hash: "general_ok id (sha256_hex s)"
  by (rule general_ok_id_ascii) (simp_all add: is_sha256_ascii MAX_GENERAL_STRING_BYTES_def)

definition ex_time_base :: time_base where
  "ex_time_base = \<lparr>tb_numerator = ''1'', tb_denominator = ''1000''\<rparr>"

definition ex_stream :: source_stream where
  "ex_stream = \<lparr>ss_stream_index = 0, ss_width = 2, ss_height = 1, ss_rotation_degrees = 0,
     ss_time_base = ex_time_base, ss_media_type = ''video''\<rparr>"

definition ex_fingerprint :: fingerprint where
  "ex_fingerprint = \<lparr>fp_digest = sha256_hex [], fp_bytes = ''0'', fp_algorithm = ''sha256''\<rparr>"

definition ex_source :: source where
  "ex_source = \<lparr>so_source_id = ''src'' @ ''_'' @ sha256_hex (render (sort_json (source_identity ex_fingerprint))),
     so_fingerprint = ex_fingerprint, so_streams = [ex_stream]\<rparr>"

definition ex_time :: "nat \<Rightarrow> media_time" where
  "ex_time n = \<lparr>mt_value = show_int (int n), mt_time_base = ex_time_base, mt_basis = ''measured'',
     mt_estimate_method = None, mt_estimate_producer = None\<rparr>"

definition ex_frame :: "nat \<Rightarrow> nat \<Rightarrow> frame_ref" where
  "ex_frame i t = \<lparr>fr_frame_id = ''frm'' @ ''_'' @
       sha256_hex (render (sort_json (frame_identity (so_source_id ex_source) 0 (show_int (int i)) (ex_time t)))),
     fr_source_id = so_source_id ex_source, fr_stream_index = 0, fr_decode_index = show_int (int i),
     fr_pts = ex_time t, fr_duration = None, fr_key_frame = None\<rparr>"

definition ex_artifact :: artifact where
  "ex_artifact = \<lparr>ar_sha256 = sha256_hex [], ar_bytes = ''0'', ar_media_type = RGB24_MEDIA_TYPE\<rparr>"

definition ex_evidence :: evidence_ref where
  "ex_evidence = \<lparr>ev_evidence_id = ''evi'' @ ''_'' @
       sha256_hex (render (sort_json (evidence_identity (sha256_hex []) (fr_frame_id (ex_frame 0 0)) None ''original_frame''))),
     ev_frame_id = fr_frame_id (ex_frame 0 0), ev_artifact = ex_artifact, ev_geometry = None,
     ev_kind = ''original_frame'', ev_retention = ''derived_private''\<rparr>"

lemmas char_evaluation = is_token_tail_def is_token_head_def is_upper_def is_lower_def is_digit_def is_ascii_def code_def

lemma ex_time_base_valid: "time_base_post id ex_time_base = None"
  by (simp add: time_base_post_def ex_time_base_def decimal_check_None general_ok_id_ascii char_evaluation
      MAX_GENERAL_STRING_BYTES_def nat_of_digits_def digit_val_def MAX_U32_def)

lemma ex_stream_valid: "source_stream_valid id ex_stream"
  by (simp add: source_stream_valid_def ex_time_base_valid source_stream_post_def ex_stream_def bounded_int_check_None
      MAX_I31_def token_check_literal [OF nfc_id] char_evaluation MAX_TOKEN_BYTES_def)

lemma ex_fingerprint_valid: "fingerprint_post id ex_fingerprint = None"
  by (simp add: fingerprint_post_def ex_fingerprint_def decimal_check_None general_ok_id_ascii char_evaluation
      MAX_GENERAL_STRING_BYTES_def nat_of_digits_def digit_val_def MAX_U64_def sha256_check_None general_ok_id_hash
      token_check_literal [OF nfc_id] MAX_TOKEN_BYTES_def)

lemma ex_source_valid: "source_valid id ex_source"
proof -
  have "mk_identifier id ''src'' (source_identity ex_fingerprint) =
      Inr (''src'' @ ''_'' @ sha256_hex (render (sort_json (source_identity ex_fingerprint))))"
    using length_quote [of "sha256_hex []"]
    by (intro mk_identifier_eval) (simp_all add: source_identity_def fingerprint_to_mapping_def ex_fingerprint_def
        general_string_check_None general_ok_id_ascii general_ok_id_hash char_evaluation MAX_GENERAL_STRING_BYTES_def
        MAX_DEPTH_def MAX_OBJECT_MEMBERS_def MAX_RECORD_BYTES_def less_char_def show_int_def show_nat.simps [of "Suc 0"]
        quote_def escape_char_def)
  moreover have "general_ok id (so_source_id ex_source)"
    by (simp only: ex_source_def source.simps, rule general_ok_hash_id [OF nfc_id]) (simp_all add: char_evaluation)
  ultimately show ?thesis
    using ex_fingerprint_valid ex_stream_valid
    by (simp add: source_valid_def source_post_def ex_source_def typed_id_check_None identifier_check_def
        MAX_STREAMS_def is_typed_id_def)
qed

lemma ex_time_valid:
  assumes "n < 2 ^ 62"
  shows "media_time_valid id (ex_time n)"
proof -
  have "decimal_check id (show_int (int n)) True MIN_I64 MAX_I64 p = None" for p
    using assms by (intro decimal_check_show_int [OF nfc_id]) (simp_all add: bound_defs)
  then show ?thesis
    by (simp add: media_time_valid_def media_time_post_def ex_time_def ex_time_base_valid
        token_check_literal [OF nfc_id] char_evaluation MAX_TOKEN_BYTES_def)
qed

lemma ex_frame_valid:
  assumes i: "i < 2 ^ 62" and t: "t < 2 ^ 62"
  shows "frame_valid id (ex_frame i t)"
proof -
  have len: "length (show_int (int i)) \<le> 41" "length (show_int (int t)) \<le> 41"
    using i t by (auto intro!: show_int_length)
  have ok: "general_ok id (show_int (int i))" "general_ok id (show_int (int t))"
    using i t by (auto intro!: general_ok_show_int [OF nfc_id])
  have sid: "general_ok id (so_source_id ex_source)" "is_typed_id ''src'' (so_source_id ex_source)"
      "length (so_source_id ex_source) = 68"
    using ex_source_valid by (simp_all add: source_valid_def source_post_def typed_id_check_None) (simp add: ex_source_def)
  have quotes: "length (quote (show_int (int i))) \<le> 248" "length (quote (show_int (int t))) \<le> 248"
      "length (quote (so_source_id ex_source)) \<le> 410"
    using length_quote [of "show_int (int i)"] length_quote [of "show_int (int t)"]
      length_quote [of "so_source_id ex_source"] len sid(3) by simp_all
  let ?j = "frame_identity (so_source_id ex_source) 0 (show_int (int i)) (ex_time t)"
  have "mk_identifier id ''frm'' ?j = Inr (''frm'' @ ''_'' @ sha256_hex (render (sort_json ?j)))"
    using quotes ok sid(1)
    by (intro mk_identifier_eval) (simp_all add: frame_identity_def media_time_to_mapping_def ex_time_def
        time_base_to_mapping_def ex_time_base_def
        general_string_check_None general_ok_id_ascii char_evaluation MAX_GENERAL_STRING_BYTES_def
        MAX_DEPTH_def MAX_OBJECT_MEMBERS_def MAX_RECORD_BYTES_def less_char_def show_int_def [of 1] show_int_def [of 0]
        show_nat.simps [of "Suc 0"] show_nat.simps [of 0] quote_Cons escape_char_def)
  moreover have "general_ok id (fr_frame_id (ex_frame i t))"
    by (simp only: ex_frame_def frame_ref.simps, rule general_ok_hash_id [OF nfc_id]) (simp_all add: char_evaluation)
  moreover have "decimal_check id (show_int (int i)) False 0 MAX_U64 p = None" for p
    using i by (intro decimal_check_show_int [OF nfc_id]) (simp_all add: bound_defs)
  ultimately show ?thesis
    using ex_time_valid [OF t] sid
    by (simp add: frame_valid_def frame_post_def ex_frame_def typed_id_check_None identifier_check_def
        frame_identity_projection_def bounded_int_check_None MAX_I31_def is_typed_id_def)
qed

lemma ex_evidence_valid: "evidence_valid id ex_evidence"
proof -
  have fid: "general_ok id (fr_frame_id (ex_frame 0 0))" "is_typed_id ''frm'' (fr_frame_id (ex_frame 0 0))"
      "length (fr_frame_id (ex_frame 0 0)) = 68"
    using ex_frame_valid [of 0 0] by (simp_all add: frame_valid_def frame_post_def typed_id_check_None) (simp add: ex_frame_def)
  have quotes: "length (quote (sha256_hex [])) \<le> 386" "length (quote (fr_frame_id (ex_frame 0 0))) \<le> 410"
    using length_quote [of "sha256_hex []"] length_quote [of "fr_frame_id (ex_frame 0 0)"] fid(3) by simp_all
  let ?j = "evidence_identity (sha256_hex []) (fr_frame_id (ex_frame 0 0)) None ''original_frame''"
  have "mk_identifier id ''evi'' ?j = Inr (''evi'' @ ''_'' @ sha256_hex (render (sort_json ?j)))"
    using quotes fid(1)
    by (intro mk_identifier_eval) (simp_all add: evidence_identity_def optional_geometry_json_def
        general_string_check_None general_ok_id_ascii general_ok_id_hash char_evaluation MAX_GENERAL_STRING_BYTES_def
        MAX_DEPTH_def MAX_OBJECT_MEMBERS_def MAX_RECORD_BYTES_def less_char_def show_int_def [of 1]
        show_nat.simps [of "Suc 0"] quote_Cons escape_char_def)
  moreover have "general_ok id (ev_evidence_id ex_evidence)"
    by (simp only: ex_evidence_def evidence_ref.simps, rule general_ok_hash_id [OF nfc_id]) (simp_all add: char_evaluation)
  moreover have "artifact_post id ex_artifact = None"
    by (simp add: artifact_post_def ex_artifact_def decimal_check_None general_ok_id_ascii char_evaluation
      MAX_GENERAL_STRING_BYTES_def nat_of_digits_def digit_val_def MAX_U64_def sha256_check_None general_ok_id_hash
      token_check_literal [OF nfc_id] MAX_TOKEN_BYTES_def RGB24_MEDIA_TYPE_def)
  ultimately show ?thesis
    using fid
    by (simp add: evidence_valid_def evidence_post_def ex_evidence_def typed_id_check_None identifier_check_def
        evidence_identity_projection_def ex_artifact_def is_typed_id_def token_check_literal [OF nfc_id]
        char_evaluation MAX_TOKEN_BYTES_def)
qed

lemma canonical_bytes_eval:
  "validate_shape nfc j 1 ''$'' = None \<Longrightarrow> printable j \<Longrightarrow> length (render (sort_json j)) \<le> MAX_RECORD_BYTES \<Longrightarrow>
   canonical_bytes nfc j = Inr (render (sort_json j))"
  by (simp add: canonical_bytes_def)

lemmas render_evaluation = general_string_check_None general_ok_id_ascii general_ok_id_hash char_evaluation
  MAX_GENERAL_STRING_BYTES_def MAX_DEPTH_def MAX_OBJECT_MEMBERS_def MAX_RECORD_BYTES_def MAX_ARRAY_ITEMS_def less_char_def
  show_int_def [of 1] show_int_def [of 0] show_int_def [of 2]
  show_nat.simps [of "Suc 0"] show_nat.simps [of 0] show_nat.simps [of 2] quote_Cons escape_char_def

lemma ex_source_dumps: "\<exists>b. dumps_record id (RSource ex_source) = Inr b"
proof -
  have sid: "general_ok id (so_source_id ex_source)" "length (so_source_id ex_source) = 68"
    using ex_source_valid by (simp_all add: source_valid_def source_post_def typed_id_check_None) (simp add: ex_source_def)
  have quotes: "length (quote (sha256_hex [])) \<le> 386" "length (quote (so_source_id ex_source)) \<le> 410"
    using length_quote [of "sha256_hex []"] length_quote [of "so_source_id ex_source"] sid(2) by simp_all
  have parts: "so_fingerprint ex_source = ex_fingerprint" "so_streams ex_source = [ex_stream]"
    by (simp_all add: ex_source_def)
  have "canonical_bytes id (source_to_mapping ex_source) = Inr (render (sort_json (source_to_mapping ex_source)))"
    using quotes sid(1)
    by (intro canonical_bytes_eval) (simp_all add: source_to_mapping_def parts fingerprint_to_mapping_def
        ex_fingerprint_def source_stream_to_mapping_def ex_stream_def time_base_to_mapping_def ex_time_base_def
        source_schema_def render_evaluation)
  then show ?thesis by (simp add: dumps_record_def)
qed

lemma ex_frame_dumps:
  assumes i: "i < 2 ^ 62" and t: "t < 2 ^ 62"
  shows "\<exists>b. dumps_record id (RFrame (ex_frame i t)) = Inr b"
proof -
  let ?f = "ex_frame i t"
  have ok: "general_ok id (fr_frame_id ?f)" "general_ok id (so_source_id ex_source)" "length (fr_frame_id ?f) = 68"
      "length (so_source_id ex_source) = 68"
    using ex_frame_valid [OF i t] ex_source_valid
    by (simp_all add: frame_valid_def frame_post_def source_valid_def source_post_def typed_id_check_None)
      (simp_all add: ex_frame_def ex_source_def)
  have len: "length (show_int (int i)) \<le> 41" "length (show_int (int t)) \<le> 41"
    using i t by (auto intro!: show_int_length)
  have dec: "general_ok id (show_int (int i))" "general_ok id (show_int (int t))"
    using i t by (auto intro!: general_ok_show_int [OF nfc_id])
  have quotes: "length (quote (show_int (int i))) \<le> 248" "length (quote (show_int (int t))) \<le> 248"
      "length (quote (so_source_id ex_source)) \<le> 410" "length (quote (fr_frame_id ?f)) \<le> 410"
    using length_quote [of "show_int (int i)"] length_quote [of "show_int (int t)"]
      length_quote [of "so_source_id ex_source"] length_quote [of "fr_frame_id ?f"] len ok by simp_all
  have parts: "fr_source_id ?f = so_source_id ex_source" "fr_stream_index ?f = 0" "fr_decode_index ?f = show_int (int i)"
      "fr_pts ?f = ex_time t" "fr_duration ?f = None" "fr_key_frame ?f = None"
    by (simp_all add: ex_frame_def)
  have "canonical_bytes id (frame_to_mapping ?f) = Inr (render (sort_json (frame_to_mapping ?f)))"
    using quotes ok dec
    by (intro canonical_bytes_eval) (simp_all add: frame_to_mapping_def parts media_time_to_mapping_def ex_time_def
        time_base_to_mapping_def ex_time_base_def frame_schema_def render_evaluation)
  then show ?thesis by (simp add: dumps_record_def)
qed

lemma ex_evidence_dumps: "\<exists>b. dumps_record id (REvidence ex_evidence) = Inr b"
proof -
  have ok: "general_ok id (ev_evidence_id ex_evidence)" "general_ok id (fr_frame_id (ex_frame 0 0))"
      "length (ev_evidence_id ex_evidence) = 68" "length (fr_frame_id (ex_frame 0 0)) = 68"
    using ex_frame_valid [of 0 0] ex_evidence_valid
    by (simp_all add: frame_valid_def frame_post_def evidence_valid_def evidence_post_def typed_id_check_None)
      (simp_all add: ex_frame_def ex_evidence_def)
  have quotes: "length (quote (sha256_hex [])) \<le> 386" "length (quote (fr_frame_id (ex_frame 0 0))) \<le> 410"
      "length (quote (ev_evidence_id ex_evidence)) \<le> 410"
    using length_quote [of "sha256_hex []"] length_quote [of "fr_frame_id (ex_frame 0 0)"]
      length_quote [of "ev_evidence_id ex_evidence"] ok by simp_all
  have parts: "ev_frame_id ex_evidence = fr_frame_id (ex_frame 0 0)" "ev_artifact ex_evidence = ex_artifact"
      "ev_geometry ex_evidence = None" "ev_kind ex_evidence = ''original_frame''"
      "ev_retention ex_evidence = ''derived_private''"
    by (simp_all add: ex_evidence_def)
  have "canonical_bytes id (evidence_to_mapping ex_evidence) = Inr (render (sort_json (evidence_to_mapping ex_evidence)))"
    using quotes ok
    by (intro canonical_bytes_eval) (simp_all add: evidence_to_mapping_def parts artifact_to_mapping_def ex_artifact_def
        optional_geometry_json_def RGB24_MEDIA_TYPE_def evidence_schema_def render_evaluation)
  then show ?thesis by (simp add: dumps_record_def)
qed

end
