(* ===== verification/Fake_Stores.thy ===== *)
theory Fake_Stores
  imports Ports Ingestion_Examples "HOL-Library.AList"
begin

text \<open>
  The in-memory video source, evidence store and world store of \<open>ports.py\<close>, and the laws of the two
  store ports as locales: an evidence store is a content-addressed map, a world store a map of
  records closed under references.  A Python \<open>dict\<close> that is iterated is an association list in
  insertion order (\<open>AList.update\<close> is its item assignment), one that is only looked up is a map.
\<close>

section \<open>FakeVideoSource\<close>

record fake_video_source =
  vs_source :: source
  vs_frames :: "frame_ref list"
  vs_calls :: "port_call list"

definition decode_key :: "frame_ref \<Rightarrow> int" where
  "decode_key f = int_of_decimal (fr_decode_index f)"

definition source_stream_indexes :: "source \<Rightarrow> int list" where
  "source_stream_indexes s = map ss_stream_index (so_streams s)"

definition video_source_create :: "source \<Rightarrow> frame_ref list \<Rightarrow> fake_video_source res" where
  "video_source_create src frames =
     checked (run_checks
       [require (length frames \<le> MAX_PORT_BATCH_ITEMS) (PortError LIMIT_EXCEEDED VIDEO_SOURCE ''init''),
        require (list_all (\<lambda>f. fr_source_id f = so_source_id src) frames) (PortError INVALID_REQUEST VIDEO_SOURCE ''init''),
        require (list_all (\<lambda>f. fr_stream_index f \<in> set (source_stream_indexes src)) frames)
          (PortError INVALID_REQUEST VIDEO_SOURCE ''init''),
        require (distinct (map fr_frame_id frames)) (PortError CONFLICT VIDEO_SOURCE ''init''),
        require (distinct (map (\<lambda>f. (fr_stream_index f, fr_decode_index f)) frames)) (PortError CONFLICT VIDEO_SOURCE ''init'')])
       \<lparr>vs_source = src, vs_frames = sort_key decode_key frames, vs_calls = []\<rparr>"

definition video_source_probe :: "fake_video_source \<Rightarrow> (source \<times> fake_video_source) res" where
  "video_source_probe v =
     bindE (record_call (vs_calls v) VIDEO_SOURCE ''probe'' 1) (\<lambda>calls.
     Inr (vs_source v, v\<lparr>vs_calls := calls\<rparr>))"

definition video_source_read_frames ::
  "fake_video_source \<Rightarrow> int \<Rightarrow> string option \<Rightarrow> int \<Rightarrow> (frame_ref list \<times> fake_video_source) res" where
  "video_source_read_frames v stream_index after_decode_index limit =
     bindE (bounded_limit limit VIDEO_SOURCE ''read_frames'') (\<lambda>bounded.
     bindE (checked (run_checks
        [stream_index_check stream_index VIDEO_SOURCE ''read_frames'',
         require (stream_index \<in> set (source_stream_indexes (vs_source v))) (PortError NOT_FOUND VIDEO_SOURCE ''read_frames'')])
        ()) (\<lambda>_.
     bindE (case after_decode_index of None \<Rightarrow> Inr (- 1)
            | Some s \<Rightarrow> unsigned_decimal s VIDEO_SOURCE ''read_frames'') (\<lambda>after.
     let result = take bounded (filter (\<lambda>f. fr_stream_index f = stream_index \<and> after < decode_key f) (vs_frames v))
     in bindE (record_call (vs_calls v) VIDEO_SOURCE ''read_frames'' (length result)) (\<lambda>calls.
        Inr (result, v\<lparr>vs_calls := calls\<rparr>)))))"

section \<open>FakeEvidenceStore\<close>

record fake_evidence_store =
  es_max_payload_bytes :: int
  es_content :: "string \<rightharpoonup> string"
  es_calls :: "port_call list"

definition evidence_store_create :: "int \<Rightarrow> fake_evidence_store res" where
  "evidence_store_create max_payload_bytes =
     bindE (checked (require (0 \<le> max_payload_bytes) (ValueError ''max_payload_bytes must be non-negative'')) ()) (\<lambda>_.
     bindE (fake_descriptor EVIDENCE_STORE (Some max_payload_bytes)) (\<lambda>_.
     Inr \<lparr>es_max_payload_bytes = max_payload_bytes, es_content = Map.empty, es_calls = []\<rparr>))"

definition evidence_store_put ::
  "fake_evidence_store \<Rightarrow> artifact \<Rightarrow> string \<Rightarrow> (artifact \<times> fake_evidence_store) res" where
  "evidence_store_put s artifact content =
     bindE (checked (run_checks
        [require (int (length content) \<le> es_max_payload_bytes s) (PortError LIMIT_EXCEEDED EVIDENCE_STORE ''put''),
         require (int_of_decimal (ar_bytes artifact) = int (length content) \<and> sha256_hex content = ar_sha256 artifact)
           (PortError CONFLICT EVIDENCE_STORE ''put''),
         require (pred_option (\<lambda>existing. existing = content) (es_content s (ar_sha256 artifact)))
           (PortError CONFLICT EVIDENCE_STORE ''put'')]) ()) (\<lambda>_.
     bindE (record_call (es_calls s) EVIDENCE_STORE ''put'' 1) (\<lambda>calls.
     Inr (artifact, s\<lparr>es_content := (es_content s)(ar_sha256 artifact \<mapsto> content), es_calls := calls\<rparr>)))"

definition evidence_store_get :: "fake_evidence_store \<Rightarrow> string \<Rightarrow> (string \<times> fake_evidence_store) res" where
  "evidence_store_get s digest =
     bindE (checked (digest_check digest EVIDENCE_STORE ''get'') ()) (\<lambda>_.
     case es_content s digest of
       None \<Rightarrow> Inl (PortError NOT_FOUND EVIDENCE_STORE ''get'')
     | Some content \<Rightarrow>
         bindE (record_call (es_calls s) EVIDENCE_STORE ''get'' 1) (\<lambda>calls. Inr (content, s\<lparr>es_calls := calls\<rparr>)))"

section \<open>FakeWorldStore\<close>

type_synonym record_dict = "(string \<times> ingestion_record) list"

record fake_world_store =
  ws_records :: record_dict
  ws_calls :: "port_call list"

definition world_store_create :: fake_world_store where
  "world_store_create = \<lparr>ws_records = [], ws_calls = []\<rparr>"

fun pending_records ::
  "(string \<Rightarrow> string) \<Rightarrow> record_dict \<Rightarrow> ingestion_record list \<Rightarrow> record_dict res" where
  "pending_records nfc pending [] = Inr pending"
| "pending_records nfc pending (r # rs) =
     bindE (dumps_record nfc r) (\<lambda>_. pending_records nfc (AList.update (record_identifier r) r pending) rs)"

fun dict_sources :: "record_dict \<Rightarrow> source list" where
  "dict_sources [] = []"
| "dict_sources ((_, RSource v) # kvs) = v # dict_sources kvs"
| "dict_sources (_ # kvs) = dict_sources kvs"

fun dict_frames :: "record_dict \<Rightarrow> frame_ref list" where
  "dict_frames [] = []"
| "dict_frames ((_, RFrame v) # kvs) = v # dict_frames kvs"
| "dict_frames (_ # kvs) = dict_frames kvs"

fun dict_evidence :: "record_dict \<Rightarrow> evidence_ref list" where
  "dict_evidence [] = []"
| "dict_evidence ((_, REvidence v) # kvs) = v # dict_evidence kvs"
| "dict_evidence (_ # kvs) = dict_evidence kvs"

text \<open>The references of one record: a frame and a run name a source, evidence names a frame.\<close>

fun references_known :: "string list \<Rightarrow> string list \<Rightarrow> ingestion_record \<Rightarrow> bool" where
  "references_known source_ids frame_ids (RSource v) = True"
| "references_known source_ids frame_ids (RFrame v) = (fr_source_id v \<in> set source_ids)"
| "references_known source_ids frame_ids (REvidence v) = (ev_frame_id v \<in> set frame_ids)"
| "references_known source_ids frame_ids (RRun v) = (rm_source_id v \<in> set source_ids)"

text \<open>
  \<open>{record.source_id: record for ...}\<close>: the last source of an identifier wins.
\<close>

definition source_by_id :: "source list \<Rightarrow> string \<rightharpoonup> source" where
  "source_by_id sources = map_of (rev (map (\<lambda>s. (so_source_id s, s)) sources))"

fun streams_check :: "(string \<rightharpoonup> source) \<Rightarrow> frame_ref list \<Rightarrow> check" where
  "streams_check sources [] = None"
| "streams_check sources (f # fs) =
     (case sources (fr_source_id f) of
        None \<Rightarrow> Some (KeyError (fr_source_id f))
      | Some s \<Rightarrow> if fr_stream_index f \<in> set (source_stream_indexes s) then streams_check sources fs
                  else Some (PortError CONFLICT WORLD_STORE ''commit''))"

definition frame_position :: "frame_ref \<Rightarrow> string \<times> int \<times> string" where
  "frame_position f = (fr_source_id f, fr_stream_index f, fr_decode_index f)"

definition world_store_commit ::
  "(string \<Rightarrow> string) \<Rightarrow> fake_world_store \<Rightarrow> ingestion_record list \<Rightarrow> (unit \<times> fake_world_store) res" where
  "world_store_commit nfc s records =
     bindE (checked (require (length records \<le> MAX_PORT_BATCH_ITEMS) (PortError LIMIT_EXCEEDED WORLD_STORE ''commit'')) ()) (\<lambda>_.
     bindE (pending_records nfc (ws_records s) records) (\<lambda>pending.
     let sources = dict_sources pending; frames = dict_frames pending
     in bindE (checked (run_checks
          [require (list_all (references_known (map so_source_id sources) (map fr_frame_id frames)) records)
             (PortError CONFLICT WORLD_STORE ''commit''),
           streams_check (source_by_id sources) frames,
           require (distinct (map frame_position frames)) (PortError CONFLICT WORLD_STORE ''commit'')]) ()) (\<lambda>_.
        bindE (record_call (ws_calls s) WORLD_STORE ''commit'' (length records)) (\<lambda>calls.
        Inr ((), \<lparr>ws_records = pending, ws_calls = calls\<rparr>)))))"

definition world_store_get :: "fake_world_store \<Rightarrow> string \<Rightarrow> (ingestion_record \<times> fake_world_store) res" where
  "world_store_get s record_id =
     bindE (checked (record_id_check record_id WORLD_STORE ''get'') ()) (\<lambda>_.
     case map_of (ws_records s) record_id of
       None \<Rightarrow> Inl (PortError NOT_FOUND WORLD_STORE ''get'')
     | Some r \<Rightarrow> bindE (record_call (ws_calls s) WORLD_STORE ''get'' 1) (\<lambda>calls. Inr (r, s\<lparr>ws_calls := calls\<rparr>)))"

definition world_store_list_frames ::
  "fake_world_store \<Rightarrow> string \<Rightarrow> int \<Rightarrow> string option \<Rightarrow> int \<Rightarrow> (frame_ref list \<times> fake_world_store) res" where
  "world_store_list_frames s source_id stream_index after_decode_index limit =
     bindE (checked (run_checks
        [require (is_typed_id ''src'' source_id) (PortError INVALID_REQUEST WORLD_STORE ''list_frames''),
         stream_index_check stream_index WORLD_STORE ''list_frames'',
         require (case map_of (ws_records s) source_id of
                    Some (RSource v) \<Rightarrow> stream_index \<in> set (source_stream_indexes v) | _ \<Rightarrow> False)
           (PortError NOT_FOUND WORLD_STORE ''list_frames'')]) ()) (\<lambda>_.
     bindE (bounded_limit limit WORLD_STORE ''list_frames'') (\<lambda>bounded.
     bindE (case after_decode_index of None \<Rightarrow> Inr (- 1)
            | Some d \<Rightarrow> unsigned_decimal d WORLD_STORE ''list_frames'') (\<lambda>after.
     let result = take bounded (sort_key decode_key
           (filter (\<lambda>f. fr_source_id f = source_id \<and> fr_stream_index f = stream_index \<and> after < decode_key f)
              (dict_frames (ws_records s))))
     in bindE (record_call (ws_calls s) WORLD_STORE ''list_frames'' (length result)) (\<lambda>calls.
        Inr (result, s\<lparr>ws_calls := calls\<rparr>)))))"

definition world_store_list_evidence ::
  "fake_world_store \<Rightarrow> string \<Rightarrow> int \<Rightarrow> (evidence_ref list \<times> fake_world_store) res" where
  "world_store_list_evidence s frame_id limit =
     bindE (checked (require (is_typed_id ''frm'' frame_id) (PortError INVALID_REQUEST WORLD_STORE ''list_evidence'')) ()) (\<lambda>_.
     bindE (bounded_limit limit WORLD_STORE ''list_evidence'') (\<lambda>bounded.
     let result = take bounded (sort_key ev_evidence_id
           (filter (\<lambda>e. ev_frame_id e = frame_id) (dict_evidence (ws_records s))))
     in bindE (record_call (ws_calls s) WORLD_STORE ''list_evidence'' (length result)) (\<lambda>calls.
        Inr (result, s\<lparr>ws_calls := calls\<rparr>))))"

section \<open>Record kinds and identifiers\<close>

fun record_prefix :: "ingestion_record \<Rightarrow> string" where
  "record_prefix (RSource _) = ''src''"
| "record_prefix (RFrame _) = ''frm''"
| "record_prefix (REvidence _) = ''evi''"
| "record_prefix (RRun _) = ''run''"

lemma record_identifier_typed: "record_valid nfc r \<Longrightarrow> is_typed_id (record_prefix r) (record_identifier r)"
  by (cases r) (simp_all add: source_valid_def source_post_def frame_valid_def frame_post_def evidence_valid_def
      evidence_post_def run_manifest_valid_def run_manifest_post_def typed_id_check_None)

lemma is_typed_id_inj: "is_typed_id p s \<Longrightarrow> is_typed_id q s \<Longrightarrow> length p = length q \<Longrightarrow> p = q"
  by (simp add: is_typed_id_def)

lemma record_prefix_length [simp]: "length (record_prefix r) = 3"
  by (cases r) simp_all

lemma same_identifier_same_prefix:
  "record_valid nfc r \<Longrightarrow> record_valid nfc r' \<Longrightarrow> record_identifier r = record_identifier r' \<Longrightarrow>
   record_prefix r = record_prefix r'"
  using record_identifier_typed [of nfc r] record_identifier_typed [of nfc r']
  by (metis is_typed_id_inj record_prefix_length)

lemma prefix_cases:
  "record_prefix r = ''src'' \<longleftrightarrow> (\<exists>v. r = RSource v)"
  "record_prefix r = ''frm'' \<longleftrightarrow> (\<exists>v. r = RFrame v)"
  by (cases r; simp)+

lemma dict_sources_iff: "v \<in> set (dict_sources kvs) \<longleftrightarrow> (\<exists>k. (k, RSource v) \<in> set kvs)"
  by (induction kvs rule: dict_sources.induct) auto

lemma dict_frames_iff: "f \<in> set (dict_frames kvs) \<longleftrightarrow> (\<exists>k. (k, RFrame f) \<in> set kvs)"
  by (induction kvs rule: dict_frames.induct) auto

lemma dict_evidence_iff: "e \<in> set (dict_evidence kvs) \<longleftrightarrow> (\<exists>k. (k, REvidence e) \<in> set kvs)"
  by (induction kvs rule: dict_evidence.induct) auto

section \<open>The laws of the stores\<close>

text \<open>
  A map of records is closed when it is keyed by identifier, every frame and run names a stored
  source (the frame a stream of it) and every evidence record a stored frame.
\<close>

fun record_closed :: "(string \<rightharpoonup> ingestion_record) \<Rightarrow> ingestion_record \<Rightarrow> bool" where
  "record_closed m (RSource v) = True"
| "record_closed m (RFrame v) =
     (\<exists>s. m (fr_source_id v) = Some (RSource s) \<and> fr_stream_index v \<in> set (source_stream_indexes s))"
| "record_closed m (REvidence v) = (\<exists>f. m (ev_frame_id v) = Some (RFrame f))"
| "record_closed m (RRun v) = (\<exists>s. m (rm_source_id v) = Some (RSource s))"

definition records_closed :: "(string \<rightharpoonup> ingestion_record) \<Rightarrow> bool" where
  "records_closed m \<longleftrightarrow> (\<forall>i r. m i = Some r \<longrightarrow> i = record_identifier r \<and> record_closed m r)"

definition keyed :: "(string \<Rightarrow> string) \<Rightarrow> record_dict \<Rightarrow> bool" where
  "keyed nfc kvs \<longleftrightarrow> distinct (map fst kvs) \<and>
     (\<forall>k r. map_of kvs k = Some r \<longrightarrow> k = record_identifier r \<and> record_valid nfc r)"

definition world_ok :: "(string \<Rightarrow> string) \<Rightarrow> fake_world_store \<Rightarrow> bool" where
  "world_ok nfc s \<longleftrightarrow> keyed nfc (ws_records s) \<and> records_closed (map_of (ws_records s)) \<and>
     distinct (map frame_position (dict_frames (ws_records s)))"

lemma keyed_update:
  "keyed nfc kvs \<Longrightarrow> record_valid nfc r \<Longrightarrow> keyed nfc (AList.update (record_identifier r) r kvs)"
  by (auto simp: keyed_def distinct_update update_conv')

text \<open>What a batch of records writes.\<close>

definition batch_map :: "ingestion_record list \<Rightarrow> string \<rightharpoonup> ingestion_record" where
  "batch_map rs = map_of (rev (map (\<lambda>r. (record_identifier r, r)) rs))"

lemma pending_records_spec:
  assumes "pending_records nfc kvs rs = Inr p" and "keyed nfc kvs" and "\<forall>r \<in> set rs. record_valid nfc r"
  shows "keyed nfc p \<and> map_of p = map_of kvs ++ batch_map rs"
  using assms
proof (induction rs arbitrary: kvs)
  case (Cons r rs)
  then have "pending_records nfc (AList.update (record_identifier r) r kvs) rs = Inr p"
    by (auto simp: bindE_Inr_iff)
  with Cons.IH [OF this keyed_update] Cons.prems show ?case
    by (auto simp: batch_map_def update_conv' map_add_def fun_eq_iff split: option.splits)
qed (simp add: batch_map_def)

lemma keyed_member: "keyed nfc kvs \<Longrightarrow> (k, r) \<in> set kvs \<longleftrightarrow> map_of kvs k = Some r"
  by (simp add: keyed_def)

lemma keyed_key: "keyed nfc kvs \<Longrightarrow> map_of kvs k = Some r \<Longrightarrow> k = record_identifier r \<and> record_valid nfc r"
  by (simp add: keyed_def)

lemma keyed_sources:
  assumes k: "keyed nfc kvs"
  shows "v \<in> set (dict_sources kvs) \<longleftrightarrow> map_of kvs (so_source_id v) = Some (RSource v)"
  using keyed_key [OF k, of _ "RSource v"] by (auto simp: dict_sources_iff keyed_member [OF k] simp del: map_of_eq_Some_iff)

lemma keyed_frames:
  assumes k: "keyed nfc kvs"
  shows "v \<in> set (dict_frames kvs) \<longleftrightarrow> map_of kvs (fr_frame_id v) = Some (RFrame v)"
  using keyed_key [OF k, of _ "RFrame v"] by (auto simp: dict_frames_iff keyed_member [OF k] simp del: map_of_eq_Some_iff)

lemma keyed_source_by_id:
  assumes k: "keyed nfc kvs"
  shows "source_by_id (dict_sources kvs) i = Some v \<longleftrightarrow> map_of kvs i = Some (RSource v)"
proof -
  note mem = keyed_sources [OF k]
  have inj: "v = w" if "v \<in> set (dict_sources kvs)" "w \<in> set (dict_sources kvs)" "so_source_id v = so_source_id w" for v w
    using that by (simp add: mem)
  show ?thesis
  proof
    assume "source_by_id (dict_sources kvs) i = Some v"
    then have "(i, v) \<in> set (rev (map (\<lambda>s. (so_source_id s, s)) (dict_sources kvs)))"
      unfolding source_by_id_def by (rule map_of_SomeD)
    then show "map_of kvs i = Some (RSource v)" using mem by auto
  next
    assume m: "map_of kvs i = Some (RSource v)"
    then have i: "i = so_source_id v" using keyed_key [OF k m] by simp
    with m have v: "v \<in> set (dict_sources kvs)" by (simp add: mem)
    then obtain w where w: "source_by_id (dict_sources kvs) i = Some w"
      using weak_map_of_SomeI [of i v "rev (map (\<lambda>s. (so_source_id s, s)) (dict_sources kvs))"]
      by (auto simp: source_by_id_def i)
    then have "(i, w) \<in> set (rev (map (\<lambda>s. (so_source_id s, s)) (dict_sources kvs)))"
      unfolding source_by_id_def by (rule map_of_SomeD)
    then have "w \<in> set (dict_sources kvs)" "so_source_id w = so_source_id v" by (auto simp: i)
    with inj v w show "source_by_id (dict_sources kvs) i = Some v" by metis
  qed
qed

lemma streams_check_None:
  "streams_check sources fs = None \<longleftrightarrow>
     (\<forall>f \<in> set fs. \<exists>s. sources (fr_source_id f) = Some s \<and> fr_stream_index f \<in> set (source_stream_indexes s))"
  by (induction fs) (auto split: option.splits)

lemma references_known_closed:
  assumes k: "keyed nfc p"
    and known: "references_known (map so_source_id (dict_sources p)) (map fr_frame_id (dict_frames p)) r"
    and frames: "\<And>f. r = RFrame f \<Longrightarrow> record_closed (map_of p) (RFrame f)"
  shows "record_closed (map_of p) r"
  using known frames keyed_sources [OF k] keyed_frames [OF k] by (cases r) auto

lemma batch_map_member: "batch_map rs i = Some r \<Longrightarrow> r \<in> set rs \<and> i = record_identifier r"
  by (auto simp: batch_map_def dest: map_of_SomeD)

lemma commit_result:
  assumes s: "world_ok nfc s" and valid: "\<forall>r \<in> set rs. record_valid nfc r"
    and c: "world_store_commit nfc s rs = Inr (u, s')"
  shows "world_ok nfc s'" and "map_of (ws_records s') = map_of (ws_records s) ++ batch_map rs"
proof -
  obtain p where p: "pending_records nfc (ws_records s) rs = Inr p" "ws_records s' = p"
    and known: "list_all (references_known (map so_source_id (dict_sources p)) (map fr_frame_id (dict_frames p))) rs"
    and streams: "streams_check (source_by_id (dict_sources p)) (dict_frames p) = None"
    and positions: "distinct (map frame_position (dict_frames p))"
    using c by (auto simp: world_store_commit_def bindE_Inr_iff checked_Inr_iff Let_def)
  have old: "keyed nfc (ws_records s)" "records_closed (map_of (ws_records s))"
    using s by (simp_all add: world_ok_def)
  from pending_records_spec [OF p(1) old(1) valid]
  have k: "keyed nfc p" and m: "map_of p = map_of (ws_records s) ++ batch_map rs" by simp_all
  have frame_closed: "record_closed (map_of p) (RFrame f)" if "f \<in> set (dict_frames p)" for f
    using streams that by (auto simp: streams_check_None keyed_source_by_id [OF k])
  have kept: "\<exists>r'. map_of p i = Some r' \<and> record_prefix r' = record_prefix r"
    if "map_of (ws_records s) i = Some r" for i r
  proof (cases "batch_map rs i")
    case None
    with that show ?thesis by (simp add: m map_add_def)
  next
    case (Some r')
    have new: "record_valid nfc r'" "i = record_identifier r'" using batch_map_member [OF Some] valid by blast+
    have "record_prefix r' = record_prefix r"
      by (rule same_identifier_same_prefix [OF new(1)]) (use keyed_key [OF old(1) that] new in auto)
    moreover have "map_of p i = Some r'" by (simp only: m map_add_Some_iff Some simp_thms)
    ultimately show ?thesis by blast
  qed
  have kept_source: "\<exists>v. map_of p i = Some (RSource v)" if "map_of (ws_records s) i = Some (RSource v)" for i v
    using kept [OF that] by (auto simp: prefix_cases)
  have kept_frame: "\<exists>v. map_of p i = Some (RFrame v)" if "map_of (ws_records s) i = Some (RFrame v)" for i v
    using kept [OF that] by (auto simp: prefix_cases)
  have frame: "record_closed (map_of p) (RFrame f)" if "map_of p i = Some (RFrame f)" for i f
    using that keyed_key [OF k that] frame_closed keyed_frames [OF k, of f] by simp
  have "record_closed (map_of p) r" if r: "map_of p i = Some r" for i r
  proof (cases "batch_map rs i")
    case None
    then have "map_of (ws_records s) i = Some r" using r by (simp add: m map_add_def)
    then have "record_closed (map_of (ws_records s)) r" using old(2) by (auto simp: records_closed_def)
    then show ?thesis
      using kept_source kept_frame frame r by (cases r) auto
  next
    case (Some r')
    then have "r \<in> set rs" using r batch_map_member [OF Some] by (simp add: m map_add_def)
    with known have "references_known (map so_source_id (dict_sources p)) (map fr_frame_id (dict_frames p)) r"
      by (simp add: list_all_iff)
    then show ?thesis
      by (rule references_known_closed [OF k]) (use r frame in blast)
  qed
  then have "records_closed (map_of p)"
    using keyed_key [OF k] by (simp add: records_closed_def)
  with k positions show "world_ok nfc s'" by (simp add: world_ok_def p(2))
  show "map_of (ws_records s') = map_of (ws_records s) ++ batch_map rs" by (simp add: m p(2))
qed

lemma world_ok_create: "world_ok nfc world_store_create"
  by (simp add: world_ok_def world_store_create_def keyed_def records_closed_def)

lemma world_get_stored:
  assumes "world_ok nfc s" and m: "map_of (ws_records s) i = Some r"
  shows "\<exists>s'. world_store_get s i = Inr (r, s') \<and> ws_records s' = ws_records s"
proof -
  have "i = record_identifier r" "is_typed_id (record_prefix r) i"
    using assms keyed_key [of nfc "ws_records s"] record_identifier_typed by (auto simp: world_ok_def)
  then have "record_id_check i WORLD_STORE ''get'' = None"
    by (cases r) (simp_all add: record_id_check_def)
  with m show ?thesis
    by (simp add: world_store_get_def record_call_ok operation_tokens MAX_PORT_BATCH_ITEMS_def)
qed

lemma world_get_Inr:
  "world_store_get s i = Inr (r, s') \<Longrightarrow> map_of (ws_records s) i = Some r \<and> ws_records s' = ws_records s"
  by (auto simp: world_store_get_def bindE_Inr_iff split: option.splits)

section \<open>The store ports as interfaces\<close>

fun put_all ::
  "('s \<Rightarrow> artifact \<Rightarrow> string \<Rightarrow> (artifact \<times> 's) res) \<Rightarrow> 's \<Rightarrow> (artifact \<times> string) list \<Rightarrow> 's res" where
  "put_all put s [] = Inr s"
| "put_all put s ((a, c) # xs) = bindE (put s a c) (\<lambda>(_, s'). put_all put s' xs)"

locale evidence_store_port =
  fixes put :: "'s \<Rightarrow> artifact \<Rightarrow> string \<Rightarrow> (artifact \<times> 's) res"
    and get :: "'s \<Rightarrow> string \<Rightarrow> (string \<times> 's) res"
    and content :: "'s \<Rightarrow> string \<rightharpoonup> string"
    and inv :: "'s \<Rightarrow> bool"
  assumes put_result: "inv s \<Longrightarrow> put s a c = Inr (b, s') \<Longrightarrow>
      inv s' \<and> b = a \<and> sha256_hex c = ar_sha256 a \<and> content s' = (content s)(ar_sha256 a \<mapsto> c)"
    and put_keeps: "inv s \<Longrightarrow> put s a c = Inr (b, s') \<Longrightarrow> content s (ar_sha256 a) = Some d \<Longrightarrow> d = c"
    and get_stored: "inv s \<Longrightarrow> is_sha256 d \<Longrightarrow> content s d = Some c \<Longrightarrow> \<exists>s'. get s d = Inr (c, s') \<and> content s' = content s"
    and content_hash: "inv s \<Longrightarrow> content s d = Some c \<Longrightarrow> sha256_hex c = d"
begin

lemma put_all_inv: "inv s \<Longrightarrow> put_all put s xs = Inr s' \<Longrightarrow> inv s'"
proof (induction xs arbitrary: s)
  case (Cons x xs)
  then show ?case by (cases x) (auto simp: bindE_Inr_iff dest: put_result)
qed simp

lemma put_monotone:
  "inv s \<Longrightarrow> put s a c = Inr (b, s') \<Longrightarrow> content s d = Some x \<Longrightarrow> content s' d = Some x"
  using put_keeps put_result by fastforce

lemma put_all_monotone: "inv s \<Longrightarrow> put_all put s xs = Inr s' \<Longrightarrow> content s d = Some c \<Longrightarrow> content s' d = Some c"
proof (induction xs arbitrary: s)
  case (Cons x xs)
  obtain a y where x: "x = (a, y)" by (cases x)
  then obtain b t where t: "put s a y = Inr (b, t)" "put_all put t xs = Inr s'"
    using Cons.prems(2) by (auto simp: bindE_Inr_iff)
  show ?case
    by (rule Cons.IH [OF _ t(2)]) (use put_result [OF Cons.prems(1) t(1)] put_monotone [OF Cons.prems(1) t(1)] Cons.prems(3) in auto)
qed simp

lemma put_all_stored: "inv s \<Longrightarrow> put_all put s xs = Inr s' \<Longrightarrow> (a, c) \<in> set xs \<Longrightarrow> content s' (ar_sha256 a) = Some c"
proof (induction xs arbitrary: s)
  case (Cons x xs)
  obtain b y where x: "x = (b, y)" by (cases x)
  then obtain z t where t: "put s b y = Inr (z, t)" "put_all put t xs = Inr s'"
    using Cons.prems(2) by (auto simp: bindE_Inr_iff)
  have t': "inv t" "content t (ar_sha256 b) = Some y" using put_result [OF Cons.prems(1) t(1)] by simp_all
  show ?case
  proof (cases "(a, c) = x")
    case True
    then show ?thesis using put_all_monotone [OF t'(1) t(2) t'(2)] x by simp
  next
    case False
    then show ?thesis using Cons.IH [OF t'(1) t(2)] Cons.prems(3) by simp
  qed
qed simp

lemma put_all_get:
  "inv s \<Longrightarrow> put_all put s xs = Inr s' \<Longrightarrow> (a, c) \<in> set xs \<Longrightarrow> is_sha256 (ar_sha256 a) \<Longrightarrow>
   \<exists>t. get s' (ar_sha256 a) = Inr (c, t) \<and> sha256_hex c = ar_sha256 a"
  using put_all_inv [of s xs s'] put_all_stored [of s xs s' a c] get_stored [of s' "ar_sha256 a" c] content_hash
  by blast

end

fun commit_all ::
  "('s \<Rightarrow> ingestion_record list \<Rightarrow> (unit \<times> 's) res) \<Rightarrow> 's \<Rightarrow> ingestion_record list list \<Rightarrow> 's res" where
  "commit_all commit s [] = Inr s"
| "commit_all commit s (b # bs) = bindE (commit s b) (\<lambda>(_, s'). commit_all commit s' bs)"

locale world_store_port =
  fixes commit :: "'s \<Rightarrow> ingestion_record list \<Rightarrow> (unit \<times> 's) res"
    and get :: "'s \<Rightarrow> string \<Rightarrow> (ingestion_record \<times> 's) res"
    and lookup :: "'s \<Rightarrow> string \<rightharpoonup> ingestion_record"
    and inv :: "'s \<Rightarrow> bool"
    and valid :: "ingestion_record \<Rightarrow> bool"
  assumes commit_inv: "inv s \<Longrightarrow> \<forall>r \<in> set rs. valid r \<Longrightarrow> commit s rs = Inr (u, s') \<Longrightarrow> inv s'"
    and commit_lookup: "inv s \<Longrightarrow> \<forall>r \<in> set rs. valid r \<Longrightarrow> commit s rs = Inr (u, s') \<Longrightarrow>
      lookup s' = lookup s ++ batch_map rs"
    and get_lookup: "inv s \<Longrightarrow> lookup s i = Some r \<Longrightarrow> \<exists>s'. get s i = Inr (r, s') \<and> lookup s' = lookup s"
    and lookup_get: "get s i = Inr (r, s') \<Longrightarrow> lookup s i = Some r"
    and closed: "inv s \<Longrightarrow> records_closed (lookup s)"
begin

lemma commit_all_inv:
  "inv s \<Longrightarrow> \<forall>b \<in> set bs. \<forall>r \<in> set b. valid r \<Longrightarrow> commit_all commit s bs = Inr s' \<Longrightarrow> inv s'"
proof (induction bs arbitrary: s)
  case (Cons b bs)
  then obtain u t where t: "commit s b = Inr (u, t)" "commit_all commit t bs = Inr s'"
    by (auto simp: bindE_Inr_iff)
  with Cons commit_inv [of s b u t] show ?case by simp
qed simp

lemma commit_all_lookup:
  "inv s \<Longrightarrow> \<forall>b \<in> set bs. \<forall>r \<in> set b. valid r \<Longrightarrow> commit_all commit s bs = Inr s' \<Longrightarrow>
   lookup s' = foldl (\<lambda>m b. m ++ batch_map b) (lookup s) bs"
proof (induction bs arbitrary: s)
  case (Cons b bs)
  then obtain u t where t: "commit s b = Inr (u, t)" "commit_all commit t bs = Inr s'"
    by (auto simp: bindE_Inr_iff)
  with Cons commit_inv [of s b u t] commit_lookup [of s b u t] show ?case by simp
qed simp

text \<open>Evidence leads to its frame, the frame to its source and a stream of it.\<close>

lemma provenance:
  assumes inv: "inv s" and e: "get s i = Inr (REvidence e, t)"
  shows "\<exists>f v t1 t2. get s (ev_frame_id e) = Inr (RFrame f, t1) \<and> fr_frame_id f = ev_frame_id e \<and>
     get s (fr_source_id f) = Inr (RSource v, t2) \<and> so_source_id v = fr_source_id f \<and>
     fr_stream_index f \<in> set (source_stream_indexes v)"
proof -
  note c = closed [OF inv, unfolded records_closed_def, rule_format]
  from c [OF lookup_get [OF e]] obtain f where f: "lookup s (ev_frame_id e) = Some (RFrame f)" by auto
  from c [OF f] obtain v where v: "lookup s (fr_source_id f) = Some (RSource v)"
    "fr_stream_index f \<in> set (source_stream_indexes v)" by auto
  show ?thesis
    using get_lookup [OF inv f] get_lookup [OF inv v(1)] v c [OF f] c [OF v(1)] by auto
qed

end

definition evidence_store_ok :: "fake_evidence_store \<Rightarrow> bool" where
  "evidence_store_ok s \<longleftrightarrow> (\<forall>d c. es_content s d = Some c \<longrightarrow> sha256_hex c = d)"

lemma evidence_store_put_Inr:
  assumes "evidence_store_put s a c = Inr (b, s')"
  shows "b = a" "sha256_hex c = ar_sha256 a" "es_content s' = (es_content s)(ar_sha256 a \<mapsto> c)"
    "pred_option (\<lambda>d. d = c) (es_content s (ar_sha256 a))" "es_max_payload_bytes s' = es_max_payload_bytes s"
  using assms by (auto simp: evidence_store_put_def bindE_Inr_iff checked_Inr_iff)

lemma evidence_store_get_stored:
  "is_sha256 d \<Longrightarrow> es_content s d = Some c \<Longrightarrow>
   \<exists>s'. evidence_store_get s d = Inr (c, s') \<and> es_content s' = es_content s"
  by (simp add: evidence_store_get_def digest_check_def record_call_ok operation_tokens MAX_PORT_BATCH_ITEMS_def)

interpretation fake_evidence:
  evidence_store_port evidence_store_put evidence_store_get es_content evidence_store_ok
proof unfold_locales
  fix s :: fake_evidence_store and a c b s'
  assume ok: "evidence_store_ok s" and put: "evidence_store_put s a c = Inr (b, s')"
  show "evidence_store_ok s' \<and> b = a \<and> sha256_hex c = ar_sha256 a \<and>
      es_content s' = (es_content s)(ar_sha256 a \<mapsto> c)"
    using ok evidence_store_put_Inr(1-3) [OF put] by (simp add: evidence_store_ok_def)
next
  fix s :: fake_evidence_store and a c b s' d
  assume "evidence_store_put s a c = Inr (b, s')" "es_content s (ar_sha256 a) = Some d"
  then show "d = c" by (auto dest: evidence_store_put_Inr(4))
next
  fix s :: fake_evidence_store and d c
  assume "is_sha256 d" "es_content s d = Some c"
  then show "\<exists>s'. evidence_store_get s d = Inr (c, s') \<and> es_content s' = es_content s"
    by (rule evidence_store_get_stored)
next
  fix s :: fake_evidence_store and d c
  assume "evidence_store_ok s" "es_content s d = Some c"
  then show "sha256_hex c = d" by (simp add: evidence_store_ok_def)
qed

interpretation fake_world:
  world_store_port "world_store_commit nfc" world_store_get "\<lambda>s. map_of (ws_records s)" "world_ok nfc" "record_valid nfc"
  for nfc
proof unfold_locales
  fix s s' :: fake_world_store and rs u
  assume *: "world_ok nfc s" "\<forall>r \<in> set rs. record_valid nfc r" "world_store_commit nfc s rs = Inr (u, s')"
  show "world_ok nfc s'" by (rule commit_result(1) [OF *])
  show "map_of (ws_records s') = map_of (ws_records s) ++ batch_map rs" by (rule commit_result(2) [OF *])
next
  fix s :: fake_world_store and i r
  assume "world_ok nfc s" "map_of (ws_records s) i = Some r"
  then show "\<exists>s'. world_store_get s i = Inr (r, s') \<and> map_of (ws_records s') = map_of (ws_records s)"
    using world_get_stored by metis
next
  fix s :: fake_world_store and i r s'
  assume "world_store_get s i = Inr (r, s')"
  then show "map_of (ws_records s) i = Some r" by (simp add: world_get_Inr)
next
  fix s :: fake_world_store
  assume "world_ok nfc s"
  then show "records_closed (map_of (ws_records s))" by (simp add: world_ok_def)
qed

section \<open>Properties\<close>

text \<open>
  C32: after any number of accepted puts into a fresh evidence store every artifact can be read back
  by its digest with exactly the bytes it was put with, and the digest is the SHA-256 of those
  bytes; later puts never change stored content.
\<close>

theorem evidence_store_reads_back:
  assumes "evidence_store_create n = Inr s" and "put_all evidence_store_put s xs = Inr s'"
    and "(a, c) \<in> set xs" and "is_sha256 (ar_sha256 a)"
  shows "\<exists>t. evidence_store_get s' (ar_sha256 a) = Inr (c, t) \<and> sha256_hex c = ar_sha256 a"
proof -
  have "evidence_store_ok s"
    using assms(1) by (auto simp: evidence_store_create_def bindE_Inr_iff evidence_store_ok_def)
  then show ?thesis using assms(2-4) by (rule fake_evidence.put_all_get)
qed

definition example_artifact :: "string \<Rightarrow> artifact" where
  "example_artifact c = \<lparr>ar_sha256 = sha256_hex c, ar_bytes = show_int (int (length c)), ar_media_type = RGB24_MEDIA_TYPE\<rparr>"

lemma evidence_store_reads_back_witness:
  "\<exists>s s' t. evidence_store_create 10 = Inr s \<and>
     put_all evidence_store_put s [(example_artifact ''abc'', ''abc''), (example_artifact ''abc'', ''abc'')] = Inr s' \<and>
     evidence_store_get s' (sha256_hex ''abc'') = Inr (''abc'', t)"
proof -
  obtain d where "fake_descriptor EVIDENCE_STORE (Some 10) = Inr d"
    using fake_descriptor_ok [of "Some 10" EVIDENCE_STORE] by (auto simp: MAX_I64_def)
  then have s: "evidence_store_create 10 = Inr \<lparr>es_max_payload_bytes = 10, es_content = Map.empty, es_calls = []\<rparr>"
    by (simp add: evidence_store_create_def)
  have "\<exists>s'. put_all evidence_store_put \<lparr>es_max_payload_bytes = 10, es_content = Map.empty, es_calls = []\<rparr>
      [(example_artifact ''abc'', ''abc''), (example_artifact ''abc'', ''abc'')] = Inr s'"
    by (simp add: evidence_store_put_def example_artifact_def record_call_ok operation_tokens MAX_PORT_BATCH_ITEMS_def)
  then obtain s' where s': "put_all evidence_store_put \<lparr>es_max_payload_bytes = 10, es_content = Map.empty, es_calls = []\<rparr>
      [(example_artifact ''abc'', ''abc''), (example_artifact ''abc'', ''abc'')] = Inr s'" by blast
  from evidence_store_reads_back [OF s s', of "example_artifact ''abc''" "''abc''"] s s' show ?thesis
    by (auto simp: example_artifact_def)
qed

text \<open>
  C21: whatever batches are committed to a fresh world store, an evidence record it returns leads to a
  frame it returns, and that frame to a source it returns that has the frame's stream: no commit,
  overwriting ones included, leaves a dangling reference.
\<close>

theorem world_store_provenance:
  assumes valid: "\<forall>b \<in> set bs. \<forall>r \<in> set b. record_valid nfc r"
    and commits: "commit_all (world_store_commit nfc) world_store_create bs = Inr s"
    and e: "world_store_get s i = Inr (REvidence e, t)"
  shows "\<exists>f v t1 t2. world_store_get s (ev_frame_id e) = Inr (RFrame f, t1) \<and> fr_frame_id f = ev_frame_id e \<and>
     world_store_get s (fr_source_id f) = Inr (RSource v, t2) \<and> so_source_id v = fr_source_id f \<and>
     fr_stream_index f \<in> set (source_stream_indexes v)"
  by (rule fake_world.provenance [OF fake_world.commit_all_inv [OF world_ok_create valid commits] e])

lemma ex_ids_distinct:
  "so_source_id ex_source \<noteq> fr_frame_id (ex_frame i t)" "fr_frame_id (ex_frame i t) \<noteq> so_source_id ex_source"
  "so_source_id ex_source \<noteq> ev_evidence_id ex_evidence" "ev_evidence_id ex_evidence \<noteq> so_source_id ex_source"
  "fr_frame_id (ex_frame i t) \<noteq> ev_evidence_id ex_evidence" "ev_evidence_id ex_evidence \<noteq> fr_frame_id (ex_frame i t)"
  by (simp_all add: ex_source_def ex_frame_def ex_evidence_def)

lemma ex_fields:
  "fr_source_id (ex_frame i t) = so_source_id ex_source" "fr_stream_index (ex_frame i t) = 0"
  "source_stream_indexes ex_source = [0]" "ev_frame_id ex_evidence = fr_frame_id (ex_frame 0 0)"
  by (simp_all add: ex_frame_def source_stream_indexes_def ex_source_def ex_stream_def ex_evidence_def)

definition ex_batch :: "ingestion_record list" where
  "ex_batch = [RSource ex_source, RFrame (ex_frame 0 0), REvidence ex_evidence]"

definition ex_world :: fake_world_store where
  "ex_world = \<lparr>ws_records = map (\<lambda>r. (record_identifier r, r)) ex_batch,
     ws_calls = [\<lparr>pc_port = WORLD_STORE, pc_operation = ''commit'', pc_item_count = 3\<rparr>]\<rparr>"

lemma ex_batch_valid: "\<forall>b \<in> set [ex_batch]. \<forall>r \<in> set b. record_valid id r"
  using ex_frame_valid [of 0 0] by (simp add: ex_batch_def ex_source_valid ex_evidence_valid)

lemma ex_commit: "commit_all (world_store_commit id) world_store_create [ex_batch] = Inr ex_world"
proof -
  obtain b1 b2 b3 where "dumps_record id (RSource ex_source) = Inr b1" "dumps_record id (RFrame (ex_frame 0 0)) = Inr b2"
      "dumps_record id (REvidence ex_evidence) = Inr b3"
    using ex_source_dumps ex_frame_dumps [of 0 0] ex_evidence_dumps by auto
  then have "pending_records id [] ex_batch = Inr (map (\<lambda>r. (record_identifier r, r)) ex_batch)"
    by (simp add: ex_batch_def ex_ids_distinct)
  then show ?thesis
    by (simp add: world_store_commit_def world_store_create_def ex_world_def record_call_ok operation_tokens
        MAX_PORT_BATCH_ITEMS_def) (simp add: ex_batch_def ex_fields source_by_id_def record_call_ok operation_tokens
        MAX_PORT_BATCH_ITEMS_def)
qed

lemma ex_world_get: "\<exists>t. world_store_get ex_world (ev_evidence_id ex_evidence) = Inr (REvidence ex_evidence, t)"
proof -
  have "is_typed_id ''evi'' (ev_evidence_id ex_evidence)" by (simp add: ex_evidence_def is_typed_id_def)
  then show ?thesis
    by (simp add: world_store_get_def ex_world_def ex_batch_def ex_ids_distinct record_id_check_def record_call_ok
        operation_tokens MAX_PORT_BATCH_ITEMS_def)
qed

lemma world_store_provenance_witness:
  "\<exists>f v t1 t2. world_store_get ex_world (fr_frame_id (ex_frame 0 0)) = Inr (RFrame f, t1) \<and>
     world_store_get ex_world (fr_source_id f) = Inr (RSource v, t2) \<and> fr_stream_index f \<in> set (source_stream_indexes v)"
proof -
  obtain t where "world_store_get ex_world (ev_evidence_id ex_evidence) = Inr (REvidence ex_evidence, t)"
    using ex_world_get by blast
  from world_store_provenance [OF ex_batch_valid ex_commit this] show ?thesis
    unfolding ex_fields(4) by blast
qed

end
