(* ===== verification/Sampling.thy ===== *)
theory Sampling
  imports Ports Ingestion_Examples
begin

text \<open>
  The exact-PTS frame sampler of \<open>sampling.py\<close>.  A \<open>Fraction\<close> is a \<open>rat\<close>.  The cancellation event
  another thread may set is the argument \<open>cancel\<close>: \<open>cancel n\<close> is what the \<open>n\<close>-th \<open>is_set()\<close> of the
  call returns (constantly \<open>False\<close> for \<open>None\<close>).
\<close>

section \<open>Limits, cursor and page\<close>

record sampling_limits =
  sl_max_page_candidates :: int
  sl_max_total_candidates :: int
  sl_max_duration_seconds :: int

definition default_sampling_limits :: sampling_limits where
  "default_sampling_limits = \<lparr>sl_max_page_candidates = int MAX_PORT_BATCH_ITEMS,
     sl_max_total_candidates = 100000, sl_max_duration_seconds = 60 * 60\<rparr>"

definition sampling_limits_post :: "sampling_limits \<Rightarrow> check" where
  "sampling_limits_post v = require
     (2 \<le> sl_max_page_candidates v \<and> sl_max_page_candidates v \<le> int MAX_PORT_BATCH_ITEMS \<and>
      sl_max_page_candidates v \<le> sl_max_total_candidates v \<and> sl_max_total_candidates v \<le> 100000 \<and>
      1 \<le> sl_max_duration_seconds v \<and> sl_max_duration_seconds v \<le> 24 * 60 * 60)
     (ValueError ''sampling limits are outside the v1 bounds'')"

definition media_seconds :: "media_time \<Rightarrow> rat" where
  "media_seconds v = of_int (int_of_decimal (mt_value v) * int_of_decimal (tb_numerator (mt_time_base v))) /
     of_int (int_of_decimal (tb_denominator (mt_time_base v)))"

record sampling_cursor =
  sc_source_id :: string
  sc_stream_index :: int
  sc_time_base :: time_base
  sc_sampling :: sampling
  sc_limits :: sampling_limits
  sc_origin :: media_time
  sc_previous :: frame_ref
  sc_left :: frame_ref
  sc_next_target_index :: int
  sc_seen_candidates :: int
  sc_last_emitted_frame_id :: "string option"
  sc_finished :: bool

abbreviation frame_time_base :: "frame_ref \<Rightarrow> time_base" where
  "frame_time_base f \<equiv> mt_time_base (fr_pts f)"

abbreviation frame_seconds :: "frame_ref \<Rightarrow> rat" where
  "frame_seconds f \<equiv> media_seconds (fr_pts f)"

abbreviation decode_number :: "frame_ref \<Rightarrow> int" where
  "decode_number f \<equiv> int_of_decimal (fr_decode_index f)"

definition sampling_cursor_post :: "sampling_cursor \<Rightarrow> check" where
  "sampling_cursor_post v = run_checks
     [require (is_typed_id ''src'' (sc_source_id v)) (ValueError ''cursor source identity is invalid''),
      require (0 \<le> sc_stream_index v \<and> sc_stream_index v \<le> MAX_I31) (ValueError ''cursor stream index is invalid''),
      require (mt_time_base (sc_origin v) = sc_time_base v \<and>
               fr_source_id (sc_previous v) = sc_source_id v \<and> fr_source_id (sc_left v) = sc_source_id v \<and>
               fr_stream_index (sc_previous v) = sc_stream_index v \<and> fr_stream_index (sc_left v) = sc_stream_index v \<and>
               frame_time_base (sc_previous v) = sc_time_base v \<and> frame_time_base (sc_left v) = sc_time_base v \<and>
               frame_seconds (sc_left v) = frame_seconds (sc_previous v) \<and>
               decode_number (sc_left v) \<le> decode_number (sc_previous v))
        (ValueError ''cursor records conflict''),
      require (1 \<le> sc_next_target_index v \<and> sc_next_target_index v \<le> MAX_U64 \<and>
               1 \<le> sc_seen_candidates v \<and> sc_seen_candidates v \<le> MAX_U64)
        (ValueError ''cursor counters are invalid''),
      require (pred_option (is_typed_id ''frm'') (sc_last_emitted_frame_id v))
        (ValueError ''cursor frame identity is invalid'')]"

record sampling_page =
  sp_frames :: "frame_ref list"
  sp_cursor :: "sampling_cursor option"
  sp_finished :: bool

definition sampling_page_post :: "sampling_page \<Rightarrow> check" where
  "sampling_page_post v = run_checks
     [require (length (sp_frames v) \<le> MAX_PORT_BATCH_ITEMS \<and> distinct (map fr_frame_id (sp_frames v)))
        (ValueError ''sample page frames are invalid''),
      (case sp_cursor v of
         None \<Rightarrow> require (sp_frames v = [] \<and> sp_finished v)
           (ValueError ''only an empty completed page may omit its cursor'')
       | Some c \<Rightarrow> require (sc_finished c = sp_finished v) (ValueError ''sample page cursor is invalid''))]"

definition mk_sampling_page :: "frame_ref list \<Rightarrow> sampling_cursor option \<Rightarrow> bool \<Rightarrow> sampling_page res" where
  "mk_sampling_page frames cursor finished =
     (let v = \<lparr>sp_frames = frames, sp_cursor = cursor, sp_finished = finished\<rparr>
      in checked (sampling_page_post v) v)"

section \<open>The sampler\<close>

record pts_sampler =
  pt_limits :: sampling_limits
  pt_calls :: "port_call list"

text \<open>\<open>PtsFrameSampler(limits=limits)\<close>, whose descriptor is built from the page bound\<close>

definition pts_sampler_descriptor :: "sampling_limits \<Rightarrow> capability_descriptor" where
  "pts_sampler_descriptor limits =
     \<lparr>cd_port = FRAME_SAMPLER, cd_implementation = ''visualworld.pts-sampler'', cd_implementation_version = ''1'',
      cd_deterministic = True, cd_offline = True, cd_max_batch_items = sl_max_page_candidates limits,
      cd_max_payload_bytes = None, cd_contract_version = 1, cd_allowed_effects = []\<rparr>"

definition pts_sampler_create :: "sampling_limits option \<Rightarrow> pts_sampler res" where
  "pts_sampler_create limits =
     (let selected = (case limits of None \<Rightarrow> default_sampling_limits | Some l \<Rightarrow> l)
      in checked (run_checks [sampling_limits_post selected, capability_descriptor_post (pts_sampler_descriptor selected)])
           \<lparr>pt_limits = selected, pt_calls = []\<rparr>)"

definition sampler_error :: "port_error_code \<Rightarrow> string \<Rightarrow> exn" where
  "sampler_error c operation = PortError c FRAME_SAMPLER operation"

text \<open>\<open>{stream.stream_index: stream for stream in source.streams}\<close>\<close>

definition stream_by_index :: "source \<Rightarrow> int \<rightharpoonup> source_stream" where
  "stream_by_index src = map_of (rev (map (\<lambda>s. (ss_stream_index s, s)) (so_streams src)))"

text \<open>The variables of the candidate loop; the two times are those of \<open>left\<close> and \<open>consumed\<close>.\<close>

record sample_state =
  st_consumed :: frame_ref
  st_left :: frame_ref
  st_next_target :: int
  st_last_emitted :: "string option"
  st_selected :: "frame_ref list"
  st_positions :: "(int \<times> string) list"
  st_identities :: "string list"

text \<open>\<open>if ... and frame.frame_id != last_emitted: selected.append(frame); last_emitted = frame.frame_id\<close>\<close>

definition emit :: "bool \<Rightarrow> frame_ref \<Rightarrow> sample_state \<Rightarrow> sample_state" where
  "emit due f st =
     (if due \<and> st_last_emitted st \<noteq> Some (fr_frame_id f)
      then st\<lparr>st_selected := st_selected st @ [f], st_last_emitted := Some (fr_frame_id f)\<rparr> else st)"

text \<open>The parameters a page fixes before its loop.\<close>

record sample_context =
  cx_operation :: string
  cx_source_id :: string
  cx_stream_index :: int
  cx_time_base :: time_base
  cx_fps :: rat
  cx_origin :: rat
  cx_span :: rat

definition candidate_check :: "sample_context \<Rightarrow> sample_state \<Rightarrow> frame_ref \<Rightarrow> check" where
  "candidate_check cx st right = run_checks
     [require (fr_source_id right = cx_source_id cx) (sampler_error INVALID_REQUEST (cx_operation cx)),
      require (fr_stream_index right = cx_stream_index cx \<and> frame_time_base right = cx_time_base cx)
        (sampler_error CONFLICT (cx_operation cx)),
      require (pred_option (\<lambda>d. mt_time_base d = cx_time_base cx) (fr_duration right))
        (sampler_error CONFLICT (cx_operation cx)),
      require (fr_frame_id right \<notin> set (st_identities st) \<and>
               (fr_stream_index right, fr_decode_index right) \<notin> set (st_positions st))
        (sampler_error CONFLICT (cx_operation cx)),
      require (decode_number (st_consumed st) < decode_number right \<and>
               frame_seconds (st_consumed st) \<le> frame_seconds right)
        (sampler_error CONFLICT (cx_operation cx)),
      require (frame_seconds right - cx_origin cx \<le> cx_span cx) (sampler_error LIMIT_EXCEEDED (cx_operation cx))]"

definition advance :: "sample_context \<Rightarrow> sample_state \<Rightarrow> frame_ref \<Rightarrow> sample_state" where
  "advance cx st right =
     (let left_time = frame_seconds (st_left st); right_time = frame_seconds right;
          due = \<lfloor>(right_time - cx_origin cx) * cx_fps cx\<rfloor>;
          split = \<lfloor>((left_time + right_time) / 2 - cx_origin cx) * cx_fps cx\<rfloor>;
          next = st_next_target st
      in if left_time < right_time
         then (emit (max next (split + 1) \<le> due) right (emit (next \<le> min split due) (st_left st) st))
                \<lparr>st_next_target := max next (due + 1), st_left := right\<rparr>
         else st)"

definition sample_step :: "sample_context \<Rightarrow> bool \<Rightarrow> sample_state \<Rightarrow> frame_ref \<Rightarrow> sample_state res" where
  "sample_step cx cancelled st right =
     checked (run_checks
        [require (\<not> cancelled) (sampler_error CANCELLED (cx_operation cx)), candidate_check cx st right])
       ((advance cx (st\<lparr>st_identities := fr_frame_id right # st_identities st,
                        st_positions := (fr_stream_index right, fr_decode_index right) # st_positions st\<rparr>) right)
          \<lparr>st_consumed := right\<rparr>)"

fun sample_loop ::
  "sample_context \<Rightarrow> (nat \<Rightarrow> bool) \<Rightarrow> nat \<Rightarrow> sample_state \<Rightarrow> frame_ref list \<Rightarrow> sample_state res" where
  "sample_loop cx cancel n st [] = Inr st"
| "sample_loop cx cancel n st (right # rest) =
     bindE (sample_step cx (cancel n) st right) (\<lambda>st'. sample_loop cx cancel (Suc n) st' rest)"

definition sample_end :: "sample_context \<Rightarrow> bool \<Rightarrow> sample_state \<Rightarrow> sample_state res" where
  "sample_end cx end_of_stream st =
     (case fr_duration (st_consumed st) of
        None \<Rightarrow> Inr st
      | Some d \<Rightarrow>
          let duration = media_seconds d; horizon = frame_seconds (st_consumed st) + duration;
              due = \<lceil>(horizon - cx_origin cx) * cx_fps cx\<rceil> - 1; next = st_next_target st
          in if end_of_stream \<and> 0 < duration
             then checked (require (horizon - cx_origin cx \<le> cx_span cx) (sampler_error LIMIT_EXCEEDED (cx_operation cx)))
                    ((emit (next \<le> due) (st_left st) st)\<lparr>st_next_target := max next (due + 1)\<rparr>)
             else Inr st)"

text \<open>What the two branches before the loop establish: origin, loop state and candidates seen.\<close>

definition sample_first ::
  "string \<Rightarrow> source \<Rightarrow> frame_ref \<Rightarrow> nat \<Rightarrow> (media_time \<times> sample_state \<times> int) res" where
  "sample_first operation src first count =
     checked (run_checks
       [require (fr_source_id first = so_source_id src) (sampler_error INVALID_REQUEST operation),
        require (case stream_by_index src (fr_stream_index first) of
                   None \<Rightarrow> False
                 | Some stream \<Rightarrow> frame_time_base first = ss_time_base stream \<and>
                     pred_option (\<lambda>d. mt_time_base d = ss_time_base stream) (fr_duration first))
          (sampler_error CONFLICT operation)])
       (fr_pts first,
        \<lparr>st_consumed = first, st_left = first, st_next_target = 1, st_last_emitted = Some (fr_frame_id first),
         st_selected = [first], st_positions = [(fr_stream_index first, fr_decode_index first)],
         st_identities = [fr_frame_id first]\<rparr>,
        int count)"

definition sample_resume ::
  "string \<Rightarrow> sampling_limits \<Rightarrow> source \<Rightarrow> frame_ref \<Rightarrow> nat \<Rightarrow> sampling \<Rightarrow> sampling_cursor \<Rightarrow>
   (media_time \<times> sample_state \<times> int) res" where
  "sample_resume operation limits src first count sampling c =
     (let left = sc_left c; previous = sc_previous c in
      checked (require
        (\<not> sc_finished c \<and> sc_source_id c = so_source_id src \<and> sc_sampling c = sampling \<and> sc_limits c = limits \<and>
         (case stream_by_index src (sc_stream_index c) of None \<Rightarrow> False | Some s \<Rightarrow> ss_time_base s = sc_time_base c) \<and>
         first = previous \<and> pred_option (\<lambda>d. mt_time_base d = sc_time_base c) (fr_duration previous))
        (sampler_error CONFLICT operation))
       (sc_origin c,
        \<lparr>st_consumed = previous, st_left = left, st_next_target = sc_next_target_index c,
         st_last_emitted = sc_last_emitted_frame_id c, st_selected = [],
         st_positions = [(fr_stream_index left, fr_decode_index left), (fr_stream_index previous, fr_decode_index previous)],
         st_identities = [fr_frame_id left, fr_frame_id previous]\<rparr>,
        sc_seen_candidates c + int count - 1))"

definition sample_context_of ::
  "string \<Rightarrow> sampling_limits \<Rightarrow> source \<Rightarrow> sampling \<Rightarrow> media_time \<Rightarrow> sample_state \<Rightarrow> sample_context" where
  "sample_context_of operation limits src sampling origin st =
     \<lparr>cx_operation = operation, cx_source_id = so_source_id src, cx_stream_index = fr_stream_index (st_consumed st),
      cx_time_base = frame_time_base (st_consumed st), cx_fps = fraction (sa_target_fps sampling),
      cx_origin = media_seconds origin, cx_span = of_int (sl_max_duration_seconds limits)\<rparr>"

definition resume_check ::
  "sample_context \<Rightarrow> sampling_limits \<Rightarrow> bool \<Rightarrow> int \<Rightarrow> sample_state \<Rightarrow> check" where
  "resume_check cx limits resumed seen st = run_checks
     [require (seen \<le> sl_max_total_candidates limits) (sampler_error LIMIT_EXCEEDED (cx_operation cx)),
      require (cx_origin cx \<le> frame_seconds (st_left st) \<and>
               (resumed \<longrightarrow> st_next_target st = \<lfloor>(frame_seconds (st_left st) - cx_origin cx) * cx_fps cx\<rfloor> + 1))
        (sampler_error CONFLICT (cx_operation cx)),
      require (frame_seconds (st_consumed st) - cx_origin cx \<le> cx_span cx)
        (sampler_error LIMIT_EXCEEDED (cx_operation cx))]"

definition sample_page_op ::
  "string \<Rightarrow> pts_sampler \<Rightarrow> source \<Rightarrow> frame_ref list \<Rightarrow> sampling \<Rightarrow> sampling_cursor option \<Rightarrow> bool \<Rightarrow>
   (nat \<Rightarrow> bool) \<Rightarrow> (sampling_page \<times> pts_sampler) res" where
  "sample_page_op operation s src candidates sampling cursor end_of_stream cancel =
     bindE (checked (run_checks
        [require (\<not> cancel 0) (sampler_error CANCELLED operation),
         require (int (length candidates) \<le> sl_max_page_candidates (pt_limits s)) (sampler_error LIMIT_EXCEEDED operation)])
        ()) (\<lambda>_.
     case candidates of
       [] \<Rightarrow>
         if cursor = None \<and> end_of_stream
         then bindE (mk_sampling_page [] None True) (\<lambda>page.
              bindE (record_call (pt_calls s) FRAME_SAMPLER operation 0) (\<lambda>calls.
              Inr (page, s\<lparr>pt_calls := calls\<rparr>)))
         else Inl (sampler_error INVALID_REQUEST operation)
     | first # rest \<Rightarrow>
         bindE (case cursor of
                  None \<Rightarrow> sample_first operation src first (length candidates)
                | Some c \<Rightarrow> sample_resume operation (pt_limits s) src first (length candidates) sampling c)
           (\<lambda>(origin, st, seen).
         let cx = sample_context_of operation (pt_limits s) src sampling origin st in
         bindE (checked (resume_check cx (pt_limits s) (cursor \<noteq> None) seen st) ()) (\<lambda>_.
         bindE (sample_loop cx cancel 1 st rest) (\<lambda>st1.
         bindE (sample_end cx end_of_stream st1) (\<lambda>st2.
         bindE (checked (run_checks
            [require (\<not> cancel (length candidates)) (sampler_error CANCELLED operation),
             require (st_next_target st2 \<le> MAX_U64) (sampler_error LIMIT_EXCEEDED operation)]) ()) (\<lambda>_.
         let c = \<lparr>sc_source_id = so_source_id src, sc_stream_index = cx_stream_index cx, sc_time_base = cx_time_base cx,
                  sc_sampling = sampling, sc_limits = pt_limits s, sc_origin = origin, sc_previous = st_consumed st2,
                  sc_left = st_left st2, sc_next_target_index = st_next_target st2, sc_seen_candidates = seen,
                  sc_last_emitted_frame_id = st_last_emitted st2, sc_finished = end_of_stream\<rparr>
         in bindE (checked (sampling_cursor_post c) ()) (\<lambda>_.
            bindE (mk_sampling_page (st_selected st2) (Some c) end_of_stream) (\<lambda>page.
            bindE (record_call (pt_calls s) FRAME_SAMPLER operation (length (sp_frames page))) (\<lambda>calls.
            Inr (page, s\<lparr>pt_calls := calls\<rparr>))))))))))"

definition sample_page ::
  "pts_sampler \<Rightarrow> source \<Rightarrow> frame_ref list \<Rightarrow> sampling \<Rightarrow> sampling_cursor option \<Rightarrow> bool \<Rightarrow> (nat \<Rightarrow> bool) \<Rightarrow>
   (sampling_page \<times> pts_sampler) res" where
  "sample_page = sample_page_op ''sample_page''"

definition sample :: "pts_sampler \<Rightarrow> source \<Rightarrow> frame_ref list \<Rightarrow> sampling \<Rightarrow> (frame_ref list \<times> pts_sampler) res" where
  "sample s src candidates sampling =
     bindE (sample_page_op ''sample'' s src candidates sampling None True (\<lambda>_. False)) (\<lambda>(page, s'). Inr (sp_frames page, s'))"

section \<open>The lattice specification\<close>

text \<open>
  The frame nearest to a time, the earliest of them on ties, and the selection for the lattice points
  \<open>0..K\<close>: the nearest frame of every lattice point, each frame once.
\<close>

definition nearest_frame :: "rat \<Rightarrow> frame_ref \<Rightarrow> frame_ref list \<Rightarrow> frame_ref" where
  "nearest_frame t first rest =
     foldl (\<lambda>b f. if \<bar>frame_seconds f - t\<bar> < \<bar>frame_seconds b - t\<bar> then f else b) first rest"

definition lattice_selection :: "rat \<Rightarrow> rat \<Rightarrow> frame_ref \<Rightarrow> frame_ref list \<Rightarrow> int \<Rightarrow> frame_ref list" where
  "lattice_selection origin fps first rest k =
     remdups_adj (map (\<lambda>i. nearest_frame (origin + of_int i / fps) first rest) [0..k])"

text \<open>The last lattice point a complete run answers: up to the last frame, or to its end when it is known.\<close>

definition last_target :: "rat \<Rightarrow> rat \<Rightarrow> frame_ref \<Rightarrow> int" where
  "last_target origin fps f =
     (let reached = \<lfloor>(frame_seconds f - origin) * fps\<rfloor>
      in case fr_duration f of
           None \<Rightarrow> reached
         | Some d \<Rightarrow> if 0 < media_seconds d
                     then max reached (\<lceil>(frame_seconds f + media_seconds d - origin) * fps\<rceil> - 1) else reached)"

lemma nearest_frame_Nil [simp]: "nearest_frame t first [] = first"
  by (simp add: nearest_frame_def)

lemma nearest_frame_snoc:
  "nearest_frame t first (xs @ [f]) =
     (if \<bar>frame_seconds f - t\<bar> < \<bar>frame_seconds (nearest_frame t first xs) - t\<bar> then f else nearest_frame t first xs)"
  by (simp add: nearest_frame_def)

lemma nearest_frame_least:
  "g \<in> set (first # xs) \<Longrightarrow> \<bar>frame_seconds (nearest_frame t first xs) - t\<bar> \<le> \<bar>frame_seconds g - t\<bar>"
  by (induction xs rule: rev_induct) (auto simp: nearest_frame_snoc)

lemma nearest_frame_member: "nearest_frame t first xs \<in> set (first # xs)"
  by (induction xs rule: rev_induct) (auto simp: nearest_frame_snoc)

lemma remdups_adj_replicate_snoc:
  "remdups_adj (xs @ replicate n y) =
     (if 0 < n \<and> (xs = [] \<or> last xs \<noteq> y) then remdups_adj xs @ [y] else remdups_adj xs)"
proof (induction n)
  case (Suc n)
  have "remdups_adj (ys @ [y]) = (if ys = [] \<or> last ys \<noteq> y then remdups_adj ys @ [y] else remdups_adj ys)" for ys
    by (induction ys rule: remdups_adj.induct) auto
  then have "remdups_adj ((xs @ replicate n y) @ [y]) =
      (if xs @ replicate n y = [] \<or> last (xs @ replicate n y) \<noteq> y then remdups_adj (xs @ replicate n y) @ [y]
       else remdups_adj (xs @ replicate n y))" .
  moreover have "replicate (Suc n) y = replicate n y @ [y]" by (simp add: replicate_append_same)
  ultimately show ?case using Suc by (cases n) (auto simp: last_append)
qed simp

lemma map_const_upto: "(\<And>i. a \<le> i \<Longrightarrow> i \<le> b \<Longrightarrow> f i = c) \<Longrightarrow> map f [a..b] = replicate (nat (b - a + 1)) c"
  by (rule nth_equalityI) auto

lemma upto_append:
  fixes a b c :: int
  assumes "a \<le> b + 1" "b \<le> c"
  shows "[a..c] = [a..b] @ [b + 1..c]"
proof (cases "a \<le> b")
  case True
  with assms(2) show ?thesis using upto_split2 [of a b c] by simp
next
  case False
  with assms(1) have "a = b + 1" by simp
  then show ?thesis by simp
qed

lemma remdups_adj_not_Nil: "remdups_adj xs = [] \<longleftrightarrow> xs = []"
  by simp

section \<open>The loop computes the specification\<close>

text \<open>
  \<open>before\<close> is what earlier pages selected, \<open>first # xs\<close> all frames consumed so far.
\<close>

definition sampling_inv ::
  "rat \<Rightarrow> rat \<Rightarrow> frame_ref \<Rightarrow> frame_ref list \<Rightarrow> frame_ref list \<Rightarrow> sample_state \<Rightarrow> bool" where
  "sampling_inv origin fps first xs before st \<longleftrightarrow>
     st_consumed st = last (first # xs) \<and> frame_seconds (st_left st) = frame_seconds (st_consumed st) \<and>
     decode_number (st_left st) \<le> decode_number (st_consumed st) \<and>
     st_left st \<in> set (first # xs) \<and> origin \<le> frame_seconds (st_left st) \<and>
     (\<forall>t \<ge> frame_seconds (st_left st). nearest_frame t first xs = st_left st) \<and>
     st_next_target st = \<lfloor>(frame_seconds (st_left st) - origin) * fps\<rfloor> + 1 \<and>
     before @ st_selected st = lattice_selection origin fps first xs (st_next_target st - 1) \<and>
     st_last_emitted st = Some (fr_frame_id (last (before @ st_selected st)))"

lemma lattice_selection_not_Nil: "0 \<le> k \<Longrightarrow> lattice_selection origin fps first xs k \<noteq> []"
  by (simp add: lattice_selection_def)

lemma lattice_selection_member: "f \<in> set (lattice_selection origin fps first xs k) \<Longrightarrow> f \<in> set (first # xs)"
  unfolding lattice_selection_def using nearest_frame_member by auto

lemma emit_selected:
  assumes last: "st_last_emitted st = Some (fr_frame_id (last (before @ st_selected st)))"
    and sel: "before @ st_selected st = remdups_adj ys" "ys \<noteq> []"
    and inj: "inj_on fr_frame_id A" "set ys \<subseteq> A" "f \<in> A"
  shows "before @ st_selected (emit (0 < n) f st) = remdups_adj (ys @ replicate n f)"
    and "st_last_emitted (emit (0 < n) f st) = Some (fr_frame_id (last (before @ st_selected (emit (0 < n) f st))))"
proof -
  have "last (remdups_adj ys) = last ys" by simp
  then have l: "last (before @ st_selected st) = last ys" by (simp only: sel(1))
  have "last ys \<in> A" using sel(2) inj(2) by auto
  then have id: "fr_frame_id (last ys) = fr_frame_id f \<longleftrightarrow> last ys = f"
    using inj by (auto dest: inj_onD)
  show "before @ st_selected (emit (0 < n) f st) = remdups_adj (ys @ replicate n f)"
    using sel last l id by (auto simp: emit_def remdups_adj_replicate_snoc simp flip: append_assoc)
  show "st_last_emitted (emit (0 < n) f st) = Some (fr_frame_id (last (before @ st_selected (emit (0 < n) f st))))"
    using last by (simp add: emit_def)
qed

lemma emit_fields [simp]:
  "st_consumed (emit b f st) = st_consumed st" "st_left (emit b f st) = st_left st"
  "st_next_target (emit b f st) = st_next_target st" "st_identities (emit b f st) = st_identities st"
  "st_positions (emit b f st) = st_positions st"
  by (simp_all add: emit_def)

text \<open>Lattice points up to the last consumed time keep their frame when a later frame arrives.\<close>

lemma nearest_frame_keep:
  assumes "g \<in> set (first # xs)" and "t \<le> frame_seconds g" and "frame_seconds g \<le> frame_seconds f"
  shows "nearest_frame t first (xs @ [f]) = nearest_frame t first xs"
  using nearest_frame_least [OF assms(1), of t] assms(2,3) by (auto simp: nearest_frame_snoc)

lemma lattice_time_le:
  assumes "0 < fps" shows "origin + of_int i / fps \<le> t \<longleftrightarrow> i \<le> \<lfloor>(t - origin) * (fps :: rat)\<rfloor>"
proof -
  have "origin + of_int i / fps \<le> t \<longleftrightarrow> of_int i \<le> (t - origin) * fps"
    using assms by (simp add: field_simps)
  then show ?thesis by (simp add: le_floor_iff)
qed

lemma nearest_after:
  assumes "\<forall>t \<ge> frame_seconds l. nearest_frame t first xs = l" and "frame_seconds l \<le> t" and "frame_seconds l < frame_seconds f"
  shows "nearest_frame t first (xs @ [f]) = (if t \<le> (frame_seconds l + frame_seconds f) / 2 then l else f)"
proof -
  have "\<bar>frame_seconds f - t\<bar> < \<bar>frame_seconds l - t\<bar> \<longleftrightarrow> (frame_seconds l + frame_seconds f) / 2 < t"
    using assms(2,3) by (simp add: abs_if field_simps)
  with assms(1,2) show ?thesis by (auto simp: nearest_frame_snoc)
qed

lemma advance_later:
  assumes inv: "sampling_inv origin fps first xs before st" and fps: "0 < fps" "cx_fps cx = fps" "cx_origin cx = origin"
    and later: "frame_seconds (st_left st) < frame_seconds f" and inj: "inj_on fr_frame_id (set (first # xs @ [f]))"
  shows "sampling_inv origin fps first (xs @ [f]) before ((advance cx st f)\<lparr>st_consumed := f\<rparr>)"
proof -
  define l nxt due split where "l = st_left st" and "nxt = st_next_target st"
    and "due = \<lfloor>(frame_seconds f - origin) * fps\<rfloor>"
    and "split = \<lfloor>((frame_seconds l + frame_seconds f) / 2 - origin) * fps\<rfloor>"
  let ?T = "\<lambda>i. origin + of_int i / fps" and ?mid = "(frame_seconds l + frame_seconds f) / 2"
  have i: "frame_seconds l = frame_seconds (st_consumed st)" "l \<in> set (first # xs)" "origin \<le> frame_seconds l"
      "\<forall>t \<ge> frame_seconds l. nearest_frame t first xs = l" "nxt = \<lfloor>(frame_seconds l - origin) * fps\<rfloor> + 1"
      "before @ st_selected st = lattice_selection origin fps first xs (nxt - 1)"
      "st_last_emitted st = Some (fr_frame_id (last (before @ st_selected st)))"
    using inv unfolding sampling_inv_def l_def nxt_def by blast+
  have lf: "frame_seconds l < frame_seconds f" using later by (simp add: l_def)
  have mid: "frame_seconds l < ?mid" "?mid < frame_seconds f" using lf by (simp_all add: field_simps)
  have at: "?T k \<le> frame_seconds l \<longleftrightarrow> k < nxt" "?T k \<le> ?mid \<longleftrightarrow> k \<le> split" "?T k \<le> frame_seconds f \<longleftrightarrow> k \<le> due" for k
    unfolding i(5) split_def due_def lattice_time_le [OF fps(1)] by linarith+
  have pos: "0 \<le> nxt - 1"
    using i(3) fps(1) by (simp add: i(5))
  have order: "nxt - 1 \<le> split" "split \<le> due"
    using fps(1) mid unfolding i(5) split_def due_def by (auto intro!: floor_mono mult_right_mono)
  let ?old = "map (\<lambda>k. nearest_frame (?T k) first xs) [0..nxt - 1]"
  let ?new = "?old @ replicate (nat (split - nxt + 1)) l"
  have "map (\<lambda>k. nearest_frame (?T k) first (xs @ [f])) [0..nxt - 1] = ?old"
    using nearest_frame_keep [OF i(2)] at(1) lf by (intro map_cong) auto
  moreover have "map (\<lambda>k. nearest_frame (?T k) first (xs @ [f])) [nxt..split] = replicate (nat (split - nxt + 1)) l"
  proof (rule map_const_upto)
    fix k assume k: "nxt \<le> k" "k \<le> split"
    then have "frame_seconds l \<le> ?T k" "?T k \<le> ?mid" using at(1,2) [of k] by auto
    then show "nearest_frame (?T k) first (xs @ [f]) = l"
      using nearest_after [OF i(4) _ lf, of "?T k"] by simp
  qed
  moreover have "map (\<lambda>k. nearest_frame (?T k) first (xs @ [f])) [split + 1..due] = replicate (nat (due - (split + 1) + 1)) f"
  proof (rule map_const_upto)
    fix k assume "split + 1 \<le> k" "k \<le> due"
    then have "\<not> ?T k \<le> ?mid" using at(2) [of k] by auto
    moreover from this have "frame_seconds l \<le> ?T k" using mid(1) by linarith
    ultimately show "nearest_frame (?T k) first (xs @ [f]) = f"
      using nearest_after [OF i(4) _ lf, of "?T k"] by (simp only: if_False)
  qed
  moreover have "[0..due] = [0..nxt - 1] @ [nxt..split] @ [split + 1..due]"
    using upto_append [of 0 "nxt - 1" due] upto_append [of "nxt" split due] pos order by simp
  ultimately have target: "lattice_selection origin fps first (xs @ [f]) due =
      remdups_adj (?new @ replicate (nat (due - (split + 1) + 1)) f)"
    by (simp only: lattice_selection_def map_append append_assoc)
  have A: "set ?old \<subseteq> set (first # xs @ [f])" "l \<in> set (first # xs @ [f])" "set ?new \<subseteq> set (first # xs @ [f])"
    using nearest_frame_member [of _ first xs] i(2) by auto
  define st1 where "st1 = emit (nxt \<le> min split due) l st"
  define st2 where "st2 = emit (max nxt (split + 1) \<le> due) f st1"
  have cond: "(nxt \<le> min split due) = (0 < nat (split - nxt + 1))" "(max nxt (split + 1) \<le> due) = (0 < nat (due - (split + 1) + 1))"
    using order by auto
  have ne: "?old \<noteq> []" "?new \<noteq> []" using pos by simp_all
  note e1 = emit_selected [OF i(7) i(6) [unfolded lattice_selection_def] ne(1) inj A(1,2), of "nat (split - nxt + 1)",
      folded cond(1), folded st1_def]
  note e2 = emit_selected [OF e1(2,1) ne(2) inj A(3), of f "nat (due - (split + 1) + 1)", folded cond(2), folded st2_def]
  have two: "before @ st_selected st2 = remdups_adj (?new @ replicate (nat (due - (split + 1) + 1)) f)"
      "st_last_emitted st2 = Some (fr_frame_id (last (before @ st_selected st2)))"
    using e2 by simp_all
  have adv: "(advance cx st f)\<lparr>st_consumed := f\<rparr> = st2\<lparr>st_next_target := due + 1, st_left := f, st_consumed := f\<rparr>"
    using later order by (simp add: advance_def Let_def st2_def st1_def l_def [symmetric] nxt_def [symmetric] fps
        due_def [symmetric] split_def [symmetric] max_def)
  have after: "\<forall>t \<ge> frame_seconds f. nearest_frame t first (xs @ [f]) = f"
    using nearest_after [OF i(4) _ lf] lf mid by auto
  show ?thesis
    using two target after i(3) lf unfolding adv
    by (simp add: sampling_inv_def due_def [symmetric])
qed

lemma advance_equal:
  assumes inv: "sampling_inv origin fps first xs before st" and same: "frame_seconds f = frame_seconds (st_left st)"
    and order: "decode_number (st_consumed st) < decode_number f"
  shows "sampling_inv origin fps first (xs @ [f]) before (st\<lparr>st_consumed := f\<rparr>)"
proof -
  have l: "st_left st \<in> set (first # xs)" using inv by (simp add: sampling_inv_def)
  have keep: "nearest_frame t first (xs @ [f]) = nearest_frame t first xs" for t
    using nearest_frame_least [OF l, of t] same by (auto simp: nearest_frame_snoc)
  then have "lattice_selection origin fps first (xs @ [f]) k = lattice_selection origin fps first xs k" for k
    by (simp add: lattice_selection_def)
  moreover have "decode_number (st_left st) \<le> decode_number (st_consumed st)" "st_left st \<in> set (first # xs)"
      "origin \<le> frame_seconds (st_left st)" "\<forall>t \<ge> frame_seconds (st_left st). nearest_frame t first xs = st_left st"
      "st_next_target st = \<lfloor>(frame_seconds (st_left st) - origin) * fps\<rfloor> + 1"
      "before @ st_selected st = lattice_selection origin fps first xs (st_next_target st - 1)"
      "st_last_emitted st = Some (fr_frame_id (last (before @ st_selected st)))"
    using inv unfolding sampling_inv_def by blast+
  ultimately show ?thesis
    using same order keep by (auto simp: sampling_inv_def)
qed

lemma sampling_inv_cong:
  "st_consumed st = st_consumed st' \<Longrightarrow> st_left st = st_left st' \<Longrightarrow> st_next_target st = st_next_target st' \<Longrightarrow>
   st_last_emitted st = st_last_emitted st' \<Longrightarrow> before @ st_selected st = before' @ st_selected st' \<Longrightarrow>
   sampling_inv origin fps first xs before st = sampling_inv origin fps first xs before' st'"
  by (simp only: sampling_inv_def)

definition context_ok :: "rat \<Rightarrow> rat \<Rightarrow> sample_context \<Rightarrow> bool" where
  "context_ok origin fps cx \<longleftrightarrow> 0 < fps \<and> cx_fps cx = fps \<and> cx_origin cx = origin"

lemma sampling_inv_sets [simp]:
  "sampling_inv origin fps first xs before (st\<lparr>st_identities := a, st_positions := b\<rparr>) =
   sampling_inv origin fps first xs before st"
  by (simp add: sampling_inv_def)

lemma sample_step_inv:
  assumes inv: "sampling_inv origin fps first xs before st" and cx: "context_ok origin fps cx"
    and step: "sample_step cx c st f = Inr st'" and inj: "inj_on fr_frame_id (set (first # xs @ [f]))"
  shows "sampling_inv origin fps first (xs @ [f]) before st'"
proof -
  let ?st = "st\<lparr>st_identities := fr_frame_id f # st_identities st,
      st_positions := (fr_stream_index f, fr_decode_index f) # st_positions st\<rparr>"
  have st': "st' = (advance cx ?st f)\<lparr>st_consumed := f\<rparr>"
    and check: "candidate_check cx st f = None"
    using step by (simp_all add: sample_step_def checked_Inr_iff)
  have order: "decode_number (st_consumed st) < decode_number f" "frame_seconds (st_consumed st) \<le> frame_seconds f"
    using check by (simp_all add: candidate_check_def)
  have inv': "sampling_inv origin fps first xs before ?st" using inv by simp
  have left: "frame_seconds (st_left st) = frame_seconds (st_consumed st)"
    using inv by (simp add: sampling_inv_def)
  show ?thesis
  proof (cases "frame_seconds (st_left st) < frame_seconds f")
    case True
    then show ?thesis unfolding st'
      using cx by (intro advance_later [OF inv' _ _ _ _ inj]) (simp_all add: context_ok_def)
  next
    case False
    then have "frame_seconds f = frame_seconds (st_left ?st)" using left order by simp
    then show ?thesis unfolding st'
      using False order(1) by (subst advance_def) (auto simp: Let_def intro!: advance_equal [OF inv'])
  qed
qed

lemma sample_loop_inv:
  "sampling_inv origin fps first xs before st \<Longrightarrow> context_ok origin fps cx \<Longrightarrow>
   sample_loop cx cancel n st fs = Inr st' \<Longrightarrow> inj_on fr_frame_id (set (first # xs @ fs)) \<Longrightarrow>
   sampling_inv origin fps first (xs @ fs) before st'"
proof (induction fs arbitrary: xs n st)
  case (Cons f fs)
  then obtain st1 where st1: "sample_step cx (cancel n) st f = Inr st1" "sample_loop cx cancel (Suc n) st1 fs = Inr st'"
    by (auto simp: bindE_Inr_iff)
  have "inj_on fr_frame_id (set (first # xs @ [f]))"
    using Cons.prems(4) by (rule inj_on_subset) auto
  with Cons.prems(1,2) st1(1) have "sampling_inv origin fps first (xs @ [f]) before st1"
    by (intro sample_step_inv)
  with Cons.IH [OF this Cons.prems(2) st1(2)] Cons.prems(4) show ?case by simp
qed simp

lemma sample_end_selection:
  assumes inv: "sampling_inv origin fps first xs before st" and cx: "context_ok origin fps cx"
    and step: "sample_end cx True st = Inr st'" and inj: "inj_on fr_frame_id (set (first # xs))"
  shows "before @ st_selected st' = lattice_selection origin fps first xs (last_target origin fps (last (first # xs)))"
proof -
  define l nxt where "l = st_left st" and "nxt = st_next_target st"
  have i: "st_consumed st = last (first # xs)" "frame_seconds l = frame_seconds (st_consumed st)" "l \<in> set (first # xs)"
      "origin \<le> frame_seconds l" "\<forall>t \<ge> frame_seconds l. nearest_frame t first xs = l"
      "nxt = \<lfloor>(frame_seconds l - origin) * fps\<rfloor> + 1"
      "before @ st_selected st = lattice_selection origin fps first xs (nxt - 1)"
      "st_last_emitted st = Some (fr_frame_id (last (before @ st_selected st)))"
    using inv unfolding sampling_inv_def l_def nxt_def by blast+
  have fps: "0 < fps" "cx_fps cx = fps" "cx_origin cx = origin" using cx by (simp_all add: context_ok_def)
  have pos: "0 \<le> nxt - 1" using i(4) fps(1) by (simp add: i(6))
  let ?T = "\<lambda>i. origin + of_int i / fps"
  show ?thesis
  proof (cases "\<exists>d. fr_duration (st_consumed st) = Some d \<and> 0 < media_seconds d")
    case False
    then have "st' = st" using step by (auto simp: sample_end_def Let_def split: option.splits)
    moreover have "last_target origin fps (st_consumed st) = nxt - 1"
      using False by (auto simp: last_target_def i(6) i(2) Let_def split: option.splits)
    ultimately show ?thesis using i(1,7) by simp
  next
    case True
    then obtain d where d: "fr_duration (st_consumed st) = Some d" "0 < media_seconds d" by blast
    define due where "due = \<lceil>(frame_seconds (st_consumed st) + media_seconds d - origin) * fps\<rceil> - 1"
    have st': "st' = (emit (nxt \<le> due) l st)\<lparr>st_next_target := max nxt (due + 1)\<rparr>"
      using step d by (simp add: sample_end_def checked_Inr_iff Let_def fps due_def nxt_def l_def)
    have target: "last_target origin fps (st_consumed st) = max (nxt - 1) due"
      using d by (simp add: last_target_def i(6) i(2) due_def Let_def)
    let ?old = "map (\<lambda>k. nearest_frame (?T k) first xs) [0..nxt - 1]"
    have "map (\<lambda>k. nearest_frame (?T k) first xs) [nxt..max (nxt - 1) due] = replicate (nat (max (nxt - 1) due - nxt + 1)) l"
    proof (rule map_const_upto)
      fix k assume "nxt \<le> k"
      then have "\<not> ?T k \<le> frame_seconds l" unfolding lattice_time_le [OF fps(1)] i(6) by simp
      then show "nearest_frame (?T k) first xs = l" using i(5) by simp
    qed
    moreover have "[0..max (nxt - 1) due] = [0..nxt - 1] @ [nxt..max (nxt - 1) due]"
      using upto_append [of 0 "nxt - 1" "max (nxt - 1) due"] pos by simp
    ultimately have spec: "lattice_selection origin fps first xs (max (nxt - 1) due) =
        remdups_adj (?old @ replicate (nat (max (nxt - 1) due - nxt + 1)) l)"
      by (simp only: lattice_selection_def map_append)
    have A: "set ?old \<subseteq> set (first # xs)" "l \<in> set (first # xs)" "?old \<noteq> []"
      using nearest_frame_member [of _ first xs] i(3) pos by auto
    have cond: "(nxt \<le> due) = (0 < nat (max (nxt - 1) due - nxt + 1))" by auto
    from emit_selected(1) [OF i(8) i(7) [unfolded lattice_selection_def] A(3) inj A(1,2), of "nat (max (nxt - 1) due - nxt + 1)",
        folded cond spec]
    show ?thesis by (simp only: st' i(1) [symmetric] target) simp
  qed
qed

section \<open>Pages\<close>

text \<open>What an accepted page with candidates has computed.\<close>

lemma sample_page_Inr:
  assumes "sample_page_op operation s src (first # rest) sampling cursor eos cancel = Inr (page, s')"
  obtains origin st seen st1 st2 cx c where
    "(case cursor of None \<Rightarrow> sample_first operation src first (length (first # rest))
      | Some k \<Rightarrow> sample_resume operation (pt_limits s) src first (length (first # rest)) sampling k) = Inr (origin, st, seen)"
    "cx = sample_context_of operation (pt_limits s) src sampling origin st"
    "resume_check cx (pt_limits s) (cursor \<noteq> None) seen st = None"
    "sample_loop cx cancel 1 st rest = Inr st1" "sample_end cx eos st1 = Inr st2"
    "c = \<lparr>sc_source_id = so_source_id src, sc_stream_index = cx_stream_index cx, sc_time_base = cx_time_base cx,
        sc_sampling = sampling, sc_limits = pt_limits s, sc_origin = origin, sc_previous = st_consumed st2,
        sc_left = st_left st2, sc_next_target_index = st_next_target st2, sc_seen_candidates = seen,
        sc_last_emitted_frame_id = st_last_emitted st2, sc_finished = eos\<rparr>"
    "page = \<lparr>sp_frames = st_selected st2, sp_cursor = Some c, sp_finished = eos\<rparr>" "pt_limits s' = pt_limits s"
  using assms
  by (auto simp: sample_page_op_def bindE_Inr_iff checked_Inr_iff mk_sampling_page_def Let_def)

definition cursor_state :: "sampling_cursor \<Rightarrow> sample_state" where
  "cursor_state c = \<lparr>st_consumed = sc_previous c, st_left = sc_left c, st_next_target = sc_next_target_index c,
     st_last_emitted = sc_last_emitted_frame_id c, st_selected = [], st_positions = [], st_identities = []\<rparr>"

definition cursor_covers :: "sampling \<Rightarrow> frame_ref \<Rightarrow> frame_ref list \<Rightarrow> frame_ref list \<Rightarrow> sampling_cursor \<Rightarrow> bool" where
  "cursor_covers sampling first xs before c \<longleftrightarrow>
     sc_origin c = fr_pts first \<and>
     sampling_inv (frame_seconds first) (fraction (sa_target_fps sampling)) first xs before (cursor_state c)"

lemma first_page_inv:
  assumes "sample_first operation src first n = Inr (origin, st, seen)" and "0 < fps"
  shows "origin = fr_pts first" and "sampling_inv (frame_seconds first) fps first [] [] st"
  using assms
  by (auto simp: sample_first_def checked_Inr_iff sampling_inv_def lattice_selection_def)

lemma resumed_page_inv:
  assumes "sample_resume operation limits src f n sampling c = Inr (origin, st, seen)"
    and "cursor_covers sampling first xs before c"
  shows "origin = fr_pts first" and "f = last (first # xs)"
    and "sampling_inv (frame_seconds first) (fraction (sa_target_fps sampling)) first xs before st"
proof -
  have r: "origin = sc_origin c" "f = sc_previous c" "st_consumed st = sc_previous c" "st_left st = sc_left c"
      "st_next_target st = sc_next_target_index c" "st_last_emitted st = sc_last_emitted_frame_id c" "st_selected st = []"
    using assms(1) by (simp_all add: sample_resume_def checked_Inr_iff Let_def)
  have c: "sc_origin c = fr_pts first"
      "sampling_inv (frame_seconds first) (fraction (sa_target_fps sampling)) first xs before (cursor_state c)"
    using assms(2) by (simp_all add: cursor_covers_def)
  show "origin = fr_pts first" using r(1) c(1) by simp
  show "f = last (first # xs)" using r(2) c(2) by (simp add: sampling_inv_def cursor_state_def)
  show "sampling_inv (frame_seconds first) (fraction (sa_target_fps sampling)) first xs before st"
    using c(2) by (subst sampling_inv_cong [of st "cursor_state c"]) (simp_all add: cursor_state_def r)
qed

lemma page_covers:
  assumes page: "sample_page_op operation s src (f # rest) sampling cursor eos cancel = Inr (page, s')"
    and fps: "0 < fraction (sa_target_fps sampling)"
    and start: "case cursor of None \<Rightarrow> f = first \<and> xs = [] \<and> before = []
                | Some c \<Rightarrow> cursor_covers sampling first xs before c"
    and inj: "inj_on fr_frame_id (set (first # xs @ rest))"
  shows "pt_limits s' = pt_limits s"
    and "eos \<Longrightarrow> before @ sp_frames page = lattice_selection (frame_seconds first) (fraction (sa_target_fps sampling)) first (xs @ rest)
        (last_target (frame_seconds first) (fraction (sa_target_fps sampling)) (last (first # xs @ rest)))"
    and "\<not> eos \<Longrightarrow> \<exists>c. sp_cursor page = Some c \<and> cursor_covers sampling first (xs @ rest) (before @ sp_frames page) c"
proof -
  let ?fps = "fraction (sa_target_fps sampling)"
  obtain origin st seen st1 st2 cx c where
    r: "(case cursor of None \<Rightarrow> sample_first operation src f (length (f # rest))
      | Some k \<Rightarrow> sample_resume operation (pt_limits s) src f (length (f # rest)) sampling k) = Inr (origin, st, seen)"
    "cx = sample_context_of operation (pt_limits s) src sampling origin st"
    "sample_loop cx cancel 1 st rest = Inr st1" "sample_end cx eos st1 = Inr st2"
    "c = \<lparr>sc_source_id = so_source_id src, sc_stream_index = cx_stream_index cx, sc_time_base = cx_time_base cx,
        sc_sampling = sampling, sc_limits = pt_limits s, sc_origin = origin, sc_previous = st_consumed st2,
        sc_left = st_left st2, sc_next_target_index = st_next_target st2, sc_seen_candidates = seen,
        sc_last_emitted_frame_id = st_last_emitted st2, sc_finished = eos\<rparr>"
    "page = \<lparr>sp_frames = st_selected st2, sp_cursor = Some c, sp_finished = eos\<rparr>" "pt_limits s' = pt_limits s"
    using page by (rule sample_page_Inr)
  have origin: "origin = fr_pts first" and inv: "sampling_inv (frame_seconds first) ?fps first xs before st"
    using r(1) start first_page_inv [OF _ fps] resumed_page_inv by (auto split: option.splits)
  have cx: "context_ok (frame_seconds first) ?fps cx"
    using fps by (simp add: context_ok_def r(2) sample_context_of_def origin)
  have inv1: "sampling_inv (frame_seconds first) ?fps first (xs @ rest) before st1"
    by (rule sample_loop_inv [OF inv cx r(3) inj])
  show "pt_limits s' = pt_limits s" by (rule r(7))
  show "before @ sp_frames page = lattice_selection (frame_seconds first) ?fps first (xs @ rest)
      (last_target (frame_seconds first) ?fps (last (first # xs @ rest)))" if eos
    using sample_end_selection [OF inv1 cx _ inj] r(4) that by (simp add: r(6))
  show "\<exists>c. sp_cursor page = Some c \<and> cursor_covers sampling first (xs @ rest) (before @ sp_frames page) c" if "\<not> eos"
  proof -
    have st2: "st2 = st1" using r(4) that by (auto simp: sample_end_def Let_def split: option.splits)
    have "sampling_inv (frame_seconds first) ?fps first (xs @ rest) (before @ sp_frames page) (cursor_state c)"
      by (subst sampling_inv_cong [of _ st1 _ before]) (simp_all add: inv1 r(5,6) st2 cursor_state_def)
    then show ?thesis by (simp add: cursor_covers_def r(5,6) origin)
  qed
qed

text \<open>
  A caller of \<open>sample_page\<close>: the pages of a stream in order, each resumed page preceded by the
  cursor's prior frame, the last one marked as the end of the stream.
\<close>

fun run_pages ::
  "pts_sampler \<Rightarrow> source \<Rightarrow> sampling \<Rightarrow> sampling_cursor option \<Rightarrow> frame_ref list list \<Rightarrow> frame_ref list res" where
  "run_pages s src sampling cursor [] = Inr []"
| "run_pages s src sampling cursor (p # ps) =
     bindE (sample_page s src (case cursor of None \<Rightarrow> p | Some c \<Rightarrow> sc_previous c # p) sampling cursor (ps = [])
              (\<lambda>_. False)) (\<lambda>(page, s').
     bindE (run_pages s' src sampling (sp_cursor page) ps) (\<lambda>rest. Inr (sp_frames page @ rest)))"

lemma run_pages_resumed:
  assumes "run_pages s src sampling (Some c) ps = Inr frames" and "ps \<noteq> []"
    and "cursor_covers sampling first xs before c" and "0 < fraction (sa_target_fps sampling)"
    and "inj_on fr_frame_id (set (first # xs @ concat ps))"
  shows "before @ frames = lattice_selection (frame_seconds first) (fraction (sa_target_fps sampling)) first (xs @ concat ps)
    (last_target (frame_seconds first) (fraction (sa_target_fps sampling)) (last (first # xs @ concat ps)))"
  using assms
proof (induction ps arbitrary: s c xs before frames)
  case (Cons p ps)
  obtain page s' rest where page: "sample_page s src (sc_previous c # p) sampling (Some c) (ps = []) (\<lambda>_. False) = Inr (page, s')"
    and rest: "run_pages s' src sampling (sp_cursor page) ps = Inr rest" "frames = sp_frames page @ rest"
    using Cons.prems(1) by (auto simp: bindE_Inr_iff)
  have inj: "inj_on fr_frame_id (set (first # xs @ p))"
    using Cons.prems(5) by (rule inj_on_subset) auto
  note covers = page_covers [OF page [unfolded sample_page_def] Cons.prems(4) _ inj, of before]
  show ?case
  proof (cases "ps = []")
    case True
    then show ?thesis using covers(2) Cons.prems(3) rest by simp
  next
    case False
    then obtain k where k: "sp_cursor page = Some k" "cursor_covers sampling first (xs @ p) (before @ sp_frames page) k"
      using covers(3) Cons.prems(3) by auto
    have "inj_on fr_frame_id (set (first # (xs @ p) @ concat ps))" using Cons.prems(5) by simp
    from Cons.IH [OF rest(1) [unfolded k(1)] False k(2) Cons.prems(4) this] show ?thesis
      by (simp add: rest(2))
  qed
qed simp

section \<open>No internal constructor fails\<close>

definition frame_on :: "sample_context \<Rightarrow> frame_ref \<Rightarrow> bool" where
  "frame_on cx f \<longleftrightarrow> fr_source_id f = cx_source_id cx \<and> fr_stream_index f = cx_stream_index cx \<and>
     frame_time_base f = cx_time_base cx \<and> is_typed_id ''frm'' (fr_frame_id f)"

text \<open>The state of a page that has taken the frames with identifiers \<open>ids\<close> into account.\<close>

definition page_inv :: "sample_context \<Rightarrow> string list \<Rightarrow> sample_state \<Rightarrow> bool" where
  "page_inv cx ids st \<longleftrightarrow>
     frame_on cx (st_left st) \<and> frame_on cx (st_consumed st) \<and>
     frame_seconds (st_left st) = frame_seconds (st_consumed st) \<and>
     decode_number (st_left st) \<le> decode_number (st_consumed st) \<and>
     distinct (map fr_frame_id (st_selected st)) \<and> fr_frame_id ` set (st_selected st) \<subseteq> set ids \<and>
     fr_frame_id (st_left st) \<in> set ids \<and> set ids \<subseteq> set (st_identities st) \<and>
     (fr_frame_id (st_left st) \<in> fr_frame_id ` set (st_selected st) \<longrightarrow> st_last_emitted st = Some (fr_frame_id (st_left st))) \<and>
     pred_option (is_typed_id ''frm'') (st_last_emitted st) \<and> 1 \<le> st_next_target st"

lemma emit_left_inv: "page_inv cx ids st \<Longrightarrow> page_inv cx ids (emit c (st_left st) st)"
  by (auto simp: page_inv_def emit_def frame_on_def)

lemma emit_right_inv:
  assumes inv: "page_inv cx ids st" and f: "frame_on cx f" "fr_frame_id f \<notin> set ids" "fr_frame_id f \<in> set (st_identities st)"
  shows "page_inv cx (fr_frame_id f # ids) ((emit c f st)\<lparr>st_next_target := max (st_next_target st) n, st_left := f, st_consumed := f\<rparr>)"
proof -
  have "fr_frame_id f \<notin> fr_frame_id ` set (st_selected st)" "is_typed_id ''frm'' (fr_frame_id f)"
    using inv f by (auto simp: page_inv_def frame_on_def)
  with inv f show ?thesis
    by (cases "c \<and> st_last_emitted st \<noteq> Some (fr_frame_id f)")
      (simp_all add: page_inv_def emit_def frame_on_def subset_insertI2 le_max_iff_disj)
qed

lemma advance_page_inv:
  assumes inv: "page_inv cx ids st" and f: "frame_on cx f" "fr_frame_id f \<notin> set (st_identities st)"
    and order: "decode_number (st_consumed st) < decode_number f" "frame_seconds (st_consumed st) \<le> frame_seconds f"
  shows "page_inv cx (fr_frame_id f # ids)
     ((advance cx (st\<lparr>st_identities := fr_frame_id f # st_identities st, st_positions := b\<rparr>) f)\<lparr>st_consumed := f\<rparr>)"
proof -
  let ?st = "st\<lparr>st_identities := fr_frame_id f # st_identities st, st_positions := b\<rparr>"
  have new: "fr_frame_id f \<notin> set ids" using inv f(2) by (auto simp: page_inv_def)
  have inv': "page_inv cx ids ?st" using inv by (auto simp: page_inv_def)
  show ?thesis
  proof (cases "frame_seconds (st_left st) < frame_seconds f")
    case False
    with inv f new order show ?thesis by (auto simp: page_inv_def advance_def Let_def)
  next
    case True
    then obtain c1 c2 n where "(advance cx ?st f)\<lparr>st_consumed := f\<rparr> =
        (emit c1 f (emit c2 (st_left ?st) ?st))\<lparr>st_next_target := max (st_next_target ?st) n, st_left := f, st_consumed := f\<rparr>"
      by (auto simp: advance_def Let_def)
    with emit_right_inv [OF emit_left_inv [OF inv'] f(1) new] show ?thesis by simp
  qed
qed

lemma sample_step_page_inv:
  assumes inv: "page_inv cx ids st" and step: "sample_step cx c st f = Inr st'" and f: "is_typed_id ''frm'' (fr_frame_id f)"
  shows "page_inv cx (fr_frame_id f # ids) st'"
proof -
  have check: "candidate_check cx st f = None"
    and st': "st' = (advance cx (st\<lparr>st_identities := fr_frame_id f # st_identities st,
        st_positions := (fr_stream_index f, fr_decode_index f) # st_positions st\<rparr>) f)\<lparr>st_consumed := f\<rparr>"
    using step by (simp_all add: sample_step_def checked_Inr_iff)
  show ?thesis unfolding st'
    using check f by (intro advance_page_inv [OF inv]) (simp_all add: candidate_check_def frame_on_def)
qed

lemma sample_loop_page_inv:
  "page_inv cx ids st \<Longrightarrow> sample_loop cx cancel n st fs = Inr st' \<Longrightarrow>
   \<forall>f \<in> set fs. is_typed_id ''frm'' (fr_frame_id f) \<Longrightarrow> \<exists>ids'. page_inv cx ids' st' \<and> length ids' = length ids + length fs"
proof (induction fs arbitrary: ids n st)
  case (Cons f fs)
  then obtain st1 where st1: "sample_step cx (cancel n) st f = Inr st1" "sample_loop cx cancel (Suc n) st1 fs = Inr st'"
    by (auto simp: bindE_Inr_iff)
  have "page_inv cx (fr_frame_id f # ids) st1"
    using Cons.prems by (intro sample_step_page_inv [OF _ st1(1)]) auto
  from Cons.IH [OF this st1(2)] Cons.prems(3) show ?case by auto
qed auto

lemma sample_end_page_inv:
  assumes "page_inv cx ids st" "sample_end cx eos st = Inr st'"
  shows "page_inv cx ids st'"
proof (cases "st' = st")
  case False
  then obtain c n where "st' = (emit c (st_left st) st)\<lparr>st_next_target := max (st_next_target st) n\<rparr>"
    using assms(2) by (auto simp: sample_end_def Let_def checked_Inr_iff split: option.splits if_splits)
  with assms(1) show ?thesis by (auto simp: page_inv_def emit_def frame_on_def)
qed (use assms in simp)

lemma sampler_operations: "operation \<in> {''sample'', ''sample_page''} \<Longrightarrow> is_port_token operation"
  using operation_tokens by auto

text \<open>Only the sampler's own \<open>PortError\<close>s leave the loop.\<close>

lemma candidate_check_error:
  "candidate_check cx st f = Some e \<Longrightarrow> \<exists>c. e = PortError c FRAME_SAMPLER (cx_operation cx)"
  unfolding candidate_check_def by (erule run_checks_error) (auto simp: sampler_error_def)

lemma sample_loop_error:
  "sample_loop cx cancel n st fs = Inl e \<Longrightarrow> \<exists>c. e = PortError c FRAME_SAMPLER (cx_operation cx)"
proof (induction fs arbitrary: n st)
  case (Cons f fs)
  show ?case
  proof (cases "sample_step cx (cancel n) st f")
    case (Inl x)
    then have "run_checks [require (\<not> cancel n) (sampler_error CANCELLED (cx_operation cx)), candidate_check cx st f] = Some x"
      by (simp add: sample_step_def checked_Inl_iff)
    then have "\<exists>c. x = PortError c FRAME_SAMPLER (cx_operation cx)"
      by (rule run_checks_error) (auto simp: sampler_error_def dest!: candidate_check_error [OF sym])
    with Inl Cons.prems show ?thesis by simp
  next
    case (Inr st1)
    with Cons show ?thesis by auto
  qed
qed simp

lemma sample_end_error:
  "sample_end cx eos st = Inl e \<Longrightarrow> \<exists>c. e = PortError c FRAME_SAMPLER (cx_operation cx)"
  by (auto simp: sample_end_def Let_def checked_Inl_iff sampler_error_def split: option.splits if_splits)

lemma first_page_ok:
  assumes "sample_first operation src f n = Inr (origin, st, seen)" and "is_typed_id ''frm'' (fr_frame_id f)"
  shows "page_inv (sample_context_of operation limits src sampling origin st) [fr_frame_id f] st"
    and "mt_time_base origin = frame_time_base (st_consumed st)" and "seen = int n"
    and "st_consumed st = f"
  using assms by (auto simp: sample_first_def checked_Inr_iff page_inv_def frame_on_def sample_context_of_def)

lemma resumed_page_ok:
  assumes "sample_resume operation limits src f n sampling c = Inr (origin, st, seen)"
    and "sampling_cursor_post c = None" and "is_typed_id ''frm'' (fr_frame_id (sc_left c))"
    and "is_typed_id ''frm'' (fr_frame_id (sc_previous c))"
  shows "page_inv (sample_context_of operation limits src sampling origin st) [fr_frame_id (sc_left c)] st"
    and "mt_time_base origin = frame_time_base (st_consumed st)" and "seen = sc_seen_candidates c + int n - 1"
    and "1 \<le> sc_seen_candidates c" and "st_consumed st = f" and "sc_previous c = f"
  using assms
  by (auto simp: sample_resume_def checked_Inr_iff page_inv_def frame_on_def sample_context_of_def Let_def
      sampling_cursor_post_def)

lemma finished_page_ok:
  assumes inv: "page_inv cx ids st" and len: "length ids \<le> MAX_PORT_BATCH_ITEMS"
    and src: "is_typed_id ''src'' (cx_source_id cx)" and idx: "0 \<le> cx_stream_index cx" "cx_stream_index cx \<le> MAX_I31"
    and tb: "mt_time_base origin = cx_time_base cx" and seen: "1 \<le> seen" "seen \<le> 100000"
    and nxt: "st_next_target st \<le> MAX_U64"
    and c_def: "c = \<lparr>sc_source_id = cx_source_id cx, sc_stream_index = cx_stream_index cx, sc_time_base = cx_time_base cx,
      sc_sampling = sampling, sc_limits = limits, sc_origin = origin, sc_previous = st_consumed st,
      sc_left = st_left st, sc_next_target_index = st_next_target st, sc_seen_candidates = seen,
      sc_last_emitted_frame_id = st_last_emitted st, sc_finished = eos\<rparr>"
  shows "sampling_cursor_post c = None"
    and "mk_sampling_page (st_selected st) (Some c) eos = Inr \<lparr>sp_frames = st_selected st, sp_cursor = Some c, sp_finished = eos\<rparr>"
    and "length (st_selected st) \<le> MAX_PORT_BATCH_ITEMS"
proof -
  show "sampling_cursor_post c = None"
    using inv src idx tb seen nxt
    by (simp add: sampling_cursor_post_def c_def page_inv_def frame_on_def MAX_U64_def)
  have "length (st_selected st) = card (fr_frame_id ` set (st_selected st))"
    using inv distinct_card [of "map fr_frame_id (st_selected st)"] by (simp add: page_inv_def)
  also have "\<dots> \<le> card (set ids)"
    using inv by (intro card_mono) (simp_all add: page_inv_def)
  also have "\<dots> \<le> length ids" by (rule card_length)
  finally show "length (st_selected st) \<le> MAX_PORT_BATCH_ITEMS" using len by simp
  then show "mk_sampling_page (st_selected st) (Some c) eos = Inr \<lparr>sp_frames = st_selected st, sp_cursor = Some c, sp_finished = eos\<rparr>"
    using inv by (simp add: mk_sampling_page_def sampling_page_post_def page_inv_def c_def)
qed

definition sampling_request_ok ::
  "(string \<Rightarrow> string) \<Rightarrow> pts_sampler \<Rightarrow> source \<Rightarrow> frame_ref list \<Rightarrow> sampling_cursor option \<Rightarrow> bool" where
  "sampling_request_ok nfc s src candidates cursor \<longleftrightarrow>
     sampling_limits_post (pt_limits s) = None \<and> source_valid nfc src \<and> list_all (frame_valid nfc) candidates \<and>
     pred_option (\<lambda>c. sampling_cursor_post c = None \<and> frame_valid nfc (sc_left c)) cursor"

lemma frame_valid_id: "frame_valid nfc f \<Longrightarrow> is_typed_id ''frm'' (fr_frame_id f)"
  by (simp add: frame_valid_def frame_post_def typed_id_check_None)

lemma frame_valid_index: "frame_valid nfc f \<Longrightarrow> 0 \<le> fr_stream_index f \<and> fr_stream_index f \<le> MAX_I31"
  by (simp add: frame_valid_def frame_post_def bounded_int_check_None)

lemma source_valid_id: "source_valid nfc s \<Longrightarrow> is_typed_id ''src'' (so_source_id s)"
  by (simp add: source_valid_def source_post_def typed_id_check_None)

lemma sample_start_ok:
  assumes ok: "sampling_request_ok nfc s src (f # rest) cursor"
    and start: "(case cursor of None \<Rightarrow> sample_first operation src f n
      | Some k \<Rightarrow> sample_resume operation (pt_limits s) src f n sampling k) = Inr (origin, st, seen)"
    and n: "0 < n"
  shows "\<exists>i. page_inv (sample_context_of operation (pt_limits s) src sampling origin st) [i] st"
    and "mt_time_base origin = frame_time_base (st_consumed st)" and "1 \<le> seen" and "st_consumed st = f"
proof -
  have f: "is_typed_id ''frm'' (fr_frame_id f)" using ok frame_valid_id by (auto simp: sampling_request_ok_def)
  show "\<exists>i. page_inv (sample_context_of operation (pt_limits s) src sampling origin st) [i] st"
  proof (cases cursor)
    case None
    then show ?thesis
      using start first_page_ok(1) [OF _ f] by (intro exI [of _ "fr_frame_id f"]) simp
  next
    case (Some c)
    then have r: "sample_resume operation (pt_limits s) src f n sampling c = Inr (origin, st, seen)" using start by simp
    then have "sc_previous c = f" by (simp add: sample_resume_def checked_Inr_iff Let_def)
    moreover have "sampling_cursor_post c = None" "is_typed_id ''frm'' (fr_frame_id (sc_left c))"
      using ok Some frame_valid_id by (auto simp: sampling_request_ok_def)
    ultimately show ?thesis using resumed_page_ok(1) [OF r] f by blast
  qed
  show "mt_time_base origin = frame_time_base (st_consumed st)" "1 \<le> seen" "st_consumed st = f"
    using start n ok
    by (auto simp: sample_first_def sample_resume_def checked_Inr_iff Let_def sampling_request_ok_def
        sampling_cursor_post_def split: option.splits)
qed

lemma start_error:
  "(case cursor of None \<Rightarrow> sample_first operation src f n
      | Some k \<Rightarrow> sample_resume operation limits src f n sampling k) = Inl e \<Longrightarrow> \<exists>c. e = PortError c FRAME_SAMPLER operation"
  by (cases cursor) (auto simp: sample_first_def sample_resume_def Let_def checked_Inl_iff sampler_error_def
      elim!: run_checks_error)

lemma resume_check_error: "resume_check cx limits b seen st = Some e \<Longrightarrow> \<exists>c. e = PortError c FRAME_SAMPLER (cx_operation cx)"
  unfolding resume_check_def by (erule run_checks_error) (auto simp: sampler_error_def)

lemma sample_page_op_error:
  assumes ok: "sampling_request_ok nfc s src candidates cursor" and op: "operation \<in> {''sample'', ''sample_page''}"
    and err: "sample_page_op operation s src candidates sampling cursor eos cancel = Inl e"
  shows "\<exists>c. e = PortError c FRAME_SAMPLER operation"
proof (cases "run_checks [require (\<not> cancel 0) (sampler_error CANCELLED operation),
         require (int (length candidates) \<le> sl_max_page_candidates (pt_limits s)) (sampler_error LIMIT_EXCEEDED operation)]")
  case (Some x)
  then have "e = x" using err by (simp add: sample_page_op_def)
  from Some show ?thesis unfolding \<open>e = x\<close> by (rule run_checks_error) (auto simp: sampler_error_def)
next
  case None
  then have len: "int (length candidates) \<le> sl_max_page_candidates (pt_limits s)" by simp
  show ?thesis
  proof (cases candidates)
    case Nil
    with err None op show ?thesis
      by (auto simp: sample_page_op_def mk_sampling_page_def sampling_page_post_def record_call_ok sampler_operations
          sampler_error_def split: if_splits)
  next
    case (Cons f rest)
    define start where "start = (case cursor of None \<Rightarrow> sample_first operation src f (length (f # rest))
      | Some k \<Rightarrow> sample_resume operation (pt_limits s) src f (length (f # rest)) sampling k)"
    show ?thesis
    proof (cases start)
      case (Inl x)
      then have "e = x" using err None Cons by (simp add: sample_page_op_def start_def [symmetric])
      then show ?thesis using start_error Inl unfolding start_def by blast
    next
      case (Inr r)
      obtain origin st seen where r: "r = (origin, st, seen)" by (cases r)
      define cx where "cx = sample_context_of operation (pt_limits s) src sampling origin st"
      have cx_op: "cx_operation cx = operation" by (simp add: cx_def sample_context_of_def)
      have started: "start = Inr (origin, st, seen)" using Inr r by simp
      note begin_ok = sample_start_ok [OF ok [unfolded Cons] started [unfolded start_def], folded cx_def]
      obtain i where i: "page_inv cx [i] st" using begin_ok(1) Cons by auto
      show ?thesis
      proof (cases "resume_check cx (pt_limits s) (cursor \<noteq> None) seen st")
        case (Some x)
        then have "e = x" using err None started by (simp add: Cons sample_page_op_def start_def [symmetric] cx_def)
        with resume_check_error [OF Some] cx_op show ?thesis by simp
      next
        case checked: None
        show ?thesis
        proof (cases "sample_loop cx cancel 1 st rest")
          case (Inl x)
          then have "e = x" using err None started checked by (simp add: Cons sample_page_op_def start_def [symmetric] cx_def)
          with sample_loop_error [OF Inl] cx_op show ?thesis by simp
        next
          case loop: (Inr st1)
          show ?thesis
          proof (cases "sample_end cx eos st1")
            case (Inl x)
            then have "e = x" using err None started checked loop by (simp add: Cons sample_page_op_def start_def [symmetric] cx_def)
            with sample_end_error [OF Inl] cx_op show ?thesis by simp
          next
            case fin: (Inr st2)
            note ran = err None started checked loop fin
            show ?thesis
            proof (cases "cancel (length candidates) \<or> MAX_U64 < st_next_target st2")
              case True
              with ran show ?thesis
                by (auto simp: Cons sample_page_op_def start_def [symmetric] cx_def [symmetric] sampler_error_def run_checks.simps checked_def
                    require_def split: if_splits)
            next
              case False
              obtain ids where ids: "page_inv cx ids st1" "length ids = length [i] + length rest"
                using sample_loop_page_inv [OF i loop] ok frame_valid_id
                by (auto simp: sampling_request_ok_def Cons list_all_iff)
              have inv2: "page_inv cx ids st2" by (rule sample_end_page_inv [OF ids(1) fin])
              have src_ok: "is_typed_id ''src'' (cx_source_id cx)"
                using ok source_valid_id by (auto simp: sampling_request_ok_def cx_def sample_context_of_def)
              have idx: "0 \<le> cx_stream_index cx" "cx_stream_index cx \<le> MAX_I31"
                using ok frame_valid_index begin_ok(4) Cons by (auto simp: sampling_request_ok_def cx_def sample_context_of_def)
              have lim: "seen \<le> 100000" "length ids \<le> MAX_PORT_BATCH_ITEMS"
                using ok checked len ids(2)
                by (auto simp: sampling_request_ok_def sampling_limits_post_def resume_check_def Cons)
              have tb: "mt_time_base origin = cx_time_base cx" using begin_ok(2) Cons by (simp add: cx_def sample_context_of_def)
              have seen: "1 \<le> seen" using begin_ok(3) Cons by simp
              note page_ok = finished_page_ok [OF inv2 lim(2) src_ok idx tb seen lim(1) _ refl]
              have "cx_source_id cx = so_source_id src" by (simp add: cx_def sample_context_of_def)
              with ran False page_ok op show ?thesis
                by (simp add: Cons sample_page_op_def start_def [symmetric] cx_def [symmetric] record_call_ok sampler_operations)
            qed
          qed
        qed
      qed
    qed
  qed
qed

section \<open>Properties\<close>

lemma fps_positive: "sampling_valid nfc sampling \<Longrightarrow> 0 < fraction (sa_target_fps sampling)"
  by (simp add: sampling_valid_def sampling_post_def rational_post_def decimal_check_None fraction_def)

lemma run_pages_selection:
  assumes fps: "0 < fraction (sa_target_fps sampling)" and run: "run_pages s src sampling None ((f # p) # ps) = Inr frames"
    and ids: "distinct (map fr_frame_id (f # p @ concat ps))"
  shows "frames = lattice_selection (frame_seconds f) (fraction (sa_target_fps sampling)) f (p @ concat ps)
    (last_target (frame_seconds f) (fraction (sa_target_fps sampling)) (last (f # p @ concat ps)))"
proof -
  have inj: "inj_on fr_frame_id (set (f # p @ concat ps))" using ids by (simp only: distinct_map)
  obtain page s' rest where page: "sample_page s src (f # p) sampling None (ps = []) (\<lambda>_. False) = Inr (page, s')"
    and rest: "run_pages s' src sampling (sp_cursor page) ps = Inr rest" "frames = sp_frames page @ rest"
    using run by (auto simp: bindE_Inr_iff)
  have inj': "inj_on fr_frame_id (set (f # [] @ p))" using inj by (rule inj_on_subset) auto
  note covers = page_covers [OF page [unfolded sample_page_def] fps _ inj', of "[]"]
  show ?thesis
  proof (cases "ps = []")
    case True
    then show ?thesis using covers(2) rest by simp
  next
    case False
    then obtain k where k: "sp_cursor page = Some k" "cursor_covers sampling f p (sp_frames page) k"
      using covers(3) by auto
    show ?thesis
      using run_pages_resumed [OF rest(1) [unfolded k(1)] False k(2) fps inj] by (simp add: rest(2))
  qed
qed

lemma sample_selection:
  assumes fps: "0 < fraction (sa_target_fps sampling)" and run: "sample s src (f # fs) sampling = Inr (frames, s')"
    and ids: "distinct (map fr_frame_id (f # fs))"
  shows "frames = lattice_selection (frame_seconds f) (fraction (sa_target_fps sampling)) f fs
    (last_target (frame_seconds f) (fraction (sa_target_fps sampling)) (last (f # fs)))"
proof -
  obtain page where page: "sample_page_op ''sample'' s src (f # fs) sampling None True (\<lambda>_. False) = Inr (page, s')"
      "frames = sp_frames page"
    using run by (auto simp: sample_def bindE_Inr_iff)
  have "inj_on fr_frame_id (set (f # [] @ fs))" using ids by (simp only: distinct_map append_Nil)
  from page_covers(2) [OF page(1) fps _ this, of "[]"] show ?thesis by (simp add: page(2))
qed

text \<open>
  C18: however a stream is cut into pages, the frames the pages select together are the lattice
  selection: for every point \<open>origin + k / fps\<close> of the lattice anchored at the first frame, up to the
  last frame or its known end, the frame with the nearest presentation time (the earliest on a
  tie), each frame once and in order.  Frame identifiers are content hashes; that they differ is a
  hypothesis.
\<close>

theorem sampling_pages_nearest:
  assumes "sampling_valid nfc sampling" and "run_pages s src sampling None ((f # p) # ps) = Inr frames"
    and "distinct (map fr_frame_id (f # p @ concat ps))"
  shows "frames = lattice_selection (frame_seconds f) (fraction (sa_target_fps sampling)) f (p @ concat ps)
    (last_target (frame_seconds f) (fraction (sa_target_fps sampling)) (last (f # p @ concat ps)))"
  by (rule run_pages_selection [OF fps_positive [OF assms(1)] assms(2,3)])

text \<open>
  C19: one complete bounded call of \<open>sample\<close> and any sequence of resumed pages over the same frames
  select the same frames.
\<close>

theorem sample_equals_pages:
  assumes "sampling_valid nfc sampling" and "sample s src (f # p @ concat ps) sampling = Inr (frames, s')"
    and "run_pages t src sampling None ((f # p) # ps) = Inr frames'"
    and "distinct (map fr_frame_id (f # p @ concat ps))"
  shows "frames = frames'"
  using sample_selection [OF fps_positive [OF assms(1)] assms(2,4)]
    run_pages_selection [OF fps_positive [OF assms(1)] assms(3,4)] by simp

text \<open>
  C33: on validated records the sampler fails only with its own \<open>PortError\<close>s: neither the cursor nor
  the page nor the call record it builds is ever refused by its constructor.  In particular a page
  never holds more than 64 frames or a frame twice.
\<close>

theorem sample_page_only_port_errors:
  assumes "sampling_request_ok nfc s src candidates cursor" and "operation \<in> {''sample'', ''sample_page''}"
    and "sample_page_op operation s src candidates sampling cursor eos cancel = Inl e"
  shows "\<exists>c. e = PortError c FRAME_SAMPLER operation"
  by (rule sample_page_op_error [OF assms])

section \<open>Witnesses\<close>

definition toy_frame :: "nat \<Rightarrow> nat \<Rightarrow> char \<Rightarrow> frame_ref" where
  "toy_frame i t c = \<lparr>fr_frame_id = ''frm_'' @ replicate 63 (CHR ''0'') @ [c],
     fr_source_id = so_source_id ex_source, fr_stream_index = 0, fr_decode_index = show_int (int i),
     fr_pts = ex_time t, fr_duration = None, fr_key_frame = None\<rparr>"

definition toy_sampling :: sampling where
  "toy_sampling = \<lparr>sa_target_fps = \<lparr>ra_numerator = ''2'', ra_denominator = ''1''\<rparr>, sa_policy = ''nearest_eligible_pts''\<rparr>"

definition toy_sampler :: pts_sampler where
  "toy_sampler = \<lparr>pt_limits = default_sampling_limits, pt_calls = []\<rparr>"

lemma toy_sampling_valid: "sampling_valid id toy_sampling"
  by (simp add: sampling_valid_def toy_sampling_def rational_post_def sampling_post_def decimal_check_None
      general_ok_id_ascii char_evaluation MAX_GENERAL_STRING_BYTES_def nat_of_digits_def digit_val_def bound_defs
      token_check_literal [OF nfc_id] MAX_TOKEN_BYTES_def)

lemma toy_seconds: "media_seconds (ex_time t) = of_nat t / 1000"
  by (simp add: media_seconds_def ex_time_def ex_time_base_def nat_of_digits_def digit_val_def code_def)

lemma toy_fps: "fraction (sa_target_fps toy_sampling) = 2"
  by (simp add: fraction_def toy_sampling_def nat_of_digits_def digit_val_def code_def)

lemmas toy_simps = toy_seconds toy_fps

lemma toy_fields:
  "fr_source_id (toy_frame i t c) = so_source_id ex_source" "fr_stream_index (toy_frame i t c) = 0"
  "fr_decode_index (toy_frame i t c) = show_int (int i)" "fr_pts (toy_frame i t c) = ex_time t"
  "fr_duration (toy_frame i t c) = None" "mt_time_base (ex_time t) = ex_time_base"
  "fr_frame_id (toy_frame i t c) = fr_frame_id (toy_frame j u d) \<longleftrightarrow> c = d"
  by (simp_all add: toy_frame_def ex_time_def)

lemma toy_stream: "stream_by_index ex_source 0 = Some ex_stream" "ss_time_base ex_stream = ex_time_base"
  by (simp_all add: stream_by_index_def ex_source_def ex_stream_def)

definition toy_frames :: "frame_ref list" where
  "toy_frames = [toy_frame 0 0 CHR ''0'', toy_frame 1 100 CHR ''1'', toy_frame 2 450 CHR ''2'', toy_frame 3 1010 CHR ''3'']"

lemma show_int_inj: "show_int i = show_int j \<longleftrightarrow> i = j"
  by (metis int_of_decimal_show_int)

lemma toy_typed: "is_typed_id ''frm'' (fr_frame_id (toy_frame i t c)) = is_lower_hex c"
  by (simp add: toy_frame_def is_typed_id_def is_sha256_def list_all_iff) (simp add: is_lower_hex_def char_evaluation)

lemma ex_source_typed: "is_typed_id ''src'' (so_source_id ex_source)"
  by (simp add: ex_source_def is_typed_id_def)

lemma floor_rat_numerals:
  "\<lfloor>numeral a / numeral b :: rat\<rfloor> = numeral a div numeral b" "\<lfloor>1 / numeral b :: rat\<rfloor> = 1 div numeral b"
  using floor_divide_of_int_eq [of "numeral a" "numeral b", where ?'a = rat]
    floor_divide_of_int_eq [of 1 "numeral b", where ?'a = rat] by simp_all

lemma toy_run:
  "\<exists>s'. sample toy_sampler ex_source toy_frames toy_sampling =
     Inr ([toy_frame 0 0 CHR ''0'', toy_frame 2 450 CHR ''2'', toy_frame 3 1010 CHR ''3''], s')"
  by (simp add: sample_def sample_page_op_def sample_first_def toy_sampler_def default_sampling_limits_def toy_frames_def
   toy_fields toy_stream sample_context_of_def resume_check_def toy_simps sample_step_def candidate_check_def advance_def Let_def emit_def sample_end_def
   MAX_PORT_BATCH_ITEMS_def show_int_inj toy_typed sampling_cursor_post_def mk_sampling_page_def sampling_page_post_def record_call_ok
   operation_tokens is_lower_hex_def MAX_U64_def MAX_I31_def ex_source_typed char_evaluation floor_rat_numerals cong: bindE_weak_cong)

lemma toy_pages:
  "run_pages toy_sampler ex_source toy_sampling None
     [[toy_frame 0 0 CHR ''0'', toy_frame 1 100 CHR ''1''], [toy_frame 2 450 CHR ''2'', toy_frame 3 1010 CHR ''3'']] =
   Inr [toy_frame 0 0 CHR ''0'', toy_frame 2 450 CHR ''2'', toy_frame 3 1010 CHR ''3'']"
  by (simp add: sample_page_def sample_page_op_def sample_first_def sample_resume_def toy_sampler_def
   default_sampling_limits_def toy_fields toy_stream sample_context_of_def resume_check_def toy_simps sample_step_def
   candidate_check_def advance_def Let_def emit_def sample_end_def
   MAX_PORT_BATCH_ITEMS_def show_int_inj toy_typed sampling_cursor_post_def mk_sampling_page_def sampling_page_post_def record_call_ok
   operation_tokens is_lower_hex_def MAX_U64_def MAX_I31_def ex_source_typed char_evaluation floor_rat_numerals
   cong: bindE_weak_cong)

lemma toy_distinct: "distinct (map fr_frame_id toy_frames)"
  by (simp add: toy_frames_def toy_fields)

lemma sampling_pages_nearest_witness:
  "[toy_frame 0 0 CHR ''0'', toy_frame 2 450 CHR ''2'', toy_frame 3 1010 CHR ''3''] =
   lattice_selection 0 2 (toy_frame 0 0 CHR ''0'')
     [toy_frame 1 100 CHR ''1'', toy_frame 2 450 CHR ''2'', toy_frame 3 1010 CHR ''3'']
     (last_target 0 2 (toy_frame 3 1010 CHR ''3''))"
  using sampling_pages_nearest [OF toy_sampling_valid toy_pages] toy_distinct
  by (simp add: toy_frames_def toy_fps toy_fields toy_seconds)

lemma sample_equals_pages_witness:
  "\<exists>frames s'. sample toy_sampler ex_source toy_frames toy_sampling = Inr (frames, s') \<and>
     run_pages toy_sampler ex_source toy_sampling None
       [[toy_frame 0 0 CHR ''0'', toy_frame 1 100 CHR ''1''], [toy_frame 2 450 CHR ''2'', toy_frame 3 1010 CHR ''3'']] = Inr frames"
proof -
  obtain s' where s': "sample toy_sampler ex_source toy_frames toy_sampling =
     Inr ([toy_frame 0 0 CHR ''0'', toy_frame 2 450 CHR ''2'', toy_frame 3 1010 CHR ''3''], s')"
    using toy_run by blast
  note same = sample_equals_pages [OF toy_sampling_valid _ toy_pages, of toy_sampler _ s']
  have "[toy_frame 0 0 CHR ''0'', toy_frame 2 450 CHR ''2'', toy_frame 3 1010 CHR ''3''] =
      [toy_frame 0 0 CHR ''0'', toy_frame 2 450 CHR ''2'', toy_frame 3 1010 CHR ''3'']"
    by (rule same) (use s' toy_distinct in \<open>simp_all add: toy_frames_def\<close>)
  with s' toy_pages show ?thesis by blast
qed

lemma sample_page_only_port_errors_witness:
  "\<exists>c e. sample_page_op ''sample_page'' toy_sampler ex_source [ex_frame 0 0] toy_sampling None False (\<lambda>_. True) = Inl e \<and>
     e = PortError c FRAME_SAMPLER ''sample_page''"
proof -
  have ok: "sampling_request_ok id toy_sampler ex_source [ex_frame 0 0] None"
    using ex_frame_valid [of 0 0]
    by (simp add: sampling_request_ok_def toy_sampler_def default_sampling_limits_def sampling_limits_post_def
        MAX_PORT_BATCH_ITEMS_def ex_source_valid)
  have e: "sample_page_op ''sample_page'' toy_sampler ex_source [ex_frame 0 0] toy_sampling None False (\<lambda>_. True) =
      Inl (sampler_error CANCELLED ''sample_page'')"
    by (simp add: sample_page_op_def run_checks.simps)
  from sample_page_only_port_errors [OF ok _ e] e show ?thesis by simp
qed

end
