(* ===== verification/Json_Text.thy ===== *)
theory Json_Text
  imports Ingestion_Codec Decimal
begin

text \<open>
  \<open>_parse_json\<close> of \<open>ingestion.py\<close>: the strict UTF-8 decoder and the \<open>json.loads\<close> of the standard
  library with the hooks the code passes (duplicate keys, floats and the constants \<open>NaN\<close>,
  \<open>Infinity\<close> raise), on the bytes of the text.  The interpreter's recursion limit is the argument
  \<open>limit\<close>, the number of containers that may be open at once; a container beyond it is the
  \<open>RecursionError\<close> the code turns into \<open>invalid_json\<close>.  Errors appear in the order the scanner meets
  them.
\<close>

section \<open>Strict UTF-8\<close>

definition is_continuation :: "char \<Rightarrow> bool" where
  "is_continuation c \<longleftrightarrow> 0x80 \<le> code c \<and> code c \<le> 0xBF"

text \<open>The range the second byte of a sequence may have, by its first byte.\<close>

definition second_byte_ok :: "char \<Rightarrow> char \<Rightarrow> bool" where
  "second_byte_ok a b \<longleftrightarrow> is_continuation b \<and>
     (code a = 0xE0 \<longrightarrow> 0xA0 \<le> code b) \<and> (code a = 0xED \<longrightarrow> code b \<le> 0x9F) \<and>
     (code a = 0xF0 \<longrightarrow> 0x90 \<le> code b) \<and> (code a = 0xF4 \<longrightarrow> code b \<le> 0x8F)"

fun valid_utf8 :: "string \<Rightarrow> bool" where
  "valid_utf8 [] = True"
| "valid_utf8 (a # s) =
     (if code a < 0x80 then valid_utf8 s
      else if 0xC2 \<le> code a \<and> code a \<le> 0xDF then
        (case s of b # s' \<Rightarrow> is_continuation b \<and> valid_utf8 s' | _ \<Rightarrow> False)
      else if 0xE0 \<le> code a \<and> code a \<le> 0xEF then
        (case s of b # c # s' \<Rightarrow> second_byte_ok a b \<and> is_continuation c \<and> valid_utf8 s' | _ \<Rightarrow> False)
      else if 0xF0 \<le> code a \<and> code a \<le> 0xF4 then
        (case s of b # c # d # s' \<Rightarrow>
           second_byte_ok a b \<and> is_continuation c \<and> is_continuation d \<and> valid_utf8 s' | _ \<Rightarrow> False)
      else False)"

text \<open>The (generalised) UTF-8 bytes of a code point.\<close>

definition utf8_encode :: "nat \<Rightarrow> string" where
  "utf8_encode n =
     (if n < 0x80 then [char_of n]
      else if n < 0x800 then [char_of (0xC0 + n div 64), char_of (0x80 + n mod 64)]
      else if n < 0x10000 then
        [char_of (0xE0 + n div 4096), char_of (0x80 + n div 64 mod 64), char_of (0x80 + n mod 64)]
      else [char_of (0xF0 + n div 262144), char_of (0x80 + n div 4096 mod 64),
            char_of (0x80 + n div 64 mod 64), char_of (0x80 + n mod 64)])"

section \<open>Strings\<close>

definition hex_value :: "char \<Rightarrow> nat option" where
  "hex_value c =
     (if is_digit c then Some (code c - 48)
      else if 97 \<le> code c \<and> code c \<le> 102 then Some (code c - 87)
      else if 65 \<le> code c \<and> code c \<le> 70 then Some (code c - 55)
      else None)"

definition hex4_value :: "char \<Rightarrow> char \<Rightarrow> char \<Rightarrow> char \<Rightarrow> nat option" where
  "hex4_value a b c d =
     (case (hex_value a, hex_value b, hex_value c, hex_value d) of
        (Some w, Some x, Some y, Some z) \<Rightarrow> Some (w * 4096 + x * 256 + y * 16 + z)
      | _ \<Rightarrow> None)"

definition is_high_surrogate :: "nat \<Rightarrow> bool" where
  "is_high_surrogate n \<longleftrightarrow> 0xD800 \<le> n \<and> n \<le> 0xDBFF"

definition is_low_surrogate :: "nat \<Rightarrow> bool" where
  "is_low_surrogate n \<longleftrightarrow> 0xDC00 \<le> n \<and> n \<le> 0xDFFF"

definition join_surrogates :: "nat \<Rightarrow> nat \<Rightarrow> nat" where
  "join_surrogates h l = 0x10000 + (h - 0xD800) * 1024 + (l - 0xDC00)"

text \<open>One escape after its backslash: the bytes it stands for and the text after it.\<close>

definition simple_escape :: "char \<Rightarrow> char option" where
  "simple_escape e =
     (if e = CHR 0x22 \<or> e = CHR 0x5C \<or> e = CHR ''/'' then Some e
      else if e = CHR ''b'' then Some (CHR 0x08)
      else if e = CHR ''f'' then Some (CHR 0x0C)
      else if e = CHR ''n'' then Some (CHR 0x0A)
      else if e = CHR ''r'' then Some (CHR 0x0D)
      else if e = CHR ''t'' then Some (CHR 0x09)
      else None)"

fun unicode_escape :: "string \<Rightarrow> (string \<times> string) option" where
  "unicode_escape (a # b # c # d # s) =
     (case hex4_value a b c d of
        None \<Rightarrow> None
      | Some n \<Rightarrow>
          (case s of
             q # u # e # f # g # h # s' \<Rightarrow>
               if is_high_surrogate n \<and> q = CHR 0x5C \<and> u = CHR ''u''
               then (case hex4_value e f g h of
                       None \<Rightarrow> None
                     | Some m \<Rightarrow> if is_low_surrogate m then Some (utf8_encode (join_surrogates n m), s')
                                 else Some (utf8_encode n, s))
               else Some (utf8_encode n, s)
           | _ \<Rightarrow> Some (utf8_encode n, s)))"
| "unicode_escape _ = None"

text \<open>The characters of a string after its opening quote, up to and without the closing one.\<close>

function scan_string :: "string \<Rightarrow> (string \<times> string) option" where
  "scan_string s =
     (case s of
        [] \<Rightarrow> None
      | c # s1 \<Rightarrow>
          if c = CHR 0x22 then Some ([], s1)
          else if c = CHR 0x5C then
            (case s1 of
               [] \<Rightarrow> None
             | e # s2 \<Rightarrow>
                 if e = CHR ''u'' then
                   (case unicode_escape s2 of
                      None \<Rightarrow> None
                    | Some (bytes, s3) \<Rightarrow>
                        if length s3 < length s2 then map_option (map_prod ((@) bytes) id) (scan_string s3) else None)
                 else (case simple_escape e of
                         None \<Rightarrow> None
                       | Some d \<Rightarrow> map_option (map_prod ((#) d) id) (scan_string s2)))
          else if code c < 32 then None
          else map_option (map_prod ((#) c) id) (scan_string s1))"
  by pat_completeness auto
termination by (relation "measure length") auto

declare scan_string.simps [simp del]

section \<open>Numbers\<close>

text \<open>The longest prefix of digits and the rest.\<close>

definition digits_of :: "string \<Rightarrow> string \<times> string" where
  "digits_of s = (takeWhile is_digit s, dropWhile is_digit s)"

text \<open>A fraction (a point with a digit after it) or an exponent (with at least one digit).\<close>

definition has_fraction :: "string \<Rightarrow> bool" where
  "has_fraction s = (case s of p # d # _ \<Rightarrow> p = CHR ''.'' \<and> is_digit d | _ \<Rightarrow> False)"

definition has_exponent :: "string \<Rightarrow> bool" where
  "has_exponent s =
     (case s of
        e # d # s' \<Rightarrow> (e = CHR ''e'' \<or> e = CHR ''E'') \<and>
          (is_digit d \<or> (d = CHR ''+'' \<or> d = CHR ''-'') \<and> (case s' of f # _ \<Rightarrow> is_digit f | [] \<Rightarrow> False))
      | _ \<Rightarrow> False)"

definition invalid_json :: exn where "invalid_json = fail ''invalid_json'' ''$''"
definition float_forbidden :: exn where "float_forbidden = fail ''floating_point_forbidden'' ''$''"

definition scan_natural :: "string \<Rightarrow> (string \<times> string) option" where
  "scan_natural s =
     (case s of
        [] \<Rightarrow> None
      | c # s' \<Rightarrow> if c = CHR ''0'' then Some (''0'', s')
                  else if is_digit c then Some (digits_of s) else None)"

definition scan_number :: "string \<Rightarrow> (json \<times> string) res" where
  "scan_number s =
     (let negative = (case s of c # _ \<Rightarrow> c = CHR ''-'' | [] \<Rightarrow> False);
          body = (if negative then tl s else s)
      in case scan_natural body of
           None \<Rightarrow> Inl invalid_json
         | Some (ds, rest) \<Rightarrow>
             if has_fraction rest \<or> has_exponent rest then Inl float_forbidden
             else if 4300 < length ds then Inl invalid_json
             else Inr (JInt (if negative then - int (nat_of_digits ds) else int (nat_of_digits ds)), rest))"

section \<open>Values\<close>

definition is_json_space :: "char \<Rightarrow> bool" where
  "is_json_space c \<longleftrightarrow> code c = 32 \<or> code c = 9 \<or> code c = 10 \<or> code c = 13"

definition skip_space :: "string \<Rightarrow> string" where
  "skip_space s = dropWhile is_json_space s"

definition starts_with :: "string \<Rightarrow> string \<Rightarrow> bool" where
  "starts_with p s \<longleftrightarrow> take (length p) s = p"

definition scan_scalar :: "string \<Rightarrow> (json \<times> string) res" where
  "scan_scalar s =
     (if starts_with ''null'' s then Inr (JNull, drop 4 s)
      else if starts_with ''true'' s then Inr (JBool True, drop 4 s)
      else if starts_with ''false'' s then Inr (JBool False, drop 5 s)
      else if starts_with ''NaN'' s \<or> starts_with ''Infinity'' s \<or> starts_with ''-Infinity'' s
        then Inl float_forbidden
      else scan_number s)"

text \<open>\<open>_object_pairs\<close>\<close>

fun object_pairs :: "(string \<times> json) list \<Rightarrow> string list \<Rightarrow> check" where
  "object_pairs [] seen = None"
| "object_pairs ((k, v) # kvs) seen =
     (if k \<in> set seen then Some (fail ''duplicate_key'' ''$'') else object_pairs kvs (k # seen))"

text \<open>\<open>"key" :\<close> with the white space around the colon\<close>

definition scan_key :: "string \<Rightarrow> (string \<times> string) res" where
  "scan_key s =
     (if starts_with [CHR 0x22] s
      then (case scan_string (tl s) of
              None \<Rightarrow> Inl invalid_json
            | Some (k, s1) \<Rightarrow>
                if starts_with '':'' (skip_space s1) then Inr (k, skip_space (tl (skip_space s1)))
                else Inl invalid_json)
      else Inl invalid_json)"

text \<open>The closing character, or a comma with the white space after it.\<close>

definition scan_delimiter :: "char \<Rightarrow> string \<Rightarrow> (bool \<times> string) res" where
  "scan_delimiter close s =
     (case skip_space s of
        [] \<Rightarrow> Inl invalid_json
      | d # r \<Rightarrow> if d = close then Inr (True, r)
                 else if d = CHR '','' then Inr (False, skip_space r) else Inl invalid_json)"

lemma skip_space_length: "length (skip_space s) \<le> length s"
  by (simp add: skip_space_def length_dropWhile_le)

text \<open>
  The tests \<open>length s \<le> length r\<close> never hold (\<open>parse_shorter\<close> below); they only let the
  definition show that it terminates.
\<close>

function (sequential)
    parse_value :: "nat \<Rightarrow> string \<Rightarrow> (json \<times> string) res"
and parse_members :: "nat \<Rightarrow> string \<Rightarrow> ((string \<times> json) list \<times> string) res"
and parse_items :: "nat \<Rightarrow> string \<Rightarrow> (json list \<times> string) res" where
  "parse_value limit [] = Inl invalid_json"
| "parse_value limit (c # s) =
     (if c = CHR 0x22 then
        (case scan_string s of None \<Rightarrow> Inl invalid_json | Some (t, r) \<Rightarrow> Inr (JStr t, r))
      else if c = CHR ''{'' then
        (if limit = 0 then Inl invalid_json
         else if starts_with ''}'' (skip_space s) then Inr (JObj [], tl (skip_space s))
         else bindE (parse_members (limit - 1) (skip_space s)) (\<lambda>(kvs, r).
                checked (object_pairs kvs []) (JObj kvs, r)))
      else if c = CHR ''['' then
        (if limit = 0 then Inl invalid_json
         else if starts_with '']'' (skip_space s) then Inr (JArr [], tl (skip_space s))
         else bindE (parse_items (limit - 1) (skip_space s)) (\<lambda>(js, r). Inr (JArr js, r)))
      else scan_scalar (c # s))"
| "parse_members limit s =
     bindE (scan_key s) (\<lambda>(k, s1).
       if length s \<le> length s1 then Inl invalid_json
       else bindE (parse_value limit s1) (\<lambda>(v, s2).
              bindE (scan_delimiter (CHR ''}'') s2) (\<lambda>(closed, s3).
                if closed then Inr ([(k, v)], s3)
                else if length s \<le> length s3 then Inl invalid_json
                else bindE (parse_members limit s3) (\<lambda>(kvs, r). Inr ((k, v) # kvs, r)))))"
| "parse_items limit s =
     bindE (parse_value limit s) (\<lambda>(v, s1).
       bindE (scan_delimiter (CHR '']'') s1) (\<lambda>(closed, s2).
         if closed then Inr ([v], s2)
         else if length s \<le> length s2 then Inl invalid_json
         else bindE (parse_items limit s2) (\<lambda>(js, r). Inr (v # js, r))))"
  by pat_completeness auto
termination
  by (relation "measure (\<lambda>x. case x of
         Inl (limit, s) \<Rightarrow> 2 * length s
       | Inr (Inl (limit, s)) \<Rightarrow> 2 * length s + 1
       | Inr (Inr (limit, s)) \<Rightarrow> 2 * length s + 1)")
    (auto simp: less_Suc_eq_le skip_space_length split: list.splits)

declare parse_value.simps [simp del] parse_members.simps [simp del] parse_items.simps [simp del]

text \<open>\<open>json.loads(text, ...)\<close>: one value, with white space around it.\<close>

definition json_loads :: "nat \<Rightarrow> string \<Rightarrow> json res" where
  "json_loads limit text =
     bindE (parse_value limit (skip_space text)) (\<lambda>(v, r).
       checked (require (skip_space r = []) invalid_json) v)"

definition byte_order_mark :: string where
  "byte_order_mark = [CHR 0xEF, CHR 0xBB, CHR 0xBF]"

definition parse_json :: "(string \<Rightarrow> string) \<Rightarrow> nat \<Rightarrow> string \<Rightarrow> (string \<times> json) list res" where
  "parse_json nfc limit data =
     bindE (checked (run_checks
       [require (length data \<le> MAX_RECORD_BYTES) (fail ''encoded_record_too_large'' ''$''),
        require (\<not> starts_with byte_order_mark data) (fail ''bom_forbidden'' ''$''),
        require (valid_utf8 data) invalid_json]) ()) (\<lambda>_.
     bindE (json_loads limit data) (\<lambda>v.
     bindE (checked (validate_shape nfc v 1 ''$'') ()) (\<lambda>_.
     as_mapping v ''$'')))"

section \<open>The scanner consumes its input\<close>

lemma unicode_escape_shorter: "unicode_escape s = Some (b, r) \<Longrightarrow> length r < length s"
  by (induction s rule: unicode_escape.induct) (auto split: option.splits list.splits if_splits)

lemma scan_string_shorter: "scan_string s = Some (t, r) \<Longrightarrow> length r < length s"
proof (induction s arbitrary: t rule: scan_string.induct)
  case (1 s)
  show ?case
  proof (cases s)
    case (Cons c s1)
    have "scan_string (c # s1) = Some (t, r)" using 1(4) Cons by simp
    then consider "r = s1" | t' where "c \<noteq> CHR 0x22" "c \<noteq> CHR 0x5C" "\<not> code c < 32" "scan_string s1 = Some (t', r)"
      | e s2 bytes s3 t' where "s1 = e # s2" "c = CHR 0x5C" "e = CHR ''u''" "unicode_escape s2 = Some (bytes, s3)"
          "length s3 < length s2" "scan_string s3 = Some (t', r)"
      | e s2 d t' where "s1 = e # s2" "c = CHR 0x5C" "e \<noteq> CHR ''u''" "simple_escape e = Some d" "scan_string s2 = Some (t', r)"
      by (subst (asm) scan_string.simps) (auto split: if_splits list.splits option.splits)
    then show ?thesis
    proof cases
      case 3
      then show ?thesis using 1(1) [OF Cons] Cons by fastforce
    next
      case 4
      then show ?thesis using 1(2) [OF Cons] Cons by fastforce
    next
      case 2
      then show ?thesis using 1(3) [OF Cons] Cons by fastforce
    qed (simp add: Cons)
  qed (use 1(4) in \<open>simp add: scan_string.simps\<close>)
qed

lemma scan_natural_shorter: "scan_natural s = Some (ds, r) \<Longrightarrow> length r < length s"
  by (cases s)
    (auto simp: scan_natural_def digits_of_def less_Suc_eq_le length_dropWhile_le split: if_splits)

lemma scan_scalar_shorter: "s \<noteq> [] \<Longrightarrow> scan_scalar s = Inr (v, r) \<Longrightarrow> length r < length s"
  using scan_natural_shorter [of "tl s"] scan_natural_shorter [of s]
  by (cases s)
    (auto simp: scan_scalar_def scan_number_def Let_def less_Suc_eq split: if_splits option.splits)

lemma starts_with_tl: "starts_with [c] s \<Longrightarrow> length (tl s) < length s"
  by (cases s) (auto simp: starts_with_def)

lemma skip_space_Cons: "skip_space s = c # s' \<Longrightarrow> length s' < length s"
  using skip_space_length [of s] by simp

lemma starts_with_skip: "starts_with [c] (skip_space s) \<Longrightarrow> length (tl (skip_space s)) < length s"
  using starts_with_tl [of c "skip_space s"] skip_space_length [of s] by simp

lemma scan_key_shorter: "scan_key s = Inr (k, r) \<Longrightarrow> length r < length s"
proof -
  assume "scan_key s = Inr (k, r)"
  then obtain s1 where "starts_with [CHR 0x22] s" "scan_string (tl s) = Some (k, s1)" "starts_with '':'' (skip_space s1)"
      "r = skip_space (tl (skip_space s1))"
    by (auto simp: scan_key_def split: if_splits option.splits)
  then show ?thesis
    using scan_string_shorter [of "tl s" k s1] starts_with_tl [of "CHR 0x22" s] starts_with_skip [of "CHR '':''" s1]
      skip_space_length [of "tl (skip_space s1)"] by simp
qed

lemma scan_delimiter_shorter: "scan_delimiter close s = Inr (b, r) \<Longrightarrow> length r < length s"
  using skip_space_Cons [of s] skip_space_length [of r]
  by (auto simp: scan_delimiter_def split: list.splits if_splits)
    (metis le_less_trans skip_space_length)

lemma parse_shorter:
  "parse_value limit s = Inr (v, r) \<Longrightarrow> length r < length s"
  "parse_members limit s = Inr (kvs, r) \<Longrightarrow> length r < length s"
  "parse_items limit s = Inr (js, r) \<Longrightarrow> length r < length s"
proof (induction limit s and limit s and limit s arbitrary: v r and kvs r and js r
    rule: parse_value_parse_members_parse_items.induct)
  case (2 limit c s)
  show ?case
    using 2 skip_space_length [of s] scan_scalar_shorter [of "c # s"] starts_with_tl [of _ "skip_space s"]
    by (auto simp: parse_value.simps outcome dest!: scan_string_shorter split: if_splits option.splits)
next
  case (3 limit s)
  from 3(3) show ?case
    using 3(1,2) by (subst (asm) parse_members.simps)
      (fastforce simp: outcome dest: scan_key_shorter scan_delimiter_shorter split: if_splits)
next
  case (4 limit s)
  from 4(3) show ?case
    using 4(1,2) by (subst (asm) parse_items.simps)
      (fastforce simp: outcome dest: scan_delimiter_shorter split: if_splits)
qed (simp_all add: parse_value.simps)

end
