(* ===== verification/Json_Canonical.thy ===== *)
theory Json_Canonical
  imports Json_Text
begin

text \<open>
  The canonical writer and the strict reader fit together: \<open>parse_json\<close> on the bytes
  \<open>canonical_bytes\<close> writes gives the object with its keys sorted, provided its strings are ASCII
  (which those of every validated record are) and the recursion limit is at least the depth bound.
\<close>

section \<open>The scanner reads what the writer renders\<close>

lemma code_less_256: "code c < 256"
  by (cases c) (simp add: code_def)

lemma char_of_code [simp]: "char_of (code c) = c"
  by (simp add: code_def)

lemma hex_value_hex_digit: "d < 16 \<Longrightarrow> hex_value (hex_digit d) = Some d"
  by (auto simp: hex_value_def hex_digit_def is_digit_def code_def)

lemma hex4_control:
  assumes "n < 32"
  shows "unicode_escape (hex4 n @ s) = Some ([char_of n], s)"
proof -
  have "hex4 n = [hex_digit 0, hex_digit 0, hex_digit (n div 16), hex_digit (n mod 16)]"
    using assms by (simp add: hex4_def)
  moreover have "hex4_value (hex_digit 0) (hex_digit 0) (hex_digit (n div 16)) (hex_digit (n mod 16)) = Some n"
    using assms by (simp add: hex4_value_def hex_value_hex_digit)
  ultimately show ?thesis
    using assms by (auto simp: is_high_surrogate_def utf8_encode_def split: list.splits)
qed

lemma escape_char_cases:
  obtains (quote_or_backslash) "c = CHR 0x22 \<or> c = CHR 0x5C" "escape_char c = [CHR 0x5C, c]"
  | (named) e where "simple_escape e = Some c" "e \<noteq> CHR ''u''" "escape_char c = [CHR 0x5C, e]"
  | (control) "code c < 32" "escape_char c = CHR 0x5C # CHR ''u'' # hex4 (code c)"
  | (plain) "c \<noteq> CHR 0x22" "c \<noteq> CHR 0x5C" "\<not> code c < 32" "escape_char c = [c]"
proof (cases "c \<in> {CHR 0x22, CHR 0x5C, CHR 0x0A, CHR 0x0D, CHR 0x09, CHR 0x0C, CHR 0x08}")
  case True
  then consider "c = CHR 0x22 \<or> c = CHR 0x5C" | "c = CHR 0x0A" | "c = CHR 0x0D" | "c = CHR 0x09" | "c = CHR 0x0C" | "c = CHR 0x08"
    by blast
  then show thesis
  proof cases
    case 1
    then show thesis by (intro quote_or_backslash) (auto simp: escape_char_def)
  next
    case 2
    then show thesis by (intro named [of "CHR ''n''"]) (simp_all add: simple_escape_def escape_char_def code_def)
  next
    case 3
    then show thesis by (intro named [of "CHR ''r''"]) (simp_all add: simple_escape_def escape_char_def code_def)
  next
    case 4
    then show thesis by (intro named [of "CHR ''t''"]) (simp_all add: simple_escape_def escape_char_def code_def)
  next
    case 5
    then show thesis by (intro named [of "CHR ''f''"]) (simp_all add: simple_escape_def escape_char_def code_def)
  next
    case 6
    then show thesis by (intro named [of "CHR ''b''"]) (simp_all add: simple_escape_def escape_char_def code_def)
  qed
next
  case False
  have "code c = code d \<longleftrightarrow> c = d" for d by (simp add: code_def)
  from this [of "CHR 0x0A"] this [of "CHR 0x0D"] this [of "CHR 0x09"] this [of "CHR 0x0C"] this [of "CHR 0x08"] False
  have "code c \<noteq> 10" "code c \<noteq> 13" "code c \<noteq> 9" "code c \<noteq> 12" "code c \<noteq> 8"
    by (simp_all add: code_def)
  with False show thesis
    by (cases "code c < 32") (auto intro: control plain simp: escape_char_def)
qed

lemma scan_string_quote [simp]: "scan_string (CHR 0x22 # r) = Some ([], r)"
  by (simp add: scan_string.simps)

lemma scan_string_escaped:
  "scan_string (concat (map escape_char s) @ CHR 0x22 # r) = Some (s, r)"
proof (induction s)
  case (Cons c s)
  show ?case
  proof (cases rule: escape_char_cases [of c])
    case quote_or_backslash
    with Cons show ?thesis by (subst scan_string.simps) (auto simp: simple_escape_def)
  next
    case (named e)
    with Cons show ?thesis by (subst scan_string.simps) simp
  next
    case control
    have "length (hex4 (code c)) = 4" by (simp add: hex4_def)
    with control Cons show ?thesis by (subst scan_string.simps) (simp add: hex4_control)
  next
    case plain
    with Cons show ?thesis by (subst scan_string.simps) simp
  qed
qed simp

lemma quote_append: "quote s @ r = CHR 0x22 # concat (map escape_char s) @ CHR 0x22 # r"
  by (simp add: quote_def)

lemma scan_string_quoted: "scan_string (tl (quote s @ r)) = Some (s, r)"
  by (simp add: quote_append scan_string_escaped)

text \<open>What may follow a number without being read as part of it.\<close>

definition delimited :: "string \<Rightarrow> bool" where
  "delimited r \<longleftrightarrow> r = [] \<or> hd r \<in> {CHR '','', CHR '']'', CHR ''}''}"

lemma delimited_not_float: "delimited r \<Longrightarrow> \<not> has_fraction r \<and> \<not> has_exponent r"
  by (cases r; cases "tl r") (auto simp: delimited_def has_fraction_def has_exponent_def)

lemma digits_of_append:
  assumes "list_all is_digit ds" and "delimited r"
  shows "digits_of (ds @ r) = (ds, r)"
proof -
  have r: "takeWhile is_digit r = []" "dropWhile is_digit r = r"
    using assms(2) by (cases r; auto simp: delimited_def is_digit_def code_def)+
  show ?thesis
    using assms(1) r by (simp add: digits_of_def list_all_iff takeWhile_append2 dropWhile_append2)
qed

lemma scan_natural_show_nat:
  assumes "delimited r"
  shows "scan_natural (show_nat n @ r) = Some (show_nat n, r)"
proof (cases "n = 0")
  case True
  then show ?thesis by (simp add: scan_natural_def show_nat_zero)
next
  case False
  then obtain c s where cs: "show_nat n = c # s" "c \<noteq> CHR ''0''"
    using show_nat_head [of n] by auto
  have digits: "list_all is_digit (show_nat n)"
    using show_nat_digits [of n] by (simp add: list_all_iff)
  with cs show ?thesis
    using digits_of_append [OF digits assms] by (simp add: scan_natural_def)
qed

lemma show_nat_not_minus: "hd (show_nat n @ r) \<noteq> CHR ''-''"
  using show_nat_digits [of n] by (cases "show_nat n") (auto simp: digit_not_minus)

lemma scan_number_show_int:
  assumes "delimited r" and "length (show_nat (nat \<bar>i\<bar>)) \<le> 4300"
  shows "scan_number (show_int i @ r) = Inr (JInt i, r)"
proof (cases "i < 0")
  case True
  then have "show_int i @ r = CHR ''-'' # show_nat (nat (- i)) @ r" by (simp add: show_int_def)
  with True assms show ?thesis
    by (simp add: scan_number_def scan_natural_show_nat delimited_not_float)
next
  case False
  obtain c s where cs: "show_nat (nat i) @ r = c # s" by (cases "show_nat (nat i) @ r") auto
  then have "c \<noteq> CHR ''-''" using show_nat_not_minus [of "nat i" r] by simp
  with False assms cs scan_natural_show_nat [OF assms(1), of "nat i"] show ?thesis
    by (simp add: scan_number_def show_int_def delimited_not_float)
qed

lemma show_int_scalar:
  assumes "delimited r" and "length (show_nat (nat \<bar>i\<bar>)) \<le> 4300"
  shows "parse_value limit (show_int i @ r) = Inr (JInt i, r)"
proof -
  obtain c s where cs: "show_int i = c # s"
    by (cases "show_int i") (auto simp: show_int_def split: if_splits)
  have c: "is_digit c \<or> c = CHR ''-'' \<and> s \<noteq> [] \<and> is_digit (hd s)"
  proof (cases "i < 0")
    case True
    then show ?thesis using cs show_nat_digits [of "nat (- i)"]
      by (cases "show_nat (nat (- i))") (auto simp: show_int_def)
  next
    case False
    then show ?thesis using cs show_nat_digits [of "nat i"] by (auto simp: show_int_def)
  qed
  have plain: "c \<noteq> CHR 0x22" "c \<noteq> CHR ''{''" "c \<noteq> CHR ''[''" "c \<noteq> CHR ''n''" "c \<noteq> CHR ''t''" "c \<noteq> CHR ''f''"
      "c \<noteq> CHR ''N''" "c \<noteq> CHR ''I''"
    using c by (auto simp: is_digit_def code_def)
  have "\<not> starts_with ''-Infinity'' ((c # s) @ r)"
    using c by (cases s) (auto simp: starts_with_def is_digit_def code_def)
  moreover have "\<not> starts_with w ((c # s) @ r)" if "w \<in> {''null'', ''true'', ''false'', ''NaN'', ''Infinity''}" for w
    using that plain by (auto simp: starts_with_def)
  ultimately have "scan_scalar ((c # s) @ r) = scan_number ((c # s) @ r)"
    by (simp add: scan_scalar_def del: append_Cons)
  with plain scan_number_show_int [OF assms] show ?thesis
    by (simp add: cs parse_value.simps)
qed

text \<open>Distinct keys in every object, and containers nested at most \<open>limit\<close> deep.\<close>

fun parsable :: "nat \<Rightarrow> json \<Rightarrow> bool"
and parsable_members :: "nat \<Rightarrow> (string \<times> json) list \<Rightarrow> bool"
and parsable_items :: "nat \<Rightarrow> json list \<Rightarrow> bool" where
  "parsable limit (JObj kvs) = (0 < limit \<and> distinct (map fst kvs) \<and> parsable_members (limit - 1) kvs)"
| "parsable limit (JArr js) = (0 < limit \<and> parsable_items (limit - 1) js)"
| "parsable limit _ = True"
| "parsable_members limit [] = True"
| "parsable_members limit ((k, v) # kvs) = (parsable limit v \<and> parsable_members limit kvs)"
| "parsable_items limit [] = True"
| "parsable_items limit (v # vs) = (parsable limit v \<and> parsable_items limit vs)"

lemma object_pairs_None: "object_pairs kvs seen = None \<longleftrightarrow> distinct (map fst kvs) \<and> set (map fst kvs) \<inter> set seen = {}"
  by (induction kvs seen rule: object_pairs.induct) auto

lemma show_int_head: "\<exists>c s. show_int i = c # s \<and> (is_digit c \<or> c = CHR ''-'')"
proof -
  have "\<exists>c s. show_nat n = c # s \<and> is_digit c" for n
    using show_nat_digits [of n] by (cases "show_nat n") auto
  then show ?thesis by (cases "i < 0") (simp add: show_int_def, simp add: show_int_def, blast)
qed

lemma render_head: "\<exists>c s. render v = c # s \<and> \<not> is_json_space c \<and> c \<notin> {CHR '']'', CHR ''}''}"
proof (cases v)
  case (JInt i)
  then show ?thesis
    using show_int_head [of i] by (auto simp: is_json_space_def is_digit_def code_def)
qed (simp_all add: is_json_space_def code_def quote_def)

lemma skip_space_plain: "\<not> is_json_space c \<Longrightarrow> skip_space (c # s) = c # s"
  by (simp add: skip_space_def)

lemma skip_space_render [simp]: "skip_space (render v @ r) = render v @ r"
  using render_head [of v] by (auto simp: skip_space_plain)

lemma skip_space_punctuation [simp]:
  "skip_space (CHR '','' # r) = CHR '','' # r" "skip_space (CHR '':'' # r) = CHR '':'' # r"
  "skip_space (CHR ''}'' # r) = CHR ''}'' # r" "skip_space (CHR '']'' # r) = CHR '']'' # r"
  "skip_space (CHR 0x22 # r) = CHR 0x22 # r"
  by (simp_all add: skip_space_plain is_json_space_def code_def)

lemma skip_space_quote [simp]: "skip_space (quote k @ r) = quote k @ r"
  by (simp add: quote_append)

lemma render_members_head: "kvs \<noteq> [] \<Longrightarrow> \<exists>s. render_members kvs = CHR 0x22 # s"
  by (cases kvs; cases "tl kvs") (auto simp: quote_def)

lemma render_items_head:
  "js \<noteq> [] \<Longrightarrow> \<exists>c s. render_items js = c # s \<and> \<not> is_json_space c \<and> c \<notin> {CHR '']'', CHR ''}''}"
  using render_head [of "hd js"] by (cases js; cases "tl js") auto

lemma scan_key_quote: "scan_key (quote k @ CHR '':'' # r) = Inr (k, skip_space r)"
proof -
  have "starts_with [CHR 0x22] (quote k @ CHR '':'' # r)"
    by (simp add: quote_def starts_with_def)
  then show ?thesis
    by (simp add: scan_key_def scan_string_quoted) (simp add: starts_with_def)
qed

lemma scan_delimiter_simps [simp]:
  "scan_delimiter close (close # r) = Inr (True, r)" if "\<not> is_json_space close" for close
  using that by (simp add: scan_delimiter_def skip_space_plain)

lemma scan_delimiter_comma [simp]: "close \<noteq> CHR '','' \<Longrightarrow> scan_delimiter close (CHR '','' # r) = Inr (False, skip_space r)"
  by (simp add: scan_delimiter_def)

lemma parse_literals:
  "parse_value limit (''null'' @ r) = Inr (JNull, r)" "parse_value limit (''true'' @ r) = Inr (JBool True, r)"
  "parse_value limit (''false'' @ r) = Inr (JBool False, r)"
  by (simp_all add: parse_value.simps scan_scalar_def starts_with_def)

lemma parse_render:
  "parsable limit v \<Longrightarrow> printable v \<Longrightarrow> delimited r \<Longrightarrow> parse_value limit (render v @ r) = Inr (v, r)"
  "parsable_members limit kvs \<Longrightarrow> printable_members kvs \<Longrightarrow> kvs \<noteq> [] \<Longrightarrow>
   parse_members limit (render_members kvs @ CHR ''}'' # r) = Inr (kvs, r)"
  "parsable_items limit js \<Longrightarrow> printable_items js \<Longrightarrow> js \<noteq> [] \<Longrightarrow>
   parse_items limit (render_items js @ CHR '']'' # r) = Inr (js, r)"
proof (induction v and kvs and js arbitrary: limit r and limit r and limit r
    rule: render_render_members_render_items.induct)
  case (3 i)
  then show ?case by (simp add: show_int_scalar)
next
  case (4 s)
  then show ?case by (simp add: quote_append parse_value.simps scan_string_escaped)
next
  case (5 js)
  show ?case
  proof (cases "js = []")
    case True
    with 5 show ?thesis by (simp add: parse_value.simps starts_with_def)
  next
    case False
    then obtain c s where "render_items js = c # s" "\<not> is_json_space c" "c \<noteq> CHR '']''"
      using render_items_head [of js] by blast
    with 5 False show ?thesis
      using 5(1) [of "limit - 1" r] by (simp add: parse_value.simps skip_space_plain starts_with_def)
  qed
next
  case (6 kvs)
  show ?case
  proof (cases "kvs = []")
    case True
    with 6 show ?thesis by (simp add: parse_value.simps starts_with_def)
  next
    case False
    then obtain s where "render_members kvs = CHR 0x22 # s"
      using render_members_head by blast
    moreover have "object_pairs kvs [] = None" using 6(2) by (simp add: object_pairs_None)
    ultimately show ?thesis
      using 6 False 6(1) [of "limit - 1" r] by (simp add: parse_value.simps starts_with_def)
  qed
next
  case (8 k v)
  have "parse_value limit (render v @ CHR ''}'' # r) = Inr (v, CHR ''}'' # r)"
    using 8 by (intro 8(1)) (simp_all add: delimited_def)
  then show ?case
    by (subst parse_members.simps)
      (simp add: scan_key_quote is_json_space_def code_def, (simp add: quote_def)?)
next
  case (9 k v kv kvs)
  let ?tail = "render_members (kv # kvs) @ CHR ''}'' # r"
  have head: "parse_value limit (render v @ CHR '','' # ?tail) = Inr (v, CHR '','' # ?tail)"
    using 9(3,4) by (intro 9(1)) (simp_all add: delimited_def)
  have rest: "parse_members limit ?tail = Inr (kv # kvs, r)"
    using 9(3,4) by (intro 9(2)) simp_all
  have "skip_space ?tail = ?tail"
    using render_members_head [of "kv # kvs"] by auto
  with head rest show ?case
    by (subst parse_members.simps)
      (simp add: scan_key_quote, (simp add: quote_def)?)
next
  case (11 v)
  have "parse_value limit (render v @ CHR '']'' # r) = Inr (v, CHR '']'' # r)"
    using 11 by (intro 11(1)) (simp_all add: delimited_def)
  then show ?case
    by (subst parse_items.simps) (simp add: is_json_space_def code_def)
next
  case (12 v w vs)
  let ?tail = "render_items (w # vs) @ CHR '']'' # r"
  have head: "parse_value limit (render v @ CHR '','' # ?tail) = Inr (v, CHR '','' # ?tail)"
    using 12(3,4) by (intro 12(1)) (simp_all add: delimited_def)
  have rest: "parse_items limit ?tail = Inr (w # vs, r)"
    using 12(3,4) by (intro 12(2)) simp_all
  have "skip_space ?tail = ?tail"
    using render_items_head [of "w # vs"] by (auto simp: skip_space_plain)
  with head rest show ?case
    by (subst parse_items.simps) simp
qed (simp_all add: parse_literals [simplified])

section \<open>Canonical bytes are read back\<close>

text \<open>Objects with distinct ASCII keys and ASCII strings only.\<close>

fun plain_json :: "json \<Rightarrow> bool"
and plain_members :: "(string \<times> json) list \<Rightarrow> bool"
and plain_items :: "json list \<Rightarrow> bool" where
  "plain_json (JObj kvs) = (distinct (map fst kvs) \<and> plain_members kvs)"
| "plain_json (JArr js) = plain_items js"
| "plain_json (JStr s) = list_all is_ascii s"
| "plain_json _ = True"
| "plain_members [] = True"
| "plain_members ((k, v) # kvs) = (list_all is_ascii k \<and> plain_json v \<and> plain_members kvs)"
| "plain_items [] = True"
| "plain_items (v # vs) = (plain_json v \<and> plain_items vs)"

fun shape_ok :: "(string \<Rightarrow> string) \<Rightarrow> nat \<Rightarrow> json \<Rightarrow> bool"
and shape_members :: "(string \<Rightarrow> string) \<Rightarrow> nat \<Rightarrow> (string \<times> json) list \<Rightarrow> bool"
and shape_items :: "(string \<Rightarrow> string) \<Rightarrow> nat \<Rightarrow> json list \<Rightarrow> bool" where
  "shape_ok nfc depth (JObj kvs) = (depth \<le> MAX_DEPTH \<and> length kvs \<le> MAX_OBJECT_MEMBERS \<and> shape_members nfc depth kvs)"
| "shape_ok nfc depth (JArr js) = (depth \<le> MAX_DEPTH \<and> length js \<le> MAX_ARRAY_ITEMS \<and> shape_items nfc depth js)"
| "shape_ok nfc depth (JStr s) = (depth \<le> MAX_DEPTH \<and> general_ok nfc s)"
| "shape_ok nfc depth _ = (depth \<le> MAX_DEPTH)"
| "shape_members nfc depth [] = True"
| "shape_members nfc depth ((k, v) # kvs) = (general_ok nfc k \<and> shape_ok nfc (Suc depth) v \<and> shape_members nfc depth kvs)"
| "shape_items nfc depth [] = True"
| "shape_items nfc depth (v # vs) = (shape_ok nfc (Suc depth) v \<and> shape_items nfc depth vs)"

lemma validate_shape_None [outcome]:
  "validate_shape nfc v depth path = None \<longleftrightarrow> shape_ok nfc depth v"
  "validate_members nfc kvs depth path = None \<longleftrightarrow> shape_members nfc depth kvs"
  "validate_items nfc js i depth path = None \<longleftrightarrow> shape_items nfc depth js"
proof (induction nfc v depth path and nfc kvs depth path and nfc js i depth path
    rule: validate_shape_validate_members_validate_items.induct)
  case (1 nfc v depth path)
  then show ?case by (cases v) (auto simp: general_string_check_None)
qed (simp_all add: general_string_check_None)

lemma plain_members_iff: "plain_members kvs \<longleftrightarrow> (\<forall>(k, v) \<in> set kvs. list_all is_ascii k \<and> plain_json v)"
  by (induction kvs) auto

lemma shape_members_iff:
  "shape_members nfc depth kvs \<longleftrightarrow> (\<forall>(k, v) \<in> set kvs. general_ok nfc k \<and> shape_ok nfc (Suc depth) v)"
  by (induction kvs) auto

lemma printable_members_iff: "printable_members kvs \<longleftrightarrow> (\<forall>(k, v) \<in> set kvs. printable v)"
  by (induction kvs) auto

lemma sort_members_length [simp]: "length (sort_members kvs) = length kvs"
  by (induction kvs) auto

lemma sort_items_length [simp]: "length (sort_items js) = length js"
  by (simp add: sort_items_map)

lemma distinct_sort_key: "distinct (map fst (sort_key fst kvs)) \<longleftrightarrow> distinct (map fst kvs)"
  by (metis (no_types, lifting) distinct_map distinct_sort set_sort)

lemma sort_json_keeps:
  "plain_json (sort_json v) = plain_json v \<and> printable (sort_json v) = printable v \<and>
     (\<forall>depth. shape_ok nfc depth (sort_json v) = shape_ok nfc depth v)"
  "plain_members (sort_members kvs) = plain_members kvs \<and> printable_members (sort_members kvs) = printable_members kvs \<and>
     (\<forall>depth. shape_members nfc depth (sort_members kvs) = shape_members nfc depth kvs)"
  "plain_items (sort_items js) = plain_items js \<and> printable_items (sort_items js) = printable_items js \<and>
     (\<forall>depth. shape_items nfc depth (sort_items js) = shape_items nfc depth js)"
proof (induction v and kvs and js rule: sort_json_sort_members_sort_items.induct)
  case (1 kvs)
  moreover have "set (sort_key fst (sort_members kvs)) = set (sort_members kvs)" by simp
  ultimately show ?case
    by (simp add: plain_members_iff printable_members_iff shape_members_iff distinct_sort_key)
qed auto

lemma parsable_shape:
  "shape_ok nfc depth v \<Longrightarrow> plain_json v \<Longrightarrow> MAX_DEPTH < depth + limit \<Longrightarrow> parsable limit v"
  "shape_members nfc depth kvs \<Longrightarrow> plain_members kvs \<Longrightarrow> MAX_DEPTH \<le> depth + limit \<Longrightarrow> parsable_members limit kvs"
  "shape_items nfc depth js \<Longrightarrow> plain_items js \<Longrightarrow> MAX_DEPTH \<le> depth + limit \<Longrightarrow> parsable_items limit js"
proof (induction limit v and limit kvs and limit js arbitrary: depth and depth and depth
    rule: parsable_parsable_members_parsable_items.induct)
  case (1 limit kvs)
  then show ?case using 1(1) [of depth] by auto
next
  case (2 limit js)
  then show ?case using 2(1) [of depth] by auto
qed auto

lemma ascii_quote: "list_all is_ascii s \<Longrightarrow> list_all is_ascii (quote s)"
proof -
  have hex: "list_all is_ascii (hex4 n)" for n
    by (auto simp: hex4_def intro!: is_ascii_lower_hex is_lower_hex_hex_digit)
  have "list_all is_ascii (escape_char c)" if "is_ascii c" for c
    using that hex [of "code c"] by (auto simp: escape_char_def is_ascii_def code_def)
  moreover assume "list_all is_ascii s"
  ultimately have "list_all is_ascii (concat (map escape_char s))"
    by (induction s) auto
  then show ?thesis by (simp add: quote_def is_ascii_def code_def)
qed

lemma ascii_show_int: "list_all is_ascii (show_int i)"
  using show_nat_digits [of "nat i"] show_nat_digits [of "nat (- i)"]
  by (auto simp: show_int_def list_all_iff is_ascii_digit) (simp add: is_ascii_def code_def)

lemma ascii_render:
  "plain_json v \<Longrightarrow> list_all is_ascii (render v)"
  "plain_members kvs \<Longrightarrow> list_all is_ascii (render_members kvs)"
  "plain_items js \<Longrightarrow> list_all is_ascii (render_items js)"
  by (induction v and kvs and js rule: render_render_members_render_items.induct)
    (simp_all add: ascii_show_int ascii_quote, simp_all add: is_ascii_def code_def)

lemma ascii_valid_utf8: "list_all is_ascii s \<Longrightarrow> valid_utf8 s"
  by (induction s) (simp_all add: is_ascii_def)

lemma canonical_parse:
  assumes bytes: "canonical_bytes nfc (JObj kvs) = Inr b" and plain: "plain_json (JObj kvs)" and limit: "MAX_DEPTH \<le> limit"
  shows "parse_json nfc limit b = Inr (sort_key fst (sort_members kvs))"
proof -
  let ?v = "sort_json (JObj kvs)"
  have shape: "shape_ok nfc 1 (JObj kvs)" and printable: "printable (JObj kvs)"
    and b: "b = render ?v" and size: "length b \<le> MAX_RECORD_BYTES"
    using bytes by (auto simp: canonical_bytes_def Let_def outcome simp del: validate_shape.simps)
  note sorted = sort_json_keeps(1) [of "JObj kvs" nfc, THEN conjunct1] sort_json_keeps(1) [of "JObj kvs" nfc, THEN conjunct2]
  have "parsable limit ?v"
    using sorted shape plain limit by (intro parsable_shape(1) [of nfc 1]) auto
  then have "parse_value limit (render ?v @ []) = Inr (?v, [])"
    using sorted printable by (intro parse_render(1)) (auto simp: delimited_def)
  then have "json_loads limit b = Inr ?v"
    using skip_space_render [of ?v "[]"] by (simp add: json_loads_def b) (simp add: skip_space_def)
  moreover have "valid_utf8 b"
    unfolding b using sorted plain by (intro ascii_valid_utf8 ascii_render(1)) blast
  moreover have "\<not> starts_with byte_order_mark b"
    unfolding b by (simp add: starts_with_def byte_order_mark_def)
  moreover have "validate_shape nfc ?v 1 ''$'' = None" using sorted shape validate_shape_None(1) by blast
  ultimately show ?thesis
    using size by (simp add: parse_json_def del: validate_shape.simps)
qed

end
