(* ===== verification/Perception.thy ===== *)
theory Perception
  imports Ingestion_Examples
begin

text \<open>
  The version-1 perception records of \<open>perception.py\<close>: frame discontinuities, observations, track
  points and tracklets.  These records validate the values they hold again, with the path of the
  holder (\<open>_plain_x\<close>, here \<open>plain_x\<close>), so their \<open>x_post\<close> alone says that everything below is valid.
\<close>

section \<open>Bounds and scalar validators\<close>

definition MAX_TRACK_POINTS :: nat where "MAX_TRACK_POINTS = 64"
definition MAX_CONFIDENCE_MILLIONTHS :: int where "MAX_CONFIDENCE_MILLIONTHS = 1000000"
definition MAX_DISCONTINUITY_BASIS_POINTS :: int where "MAX_DISCONTINUITY_BASIS_POINTS = 10000"

definition termination_reasons :: "string list" where
  "termination_reasons = [''cut'', ''miss_timeout'', ''source_end'']"

fun is_category :: "string \<Rightarrow> bool" where
  "is_category [] = False"
| "is_category (c # s) =
     (is_lower c \<and> length s \<le> 127 \<and> list_all (\<lambda>d. is_lower d \<or> is_digit d \<or> d = CHR ''_'') s)"

definition category_check :: "(string \<Rightarrow> string) \<Rightarrow> string \<Rightarrow> string \<Rightarrow> check" where
  "category_check nfc s path = run_checks
     [general_string_check nfc s path, require (is_category s) (fail ''invalid_category'' path)]"

fun read_category :: "(string \<Rightarrow> string) \<Rightarrow> json \<Rightarrow> string \<Rightarrow> string res" where
  "read_category nfc (JStr s) path = checked (category_check nfc s path) s"
| "read_category nfc _ path = Inl (fail ''expected_string'' path)"

section \<open>Validating held values again\<close>

definition plain_time_base :: "(string \<Rightarrow> string) \<Rightarrow> time_base \<Rightarrow> string \<Rightarrow> check" where
  "plain_time_base nfc v path = run_checks
     [general_string_check nfc (tb_numerator v) (path @ ''.numerator''),
      general_string_check nfc (tb_denominator v) (path @ ''.denominator''),
      time_base_post nfc v]"

definition plain_producer :: "(string \<Rightarrow> string) \<Rightarrow> producer \<Rightarrow> string \<Rightarrow> check" where
  "plain_producer nfc v path = run_checks
     [general_string_check nfc (pr_name v) (path @ ''.name''),
      general_string_check nfc (pr_version v) (path @ ''.version''),
      general_string_check nfc (pr_configuration_sha256 v) (path @ ''.configuration_sha256''),
      producer_post nfc v]"

definition check_option :: "('a \<Rightarrow> check) \<Rightarrow> 'a option \<Rightarrow> check" where
  "check_option f x = (case x of None \<Rightarrow> None | Some y \<Rightarrow> f y)"

definition plain_media_time :: "(string \<Rightarrow> string) \<Rightarrow> media_time \<Rightarrow> string \<Rightarrow> check" where
  "plain_media_time nfc v path = run_checks
     [general_string_check nfc (mt_value v) (path @ ''.value''),
      general_string_check nfc (mt_basis v) (path @ ''.basis''),
      plain_time_base nfc (mt_time_base v) (path @ ''.time_base''),
      check_option (\<lambda>m. general_string_check nfc m (path @ ''.estimate.method'')) (mt_estimate_method v),
      check_option (\<lambda>p. plain_producer nfc p (path @ ''.estimate.producer'')) (mt_estimate_producer v),
      media_time_post nfc v]"

definition plain_frame_ref :: "(string \<Rightarrow> string) \<Rightarrow> frame_ref \<Rightarrow> string \<Rightarrow> check" where
  "plain_frame_ref nfc v path = run_checks
     [general_string_check nfc (fr_frame_id v) (path @ ''.frame_id''),
      general_string_check nfc (fr_source_id v) (path @ ''.source_id''),
      general_string_check nfc (fr_decode_index v) (path @ ''.decode_index''),
      bounded_int_check (fr_stream_index v) 0 MAX_I31 (path @ ''.stream_index''),
      plain_media_time nfc (fr_pts v) (path @ ''.pts''),
      check_option (\<lambda>d. plain_media_time nfc d (path @ ''.duration'')) (fr_duration v),
      frame_post nfc v]"

definition plain_rational :: "(string \<Rightarrow> string) \<Rightarrow> rational \<Rightarrow> string \<Rightarrow> check" where
  "plain_rational nfc v path = run_checks
     [general_string_check nfc (ra_numerator v) (path @ ''.numerator''),
      general_string_check nfc (ra_denominator v) (path @ ''.denominator''),
      rational_post nfc v]"

definition plain_coefficients :: "(string \<Rightarrow> string) \<Rightarrow> affine_coefficients \<Rightarrow> string \<Rightarrow> check" where
  "plain_coefficients nfc v path = run_checks
     [plain_rational nfc (ac_a v) (path @ ''.a''), plain_rational nfc (ac_b v) (path @ ''.b''),
      plain_rational nfc (ac_c v) (path @ ''.c''), plain_rational nfc (ac_d v) (path @ ''.d''),
      plain_rational nfc (ac_e v) (path @ ''.e''), plain_rational nfc (ac_f v) (path @ ''.f'')]"

definition plain_geometry :: "(string \<Rightarrow> string) \<Rightarrow> geometry \<Rightarrow> string \<Rightarrow> check" where
  "plain_geometry nfc v path = run_checks
     [general_string_check nfc (ge_measurement v) (path @ ''.measurement''),
      general_string_check nfc (ge_transform_kind v) (path @ ''.transform_to_source.kind''),
      general_string_check nfc (ge_space v) (path @ ''.space''),
      check_option producer_space_post (ge_producer_space v),
      check_option (\<lambda>k. plain_coefficients nfc k (path @ ''.transform_to_source.coefficients'')) (ge_coefficients v),
      geometry_post nfc v]"

section \<open>FrameDiscontinuity\<close>

record frame_discontinuity =
  fd_source_id :: string
  fd_frame_id :: string
  fd_stream_index :: int
  fd_pts :: media_time
  fd_score_basis_points :: int

definition discontinuity_post :: "(string \<Rightarrow> string) \<Rightarrow> frame_discontinuity \<Rightarrow> check" where
  "discontinuity_post nfc v = run_checks
     [general_string_check nfc (fd_source_id v) ''frame_discontinuity.source_id'',
      general_string_check nfc (fd_frame_id v) ''frame_discontinuity.frame_id'',
      typed_id_check nfc (fd_source_id v) ''src'' ''frame_discontinuity.source_id'',
      typed_id_check nfc (fd_frame_id v) ''frm'' ''frame_discontinuity.frame_id'',
      bounded_int_check (fd_stream_index v) 0 MAX_I31 ''frame_discontinuity.stream_index'',
      plain_media_time nfc (fd_pts v) ''frame_discontinuity.pts'',
      bounded_int_check (fd_score_basis_points v) 0 MAX_DISCONTINUITY_BASIS_POINTS
        ''frame_discontinuity.score_basis_points'']"

definition discontinuity_from_frame :: "(string \<Rightarrow> string) \<Rightarrow> frame_ref \<Rightarrow> int \<Rightarrow> frame_discontinuity res" where
  "discontinuity_from_frame nfc frame score =
     bindE (checked (plain_frame_ref nfc frame ''frame'') ()) (\<lambda>_.
     let v = \<lparr>fd_source_id = fr_source_id frame, fd_frame_id = fr_frame_id frame,
              fd_stream_index = fr_stream_index frame, fd_pts = fr_pts frame, fd_score_basis_points = score\<rparr>
     in checked (discontinuity_post nfc v) v)"

definition discontinuity_to_mapping :: "frame_discontinuity \<Rightarrow> json" where
  "discontinuity_to_mapping v = JObj
     [(''frame_id'', JStr (fd_frame_id v)), (''pts'', media_time_to_mapping (fd_pts v)),
      (''score_basis_points'', JInt (fd_score_basis_points v)), (''source_id'', JStr (fd_source_id v)),
      (''stream_index'', JInt (fd_stream_index v))]"

section \<open>Observation\<close>

record observation =
  ob_observation_id :: string
  ob_source_id :: string
  ob_frame_id :: string
  ob_stream_index :: int
  ob_pts :: media_time
  ob_geometry :: geometry
  ob_category :: string
  ob_confidence_millionths :: int
  ob_producer :: producer

definition observation_schema :: string where "observation_schema = ''visualworld.observation''"

definition observation_identity_members ::
  "string \<Rightarrow> string \<Rightarrow> int \<Rightarrow> media_time \<Rightarrow> geometry \<Rightarrow> string \<Rightarrow> int \<Rightarrow> producer \<Rightarrow> (string \<times> json) list" where
  "observation_identity_members source_id frame_id stream_index pts geometry category confidence p =
     [(''category'', JStr category), (''confidence_millionths'', JInt confidence), (''frame_id'', JStr frame_id),
      (''geometry'', geometry_to_mapping geometry), (''identity_version'', JInt 1),
      (''producer'', producer_to_mapping p), (''pts'', media_time_to_mapping pts),
      (''source_id'', JStr source_id), (''stream_index'', JInt stream_index)]"

definition observation_projection :: "observation \<Rightarrow> (string \<times> json) list" where
  "observation_projection v = observation_identity_members (ob_source_id v) (ob_frame_id v) (ob_stream_index v)
     (ob_pts v) (ob_geometry v) (ob_category v) (ob_confidence_millionths v) (ob_producer v)"

definition observation_post :: "(string \<Rightarrow> string) \<Rightarrow> observation \<Rightarrow> check" where
  "observation_post nfc v = run_checks
     [general_string_check nfc (ob_observation_id v) ''observation_id'',
      general_string_check nfc (ob_source_id v) ''source_id'',
      general_string_check nfc (ob_frame_id v) ''frame_id'',
      typed_id_check nfc (ob_observation_id v) ''obs'' ''observation_id'',
      typed_id_check nfc (ob_source_id v) ''src'' ''source_id'',
      typed_id_check nfc (ob_frame_id v) ''frm'' ''frame_id'',
      bounded_int_check (ob_stream_index v) 0 MAX_I31 ''stream_index'',
      plain_media_time nfc (ob_pts v) ''pts'',
      plain_geometry nfc (ob_geometry v) ''geometry'',
      general_string_check nfc (ob_category v) ''category'',
      category_check nfc (ob_category v) ''category'',
      bounded_int_check (ob_confidence_millionths v) 0 MAX_CONFIDENCE_MILLIONTHS ''confidence_millionths'',
      plain_producer nfc (ob_producer v) ''producer'',
      identifier_check (mk_identifier nfc ''obs'' (JObj (observation_projection v))) (ob_observation_id v)
        ''observation_id'']"

definition observation_create ::
  "(string \<Rightarrow> string) \<Rightarrow> string \<Rightarrow> string \<Rightarrow> int \<Rightarrow> media_time \<Rightarrow> geometry \<Rightarrow> string \<Rightarrow> int \<Rightarrow> producer \<Rightarrow> observation res" where
  "observation_create nfc source_id frame_id stream_index pts geometry category confidence p =
     bindE (checked (run_checks
       [general_string_check nfc source_id ''source_id'',
        general_string_check nfc frame_id ''frame_id'',
        general_string_check nfc category ''category'',
        category_check nfc category ''category'',
        plain_media_time nfc pts ''pts'',
        plain_geometry nfc geometry ''geometry'',
        plain_producer nfc p ''producer'']) ()) (\<lambda>_.
     bindE (mk_identifier nfc ''obs'' (JObj
       (observation_identity_members source_id frame_id stream_index pts geometry category confidence p)))
       (\<lambda>observation_id.
     let v = \<lparr>ob_observation_id = observation_id, ob_source_id = source_id, ob_frame_id = frame_id,
              ob_stream_index = stream_index, ob_pts = pts, ob_geometry = geometry, ob_category = category,
              ob_confidence_millionths = confidence, ob_producer = p\<rparr>
     in checked (observation_post nfc v) v))"

definition observation_to_mapping :: "observation \<Rightarrow> json" where
  "observation_to_mapping v = JObj (observation_projection v @
     [(''observation_id'', JStr (ob_observation_id v)), (''schema'', JStr observation_schema),
      (''schema_version'', JInt 1)])"

definition observation_from_mapping :: "(string \<Rightarrow> string) \<Rightarrow> json \<Rightarrow> observation res" where
  "observation_from_mapping nfc value =
     bindE (record_fields nfc value
       [''category'', ''confidence_millionths'', ''frame_id'', ''geometry'', ''observation_id'', ''producer'',
        ''pts'', ''source_id'', ''stream_index''] observation_schema []) (\<lambda>item.
     bindE (read_string nfc (get item ''observation_id'') ''observation_id'') (\<lambda>observation_id.
     bindE (read_string nfc (get item ''source_id'') ''source_id'') (\<lambda>source_id.
     bindE (read_string nfc (get item ''frame_id'') ''frame_id'') (\<lambda>frame_id.
     bindE (read_int (get item ''stream_index'') 0 MAX_I31 ''stream_index'') (\<lambda>stream_index.
     bindE (media_time_from_mapping nfc (get item ''pts'') ''pts'') (\<lambda>pts.
     bindE (geometry_from_mapping nfc (get item ''geometry'') ''geometry'') (\<lambda>geometry.
     bindE (read_category nfc (get item ''category'') ''category'') (\<lambda>category.
     bindE (read_int (get item ''confidence_millionths'') 0 MAX_CONFIDENCE_MILLIONTHS ''confidence_millionths'') (\<lambda>confidence.
     bindE (producer_from_mapping nfc (get item ''producer'') ''producer'') (\<lambda>p.
     let v = \<lparr>ob_observation_id = observation_id, ob_source_id = source_id, ob_frame_id = frame_id,
              ob_stream_index = stream_index, ob_pts = pts, ob_geometry = geometry, ob_category = category,
              ob_confidence_millionths = confidence, ob_producer = p\<rparr>
     in checked (observation_post nfc v) v))))))))))"

section \<open>TrackPoint\<close>

record track_point =
  tp_observation_id :: string
  tp_source_id :: string
  tp_frame_id :: string
  tp_stream_index :: int
  tp_pts :: media_time
  tp_geometry :: geometry
  tp_category :: string

definition track_point_post :: "(string \<Rightarrow> string) \<Rightarrow> track_point \<Rightarrow> check" where
  "track_point_post nfc v = run_checks
     [general_string_check nfc (tp_observation_id v) ''track_point.observation_id'',
      general_string_check nfc (tp_source_id v) ''track_point.source_id'',
      general_string_check nfc (tp_frame_id v) ''track_point.frame_id'',
      typed_id_check nfc (tp_observation_id v) ''obs'' ''track_point.observation_id'',
      typed_id_check nfc (tp_source_id v) ''src'' ''track_point.source_id'',
      typed_id_check nfc (tp_frame_id v) ''frm'' ''track_point.frame_id'',
      bounded_int_check (tp_stream_index v) 0 MAX_I31 ''track_point.stream_index'',
      plain_media_time nfc (tp_pts v) ''track_point.pts'',
      plain_geometry nfc (tp_geometry v) ''track_point.geometry'',
      general_string_check nfc (tp_category v) ''track_point.category'',
      category_check nfc (tp_category v) ''track_point.category'']"

definition track_point_from_observation :: "(string \<Rightarrow> string) \<Rightarrow> observation \<Rightarrow> track_point res" where
  "track_point_from_observation nfc ob =
     bindE (checked (observation_post nfc ob) ()) (\<lambda>_.
     let v = \<lparr>tp_observation_id = ob_observation_id ob, tp_source_id = ob_source_id ob,
              tp_frame_id = ob_frame_id ob, tp_stream_index = ob_stream_index ob, tp_pts = ob_pts ob,
              tp_geometry = ob_geometry ob, tp_category = ob_category ob\<rparr>
     in checked (track_point_post nfc v) v)"

definition track_point_to_mapping :: "track_point \<Rightarrow> json" where
  "track_point_to_mapping v = JObj
     [(''category'', JStr (tp_category v)), (''frame_id'', JStr (tp_frame_id v)),
      (''geometry'', geometry_to_mapping (tp_geometry v)), (''observation_id'', JStr (tp_observation_id v)),
      (''pts'', media_time_to_mapping (tp_pts v)), (''source_id'', JStr (tp_source_id v)),
      (''stream_index'', JInt (tp_stream_index v))]"

definition track_point_from_mapping :: "(string \<Rightarrow> string) \<Rightarrow> json \<Rightarrow> string \<Rightarrow> track_point res" where
  "track_point_from_mapping nfc value path =
     bindE (exact_fields value
       [''category'', ''frame_id'', ''geometry'', ''observation_id'', ''pts'', ''source_id'', ''stream_index''] path [])
       (\<lambda>item.
     bindE (read_string nfc (get item ''observation_id'') (path @ ''.observation_id'')) (\<lambda>observation_id.
     bindE (read_string nfc (get item ''source_id'') (path @ ''.source_id'')) (\<lambda>source_id.
     bindE (read_string nfc (get item ''frame_id'') (path @ ''.frame_id'')) (\<lambda>frame_id.
     bindE (read_int (get item ''stream_index'') 0 MAX_I31 (path @ ''.stream_index'')) (\<lambda>stream_index.
     bindE (media_time_from_mapping nfc (get item ''pts'') (path @ ''.pts'')) (\<lambda>pts.
     bindE (geometry_from_mapping nfc (get item ''geometry'') (path @ ''.geometry'')) (\<lambda>geometry.
     bindE (read_category nfc (get item ''category'') (path @ ''.category'')) (\<lambda>category.
     let v = \<lparr>tp_observation_id = observation_id, tp_source_id = source_id, tp_frame_id = frame_id,
              tp_stream_index = stream_index, tp_pts = pts, tp_geometry = geometry, tp_category = category\<rparr>
     in checked (track_point_post nfc v) v))))))))"

section \<open>Tracklet\<close>

record tracklet =
  tk_tracklet_id :: string
  tk_source_id :: string
  tk_stream_index :: int
  tk_category :: string
  tk_points :: "track_point list"
  tk_termination_reason :: string
  tk_producer :: producer
  tk_identity_scope :: string
  tk_continuity :: string

definition tracklet_schema :: string where "tracklet_schema = ''visualworld.tracklet''"

definition tracklet_identity_members ::
  "string \<Rightarrow> int \<Rightarrow> string \<Rightarrow> track_point list \<Rightarrow> string \<Rightarrow> producer \<Rightarrow> string \<Rightarrow> string \<Rightarrow> (string \<times> json) list" where
  "tracklet_identity_members source_id stream_index category points reason p scope continuity =
     [(''category'', JStr category), (''continuity'', JStr continuity), (''identity_scope'', JStr scope),
      (''identity_version'', JInt 1), (''points'', JArr (map track_point_to_mapping points)),
      (''producer'', producer_to_mapping p), (''source_id'', JStr source_id), (''stream_index'', JInt stream_index),
      (''termination'', JObj [(''reason'', JStr reason)])]"

definition tracklet_projection :: "tracklet \<Rightarrow> (string \<times> json) list" where
  "tracklet_projection v = tracklet_identity_members (tk_source_id v) (tk_stream_index v) (tk_category v)
     (tk_points v) (tk_termination_reason v) (tk_producer v) (tk_identity_scope v) (tk_continuity v)"

definition point_scope_check :: "tracklet \<Rightarrow> track_point \<Rightarrow> check" where
  "point_scope_check v p =
     require (tp_source_id p = tk_source_id v \<and> tp_stream_index p = tk_stream_index v \<and> tp_category p = tk_category v)
       (fail ''track_point_scope_mismatch'' ''points'')"

text \<open>\<open>any(compare(points[i], points[i + 1]) >= 0 ...)\<close>\<close>

fun unordered :: "track_point list \<Rightarrow> bool" where
  "unordered (p # q # ps) = (0 \<le> compare_media_time (tp_pts p) (tp_pts q) \<or> unordered (q # ps))"
| "unordered _ = False"

definition point_dimensions :: "track_point \<Rightarrow> int \<times> int" where
  "point_dimensions p = (ge_source_width (tp_geometry p), ge_source_height (tp_geometry p))"

definition tracklet_post :: "(string \<Rightarrow> string) \<Rightarrow> tracklet \<Rightarrow> check" where
  "tracklet_post nfc v = run_checks
     [general_string_check nfc (tk_tracklet_id v) ''tracklet_id'',
      general_string_check nfc (tk_source_id v) ''source_id'',
      typed_id_check nfc (tk_tracklet_id v) ''trk'' ''tracklet_id'',
      typed_id_check nfc (tk_source_id v) ''src'' ''source_id'',
      bounded_int_check (tk_stream_index v) 0 MAX_I31 ''stream_index'',
      general_string_check nfc (tk_category v) ''category'',
      category_check nfc (tk_category v) ''category'',
      require (tk_points v \<noteq> []) (fail ''track_points_required'' ''points''),
      require (length (tk_points v) \<le> MAX_TRACK_POINTS) (fail ''too_many_track_points'' ''points''),
      run_checks (concat (map (\<lambda>p. [track_point_post nfc p, point_scope_check v p]) (tk_points v))),
      require (distinct (map tp_observation_id (tk_points v))) (fail ''duplicate_observation'' ''points''),
      require (distinct (map tp_frame_id (tk_points v))) (fail ''duplicate_frame'' ''points''),
      require (\<not> unordered (tk_points v)) (fail ''unordered_track_points'' ''points''),
      require (length (remdups (map point_dimensions (tk_points v))) = 1) (fail ''mixed_source_geometry'' ''points''),
      general_string_check nfc (tk_termination_reason v) ''termination.reason'',
      token_check nfc (tk_termination_reason v) ''termination.reason'' (Some termination_reasons),
      plain_producer nfc (tk_producer v) ''producer'',
      general_string_check nfc (tk_identity_scope v) ''identity_scope'',
      token_check nfc (tk_identity_scope v) ''identity_scope'' (Some [''source_clip'']),
      general_string_check nfc (tk_continuity v) ''continuity'',
      token_check nfc (tk_continuity v) ''continuity'' (Some [''inferred'']),
      identifier_check (mk_identifier nfc ''trk'' (JObj (tracklet_projection v))) (tk_tracklet_id v) ''tracklet_id'']"

definition start_pts :: "tracklet \<Rightarrow> media_time" where
  "start_pts v = tp_pts (hd (tk_points v))"

definition end_pts :: "tracklet \<Rightarrow> media_time" where
  "end_pts v = tp_pts (last (tk_points v))"

definition tracklet_create ::
  "(string \<Rightarrow> string) \<Rightarrow> string \<Rightarrow> int \<Rightarrow> string \<Rightarrow> track_point list \<Rightarrow> string \<Rightarrow> producer \<Rightarrow> tracklet res" where
  "tracklet_create nfc source_id stream_index category points reason p =
     bindE (checked (run_checks
       [general_string_check nfc source_id ''source_id'',
        general_string_check nfc category ''category'',
        category_check nfc category ''category'',
        general_string_check nfc reason ''termination.reason'',
        require (length points \<le> MAX_TRACK_POINTS) (fail ''too_many_track_points'' ''points''),
        run_checks (map (track_point_post nfc) points),
        plain_producer nfc p ''producer'']) ()) (\<lambda>_.
     bindE (mk_identifier nfc ''trk'' (JObj
       (tracklet_identity_members source_id stream_index category points reason p ''source_clip'' ''inferred'')))
       (\<lambda>tracklet_id.
     let v = \<lparr>tk_tracklet_id = tracklet_id, tk_source_id = source_id, tk_stream_index = stream_index,
              tk_category = category, tk_points = points, tk_termination_reason = reason, tk_producer = p,
              tk_identity_scope = ''source_clip'', tk_continuity = ''inferred''\<rparr>
     in checked (tracklet_post nfc v) v))"

definition tracklet_to_mapping :: "tracklet \<Rightarrow> json" where
  "tracklet_to_mapping v = JObj (tracklet_projection v @
     [(''end_pts'', media_time_to_mapping (end_pts v)), (''schema'', JStr tracklet_schema),
      (''schema_version'', JInt 1), (''start_pts'', media_time_to_mapping (start_pts v)),
      (''tracklet_id'', JStr (tk_tracklet_id v))])"

definition tracklet_from_mapping :: "(string \<Rightarrow> string) \<Rightarrow> json \<Rightarrow> tracklet res" where
  "tracklet_from_mapping nfc value =
     bindE (record_fields nfc value
       [''category'', ''continuity'', ''end_pts'', ''identity_scope'', ''points'', ''producer'', ''source_id'',
        ''start_pts'', ''stream_index'', ''termination'', ''tracklet_id''] tracklet_schema []) (\<lambda>item.
     bindE (as_array (get item ''points'') ''points'') (\<lambda>point_values.
     bindE (checked (require (length point_values \<le> MAX_TRACK_POINTS) (fail ''too_many_track_points'' ''points'')) ()) (\<lambda>_.
     bindE (mapE_from 0 (\<lambda>i j. track_point_from_mapping nfc j (item_path ''points'' i)) point_values) (\<lambda>points.
     bindE (checked (require (points \<noteq> []) (fail ''track_points_required'' ''points'')) ()) (\<lambda>_.
     bindE (media_time_from_mapping nfc (get item ''start_pts'') ''start_pts'') (\<lambda>start.
     bindE (media_time_from_mapping nfc (get item ''end_pts'') ''end_pts'') (\<lambda>finish.
     bindE (checked (run_checks
       [require (start = tp_pts (hd points)) (fail ''start_pts_mismatch'' ''start_pts''),
        require (finish = tp_pts (last points)) (fail ''end_pts_mismatch'' ''end_pts'')]) ()) (\<lambda>_.
     bindE (exact_fields (get item ''termination'') [''reason''] ''termination'' []) (\<lambda>termination_item.
     bindE (read_string nfc (get item ''tracklet_id'') ''tracklet_id'') (\<lambda>tracklet_id.
     bindE (read_string nfc (get item ''source_id'') ''source_id'') (\<lambda>source_id.
     bindE (read_int (get item ''stream_index'') 0 MAX_I31 ''stream_index'') (\<lambda>stream_index.
     bindE (read_category nfc (get item ''category'') ''category'') (\<lambda>category.
     bindE (read_token nfc (get termination_item ''reason'') ''termination.reason'' None) (\<lambda>reason.
     bindE (producer_from_mapping nfc (get item ''producer'') ''producer'') (\<lambda>p.
     bindE (read_token nfc (get item ''identity_scope'') ''identity_scope'' None) (\<lambda>scope.
     bindE (read_token nfc (get item ''continuity'') ''continuity'' None) (\<lambda>continuity.
     let v = \<lparr>tk_tracklet_id = tracklet_id, tk_source_id = source_id, tk_stream_index = stream_index,
              tk_category = category, tk_points = points, tk_termination_reason = reason, tk_producer = p,
              tk_identity_scope = scope, tk_continuity = continuity\<rparr>
     in checked (tracklet_post nfc v) v)))))))))))))))))"

section \<open>The perception record union\<close>

datatype perception_record = PObservation observation | PTracklet tracklet

fun perception_to_mapping :: "perception_record \<Rightarrow> json" where
  "perception_to_mapping (PObservation v) = observation_to_mapping v"
| "perception_to_mapping (PTracklet v) = tracklet_to_mapping v"

fun perception_projection :: "perception_record \<Rightarrow> json" where
  "perception_projection (PObservation v) = JObj (observation_projection v)"
| "perception_projection (PTracklet v) = JObj (tracklet_projection v)"

fun perception_post :: "(string \<Rightarrow> string) \<Rightarrow> perception_record \<Rightarrow> check" where
  "perception_post nfc (PObservation v) = observation_post nfc v"
| "perception_post nfc (PTracklet v) = tracklet_post nfc v"

definition dumps_perception_record :: "(string \<Rightarrow> string) \<Rightarrow> perception_record \<Rightarrow> string res" where
  "dumps_perception_record nfc v =
     bindE (checked (perception_post nfc v) ()) (\<lambda>_. canonical_bytes nfc (perception_to_mapping v))"

definition identity_perception_bytes :: "(string \<Rightarrow> string) \<Rightarrow> perception_record \<Rightarrow> string res" where
  "identity_perception_bytes nfc v =
     bindE (checked (perception_post nfc v) ()) (\<lambda>_. canonical_bytes nfc (perception_projection v))"

text \<open>The readers \<open>loads_perception_record\<close> dispatches to, on an already parsed object.\<close>

definition perception_from_mapping :: "(string \<Rightarrow> string) \<Rightarrow> json \<Rightarrow> perception_record res" where
  "perception_from_mapping nfc value =
     bindE (as_mapping value ''$'') (\<lambda>item.
     bindE (read_token nfc (get item ''schema'') ''schema'' None) (\<lambda>schema.
     bindE (read_int (get item ''schema_version'') 1 MAX_I31 ''schema_version'') (\<lambda>version.
     bindE (checked (require (version = 1) (fail ''unknown_schema_version'' ''schema_version'')) ()) (\<lambda>_.
     if schema = observation_schema then bindE (observation_from_mapping nfc value) (\<lambda>v. Inr (PObservation v))
     else if schema = tracklet_schema then bindE (tracklet_from_mapping nfc value) (\<lambda>v. Inr (PTracklet v))
     else Inl (fail ''unknown_schema'' ''schema'')))))"

section \<open>What the repeated validations accept\<close>

lemma check_option_None [outcome]: "check_option f x = None \<longleftrightarrow> pred_option (\<lambda>y. f y = None) x"
  by (cases x) (simp_all add: check_option_def)

lemma category_check_None [outcome]: "category_check nfc s path = None \<longleftrightarrow> general_ok nfc s \<and> is_category s"
  by (simp add: category_check_def outcome)

lemma plain_time_base_None [outcome]: "plain_time_base nfc v path = None \<longleftrightarrow> time_base_post nfc v = None"
  by (auto simp: plain_time_base_def time_base_post_def outcome)

lemma plain_producer_None [outcome]: "plain_producer nfc v path = None \<longleftrightarrow> producer_post nfc v = None"
  by (auto simp: plain_producer_def producer_post_def outcome)

lemma plain_rational_None [outcome]: "plain_rational nfc v path = None \<longleftrightarrow> rational_post nfc v = None"
  by (auto simp: plain_rational_def rational_post_def outcome)

lemma plain_coefficients_None [outcome]: "plain_coefficients nfc v path = None \<longleftrightarrow> affine_coefficients_valid nfc v"
  by (auto simp: plain_coefficients_def affine_coefficients_valid_def outcome)

lemma plain_media_time_None [outcome]: "plain_media_time nfc v path = None \<longleftrightarrow> media_time_valid nfc v"
proof
  assume v: "media_time_valid nfc v"
  then have "general_ok nfc (mt_value v)" "general_ok nfc (mt_basis v)"
      "time_base_post nfc (mt_time_base v) = None" "media_time_post nfc v = None"
    unfolding media_time_valid_def media_time_post_def run_checks_ConsN outcome by blast+
  moreover have "pred_option (general_ok nfc) (mt_estimate_method v)"
      "pred_option (\<lambda>p. producer_post nfc p = None) (mt_estimate_producer v)"
    using v by (cases rule: media_time_estimate_cases; simp add: token_check_None)+
  ultimately show "plain_media_time nfc v path = None"
    by (simp add: plain_media_time_def outcome)
qed (simp add: plain_media_time_def media_time_valid_def outcome)

lemma plain_frame_ref_None [outcome]: "plain_frame_ref nfc v path = None \<longleftrightarrow> frame_valid nfc v"
  by (auto simp: plain_frame_ref_def frame_valid_def frame_post_def outcome)

lemma plain_geometry_None [outcome]: "plain_geometry nfc v path = None \<longleftrightarrow> geometry_valid nfc v"
  by (auto simp: plain_geometry_def geometry_valid_def geometry_post_def outcome)

lemma identifier_check_None [outcome]: "identifier_check expected actual path = None \<longleftrightarrow> expected = Inr actual"
  by (auto simp: identifier_check_def split: sum.splits)

section \<open>Round trips\<close>

lemma read_category_simp: "general_ok nfc s \<Longrightarrow> is_category s \<Longrightarrow> read_category nfc (JStr s) path = Inr s"
  by (simp add: outcome)

lemma perception_literals:
  assumes "nfc_ascii nfc"
  shows "token_check nfc ''visualworld.observation'' p None = None"
    and "token_check nfc ''visualworld.tracklet'' p None = None"
  using assms
  by (simp_all add: token_check_literal char_evaluation MAX_TOKEN_BYTES_def)

lemma observation_postD:
  assumes "observation_post nfc v = None"
  shows "general_ok nfc (ob_observation_id v)" "general_ok nfc (ob_source_id v)" "general_ok nfc (ob_frame_id v)"
    "0 \<le> ob_stream_index v" "ob_stream_index v \<le> MAX_I31" "media_time_valid nfc (ob_pts v)"
    "geometry_valid nfc (ob_geometry v)" "general_ok nfc (ob_category v)" "is_category (ob_category v)"
    "0 \<le> ob_confidence_millionths v" "ob_confidence_millionths v \<le> MAX_CONFIDENCE_MILLIONTHS"
    "producer_post nfc (ob_producer v) = None" "is_typed_id ''src'' (ob_source_id v)"
    "is_typed_id ''frm'' (ob_frame_id v)" "is_typed_id ''obs'' (ob_observation_id v)"
    "mk_identifier nfc ''obs'' (JObj (observation_projection v)) = Inr (ob_observation_id v)"
  using assms unfolding observation_post_def run_checks_ConsN outcome by blast+

lemma track_point_postD:
  assumes "track_point_post nfc v = None"
  shows "general_ok nfc (tp_observation_id v)" "general_ok nfc (tp_source_id v)" "general_ok nfc (tp_frame_id v)"
    "0 \<le> tp_stream_index v" "tp_stream_index v \<le> MAX_I31" "media_time_valid nfc (tp_pts v)"
    "geometry_valid nfc (tp_geometry v)" "general_ok nfc (tp_category v)" "is_category (tp_category v)"
  using assms unfolding track_point_post_def run_checks_ConsN outcome by blast+

lemma observation_roundtrip:
  assumes nfc: "nfc_ascii nfc" and post: "observation_post nfc v = None"
  shows "observation_from_mapping nfc (observation_to_mapping v) = Inr v"
    and "observation_from_mapping nfc (sort_json (observation_to_mapping v)) = Inr v"
proof -
  note facts = post observation_postD(1-12) [OF post]
  show "observation_from_mapping nfc (observation_to_mapping v) = Inr v"
    using facts by (cases v) (simp add: observation_from_mapping_def observation_to_mapping_def
        observation_projection_def observation_identity_members_def observation_schema_def record_fields_simp
        perception_literals [OF nfc] read_category_simp roundtrip codec_simps del: read_category.simps cong: bindE_weak_cong)
  show "observation_from_mapping nfc (sort_json (observation_to_mapping v)) = Inr v"
    using facts by (cases v) (simp add: observation_from_mapping_def observation_to_mapping_def
        observation_projection_def observation_identity_members_def observation_schema_def record_fields_simp
        perception_literals [OF nfc] read_category_simp roundtrip codec_simps del: read_category.simps cong: bindE_weak_cong)
qed

lemma track_point_roundtrip [roundtrip]:
  assumes post: "track_point_post nfc v = None"
  shows "track_point_from_mapping nfc (track_point_to_mapping v) path = Inr v"
    and "track_point_from_mapping nfc (sort_json (track_point_to_mapping v)) path = Inr v"
proof -
  note facts = post track_point_postD [OF post]
  show "track_point_from_mapping nfc (track_point_to_mapping v) path = Inr v"
    using facts by (cases v) (simp add: track_point_from_mapping_def track_point_to_mapping_def
        read_category_simp roundtrip codec_simps del: read_category.simps cong: bindE_weak_cong)
  show "track_point_from_mapping nfc (sort_json (track_point_to_mapping v)) path = Inr v"
    using facts by (cases v) (simp add: track_point_from_mapping_def track_point_to_mapping_def
        read_category_simp roundtrip codec_simps del: read_category.simps cong: bindE_weak_cong)
qed

lemma run_checks_points:
  "run_checks (concat (map (\<lambda>p. [f p, g p]) ps)) = None \<longleftrightarrow> (\<forall>p \<in> set ps. f p = None \<and> g p = None)"
  by (induction ps) auto

lemma tracklet_postD:
  assumes "tracklet_post nfc v = None"
  shows "general_ok nfc (tk_tracklet_id v)" "general_ok nfc (tk_source_id v)"
    "0 \<le> tk_stream_index v" "tk_stream_index v \<le> MAX_I31" "general_ok nfc (tk_category v)" "is_category (tk_category v)"
    "tk_points v \<noteq> []" "length (tk_points v) \<le> MAX_TRACK_POINTS"
    "\<forall>p \<in> set (tk_points v). track_point_post nfc p = None \<and> point_scope_check v p = None"
    "distinct (map tp_observation_id (tk_points v))" "distinct (map tp_frame_id (tk_points v))"
    "\<not> unordered (tk_points v)" "length (remdups (map point_dimensions (tk_points v))) = 1"
    "token_check nfc (tk_termination_reason v) ''termination.reason'' (Some termination_reasons) = None"
    "producer_post nfc (tk_producer v) = None"
    "token_check nfc (tk_identity_scope v) ''identity_scope'' (Some [''source_clip'']) = None"
    "token_check nfc (tk_continuity v) ''continuity'' (Some [''inferred'']) = None"
    "mk_identifier nfc ''trk'' (JObj (tracklet_projection v)) = Inr (tk_tracklet_id v)"
proof -
  note checks = assms [unfolded tracklet_post_def run_checks_ConsN require_None run_checks_points
      typed_id_check_None bounded_int_check_None category_check_None general_string_check_None
      plain_producer_None identifier_check_None]
  show "general_ok nfc (tk_tracklet_id v)" "general_ok nfc (tk_source_id v)"
    "0 \<le> tk_stream_index v" "tk_stream_index v \<le> MAX_I31" "general_ok nfc (tk_category v)" "is_category (tk_category v)"
    "tk_points v \<noteq> []" "length (tk_points v) \<le> MAX_TRACK_POINTS"
    "\<forall>p \<in> set (tk_points v). track_point_post nfc p = None \<and> point_scope_check v p = None"
    "distinct (map tp_observation_id (tk_points v))" "distinct (map tp_frame_id (tk_points v))"
    "\<not> unordered (tk_points v)" "length (remdups (map point_dimensions (tk_points v))) = 1"
    "token_check nfc (tk_termination_reason v) ''termination.reason'' (Some termination_reasons) = None"
    "producer_post nfc (tk_producer v) = None"
    "token_check nfc (tk_identity_scope v) ''identity_scope'' (Some [''source_clip'']) = None"
    "token_check nfc (tk_continuity v) ''continuity'' (Some [''inferred'']) = None"
    "mk_identifier nfc ''trk'' (JObj (tracklet_projection v)) = Inr (tk_tracklet_id v)"
    using checks by blast+
qed

lemma tracklet_roundtrip:
  assumes nfc: "nfc_ascii nfc" and post: "tracklet_post nfc v = None"
  shows "tracklet_from_mapping nfc (tracklet_to_mapping v) = Inr v"
    and "tracklet_from_mapping nfc (sort_json (tracklet_to_mapping v)) = Inr v"
proof -
  note D = tracklet_postD [OF post]
  have points: "\<And>p. p \<in> set (tk_points v) \<Longrightarrow> track_point_post nfc p = None" using D(9) by blast
  have ends: "media_time_valid nfc (tp_pts (hd (tk_points v)))" "media_time_valid nfc (tp_pts (last (tk_points v)))"
    using points D(7) by (auto intro: track_point_postD(6))
  have tokens: "token_check nfc (tk_termination_reason v) ''termination.reason'' None = None"
      "token_check nfc (tk_identity_scope v) ''identity_scope'' None = None"
      "token_check nfc (tk_continuity v) ''continuity'' None = None"
    using D(14,16,17) by (blast dest: token_check_weaken)+
  have lists: "mapE_from 0 (\<lambda>i j. track_point_from_mapping nfc j (item_path ''points'' i))
        (map track_point_to_mapping (tk_points v)) = Inr (tk_points v)"
      "mapE_from 0 (\<lambda>i j. track_point_from_mapping nfc j (item_path ''points'' i))
        (map (sort_json \<circ> track_point_to_mapping) (tk_points v)) = Inr (tk_points v)"
    using points by (intro mapE_from_roundtrip; simp add: roundtrip)+
  note facts = post D(1-8) D(15) ends tokens lists
  show "tracklet_from_mapping nfc (tracklet_to_mapping v) = Inr v"
    using facts by (cases v) (simp add: tracklet_from_mapping_def tracklet_to_mapping_def start_pts_def end_pts_def
        tracklet_projection_def tracklet_identity_members_def tracklet_schema_def record_fields_simp
        perception_literals [OF nfc] read_category_simp roundtrip codec_simps del: read_category.simps cong: bindE_weak_cong)
  show "tracklet_from_mapping nfc (sort_json (tracklet_to_mapping v)) = Inr v"
    using facts by (cases v) (simp add: tracklet_from_mapping_def tracklet_to_mapping_def start_pts_def end_pts_def
        tracklet_projection_def tracklet_identity_members_def tracklet_schema_def record_fields_simp sort_items_map
        perception_literals [OF nfc] read_category_simp roundtrip codec_simps del: read_category.simps cong: bindE_weak_cong)
qed

lemma perception_dispatch:
  assumes "nfc_ascii nfc" and "j = JObj kvs"
    and "get kvs ''schema'' = JStr schema" and "get kvs ''schema_version'' = JInt 1"
    and "schema \<in> {observation_schema, tracklet_schema}"
  shows "perception_from_mapping nfc j =
     (if schema = observation_schema then bindE (observation_from_mapping nfc j) (\<lambda>v. Inr (PObservation v))
      else bindE (tracklet_from_mapping nfc j) (\<lambda>v. Inr (PTracklet v)))"
proof -
  have "read_token nfc (JStr schema) ''schema'' None = Inr schema"
    using assms(5) perception_literals [OF assms(1)] by (auto simp: observation_schema_def tracklet_schema_def)
  then have "perception_from_mapping nfc j =
     (if schema = observation_schema then bindE (observation_from_mapping nfc j) (\<lambda>v. Inr (PObservation v))
      else if schema = tracklet_schema then bindE (tracklet_from_mapping nfc j) (\<lambda>v. Inr (PTracklet v))
      else Inl (fail ''unknown_schema'' ''schema''))"
    by (simp only: perception_from_mapping_def as_mapping.simps assms(2-4) bindE_simps read_int.simps
        bounded_int_check_def MAX_I31_def) simp
  with assms(5) show ?thesis by auto
qed

fun perception_schema :: "perception_record \<Rightarrow> string" where
  "perception_schema (PObservation v) = observation_schema"
| "perception_schema (PTracklet v) = tracklet_schema"

lemma perception_schema_members:
  "\<exists>kvs. perception_to_mapping r = JObj kvs \<and> get kvs ''schema'' = JStr (perception_schema r) \<and>
     get kvs ''schema_version'' = JInt 1 \<and> distinct (map fst kvs)"
  by (cases r) (simp_all add: observation_to_mapping_def observation_projection_def observation_identity_members_def
      tracklet_to_mapping_def tracklet_projection_def tracklet_identity_members_def)

lemma perception_roundtrip [roundtrip]:
  assumes nfc: "nfc_ascii nfc" and valid: "perception_post nfc r = None"
  shows "perception_from_mapping nfc (perception_to_mapping r) = Inr r"
    and "perception_from_mapping nfc (sort_json (perception_to_mapping r)) = Inr r"
proof -
  obtain kvs where kvs: "perception_to_mapping r = JObj kvs" "get kvs ''schema'' = JStr (perception_schema r)"
      "get kvs ''schema_version'' = JInt 1" "distinct (map fst kvs)"
    using perception_schema_members [of r] by blast
  then have sorted: "sort_json (perception_to_mapping r) = JObj (sort_key fst (sort_members kvs))"
    "get (sort_key fst (sort_members kvs)) ''schema'' = JStr (perception_schema r)"
    "get (sort_key fst (sort_members kvs)) ''schema_version'' = JInt 1"
    by (simp_all add: get_sorted)
  have schema: "perception_schema r \<in> {observation_schema, tracklet_schema}" by (cases r) simp_all
  have distinct_schemas: "tracklet_schema \<noteq> observation_schema"
    by (simp add: tracklet_schema_def observation_schema_def)
  show "perception_from_mapping nfc (perception_to_mapping r) = Inr r"
    using perception_dispatch [OF nfc kvs(1-3) schema] valid nfc distinct_schemas
    by (cases r) (simp_all add: observation_roundtrip tracklet_roundtrip)
  show "perception_from_mapping nfc (sort_json (perception_to_mapping r)) = Inr r"
    using perception_dispatch [OF nfc sorted(1-3) schema] valid nfc distinct_schemas
    by (cases r) (simp_all add: observation_roundtrip tracklet_roundtrip)
qed

section \<open>The order of media times\<close>

lemma media_time_denominator:
  assumes "media_time_valid nfc v"
  shows "0 < int_of_decimal (tb_denominator (mt_time_base v))" "0 < int_of_decimal (tb_numerator (mt_time_base v))"
  using assms unfolding media_time_valid_def time_base_post_def run_checks_ConsN decimal_check_None by linarith+

abbreviation earlier :: "media_time \<Rightarrow> media_time \<Rightarrow> bool" where
  "earlier s t \<equiv> compare_media_time s t = - 1"

lemma earlier_iff: "earlier s t \<longleftrightarrow>
   int_of_decimal (mt_value s) * int_of_decimal (tb_numerator (mt_time_base s)) * int_of_decimal (tb_denominator (mt_time_base t))
   < int_of_decimal (mt_value t) * int_of_decimal (tb_numerator (mt_time_base t)) * int_of_decimal (tb_denominator (mt_time_base s))"
  by (auto simp: compare_media_time_def Let_def)

lemma compare_not_earlier: "0 \<le> compare_media_time s t \<longleftrightarrow> \<not> earlier s t"
  by (auto simp: compare_media_time_def Let_def)

lemma cross_multiply_trans:
  fixes a b c :: int
  assumes "0 < dt" "a * dt < b * ds" "b * du < c * dt" "0 < du" "0 < ds"
  shows "a * du < c * ds"
proof -
  have "a * dt * du < b * ds * du" using assms(2,4) by simp
  moreover have "b * du * ds < c * dt * ds" using assms(3,5) by simp
  ultimately have "(a * du) * dt < (c * ds) * dt" by (simp add: algebra_simps)
  with assms(1) show ?thesis by simp
qed

lemma earlier_trans:
  assumes "media_time_valid nfc s" "media_time_valid nfc t" "media_time_valid nfc u" "earlier s t" "earlier t u"
  shows "earlier s u"
  using assms media_time_denominator(1) [of nfc]
  unfolding earlier_iff by (blast intro: cross_multiply_trans)

lemma ordered_points:
  assumes "\<forall>p \<in> set ps. media_time_valid nfc (tp_pts p)" and "\<not> unordered ps"
  shows "sorted_wrt (\<lambda>p q. earlier (tp_pts p) (tp_pts q)) ps"
  using assms
proof (induction ps rule: unordered.induct)
  case (1 p q ps)
  then have tail: "sorted_wrt (\<lambda>p q. earlier (tp_pts p) (tp_pts q)) (q # ps)" and pq: "earlier (tp_pts p) (tp_pts q)"
    by (auto simp: compare_not_earlier)
  have "earlier (tp_pts p) (tp_pts r)" if "r \<in> set ps" for r
    using tail pq that 1(2) by (auto intro: earlier_trans [of nfc "tp_pts p" "tp_pts q" "tp_pts r"])
  with tail pq show ?case by simp
qed simp_all

end
