(* ===== verification/Loading.thy ===== *)
theory Loading
  imports Json_Canonical Perception
begin

text \<open>
  The record loaders: \<open>loads_record\<close> and \<open>load_record\<close> of \<open>ingestion.py\<close>,
  \<open>loads_perception_record\<close> and \<open>load_perception_record\<close> of \<open>perception.py\<close>, and the round trips
  through the canonical bytes.
\<close>

section \<open>Loading from bytes\<close>

definition loads_record :: "(string \<Rightarrow> string) \<Rightarrow> nat \<Rightarrow> string \<Rightarrow> ingestion_record res" where
  "loads_record nfc limit data =
     bindE (parse_json nfc limit data) (\<lambda>value. record_from_mapping nfc (JObj value))"

definition loads_perception_record :: "(string \<Rightarrow> string) \<Rightarrow> nat \<Rightarrow> string \<Rightarrow> perception_record res" where
  "loads_perception_record nfc limit data =
     bindE (parse_json nfc limit data) (\<lambda>value. perception_from_mapping nfc (JObj value))"

section \<open>Loading from a reader\<close>

text \<open>
  The binary reader the caller passes is the parameter \<open>read\<close>, a step on its own state.  One call
  returns bytes, returns something else, or raises \<open>OSError\<close>.
\<close>

datatype read_result = ReadBytes string | ReadOther | ReadOSError

function read_bounded :: "('s \<Rightarrow> nat \<Rightarrow> read_result \<times> 's) \<Rightarrow> 's \<Rightarrow> nat \<Rightarrow> string res \<times> 's" where
  "read_bounded read s remaining =
     (if remaining = 0 then (Inr [], s)
      else case read s remaining of
        (ReadOSError, s') \<Rightarrow> (Inl (fail ''record_read_failed'' ''$''), s')
      | (ReadOther, s') \<Rightarrow> (Inl (fail ''record_reader_must_be_binary'' ''$''), s')
      | (ReadBytes chunk, s') \<Rightarrow>
          if chunk = [] then (Inr [], s')
          else (case read_bounded read s' (remaining - length chunk) of
                  (Inl e, s'') \<Rightarrow> (Inl e, s'')
                | (Inr rest, s'') \<Rightarrow> (Inr (chunk @ rest), s'')))"
  by pat_completeness auto
termination by (relation "measure (\<lambda>(read, s, remaining). remaining)") auto

declare read_bounded.simps [simp del]

definition load_record ::
  "(string \<Rightarrow> string) \<Rightarrow> nat \<Rightarrow> ('s \<Rightarrow> nat \<Rightarrow> read_result \<times> 's) \<Rightarrow> 's \<Rightarrow> ingestion_record res \<times> 's" where
  "load_record nfc limit read s =
     (case read_bounded read s (MAX_RECORD_BYTES + 1) of (data, s') \<Rightarrow> (bindE data (loads_record nfc limit), s'))"

definition load_perception_record ::
  "(string \<Rightarrow> string) \<Rightarrow> nat \<Rightarrow> ('s \<Rightarrow> nat \<Rightarrow> read_result \<times> 's) \<Rightarrow> 's \<Rightarrow> perception_record res \<times> 's" where
  "load_perception_record nfc limit read s =
     (case read_bounded read s (MAX_RECORD_BYTES + 1) of (data, s') \<Rightarrow> (bindE data (loads_perception_record nfc limit), s'))"

section \<open>Mappings of validated records are plain\<close>

named_theorems plain "mappings with distinct ASCII keys and ASCII strings"

lemma ascii_digits: "list_all is_digit s \<Longrightarrow> list_all is_ascii s"
  by (auto simp: list_all_iff is_ascii_digit)

lemma ascii_unsigned_decimal: "is_unsigned_decimal s \<Longrightarrow> list_all is_ascii s"
  by (cases s) (auto intro: ascii_digits is_ascii_digit, simp add: is_ascii_def code_def)

lemma ascii_signed_decimal: "is_signed_decimal s \<Longrightarrow> list_all is_ascii s"
  using ascii_unsigned_decimal [of s] ascii_unsigned_decimal [of "tl s"]
  by (cases s) (simp_all add: is_ascii_def code_def split: if_splits)

lemma decimal_check_ascii: "decimal_check nfc s is_signed lo hi path = None \<Longrightarrow> list_all is_ascii s"
  by (auto simp: decimal_check_None split: if_splits intro: ascii_unsigned_decimal ascii_signed_decimal)

lemma token_check_ascii: "token_check nfc s path allowed = None \<Longrightarrow> list_all is_ascii s"
  by (simp add: token_check_None)

lemma sha256_check_ascii: "sha256_check nfc s path = None \<Longrightarrow> list_all is_ascii s"
  by (simp add: sha256_check_None is_sha256_ascii)

lemma typed_id_ascii: "list_all is_ascii prefix \<Longrightarrow> is_typed_id prefix s \<Longrightarrow> list_all is_ascii s"
proof -
  assume "list_all is_ascii prefix" "is_typed_id prefix s"
  then have "list_all is_ascii (take (length prefix + 1) s @ drop (length prefix + 1) s)"
    unfolding list_all_append is_typed_id_def by (simp add: is_sha256_ascii) (simp add: is_ascii_def code_def)
  then show ?thesis by simp
qed

lemma typed_id_check_ascii:
  "typed_id_check nfc s prefix path = None \<Longrightarrow> list_all is_ascii prefix \<Longrightarrow> list_all is_ascii s"
  by (auto simp: typed_id_check_None intro: typed_id_ascii)

lemma category_ascii: "is_category s \<Longrightarrow> list_all is_ascii s"
  by (cases s) (auto simp: list_all_iff is_lower_def is_digit_def is_ascii_def code_def)

lemmas check_ascii = decimal_check_ascii token_check_ascii sha256_check_ascii typed_id_check_ascii

lemma literal_ascii: "is_ascii c \<longleftrightarrow> code c < 128"
  by (simp add: is_ascii_def)

lemma plain_fingerprint [plain]: "fingerprint_post nfc v = None \<Longrightarrow> plain_json (fingerprint_to_mapping v)"
  by (auto simp: fingerprint_post_def fingerprint_to_mapping_def dest!: check_ascii) (simp_all add: char_evaluation)

lemma plain_time_base [plain]: "time_base_post nfc v = None \<Longrightarrow> plain_json (time_base_to_mapping v)"
  by (auto simp: time_base_post_def time_base_to_mapping_def dest!: check_ascii) (simp_all add: char_evaluation)

lemma plain_producer_mapping [plain]: "producer_post nfc v = None \<Longrightarrow> plain_json (producer_to_mapping v)"
  by (auto simp: producer_post_def producer_to_mapping_def dest!: check_ascii) (simp_all add: char_evaluation)

lemma plain_media_time_mapping [plain]:
  assumes "media_time_valid nfc v"
  shows "plain_json (media_time_to_mapping v)"
proof -
  have "list_all is_ascii (mt_value v)" "plain_json (time_base_to_mapping (mt_time_base v))"
    using assms by (auto simp: media_time_valid_def media_time_post_def plain dest!: decimal_check_ascii)
  with assms show ?thesis
    by (cases rule: media_time_estimate_cases)
      (simp_all add: media_time_to_mapping_def plain token_check_ascii, simp_all add: char_evaluation)
qed

lemma plain_source_stream [plain]:
  assumes "source_stream_valid nfc v"
  shows "plain_json (source_stream_to_mapping v)"
  using assms
  by (auto simp: source_stream_valid_def source_stream_post_def source_stream_to_mapping_def plain
      dest!: token_check_ascii) (simp_all add: char_evaluation)

lemma plain_rational_mapping [plain]: "rational_post nfc v = None \<Longrightarrow> plain_json (rational_to_mapping v)"
  by (auto simp: rational_post_def rational_to_mapping_def dest!: check_ascii) (simp_all add: char_evaluation)

lemma plain_coefficients_mapping [plain]:
  "affine_coefficients_valid nfc v \<Longrightarrow> plain_json (affine_coefficients_to_mapping v)"
  by (auto simp: affine_coefficients_valid_def affine_coefficients_to_mapping_def plain) (simp_all add: char_evaluation)

lemma plain_box [plain]: "plain_json (box_to_json b)"
  by (cases b) simp

lemma plain_producer_space [plain]: "plain_json (producer_space_to_mapping v)"
  by (simp add: producer_space_to_mapping_def plain) (simp add: char_evaluation)

lemma plain_geometry_mapping [plain]:
  assumes "geometry_valid nfc v"
  shows "plain_json (geometry_to_mapping v)"
proof -
  have "list_all is_ascii (ge_measurement v)" "list_all is_ascii (ge_space v)"
    using assms by (auto simp: geometry_valid_def geometry_post_def dest!: token_check_ascii)
  with assms show ?thesis
    by (cases rule: geometry_transform_cases)
      (simp_all add: geometry_to_mapping_def plain, simp_all add: char_evaluation)
qed

lemma plain_artifact [plain]: "artifact_post nfc v = None \<Longrightarrow> plain_json (artifact_to_mapping v)"
  by (auto simp: artifact_post_def artifact_to_mapping_def dest!: check_ascii) (simp_all add: char_evaluation)

lemma plain_items_map: "plain_items (map f xs) \<longleftrightarrow> (\<forall>x \<in> set xs. plain_json (f x))"
  by (induction xs) auto

lemma plain_source [plain]:
  assumes "source_valid nfc v"
  shows "plain_json (source_to_mapping v)"
proof -
  have "list_all is_ascii (so_source_id v)"
    using assms by (auto simp: source_valid_def source_post_def char_evaluation dest!: typed_id_check_ascii)
  with assms show ?thesis
    by (auto simp: source_to_mapping_def source_valid_def plain_items_map list_all_iff source_schema_def intro: plain)
      (simp_all add: char_evaluation)
qed

lemma plain_frame [plain]:
  assumes "frame_valid nfc v"
  shows "plain_json (frame_to_mapping v)"
proof -
  have "list_all is_ascii (fr_frame_id v)" "list_all is_ascii (fr_source_id v)" "list_all is_ascii (fr_decode_index v)"
    using assms by (auto simp: frame_valid_def frame_post_def char_evaluation dest!: typed_id_check_ascii decimal_check_ascii)
  with assms show ?thesis
    by (cases "fr_duration v"; cases "fr_key_frame v";
        auto simp: frame_to_mapping_def frame_valid_def frame_schema_def intro: plain)
      (simp_all add: char_evaluation)
qed

lemma plain_evidence [plain]:
  assumes "evidence_valid nfc v"
  shows "plain_json (evidence_to_mapping v)"
proof -
  have "list_all is_ascii (ev_evidence_id v)" "list_all is_ascii (ev_frame_id v)" "list_all is_ascii (ev_kind v)"
      "list_all is_ascii (ev_retention v)"
    using assms by (auto simp: evidence_valid_def evidence_post_def char_evaluation dest!: typed_id_check_ascii token_check_ascii)
  moreover have "plain_json (optional_geometry_json (ev_geometry v))"
    using assms by (cases "ev_geometry v") (auto simp: optional_geometry_json_def evidence_valid_def intro: plain)
  ultimately show ?thesis
    using assms by (auto simp: evidence_to_mapping_def evidence_valid_def evidence_schema_def intro: plain)
      (simp_all add: char_evaluation)
qed

lemma plain_run_manifest [plain]:
  assumes "run_manifest_valid nfc v"
  shows "plain_json (run_manifest_to_mapping v)"
proof -
  have ids: "list_all is_ascii (rm_run_id v)" "list_all is_ascii (rm_source_id v)" "list_all is_ascii (rm_state v)"
    using assms by (auto simp: run_manifest_valid_def run_manifest_post_def char_evaluation dest!: typed_id_check_ascii token_check_ascii)
  have "list_all is_ascii (sa_policy (rm_sampling v))" "rational_post nfc (sa_target_fps (rm_sampling v)) = None"
    using assms by (auto simp: run_manifest_valid_def sampling_valid_def sampling_post_def dest!: token_check_ascii)
  then have sampling: "plain_json (sampling_to_mapping (rm_sampling v))"
    by (auto simp: sampling_to_mapping_def intro: plain) (simp_all add: char_evaluation)
  have contracts: "plain_json contracts_json"
    by (simp add: contracts_json_def contract_names_def) (simp add: char_evaluation)
  have outputs: "plain_json (run_outputs_to_mapping r)" if "rm_outputs v = Some r" for r
    using assms that
    by (auto simp: run_manifest_valid_def run_outputs_post_def run_outputs_to_mapping_def dest!: check_ascii)
      (simp_all add: char_evaluation)
  have producers: "plain_items (map producer_to_mapping (rm_producers v))"
    using assms by (auto simp: run_manifest_valid_def plain_items_map list_all_iff intro: plain)
  note parts = ids sampling contracts outputs producers
  show ?thesis
    using parts by (cases "rm_outputs v")
      (simp_all add: run_manifest_to_mapping_def run_manifest_schema_def, simp_all add: char_evaluation)
qed

lemma plain_record: "record_valid nfc r \<Longrightarrow> plain_json (record_to_mapping r)"
  by (cases r) (auto intro: plain)

lemma plain_observation [plain]:
  assumes "observation_post nfc v = None"
  shows "plain_json (observation_to_mapping v)"
proof -
  note D = observation_postD [OF assms]
  have "list_all is_ascii (ob_observation_id v)" "list_all is_ascii (ob_source_id v)" "list_all is_ascii (ob_frame_id v)"
    using D(13-15) by (auto elim!: typed_id_ascii [rotated] simp: char_evaluation)
  with D show ?thesis
    by (auto simp: observation_to_mapping_def observation_projection_def observation_identity_members_def
        observation_schema_def category_ascii intro: plain) (simp_all add: char_evaluation)
qed

lemma plain_track_point [plain]:
  assumes "track_point_post nfc v = None"
  shows "plain_json (track_point_to_mapping v)"
proof -
  note D = track_point_postD [OF assms]
  have "list_all is_ascii (tp_observation_id v)" "list_all is_ascii (tp_source_id v)" "list_all is_ascii (tp_frame_id v)"
    using assms by (auto simp: track_point_post_def char_evaluation dest!: typed_id_check_ascii)
  with D show ?thesis
    by (auto simp: track_point_to_mapping_def category_ascii intro: plain) (simp_all add: char_evaluation)
qed

lemma plain_tracklet [plain]:
  assumes "tracklet_post nfc v = None"
  shows "plain_json (tracklet_to_mapping v)"
proof -
  note D = tracklet_postD [OF assms]
  have ids: "list_all is_ascii (tk_tracklet_id v)" "list_all is_ascii (tk_source_id v)"
    using assms by (auto simp: tracklet_post_def char_evaluation dest!: typed_id_check_ascii)
  have points: "\<And>p. p \<in> set (tk_points v) \<Longrightarrow> track_point_post nfc p = None" using D(9) by blast
  have ends: "plain_json (media_time_to_mapping (start_pts v))" "plain_json (media_time_to_mapping (end_pts v))"
    using points D(7)
    by (simp_all add: start_pts_def end_pts_def plain_media_time_mapping [of nfc] track_point_postD(6) [of nfc])
  have "list_all is_ascii (tk_termination_reason v)" "list_all is_ascii (tk_identity_scope v)"
      "list_all is_ascii (tk_continuity v)"
    using D(14,16,17) by (blast dest: token_check_ascii)+
  moreover have "plain_items (map track_point_to_mapping (tk_points v))"
      "plain_json (producer_to_mapping (tk_producer v))" "list_all is_ascii (tk_category v)"
    using points D(6,15) by (auto simp: plain_items_map category_ascii intro: plain)
  ultimately show ?thesis
    using ids ends
    by (simp add: tracklet_to_mapping_def tracklet_projection_def tracklet_identity_members_def tracklet_schema_def)
      (simp add: char_evaluation)
qed

lemma plain_perception: "perception_post nfc r = None \<Longrightarrow> plain_json (perception_to_mapping r)"
  by (cases r) (auto intro: plain)

section \<open>What is written is read back\<close>

lemma parse_canonical_mapping:
  assumes "canonical_bytes nfc j = Inr b" and "plain_json j" and "j = JObj kvs" and "MAX_DEPTH \<le> limit"
  shows "\<exists>value. parse_json nfc limit b = Inr value \<and> JObj value = sort_json j"
  using canonical_parse [of nfc kvs b limit] assms by simp

lemma loads_dumps_record:
  assumes "nfc_ascii nfc" and "record_valid nfc r" and "dumps_record nfc r = Inr b" and "MAX_DEPTH \<le> limit"
  shows "loads_record nfc limit b = Inr r"
proof -
  obtain kvs where kvs: "record_to_mapping r = JObj kvs" using record_schema_members [of r] by blast
  obtain v where "parse_json nfc limit b = Inr v" "JObj v = sort_json (record_to_mapping r)"
    using parse_canonical_mapping [OF assms(3) [unfolded dumps_record_def] plain_record [OF assms(2)] kvs assms(4)] by blast
  then show ?thesis
    using record_roundtrip(2) [OF assms(1,2)] by (simp add: loads_record_def)
qed

lemma loads_dumps_perception:
  assumes "nfc_ascii nfc" and "dumps_perception_record nfc r = Inr b" and "MAX_DEPTH \<le> limit"
  shows "loads_perception_record nfc limit b = Inr r"
proof -
  have valid: "perception_post nfc r = None" and bytes: "canonical_bytes nfc (perception_to_mapping r) = Inr b"
    using assms(2) by (auto simp: dumps_perception_record_def outcome)
  obtain kvs where kvs: "perception_to_mapping r = JObj kvs" using perception_schema_members [of r] by blast
  obtain v where "parse_json nfc limit b = Inr v" "JObj v = sort_json (perception_to_mapping r)"
    using parse_canonical_mapping [OF bytes plain_perception [OF valid] kvs assms(3)] by blast
  then show ?thesis
    using perception_roundtrip(2) [OF assms(1) valid] by (simp add: loads_perception_record_def)
qed

section \<open>Readers that return less than they are asked for\<close>

text \<open>
  A reader of a file: \<open>content s\<close> is what is left of it; a read returns a non-empty prefix no longer
  than asked for, and the empty bytes only at the end.
\<close>

definition file_reader :: "('s \<Rightarrow> nat \<Rightarrow> read_result \<times> 's) \<Rightarrow> ('s \<Rightarrow> string) \<Rightarrow> bool" where
  "file_reader read content \<longleftrightarrow> (\<forall>s n. 0 < n \<longrightarrow>
     (\<exists>k s'. read s n = (ReadBytes (take k (content s)), s') \<and> content s' = drop k (content s) \<and>
        k \<le> n \<and> (content s = [] \<or> 0 < k)))"

lemma read_bounded_content:
  assumes "file_reader read content"
  shows "\<exists>s'. read_bounded read s n = (Inr (take n (content s)), s') \<and> content s' = drop n (content s)"
  using assms
proof (induction read s n rule: read_bounded.induct)
  case (1 read s n)
  show ?case
  proof (cases "n = 0")
    case False
    then obtain k s' where k: "read s n = (ReadBytes (take k (content s)), s')" "content s' = drop k (content s)"
        "k \<le> n" "content s = [] \<or> 0 < k"
      using 1(2) unfolding file_reader_def by blast
    show ?thesis
    proof (cases "take k (content s) = []")
      case True
      with k False show ?thesis by (subst read_bounded.simps) auto
    next
      case chunk: False
      define m where "m = length (take k (content s))"
      obtain s'' where ih: "read_bounded read s' (n - m) = (Inr (take (n - m) (content s')), s'')"
          "content s'' = drop (n - m) (content s')"
        using 1(1) [OF False k(1) [symmetric] refl chunk] 1(2) by (auto simp: m_def)
      have whole: "take k (content s) @ take (n - m) (drop k (content s)) = take n (content s)"
        "drop (n - m) (drop k (content s)) = drop n (content s)"
        using k(3) by (cases "k \<le> length (content s)"; simp add: m_def take_add [symmetric] min_def)+
      have "read_bounded read s n = (Inr (take n (content s)), s'')"
        using k(1,2) False chunk ih(1) whole(1) by (subst read_bounded.simps) (simp add: m_def)
      with ih(2) k(2) whole(2) show ?thesis by simp
    qed
  qed (simp add: read_bounded.simps)
qed

lemma load_record_reader:
  assumes "file_reader read content"
  shows "\<exists>s'. load_record nfc limit read s = (loads_record nfc limit (take (MAX_RECORD_BYTES + 1) (content s)), s') \<and>
      content s' = drop (MAX_RECORD_BYTES + 1) (content s)"
    and "\<exists>s'. load_perception_record nfc limit read s =
        (loads_perception_record nfc limit (take (MAX_RECORD_BYTES + 1) (content s)), s') \<and>
      content s' = drop (MAX_RECORD_BYTES + 1) (content s)"
  using read_bounded_content [OF assms, of s "MAX_RECORD_BYTES + 1"]
  by (auto simp: load_record_def load_perception_record_def)

end
