(* ===== verification/Perception_Examples.thy ===== *)
theory Perception_Examples
  imports Perception
begin

text \<open>
  Concrete validated perception records on the frames of \<open>Ingestion_Examples\<close>: an observation per
  frame and a tracklet over two of them.
\<close>

definition ex_producer :: producer where
  "ex_producer = \<lparr>pr_name = ''detector'', pr_version = ''1'', pr_configuration_sha256 = sha256_hex []\<rparr>"

definition ex_geometry :: geometry where
  "ex_geometry = \<lparr>ge_source_width = 2, ge_source_height = 1, ge_box_xyxy = (0, 0, 1, 1), ge_measurement = ''measured'',
     ge_transform_kind = ''identity'', ge_producer_space = None, ge_coefficients = None, ge_space = ''source_pixels''\<rparr>"

definition ex_observation_members :: "nat \<Rightarrow> (string \<times> json) list" where
  "ex_observation_members i = observation_identity_members (so_source_id ex_source) (fr_frame_id (ex_frame i i)) 0
     (ex_time i) ex_geometry ''cup'' 1 ex_producer"

definition ex_observation :: "nat \<Rightarrow> observation" where
  "ex_observation i = \<lparr>ob_observation_id = ''obs'' @ ''_'' @ sha256_hex (render (sort_json (JObj (ex_observation_members i)))),
     ob_source_id = so_source_id ex_source, ob_frame_id = fr_frame_id (ex_frame i i), ob_stream_index = 0,
     ob_pts = ex_time i, ob_geometry = ex_geometry, ob_category = ''cup'', ob_confidence_millionths = 1,
     ob_producer = ex_producer\<rparr>"

lemma ex_observation_fields [simp]:
  "ob_source_id (ex_observation i) = so_source_id ex_source" "ob_frame_id (ex_observation i) = fr_frame_id (ex_frame i i)"
  "ob_stream_index (ex_observation i) = 0" "ob_pts (ex_observation i) = ex_time i"
  "ob_geometry (ex_observation i) = ex_geometry" "ob_category (ex_observation i) = ''cup''"
  "ob_confidence_millionths (ex_observation i) = 1" "ob_producer (ex_observation i) = ex_producer"
  by (simp_all add: ex_observation_def)

lemma ex_producer_valid: "producer_post id ex_producer = None"
  by (simp add: producer_post_def ex_producer_def sha256_check_None general_ok_id_hash
      token_check_literal [OF nfc_id] char_evaluation MAX_TOKEN_BYTES_def)

lemma ex_geometry_valid: "geometry_valid id ex_geometry"
  by (simp add: geometry_valid_def geometry_post_def ex_geometry_def measurements_def bounded_int_check_None
      validate_box_None box_ok_def MAX_I31_def token_check_literal [OF nfc_id] char_evaluation MAX_TOKEN_BYTES_def
      del: validate_box.simps)

lemma ex_ids:
  assumes "i < 2 ^ 62"
  shows "general_ok id (so_source_id ex_source)" "is_typed_id ''src'' (so_source_id ex_source)"
    "length (so_source_id ex_source) = 68" "general_ok id (fr_frame_id (ex_frame i i))"
    "is_typed_id ''frm'' (fr_frame_id (ex_frame i i))" "length (fr_frame_id (ex_frame i i)) = 68"
    "general_ok id (show_int (int i))" "length (quote (show_int (int i))) \<le> 248"
    "length (quote (so_source_id ex_source)) \<le> 410" "length (quote (fr_frame_id (ex_frame i i))) \<le> 410"
    "length (quote (sha256_hex [])) \<le> 386"
proof -
  show ids: "general_ok id (so_source_id ex_source)" "is_typed_id ''src'' (so_source_id ex_source)"
    "length (so_source_id ex_source) = 68" "general_ok id (fr_frame_id (ex_frame i i))"
    "is_typed_id ''frm'' (fr_frame_id (ex_frame i i))" "length (fr_frame_id (ex_frame i i)) = 68"
    using ex_frame_valid [OF assms assms] ex_source_valid
    by (simp_all add: frame_valid_def frame_post_def source_valid_def source_post_def typed_id_check_None)
      (simp_all add: ex_frame_def ex_source_def)
  show "general_ok id (show_int (int i))" using assms by (auto intro!: general_ok_show_int [OF nfc_id])
  have "length (show_int (int i)) \<le> 41" using assms by (auto intro!: show_int_length)
  then show "length (quote (show_int (int i))) \<le> 248" using length_quote [of "show_int (int i)"] by simp
  show "length (quote (so_source_id ex_source)) \<le> 410" "length (quote (fr_frame_id (ex_frame i i))) \<le> 410"
    "length (quote (sha256_hex [])) \<le> 386"
    using length_quote [of "so_source_id ex_source"] length_quote [of "fr_frame_id (ex_frame i i)"]
      length_quote [of "sha256_hex []"] ids by simp_all
qed

lemmas ex_json_evaluation = geometry_to_mapping_def ex_geometry_def producer_to_mapping_def ex_producer_def
  media_time_to_mapping_def ex_time_def time_base_to_mapping_def ex_time_base_def

lemma ex_observation_valid:
  assumes i: "i < 2 ^ 62"
  shows "observation_post id (ex_observation i) = None"
proof -
  note ids = ex_ids [OF i]
  have "mk_identifier id ''obs'' (JObj (ex_observation_members i)) = Inr (ob_observation_id (ex_observation i))"
    unfolding ex_observation_def observation.simps using ids
    by (intro mk_identifier_eval) (simp_all add: ex_observation_members_def observation_identity_members_def
        ex_json_evaluation render_evaluation)
  moreover have "observation_projection (ex_observation i) = ex_observation_members i"
    by (simp add: observation_projection_def ex_observation_def ex_observation_members_def)
  moreover have "general_ok id (ob_observation_id (ex_observation i))"
    by (simp only: ex_observation_def observation.simps, rule general_ok_hash_id [OF nfc_id]) (simp_all add: char_evaluation)
  moreover have "is_typed_id ''obs'' (ob_observation_id (ex_observation i))"
    by (simp only: ex_observation_def observation.simps is_typed_id_hash)
  moreover have "general_ok id ''cup''" "is_category ''cup''"
    by (simp_all add: general_ok_id_ascii char_evaluation MAX_GENERAL_STRING_BYTES_def)
  moreover have "media_time_valid id (ex_time i)" using ex_time_valid [OF i] .
  ultimately show ?thesis
    using ids ex_geometry_valid ex_producer_valid
    by (simp add: observation_post_def outcome MAX_I31_def MAX_CONFIDENCE_MILLIONTHS_def)
qed

definition ex_point :: "nat \<Rightarrow> track_point" where
  "ex_point i = \<lparr>tp_observation_id = ob_observation_id (ex_observation i), tp_source_id = so_source_id ex_source,
     tp_frame_id = fr_frame_id (ex_frame i i), tp_stream_index = 0, tp_pts = ex_time i, tp_geometry = ex_geometry,
     tp_category = ''cup''\<rparr>"

lemma ex_point_valid:
  assumes i: "i < 2 ^ 62"
  shows "track_point_post id (ex_point i) = None"
  using observation_postD [OF ex_observation_valid [OF i]]
  by (simp add: track_point_post_def ex_point_def outcome del: is_category.simps)

lemma ex_point_from_observation:
  assumes i: "i < 2 ^ 62"
  shows "track_point_from_observation id (ex_observation i) = Inr (ex_point i)"
  using ex_observation_valid [OF i] ex_point_valid [OF i]
  by (simp add: track_point_from_observation_def ex_point_def)

lemma ex_observation_dumps:
  assumes i: "i < 2 ^ 62"
  shows "\<exists>b. dumps_perception_record id (PObservation (ex_observation i)) = Inr b"
proof -
  note ids = ex_ids [OF i]
  have oid: "general_ok id (ob_observation_id (ex_observation i))"
    by (rule observation_postD(1) [OF ex_observation_valid [OF i]])
  have "length (ob_observation_id (ex_observation i)) = 68"
    by (simp add: ex_observation_def)
  then have quote: "length (quote (ob_observation_id (ex_observation i))) \<le> 410"
    using length_quote [of "ob_observation_id (ex_observation i)"] by simp
  have "canonical_bytes id (observation_to_mapping (ex_observation i)) =
      Inr (render (sort_json (observation_to_mapping (ex_observation i))))"
    using ids oid quote
    by (intro canonical_bytes_eval) (simp_all add: observation_to_mapping_def observation_projection_def
        observation_identity_members_def observation_schema_def ex_json_evaluation render_evaluation)
  then show ?thesis
    using ex_observation_valid [OF i] by (simp add: dumps_perception_record_def)
qed

text \<open>Track points may carry any well-formed identifiers; these repeat one digit.\<close>

definition ex_id :: "string \<Rightarrow> nat \<Rightarrow> string" where
  "ex_id prefix d = prefix @ ''_'' @ replicate 64 (digit_char d)"

lemma ex_id_facts:
  assumes "d < 10" and "list_all is_ascii prefix" and "length prefix = 3"
  shows "is_typed_id prefix (ex_id prefix d)" "general_ok id (ex_id prefix d)" "length (ex_id prefix d) = 68"
    "length (quote (ex_id prefix d)) \<le> 410"
proof -
  have sha: "is_sha256 (replicate 64 (digit_char d))"
    using assms(1) by (simp add: is_sha256_def list_all_iff is_lower_hex_def)
  then show "is_typed_id prefix (ex_id prefix d)"
    by (simp add: is_typed_id_def ex_id_def)
  show len: "length (ex_id prefix d) = 68"
    using assms(3) by (simp add: ex_id_def)
  have "list_all is_ascii (ex_id prefix d)"
    using assms(2) is_sha256_ascii [OF sha] by (simp add: ex_id_def) (simp add: is_ascii_def code_def)
  then show "general_ok id (ex_id prefix d)"
    using len by (intro general_ok_id_ascii) (simp_all add: MAX_GENERAL_STRING_BYTES_def)
  show "length (quote (ex_id prefix d)) \<le> 410"
    using length_quote [of "ex_id prefix d"] len by simp
qed

lemma ex_id_inject: "d < 10 \<Longrightarrow> e < 10 \<Longrightarrow> ex_id prefix d = ex_id prefix e \<longleftrightarrow> d = e"
  by (auto simp: ex_id_def dest: arg_cong [of _ _ digit_val])

definition ex_track_point :: "nat \<Rightarrow> track_point" where
  "ex_track_point d = \<lparr>tp_observation_id = ex_id ''obs'' d, tp_source_id = so_source_id ex_source,
     tp_frame_id = ex_id ''frm'' d, tp_stream_index = 0, tp_pts = ex_time d, tp_geometry = ex_geometry,
     tp_category = ''cup''\<rparr>"

lemma ex_track_point_valid:
  assumes "d < 10"
  shows "track_point_post id (ex_track_point d) = None"
proof -
  have "is_typed_id ''obs'' (ex_id ''obs'' d)" "general_ok id (ex_id ''obs'' d)"
      "is_typed_id ''frm'' (ex_id ''frm'' d)" "general_ok id (ex_id ''frm'' d)"
    using ex_id_facts [OF assms, of "''obs''"] ex_id_facts [OF assms, of "''frm''"] by (simp_all add: char_evaluation)
  moreover have "general_ok id ''cup''" "is_category ''cup''"
    by (simp_all add: general_ok_id_ascii char_evaluation MAX_GENERAL_STRING_BYTES_def)
  moreover have "media_time_valid id (ex_time d)" using assms by (intro ex_time_valid) simp
  ultimately show ?thesis
    using ex_ids [of 0] ex_geometry_valid
    by (simp add: track_point_post_def ex_track_point_def outcome MAX_I31_def del: is_category.simps)
qed

definition ex_tracklet_members :: "(string \<times> json) list" where
  "ex_tracklet_members = tracklet_identity_members (so_source_id ex_source) 0 ''cup''
     [ex_track_point 0, ex_track_point 1] ''source_end'' ex_producer ''source_clip'' ''inferred''"

definition ex_tracklet :: tracklet where
  "ex_tracklet = \<lparr>tk_tracklet_id = ''trk'' @ ''_'' @ sha256_hex (render (sort_json (JObj ex_tracklet_members))),
     tk_source_id = so_source_id ex_source, tk_stream_index = 0, tk_category = ''cup'',
     tk_points = [ex_track_point 0, ex_track_point 1], tk_termination_reason = ''source_end'',
     tk_producer = ex_producer, tk_identity_scope = ''source_clip'', tk_continuity = ''inferred''\<rparr>"

lemma ex_tracklet_fields [simp]:
  "tk_source_id ex_tracklet = so_source_id ex_source" "tk_stream_index ex_tracklet = 0"
  "tk_category ex_tracklet = ''cup''" "tk_points ex_tracklet = [ex_track_point 0, ex_track_point 1]"
  "tk_termination_reason ex_tracklet = ''source_end''" "tk_producer ex_tracklet = ex_producer"
  "tk_identity_scope ex_tracklet = ''source_clip''" "tk_continuity ex_tracklet = ''inferred''"
  by (simp_all add: ex_tracklet_def)

lemma ex_tracklet_identifier:
  "mk_identifier id ''trk'' (JObj ex_tracklet_members) = Inr (tk_tracklet_id ex_tracklet)"
proof -
  have points: "general_ok id (ex_id ''obs'' 0)" "general_ok id (ex_id ''obs'' 1)"
      "general_ok id (ex_id ''frm'' 0)" "general_ok id (ex_id ''frm'' 1)"
      "length (quote (ex_id ''obs'' 0)) \<le> 410" "length (quote (ex_id ''obs'' 1)) \<le> 410"
      "length (quote (ex_id ''frm'' 0)) \<le> 410" "length (quote (ex_id ''frm'' 1)) \<le> 410"
    by (simp_all add: ex_id_facts char_evaluation)
  show ?thesis
    unfolding ex_tracklet_def tracklet.simps using points ex_ids [of 0] ex_ids [of 1]
    by (intro mk_identifier_eval) (simp_all add: ex_tracklet_members_def tracklet_identity_members_def
        track_point_to_mapping_def ex_track_point_def ex_json_evaluation render_evaluation)
qed

lemma ex_tracklet_valid: "tracklet_post id ex_tracklet = None"
proof -
  have tid: "general_ok id (tk_tracklet_id ex_tracklet)" "is_typed_id ''trk'' (tk_tracklet_id ex_tracklet)"
    by (simp only: ex_tracklet_def tracklet.simps, rule general_ok_hash_id [OF nfc_id], simp_all add: char_evaluation)
      (simp only: ex_tracklet_def tracklet.simps is_typed_id_hash)
  have members: "tracklet_projection ex_tracklet = ex_tracklet_members"
    by (simp add: tracklet_projection_def ex_tracklet_members_def)
  have points: "track_point_post id (ex_track_point 0) = None" "track_point_post id (ex_track_point 1) = None"
      "point_scope_check ex_tracklet (ex_track_point 0) = None" "point_scope_check ex_tracklet (ex_track_point 1) = None"
    by (simp_all add: ex_track_point_valid point_scope_check_def) (simp_all add: ex_track_point_def)
  have distinct_ids: "distinct (map tp_observation_id (tk_points ex_tracklet))"
      "distinct (map tp_frame_id (tk_points ex_tracklet))"
    by (simp_all add: ex_track_point_def ex_id_inject)
  have "\<not> unordered (tk_points ex_tracklet)"
    by (simp add: ex_track_point_def compare_media_time_def ex_time_def ex_time_base_def nat_of_digits_def
        digit_val_def code_def)
  moreover have "length (remdups (map point_dimensions (tk_points ex_tracklet))) = 1"
    by (simp add: ex_track_point_def point_dimensions_def)
  moreover have "general_ok id ''cup''" "is_category ''cup''"
    by (simp_all add: general_ok_id_ascii char_evaluation MAX_GENERAL_STRING_BYTES_def)
  moreover have "token_check id ''source_end'' p (Some termination_reasons) = None"
      "token_check id ''source_clip'' p (Some [''source_clip'']) = None"
      "token_check id ''inferred'' p (Some [''inferred'']) = None" for p
    by (simp_all add: token_check_literal [OF nfc_id] char_evaluation MAX_TOKEN_BYTES_def termination_reasons_def)
  ultimately show ?thesis
    using tid points distinct_ids ex_ids [of 0] ex_producer_valid ex_tracklet_identifier
    by (simp add: tracklet_post_def general_string_check_None typed_id_check_None bounded_int_check_None
        category_check_None plain_producer_None identifier_check_None MAX_I31_def MAX_TRACK_POINTS_def members
        general_ok_id_ascii char_evaluation MAX_GENERAL_STRING_BYTES_def del: is_category.simps)
qed

end
