(* ===== verification/Record_Properties.thy ===== *)
theory Record_Properties
  imports Loading Perception_Examples
begin

text \<open>
  What the record codecs promise their callers: bytes written are read back, whatever is accepted is
  valid, readers are bounded, and a tracklet is an ordered walk through one source.
\<close>

section \<open>What a reader accepts is valid\<close>

named_theorems accepted "a value returned by a reader passed its checks"

lemma accepted_leaves [accepted]:
  "fingerprint_from_mapping nfc j path = Inr a \<Longrightarrow> fingerprint_post nfc a = None"
  "time_base_from_mapping nfc j path = Inr b \<Longrightarrow> time_base_post nfc b = None"
  "producer_from_mapping nfc j path = Inr p \<Longrightarrow> producer_post nfc p = None"
  "rational_from_mapping nfc j path = Inr r \<Longrightarrow> rational_post nfc r = None"
  "artifact_from_mapping nfc j path = Inr t \<Longrightarrow> artifact_post nfc t = None"
  "run_outputs_from_mapping nfc j path = Inr u \<Longrightarrow> run_outputs_post nfc u = None"
  "producer_space_from_mapping j path = Inr s \<Longrightarrow> producer_space_post s = None"
  by (auto simp: fingerprint_from_mapping_def time_base_from_mapping_def producer_from_mapping_def
      rational_from_mapping_def artifact_from_mapping_def run_outputs_from_mapping_def producer_space_from_mapping_def
      Let_def bindE_Inr_iff checked_Inr_iff)

lemma accepted_sampling [accepted]: "sampling_from_mapping nfc j path = Inr v \<Longrightarrow> sampling_valid nfc v"
  by (auto simp: sampling_from_mapping_def sampling_valid_def Let_def bindE_Inr_iff checked_Inr_iff dest!: accepted)

lemma accepted_source_stream [accepted]: "source_stream_from_mapping nfc j path = Inr v \<Longrightarrow> source_stream_valid nfc v"
  by (auto simp: source_stream_from_mapping_def source_stream_valid_def Let_def bindE_Inr_iff checked_Inr_iff dest!: accepted)

lemma accepted_coefficients [accepted]:
  "affine_coefficients_from_mapping nfc j path = Inr v \<Longrightarrow> affine_coefficients_valid nfc v"
  by (auto simp: affine_coefficients_from_mapping_def affine_coefficients_valid_def bindE_Inr_iff dest!: accepted)

lemma accepted_media_time [accepted]: "media_time_from_mapping nfc j path = Inr v \<Longrightarrow> media_time_valid nfc v"
  by (auto simp: media_time_from_mapping_def media_time_valid_def Let_def bindE_Inr_iff checked_Inr_iff
      split: if_splits dest!: accepted)

lemma accepted_geometry [accepted]: "geometry_from_mapping nfc j path = Inr v \<Longrightarrow> geometry_valid nfc v"
  by (auto simp: geometry_from_mapping_def geometry_valid_def Let_def bindE_Inr_iff checked_Inr_iff
      split: if_splits dest!: accepted)

lemma mapE_from_all:
  "mapE_from i f xs = Inr ys \<Longrightarrow> (\<And>j x y. f j x = Inr y \<Longrightarrow> P y) \<Longrightarrow> list_all P ys"
  by (induction xs arbitrary: i ys) (auto simp: bindE_Inr_iff)

lemma accepted_lists [accepted]:
  "mapE_from i (\<lambda>i j. source_stream_from_mapping nfc j (item_path path i)) js = Inr streams \<Longrightarrow>
     list_all (source_stream_valid nfc) streams"
  "mapE_from i (\<lambda>i j. producer_from_mapping nfc j (item_path path i)) js = Inr producers \<Longrightarrow>
     list_all (\<lambda>p. producer_post nfc p = None) producers"
  by (auto elim!: mapE_from_all dest!: accepted)

lemma accepted_source [accepted]: "source_from_mapping nfc j = Inr v \<Longrightarrow> source_valid nfc v"
  by (auto simp: source_from_mapping_def source_valid_def Let_def bindE_Inr_iff checked_Inr_iff dest!: accepted)

lemma accepted_frame [accepted]: "frame_from_mapping nfc j = Inr v \<Longrightarrow> frame_valid nfc v"
  by (auto simp: frame_from_mapping_def frame_valid_def Let_def bindE_Inr_iff checked_Inr_iff
      split: option.splits dest!: accepted)

lemma accepted_evidence [accepted]: "evidence_from_mapping nfc j = Inr v \<Longrightarrow> evidence_valid nfc v"
  by (auto simp: evidence_from_mapping_def evidence_valid_def optional_geometry_from_mapping_def Let_def bindE_Inr_iff
      checked_Inr_iff split: if_splits dest!: accepted)

lemma accepted_run_manifest [accepted]: "run_manifest_from_mapping nfc j = Inr v \<Longrightarrow> run_manifest_valid nfc v"
  by (auto simp: run_manifest_from_mapping_def run_manifest_valid_def Let_def bindE_Inr_iff checked_Inr_iff
      split: option.splits dest!: accepted)

lemma accepted_record [accepted]: "record_from_mapping nfc j = Inr r \<Longrightarrow> record_valid nfc r"
  by (auto simp: record_from_mapping_def bindE_Inr_iff checked_Inr_iff split: if_splits dest!: accepted)

lemma accepted_perception [accepted]: "perception_from_mapping nfc j = Inr r \<Longrightarrow> perception_post nfc r = None"
  by (auto simp: perception_from_mapping_def observation_from_mapping_def tracklet_from_mapping_def Let_def
      bindE_Inr_iff checked_Inr_iff split: if_splits)

section \<open>What an accepted record says\<close>

text \<open>
  The documented content of the records, stated on their fields with no check of the code: identifiers
  are hashes, numbers are in range, boxes lie inside their images.
\<close>

definition hash_of :: "string \<Rightarrow> json \<Rightarrow> string" where
  "hash_of prefix content = prefix @ ''_'' @ sha256_hex (render (sort_json content))"

definition inside :: "box \<Rightarrow> int \<Rightarrow> int \<Rightarrow> bool" where
  "inside b width height \<longleftrightarrow> (case b of (x0, y0, x1, y1) \<Rightarrow>
     0 \<le> x0 \<and> x0 < x1 \<and> x1 \<le> width \<and> 0 \<le> y0 \<and> y0 < y1 \<and> y1 \<le> height)"

definition sound_time :: "media_time \<Rightarrow> bool" where
  "sound_time t \<longleftrightarrow>
     - (2 ^ 63) \<le> int_of_decimal (mt_value t) \<and> int_of_decimal (mt_value t) \<le> 2 ^ 63 - 1 \<and>
     0 < int_of_decimal (tb_numerator (mt_time_base t)) \<and> 0 < int_of_decimal (tb_denominator (mt_time_base t)) \<and>
     mt_basis t \<in> {''measured'', ''estimated''} \<and> (mt_basis t = ''estimated'' \<longleftrightarrow> mt_estimate_producer t \<noteq> None)"

definition sound_geometry :: "geometry \<Rightarrow> bool" where
  "sound_geometry g \<longleftrightarrow>
     inside (ge_box_xyxy g) (ge_source_width g) (ge_source_height g) \<and>
     ge_source_width g \<le> 2 ^ 31 - 1 \<and> ge_source_height g \<le> 2 ^ 31 - 1 \<and>
     (case ge_producer_space g of
        None \<Rightarrow> ge_transform_kind g = ''identity'' \<and> ge_coefficients g = None
      | Some space \<Rightarrow> ge_transform_kind g = ''affine_rational'' \<and>
          inside (ps_box_xyxy space) (ps_width space) (ps_height space) \<and>
          (\<exists>k. ge_coefficients g = Some k \<and>
             ge_box_xyxy g = transformed_box (ps_box_xyxy space) k (ge_source_width g) (ge_source_height g)))"

fun sound_record :: "ingestion_record \<Rightarrow> bool" where
  "sound_record (RSource v) \<longleftrightarrow>
     so_source_id v = hash_of ''src'' (source_identity (so_fingerprint v)) \<and> is_sha256 (fp_digest (so_fingerprint v)) \<and>
     distinct (map ss_stream_index (so_streams v)) \<and> length (so_streams v) \<le> 32 \<and>
     (\<forall>m \<in> set (so_streams v). 0 \<le> ss_stream_index m \<and> 0 < ss_width m \<and> 0 < ss_height m)"
| "sound_record (RFrame v) \<longleftrightarrow>
     fr_frame_id v = hash_of ''frm'' (frame_identity (fr_source_id v) (fr_stream_index v) (fr_decode_index v) (fr_pts v)) \<and>
     is_typed_id ''src'' (fr_source_id v) \<and> 0 \<le> fr_stream_index v \<and> fr_stream_index v \<le> 2 ^ 31 - 1 \<and>
     0 \<le> int_of_decimal (fr_decode_index v) \<and> int_of_decimal (fr_decode_index v) \<le> 2 ^ 64 - 1 \<and>
     sound_time (fr_pts v) \<and> pred_option sound_time (fr_duration v)"
| "sound_record (REvidence v) \<longleftrightarrow>
     ev_evidence_id v =
       hash_of ''evi'' (evidence_identity (ar_sha256 (ev_artifact v)) (ev_frame_id v) (ev_geometry v) (ev_kind v)) \<and>
     is_typed_id ''frm'' (ev_frame_id v) \<and> is_sha256 (ar_sha256 (ev_artifact v)) \<and> pred_option sound_geometry (ev_geometry v)"
| "sound_record (RRun v) \<longleftrightarrow>
     rm_run_id v = hash_of ''run'' (run_identity (rm_source_id v) (rm_producers v) (rm_sampling v)) \<and>
     is_typed_id ''src'' (rm_source_id v) \<and> length (rm_producers v) \<le> 64 \<and> 0 < fraction (sa_target_fps (rm_sampling v)) \<and>
     rm_state v \<in> {''preparing'', ''committed'', ''failed'', ''cancelled''} \<and>
     (rm_state v = ''committed'' \<longleftrightarrow> rm_outputs v \<noteq> None)"

fun sound_perception :: "perception_record \<Rightarrow> bool" where
  "sound_perception (PObservation v) \<longleftrightarrow>
     ob_observation_id v = hash_of ''obs'' (JObj (observation_projection v)) \<and>
     is_typed_id ''src'' (ob_source_id v) \<and> is_typed_id ''frm'' (ob_frame_id v) \<and>
     0 \<le> ob_confidence_millionths v \<and> ob_confidence_millionths v \<le> 1000000 \<and>
     is_category (ob_category v) \<and> sound_time (ob_pts v) \<and> sound_geometry (ob_geometry v)"
| "sound_perception (PTracklet v) \<longleftrightarrow>
     tk_tracklet_id v = hash_of ''trk'' (JObj (tracklet_projection v)) \<and>
     1 \<le> length (tk_points v) \<and> length (tk_points v) \<le> 64 \<and>
     sorted_wrt (\<lambda>p q. compare_media_time (tp_pts p) (tp_pts q) = - 1) (tk_points v) \<and>
     distinct (map tp_observation_id (tk_points v)) \<and> distinct (map tp_frame_id (tk_points v)) \<and>
     (\<forall>p \<in> set (tk_points v). tp_source_id p = tk_source_id v \<and> tp_category p = tk_category v \<and>
        sound_time (tp_pts p) \<and> sound_geometry (tp_geometry p))"

lemma mk_identifier_hash: "mk_identifier nfc prefix content = Inr i \<Longrightarrow> i = hash_of prefix content"
  by (auto simp: mk_identifier_def canonical_bytes_def hash_of_def Let_def outcome)

lemma inside_box_ok: "box_ok b width height \<Longrightarrow> inside b width height"
  by (auto simp: box_ok_def inside_def)

lemma sound_time_valid: "media_time_valid nfc t \<Longrightarrow> sound_time t"
  by (auto simp: media_time_valid_def media_time_post_def time_base_post_def sound_time_def run_checks_ConsN outcome
      MIN_I64_def MAX_I64_def split: if_splits option.splits)

lemma sound_geometry_valid:
  assumes "geometry_valid nfc g"
  shows "sound_geometry g"
proof -
  have "inside (ge_box_xyxy g) (ge_source_width g) (ge_source_height g)" "ge_source_width g \<le> 2 ^ 31 - 1"
    "ge_source_height g \<le> 2 ^ 31 - 1"
    using assms by (simp_all add: geometry_valid_def geometry_post_def run_checks_ConsN outcome inside_box_ok MAX_I31_def)
  moreover have "case ge_producer_space g of
        None \<Rightarrow> ge_transform_kind g = ''identity'' \<and> ge_coefficients g = None
      | Some space \<Rightarrow> ge_transform_kind g = ''affine_rational'' \<and>
          inside (ps_box_xyxy space) (ps_width space) (ps_height space) \<and>
          (\<exists>k. ge_coefficients g = Some k \<and>
             ge_box_xyxy g = transformed_box (ps_box_xyxy space) k (ge_source_width g) (ge_source_height g))"
    using assms
    by (auto simp: geometry_valid_def geometry_post_def producer_space_post_def run_checks_ConsN outcome inside_box_ok
        split: option.splits if_splits)
  ultimately show ?thesis unfolding sound_geometry_def by blast
qed

lemma sound_record_valid:
  assumes "record_valid nfc r"
  shows "sound_record r"
proof (cases r)
  case (RSource v)
  with assms have v: "fingerprint_post nfc (so_fingerprint v) = None" "list_all (source_stream_valid nfc) (so_streams v)"
    "source_post nfc v = None" by (simp_all add: source_valid_def)
  have "so_source_id v = hash_of ''src'' (source_identity (so_fingerprint v))" "distinct (map ss_stream_index (so_streams v))"
    "length (so_streams v) \<le> 32"
    using v(3) by (auto simp: source_post_def run_checks_ConsN outcome MAX_STREAMS_def dest: mk_identifier_hash)
  moreover have "is_sha256 (fp_digest (so_fingerprint v))"
    using v(1) by (simp add: fingerprint_post_def run_checks_ConsN outcome)
  moreover have "\<forall>m \<in> set (so_streams v). 0 \<le> ss_stream_index m \<and> 0 < ss_width m \<and> 0 < ss_height m"
    using v(2) by (auto simp: list_all_iff source_stream_valid_def source_stream_post_def run_checks_ConsN outcome dest!: bspec)
  ultimately show ?thesis by (simp add: RSource)
next
  case (RFrame v)
  with assms have v: "media_time_valid nfc (fr_pts v)" "pred_option (media_time_valid nfc) (fr_duration v)" "frame_post nfc v = None"
    by (simp_all add: frame_valid_def)
  have "pred_option sound_time (fr_duration v)"
    using v(2) by (cases "fr_duration v") (simp_all add: sound_time_valid)
  with v(1,3) show ?thesis
    by (auto simp: RFrame frame_post_def run_checks_ConsN outcome sound_time_valid MAX_I31_def MAX_U64_def
        frame_identity_projection_def dest: mk_identifier_hash)
next
  case (REvidence v)
  with assms have v: "artifact_post nfc (ev_artifact v) = None" "pred_option (geometry_valid nfc) (ev_geometry v)"
    "evidence_post nfc v = None" by (simp_all add: evidence_valid_def)
  have "pred_option sound_geometry (ev_geometry v)"
    using v(2) by (cases "ev_geometry v") (simp_all add: sound_geometry_valid)
  with v(1,3) show ?thesis
    by (auto simp: REvidence artifact_post_def evidence_post_def run_checks_ConsN outcome
        evidence_identity_projection_def dest: mk_identifier_hash)
next
  case (RRun v)
  with assms have v: "rational_post nfc (sa_target_fps (rm_sampling v)) = None" "sampling_post nfc (rm_sampling v) = None"
    "run_manifest_post nfc v = None" by (simp_all add: run_manifest_valid_def sampling_valid_def)
  have "0 < fraction (sa_target_fps (rm_sampling v))"
    using v(1,2) by (simp add: rational_post_def sampling_post_def run_checks_ConsN outcome fraction_def)
  with v(3) show ?thesis
    by (auto simp: RRun run_manifest_post_def run_checks_ConsN outcome run_identity_projection_def
        MAX_PRODUCERS_def dest: mk_identifier_hash)
qed

lemma sound_perception_valid:
  assumes "perception_post nfc q = None"
  shows "sound_perception q"
proof (cases q)
  case (PObservation v)
  with assms have "observation_post nfc v = None" by simp
  note D = observation_postD [OF this]
  show ?thesis
    using D(9-11,13,14) D(6,7) mk_identifier_hash [OF D(16)]
    by (simp add: PObservation sound_time_valid sound_geometry_valid MAX_CONFIDENCE_MILLIONTHS_def)
next
  case (PTracklet v)
  with assms have "tracklet_post nfc v = None" by simp
  note D = tracklet_postD [OF this]
  have points: "\<forall>p \<in> set (tk_points v). tp_source_id p = tk_source_id v \<and> tp_category p = tk_category v \<and>
      media_time_valid nfc (tp_pts p) \<and> geometry_valid nfc (tp_geometry p)"
    using D(9) by (auto simp: point_scope_check_def dest: track_point_postD(6,7))
  then have "sorted_wrt (\<lambda>p q. compare_media_time (tp_pts p) (tp_pts q) = - 1) (tk_points v)"
    using ordered_points [OF _ D(12)] by blast
  moreover have "1 \<le> length (tk_points v)" "length (tk_points v) \<le> 64"
    using D(7,8) by (simp_all add: MAX_TRACK_POINTS_def Suc_le_eq)
  ultimately show ?thesis
    using points D(10,11) mk_identifier_hash [OF D(18)]
    by (auto simp: PTracklet intro: sound_time_valid sound_geometry_valid)
qed

section \<open>Properties\<close>

text \<open>
  C20: Bytes that \<open>dumps_record\<close> wrote for a valid ingestion record are read back as that very record
  by \<open>load_record\<close>, from any file reader (however it splits the content into reads), for every
  recursion limit that admits the depth bound.
\<close>

theorem record_bytes_roundtrip:
  assumes "nfc_ascii nfc" and "record_valid nfc r" and "dumps_record nfc r = Inr b"
    and "MAX_DEPTH \<le> limit" and "file_reader read content" and "content s = b"
  shows "fst (load_record nfc limit read s) = Inr r"
proof -
  have "length b \<le> MAX_RECORD_BYTES"
    using assms(3) by (auto simp: dumps_record_def canonical_bytes_def Let_def outcome)
  then show ?thesis
    using loads_dumps_record [OF assms(1-4)] assms(6) load_record_reader(1) [OF assms(5), of nfc limit s] by auto
qed

definition chunked_read :: "string \<Rightarrow> nat \<Rightarrow> read_result \<times> string" where
  "chunked_read s n = (ReadBytes (take (min n 7) s), drop (min n 7) s)"

lemma chunked_reader: "file_reader chunked_read id"
  unfolding file_reader_def chunked_read_def
  by (intro allI impI exI [of _ "min _ 7"] exI [of _ "drop (min _ 7) _"]) auto

lemma record_bytes_roundtrip_witness:
  "\<exists>b. fst (load_record id 1000 chunked_read b) = Inr (RFrame (ex_frame 3 7)) \<and>
     dumps_record id (RFrame (ex_frame 3 7)) = Inr b"
proof -
  obtain b where b: "dumps_record id (RFrame (ex_frame 3 7)) = Inr b"
    using ex_frame_dumps [of 3 7] by auto
  have "record_valid id (RFrame (ex_frame 3 7))" using ex_frame_valid [of 3 7] by simp
  then have "fst (load_record id 1000 chunked_read b) = Inr (RFrame (ex_frame 3 7))"
    by (rule record_bytes_roundtrip [OF nfc_id _ b _ chunked_reader]) (simp_all add: MAX_DEPTH_def)
  with b show ?thesis by blast
qed

text \<open>
  C23: The same for the perception records: what \<open>dumps_perception_record\<close> wrote is read back by
  \<open>load_perception_record\<close>; its own validation makes a separate validity assumption unnecessary.
\<close>

theorem perception_bytes_roundtrip:
  assumes "nfc_ascii nfc" and "dumps_perception_record nfc r = Inr b"
    and "MAX_DEPTH \<le> limit" and "file_reader read content" and "content s = b"
  shows "fst (load_perception_record nfc limit read s) = Inr r"
proof -
  have "length b \<le> MAX_RECORD_BYTES"
    using assms(2) by (auto simp: dumps_perception_record_def canonical_bytes_def Let_def outcome)
  then show ?thesis
    using loads_dumps_perception [OF assms(1-3)] assms(5) load_record_reader(2) [OF assms(4), of nfc limit s] by auto
qed

lemma perception_bytes_roundtrip_witness:
  "\<exists>b. fst (load_perception_record id 1000 chunked_read b) = Inr (PObservation (ex_observation 7))"
proof -
  obtain b where b: "dumps_perception_record id (PObservation (ex_observation 7)) = Inr b"
    using ex_observation_dumps [of 7] by auto
  have "fst (load_perception_record id 1000 chunked_read b) = Inr (PObservation (ex_observation 7))"
    by (rule perception_bytes_roundtrip [OF nfc_id b _ chunked_reader]) (simp_all add: MAX_DEPTH_def)
  then show ?thesis ..
qed

text \<open>
  C37: Whatever bytes arrive, a record either loader accepts says what the documents promise: its
  identifier is the SHA-256 of the canonical form of its content, numbers and times are in range, a box
  lies inside its image and is the image of the producer's box, the streams of a source are distinct, a
  run has outputs exactly when it is committed, and the points of a tracklet are 1 to 64 observations of
  its source and category in strict order of time.
\<close>

theorem loaded_records_content:
  assumes "loads_record nfc limit data = Inr r" and "loads_perception_record nfc limit' data' = Inr q"
  shows "sound_record r \<and> sound_perception q"
proof
  show "sound_record r"
    using assms(1) by (intro sound_record_valid [of nfc]) (auto simp: loads_record_def bindE_Inr_iff dest!: accepted)
  show "sound_perception q"
    using assms(2)
    by (intro sound_perception_valid [of nfc]) (auto simp: loads_perception_record_def bindE_Inr_iff dest!: accepted)
qed

lemma loaded_records_content_witness:
  "\<exists>b c. loads_record id 1000 b = Inr (RFrame (ex_frame 3 7)) \<and>
     loads_perception_record id 1000 c = Inr (PObservation (ex_observation 7)) \<and>
     sound_record (RFrame (ex_frame 3 7)) \<and> sound_perception (PObservation (ex_observation 7))"
proof -
  obtain b where b: "dumps_record id (RFrame (ex_frame 3 7)) = Inr b"
    using ex_frame_dumps [of 3 7] by auto
  obtain c where c: "dumps_perception_record id (PObservation (ex_observation 7)) = Inr c"
    using ex_observation_dumps [of 7] by auto
  have "loads_record id 1000 b = Inr (RFrame (ex_frame 3 7))"
    using ex_frame_valid [of 3 7] b by (intro loads_dumps_record [OF nfc_id]) (simp_all add: MAX_DEPTH_def)
  moreover have "loads_perception_record id 1000 c = Inr (PObservation (ex_observation 7))"
    using c by (intro loads_dumps_perception [OF nfc_id]) (simp_all add: MAX_DEPTH_def)
  ultimately show ?thesis using loaded_records_content by blast
qed

text \<open>
  C38: \<open>load_record\<close> takes exactly the first 256 KiB and one byte from its reader, however these are split
  into reads, and leaves the rest; it behaves as \<open>loads_record\<close> on the whole content when that fits, and
  otherwise reports an oversized record.
\<close>

theorem load_record_bounded:
  assumes "file_reader read content" and "load_record nfc limit read s = (result, s')"
  shows "content s' = drop (256 * 1024 + 1) (content s) \<and>
     result = (if length (content s) \<le> 256 * 1024 then loads_record nfc limit (content s)
                else Inl (RecordValidationError ''encoded_record_too_large'' ''$''))"
  using load_record_reader(1) [OF assms(1), of nfc limit s] assms(2)
  by (auto simp: loads_record_def parse_json_def fail_def run_checks.simps(2) MAX_RECORD_BYTES_def)

lemma load_record_bounded_witness:
  "\<exists>s'. load_record id 9 chunked_read (replicate (256 * 1024 + 5) CHR ''x'') =
     (Inl (RecordValidationError ''encoded_record_too_large'' ''$''), s') \<and> s' = replicate 4 CHR ''x''"
proof -
  obtain R s' where run: "load_record id 9 chunked_read (replicate (256 * 1024 + 5) CHR ''x'') = (R, s')" by fastforce
  from load_record_bounded [OF chunked_reader run] run show ?thesis by simp
qed

text \<open>
  C22: A tracklet \<open>create\<close> returns holds 1 to 64 points, strictly ordered in time (every earlier point
  before every later one, whatever their time bases), with pairwise distinct observations and frames,
  all of the tracklet's source, stream and category and of one image size; its identifier is the hash
  of its content.
\<close>

theorem tracklet_create_ordered:
  assumes "tracklet_create nfc source_id stream_index category points reason p = Inr v"
  shows "tk_points v = points \<and> 1 \<le> length points \<and> length points \<le> 64 \<and>
     sorted_wrt (\<lambda>p q. compare_media_time (tp_pts p) (tp_pts q) = - 1) points \<and>
     distinct (map tp_observation_id points) \<and> distinct (map tp_frame_id points) \<and>
     (\<forall>q \<in> set points. tp_source_id q = source_id \<and> tp_stream_index q = stream_index \<and> tp_category q = category \<and>
        point_dimensions q = point_dimensions (hd points)) \<and>
     tk_tracklet_id v = ''trk_'' @ sha256_hex (render (sort_json (JObj (tracklet_projection v))))"
proof -
  have post: "tracklet_post nfc v = None" and v: "tk_points v = points" "tk_source_id v = source_id"
      "tk_stream_index v = stream_index" "tk_category v = category"
    using assms by (auto simp: tracklet_create_def Let_def bindE_Inr_iff checked_Inr_iff)
  note D = tracklet_postD [OF post, unfolded v]
  have "\<forall>q \<in> set points. media_time_valid nfc (tp_pts q)"
    using D(9) by (auto dest: track_point_postD(6))
  from ordered_points [OF this D(12)] have order: "sorted_wrt (\<lambda>p q. compare_media_time (tp_pts p) (tp_pts q) = - 1) points" .
  have "card (point_dimensions ` set points) = 1"
    using D(13) by (simp add: card_set flip: image_set) (metis card_set image_set length_remdups_card_conv)
  then obtain d where d: "point_dimensions ` set points = {d}" by (auto simp: card_1_singleton_iff)
  have same: "point_dimensions q = point_dimensions (hd points)" if "q \<in> set points" for q
    using d that D(7) by (metis hd_in_set imageI singletonD)
  have "\<forall>q \<in> set points. tp_source_id q = source_id \<and> tp_stream_index q = stream_index \<and> tp_category q = category"
    using D(9) by (simp add: point_scope_check_def v)
  with same have scope: "\<forall>q \<in> set points. tp_source_id q = source_id \<and> tp_stream_index q = stream_index \<and>
      tp_category q = category \<and> point_dimensions q = point_dimensions (hd points)" by blast
  have "tk_tracklet_id v = ''trk'' @ ''_'' @ sha256_hex (render (sort_json (JObj (tracklet_projection v))))"
    using D(18) by (auto simp: mk_identifier_def canonical_bytes_def Let_def bindE_Inr_iff checked_Inr_iff)
  moreover have "1 \<le> length points" "length points \<le> 64"
    using D(7,8) by (simp_all add: MAX_TRACK_POINTS_def Suc_le_eq)
  ultimately show ?thesis
    using v(1) D(10,11) order scope by simp
qed

lemma tracklet_create_ordered_witness:
  "tracklet_create id (so_source_id ex_source) 0 ''cup'' [ex_track_point 0, ex_track_point 1] ''source_end'' ex_producer
     = Inr ex_tracklet \<and> compare_media_time (tp_pts (ex_track_point 0)) (tp_pts (ex_track_point 1)) = - 1"
proof -
  have "general_string_check id ''source_end'' ''termination.reason'' = None"
    by (simp add: general_string_check_None general_ok_id_ascii char_evaluation MAX_GENERAL_STRING_BYTES_def)
  moreover have built: "\<lparr>tk_tracklet_id = tk_tracklet_id ex_tracklet, tk_source_id = so_source_id ex_source,
      tk_stream_index = 0, tk_category = ''cup'', tk_points = [ex_track_point 0, ex_track_point 1],
      tk_termination_reason = ''source_end'', tk_producer = ex_producer, tk_identity_scope = ''source_clip'',
      tk_continuity = ''inferred''\<rparr> = ex_tracklet"
    by (simp add: ex_tracklet_def)
  moreover have "general_ok id ''cup''" "general_ok id (so_source_id ex_source)"
    using ex_ids [of 0] by (simp_all add: general_ok_id_ascii char_evaluation MAX_GENERAL_STRING_BYTES_def)
  moreover have "is_category ''cup''" by (simp add: char_evaluation)
  ultimately have create: "tracklet_create id (so_source_id ex_source) 0 ''cup'' [ex_track_point 0, ex_track_point 1]
      ''source_end'' ex_producer = Inr ex_tracklet"
    using ex_tracklet_identifier ex_tracklet_valid ex_producer_valid
    by (simp add: tracklet_create_def built check_accepts category_check_None [THEN iffD2] plain_producer_None [THEN iffD2]
        ex_track_point_valid MAX_TRACK_POINTS_def Let_def flip: ex_tracklet_members_def One_nat_def
        del: is_category.simps)
  then show ?thesis using tracklet_create_ordered [OF create] by simp
qed

end
