(* ===== verification/Record_Errors.thy ===== *)
theory Record_Errors
  imports Loading
begin

text \<open>
  Every error of the record layer is a \<open>RecordValidationError\<close>: no other exception of the model leaves
  a loader or a serialiser, whatever bytes or records they are given.
\<close>

fun is_record_error :: "exn \<Rightarrow> bool" where
  "is_record_error (RecordValidationError _ _) = True"
| "is_record_error _ = False"

definition record_check :: "check \<Rightarrow> bool" where
  "record_check c \<longleftrightarrow> pred_option is_record_error c"

definition record_result :: "'a res \<Rightarrow> bool" where
  "record_result m \<longleftrightarrow> (\<forall>e. m = Inl e \<longrightarrow> is_record_error e)"

lemma record_check_simps [simp]:
  "record_check None" "record_check (Some e) \<longleftrightarrow> is_record_error e"
  "record_check (require b e) \<longleftrightarrow> b \<or> is_record_error e" "is_record_error (fail c path)"
  by (simp_all add: record_check_def require_def fail_def)

lemma record_result_simps [simp]: "record_result (Inr x)" "record_result (Inl e) \<longleftrightarrow> is_record_error e"
  "record_result (checked c x) \<longleftrightarrow> record_check c"
  by (simp_all add: record_result_def checked_def record_check_def split: option.splits)

lemma record_run_checks: "list_all record_check cs \<Longrightarrow> record_check (run_checks cs)"
  by (induction cs) (auto simp: run_checks.simps(2) split: option.splits)

lemma record_run_checks_Nil [simp]: "record_check (run_checks [])"
  by simp

lemma record_run_checks_Cons: "record_check c \<Longrightarrow> record_check (run_checks cs) \<Longrightarrow> record_check (run_checks (c # cs))"
  by (cases c) (simp_all add: run_checks.simps(2))

lemma record_bindE: "record_result m \<Longrightarrow> (\<And>x. record_result (f x)) \<Longrightarrow> record_result (bindE m f)"
  by (cases m) (simp_all add: record_result_def)

lemma record_mapE_from: "(\<And>i x. record_result (f i x)) \<Longrightarrow> record_result (mapE_from i f xs)"
  by (induction xs arbitrary: i) (simp_all add: record_bindE)

lemma record_checks [simp]:
  "record_check (general_string_check nfc s path)" "record_check (token_check nfc s path allowed)"
  "record_check (bounded_int_check i lo hi path)" "record_check (decimal_check nfc s is_signed lo hi path)"
  "record_check (sha256_check nfc s path)" "record_check (typed_id_check nfc s prefix path)"
  by (simp_all add: general_string_check_def token_check_def bounded_int_check_def decimal_check_def
      sha256_check_def typed_id_check_def record_run_checks split: option.splits)

lemma record_readers [simp]:
  "record_result (as_mapping j path)" "record_result (as_array j path)" "record_result (exact_fields j required path optional)"
  "record_result (read_string nfc j path)" "record_result (read_token nfc j path allowed)"
  "record_result (read_int j lo hi path)" "record_result (read_bool j path)"
  by (cases j; simp add: exact_fields_def record_bindE record_run_checks Let_def)+

lemma record_validate_box [simp]: "record_check (validate_box b w h path)"
  by (cases b) (simp add: record_run_checks)

lemma record_parse_box [simp]: "record_result (parse_box j w h path)"
  by (auto simp: parse_box_def intro!: record_bindE simp del: validate_box.simps split: list.splits)

lemma record_leaves [simp]:
  "record_result (fingerprint_from_mapping nfc j path)" "record_result (time_base_from_mapping nfc j path)"
  "record_result (producer_from_mapping nfc j path)" "record_result (rational_from_mapping nfc j path)"
  "record_result (artifact_from_mapping nfc j path)" "record_result (run_outputs_from_mapping nfc j path)"
  "record_result (producer_space_from_mapping j path)"
  by (simp_all add: fingerprint_from_mapping_def time_base_from_mapping_def producer_from_mapping_def
      rational_from_mapping_def artifact_from_mapping_def run_outputs_from_mapping_def producer_space_from_mapping_def
      fingerprint_post_def time_base_post_def producer_post_def rational_post_def artifact_post_def run_outputs_post_def
      producer_space_post_def Let_def record_bindE record_run_checks)

lemma record_sampling [simp]: "record_result (sampling_from_mapping nfc j path)"
  by (simp add: sampling_from_mapping_def sampling_post_def Let_def record_bindE record_run_checks)

lemma record_source_stream [simp]: "record_result (source_stream_from_mapping nfc j path)"
  by (simp add: source_stream_from_mapping_def source_stream_post_def Let_def record_bindE record_run_checks)

lemma record_coefficients [simp]: "record_result (affine_coefficients_from_mapping nfc j path)"
  by (simp add: affine_coefficients_from_mapping_def record_bindE)

lemma record_media_time_post [simp]: "record_check (media_time_post nfc v)"
  by (simp add: media_time_post_def record_run_checks split: option.splits)

lemma record_media_time [simp]: "record_result (media_time_from_mapping nfc j path)"
  by (auto simp: media_time_from_mapping_def Let_def intro!: record_bindE)

lemma record_geometry_post [simp]: "record_check (geometry_post nfc v)"
  by (simp add: geometry_post_def record_run_checks split: option.splits)

lemma record_geometry [simp]: "record_result (geometry_from_mapping nfc j path)"
  by (auto simp: geometry_from_mapping_def Let_def intro!: record_bindE)

lemma record_validate_shape:
  "record_check (validate_shape nfc v depth path)" "record_check (validate_members nfc kvs depth path)"
  "record_check (validate_items nfc js i depth path)"
  by (induction nfc v depth path and nfc kvs depth path and nfc js i depth path
      rule: validate_shape_validate_members_validate_items.induct)
    (auto intro!: record_run_checks split: json.splits)

lemma record_canonical_bytes [simp]: "record_result (canonical_bytes nfc j)"
  by (simp add: canonical_bytes_def Let_def record_run_checks record_validate_shape del: validate_shape.simps)

lemma record_identifier_check [simp]: "record_check (identifier_check (mk_identifier nfc prefix j) actual path)"
  using record_canonical_bytes [of nfc j]
  by (cases "canonical_bytes nfc j") (simp_all add: mk_identifier_def identifier_check_def)

lemma record_fields_result [simp]: "record_result (record_fields nfc j body schema optional)"
  by (auto simp: record_fields_def intro!: record_bindE)

lemma record_posts [simp]:
  "record_check (source_post nfc a)" "record_check (frame_post nfc b)" "record_check (evidence_post nfc c)"
  "record_check (run_manifest_post nfc d)"
  by (simp_all add: source_post_def frame_post_def evidence_post_def run_manifest_post_def record_run_checks)

lemma record_contract_check [simp]: "record_check (contract_check contracts name)"
  using record_readers(6) [of "get contracts name" 1 MAX_I31 "''contracts.'' @ name"]
  by (auto simp: contract_check_def record_result_def split: sum.splits)

lemma record_ingestion_from_mapping [simp]:
  "record_result (source_from_mapping nfc j)" "record_result (frame_from_mapping nfc j)"
  "record_result (evidence_from_mapping nfc j)" "record_result (run_manifest_from_mapping nfc j)"
  by (auto simp: source_from_mapping_def frame_from_mapping_def evidence_from_mapping_def run_manifest_from_mapping_def
      optional_geometry_from_mapping_def Let_def list_all_iff intro!: record_bindE record_mapE_from record_run_checks
      split: option.splits)

lemma record_result_record_from_mapping [simp]: "record_result (record_from_mapping nfc j)"
  by (auto simp: record_from_mapping_def intro!: record_bindE)

lemma record_perception_posts [simp]:
  "record_check (observation_post nfc a)" "record_check (track_point_post nfc b)" "record_check (tracklet_post nfc c)"
proof -
  have tb: "record_check (plain_time_base nfc v path)" "record_check (plain_producer nfc p path)" for v p path
    by (simp_all add: plain_time_base_def plain_producer_def time_base_post_def producer_post_def record_run_checks)
  have mt: "record_check (plain_media_time nfc v path)" for v path
    by (cases "mt_estimate_method v"; cases "mt_estimate_producer v")
      (simp_all add: plain_media_time_def check_option_def record_run_checks_Cons tb)
  have ge: "record_check (plain_geometry nfc v path)" for v path
    by (cases "ge_producer_space v"; cases "ge_coefficients v")
      (simp_all add: plain_geometry_def check_option_def plain_coefficients_def plain_rational_def rational_post_def
        producer_space_post_def record_run_checks_Cons)
  have cat: "record_check (category_check nfc s path)" for s path
    by (simp add: category_check_def record_run_checks)
  show "record_check (observation_post nfc a)" and point: "record_check (track_point_post nfc b)" for b
    by (simp_all add: observation_post_def track_point_post_def record_run_checks tb mt ge cat)
  have "record_check (run_checks (concat (map (\<lambda>p. [track_point_post nfc p, point_scope_check c p]) (tk_points c))))"
    by (intro record_run_checks) (auto simp: list_all_iff point point_scope_check_def)
  then show "record_check (tracklet_post nfc c)"
    by (simp add: tracklet_post_def record_run_checks tb cat)
qed

lemma record_read_category [simp]: "record_result (read_category nfc j path)"
  by (cases j) (simp_all add: category_check_def record_run_checks)

lemma record_perception_from_mapping [simp]: "record_result (perception_from_mapping nfc j)"
proof -
  have "record_result (track_point_from_mapping nfc j path)" for j path
    by (auto simp: track_point_from_mapping_def Let_def intro!: record_bindE)
  then show ?thesis
    by (auto simp: perception_from_mapping_def observation_from_mapping_def tracklet_from_mapping_def Let_def
        intro!: record_bindE record_mapE_from record_run_checks)
qed

section \<open>The parser and the loaders\<close>

lemma record_scan_number [simp]: "record_result (scan_number s)"
  by (simp add: scan_number_def Let_def invalid_json_def float_forbidden_def split: option.splits)

lemma record_scan_scalar [simp]: "record_result (scan_scalar s)"
  by (simp add: scan_scalar_def float_forbidden_def)

lemma record_scan_key [simp]: "record_result (scan_key s)" "record_result (scan_delimiter close s)"
  by (auto simp: scan_key_def scan_delimiter_def invalid_json_def split: option.splits list.splits)

lemma record_object_pairs [simp]: "record_check (object_pairs kvs seen)"
  by (induction kvs seen rule: object_pairs.induct) simp_all

lemma record_parse:
  "record_result (parse_value limit s)" "record_result (parse_members limit s)" "record_result (parse_items limit s)"
proof (induction limit s and limit s and limit s rule: parse_value_parse_members_parse_items.induct)
  case (2 limit c s)
  then show ?case
    by (auto simp: parse_value.simps invalid_json_def intro!: record_bindE split: option.splits)
next
  case (3 limit s)
  show ?case
    using 3 by (subst parse_members.simps) (auto simp: record_result_def invalid_json_def bindE_Inl_iff
      dest: record_scan_key [unfolded record_result_def, rule_format] split: if_splits)
next
  case (4 limit s)
  then show ?case
    by (subst parse_items.simps) (auto simp: record_result_def invalid_json_def bindE_Inl_iff
      dest: record_scan_key [unfolded record_result_def, rule_format] split: if_splits)
qed (simp add: parse_value.simps invalid_json_def)

lemma record_parse_json [simp]: "record_result (parse_json nfc limit data)"
  by (auto simp: parse_json_def json_loads_def invalid_json_def record_parse record_run_checks record_validate_shape
      simp del: validate_shape.simps intro!: record_bindE)

lemma record_read_bounded: "record_result (fst (read_bounded read s n))"
proof (induction read s n rule: read_bounded.induct)
  case (1 read s n)
  then show ?case
    by (subst read_bounded.simps)
      (auto simp: record_result_def split: prod.splits read_result.splits sum.splits if_splits)
qed

text \<open>
  Whatever the reader does (short reads, values that are no bytes, \<open>OSError\<close>) and whatever the
  bytes are (no UTF-8, no JSON, too deep, wrong fields or values), the two loaders return a record or
  raise \<open>RecordValidationError\<close>, and serialising raises nothing else either.
\<close>

theorem loaders_raise_only_record_errors:
  assumes "e \<in> {x. fst (load_record nfc limit read s) = Inl x} \<union> {x. fst (load_perception_record nfc limit read s) = Inl x} \<union>
     {x. dumps_record nfc r = Inl x} \<union> {x. dumps_perception_record nfc q = Inl x}"
  shows "\<exists>c path. e = RecordValidationError c path"
proof -
  have unfold: "fst (load_record nfc limit read s) = bindE (fst (read_bounded read s (MAX_RECORD_BYTES + 1))) (loads_record nfc limit)"
    "fst (load_perception_record nfc limit read s) =
       bindE (fst (read_bounded read s (MAX_RECORD_BYTES + 1))) (loads_perception_record nfc limit)"
    by (simp_all add: load_record_def load_perception_record_def split: prod.split)
  have "record_result (fst (load_record nfc limit read s))" "record_result (fst (load_perception_record nfc limit read s))"
    unfolding unfold
    by (auto simp: loads_record_def loads_perception_record_def
      record_read_bounded intro!: record_bindE)
  moreover have "record_check (perception_post nfc q)" by (cases q) simp_all
  then have "record_result (dumps_record nfc r)" "record_result (dumps_perception_record nfc q)"
    by (auto simp: dumps_record_def dumps_perception_record_def intro!: record_bindE)
  ultimately have "is_record_error e" using assms by (auto simp: record_result_def)
  then show ?thesis by (cases e) simp_all
qed

end
