(* ===== verification/Tracking.thy ===== *)
theory Tracking
  imports Sampling Perception_Examples Assignment "HOL-Library.AList"
begin

text \<open>
  The clip-local tracker of \<open>tracking.py\<close>: image-change scores, box overlap, limits, diagnostics,
  active tracks, the sealed continuation cursor and the pages.  \<open>_time\<close> is \<open>media_seconds\<close> of the
  sampler.  The active tracks, a \<open>dict\<close> from ordinals, are an association list that is always read
  in ascending order of the keys.  As in the sampler, \<open>cancel n\<close> is what the \<open>n\<close>-th \<open>is_set()\<close> of a
  call returns.
\<close>

section \<open>Constants and the producer\<close>

definition ASSOCIATION_IOU_BASIS_POINTS :: int where "ASSOCIATION_IOU_BASIS_POINTS = 1000"
definition CUT_THRESHOLD_BASIS_POINTS :: int where "CUT_THRESHOLD_BASIS_POINTS = 1500"
definition MAX_MISSED_SAMPLES :: int where "MAX_MISSED_SAMPLES = 5"
definition TRACKING_FPS :: int where "TRACKING_FPS = 5"
definition MAX_RGB24_BYTES :: int where "MAX_RGB24_BYTES = 128 * 1024 * 1024"

definition tracker_configuration :: json where
  "tracker_configuration = JObj
     [(''association'', JStr ''global_maximum_total_iou''),
      (''box_prediction'', JStr ''last_detector_supported''),
      (''category'', JStr ''vehicle''),
      (''cut_score'', JStr ''mean_absolute_rgb_delta_every_fourth_pixel_basis_points''),
      (''cut_threshold_basis_points'', JInt CUT_THRESHOLD_BASIS_POINTS),
      (''iou_threshold_basis_points'', JInt ASSOCIATION_IOU_BASIS_POINTS),
      (''max_missed_samples'', JInt MAX_MISSED_SAMPLES),
      (''sampling_fps'', JInt TRACKING_FPS),
      (''schema'', JStr ''visualworld.global-last-iou-tracker-configuration''),
      (''schema_version'', JInt 1),
      (''tie_break'', JStr ''active_ordinal_then_box_then_observation_id'')]"

definition TRACKER_CONFIGURATION_SHA256 :: string where
  "TRACKER_CONFIGURATION_SHA256 = sha256_hex (render (sort_json tracker_configuration))"

definition TRACKER_PRODUCER :: producer where
  "TRACKER_PRODUCER = \<lparr>pr_name = ''visualworld.global-last-iou-tracker'', pr_version = ''1'',
     pr_configuration_sha256 = TRACKER_CONFIGURATION_SHA256\<rparr>"

definition tracker_error :: "port_error_code \<Rightarrow> string \<Rightarrow> exn" where
  "tracker_error c operation = PortError c TRACKER operation"

section \<open>Image change and box overlap\<close>

definition byte_delta :: "string \<Rightarrow> string \<Rightarrow> nat \<Rightarrow> int" where
  "byte_delta previous current offset = \<bar>int (code (previous ! offset)) - int (code (current ! offset))\<bar>"

definition rgb24_discontinuity_basis_points :: "string option \<Rightarrow> string \<Rightarrow> int \<Rightarrow> int \<Rightarrow> int res" where
  "rgb24_discontinuity_basis_points previous current width height =
     (let expected = width * height * 3; invalid = ValueError ''invalid_rgb24_frame''
      in if \<not> (1 \<le> width \<and> width \<le> 2 ^ 31 - 1 \<and> 1 \<le> height \<and> height \<le> 2 ^ 31 - 1) then Inl invalid
         else if MAX_RGB24_BYTES < expected \<or> int (length current) \<noteq> expected then Inl invalid
         else case previous of
           None \<Rightarrow> Inr 0
         | Some before \<Rightarrow>
             if int (length before) \<noteq> expected then Inl invalid
             else
               let offsets = map (\<lambda>k. 12 * k) [0..<(nat expected + 11) div 12];
                   total = sum_list (map (\<lambda>offset. byte_delta before current offset
                     + byte_delta before current (offset + 1) + byte_delta before current (offset + 2)) offsets);
                   samples = 3 * int (length offsets)
               in Inr (total * 10000 div (samples * 255)))"

fun iou_basis_points :: "box \<Rightarrow> box \<Rightarrow> int" where
  "iou_basis_points (a0, a1, a2, a3) (b0, b1, b2, b3) =
     (let left = max a0 b0; upper = max a1 b1; right = min a2 b2; lower = min a3 b3;
          intersection = max 0 (right - left) * max 0 (lower - upper);
          first_area = (a2 - a0) * (a3 - a1);
          second_area = (b2 - b0) * (b3 - b1);
          union = first_area + second_area - intersection
      in if union \<le> 0 then 0 else intersection * 10000 div union)"

section \<open>Limits and diagnostics\<close>

record tracking_limits =
  tl_max_page_frames :: int
  tl_max_page_observations :: int
  tl_max_total_frames :: int
  tl_max_total_observations :: int
  tl_max_active_tracks :: int
  tl_max_total_tracks :: int
  tl_max_track_points :: int
  tl_max_duration_seconds :: int

definition default_tracking_limits :: tracking_limits where
  "default_tracking_limits = \<lparr>tl_max_page_frames = int MAX_PORT_BATCH_ITEMS,
     tl_max_page_observations = int MAX_PERCEPTION_OBSERVATIONS, tl_max_total_frames = 18000,
     tl_max_total_observations = 100000, tl_max_active_tracks = int MAX_PORT_BATCH_ITEMS,
     tl_max_total_tracks = int MAX_PORT_BATCH_ITEMS, tl_max_track_points = int MAX_TRACK_POINTS,
     tl_max_duration_seconds = 60 * 60\<rparr>"

definition tracking_limits_post :: "tracking_limits \<Rightarrow> check" where
  "tracking_limits_post v = require
     (1 \<le> tl_max_page_frames v \<and> tl_max_page_frames v \<le> int MAX_PORT_BATCH_ITEMS \<and>
      1 \<le> tl_max_page_observations v \<and> tl_max_page_observations v \<le> int MAX_PERCEPTION_OBSERVATIONS \<and>
      tl_max_page_frames v \<le> tl_max_total_frames v \<and> tl_max_total_frames v \<le> 100000 \<and>
      tl_max_page_observations v \<le> tl_max_total_observations v \<and> tl_max_total_observations v \<le> 1000000 \<and>
      1 \<le> tl_max_active_tracks v \<and> tl_max_active_tracks v \<le> int MAX_PORT_BATCH_ITEMS \<and>
      tl_max_active_tracks v \<le> tl_max_total_tracks v \<and> tl_max_total_tracks v \<le> int MAX_PORT_BATCH_ITEMS \<and>
      1 \<le> tl_max_track_points v \<and> tl_max_track_points v \<le> int MAX_TRACK_POINTS \<and>
      1 \<le> tl_max_duration_seconds v \<and> tl_max_duration_seconds v \<le> 24 * 60 * 60)
     (ValueError ''tracking limits are outside the v1 bounds'')"

definition copy_tracking_limits :: "tracking_limits \<Rightarrow> tracking_limits res" where
  "copy_tracking_limits v =
     (let c = \<lparr>tl_max_page_frames = tl_max_page_frames v, tl_max_page_observations = tl_max_page_observations v,
               tl_max_total_frames = tl_max_total_frames v, tl_max_total_observations = tl_max_total_observations v,
               tl_max_active_tracks = tl_max_active_tracks v, tl_max_total_tracks = tl_max_total_tracks v,
               tl_max_track_points = tl_max_track_points v, tl_max_duration_seconds = tl_max_duration_seconds v\<rparr>
      in checked (tracking_limits_post c) c)"

record tracking_diagnostics =
  td_frame_count :: int
  td_observation_count :: int
  td_created_tracks :: int
  td_maximum_active_tracks :: int
  td_detected_cut_frames :: int
  td_cut_terminations :: int
  td_miss_timeout_terminations :: int
  td_source_end_terminations :: int

definition tracking_diagnostics_post :: "tracking_diagnostics \<Rightarrow> check" where
  "tracking_diagnostics_post v = require
     (list_all (\<lambda>n. 0 \<le> n)
       [td_frame_count v, td_observation_count v, td_created_tracks v, td_maximum_active_tracks v,
        td_detected_cut_frames v, td_cut_terminations v, td_miss_timeout_terminations v, td_source_end_terminations v])
     (ValueError ''tracking diagnostics are invalid'')"

definition copy_tracking_diagnostics :: "tracking_diagnostics \<Rightarrow> tracking_diagnostics res" where
  "copy_tracking_diagnostics v =
     (let c = \<lparr>td_frame_count = td_frame_count v, td_observation_count = td_observation_count v,
               td_created_tracks = td_created_tracks v, td_maximum_active_tracks = td_maximum_active_tracks v,
               td_detected_cut_frames = td_detected_cut_frames v, td_cut_terminations = td_cut_terminations v,
               td_miss_timeout_terminations = td_miss_timeout_terminations v,
               td_source_end_terminations = td_source_end_terminations v\<rparr>
      in checked (tracking_diagnostics_post c) c)"

definition no_diagnostics :: tracking_diagnostics where
  "no_diagnostics = \<lparr>td_frame_count = 0, td_observation_count = 0, td_created_tracks = 0,
     td_maximum_active_tracks = 0, td_detected_cut_frames = 0, td_cut_terminations = 0,
     td_miss_timeout_terminations = 0, td_source_end_terminations = 0\<rparr>"

section \<open>Validation and copies of records\<close>

definition validate_media_time :: "(string \<Rightarrow> string) \<Rightarrow> media_time \<Rightarrow> check" where
  "validate_media_time nfc v = run_checks
     [time_base_post nfc (mt_time_base v),
      check_option (producer_post nfc) (mt_estimate_producer v),
      media_time_post nfc v]"

definition validate_source_stream :: "(string \<Rightarrow> string) \<Rightarrow> source_stream \<Rightarrow> check" where
  "validate_source_stream nfc v = run_checks [time_base_post nfc (ss_time_base v), source_stream_post nfc v]"

definition copy_source_stream :: "(string \<Rightarrow> string) \<Rightarrow> source_stream \<Rightarrow> source_stream res" where
  "copy_source_stream nfc v =
     bindE (checked (validate_source_stream nfc v) ()) (\<lambda>_.
     let tb = \<lparr>tb_numerator = tb_numerator (ss_time_base v), tb_denominator = tb_denominator (ss_time_base v)\<rparr>;
         c = \<lparr>ss_stream_index = ss_stream_index v, ss_width = ss_width v, ss_height = ss_height v,
              ss_rotation_degrees = ss_rotation_degrees v, ss_time_base = tb, ss_media_type = ss_media_type v\<rparr>
     in checked (run_checks [time_base_post nfc tb, source_stream_post nfc c]) c)"

definition validate_source :: "(string \<Rightarrow> string) \<Rightarrow> source \<Rightarrow> check" where
  "validate_source nfc v = run_checks
     [fingerprint_post nfc (so_fingerprint v),
      run_checks (map (validate_source_stream nfc) (so_streams v)),
      source_post nfc v]"

definition validate_frame :: "(string \<Rightarrow> string) \<Rightarrow> frame_ref \<Rightarrow> check" where
  "validate_frame nfc v = run_checks
     [validate_media_time nfc (fr_pts v),
      check_option (validate_media_time nfc) (fr_duration v),
      frame_post nfc v]"

definition copy_frame :: "(string \<Rightarrow> string) \<Rightarrow> frame_ref \<Rightarrow> frame_ref res" where
  "copy_frame nfc v =
     bindE (checked (validate_frame nfc v) ()) (\<lambda>_. frame_from_mapping nfc (frame_to_mapping v))"

definition copy_track_point_from_observation :: "(string \<Rightarrow> string) \<Rightarrow> observation \<Rightarrow> track_point res" where
  "copy_track_point_from_observation nfc v =
     bindE (checked (observation_post nfc v) ()) (\<lambda>_.
     bindE (observation_from_mapping nfc (observation_to_mapping v)) (track_point_from_observation nfc))"

definition copy_track_point :: "(string \<Rightarrow> string) \<Rightarrow> track_point \<Rightarrow> track_point res" where
  "copy_track_point nfc v =
     bindE (checked (track_point_post nfc v) ()) (\<lambda>_. track_point_from_mapping nfc (track_point_to_mapping v) ''point'')"

section \<open>Active tracks\<close>

record active_track =
  at_ordinal :: int
  at_points :: "track_point list"
  at_missed_samples :: int

definition active_track_post :: "(string \<Rightarrow> string) \<Rightarrow> active_track \<Rightarrow> check" where
  "active_track_post nfc v = run_checks
     (require (1 \<le> at_ordinal v \<and> at_points v \<noteq> [] \<and> length (at_points v) \<le> MAX_TRACK_POINTS \<and>
               0 \<le> at_missed_samples v \<and> at_missed_samples v \<le> MAX_MISSED_SAMPLES)
        (ValueError ''active track is invalid'')
      # map (track_point_post nfc) (at_points v))"

definition mk_active_track :: "(string \<Rightarrow> string) \<Rightarrow> int \<Rightarrow> track_point list \<Rightarrow> int \<Rightarrow> active_track res" where
  "mk_active_track nfc ordinal points missed =
     (let v = \<lparr>at_ordinal = ordinal, at_points = points, at_missed_samples = missed\<rparr>
      in checked (active_track_post nfc v) v)"

definition copy_active_track :: "(string \<Rightarrow> string) \<Rightarrow> active_track \<Rightarrow> active_track res" where
  "copy_active_track nfc v =
     bindE (checked (active_track_post nfc v) ()) (\<lambda>_.
     bindE (mapE (copy_track_point nfc) (at_points v)) (\<lambda>points.
     mk_active_track nfc (at_ordinal v) points (at_missed_samples v)))"

end
