(* ===== verification/Tracker.thy ===== *)
theory Tracker
  imports Tracking
begin

text \<open>
  The resumable tracker of \<open>tracking.py\<close>: the sealed cursor with its consistency conditions, the
  pages, and \<open>GlobalLastBoxTracker\<close> with its input validation and its loop over the frames.  The
  dictionary \<open>active\<close> is an association list updated as a Python \<open>dict\<close> is.  \<open>cancel\<close> numbers the
  \<open>is_set()\<close> calls of a page: 0 on entry, 1 after validation, \<open>2 + k\<close> before frame \<open>k\<close>.
\<close>

section \<open>The cursor\<close>

record tracking_cursor =
  tc_source_id :: string
  tc_stream_index :: int
  tc_time_base :: time_base
  tc_source_stream :: source_stream
  tc_limits :: tracking_limits
  tc_first_pts :: media_time
  tc_last_frame :: frame_ref
  tc_active_tracks :: "active_track list"
  tc_next_ordinal :: int
  tc_diagnostics :: tracking_diagnostics
  tc_integrity_hmac_sha256 :: string
  tc_finished :: bool

definition active_track_payload :: "active_track \<Rightarrow> json" where
  "active_track_payload t = JObj
     [(''missed_samples'', JInt (at_missed_samples t)), (''ordinal'', JInt (at_ordinal t)),
      (''points'', JArr (map track_point_to_mapping (at_points t)))]"

definition diagnostics_payload :: "tracking_diagnostics \<Rightarrow> json" where
  "diagnostics_payload d = JObj
     [(''created_tracks'', JInt (td_created_tracks d)), (''cut_terminations'', JInt (td_cut_terminations d)),
      (''detected_cut_frames'', JInt (td_detected_cut_frames d)), (''frame_count'', JInt (td_frame_count d)),
      (''maximum_active_tracks'', JInt (td_maximum_active_tracks d)),
      (''miss_timeout_terminations'', JInt (td_miss_timeout_terminations d)),
      (''observation_count'', JInt (td_observation_count d)),
      (''source_end_terminations'', JInt (td_source_end_terminations d))]"

definition limits_payload :: "tracking_limits \<Rightarrow> json" where
  "limits_payload l = JObj
     [(''max_active_tracks'', JInt (tl_max_active_tracks l)),
      (''max_duration_seconds'', JInt (tl_max_duration_seconds l)),
      (''max_page_frames'', JInt (tl_max_page_frames l)),
      (''max_page_observations'', JInt (tl_max_page_observations l)),
      (''max_total_frames'', JInt (tl_max_total_frames l)),
      (''max_total_observations'', JInt (tl_max_total_observations l)),
      (''max_total_tracks'', JInt (tl_max_total_tracks l)),
      (''max_track_points'', JInt (tl_max_track_points l))]"

definition cursor_payload :: "tracking_cursor \<Rightarrow> json" where
  "cursor_payload c = JObj
     [(''active_tracks'', JArr (map active_track_payload (tc_active_tracks c))),
      (''diagnostics'', diagnostics_payload (tc_diagnostics c)), (''finished'', JBool (tc_finished c)),
      (''first_pts'', media_time_to_mapping (tc_first_pts c)),
      (''last_frame'', frame_to_mapping (tc_last_frame c)), (''limits'', limits_payload (tc_limits c)),
      (''next_ordinal'', JInt (tc_next_ordinal c)), (''source_id'', JStr (tc_source_id c)),
      (''source_stream'', source_stream_to_mapping (tc_source_stream c)),
      (''stream_index'', JInt (tc_stream_index c)), (''time_base'', time_base_to_mapping (tc_time_base c))]"

definition cursor_integrity_hmac_sha256 :: "tracking_cursor \<Rightarrow> string \<Rightarrow> string res" where
  "cursor_integrity_hmac_sha256 c key =
     (if length key \<noteq> 32 then Inl (ValueError ''invalid cursor integrity key'')
      else Inr (hmac_sha256_hex key (render (sort_json (cursor_payload c)))))"

definition pairwise :: "'a list \<Rightarrow> ('a \<times> 'a) list" where
  "pairwise xs = zip xs (tl xs)"

text \<open>The conditions of \<open>tracking cursor conflicts with its bound prefix\<close>, negated\<close>

definition cursor_prefix_ok :: "tracking_cursor \<Rightarrow> bool" where
  "cursor_prefix_ok c =
     (let d = tc_diagnostics c; limits = tc_limits c; last = tc_last_frame c; active = tc_active_tracks c;
          terminations = td_cut_terminations d + td_miss_timeout_terminations d + td_source_end_terminations d;
          elapsed = frame_seconds last - media_seconds (tc_first_pts c)
      in fr_source_id last = tc_source_id c \<and> fr_stream_index last = tc_stream_index c \<and>
         frame_time_base last = tc_time_base c \<and> ss_stream_index (tc_source_stream c) = tc_stream_index c \<and>
         ss_time_base (tc_source_stream c) = tc_time_base c \<and> mt_time_base (tc_first_pts c) = tc_time_base c \<and>
         distinct (map at_ordinal active) \<and> tc_next_ordinal c = td_created_tracks d + 1 \<and>
         td_maximum_active_tracks d \<le> tl_max_active_tracks limits \<and>
         int (length active) \<le> td_maximum_active_tracks d \<and> td_maximum_active_tracks d \<le> td_created_tracks d \<and>
         td_created_tracks d \<le> tl_max_total_tracks limits \<and> td_created_tracks d \<le> td_observation_count d \<and>
         1 \<le> td_frame_count d \<and> td_frame_count d \<le> tl_max_total_frames limits \<and>
         td_observation_count d \<le> tl_max_total_observations limits \<and>
         td_detected_cut_frames d \<le> td_frame_count d \<and>
         td_created_tracks d = int (length active) + terminations \<and>
         int (sum_list (map (length \<circ> at_points) active)) \<le> td_observation_count d \<and>
         elapsed = of_int (td_frame_count d - 1) / of_int TRACKING_FPS \<and>
         elapsed \<le> of_int (tl_max_duration_seconds limits) \<and>
         (tc_finished c \<longrightarrow> active = []) \<and> (\<not> tc_finished c \<longrightarrow> td_source_end_terminations d = 0))"

definition point_in_cursor :: "tracking_cursor \<Rightarrow> track_point \<Rightarrow> bool" where
  "point_in_cursor c p \<longleftrightarrow>
     tp_source_id p = tc_source_id c \<and> tp_stream_index p = tc_stream_index c \<and>
     mt_time_base (tp_pts p) = tc_time_base c \<and>
     ge_source_width (tp_geometry p) = ss_width (tc_source_stream c) \<and>
     ge_source_height (tp_geometry p) = ss_height (tc_source_stream c)"

definition cursor_track_ok :: "tracking_cursor \<Rightarrow> string list \<Rightarrow> active_track \<Rightarrow> bool" where
  "cursor_track_ok c seen t =
     (let points = at_points t; ids = map tp_observation_id points
      in at_ordinal t < tc_next_ordinal c \<and> int (length points) \<le> tl_max_track_points (tc_limits c) \<and>
         tp_category (last points) = ''vehicle'' \<and> distinct ids \<and> set ids \<inter> set seen = {} \<and>
         list_all (\<lambda>(p, q). media_seconds (tp_pts p) < media_seconds (tp_pts q)) (pairwise points) \<and>
         frame_seconds (tc_last_frame c) - media_seconds (tp_pts (last points)) =
           of_int (at_missed_samples t) / of_int TRACKING_FPS \<and>
         list_all (point_in_cursor c) points)"

fun cursor_tracks_ok :: "tracking_cursor \<Rightarrow> string list \<Rightarrow> active_track list \<Rightarrow> bool" where
  "cursor_tracks_ok c seen [] = True"
| "cursor_tracks_ok c seen (t # ts) =
     (cursor_track_ok c seen t \<and> cursor_tracks_ok c (seen @ map tp_observation_id (at_points t)) ts)"

definition tracking_cursor_post :: "(string \<Rightarrow> string) \<Rightarrow> tracking_cursor \<Rightarrow> check" where
  "tracking_cursor_post nfc c = run_checks
     [require (is_typed_id ''src'' (tc_source_id c) \<and> 0 \<le> tc_stream_index c \<and> tc_stream_index c \<le> MAX_I31 \<and>
               is_sha256 (tc_integrity_hmac_sha256 c))
        (ValueError ''tracking cursor is invalid''),
      tracking_limits_post (tc_limits c),
      require (int (length (tc_active_tracks c)) \<le> tl_max_active_tracks (tc_limits c))
        (ValueError ''tracking cursor exceeds its active-track bound''),
      time_base_post nfc (tc_time_base c),
      validate_source_stream nfc (tc_source_stream c),
      validate_media_time nfc (tc_first_pts c),
      validate_frame nfc (tc_last_frame c),
      tracking_diagnostics_post (tc_diagnostics c),
      run_checks (map (active_track_post nfc) (tc_active_tracks c)),
      require (cursor_prefix_ok c) (ValueError ''tracking cursor conflicts with its bound prefix''),
      require (cursor_tracks_ok c [] (tc_active_tracks c))
        (ValueError ''tracking cursor conflicts with its active tracks'')]"

text \<open>\<open>TrackingCursor(...)\<close>: the checks run before the seal is set.\<close>

definition seal_cursor :: "(string \<Rightarrow> string) \<Rightarrow> string \<Rightarrow> tracking_cursor \<Rightarrow> tracking_cursor res" where
  "seal_cursor nfc key c =
     (let v = c\<lparr>tc_integrity_hmac_sha256 := replicate 64 (CHR ''0'')\<rparr>
      in bindE (checked (tracking_cursor_post nfc v) ()) (\<lambda>_.
         bindE (cursor_integrity_hmac_sha256 v key) (\<lambda>seal. Inr (v\<lparr>tc_integrity_hmac_sha256 := seal\<rparr>))))"

section \<open>Pages\<close>

record tracking_page =
  tg_state :: perception_result_state
  tg_tracklets :: "tracklet list"
  tg_cursor :: "tracking_cursor option"
  tg_finished :: bool
  tg_diagnostics :: tracking_diagnostics
  tg_reason :: "string option"

definition tracking_page_post :: "(string \<Rightarrow> string) \<Rightarrow> tracking_page \<Rightarrow> check" where
  "tracking_page_post nfc v = run_checks
     [require (length (tg_tracklets v) \<le> MAX_PORT_BATCH_ITEMS) (ValueError ''tracking page is invalid''),
      run_checks (map (tracklet_post nfc) (tg_tracklets v)),
      require (distinct (map tk_tracklet_id (tg_tracklets v)))
        (ValueError ''tracking page contains duplicate tracklets''),
      tracking_diagnostics_post (tg_diagnostics v),
      (if tg_state v = COMPLETE
       then run_checks
         [require (tg_reason v = None) (ValueError ''complete tracking page cannot have a reason''),
          (case tg_cursor v of
             None \<Rightarrow> require (tg_tracklets v = [] \<and> tg_finished v) (ValueError ''tracking page cursor is missing'')
           | Some c \<Rightarrow> run_checks
               [tracking_cursor_post nfc c,
                require (tc_finished c = tg_finished v \<and> tc_diagnostics c = tg_diagnostics v)
                  (ValueError ''tracking page cursor is inconsistent'')])]
       else require (tg_tracklets v = [] \<and> tg_cursor v = None \<and> tg_finished v \<and>
                     tg_reason v \<noteq> None \<and> pred_option is_reason (tg_reason v))
         (ValueError ''incomplete tracking page is invalid''))]"

definition mk_tracking_page ::
  "(string \<Rightarrow> string) \<Rightarrow> perception_result_state \<Rightarrow> tracklet list \<Rightarrow> tracking_cursor option \<Rightarrow> bool \<Rightarrow>
   tracking_diagnostics \<Rightarrow> string option \<Rightarrow> tracking_page res" where
  "mk_tracking_page nfc state tracklets cursor finished diagnostics reason =
     (let v = \<lparr>tg_state = state, tg_tracklets = tracklets, tg_cursor = cursor, tg_finished = finished,
               tg_diagnostics = diagnostics, tg_reason = reason\<rparr>
      in checked (tracking_page_post nfc v) v)"

text \<open>\<open>TrackingResult\<close> of \<open>ports.py\<close>\<close>

record tracking_result =
  tt_state :: perception_result_state
  tt_tracklets :: "tracklet list"
  tt_reason :: "string option"

definition tracking_result_post :: "(string \<Rightarrow> string) \<Rightarrow> tracking_result \<Rightarrow> check" where
  "tracking_result_post nfc v = run_checks
     [require (length (tt_tracklets v) \<le> MAX_PORT_BATCH_ITEMS) (ValueError ''tracklets exceed the port bound''),
      run_checks (map (tracklet_post nfc) (tt_tracklets v)),
      require (distinct (map tk_tracklet_id (tt_tracklets v))) (ValueError ''tracklet identifiers must be unique''),
      validate_result (tt_state v) (tt_reason v) (length (tt_tracklets v))]"

definition mk_tracking_result ::
  "(string \<Rightarrow> string) \<Rightarrow> perception_result_state \<Rightarrow> tracklet list \<Rightarrow> string option \<Rightarrow> tracking_result res" where
  "mk_tracking_result nfc state tracklets reason =
     (let v = \<lparr>tt_state = state, tt_tracklets = tracklets, tt_reason = reason\<rparr>
      in checked (tracking_result_post nfc v) v)"

section \<open>The tracker\<close>

record tracker =
  tr_requested_category :: string
  tr_limits :: tracking_limits
  tr_cursor_integrity_key :: string
  tr_calls :: "port_call list"

text \<open>\<open>_CATEGORY_RE\<close>\<close>

definition is_requested_category :: "string \<Rightarrow> bool" where
  "is_requested_category s \<longleftrightarrow> is_category s \<and> length s \<le> 32"

definition tracker_descriptor :: "tracking_limits \<Rightarrow> capability_descriptor" where
  "tracker_descriptor limits =
     \<lparr>cd_port = TRACKER, cd_implementation = ''visualworld.global-last-iou-tracker'', cd_implementation_version = ''1'',
      cd_deterministic = True, cd_offline = True, cd_max_batch_items = tl_max_page_frames limits,
      cd_max_payload_bytes = None, cd_contract_version = 1, cd_allowed_effects = []\<rparr>"

text \<open>\<open>key\<close> is what \<open>secrets.token_bytes(32)\<close> returns.\<close>

definition tracker_create :: "string \<Rightarrow> tracking_limits option \<Rightarrow> string \<Rightarrow> tracker res" where
  "tracker_create requested_category limits key =
     bindE (checked (require (is_requested_category requested_category) (ValueError ''requested category is invalid'')) ())
       (\<lambda>_.
     bindE (copy_tracking_limits (case limits of None \<Rightarrow> default_tracking_limits | Some l \<Rightarrow> l)) (\<lambda>selected.
     checked (capability_descriptor_post (tracker_descriptor selected))
       \<lparr>tr_requested_category = requested_category, tr_limits = selected, tr_cursor_integrity_key = key, tr_calls = []\<rparr>))"

definition check_cancelled :: "bool \<Rightarrow> string \<Rightarrow> check" where
  "check_cancelled cancelled operation = require (\<not> cancelled) (tracker_error CANCELLED operation)"

section \<open>Validation of the inputs\<close>

text \<open>What \<open>_validate_inputs\<close> returns.\<close>

record validated_inputs =
  vi_by_frame :: "string \<rightharpoonup> observation list"
  vi_discontinuities :: "frame_discontinuity list"
  vi_rate_supported :: bool
  vi_stream :: "source_stream option"

definition request_shape_check ::
  "tracking_limits \<Rightarrow> frame_ref list \<Rightarrow> observation list \<Rightarrow> frame_discontinuity list option \<Rightarrow> bool \<Rightarrow> string \<Rightarrow> check" where
  "request_shape_check limits frames observations discontinuities end_of_stream operation = run_checks
     [require (int (length frames) \<le> tl_max_page_frames limits \<and>
               int (length observations) \<le> tl_max_page_observations limits)
        (tracker_error LIMIT_EXCEEDED operation),
      (if frames = []
       then require (observations = [] \<and> pred_option (\<lambda>ds. ds = []) discontinuities \<and> end_of_stream)
         (tracker_error INVALID_REQUEST operation)
       else require (pred_option (\<lambda>ds. length ds = length frames) discontinuities)
         (tracker_error INVALID_REQUEST operation))]"

definition request_values_check ::
  "(string \<Rightarrow> string) \<Rightarrow> source \<Rightarrow> frame_ref list \<Rightarrow> observation list \<Rightarrow> frame_discontinuity list option \<Rightarrow>
   tracking_cursor option \<Rightarrow> string \<Rightarrow> check" where
  "request_values_check nfc src frames observations discontinuities cursor operation = except_value_check (run_checks
     [validate_source nfc src,
      run_checks (map (validate_frame nfc) frames),
      run_checks (map (observation_post nfc) observations),
      check_option (\<lambda>ds. run_checks (map (discontinuity_post nfc) ds)) discontinuities,
      check_option (tracking_cursor_post nfc) cursor])
     (tracker_error INVALID_REQUEST operation)"

definition cursor_binding_check :: "tracker \<Rightarrow> source \<Rightarrow> tracking_cursor option \<Rightarrow> string \<Rightarrow> check" where
  "cursor_binding_check s src cursor operation = check_option (\<lambda>c.
     case cursor_integrity_hmac_sha256 c (tr_cursor_integrity_key s) of
       Inl e \<Rightarrow> Some e
     | Inr seal \<Rightarrow> run_checks
         [require (tc_integrity_hmac_sha256 c = seal) (tracker_error CONFLICT operation),
          require (\<not> tc_finished c \<and> tc_source_id c = so_source_id src \<and> tc_limits c = tr_limits s)
            (tracker_error CONFLICT operation)]) cursor"

text \<open>The stream the page is about: its index and, where there is one, the stream itself.\<close>

definition select_stream ::
  "source \<Rightarrow> frame_ref list \<Rightarrow> tracking_cursor option \<Rightarrow> string \<Rightarrow> (int \<times> source_stream option) res" where
  "select_stream src frames cursor operation =
     (case frames of
        first # _ \<Rightarrow>
          let stream_index = fr_stream_index first; stream = stream_by_index src stream_index
          in checked (run_checks
               [require (case stream of
                   None \<Rightarrow> False
                 | Some st \<Rightarrow> list_all (\<lambda>f. fr_source_id f = so_source_id src \<and> fr_stream_index f = stream_index \<and>
                     frame_time_base f = ss_time_base st \<and>
                     pred_option (\<lambda>d. mt_time_base d = ss_time_base st) (fr_duration f)) frames)
                 (tracker_error CONFLICT operation),
                require (pred_option (\<lambda>c. tc_stream_index c = stream_index \<and> Some (tc_source_stream c) = stream) cursor)
                  (tracker_error CONFLICT operation)])
               (stream_index, stream)
      | [] \<Rightarrow>
          (case cursor of
             Some c \<Rightarrow>
               let stream = stream_by_index src (tc_stream_index c)
               in checked (require (stream = Some (tc_source_stream c)) (tracker_error CONFLICT operation))
                    (tc_stream_index c, stream)
           | None \<Rightarrow> Inr (0, None)))"

definition ordered_frames :: "frame_ref list \<Rightarrow> tracking_cursor option \<Rightarrow> frame_ref list" where
  "ordered_frames frames cursor = (case cursor of None \<Rightarrow> [] | Some c \<Rightarrow> [tc_last_frame c]) @ frames"

definition discontinuity_of :: "frame_ref \<Rightarrow> frame_discontinuity \<Rightarrow> bool" where
  "discontinuity_of f d \<longleftrightarrow>
     fd_source_id d = fr_source_id f \<and> fd_frame_id d = fr_frame_id f \<and>
     fd_stream_index d = fr_stream_index f \<and> fd_pts d = fr_pts f"

definition discontinuities_check ::
  "frame_ref list \<Rightarrow> frame_discontinuity list \<Rightarrow> tracking_cursor option \<Rightarrow> string \<Rightarrow> check" where
  "discontinuities_check frames selected cursor operation =
     (case selected of
        [] \<Rightarrow> None
      | first # _ \<Rightarrow> run_checks
          [require (cursor = None \<longrightarrow> fd_score_basis_points first = 0) (tracker_error CONFLICT operation),
           require (list_all (\<lambda>(d, f). discontinuity_of f d) (zip selected frames)) (tracker_error CONFLICT operation)])"

text \<open>The loop over the observations, on the identities seen and the lists per frame.\<close>

fun group_observations ::
  "source \<Rightarrow> int \<Rightarrow> source_stream option \<Rightarrow> frame_ref list \<Rightarrow> string \<Rightarrow> string list \<Rightarrow>
   (string \<rightharpoonup> observation list) \<Rightarrow> observation list \<Rightarrow> (string \<rightharpoonup> observation list) res" where
  "group_observations src stream_index stream frames operation seen grouped [] = Inr grouped"
| "group_observations src stream_index stream frames operation seen grouped (ob # rest) =
     (case find (\<lambda>f. fr_frame_id f = ob_frame_id ob) frames of
        None \<Rightarrow> Inl (tracker_error CONFLICT operation)
      | Some f \<Rightarrow>
          if ob_observation_id ob \<notin> set seen \<and> ob_source_id ob = so_source_id src \<and>
             ob_stream_index ob = stream_index \<and> ob_pts ob = fr_pts f \<and>
             (case stream of None \<Rightarrow> False
              | Some st \<Rightarrow> ge_source_width (ob_geometry ob) = ss_width st \<and>
                           ge_source_height (ob_geometry ob) = ss_height st)
          then group_observations src stream_index stream frames operation (ob_observation_id ob # seen)
                 (grouped(fr_frame_id f := map_option (\<lambda>items. items @ [ob]) (grouped (fr_frame_id f)))) rest
          else Inl (tracker_error CONFLICT operation))"

definition first_pts_of :: "frame_ref list \<Rightarrow> tracking_cursor option \<Rightarrow> media_time" where
  "first_pts_of frames cursor = (case cursor of None \<Rightarrow> fr_pts (hd frames) | Some c \<Rightarrow> tc_first_pts c)"

definition validate_inputs ::
  "(string \<Rightarrow> string) \<Rightarrow> tracker \<Rightarrow> source \<Rightarrow> frame_ref list \<Rightarrow> observation list \<Rightarrow> frame_discontinuity list option \<Rightarrow>
   tracking_cursor option \<Rightarrow> bool \<Rightarrow> bool \<Rightarrow> string \<Rightarrow> validated_inputs res" where
  "validate_inputs nfc s src frames observations discontinuities cursor end_of_stream cancelled operation =
     (let limits = tr_limits s; conflict = tracker_error CONFLICT operation; over = tracker_error LIMIT_EXCEEDED operation;
          steps = pairwise (ordered_frames frames cursor);
          selected = (case discontinuities of None \<Rightarrow> [] | Some ds \<Rightarrow> ds);
          prior_frames = (case cursor of None \<Rightarrow> 0 | Some c \<Rightarrow> td_frame_count (tc_diagnostics c));
          prior_observations = (case cursor of None \<Rightarrow> 0 | Some c \<Rightarrow> td_observation_count (tc_diagnostics c))
      in
      bindE (checked (run_checks
        [request_shape_check limits frames observations discontinuities end_of_stream operation,
         request_values_check nfc src frames observations discontinuities cursor operation,
         cursor_binding_check s src cursor operation,
         require (distinct (map fr_frame_id frames) \<and>
                  distinct (map (\<lambda>f. (fr_stream_index f, fr_decode_index f)) frames)) conflict]) ()) (\<lambda>_.
      bindE (select_stream src frames cursor operation) (\<lambda>(stream_index, stream).
      bindE (checked (run_checks
        [require (list_all (\<lambda>(p, q). frame_seconds p < frame_seconds q \<and> decode_number p < decode_number q) steps) conflict,
         discontinuities_check frames selected cursor operation]) ()) (\<lambda>_.
      bindE (group_observations src stream_index stream frames operation []
               (map_of (map (\<lambda>f. (fr_frame_id f, [])) frames)) observations) (\<lambda>by_frame.
      checked (run_checks
        [require (list_all (\<lambda>f. int (length (the (by_frame (fr_frame_id f)))) \<le> tl_max_active_tracks limits) frames) over,
         require (prior_frames + int (length frames) \<le> tl_max_total_frames limits \<and>
                  prior_observations + int (length observations) \<le> tl_max_total_observations limits) over,
         require (frames \<noteq> [] \<longrightarrow> frame_seconds (last frames) - media_seconds (first_pts_of frames cursor)
                    \<le> of_int (tl_max_duration_seconds limits)) over,
         check_cancelled cancelled operation])
        \<lparr>vi_by_frame = by_frame, vi_discontinuities = selected,
         vi_rate_supported = list_all (\<lambda>(p, q). frame_seconds q - frame_seconds p = 1 / of_int TRACKING_FPS) steps,
         vi_stream = stream\<rparr>)))))"

section \<open>The loop over the frames\<close>

type_synonym active = "(int \<times> active_track) list"

text \<open>\<open>tuple(active[ordinal] for ordinal in sorted(active))\<close>\<close>

definition sorted_tracks :: "active \<Rightarrow> active_track list" where
  "sorted_tracks active = map (\<lambda>ordinal. the (map_of active ordinal)) (sort (map fst active))"

record page_state =
  ps_active :: active
  ps_next_ordinal :: int
  ps_created_tracks :: int
  ps_maximum_active :: int
  ps_cut_frames :: int
  ps_cut_terminations :: int
  ps_miss_terminations :: int
  ps_source_terminations :: int
  ps_completed :: "tracklet list"

definition complete_track :: "(string \<Rightarrow> string) \<Rightarrow> active_track \<Rightarrow> string \<Rightarrow> tracklet res" where
  "complete_track nfc t reason =
     (let first = hd (at_points t)
      in tracklet_create nfc (tp_source_id first) (tp_stream_index first) (tp_category first) (at_points t) reason
           TRACKER_PRODUCER)"

text \<open>Completing every active track, at a cut and at the end of the source\<close>

definition complete_all :: "(string \<Rightarrow> string) \<Rightarrow> string \<Rightarrow> page_state \<Rightarrow> page_state res" where
  "complete_all nfc reason st =
     bindE (mapE (\<lambda>t. complete_track nfc t reason) (sorted_tracks (ps_active st))) (\<lambda>done_now.
     Inr (st\<lparr>ps_completed := ps_completed st @ done_now, ps_active := []\<rparr>))"

definition cut_step :: "(string \<Rightarrow> string) \<Rightarrow> frame_discontinuity \<Rightarrow> page_state \<Rightarrow> page_state res" where
  "cut_step nfc d st =
     (if CUT_THRESHOLD_BASIS_POINTS \<le> fd_score_basis_points d
      then complete_all nfc ''cut'' (st\<lparr>ps_cut_frames := ps_cut_frames st + 1,
             ps_cut_terminations := ps_cut_terminations st + int (length (ps_active st))\<rparr>)
      else Inr st)"

definition sort_detections :: "observation list \<Rightarrow> observation list" where
  "sort_detections = sort_key (\<lambda>ob. (ge_box_xyxy (ob_geometry ob), ob_observation_id ob))"

definition association_weights :: "active_track list \<Rightarrow> observation list \<Rightarrow> int list list" where
  "association_weights rows detections =
     map (\<lambda>t. map (\<lambda>ob. iou_basis_points (ge_box_xyxy (tp_geometry (last (at_points t)))) (ge_box_xyxy (ob_geometry ob)))
       detections) rows"

text \<open>A run of the assignment that did not end would be the \<open>AssertionError\<close>; there is none.\<close>

definition associate :: "int list list \<Rightarrow> observation list \<Rightarrow> (nat \<times> nat) list res" where
  "associate weights detections =
     (if weights = [] \<or> detections = [] then Inr []
      else case maximum_assignment weights of
        None \<Rightarrow> Inl (AssertionError ''the assignment does not return'')
      | Some r \<Rightarrow> bindE r (\<lambda>pairs. Inr (filter (\<lambda>(row, column). ASSOCIATION_IOU_BASIS_POINTS \<le> weights ! row ! column) pairs)))"

fun extend_matched ::
  "(string \<Rightarrow> string) \<Rightarrow> tracking_limits \<Rightarrow> string \<Rightarrow> active_track list \<Rightarrow> observation list \<Rightarrow> (nat \<times> nat) list \<Rightarrow>
   active \<Rightarrow> active res" where
  "extend_matched nfc limits operation rows detections [] active = Inr active"
| "extend_matched nfc limits operation rows detections ((row, column) # rest) active =
     (let t = rows ! row
      in if tl_max_track_points limits \<le> int (length (at_points t)) then Inl (tracker_error LIMIT_EXCEEDED operation)
         else bindE (copy_track_point_from_observation nfc (detections ! column)) (\<lambda>p.
              bindE (mk_active_track nfc (at_ordinal t) (at_points t @ [p]) 0) (\<lambda>t'.
              extend_matched nfc limits operation rows detections rest (AList.update (at_ordinal t) t' active))))"

fun age_unmatched ::
  "(string \<Rightarrow> string) \<Rightarrow> int list \<Rightarrow> int list \<Rightarrow> active \<times> tracklet list \<times> int \<Rightarrow> (active \<times> tracklet list \<times> int) res" where
  "age_unmatched nfc matched [] st = Inr st"
| "age_unmatched nfc matched (ordinal # rest) (active, completed, misses) =
     (if ordinal \<in> set matched then age_unmatched nfc matched rest (active, completed, misses)
      else
        let t = the (map_of active ordinal); missed = at_missed_samples t + 1
        in if MAX_MISSED_SAMPLES < missed
           then bindE (complete_track nfc t ''miss_timeout'') (\<lambda>tracklet.
                age_unmatched nfc matched rest (AList.delete ordinal active, completed @ [tracklet], misses + 1))
           else bindE (mk_active_track nfc ordinal (at_points t) missed) (\<lambda>t'.
                age_unmatched nfc matched rest (AList.update ordinal t' active, completed, misses)))"

fun open_tracks ::
  "(string \<Rightarrow> string) \<Rightarrow> tracking_limits \<Rightarrow> string \<Rightarrow> nat list \<Rightarrow> (nat \<times> observation) list \<Rightarrow>
   active \<times> int \<times> int \<Rightarrow> (active \<times> int \<times> int) res" where
  "open_tracks nfc limits operation matched [] st = Inr st"
| "open_tracks nfc limits operation matched ((column, ob) # rest) (active, next_ordinal, created) =
     (if column \<in> set matched then open_tracks nfc limits operation matched rest (active, next_ordinal, created)
      else if tl_max_total_tracks limits \<le> created \<or> tl_max_active_tracks limits \<le> int (length active)
      then Inl (tracker_error LIMIT_EXCEEDED operation)
      else bindE (copy_track_point_from_observation nfc ob) (\<lambda>p.
           bindE (mk_active_track nfc next_ordinal [p] 0) (\<lambda>t.
           open_tracks nfc limits operation matched rest
             (AList.update next_ordinal t active, next_ordinal + 1, created + 1))))"

definition frame_step ::
  "(string \<Rightarrow> string) \<Rightarrow> tracking_limits \<Rightarrow> string \<Rightarrow> bool \<Rightarrow> observation list \<Rightarrow> frame_discontinuity \<Rightarrow> page_state \<Rightarrow>
   page_state res" where
  "frame_step nfc limits operation cancelled found d st0 =
     bindE (checked (check_cancelled cancelled operation) ()) (\<lambda>_.
     bindE (cut_step nfc d st0) (\<lambda>st.
     let detections = sort_detections found; rows = sorted_tracks (ps_active st);
         weights = association_weights rows detections in
     bindE (associate weights detections) (\<lambda>pairs.
     bindE (extend_matched nfc limits operation rows detections pairs (ps_active st)) (\<lambda>active1.
     bindE (age_unmatched nfc (map (\<lambda>(row, column). at_ordinal (rows ! row)) pairs) (sort (map fst active1))
              (active1, ps_completed st, ps_miss_terminations st)) (\<lambda>(active2, completed, misses).
     bindE (open_tracks nfc limits operation (map snd pairs) (enumerate 0 detections)
              (active2, ps_next_ordinal st, ps_created_tracks st)) (\<lambda>(active3, next_ordinal, created).
     Inr (st\<lparr>ps_active := active3, ps_next_ordinal := next_ordinal, ps_created_tracks := created,
             ps_maximum_active := max (ps_maximum_active st) (int (length active3)),
             ps_miss_terminations := misses, ps_completed := completed\<rparr>)))))))"

fun frame_loop ::
  "(string \<Rightarrow> string) \<Rightarrow> tracking_limits \<Rightarrow> string \<Rightarrow> (nat \<Rightarrow> bool) \<Rightarrow> nat \<Rightarrow> (string \<rightharpoonup> observation list) \<Rightarrow>
   (frame_ref \<times> frame_discontinuity) list \<Rightarrow> page_state \<Rightarrow> page_state res" where
  "frame_loop nfc limits operation cancel n by_frame [] st = Inr st"
| "frame_loop nfc limits operation cancel n by_frame ((f, d) # rest) st =
     bindE (frame_step nfc limits operation (cancel n) (the (by_frame (fr_frame_id f))) d st)
       (frame_loop nfc limits operation cancel (Suc n) by_frame rest)"

section \<open>Pages and one-shot tracking\<close>

definition initial_state :: "(string \<Rightarrow> string) \<Rightarrow> tracking_cursor option \<Rightarrow> tracking_diagnostics \<Rightarrow> page_state res" where
  "initial_state nfc cursor base =
     bindE (mapE (copy_active_track nfc) (case cursor of None \<Rightarrow> [] | Some c \<Rightarrow> tc_active_tracks c)) (\<lambda>tracks.
     Inr \<lparr>ps_active = fold (\<lambda>t. AList.update (at_ordinal t) t) tracks [],
          ps_next_ordinal = (case cursor of None \<Rightarrow> 1 | Some c \<Rightarrow> tc_next_ordinal c),
          ps_created_tracks = td_created_tracks base, ps_maximum_active = td_maximum_active_tracks base,
          ps_cut_frames = td_detected_cut_frames base, ps_cut_terminations = td_cut_terminations base,
          ps_miss_terminations = td_miss_timeout_terminations base,
          ps_source_terminations = td_source_end_terminations base, ps_completed = []\<rparr>)"

definition finish_source :: "(string \<Rightarrow> string) \<Rightarrow> bool \<Rightarrow> page_state \<Rightarrow> page_state res" where
  "finish_source nfc end_of_stream st =
     (if end_of_stream
      then complete_all nfc ''source_end''
             (st\<lparr>ps_source_terminations := ps_source_terminations st + int (length (ps_active st))\<rparr>)
      else Inr st)"

definition page_diagnostics :: "tracking_diagnostics \<Rightarrow> nat \<Rightarrow> nat \<Rightarrow> page_state \<Rightarrow> tracking_diagnostics" where
  "page_diagnostics base frame_count observation_count st =
     \<lparr>td_frame_count = td_frame_count base + int frame_count,
      td_observation_count = td_observation_count base + int observation_count,
      td_created_tracks = ps_created_tracks st, td_maximum_active_tracks = ps_maximum_active st,
      td_detected_cut_frames = ps_cut_frames st, td_cut_terminations = ps_cut_terminations st,
      td_miss_timeout_terminations = ps_miss_terminations st,
      td_source_end_terminations = ps_source_terminations st\<rparr>"

definition next_cursor ::
  "(string \<Rightarrow> string) \<Rightarrow> tracker \<Rightarrow> source \<Rightarrow> source_stream \<Rightarrow> frame_ref \<Rightarrow> media_time \<Rightarrow> page_state \<Rightarrow>
   tracking_diagnostics \<Rightarrow> bool \<Rightarrow> tracking_cursor res" where
  "next_cursor nfc s src selected_stream last_frame first_pts st diagnostics end_of_stream =
     bindE (copy_source_stream nfc selected_stream) (\<lambda>stream.
     bindE (copy_tracking_limits (tr_limits s)) (\<lambda>limits.
     bindE (media_time_from_mapping nfc (media_time_to_mapping first_pts) ''media_time'') (\<lambda>first_copy.
     bindE (copy_frame nfc last_frame) (\<lambda>last_copy.
     bindE (mapE (copy_active_track nfc) (sorted_tracks (ps_active st))) (\<lambda>tracks.
     seal_cursor nfc (tr_cursor_integrity_key s)
       \<lparr>tc_source_id = so_source_id src, tc_stream_index = fr_stream_index last_frame,
        tc_time_base = ss_time_base stream, tc_source_stream = stream, tc_limits = limits,
        tc_first_pts = first_copy, tc_last_frame = last_copy, tc_active_tracks = tracks,
        tc_next_ordinal = ps_next_ordinal st, tc_diagnostics = diagnostics,
        tc_integrity_hmac_sha256 = [], tc_finished = end_of_stream\<rparr>)))))"

definition track_page_core ::
  "(string \<Rightarrow> string) \<Rightarrow> tracker \<Rightarrow> source \<Rightarrow> frame_ref list \<Rightarrow> observation list \<Rightarrow> frame_discontinuity list option \<Rightarrow>
   tracking_cursor option \<Rightarrow> bool \<Rightarrow> (nat \<Rightarrow> bool) \<Rightarrow> string \<Rightarrow> tracking_page res" where
  "track_page_core nfc s src frames observations discontinuities cursor end_of_stream cancel operation =
     bindE (checked (check_cancelled (cancel 0) operation) ()) (\<lambda>_.
     bindE (validate_inputs nfc s src frames observations discontinuities cursor end_of_stream (cancel 1) operation) (\<lambda>v.
     bindE (case cursor of None \<Rightarrow> Inr no_diagnostics | Some c \<Rightarrow> copy_tracking_diagnostics (tc_diagnostics c)) (\<lambda>base.
     if tr_requested_category s \<noteq> ''vehicle'' \<or> (\<exists>ob \<in> set observations. ob_category ob \<noteq> ''vehicle'')
     then mk_tracking_page nfc UNSUPPORTED_RESULT [] None True base (Some ''category_unsupported'')
     else if \<not> vi_rate_supported v
     then mk_tracking_page nfc UNSUPPORTED_RESULT [] None True base (Some ''sampling_rate_unsupported'')
     else if discontinuities = None \<and> frames \<noteq> []
     then mk_tracking_page nfc UNKNOWN [] None True base (Some ''cut_scores_unavailable'')
     else
     bindE (initial_state nfc cursor base) (\<lambda>st0.
     bindE (checked (require (length frames = length (vi_discontinuities v)) (ValueError ''zip() arguments differ in length'')) ())
       (\<lambda>_.
     bindE (frame_loop nfc (tr_limits s) operation cancel 2 (vi_by_frame v) (zip frames (vi_discontinuities v)) st0) (\<lambda>st1.
     bindE (finish_source nfc end_of_stream st1) (\<lambda>st.
     let diagnostics = page_diagnostics base (length frames) (length observations) st in
     bindE (checked (run_checks
       [tracking_diagnostics_post diagnostics,
        require (length (ps_completed st) \<le> MAX_PORT_BATCH_ITEMS) (tracker_error LIMIT_EXCEEDED operation)]) ()) (\<lambda>_.
     case (frames, cursor) of
       ([], None) \<Rightarrow> mk_tracking_page nfc COMPLETE [] None True diagnostics None
     | _ \<Rightarrow>
         (case vi_stream v of
            None \<Rightarrow> Inl (AssertionError ''validated tracking page has no source stream'')
          | Some stream \<Rightarrow>
              let last_frame = (if frames \<noteq> [] then last frames else tc_last_frame (the cursor)) in
              bindE (next_cursor nfc s src stream last_frame (first_pts_of frames cursor) st diagnostics end_of_stream) (\<lambda>c.
              mk_tracking_page nfc COMPLETE (ps_completed st) (Some c) end_of_stream diagnostics None))))))))))"

definition track_page ::
  "(string \<Rightarrow> string) \<Rightarrow> tracker \<Rightarrow> source \<Rightarrow> frame_ref list \<Rightarrow> observation list \<Rightarrow> frame_discontinuity list option \<Rightarrow>
   tracking_cursor option \<Rightarrow> bool \<Rightarrow> (nat \<Rightarrow> bool) \<Rightarrow> (tracking_page \<times> tracker) res" where
  "track_page nfc s src frames observations discontinuities cursor end_of_stream cancel =
     bindE (except_value (track_page_core nfc s src frames observations discontinuities cursor end_of_stream cancel ''track_page'')
       (tracker_error INVALID_REQUEST ''track_page'')) (\<lambda>page.
     bindE (record_call (tr_calls s) TRACKER ''track_page'' (length frames)) (\<lambda>calls.
     Inr (page, s\<lparr>tr_calls := calls\<rparr>)))"

definition track ::
  "(string \<Rightarrow> string) \<Rightarrow> tracker \<Rightarrow> source \<Rightarrow> frame_ref list \<Rightarrow> observation list \<Rightarrow> frame_discontinuity list option \<Rightarrow>
   (tracking_result \<times> tracker) res" where
  "track nfc s src frames observations discontinuities =
     bindE (except_value
       (bindE (track_page_core nfc s src frames observations discontinuities None True (\<lambda>_. False) ''track'') (\<lambda>page.
        mk_tracking_result nfc (tg_state page) (tg_tracklets page) (tg_reason page)))
       (tracker_error INVALID_REQUEST ''track'')) (\<lambda>result.
     bindE (record_call (tr_calls s) TRACKER ''track'' (length frames)) (\<lambda>calls.
     Inr (result, s\<lparr>tr_calls := calls\<rparr>)))"

end
