(* ===== verification/Assignment_Optimal.thy ===== *)
theory Assignment_Optimal
  imports Assignment
begin

text \<open>
  The assignment algorithm terminates and is optimal.  The proof is the usual one for the potentials:
  they stay feasible and tight on matched columns, the used columns of a search form a tree of tight
  edges, the free column found is joined to the root by a path in that tree, and a matching of all
  rows on which feasible potentials are tight has the least cost.
\<close>

section \<open>The two column loops\<close>

lemma fold_scan_columns:
  assumes "fold (scan_column reduced used c) [1..<Suc n] (m0, w0, infinity, 0) = (m, w, delta, next_column)"
  shows "\<forall>j. m j = (if 1 \<le> j \<and> j \<le> n \<and> \<not> used j then min (m0 j) (reduced j) else m0 j)"
    and "\<forall>j. w j = (if 1 \<le> j \<and> j \<le> n \<and> \<not> used j \<and> reduced j < m0 j then c else w0 j)"
    and "\<forall>j. 1 \<le> j \<and> j \<le> n \<and> \<not> used j \<longrightarrow> delta \<le> m j"
    and "delta \<le> infinity"
    and "delta < infinity \<longrightarrow> 1 \<le> next_column \<and> next_column \<le> n \<and> \<not> used next_column \<and> m next_column = delta"
proof -
  have "(\<forall>j. m j = (if 1 \<le> j \<and> j \<le> n \<and> \<not> used j then min (m0 j) (reduced j) else m0 j)) \<and>
    (\<forall>j. w j = (if 1 \<le> j \<and> j \<le> n \<and> \<not> used j \<and> reduced j < m0 j then c else w0 j)) \<and>
    (\<forall>j. 1 \<le> j \<and> j \<le> n \<and> \<not> used j \<longrightarrow> delta \<le> m j) \<and> delta \<le> infinity \<and>
    (delta < infinity \<longrightarrow> 1 \<le> next_column \<and> next_column \<le> n \<and> \<not> used next_column \<and> m next_column = delta)"
    using assms
  proof (induction n arbitrary: m w delta next_column)
    case 0
    then show ?case by auto
  next
    case (Suc n)
    obtain m1 w1 d1 n1 where f: "fold (scan_column reduced used c) [1..<Suc n] (m0, w0, infinity, 0) = (m1, w1, d1, n1)"
      by (metis prod_cases4)
    then have last: "scan_column reduced used c (Suc n) (m1, w1, d1, n1) = (m, w, delta, next_column)"
      using Suc.prems by simp
    from Suc.IH [OF f] have m1: "m1 (Suc n) = m0 (Suc n)"
      by simp
    show ?case
    proof (cases "used (Suc n)")
      case True
      then have "m = m1" "w = w1" "delta = d1" "next_column = n1" using last by auto
      then show ?thesis using Suc.IH [OF f] True by (auto simp: le_Suc_eq)
    next
      case False
      then have eqs: "m = (if reduced (Suc n) < m0 (Suc n) then m1(Suc n := reduced (Suc n)) else m1)"
          "w = (if reduced (Suc n) < m0 (Suc n) then w1(Suc n := c) else w1)"
          "delta = min (m (Suc n)) d1" "next_column = (if m (Suc n) < d1 then Suc n else n1)"
        using last m1 by (auto simp: Let_def min_def split: if_splits)
      note ih = Suc.IH [OF f]
      have "m j = (if 1 \<le> j \<and> j \<le> Suc n \<and> \<not> used j then min (m0 j) (reduced j) else m0 j)" for j
        using ih eqs(1) m1 False by (cases "j = Suc n") (auto simp: min_def le_Suc_eq)
      moreover have "w j = (if 1 \<le> j \<and> j \<le> Suc n \<and> \<not> used j \<and> reduced j < m0 j then c else w0 j)" for j
        using ih eqs(2) False by (cases "j = Suc n") (auto simp: le_Suc_eq)
      moreover have "delta \<le> m j" if "1 \<le> j" "j \<le> Suc n" "\<not> used j" for j
        using that ih eqs(1,3) by (cases "j = Suc n") (auto simp: min_def le_Suc_eq)
      moreover have "delta \<le> infinity" using ih eqs(3) by (simp add: min.coboundedI2)
      moreover have "1 \<le> next_column \<and> next_column \<le> Suc n \<and> \<not> used next_column \<and> m next_column = delta" if "delta < infinity"
      proof (cases "m (Suc n) < d1")
        case True
        then show ?thesis using eqs(3,4) False by simp
      next
        case ge: False
        then have "delta = d1" "next_column = n1" using eqs(3,4) by simp_all
        then have "1 \<le> n1 \<and> n1 \<le> n \<and> \<not> used n1 \<and> m1 n1 = d1" using ih that by blast
        then show ?thesis using eqs(1) \<open>delta = d1\<close> \<open>next_column = n1\<close> by auto
      qed
      ultimately show ?thesis by blast
    qed
  qed
  then show "\<forall>j. m j = (if 1 \<le> j \<and> j \<le> n \<and> \<not> used j then min (m0 j) (reduced j) else m0 j)"
    and "\<forall>j. w j = (if 1 \<le> j \<and> j \<le> n \<and> \<not> used j \<and> reduced j < m0 j then c else w0 j)"
    and "\<forall>j. 1 \<le> j \<and> j \<le> n \<and> \<not> used j \<longrightarrow> delta \<le> m j"
    and "delta \<le> infinity"
    and "delta < infinity \<longrightarrow> 1 \<le> next_column \<and> next_column \<le> n \<and> \<not> used next_column \<and> m next_column = delta"
    by blast+
qed

lemma fold_shift_columns:
  assumes "fold (shift_column used p delta) [0..<n] (u0, v0, m0) = (u, v, m)"
    and "inj_on p {j. j < n \<and> used j}"
  shows "\<forall>r. u r = (if r \<in> p ` {j. j < n \<and> used j} then u0 r + delta else u0 r)"
    and "\<forall>j. v j = (if j < n \<and> used j then v0 j - delta else v0 j)"
    and "\<forall>j. m j = (if j < n \<and> \<not> used j then m0 j - delta else m0 j)"
proof -
  have "(\<forall>r. u r = (if r \<in> p ` {j. j < n \<and> used j} then u0 r + delta else u0 r)) \<and>
    (\<forall>j. v j = (if j < n \<and> used j then v0 j - delta else v0 j)) \<and>
    (\<forall>j. m j = (if j < n \<and> \<not> used j then m0 j - delta else m0 j))"
    using assms
  proof (induction n arbitrary: u v m)
    case (Suc n)
    obtain u1 v1 m1 where f: "fold (shift_column used p delta) [0..<n] (u0, v0, m0) = (u1, v1, m1)"
      by (metis prod_cases3)
    then have last: "shift_column used p delta n (u1, v1, m1) = (u, v, m)"
      using Suc.prems by simp
    have inj: "inj_on p {j. j < n \<and> used j}"
      using Suc.prems(2) by (rule inj_on_subset) auto
    note ih = Suc.IH [OF f inj]
    show ?case
    proof (cases "used n")
      case False
      have "{j. j < Suc n \<and> used j} = {j. j < n \<and> used j}" using False by (auto simp: less_Suc_eq)
      with False last ih show ?thesis by (auto simp: less_Suc_eq)
    next
      case True
      then have set: "{j. j < Suc n \<and> used j} = insert n {j. j < n \<and> used j}" by (auto simp: less_Suc_eq)
      have "p n \<notin> p ` {j. j < n \<and> used j}"
      proof
        assume "p n \<in> p ` {j. j < n \<and> used j}"
        then obtain k where "k < n" "used k" "p n = p k" by auto
        with Suc.prems(2) True show False by (auto dest: inj_onD [of _ _ n k])
      qed
      with True set last ih show ?thesis by (auto simp: less_Suc_eq)
    qed
  qed simp
  then show "\<forall>r. u r = (if r \<in> p ` {j. j < n \<and> used j} then u0 r + delta else u0 r)"
    and "\<forall>j. v j = (if j < n \<and> used j then v0 j - delta else v0 j)"
    and "\<forall>j. m j = (if j < n \<and> \<not> used j then m0 j - delta else m0 j)"
    by blast+
qed

section \<open>Potentials\<close>

text \<open>
  Potentials that are feasible, tight on matched columns and zero on free ones; \<open>p\<close> maps a column to
  the row it is matched with, 0 for none.
\<close>

definition potentials_ok ::
  "(nat \<Rightarrow> nat \<Rightarrow> int) \<Rightarrow> nat \<Rightarrow> nat \<Rightarrow> (nat \<Rightarrow> nat) \<Rightarrow> array \<Rightarrow> array \<Rightarrow> bool" where
  "potentials_ok c rows columns p u v \<longleftrightarrow>
     (\<forall>i j. 1 \<le> i \<and> i \<le> rows \<and> 1 \<le> j \<and> j \<le> columns \<longrightarrow> u i + v j \<le> c i j) \<and>
     (\<forall>i. 1 \<le> i \<and> i \<le> rows \<longrightarrow> 0 \<le> u i) \<and>
     (\<forall>j. 1 \<le> j \<and> j \<le> columns \<longrightarrow> v j \<le> 0) \<and>
     (\<forall>j. 1 \<le> j \<and> j \<le> columns \<and> p j = 0 \<longrightarrow> v j = 0) \<and>
     (\<forall>j. 1 \<le> j \<and> j \<le> columns \<and> p j \<noteq> 0 \<longrightarrow> u (p j) + v j = c (p j) j)"

text \<open>\<open>p\<close> matches each row at most once; column 0 carries the row being inserted.\<close>

definition matching_ok :: "nat \<Rightarrow> nat \<Rightarrow> (nat \<Rightarrow> nat) \<Rightarrow> bool" where
  "matching_ok rows columns p \<longleftrightarrow>
     (\<forall>j \<le> columns. p j \<le> rows) \<and> (\<forall>j \<le> columns. \<forall>k \<le> columns. p j = p k \<and> p j \<noteq> 0 \<longrightarrow> j = k)"

lemma slack_bounds:
  assumes pot: "potentials_ok c rows columns p u v" and mat: "matching_ok rows columns p"
    and free: "1 \<le> f" "f \<le> columns" "p f = 0"
    and costs: "\<forall>i j. 1 \<le> i \<and> i \<le> rows \<and> 1 \<le> j \<and> j \<le> columns \<longrightarrow> 0 \<le> c i j \<and> c i j \<le> 10000"
    and ij: "1 \<le> i" "i \<le> rows" "1 \<le> j" "j \<le> columns"
  shows "0 \<le> c i j - u i - v j" and "c i j - u i - v j \<le> 20000"
proof -
  have feasible: "u i + v j \<le> c i j" if "1 \<le> i" "i \<le> rows" "1 \<le> j" "j \<le> columns" for i j
    using pot that by (simp add: potentials_ok_def)
  show "0 \<le> c i j - u i - v j" using feasible [OF ij] by simp
  have vf: "v f = 0" using pot free by (simp add: potentials_ok_def)
  have "- 10000 \<le> v j"
  proof (cases "p j = 0")
    case True
    then show ?thesis using pot ij by (simp add: potentials_ok_def)
  next
    case False
    then have pj: "1 \<le> p j" "p j \<le> rows" using mat ij by (auto simp: matching_ok_def)
    have "u (p j) + v j = c (p j) j" using pot ij False by (simp add: potentials_ok_def)
    moreover have "u (p j) \<le> c (p j) f" using feasible [OF pj free(1,2)] vf by simp
    moreover have "c (p j) f \<le> 10000" "0 \<le> c (p j) j" using costs pj free ij by blast+
    ultimately show ?thesis by linarith
  qed
  moreover have "0 \<le> u i" using pot ij by (simp add: potentials_ok_def)
  moreover have "c i j \<le> 10000" using costs ij by blast
  ultimately show "c i j - u i - v j \<le> 20000" by linarith
qed


section \<open>The search for an augmenting path\<close>

definition slack :: "(nat \<Rightarrow> nat \<Rightarrow> int) \<Rightarrow> array \<Rightarrow> array \<Rightarrow> nat \<Rightarrow> nat \<Rightarrow> int" where
  "slack c u v i j = c i j - u i - v j"

text \<open>
  The used columns form a tree of tight edges rooted in column 0; the minimum of an unused column is
  its least slack to a row of the tree, reached from its predecessor.
\<close>

definition tree_ok ::
  "(nat \<Rightarrow> nat \<Rightarrow> int) \<Rightarrow> nat \<Rightarrow> (nat \<Rightarrow> nat) \<Rightarrow> (nat \<Rightarrow> bool) \<Rightarrow> (nat \<Rightarrow> nat) \<Rightarrow> array \<Rightarrow> array \<Rightarrow> bool" where
  "tree_ok c columns p used pred u v \<longleftrightarrow>
     (\<forall>j. used j \<longrightarrow> j \<le> columns \<and> p j \<noteq> 0) \<and>
     (\<forall>j. used j \<and> j \<noteq> 0 \<longrightarrow> used (pred j) \<and> slack c u v (p (pred j)) j = 0) \<and>
     (\<exists>rank :: nat \<Rightarrow> nat. \<forall>j. used j \<and> j \<noteq> 0 \<longrightarrow> rank (pred j) < rank j)"

definition minimums_ok ::
  "(nat \<Rightarrow> nat \<Rightarrow> int) \<Rightarrow> nat \<Rightarrow> (nat \<Rightarrow> nat) \<Rightarrow> (nat \<Rightarrow> bool) \<Rightarrow> (nat \<Rightarrow> nat) \<Rightarrow> array \<Rightarrow> array \<Rightarrow> array \<Rightarrow> bool" where
  "minimums_ok c columns p used pred m u v \<longleftrightarrow>
     (\<forall>j. 1 \<le> j \<and> j \<le> columns \<and> \<not> used j \<longrightarrow>
        (if used 0 then used (pred j) \<and> m j = slack c u v (p (pred j)) j \<and> (\<forall>k. used k \<longrightarrow> m j \<le> slack c u v (p k) j)
         else m j = infinity))"

definition search_inv :: "(nat \<Rightarrow> nat \<Rightarrow> int) \<Rightarrow> nat \<Rightarrow> nat \<Rightarrow> (nat \<Rightarrow> nat) \<Rightarrow> search_state \<Rightarrow> bool" where
  "search_inv c rows columns p st \<longleftrightarrow>
     potentials_ok c rows columns p (se_row_potential st) (se_column_potential st) \<and>
     tree_ok c columns p (se_used st) (se_predecessor st) (se_row_potential st) (se_column_potential st) \<and>
     minimums_ok c columns p (se_used st) (se_predecessor st) (se_minimums st) (se_row_potential st) (se_column_potential st) \<and>
     se_column_zero st \<le> columns \<and> \<not> se_used st (se_column_zero st) \<and>
     (if se_column_zero st = 0 then \<forall>j. \<not> se_used st j else se_used st 0 \<and> se_minimums st (se_column_zero st) = 0)"

lemma potentials_shift:
  assumes pot: "potentials_ok c rows columns p u v" and mat: "matching_ok rows columns p"
    and used: "\<forall>j. used j \<longrightarrow> j \<le> columns \<and> p j \<noteq> 0" and delta: "0 \<le> delta"
    and least: "\<forall>j k. 1 \<le> j \<and> j \<le> columns \<and> \<not> used j \<and> used k \<longrightarrow> delta \<le> slack c u v (p k) j"
    and u': "\<forall>r. u' r = (if r \<in> p ` {j. used j} then u r + delta else u r)"
    and v': "\<forall>j. v' j = (if used j then v j - delta else v j)"
  shows "potentials_ok c rows columns p u' v'"
proof -
  have inj: "p j \<in> p ` {j. used j} \<longleftrightarrow> used j" if "j \<le> columns" "p j \<noteq> 0" for j
    using mat used that unfolding matching_ok_def by blast
  have "u' i + v' j \<le> c i j" if ij: "1 \<le> i" "i \<le> rows" "1 \<le> j" "j \<le> columns" for i j
  proof -
    have "u i + v j \<le> c i j" using pot ij by (simp add: potentials_ok_def)
    moreover have "delta \<le> c i j - u i - v j" if "i \<in> p ` {j. used j}" "\<not> used j"
      using least ij that by (auto simp: slack_def)
    ultimately show ?thesis
      using delta spec [OF u', of i] spec [OF v', of j] by (cases "i \<in> p ` {j. used j}"; cases "used j") simp_all
  qed
  moreover have "0 \<le> u' i" if "1 \<le> i" "i \<le> rows" for i
    using pot that delta spec [OF u', of i] by (simp add: potentials_ok_def)
  moreover have "v' j \<le> 0" if "1 \<le> j" "j \<le> columns" for j
  proof -
    have "v j \<le> 0" using pot that by (simp add: potentials_ok_def)
    then show ?thesis using delta spec [OF v', of j] by simp
  qed
  moreover have "v' j = 0" if "1 \<le> j" "j \<le> columns" "p j = 0" for j
    using pot that used spec [OF v', of j] by (auto simp: potentials_ok_def)
  moreover have "u' (p j) + v' j = c (p j) j" if j: "1 \<le> j" "j \<le> columns" "p j \<noteq> 0" for j
  proof -
    have "u (p j) + v j = c (p j) j" using pot j by (simp add: potentials_ok_def)
    then show ?thesis using inj [of j] j spec [OF u', of "p j"] spec [OF v', of j] by simp
  qed
  ultimately show ?thesis unfolding potentials_ok_def by blast
qed

lemma search_step_inv:
  assumes inv: "search_inv (cost costs) rows columns p st" and mat: "matching_ok rows columns p"
    and c0: "p (se_column_zero st) \<noteq> 0" and free: "1 \<le> f" "f \<le> columns" "p f = 0"
    and costs: "\<forall>i j. 1 \<le> i \<and> i \<le> rows \<and> 1 \<le> j \<and> j \<le> columns \<longrightarrow> 0 \<le> cost costs i j \<and> cost costs i j \<le> 10000"
  shows "search_inv (cost costs) rows columns p (search_step costs columns p st)"
    and "se_used (search_step costs columns p st) = (se_used st)(se_column_zero st := True)"
    and "se_column_zero (search_step costs columns p st) \<noteq> 0"
proof -
  define c where "c = cost costs"
  define z where "z = se_column_zero st"
  define used where "used = se_used st"
  define used' where "used' = used(z := True)"
  define u where "u = se_row_potential st"
  define v where "v = se_column_potential st"
  define m where "m = se_minimums st"
  define w where "w = se_predecessor st"
  define reduced where "reduced = (\<lambda>j. c (p z) j - u (p z) - v j)"
  obtain m1 w1 delta next_column where scan:
    "fold (scan_column reduced used' z) [1..<Suc columns] (m, w, infinity, 0) = (m1, w1, delta, next_column)"
    by (metis prod_cases4)
  obtain u' v' m' where shift: "fold (shift_column used' p delta) [0..<Suc columns] (u, v, m1) = (u', v', m')"
    by (metis prod_cases3)
  have step: "search_step costs columns p st = \<lparr>se_used = used', se_minimums = m', se_predecessor = w1,
      se_row_potential = u', se_column_potential = v', se_column_zero = next_column\<rparr>"
    using scan shift unfolding search_step_def Let_def
    by (simp add: c_def z_def used_def used'_def u_def v_def m_def w_def reduced_def)
  have pot: "potentials_ok c rows columns p u v" and tree: "tree_ok c columns p used w u v"
    and mins: "minimums_ok c columns p used w m u v" and z: "z \<le> columns" "\<not> used z"
    and z0: "if z = 0 then \<forall>j. \<not> used j else used 0 \<and> m z = 0"
    using inv by (simp_all add: search_inv_def c_def z_def used_def u_def v_def m_def w_def)
  have pz: "1 \<le> p z" "p z \<le> rows" using c0 z mat by (auto simp: z_def matching_ok_def)
  have used_ok: "\<forall>j. used' j \<longrightarrow> j \<le> columns \<and> p j \<noteq> 0"
    using tree z c0 by (auto simp: used'_def tree_ok_def z_def)
  have inj: "inj_on p {j. j < Suc columns \<and> used' j}"
    using used_ok mat unfolding inj_on_def matching_ok_def by auto
  have rows_used: "1 \<le> p j \<and> p j \<le> rows" if "used' j" for j
    using used_ok that mat unfolding matching_ok_def by force
  note scanned = fold_scan_columns [OF scan]
  have used_set: "{j. j < Suc columns \<and> used' j} = {j. used' j}" using used_ok by auto
  note shifted = fold_shift_columns [OF shift inj, unfolded used_set]
  have bound: "0 \<le> slack c u v i j" "slack c u v i j \<le> 20000" if "1 \<le> i" "i \<le> rows" "1 \<le> j" "j \<le> columns" for i j
    using slack_bounds [OF pot mat free costs [folded c_def] that] by (simp_all add: slack_def)
  have reduced: "reduced j = slack c u v (p z) j" for j by (simp add: reduced_def slack_def)
  have used0: "used 0 \<longleftrightarrow> z \<noteq> 0" using z0 z(2) by (auto split: if_splits)
  have close: "m1 j = slack c u v (p (w1 j)) j \<and> used' (w1 j) \<and> (\<forall>k. used' k \<longrightarrow> m1 j \<le> slack c u v (p k) j)"
    if j: "1 \<le> j" "j \<le> columns" "\<not> used' j" for j
  proof -
    have nj: "\<not> used j" using j by (auto simp: used'_def split: if_splits)
    have m1: "m1 j = min (m j) (reduced j)" and w1: "w1 j = (if reduced j < m j then z else w j)"
      using scanned(1,2) j by auto
    show ?thesis
    proof (cases "used 0")
      case True
      then have old: "used (w j)" "m j = slack c u v (p (w j)) j" "\<forall>k. used k \<longrightarrow> m j \<le> slack c u v (p k) j"
        using mins j nj by (auto simp: minimums_ok_def)
      then show ?thesis using m1 w1 by (auto simp: used'_def reduced min_def)
    next
      case False
      then have "z = 0" "m j = infinity" using used0 mins j nj by (auto simp: minimums_ok_def)
      moreover have "\<forall>k. \<not> used k" using z0 \<open>z = 0\<close> by simp
      moreover have "reduced j \<le> 20000" using bound(2) [OF pz j(1,2)] reduced by simp
      ultimately show ?thesis using m1 w1 by (auto simp: used'_def reduced infinity_def min_def)
    qed
  qed
  have nf: "\<not> used' f" using used_ok free by auto
  have "delta \<le> m1 f" using scanned(3) free nf by blast
  also have "\<dots> \<le> slack c u v (p z) f" using close [OF free(1,2) nf] by (auto simp: used'_def)
  also have "\<dots> \<le> 20000" using bound(2) [OF pz free(1,2)] .
  finally have "delta < infinity" by (simp add: infinity_def)
  then have nxt: "1 \<le> next_column" "next_column \<le> columns" "\<not> used' next_column" "m1 next_column = delta"
    using scanned(5) by auto
  have delta: "0 \<le> delta"
    using close [OF nxt(1-3)] nxt rows_used bound(1) by metis
  have least: "\<forall>j k. 1 \<le> j \<and> j \<le> columns \<and> \<not> used' j \<and> used' k \<longrightarrow> delta \<le> slack c u v (p k) j"
    using close scanned(3) by (meson order_trans)
  have u': "\<forall>r. u' r = (if r \<in> p ` {j. used' j} then u r + delta else u r)" using shifted(1) .
  have v': "\<forall>j. v' j = (if used' j then v j - delta else v j)" using shifted(2) used_ok by auto
  have pot': "potentials_ok c rows columns p u' v'"
    by (rule potentials_shift [OF pot mat used_ok delta least u' v'])
  have slack_used: "slack c u' v' (p k) j = slack c u v (p k) j" if "used' k" "used' j" for k j
    using u' v' that by (auto simp: slack_def)
  have slack_unused: "slack c u' v' (p k) j = slack c u v (p k) j - delta" if "used' k" "\<not> used' j" for k j
    using u' v' that by (auto simp: slack_def)
  have w1_used: "w1 j = w j" if "used' j" for j using scanned(2) that by auto
  have tree': "tree_ok c columns p used' w1 u' v'"
  proof -
    have parent: "used (w j) \<and> slack c u v (p (w j)) j = 0" if "used' j" "j \<noteq> 0" for j
    proof (cases "j = z")
      case True
      then have "used 0" using used0 that by simp
      then have "used (w z) \<and> m z = slack c u v (p (w z)) z"
        using mins z True that unfolding minimums_ok_def by (metis Suc_leI One_nat_def gr0I)
      moreover have "m z = 0" using z0 True that by simp
      ultimately show ?thesis using True by simp
    next
      case False
      then show ?thesis using tree that by (auto simp: tree_ok_def used'_def)
    qed
    obtain rank :: "nat \<Rightarrow> nat" where rank: "\<forall>j. used j \<and> j \<noteq> 0 \<longrightarrow> rank (w j) < rank j"
      using tree by (auto simp: tree_ok_def)
    have ranked: "(rank(z := Suc (rank (w z)))) (w1 j) < (rank(z := Suc (rank (w z)))) j" if "used' j" "j \<noteq> 0" for j
    proof -
      have "w j \<noteq> z" using parent [OF that] z(2) by auto
      then show ?thesis using that rank w1_used [OF that(1)] by (auto simp: used'_def)
    qed
    have edges: "used' (w1 j) \<and> slack c u' v' (p (w1 j)) j = 0" if "used' j" "j \<noteq> 0" for j
      using parent [OF that] w1_used [OF that(1)] slack_used [OF _ that(1), of "w j"] by (auto simp: used'_def)
    show ?thesis using used_ok edges ranked unfolding tree_ok_def by blast
  qed
  have used'0: "used' 0" using used0 by (auto simp: used'_def)
  have m': "m' j = m1 j - delta" if "j \<le> columns" "\<not> used' j" for j using shifted(3) that by auto
  have "used' (w1 j) \<and> m' j = slack c u' v' (p (w1 j)) j \<and> (\<forall>k. used' k \<longrightarrow> m' j \<le> slack c u' v' (p k) j)"
    if "1 \<le> j" "j \<le> columns" "\<not> used' j" for j
    using close [OF that] m' [OF that(2,3)] slack_unused [OF _ that(3)] by (metis diff_right_mono)
  then have mins': "minimums_ok c columns p used' w1 m' u' v'"
    using used'0 unfolding minimums_ok_def by metis
  have "m' next_column = 0" using m' nxt by simp
  then show "search_inv (cost costs) rows columns p (search_step costs columns p st)"
    using pot' tree' mins' nxt used'0 unfolding step search_inv_def by (simp add: c_def)
  show "se_used (search_step costs columns p st) = (se_used st)(se_column_zero st := True)"
    by (simp add: step used'_def used_def z_def)
  show "se_column_zero (search_step costs columns p st) \<noteq> 0"
    using nxt by (simp add: step)
qed

lemma search_finds:
  assumes "search_inv (cost costs) rows columns p st" and mat: "matching_ok rows columns p"
    and "p (se_column_zero st) \<noteq> 0" and free: "1 \<le> f" "f \<le> columns" "p f = 0"
    and costs: "\<forall>i j. 1 \<le> i \<and> i \<le> rows \<and> 1 \<le> j \<and> j \<le> columns \<longrightarrow> 0 \<le> cost costs i j \<and> cost costs i j \<le> 10000"
  shows "\<exists>st'. search costs columns p st = Some st' \<and> search_inv (cost costs) rows columns p st' \<and>
     p (se_column_zero st') = 0 \<and> se_column_zero st' \<noteq> 0"
  using assms(1,3)
proof (induction "card {j. j \<le> columns \<and> \<not> se_used st j}" arbitrary: st rule: less_induct)
  case less
  let ?st = "search_step costs columns p st"
  note step = search_step_inv [OF less.prems(1) mat less.prems(2) free costs]
  show ?case
  proof (cases "p (se_column_zero ?st) = 0")
    case True
    then show ?thesis using step by (subst search.simps) (simp add: Let_def)
  next
    case False
    have z: "se_column_zero st \<le> columns" "\<not> se_used st (se_column_zero st)"
      using less.prems(1) by (simp_all add: search_inv_def)
    have "{j. j \<le> columns \<and> \<not> se_used ?st j} = {j. j \<le> columns \<and> \<not> se_used st j} - {se_column_zero st}"
      using step(2) by auto
    then have "card {j. j \<le> columns \<and> \<not> se_used ?st j} < card {j. j \<le> columns \<and> \<not> se_used st j}"
      using z by (intro psubset_card_mono) auto
    from less.hyps [OF this step(1) False] False show ?thesis
      by (subst search.simps) (simp add: Let_def)
  qed
qed


section \<open>Augmenting along the path\<close>

text \<open>The columns \<open>ks\<close> from \<open>c\<close> along the predecessors until column 0.\<close>

definition chain :: "(nat \<Rightarrow> nat) \<Rightarrow> nat \<Rightarrow> nat list \<Rightarrow> bool" where
  "chain pred c ks \<longleftrightarrow> ks \<noteq> [] \<and> hd ks = c \<and> map pred ks = tl ks @ [0]"

lemma chain_Cons: "chain pred c (k # ks) \<longleftrightarrow> k = c \<and> (if ks = [] then pred k = 0 else chain pred (pred k) ks)"
  by (cases ks) (auto simp: chain_def)

lemma chain_facts:
  assumes "chain pred c ks" and "distinct ks"
  shows "c \<in> set ks" and "pred ` set ks = insert 0 (set ks - {c})"
proof -
  show "c \<in> set ks" using assms by (cases ks) (auto simp: chain_def)
  have "pred ` set ks = set (map pred ks)" by simp
  also have "\<dots> = set (tl ks @ [0])" using assms by (simp add: chain_def)
  also have "\<dots> = insert 0 (set ks - {c})" using assms by (cases ks) (auto simp: chain_def)
  finally show "pred ` set ks = insert 0 (set ks - {c})" .
qed

lemma chain_pred_inj: "chain pred c ks \<Longrightarrow> distinct ks \<Longrightarrow> 0 \<notin> set ks \<Longrightarrow> inj_on pred (set ks)"
proof -
  assume c: "chain pred c ks" "distinct ks" "0 \<notin> set ks"
  then have "distinct (tl ks @ [0])" by (cases ks) auto
  then have "distinct (map pred ks)" using c(1) by (simp add: chain_def)
  then show ?thesis by (simp add: distinct_map)
qed

lemma tree_chain:
  assumes "tree_ok c columns p used pred u v" and "used j" and "j \<noteq> 0"
  shows "\<exists>ks. chain pred j ks \<and> distinct ks \<and> 0 \<notin> set ks \<and> (\<forall>k \<in> set ks. used k)"
proof -
  obtain rank :: "nat \<Rightarrow> nat" where rank: "\<forall>j. used j \<and> j \<noteq> 0 \<longrightarrow> rank (pred j) < rank j"
    using assms(1) by (auto simp: tree_ok_def)
  have "\<exists>ks. chain pred j ks \<and> distinct ks \<and> 0 \<notin> set ks \<and> (\<forall>k \<in> set ks. used k \<and> rank k \<le> rank j)"
    using assms(2,3)
  proof (induction "rank j" arbitrary: j rule: less_induct)
    case less
    have up: "used (pred j)" "rank (pred j) < rank j" using assms(1) rank less.prems by (auto simp: tree_ok_def)
    show ?case
    proof (cases "pred j = 0")
      case True
      then show ?thesis using less.prems by (intro exI [of _ "[j]"]) (simp add: chain_def)
    next
      case False
      then obtain ks where ks: "chain pred (pred j) ks" "distinct ks" "0 \<notin> set ks"
          "\<forall>k \<in> set ks. used k \<and> rank k \<le> rank (pred j)"
        using less.hyps [OF up(2,1)] by blast
      then have "j \<notin> set ks" using up by auto
      moreover have "ks \<noteq> []" using ks(1) by (auto simp: chain_def)
      ultimately show ?thesis
        using ks up less.prems by (intro exI [of _ "j # ks"]) (auto simp: chain_Cons)
    qed
  qed
  then show ?thesis by blast
qed

lemma augment_chain:
  assumes "chain pred c ks" and "distinct ks" and "0 \<notin> set ks"
  shows "augment pred p c = Some (\<lambda>j. if j \<in> set ks then p (pred j) else p j)"
  using assms
proof (induction ks arbitrary: c p)
  case (Cons k ks)
  have c: "k = c" using Cons.prems(1) by (simp add: chain_Cons)
  show ?case
  proof (cases "ks = []")
    case True
    then have "pred c = 0" using Cons.prems(1) c by (simp add: chain_Cons)
    then show ?thesis using True c by (subst augment.simps) (auto simp: Let_def fun_eq_iff)
  next
    case False
    then have tail: "chain pred (pred c) ks" using Cons.prems(1) c by (simp add: chain_Cons)
    have sub: "distinct ks" "0 \<notin> set ks" "c \<notin> set ks" using Cons.prems c by auto
    note facts = chain_facts [OF tail sub(1)]
    have nz: "pred c \<noteq> 0" using facts(1) sub(2) by metis
    have "augment pred (p(c := p (pred c))) (pred c) =
        Some (\<lambda>j. if j \<in> set ks then (p(c := p (pred c))) (pred j) else (p(c := p (pred c))) j)"
      using tail Cons.prems by (intro Cons.IH) simp_all
    moreover have "pred j \<noteq> c" if "j \<in> set ks" for j
      using facts(2) that sub(3) Cons.prems(3) c by (metis Diff_iff imageI insert_iff list.set_intros(1))
    ultimately show ?thesis
      using nz c by (subst augment.simps) (auto simp: Let_def fun_eq_iff)
  qed
qed (simp add: chain_def)


text \<open>After the search: the path from the free column found turns the matching into a larger one.\<close>

lemma augment_search:
  assumes inv: "search_inv c rows columns p st" and mat: "matching_ok rows columns p"
    and found: "p (se_column_zero st) = 0" "se_column_zero st \<noteq> 0"
  shows "\<exists>q. augment (se_predecessor st) p (se_column_zero st) = Some q \<and>
     potentials_ok c rows columns q (se_row_potential st) (se_column_potential st) \<and> matching_ok rows columns (q(0 := 0)) \<and>
     q ` {1..columns} - {0} = p ` {0..columns} - {0}"
proof -
  define z where "z = se_column_zero st"
  define pred where "pred = se_predecessor st"
  define u where "u = se_row_potential st"
  define v where "v = se_column_potential st"
  define used where "used = se_used st"
  have pot: "potentials_ok c rows columns p u v" and tree: "tree_ok c columns p used pred u v"
    and mins: "minimums_ok c columns p used pred (se_minimums st) u v"
    and z: "z \<le> columns" "\<not> used z" "used 0" "se_minimums st z = 0" "1 \<le> z" "p z = 0"
    using inv found by (simp_all add: search_inv_def z_def pred_def u_def v_def used_def)
  have parent: "used (pred z)" "slack c u v (p (pred z)) z = 0"
    using mins z by (simp_all add: minimums_ok_def)
  obtain ks where ks: "chain pred z ks" "distinct ks" "0 \<notin> set ks" "\<forall>k \<in> set ks. k = z \<or> used k"
  proof (cases "pred z = 0")
    case True
    then show thesis using z by (intro that [of "[z]"]) (simp_all add: chain_def)
  next
    case False
    obtain ls where ls: "chain pred (pred z) ls" "distinct ls" "0 \<notin> set ls" "\<forall>k \<in> set ls. used k"
      using tree_chain [OF tree parent(1) False] by blast
    have "ls \<noteq> []" using ls(1) by (simp add: chain_def)
    moreover have "z \<notin> set ls" using ls(4) z(2) by blast
    ultimately show thesis using ls z by (intro that [of "z # ls"]) (auto simp: chain_Cons)
  qed
  define q where "q = (\<lambda>j. if j \<in> set ks then p (pred j) else p j)"
  have aug: "augment pred p z = Some q"
    unfolding q_def by (rule augment_chain [OF ks(1-3)])
  note image = chain_facts(2) [OF ks(1,2)]
  have inj: "inj_on pred (set ks)" by (rule chain_pred_inj [OF ks(1-3)])
  have on_path: "1 \<le> k \<and> k \<le> columns \<and> used (pred k) \<and> slack c u v (p (pred k)) k = 0 \<and> p (pred k) \<noteq> 0"
    if "k \<in> set ks" for k
  proof -
    have "k \<noteq> 0" using that ks(3) by metis
    moreover have "used (pred k) \<and> slack c u v (p (pred k)) k = 0 \<and> k \<le> columns"
      using ks(4) that parent tree \<open>k \<noteq> 0\<close> z(1) by (auto simp: tree_ok_def)
    moreover from this have "p (pred k) \<noteq> 0" using tree by (auto simp: tree_ok_def)
    ultimately show ?thesis by simp
  qed
  have pj: "p j = p k \<Longrightarrow> p j \<noteq> 0 \<Longrightarrow> j = k" if "j \<le> columns" "k \<le> columns" for j k
    using mat that by (auto simp: matching_ok_def)
  have used_le: "used j \<Longrightarrow> j \<le> columns" for j using tree by (auto simp: tree_ok_def)
  have q_inj: "j = k" if jk: "1 \<le> j" "j \<le> columns" "1 \<le> k" "k \<le> columns" "q j = q k" "q j \<noteq> 0" for j k
  proof -
    have cross: False if a: "a \<in> set ks" and b: "b \<notin> set ks" "1 \<le> b" "b \<le> columns" and e: "p (pred a) = p b" for a b
    proof -
      have "pred a = b" using pj [of "pred a" b] e on_path [OF a] used_le b by simp
      then have "b = 0 \<or> b \<in> set ks" using image a by (metis Diff_iff imageI insert_iff)
      then show False using b by simp
    qed
    show ?thesis
    proof (cases "j \<in> set ks"; cases "k \<in> set ks")
      assume a: "j \<in> set ks" "k \<in> set ks"
      then have "p (pred j) = p (pred k)" using jk(5) by (simp add: q_def)
      then have "pred j = pred k" using pj [of "pred j" "pred k"] on_path [OF a(1)] on_path [OF a(2)] used_le by simp
      then show ?thesis using inj a by (simp add: inj_onD)
    next
      assume "j \<in> set ks" "k \<notin> set ks"
      then show ?thesis using cross [of j k] jk by (simp add: q_def)
    next
      assume "j \<notin> set ks" "k \<in> set ks"
      then show ?thesis using cross [of k j] jk by (simp add: q_def)
    next
      assume "j \<notin> set ks" "k \<notin> set ks"
      then show ?thesis using pj [of j k] jk by (simp add: q_def)
    qed
  qed
  have q_le: "q j \<le> rows" if "j \<le> columns" for j
    using mat that on_path used_le by (auto simp: q_def matching_ok_def)
  have "matching_ok rows columns (q(0 := 0))"
    using q_le q_inj unfolding matching_ok_def by (auto simp: Suc_le_eq)
  moreover have "potentials_ok c rows columns q u v"
  proof -
    have "v j = 0" if "1 \<le> j" "j \<le> columns" "q j = 0" for j
    proof -
      have "j \<notin> set ks" using on_path [of j] that by (auto simp: q_def)
      then show ?thesis using that pot by (auto simp: q_def potentials_ok_def)
    qed
    moreover have "u (q j) + v j = c (q j) j" if "1 \<le> j" "j \<le> columns" "q j \<noteq> 0" for j
    proof (cases "j \<in> set ks")
      case True
      then show ?thesis using on_path [OF True] by (simp add: q_def slack_def)
    next
      case False
      then show ?thesis using that pot by (simp add: q_def potentials_ok_def)
    qed
    ultimately show ?thesis using pot unfolding potentials_ok_def by blast
  qed
  moreover have "q ` {1..columns} - {0} = p ` {0..columns} - {0}"
  proof
    show "q ` {1..columns} - {0} \<subseteq> p ` {0..columns} - {0}"
      using on_path used_le by (auto simp: q_def)
    show "p ` {0..columns} - {0} \<subseteq> q ` {1..columns} - {0}"
    proof
      fix r assume "r \<in> p ` {0..columns} - {0}"
      then obtain j where j: "j \<le> columns" "r = p j" "r \<noteq> 0" by auto
      show "r \<in> q ` {1..columns} - {0}"
      proof (cases "j = 0 \<or> j \<in> set ks")
        case True
        moreover have "j \<noteq> z" using j z(6) by metis
        ultimately have "j \<in> pred ` set ks" using image by blast
        then obtain k where "k \<in> set ks" "pred k = j" by blast
        then have "q k = r" "1 \<le> k" "k \<le> columns" using on_path [of k] j by (auto simp: q_def)
        then show ?thesis using j by force
      next
        case False
        then have "q j = r" "1 \<le> j" using j by (auto simp: q_def)
        then show ?thesis using j by force
      qed
    qed
  qed
  ultimately show ?thesis using aug by (auto simp: z_def pred_def u_def v_def)
qed

section \<open>All rows\<close>

text \<open>Between two rows: the rows before \<open>row\<close> are matched, each with one column.\<close>

definition rows_done :: "(nat \<Rightarrow> nat \<Rightarrow> int) \<Rightarrow> nat \<Rightarrow> nat \<Rightarrow> nat \<Rightarrow> (nat \<Rightarrow> nat) \<Rightarrow> array \<Rightarrow> array \<Rightarrow> bool" where
  "rows_done c rows columns row p u v \<longleftrightarrow>
     potentials_ok c rows columns p u v \<and> matching_ok rows columns (p(0 := 0)) \<and> p ` {1..columns} - {0} = {1..<row}"

lemma matching_inj:
  assumes "matching_ok rows columns (p(0 := r))"
  shows "inj_on p {j \<in> {1..columns}. p j \<noteq> 0}"
proof (rule inj_onI)
  fix j k assume jk: "j \<in> {j \<in> {1..columns}. p j \<noteq> 0}" "k \<in> {j \<in> {1..columns}. p j \<noteq> 0}" "p j = p k"
  then have "(p(0 := r)) j = (p(0 := r)) k" "(p(0 := r)) j \<noteq> 0" "j \<le> columns" "k \<le> columns" by auto
  then show "j = k" using assms unfolding matching_ok_def by blast
qed

lemma assign_row:
  assumes prev: "rows_done (cost costs) rows columns row p u v" and row: "1 \<le> row" "row \<le> rows" "rows \<le> columns"
    and costs: "\<forall>i j. 1 \<le> i \<and> i \<le> rows \<and> 1 \<le> j \<and> j \<le> columns \<longrightarrow> 0 \<le> cost costs i j \<and> cost costs i j \<le> 10000"
  shows "\<exists>st q. search costs columns (p(0 := row))
       \<lparr>se_used = (\<lambda>_. False), se_minimums = (\<lambda>_. infinity), se_predecessor = pred,
        se_row_potential = u, se_column_potential = v, se_column_zero = 0\<rparr> = Some st \<and>
     augment (se_predecessor st) (p(0 := row)) (se_column_zero st) = Some q \<and>
     rows_done (cost costs) rows columns (Suc row) q (se_row_potential st) (se_column_potential st)"
proof -
  let ?p = "p(0 := row)"
  let ?st = "\<lparr>se_used = (\<lambda>_. False), se_minimums = (\<lambda>_. infinity), se_predecessor = pred,
        se_row_potential = u, se_column_potential = v, se_column_zero = 0\<rparr>"
  have fresh: "p j \<noteq> row" if "1 \<le> j" "j \<le> columns" for j
  proof
    assume "p j = row"
    then have "row \<in> p ` {1..columns} - {0}" using that row by force
    also have "\<dots> = {1..<row}" using prev by (simp only: rows_done_def)
    finally show False by simp
  qed
  have mat: "matching_ok rows columns ?p"
    unfolding matching_ok_def
  proof (intro conjI allI impI)
    have old: "matching_ok rows columns (p(0 := 0))" using prev by (simp add: rows_done_def)
    show "?p j \<le> rows" if "j \<le> columns" for j
    proof -
      have "\<forall>j \<le> columns. (p(0 := 0)) j \<le> rows" using old unfolding matching_ok_def by blast
      then have "(p(0 := 0)) j \<le> rows" using that by blast
      then show ?thesis using row by (cases "j = 0") simp_all
    qed
    show "j = k" if "j \<le> columns" "k \<le> columns" "?p j = ?p k \<and> ?p j \<noteq> 0" for j k
    proof (cases "j = 0 \<or> k = 0")
      case True
      then show ?thesis using that fresh [of j] fresh [of k] by (auto simp: Suc_le_eq split: if_splits)
    next
      case False
      have "\<forall>j \<le> columns. \<forall>k \<le> columns. (p(0 := 0)) j = (p(0 := 0)) k \<and> (p(0 := 0)) j \<noteq> 0 \<longrightarrow> j = k"
        using old unfolding matching_ok_def by blast
      then have "(p(0 := 0)) j = (p(0 := 0)) k \<and> (p(0 := 0)) j \<noteq> 0 \<longrightarrow> j = k" using that by blast
      then show ?thesis using False that by simp
    qed
  qed
  have "inj_on p {j \<in> {1..columns}. p j \<noteq> 0}" by (rule matching_inj [OF mat])
  then have "card {j \<in> {1..columns}. p j \<noteq> 0} = card (p ` {j \<in> {1..columns}. p j \<noteq> 0})"
    by (simp add: card_image)
  also have "p ` {j \<in> {1..columns}. p j \<noteq> 0} = p ` {1..columns} - {0}" by auto
  also have "\<dots> = {1..<row}" using prev by (simp only: rows_done_def)
  finally have "card {j \<in> {1..columns}. p j \<noteq> 0} < columns"
    using row by simp
  then have "{j \<in> {1..columns}. p j \<noteq> 0} \<noteq> {1..columns}" by auto
  then obtain f where "f \<in> {1..columns}" "p f = 0" by blast
  then have f: "1 \<le> f" "f \<le> columns" "?p f = 0" by auto
  have "potentials_ok (cost costs) rows columns ?p u v"
    using prev by (simp add: rows_done_def potentials_ok_def)
  then have inv: "search_inv (cost costs) rows columns ?p ?st"
    by (simp add: search_inv_def tree_ok_def minimums_ok_def)
  have root: "?p (se_column_zero ?st) \<noteq> 0" using row by simp
  obtain st where st: "search costs columns ?p ?st = Some st" "search_inv (cost costs) rows columns ?p st"
      "?p (se_column_zero st) = 0" "se_column_zero st \<noteq> 0"
    using search_finds [OF inv mat root f costs] by blast
  obtain q where q: "augment (se_predecessor st) ?p (se_column_zero st) = Some q"
      "potentials_ok (cost costs) rows columns q (se_row_potential st) (se_column_potential st)"
      "matching_ok rows columns (q(0 := 0))" "q ` {1..columns} - {0} = ?p ` {0..columns} - {0}"
    using augment_search [OF st(2) mat st(3,4)] by blast
  have "?p ` {0..columns} = insert row (p ` {1..columns})"
  proof -
    have "{0..columns} = insert 0 {1..columns}" by auto
    then show ?thesis by (simp add: image_iff) (auto simp: image_iff)
  qed
  then have "q ` {1..columns} - {0} = insert row (p ` {1..columns} - {0})"
    using q(4) row by auto
  also have "\<dots> = insert row {1..<row}" using prev by (simp only: rows_done_def)
  also have "\<dots> = {1..<Suc row}" using row by auto
  finally have "q ` {1..columns} - {0} = {1..<Suc row}" .
  then show ?thesis using st(1) q unfolding rows_done_def by blast
qed

lemma assign_rows_ok:
  assumes "rows_done (cost costs) rows columns row p u v" and "1 \<le> row" "row \<le> Suc rows" "rows \<le> columns"
    and costs: "\<forall>i j. 1 \<le> i \<and> i \<le> rows \<and> 1 \<le> j \<and> j \<le> columns \<longrightarrow> 0 \<le> cost costs i j \<and> cost costs i j \<le> 10000"
  shows "\<exists>u' v' p' pred'. assign_rows costs columns [row..<Suc rows] (u, v, p, pred) = Some (u', v', p', pred') \<and>
     rows_done (cost costs) rows columns (Suc rows) p' u' v'"
  using assms(1-3)
proof (induction "Suc rows - row" arbitrary: row u v p pred)
  case 0
  then have "row = Suc rows" by simp
  then show ?case using 0 by simp
next
  case (Suc n)
  then have le: "row \<le> rows" by simp
  obtain st q where st: "search costs columns (p(0 := row))
       \<lparr>se_used = (\<lambda>_. False), se_minimums = (\<lambda>_. infinity), se_predecessor = pred,
        se_row_potential = u, se_column_potential = v, se_column_zero = 0\<rparr> = Some st"
      "augment (se_predecessor st) (p(0 := row)) (se_column_zero st) = Some q"
      "rows_done (cost costs) rows columns (Suc row) q (se_row_potential st) (se_column_potential st)"
    using assign_row [OF Suc.prems(1,2) le assms(4) costs] by blast
  have "[row..<Suc rows] = row # [Suc row..<Suc rows]"
    using le by (simp add: upt_conv_Cons)
  moreover have "n = Suc rows - Suc row" using Suc.hyps(2) by simp
  ultimately show ?case
    using Suc.hyps(1) [OF _ st(3), of "se_predecessor st"] le st(1,2) by (simp add: Let_def)
qed


section \<open>Optimality\<close>

text \<open>A matching: rows and columns in range, no row and no column twice.\<close>

definition is_matching :: "nat \<Rightarrow> nat \<Rightarrow> (nat \<times> nat) set \<Rightarrow> bool" where
  "is_matching rows columns M \<longleftrightarrow> M \<subseteq> {0..<rows} \<times> {0..<columns} \<and> inj_on fst M \<and> inj_on snd M"

definition total_weight :: "int list list \<Rightarrow> (nat \<times> nat) set \<Rightarrow> int" where
  "total_weight weights M = (\<Sum>(row, column) \<in> M. weights ! row ! column)"

definition valid_weights :: "int list list \<Rightarrow> nat \<Rightarrow> bool" where
  "valid_weights weights columns \<longleftrightarrow>
     (\<forall>row \<in> set weights. length row = columns \<and> (\<forall>weight \<in> set row. 0 \<le> weight \<and> weight \<le> 10000))"

lemma matching_finite: "is_matching rows columns M \<Longrightarrow> finite M"
  by (auto simp: is_matching_def intro: finite_subset)

lemma set_matched_pairs:
  "set (matched_pairs columns p) = (\<lambda>j. (p j - 1, j - 1)) ` {j \<in> {1..columns}. p j \<noteq> 0}"
  by (auto simp: matched_pairs_def Suc_le_eq)

lemma rows_done_pairs:
  assumes prev: "rows_done c rows columns (Suc rows) p u v"
  shows "is_matching rows columns (set (matched_pairs columns p))" and "distinct (matched_pairs columns p)"
    and "fst ` set (matched_pairs columns p) = {0..<rows}"
    and "\<forall>(i, j) \<in> set (matched_pairs columns p). u (Suc i) + v (Suc j) = c (Suc i) (Suc j)"
    and "\<forall>j < columns. j \<notin> snd ` set (matched_pairs columns p) \<longrightarrow> v (Suc j) = 0"
proof -
  define J where "J = {j \<in> {1..columns}. p j \<noteq> 0}"
  have "p ` J = p ` {1..columns} - {0}" by (auto simp: J_def)
  then have range: "p ` J = {1..<Suc rows}" using prev by (simp only: rows_done_def)
  have inj: "inj_on p J"
    unfolding J_def using prev by (auto simp only: rows_done_def intro: matching_inj)
  have pot: "potentials_ok c rows columns p u v" using prev by (simp add: rows_done_def)
  have pairs: "set (matched_pairs columns p) = (\<lambda>j. (p j - 1, j - 1)) ` J"
    by (simp add: set_matched_pairs J_def)
  have J: "1 \<le> j" "j \<le> columns" "1 \<le> p j" "p j \<le> rows" if "j \<in> J" for j
  proof -
    have "p j \<in> {1..<Suc rows}" using that range by blast
    then show "1 \<le> j" "j \<le> columns" "1 \<le> p j" "p j \<le> rows" using that by (auto simp: J_def)
  qed
  have "inj_on fst (set (matched_pairs columns p))"
  proof (rule inj_onI)
    fix x y assume xy: "x \<in> set (matched_pairs columns p)" "y \<in> set (matched_pairs columns p)" "fst x = fst y"
    then obtain j k where jk: "j \<in> J" "k \<in> J" "x = (p j - 1, j - 1)" "y = (p k - 1, k - 1)"
      by (auto simp: pairs)
    then have "p j = p k" using xy(3) J(3) [OF jk(1)] J(3) [OF jk(2)] by simp
    then show "x = y" using inj jk by (auto dest: inj_onD)
  qed
  moreover have "inj_on snd (set (matched_pairs columns p))"
  proof (rule inj_onI)
    fix x y assume xy: "x \<in> set (matched_pairs columns p)" "y \<in> set (matched_pairs columns p)" "snd x = snd y"
    then obtain j k where jk: "j \<in> J" "k \<in> J" "x = (p j - 1, j - 1)" "y = (p k - 1, k - 1)"
      by (auto simp: pairs)
    then have "j = k" using xy(3) J(1) [OF jk(1)] J(1) [OF jk(2)] by simp
    then show "x = y" using jk by simp
  qed
  moreover have "set (matched_pairs columns p) \<subseteq> {0..<rows} \<times> {0..<columns}"
    unfolding pairs using J by (fastforce simp: less_eq_Suc_le)
  ultimately show "is_matching rows columns (set (matched_pairs columns p))"
    by (simp add: is_matching_def)
  show "distinct (matched_pairs columns p)"
    by (auto simp: matched_pairs_def distinct_map inj_on_def)
  show "fst ` set (matched_pairs columns p) = {0..<rows}"
  proof -
    have "fst ` set (matched_pairs columns p) = (\<lambda>r. r - 1) ` (p ` J)" by (simp add: pairs image_image)
    also have "\<dots> = {0..<rows}"
    proof
      show "{0..<rows} \<subseteq> (\<lambda>r. r - 1) ` (p ` J)"
        unfolding range by (auto intro!: image_eqI [of _ _ "Suc _"])
    qed (auto simp: range)
    finally show ?thesis .
  qed
  show "\<forall>(i, j) \<in> set (matched_pairs columns p). u (Suc i) + v (Suc j) = c (Suc i) (Suc j)"
  proof clarify
    fix i j assume "(i, j) \<in> set (matched_pairs columns p)"
    then obtain k where k: "k \<in> J" "i = p k - 1" "j = k - 1" by (auto simp: pairs)
    have "p k \<noteq> 0" using k by (simp add: J_def)
    then have "u (p k) + v k = c (p k) k" using pot J(1,2) [OF k(1)] unfolding potentials_ok_def by blast
    then show "u (Suc i) + v (Suc j) = c (Suc i) (Suc j)" using k J(1,3) [OF k(1)] by simp
  qed
  show "\<forall>j < columns. j \<notin> snd ` set (matched_pairs columns p) \<longrightarrow> v (Suc j) = 0"
  proof (intro allI impI)
    fix j assume j: "j < columns" "j \<notin> snd ` set (matched_pairs columns p)"
    have "Suc j \<notin> J"
    proof
      assume "Suc j \<in> J"
      then have "snd (p (Suc j) - 1, Suc j - 1) \<in> snd ` set (matched_pairs columns p)" unfolding pairs by blast
      then show False using j by simp
    qed
    then show "v (Suc j) = 0" using pot j by (simp add: J_def potentials_ok_def)
  qed
qed

text \<open>The dual bound: a matching of all rows costs least when potentials are tight on it.\<close>

lemma potentials_optimal:
  assumes prev: "rows_done c rows columns (Suc rows) p u v"
    and M: "is_matching rows columns M" "fst ` M = {0..<rows}"
  shows "(\<Sum>(i, j) \<in> set (matched_pairs columns p). c (Suc i) (Suc j)) \<le> (\<Sum>(i, j) \<in> M. c (Suc i) (Suc j))"
proof -
  define N where "N = set (matched_pairs columns p)"
  note facts = rows_done_pairs [OF prev, folded N_def]
  have pot: "potentials_ok c rows columns p u v" using prev by (simp add: rows_done_def)
  have rows_sum: "(\<Sum>(i, j) \<in> K. u (Suc i)) = (\<Sum>i \<in> {0..<rows}. u (Suc i))"
    if "is_matching rows columns K" "fst ` K = {0..<rows}" for K
  proof -
    have "(\<Sum>i \<in> fst ` K. u (Suc i)) = (\<Sum>x \<in> K. u (Suc (fst x)))"
      using that(1) by (simp add: is_matching_def sum.reindex)
    then show ?thesis using that(2) by (simp add: case_prod_beta)
  qed
  have columns_sum: "(\<Sum>(i, j) \<in> K. v (Suc j)) = (\<Sum>j \<in> snd ` K. v (Suc j))"
    if "is_matching rows columns K" for K
    using that by (simp add: is_matching_def sum.reindex case_prod_beta)
  have split: "(\<Sum>(i, j) \<in> K. u (Suc i) + v (Suc j)) = (\<Sum>(i, j) \<in> K. u (Suc i)) + (\<Sum>(i, j) \<in> K. v (Suc j))" for K
    by (simp add: case_prod_beta sum.distrib)
  have sub: "snd ` K \<subseteq> {0..<columns}" if "is_matching rows columns K" for K
    using that by (fastforce simp: is_matching_def)
  have all: "(\<Sum>j \<in> snd ` N. v (Suc j)) = (\<Sum>j \<in> {0..<columns}. v (Suc j))"
    using sub [OF facts(1)] facts(5) by (intro sum.mono_neutral_left) auto
  have "(\<Sum>(i, j) \<in> N. c (Suc i) (Suc j)) = (\<Sum>(i, j) \<in> N. u (Suc i) + v (Suc j))"
    using facts(4) by (intro sum.cong) auto
  also have "\<dots> = (\<Sum>i \<in> {0..<rows}. u (Suc i)) + (\<Sum>j \<in> {0..<columns}. v (Suc j))"
    using rows_sum [OF facts(1,3)] columns_sum [OF facts(1)] all by (simp add: split)
  also have "(\<Sum>j \<in> {0..<columns}. v (Suc j)) \<le> (\<Sum>j \<in> snd ` M. v (Suc j))"
  proof -
    have "(\<Sum>j \<in> {0..<columns}. v (Suc j)) = (\<Sum>j \<in> snd ` M. v (Suc j)) + (\<Sum>j \<in> {0..<columns} - snd ` M. v (Suc j))"
      using sub [OF M(1)] by (simp add: sum.subset_diff add.commute)
    moreover have "(\<Sum>j \<in> {0..<columns} - snd ` M. v (Suc j)) \<le> 0"
      using pot by (intro sum_nonpos) (auto simp: potentials_ok_def)
    ultimately show ?thesis by simp
  qed
  finally have "(\<Sum>(i, j) \<in> N. c (Suc i) (Suc j)) \<le> (\<Sum>(i, j) \<in> M. u (Suc i) + v (Suc j))"
    using rows_sum [OF M] columns_sum [OF M(1)] by (simp add: split)
  also have "\<dots> \<le> (\<Sum>(i, j) \<in> M. c (Suc i) (Suc j))"
    using M(1) pot by (intro sum_mono) (fastforce simp: is_matching_def potentials_ok_def)
  finally show ?thesis by (simp add: N_def)
qed


lemma extend_matching:
  assumes M: "is_matching rows columns M" and le: "rows \<le> columns"
  shows "\<exists>M'. M \<subseteq> M' \<and> is_matching rows columns M' \<and> fst ` M' = {0..<rows}"
proof -
  define R where "R = {0..<rows} - fst ` M"
  define C where "C = {0..<columns} - snd ` M"
  have sub: "fst ` M \<subseteq> {0..<rows}" "snd ` M \<subseteq> {0..<columns}" and fin: "finite M"
    using M matching_finite [OF M] by (auto simp: is_matching_def)
  have "card (fst ` M) = card M" "card (snd ` M) = card M"
    using M by (simp_all add: is_matching_def card_image)
  then have "card R \<le> card C"
    using sub fin le by (simp add: R_def C_def card_Diff_subset)
  then obtain f where f: "inj_on f R" "f ` R \<subseteq> C"
    using card_le_inj [of R C] by (auto simp: R_def C_def)
  define M' where "M' = M \<union> (\<lambda>r. (r, f r)) ` R"
  have "inj_on fst ((\<lambda>r. (r, f r)) ` R)" "inj_on snd ((\<lambda>r. (r, f r)) ` R)"
    using f(1) by (auto simp: inj_on_def)
  moreover have "fst ` ((\<lambda>r. (r, f r)) ` R) \<inter> fst ` M = {}" "snd ` ((\<lambda>r. (r, f r)) ` R) \<inter> snd ` M = {}"
    using f(2) by (auto simp: image_image R_def C_def)
  ultimately have "inj_on fst M'" "inj_on snd M'"
    using M unfolding M'_def is_matching_def inj_on_Un by blast+
  moreover have "M' \<subseteq> {0..<rows} \<times> {0..<columns}"
    using M f by (auto simp: M'_def is_matching_def R_def C_def)
  moreover have "fst ` M' = {0..<rows}"
    using sub by (auto simp: M'_def R_def image_Un image_image)
  ultimately show ?thesis by (intro exI [of _ M']) (auto simp: is_matching_def M'_def)
qed

lemma valid_weights_nth:
  "valid_weights matrix columns \<Longrightarrow> i < length matrix \<Longrightarrow> j < columns \<Longrightarrow>
   0 \<le> matrix ! i ! j \<and> matrix ! i ! j \<le> 10000 \<and> length (matrix ! i) = columns"
proof -
  assume "valid_weights matrix columns" "i < length matrix" "j < columns"
  moreover from this have "length (matrix ! i) = columns" by (simp add: valid_weights_def)
  moreover from calculation have "matrix ! i ! j \<in> set (matrix ! i)" by simp
  ultimately show ?thesis unfolding valid_weights_def by (meson nth_mem)
qed

lemma cost_nth:
  assumes "valid_weights matrix columns" and "i < length matrix" and "j < columns"
  shows "cost (assignment_costs matrix) (Suc i) (Suc j) = Max (set (concat matrix)) - matrix ! i ! j"
    and "0 \<le> cost (assignment_costs matrix) (Suc i) (Suc j)"
    and "cost (assignment_costs matrix) (Suc i) (Suc j) \<le> 10000"
proof -
  note nth = valid_weights_nth [OF assms]
  show eq: "cost (assignment_costs matrix) (Suc i) (Suc j) = Max (set (concat matrix)) - matrix ! i ! j"
    using nth assms by (simp add: cost_def assignment_costs_def Let_def)
  have mem: "matrix ! i ! j \<in> set (concat matrix)"
    using nth assms by (auto intro!: bexI [of _ "matrix ! i"])
  then have "matrix ! i ! j \<le> Max (set (concat matrix))" by (intro Max_ge) simp_all
  then show "0 \<le> cost (assignment_costs matrix) (Suc i) (Suc j)" by (simp add: eq)
  have "set (concat matrix) \<noteq> {}" using mem by (metis empty_iff)
  then have "Max (set (concat matrix)) \<in> set (concat matrix)" by (intro Max_in) simp_all
  then have "Max (set (concat matrix)) \<le> 10000" using assms(1) by (auto simp: valid_weights_def)
  then show "cost (assignment_costs matrix) (Suc i) (Suc j) \<le> 10000" using nth by (simp add: eq)
qed

lemma wide_assignment:
  assumes valid: "valid_weights matrix columns" and le: "length matrix \<le> columns"
  shows "\<exists>u v p pred. assign_rows (assignment_costs matrix) columns [1..<Suc (length matrix)] (\<lambda>_. 0, \<lambda>_. 0, \<lambda>_. 0, \<lambda>_. 0)
       = Some (u, v, p, pred) \<and>
     is_matching (length matrix) columns (set (matched_pairs columns p)) \<and> distinct (matched_pairs columns p) \<and>
     fst ` set (matched_pairs columns p) = {0..<length matrix} \<and>
     (\<forall>M. is_matching (length matrix) columns M \<longrightarrow>
        total_weight matrix M \<le> total_weight matrix (set (matched_pairs columns p)))"
proof -
  define rows where "rows = length matrix"
  define c where "c = cost (assignment_costs matrix)"
  have costs: "\<forall>i j. 1 \<le> i \<and> i \<le> rows \<and> 1 \<le> j \<and> j \<le> columns \<longrightarrow> 0 \<le> c i j \<and> c i j \<le> 10000"
  proof (intro allI impI)
    fix i j assume "1 \<le> i \<and> i \<le> rows \<and> 1 \<le> j \<and> j \<le> columns"
    then obtain i' j' where "i = Suc i'" "j = Suc j'" "i' < length matrix" "j' < columns"
      by (cases i; cases j) (auto simp: rows_def)
    then show "0 \<le> c i j \<and> c i j \<le> 10000" using cost_nth(2,3) [OF valid] by (simp add: c_def)
  qed
  have start: "rows_done c rows columns 1 (\<lambda>_. 0) (\<lambda>_. 0) (\<lambda>_. 0)"
    using costs by (auto simp: rows_done_def potentials_ok_def matching_ok_def fun_upd_def)
  obtain u v p pred where run: "assign_rows (assignment_costs matrix) columns [1..<Suc rows] (\<lambda>_. 0, \<lambda>_. 0, \<lambda>_. 0, \<lambda>_. 0)
       = Some (u, v, p, pred)" "rows_done c rows columns (Suc rows) p u v"
    using assign_rows_ok [OF start [unfolded c_def] _ _ _ costs [unfolded c_def], of "\<lambda>_. 0"] le
    by (auto simp: c_def rows_def)
  let ?N = "set (matched_pairs columns p)"
  note facts = rows_done_pairs [OF run(2)]
  have sums: "(\<Sum>(i, j) \<in> K. c (Suc i) (Suc j)) = int rows * Max (set (concat matrix)) - total_weight matrix K"
    if "is_matching rows columns K" "fst ` K = {0..<rows}" for K
  proof -
    have "card K = rows" using that card_image [of fst K] by (simp add: is_matching_def)
    moreover have "(\<Sum>(i, j) \<in> K. c (Suc i) (Suc j)) = (\<Sum>(i, j) \<in> K. Max (set (concat matrix)) - matrix ! i ! j)"
      using that(1) cost_nth(1) [OF valid] by (intro sum.cong) (auto simp: is_matching_def c_def rows_def)
    ultimately show ?thesis by (simp add: total_weight_def case_prod_beta sum_subtractf)
  qed
  have "total_weight matrix M \<le> total_weight matrix ?N" if M: "is_matching rows columns M" for M
  proof -
    obtain M' where M': "M \<subseteq> M'" "is_matching rows columns M'" "fst ` M' = {0..<rows}"
      using extend_matching [OF M] le by (auto simp: rows_def)
    have "total_weight matrix M \<le> total_weight matrix M'"
      unfolding total_weight_def using M' matching_finite [OF M'(2)] valid_weights_nth [OF valid]
      by (intro sum_mono2) (auto simp: is_matching_def rows_def)
    moreover have "total_weight matrix M' \<le> total_weight matrix ?N"
      using potentials_optimal [OF run(2) M'(2,3)] sums [OF M'(2,3)] sums [OF facts(1,3)] by simp
    ultimately show ?thesis by simp
  qed
  then show ?thesis using run(1) facts(1-3) unfolding rows_def by blast
qed

text \<open>Swapping rows and columns.\<close>

lemma is_matching_swap: "is_matching columns rows (prod.swap ` M) \<longleftrightarrow> is_matching rows columns M"
proof -
  have "inj_on fst (prod.swap ` M) \<longleftrightarrow> inj_on snd M" "inj_on snd (prod.swap ` M) \<longleftrightarrow> inj_on fst M"
    by (fastforce simp: inj_on_def)+
  moreover have "prod.swap ` M \<subseteq> {0..<columns} \<times> {0..<rows} \<longleftrightarrow> M \<subseteq> {0..<rows} \<times> {0..<columns}"
    by (auto simp: image_subset_iff)
  ultimately show ?thesis by (auto simp: is_matching_def)
qed

lemma transpose_nth:
  assumes "valid_weights weights columns" and "weights \<noteq> []" and "i < columns" and "j < length weights"
  shows "transpose_matrix weights ! i ! j = weights ! j ! i"
proof -
  have "length (hd weights) = columns" using assms by (cases weights) (auto simp: valid_weights_def)
  then show ?thesis using assms by (simp add: transpose_matrix_def del: upt_Suc)
qed

lemma transpose_valid:
  assumes "valid_weights weights columns" and "weights \<noteq> []"
  shows "valid_weights (transpose_matrix weights) (length weights)" and "length (transpose_matrix weights) = columns"
proof -
  have hd: "length (hd weights) = columns" using assms by (cases weights) (auto simp: valid_weights_def)
  then show "length (transpose_matrix weights) = columns" by (simp add: transpose_matrix_def)
  show "valid_weights (transpose_matrix weights) (length weights)"
    using hd valid_weights_nth [OF assms(1)] by (auto simp: valid_weights_def transpose_matrix_def)
qed

lemma transpose_weight:
  assumes "valid_weights weights columns" and "weights \<noteq> []" and M: "is_matching (length weights) columns M"
  shows "total_weight (transpose_matrix weights) (prod.swap ` M) = total_weight weights M"
proof -
  have "total_weight (transpose_matrix weights) (prod.swap ` M) = (\<Sum>(i, j) \<in> M. transpose_matrix weights ! j ! i)"
    unfolding total_weight_def by (subst sum.reindex) (auto simp: inj_on_def case_prod_beta)
  also have "\<dots> = total_weight weights M"
    unfolding total_weight_def using M transpose_nth [OF assms(1,2)]
    by (intro sum.cong) (auto simp: is_matching_def)
  finally show ?thesis .
qed

lemma maximum_assignment_spec:
  assumes "valid_weights weights columns" and "length weights \<le> 64" and "columns \<le> 64"
  shows "\<exists>pairs. maximum_assignment weights = Some (Inr pairs) \<and> sorted pairs \<and> distinct pairs \<and>
     length pairs = min (length weights) columns \<and> is_matching (length weights) columns (set pairs) \<and>
     (\<forall>M. is_matching (length weights) columns M \<longrightarrow> total_weight weights M \<le> total_weight weights (set pairs))"
proof (cases "weights = [] \<or> columns = 0")
  case True
  then have "weights = [] \<or> hd weights = []"
    using assms(1) by (cases weights) (auto simp: valid_weights_def)
  moreover have "is_matching (length weights) columns M \<longrightarrow> M = {}" for M
    using True by (auto simp: is_matching_def)
  ultimately show ?thesis
    using True by (intro exI [of _ "[]"]) (fastforce simp: maximum_assignment_def is_matching_def)
next
  case False
  then have ne: "weights \<noteq> []" and hd: "length (hd weights) = columns" "hd weights \<noteq> []"
    using assms(1) by (cases weights; auto simp: valid_weights_def)+
  have accepted: "list_all (\<lambda>row. length row = length (hd weights)) weights"
      "list_all (list_all (\<lambda>weight. 0 \<le> weight \<and> weight \<le> 10000)) weights"
    using assms(1) hd by (auto simp: valid_weights_def list_all_iff)
  define transposed where "transposed \<longleftrightarrow> columns < length weights"
  define matrix where "matrix = (if transposed then transpose_matrix weights else weights)"
  define width where "width = max (length weights) columns"
  have valid: "valid_weights matrix width" and size: "length matrix = min (length weights) columns"
    using transpose_valid [OF assms(1) ne] assms(1)
    by (auto simp: matrix_def transposed_def width_def max_def min_def)
  have "matrix \<noteq> []" using size False by (auto simp: min_def split: if_splits)
  then have width: "length (hd matrix) = width"
    using valid by (cases matrix) (auto simp: valid_weights_def)
  have wide: "length matrix \<le> width" using size by (simp add: width_def min_def max_def)
  obtain u v p pred where run: "assign_rows (assignment_costs matrix) width [1..<Suc (length matrix)]
         (\<lambda>_. 0, \<lambda>_. 0, \<lambda>_. 0, \<lambda>_. 0) = Some (u, v, p, pred)"
    and N: "is_matching (length matrix) width (set (matched_pairs width p))" "distinct (matched_pairs width p)"
      "fst ` set (matched_pairs width p) = {0..<length matrix}"
      "\<forall>M. is_matching (length matrix) width M \<longrightarrow> total_weight matrix M \<le> total_weight matrix (set (matched_pairs width p))"
    using wide_assignment [OF valid wide] by blast
  have count: "length (matched_pairs width p) = min (length weights) columns"
    using N(1-3) size card_image [of fst "set (matched_pairs width p)"] distinct_card [of "matched_pairs width p"]
    by (simp add: is_matching_def)
  define pairs where "pairs = sort (if transposed then map (\<lambda>(row, column). (column, row)) (matched_pairs width p)
      else matched_pairs width p)"
  have "maximum_assignment weights = Some (Inr pairs)"
    using ne hd accepted assms(2,3) run width
    by (simp add: maximum_assignment_def MAX_PORT_BATCH_ITEMS_def Let_def matrix_def transposed_def pairs_def del: upt_Suc)
  moreover have "is_matching (length weights) columns (set pairs) \<and>
      (\<forall>M. is_matching (length weights) columns M \<longrightarrow> total_weight weights M \<le> total_weight weights (set pairs))"
  proof (cases transposed)
    case True
    let ?N = "set (matched_pairs width p)"
    have dims: "length matrix = columns" "width = length weights"
      using True size by (auto simp: transposed_def width_def)
    have swap: "set pairs = prod.swap ` ?N"
      using True by (simp add: pairs_def prod.swap_def case_prod_beta)
    then have swap_back: "prod.swap ` set pairs = ?N" by (simp add: image_image)
    have m: "is_matching (length weights) columns (set pairs)"
      using N(1) is_matching_swap [of columns "length weights" "set pairs"] by (simp add: swap_back dims)
    have "total_weight weights M \<le> total_weight weights (set pairs)" if M: "is_matching (length weights) columns M" for M
    proof -
      have "total_weight matrix (prod.swap ` M) \<le> total_weight matrix ?N"
        using N(4) M is_matching_swap [of columns "length weights" M] by (simp add: dims)
      then show ?thesis
        using transpose_weight [OF assms(1) ne M] transpose_weight [OF assms(1) ne m] True
        by (simp add: matrix_def swap_back)
    qed
    with m show ?thesis by blast
  next
    case False
    then have "matrix = weights" "width = columns" "set pairs = set (matched_pairs width p)"
      by (auto simp: matrix_def transposed_def width_def pairs_def)
    with N show ?thesis by simp
  qed
  moreover have "sorted pairs" "distinct pairs" "length pairs = min (length weights) columns"
    using N(2) count by (auto simp: pairs_def distinct_map inj_on_def)
  ultimately show ?thesis by blast
qed

text \<open>
  C2: the assignment always returns.  Its two loops have no bound of their own, but for every matrix
  the function ends: it refuses what its checks refuse, and on the rest every search finds a free
  column and every augmentation reaches the root.
\<close>

theorem maximum_assignment_returns: "\<exists>r. maximum_assignment weights = Some r"
proof (cases "weights = [] \<or> hd weights = []")
  case True
  then show ?thesis by (simp add: maximum_assignment_def)
next
  case nonempty: False
  show ?thesis
  proof (cases "length weights \<le> MAX_PORT_BATCH_ITEMS \<and> length (hd weights) \<le> MAX_PORT_BATCH_ITEMS \<and>
      list_all (\<lambda>row. length row = length (hd weights)) weights \<and>
      list_all (list_all (\<lambda>weight. 0 \<le> weight \<and> weight \<le> 10000)) weights")
    case True
    then have "valid_weights weights (length (hd weights))" by (auto simp: valid_weights_def list_all_iff)
    with True maximum_assignment_spec [of weights "length (hd weights)"] show ?thesis
      by (auto simp: MAX_PORT_BATCH_ITEMS_def)
  next
    case False
    with nonempty show ?thesis by (simp add: maximum_assignment_def)
  qed
qed

text \<open>
  C1: On every matrix of weights between 0 and 10000 with at most 64 rows and columns the assignment
  terminates and returns, sorted, a matching of \<open>min rows columns\<close> pairs in range, no row and no column
  twice, whose total weight no other matching exceeds.
\<close>

theorem maximum_assignment_optimal:
  assumes "valid_weights weights columns" and "length weights \<le> 64" and "columns \<le> 64"
  shows "\<exists>pairs. maximum_assignment weights = Some (Inr pairs) \<and> sorted pairs \<and> distinct pairs \<and>
     length pairs = min (length weights) columns \<and> is_matching (length weights) columns (set pairs) \<and>
     (\<forall>M. is_matching (length weights) columns M \<longrightarrow> total_weight weights M \<le> total_weight weights (set pairs))"
  by (rule maximum_assignment_spec [OF assms])

lemma maximum_assignment_optimal_witness:
  "maximum_assignment [[10, 20], [30, 30], [5, 9]] = Some (Inr [(0, 1), (1, 0)]) \<and>
   (\<exists>pairs. maximum_assignment [[10, 20], [30, 30], [5, 9]] = Some (Inr pairs) \<and> length pairs = 2)"
proof -
  have "valid_weights [[10, 20], [30, 30], [5, 9]] 2" by (simp add: valid_weights_def)
  from maximum_assignment_optimal [OF this]
  have "\<exists>pairs. maximum_assignment [[10, 20], [30, 30], [5, 9]] = Some (Inr pairs) \<and> length pairs = 2" by auto
  moreover have "maximum_assignment [[10, 20], [30, 30], [5, 9]] = Some (Inr [(0, 1), (1, 0)])" by code_simp
  ultimately show ?thesis by blast
qed

end
