(* ===== verification/Tracker_Facts.thy ===== *)
theory Tracker_Facts
  imports Tracker Assignment_Optimal "HOL-Library.Multiset"
begin

text \<open>
  The facts the tracker's properties share: copies of valid values are the values, the overlap is
  between 0 and 10000, the association always returns, and how each stage of a frame changes the
  tracks, over any predicate on the points of a track.
\<close>

section \<open>Copies\<close>

definition point_of :: "observation \<Rightarrow> track_point" where
  "point_of ob = \<lparr>tp_observation_id = ob_observation_id ob, tp_source_id = ob_source_id ob,
     tp_frame_id = ob_frame_id ob, tp_stream_index = ob_stream_index ob, tp_pts = ob_pts ob,
     tp_geometry = ob_geometry ob, tp_category = ob_category ob\<rparr>"

lemma point_of_simps [simp]:
  "tp_observation_id (point_of ob) = ob_observation_id ob" "tp_source_id (point_of ob) = ob_source_id ob"
  "tp_frame_id (point_of ob) = ob_frame_id ob" "tp_stream_index (point_of ob) = ob_stream_index ob"
  "tp_pts (point_of ob) = ob_pts ob" "tp_geometry (point_of ob) = ob_geometry ob"
  "tp_category (point_of ob) = ob_category ob"
  by (simp_all add: point_of_def)

lemma point_of_valid:
  assumes "observation_post nfc ob = None"
  shows "track_point_post nfc (point_of ob) = None"
  using observation_postD [OF assms] by (simp add: track_point_post_def outcome del: is_category.simps)

lemma copy_point:
  assumes "nfc_ascii nfc" and "observation_post nfc ob = None"
  shows "copy_track_point_from_observation nfc ob = Inr (point_of ob)"
  using assms point_of_valid [OF assms(2)]
  by (simp add: copy_track_point_from_observation_def observation_roundtrip track_point_from_observation_def
      flip: point_of_def)

lemma copy_point_InrD:
  assumes "nfc_ascii nfc" and "copy_track_point_from_observation nfc ob = Inr p"
  shows "p = point_of ob"
proof -
  have "observation_post nfc ob = None"
    using assms(2) by (simp add: copy_track_point_from_observation_def outcome)
  from copy_point [OF assms(1) this] assms(2) show ?thesis by simp
qed

lemma mk_active_track_Inr:
  "mk_active_track nfc i ps m = Inr t \<longleftrightarrow>
     t = \<lparr>at_ordinal = i, at_points = ps, at_missed_samples = m\<rparr> \<and> active_track_post nfc t = None"
  by (auto simp: mk_active_track_def outcome Let_def)

lemma active_track_postD:
  assumes "active_track_post nfc t = None"
  shows "1 \<le> at_ordinal t" "at_points t \<noteq> []" "length (at_points t) \<le> MAX_TRACK_POINTS" "0 \<le> at_missed_samples t"
    "at_missed_samples t \<le> MAX_MISSED_SAMPLES" "\<forall>p \<in> set (at_points t). track_point_post nfc p = None"
  using assms by (simp_all add: active_track_post_def run_checks_None)

lemma copy_track_point_valid: "track_point_post nfc p = None \<Longrightarrow> copy_track_point nfc p = Inr p"
  by (simp add: copy_track_point_def track_point_roundtrip)

lemma mapE_id: "(\<And>x. x \<in> set xs \<Longrightarrow> f x = Inr x) \<Longrightarrow> mapE f xs = Inr xs"
  by (induction xs) auto

lemma copy_active_track_valid:
  assumes "active_track_post nfc t = None"
  shows "copy_active_track nfc t = Inr t"
proof -
  have "mapE (copy_track_point nfc) (at_points t) = Inr (at_points t)"
    using active_track_postD(6) [OF assms] by (intro mapE_id copy_track_point_valid) blast
  then show ?thesis
    using assms by (cases t) (simp add: copy_active_track_def mk_active_track_def Let_def)
qed

lemma copy_active_track_Inr: "copy_active_track nfc t = Inr u \<longleftrightarrow> active_track_post nfc t = None \<and> u = t"
proof
  assume r: "copy_active_track nfc t = Inr u"
  then have "active_track_post nfc t = None" by (simp add: copy_active_track_def outcome)
  with r copy_active_track_valid [OF this] show "active_track_post nfc t = None \<and> u = t" by simp
qed (simp add: copy_active_track_valid)

lemma validate_media_time_None [outcome]: "validate_media_time nfc v = None \<longleftrightarrow> media_time_valid nfc v"
proof
  assume v: "media_time_valid nfc v"
  then have "pred_option (\<lambda>p. producer_post nfc p = None) (mt_estimate_producer v)"
    by (cases rule: media_time_estimate_cases; simp add: token_check_None)
  with v show "validate_media_time nfc v = None"
    by (simp add: validate_media_time_def media_time_valid_def outcome)
qed (simp add: validate_media_time_def media_time_valid_def outcome)

lemma validate_frame_None [outcome]: "validate_frame nfc v = None \<longleftrightarrow> frame_valid nfc v"
  by (auto simp: validate_frame_def frame_valid_def outcome)

lemma copy_frame_valid: "nfc_ascii nfc \<Longrightarrow> frame_valid nfc v \<Longrightarrow> copy_frame nfc v = Inr v"
  by (simp add: copy_frame_def validate_frame_None [THEN iffD2] frame_roundtrip)

lemma copy_source_stream_valid: "validate_source_stream nfc v = None \<Longrightarrow> copy_source_stream nfc v = Inr v"
  by (cases v) (auto simp: copy_source_stream_def validate_source_stream_def time_base_post_def source_stream_post_def)

lemma copy_tracking_limits_valid: "tracking_limits_post v = None \<Longrightarrow> copy_tracking_limits v = Inr v"
  by (cases v) (simp add: copy_tracking_limits_def)

lemma copy_tracking_diagnostics_valid: "tracking_diagnostics_post v = None \<Longrightarrow> copy_tracking_diagnostics v = Inr v"
  by (cases v) (simp add: copy_tracking_diagnostics_def)

section \<open>Overlap and association\<close>

lemma iou_parts:
  fixes i f s :: int
  assumes "0 \<le> i" and "0 < i \<Longrightarrow> i \<le> f" and "0 < i \<Longrightarrow> i \<le> s" and "0 < f + s - i"
  shows "i * 10000 div (f + s - i) \<le> 10000" and "0 \<le> i * 10000 div (f + s - i)"
proof -
  have "i \<le> f + s - i" using assms by (cases "i = 0") auto
  then have "i * 10000 \<le> 10000 * (f + s - i)" by simp
  then have "i * 10000 div (f + s - i) \<le> 10000 * (f + s - i) div (f + s - i)"
    using assms(4) by (intro zdiv_mono1) auto
  also have "\<dots> = 10000" by (rule nonzero_mult_div_cancel_right) (use assms(4) in simp)
  finally show "i * 10000 div (f + s - i) \<le> 10000" .
  show "0 \<le> i * 10000 div (f + s - i)"
    using assms by (simp add: pos_imp_zdiv_nonneg_iff)
qed

lemma side_le:
  fixes a b c d :: int
  assumes "0 < max 0 (min b d - max a c)"
  shows "max 0 (min b d - max a c) \<le> b - a" and "max 0 (min b d - max a c) \<le> d - c" and "0 \<le> b - a" and "0 \<le> d - c"
  using assms by auto

lemma area_le:
  fixes w h :: int
  assumes "0 < w * h" "0 \<le> w" "0 \<le> h" "0 < w \<Longrightarrow> w \<le> w'" "0 < h \<Longrightarrow> h \<le> h'"
  shows "w * h \<le> w' * h'"
proof -
  have "0 < w" "0 < h" using assms(1-3) by (auto simp: zero_less_mult_iff)
  then show ?thesis using assms(4,5) by (intro mult_mono) auto
qed

lemma iou_range: "0 \<le> iou_basis_points a b" "iou_basis_points a b \<le> 10000"
proof -
  obtain a0 a1 a2 a3 b0 b1 b2 b3 where ab: "a = (a0, a1, a2, a3)" "b = (b0, b1, b2, b3)"
    by (metis prod.collapse)
  define w where "w = max 0 (min a2 b2 - max a0 b0)"
  define h where "h = max 0 (min a3 b3 - max a1 b1)"
  have w: "0 < w \<Longrightarrow> w \<le> a2 - a0" "0 < w \<Longrightarrow> w \<le> b2 - b0" and h: "0 < h \<Longrightarrow> h \<le> a3 - a1" "0 < h \<Longrightarrow> h \<le> b3 - b1"
    unfolding w_def h_def by auto
  have pos: "0 \<le> w" "0 \<le> h" by (simp_all add: w_def h_def)
  have parts: "0 \<le> w * h" "0 < w * h \<Longrightarrow> w * h \<le> (a2 - a0) * (a3 - a1)" "0 < w * h \<Longrightarrow> w * h \<le> (b2 - b0) * (b3 - b1)"
    using area_le [of w h] pos w h by auto
  have "iou_basis_points a b =
      (if (a2 - a0) * (a3 - a1) + (b2 - b0) * (b3 - b1) - w * h \<le> 0 then 0
       else w * h * 10000 div ((a2 - a0) * (a3 - a1) + (b2 - b0) * (b3 - b1) - w * h))"
    unfolding ab iou_basis_points.simps Let_def w_def h_def ..
  then show "0 \<le> iou_basis_points a b" "iou_basis_points a b \<le> 10000"
    using iou_parts [OF parts] by (auto simp: not_le)
qed

lemma association_weights_valid: "valid_weights (association_weights rows detections) (length detections)"
  by (auto simp: valid_weights_def association_weights_def iou_range)

lemma association_weights_nth:
  "i < length rows \<Longrightarrow> j < length detections \<Longrightarrow> association_weights rows detections ! i ! j =
     iou_basis_points (ge_box_xyxy (tp_geometry (last (at_points (rows ! i))))) (ge_box_xyxy (ob_geometry (detections ! j)))"
  by (simp add: association_weights_def)

lemma associate_outcome:
  "associate (association_weights rows detections) detections = Inr pairs \<Longrightarrow>
     is_matching (length rows) (length detections) (set pairs) \<and> distinct pairs \<and>
     (\<forall>(i, j) \<in> set pairs. ASSOCIATION_IOU_BASIS_POINTS \<le>
        iou_basis_points (ge_box_xyxy (tp_geometry (last (at_points (rows ! i))))) (ge_box_xyxy (ob_geometry (detections ! j))))"
  (is "?r \<Longrightarrow> _")
proof (cases "rows = [] \<or> detections = []")
  case True
  then show "?r \<Longrightarrow> ?thesis" by (auto simp: associate_def association_weights_def is_matching_def)
next
  case False
  let ?w = "association_weights rows detections"
  have len: "length ?w = length rows" by (simp add: association_weights_def)
  assume r: ?r
  then obtain all where all: "maximum_assignment ?w = Some (Inr all)" "pairs = filter (\<lambda>(i, j). ASSOCIATION_IOU_BASIS_POINTS \<le> ?w ! i ! j) all"
    using False by (auto simp: associate_def association_weights_def outcome split: option.splits)
  have small: "length rows \<le> 64 \<and> length detections \<le> 64"
    using all(1) False by (cases rows)
      (auto simp: maximum_assignment_def association_weights_def MAX_PORT_BATCH_ITEMS_def split: if_splits)
  then have m: "is_matching (length rows) (length detections) (set all)" "distinct all"
    using maximum_assignment_spec [OF association_weights_valid, of rows detections] all(1) len by auto
  have "is_matching (length rows) (length detections) (set pairs)"
    using m(1) by (auto simp: is_matching_def all(2) intro: inj_on_subset)
  moreover have "ASSOCIATION_IOU_BASIS_POINTS \<le>
        iou_basis_points (ge_box_xyxy (tp_geometry (last (at_points (rows ! i))))) (ge_box_xyxy (ob_geometry (detections ! j)))"
    if "(i, j) \<in> set pairs" for i j
    using that m(1) by (force simp: all(2) is_matching_def simp flip: association_weights_nth)
  ultimately show ?thesis using m(2) all(2) by auto
qed

lemma associate_returns: "associate (association_weights rows detections) detections \<noteq> Inl (AssertionError e)"
proof (cases "rows = [] \<or> detections = []")
  case True
  then show ?thesis by (auto simp: associate_def association_weights_def)
next
  case False
  let ?w = "association_weights rows detections"
  have w: "?w \<noteq> []" "hd ?w \<noteq> []" "length ?w = length rows" "length (hd ?w) = length detections"
    using False by (cases rows; simp add: association_weights_def)+
  show ?thesis
  proof (cases "length rows \<le> 64 \<and> length detections \<le> 64")
    case True
    with maximum_assignment_spec [OF association_weights_valid, of rows detections] w(3)
    show ?thesis by (auto simp: associate_def)
  next
    case False
    then have "maximum_assignment ?w = Some (Inl (ValueError ''invalid_assignment''))"
      using w by (auto simp: maximum_assignment_def MAX_PORT_BATCH_ITEMS_def)
    then show ?thesis by (simp add: associate_def)
  qed
qed

section \<open>The stages of a frame\<close>

definition active_points :: "active \<Rightarrow> track_point list" where
  "active_points active = concat (map (at_points \<circ> snd) active)"

definition completed_points :: "tracklet list \<Rightarrow> track_point list" where
  "completed_points tracklets = concat (map tk_points tracklets)"

lemma active_points_simps [simp]:
  "active_points [] = []" "active_points (x # xs) = at_points (snd x) @ active_points xs"
  "active_points (xs @ ys) = active_points xs @ active_points ys"
  by (simp_all add: active_points_def)

lemma completed_points_simps [simp]:
  "completed_points [] = []" "completed_points (x # xs) = tk_points x @ completed_points xs"
  "completed_points (xs @ ys) = completed_points xs @ completed_points ys"
  by (simp_all add: completed_points_def)

lemma alist_update_keys: "k \<in> set (map fst al) \<Longrightarrow> map fst (AList.update k v al) = map fst al"
  by (simp add: update_keys)

lemma alist_update_new: "k \<notin> set (map fst al) \<Longrightarrow> AList.update k v al = al @ [(k, v)]"
  by (induction al) auto

lemma alist_update_set:
  "distinct (map fst al) \<Longrightarrow> k \<in> set (map fst al) \<Longrightarrow>
   set (AList.update k v al) = insert (k, v) {x \<in> set al. fst x \<noteq> k}"
  by (induction al) (auto simp: image_iff)

lemma alist_update_points:
  "distinct (map fst al) \<Longrightarrow> map_of al k = Some t \<Longrightarrow>
   mset (active_points (AList.update k u al)) + mset (at_points t) = mset (active_points al) + mset (at_points u)"
  by (induction al) (auto split: if_splits)

lemma alist_delete_points:
  "distinct (map fst al) \<Longrightarrow> map_of al k = Some t \<Longrightarrow>
   mset (active_points (AList.delete k al)) + mset (at_points t) = mset (active_points al)"
proof (induction al)
  case (Cons x al)
  have "AList.delete k al = al" if "k \<notin> fst ` set al"
    using that by (intro delete_id) auto
  with Cons show ?case by (auto simp: AList.delete_eq split: if_splits)
qed simp

lemma alist_delete_keys: "distinct (map fst al) \<Longrightarrow> distinct (map fst (AList.delete k al))"
  by (simp add: distinct_delete)

lemma alist_delete_set: "set (AList.delete k al) = {x \<in> set al. fst x \<noteq> k}"
  by (auto simp: AList.delete_eq)

lemma complete_track_Inr:
  assumes "complete_track nfc t reason = Inr v"
  shows "tk_points v = at_points t" "tk_termination_reason v = reason" "tracklet_post nfc v = None"
  using assms by (auto simp: complete_track_def tracklet_create_def outcome Let_def)

lemma extend_matched_outcome:
  assumes nfc: "nfc_ascii nfc"
    and "extend_matched nfc limits operation rows detections pairs active = Inr active'"
    and "distinct (map fst active)"
    and "\<forall>(i, j) \<in> set pairs. map_of active (at_ordinal (rows ! i)) = Some (rows ! i)"
    and "distinct (map (\<lambda>(i, j). at_ordinal (rows ! i)) pairs)"
  shows "map fst active' = map fst active \<and>
    mset (active_points active') = mset (active_points active) + mset (map (\<lambda>(i, j). point_of (detections ! j)) pairs) \<and>
    (\<forall>(k, t) \<in> set active'.
       (k, t) \<in> set active \<and> k \<notin> set (map (\<lambda>(i, j). at_ordinal (rows ! i)) pairs) \<or>
       (\<exists>(i, j) \<in> set pairs. k = at_ordinal (rows ! i) \<and>
          t = \<lparr>at_ordinal = k, at_points = at_points (rows ! i) @ [point_of (detections ! j)], at_missed_samples = 0\<rparr> \<and>
          active_track_post nfc t = None))"
  using assms(2-)
proof (induction pairs arbitrary: active)
  case (Cons pair pairs)
  obtain i j where pair: "pair = (i, j)" by fastforce
  define t where "t = rows ! i"
  define u where "u = \<lparr>at_ordinal = at_ordinal t, at_points = at_points t @ [point_of (detections ! j)], at_missed_samples = 0\<rparr>"
  have at: "map_of active (at_ordinal t) = Some t" using Cons.prems(3) by (simp add: pair t_def)
  from Cons.prems(1) obtain p t' where p: "copy_track_point_from_observation nfc (detections ! j) = Inr p"
      and t': "mk_active_track nfc (at_ordinal t) (at_points t @ [p]) 0 = Inr t'"
      and rest: "extend_matched nfc limits operation rows detections pairs (AList.update (at_ordinal t) t' active) = Inr active'"
    by (auto simp: pair t_def outcome Let_def split: if_splits)
  have u: "t' = u" "active_track_post nfc u = None"
    using t' copy_point_InrD [OF nfc p] by (auto simp: mk_active_track_Inr u_def)
  let ?next = "AList.update (at_ordinal t) u active"
  have keys: "map fst ?next = map fst active"
    using at by (intro alist_update_keys) (force dest: map_of_SomeD)
  have others: "map_of ?next (at_ordinal (rows ! i')) = Some (rows ! i')" if "(i', j') \<in> set pairs" for i' j'
  proof -
    have "at_ordinal (rows ! i') \<in> set (map (\<lambda>(i, j). at_ordinal (rows ! i)) pairs)"
      using that by (auto intro!: image_eqI [where x = "(i', j')"])
    then have "at_ordinal (rows ! i') \<noteq> at_ordinal t" using Cons.prems(4) by (auto simp: pair t_def)
    then show ?thesis using Cons.prems(3) that by (auto simp: AList.update_conv')
  qed
  have IH: "map fst active' = map fst ?next \<and>
    mset (active_points active') = mset (active_points ?next) + mset (map (\<lambda>(i, j). point_of (detections ! j)) pairs) \<and>
    (\<forall>(k, t) \<in> set active'.
       (k, t) \<in> set ?next \<and> k \<notin> set (map (\<lambda>(i, j). at_ordinal (rows ! i)) pairs) \<or>
       (\<exists>(i, j) \<in> set pairs. k = at_ordinal (rows ! i) \<and>
          t = \<lparr>at_ordinal = k, at_points = at_points (rows ! i) @ [point_of (detections ! j)], at_missed_samples = 0\<rparr> \<and>
          active_track_post nfc t = None))"
    using Cons.prems(2,4) others keys by (intro Cons.IH [OF rest [unfolded u(1)]]) (auto simp: pair)
  have "mset (active_points ?next) = mset (active_points active) + {#point_of (detections ! j)#}"
    using alist_update_points [OF Cons.prems(2) at, of u] by (simp add: u_def)
  moreover have "set ?next = insert (at_ordinal t, u) {x \<in> set active. fst x \<noteq> at_ordinal t}"
    using at Cons.prems(2) by (intro alist_update_set) (auto dest: map_of_SomeD intro: rev_image_eqI)
  moreover have "(k, v) \<in> set active \<and> k \<notin> set (map (\<lambda>(i, j). at_ordinal (rows ! i)) (pair # pairs)) \<or>
       (\<exists>(i, j) \<in> set (pair # pairs). k = at_ordinal (rows ! i) \<and>
          v = \<lparr>at_ordinal = k, at_points = at_points (rows ! i) @ [point_of (detections ! j)], at_missed_samples = 0\<rparr> \<and>
          active_track_post nfc v = None)" if "(k, v) \<in> set active'" for k v
    using IH that
  proof (elim conjE, elim ballE [where x = "(k, v)"], elim case_prodE disjE)
    fix k' v'
    assume kv: "(k, v) = (k', v')" and mem: "(k', v') \<in> set ?next \<and> k' \<notin> set (map (\<lambda>(i, j). at_ordinal (rows ! i)) pairs)"
    show ?thesis
    proof (cases "k = at_ordinal t")
      case True
      with mem kv calculation(2) u(2) show ?thesis by (auto simp: pair t_def u_def)
    next
      case False
      with mem kv calculation(2) show ?thesis by (auto simp: pair t_def)
    qed
  qed auto
  ultimately show ?case
    using IH keys by (auto simp: pair)
qed auto

text \<open>\<open>old\<close> of an entry that ageing keeps, and what completes.\<close>

lemma age_unmatched_outcome:
  assumes "age_unmatched nfc matched ordinals (active, completed, misses) = Inr (active', completed', misses')"
    and "distinct (map fst active)" and "distinct ordinals" and "set ordinals \<subseteq> set (map fst active)"
  shows "distinct (map fst active') \<and> set (map fst active') \<subseteq> set (map fst active) \<and>
    mset (active_points active') + mset (completed_points completed') =
      mset (active_points active) + mset (completed_points completed) \<and>
    (\<exists>new. completed' = completed @ new \<and> misses' = misses + int (length new) \<and>
       length active = length active' + length new \<and>
       (\<forall>v \<in> set new. \<exists>(k, t) \<in> set active. k \<in> set ordinals - set matched \<and> tk_points v = at_points t \<and>
          MAX_MISSED_SAMPLES < at_missed_samples t + 1 \<and>
          tk_termination_reason v = ''miss_timeout'' \<and> tracklet_post nfc v = None)) \<and>
    (\<forall>(k, u) \<in> set active'. if k \<in> set ordinals - set matched
       then \<exists>t. (k, t) \<in> set active \<and> active_track_post nfc u = None \<and>
         u = \<lparr>at_ordinal = k, at_points = at_points t, at_missed_samples = at_missed_samples t + 1\<rparr>
       else (k, u) \<in> set active)"
  using assms
proof (induction ordinals arbitrary: active completed misses)
  case (Cons k ordinals)
  show ?case
  proof (cases "k \<in> set matched")
    case True
    with Cons.IH [of active completed misses] Cons.prems show ?thesis by simp
  next
    case False
    obtain t where t: "map_of active k = Some t"
      using Cons.prems(4) map_of_eq_None_iff [of active k] by (cases "map_of active k") auto
    then have mem: "(k, t) \<in> set active" by (rule map_of_SomeD)
    have unique: "u = t" if "(k, u) \<in> set active" for u
      using that t Cons.prems(2) by simp
    show ?thesis
    proof (cases "MAX_MISSED_SAMPLES < at_missed_samples t + 1")
      case True
      let ?next = "AList.delete k active"
      obtain v where v: "complete_track nfc t ''miss_timeout'' = Inr v"
        and rest: "age_unmatched nfc matched ordinals (?next, completed @ [v], misses + 1) = Inr (active', completed', misses')"
        using Cons.prems(1) False t True by (auto simp: outcome Let_def)
      have keys: "set (map fst ?next) = set (map fst active) - {k}" "distinct (map fst ?next)"
        using Cons.prems(2) by (auto simp: alist_delete_set distinct_delete)
      note IH = Cons.IH [OF rest keys(2)]
      have len: "length active = length ?next + 1"
        using Cons.prems(2) mem by (metis (no_types, lifting) One_nat_def Suc_eq_plus1 distinct_card fst_conv
            image_eqI keys length_map list.set_map card_Suc_Diff1 List.finite_set)
      have sub: "set ordinals \<subseteq> set (map fst ?next)" using Cons.prems(3,4) keys(1) by auto
      have points: "mset (active_points ?next) + mset (at_points t) = mset (active_points active)"
        by (rule alist_delete_points [OF Cons.prems(2) t])
      show ?thesis
      proof (intro conjI)
        show "distinct (map fst active')" "set (map fst active') \<subseteq> set (map fst active)"
          using IH Cons.prems(3) sub keys(1) by auto
        show "mset (active_points active') + mset (completed_points completed') =
            mset (active_points active) + mset (completed_points completed)"
          using IH Cons.prems(3) sub points complete_track_Inr(1) [OF v] by (simp flip: points)
        obtain new where new: "completed' = completed @ v # new" "misses' = misses + 1 + int (length new)"
            "length ?next = length active' + length new"
            "\<forall>v \<in> set new. \<exists>(k, t) \<in> set ?next. k \<in> set ordinals - set matched \<and> tk_points v = at_points t \<and>
              MAX_MISSED_SAMPLES < at_missed_samples t + 1 \<and>
              tk_termination_reason v = ''miss_timeout'' \<and> tracklet_post nfc v = None"
          using IH Cons.prems(3) sub by auto
        have "\<forall>w \<in> set (v # new). \<exists>(k', t) \<in> set active. k' \<in> set (k # ordinals) - set matched \<and> tk_points w = at_points t \<and>
              MAX_MISSED_SAMPLES < at_missed_samples t + 1 \<and>
              tk_termination_reason w = ''miss_timeout'' \<and> tracklet_post nfc w = None"
          using new(4) mem False True complete_track_Inr [OF v] by (fastforce simp: alist_delete_set)
        then show "\<exists>new. completed' = completed @ new \<and> misses' = misses + int (length new) \<and>
            length active = length active' + length new \<and>
            (\<forall>v \<in> set new. \<exists>(k', t) \<in> set active. k' \<in> set (k # ordinals) - set matched \<and> tk_points v = at_points t \<and>
              MAX_MISSED_SAMPLES < at_missed_samples t + 1 \<and>
              tk_termination_reason v = ''miss_timeout'' \<and> tracklet_post nfc v = None)"
          using new(1-3) len by (intro exI [of _ "v # new"]) auto
        show "\<forall>(k', u) \<in> set active'. if k' \<in> set (k # ordinals) - set matched
           then \<exists>t. (k', t) \<in> set active \<and> active_track_post nfc u = None \<and>
             u = \<lparr>at_ordinal = k', at_points = at_points t, at_missed_samples = at_missed_samples t + 1\<rparr>
           else (k', u) \<in> set active"
        proof (intro ballI, clarify)
          fix k' u assume u: "(k', u) \<in> set active'"
          then have "k' \<in> set (map fst ?next)" using IH Cons.prems(3) sub by (force)
          then have "k' \<noteq> k" using keys(1) by auto
          with IH Cons.prems(3) sub u show "if k' \<in> set (k # ordinals) - set matched
             then \<exists>t. (k', t) \<in> set active \<and> active_track_post nfc u = None \<and>
               u = \<lparr>at_ordinal = k', at_points = at_points t, at_missed_samples = at_missed_samples t + 1\<rparr>
             else (k', u) \<in> set active"
            by (auto simp: alist_delete_set split: if_splits)
        qed
      qed
    next
      case short: False
      define u where "u = \<lparr>at_ordinal = k, at_points = at_points t, at_missed_samples = at_missed_samples t + 1\<rparr>"
      let ?next = "AList.update k u active"
      have u: "active_track_post nfc u = None"
        and rest: "age_unmatched nfc matched ordinals (?next, completed, misses) = Inr (active', completed', misses')"
        using Cons.prems(1) False t short by (auto simp: outcome Let_def mk_active_track_Inr u_def)
      have keys: "map fst ?next = map fst active"
        using mem by (intro alist_update_keys) force
      have nset: "set ?next = insert (k, u) {x \<in> set active. fst x \<noteq> k}"
        using mem Cons.prems(2) by (intro alist_update_set) force+
      have points: "mset (active_points ?next) = mset (active_points active)"
        using alist_update_points [OF Cons.prems(2) t, of u] by (simp add: u_def)
      note IH = Cons.IH [OF rest, unfolded keys, OF Cons.prems(2)]
      have sub: "set ordinals \<subseteq> set (map fst active)" "distinct ordinals" "k \<notin> set ordinals" using Cons.prems(3,4) by auto
      have len: "length ?next = length active" using keys by (metis length_map)
      obtain new where new: "completed' = completed @ new" "misses' = misses + int (length new)"
            "length active = length active' + length new"
            "\<forall>v \<in> set new. \<exists>(k, t) \<in> set ?next. k \<in> set ordinals - set matched \<and> tk_points v = at_points t \<and>
              MAX_MISSED_SAMPLES < at_missed_samples t + 1 \<and>
              tk_termination_reason v = ''miss_timeout'' \<and> tracklet_post nfc v = None"
        using IH sub len by auto
      have "\<forall>v \<in> set new. \<exists>(k', t) \<in> set active. k' \<in> set (k # ordinals) - set matched \<and> tk_points v = at_points t \<and>
              MAX_MISSED_SAMPLES < at_missed_samples t + 1 \<and>
              tk_termination_reason v = ''miss_timeout'' \<and> tracklet_post nfc v = None"
        using new(4) sub(3) by (fastforce simp: nset)
      moreover have "if k' \<in> set (k # ordinals) - set matched
           then \<exists>t. (k', t) \<in> set active \<and> active_track_post nfc w = None \<and>
             w = \<lparr>at_ordinal = k', at_points = at_points t, at_missed_samples = at_missed_samples t + 1\<rparr>
           else (k', w) \<in> set active" if w: "(k', w) \<in> set active'" for k' w
      proof -
        have "if k' \<in> set ordinals - set matched
           then \<exists>t. (k', t) \<in> set ?next \<and> active_track_post nfc w = None \<and>
             w = \<lparr>at_ordinal = k', at_points = at_points t, at_missed_samples = at_missed_samples t + 1\<rparr>
           else (k', w) \<in> set ?next"
          using IH sub w by fast
        from this [unfolded nset] sub(3) False mem u show ?thesis by (auto simp: u_def split: if_splits)
      qed
      ultimately show ?thesis
        using IH sub points len new(1-3) by auto
    qed
  qed
qed auto

definition unmatched :: "nat list \<Rightarrow> (nat \<times> observation) list \<Rightarrow> observation list" where
  "unmatched matched items = map snd (filter (\<lambda>(column, _). column \<notin> set matched) items)"

lemma open_tracks_outcome:
  assumes nfc: "nfc_ascii nfc"
    and "open_tracks nfc limits operation matched items (active, next, created) = Inr (active', next', created')"
    and "distinct (map fst active)" and "\<forall>k \<in> fst ` set active. k < next"
  shows "distinct (map fst active') \<and> (\<forall>k \<in> fst ` set active'. k < next') \<and>
    (\<exists>new. active' = active @ new \<and> next' = next + int (length new) \<and> created' = created + int (length new) \<and>
       map (at_points \<circ> snd) new = map (\<lambda>ob. [point_of ob]) (unmatched matched items) \<and>
       (\<forall>(k, t) \<in> set new. at_ordinal t = k \<and> at_missed_samples t = 0 \<and> active_track_post nfc t = None))"
  using assms(2-)
proof (induction items arbitrary: active "next" created)
  case (Cons item items)
  obtain c ob where item: "item = (c, ob)" by fastforce
  show ?case
  proof (cases "c \<in> set matched")
    case True
    with Cons.IH [of active "next" created] Cons.prems show ?thesis by (simp add: item unmatched_def)
  next
    case False
    define t where "t = \<lparr>at_ordinal = next, at_points = [point_of ob], at_missed_samples = 0\<rparr>"
    from Cons.prems(1) False obtain p where p: "copy_track_point_from_observation nfc ob = Inr p"
      and "\<exists>t'. mk_active_track nfc next [p] 0 = Inr t' \<and> open_tracks nfc limits operation matched items
             (AList.update next t' active, next + 1, created + 1) = Inr (active', next', created')"
      by (simp add: item outcome split: if_splits) blast
    then have t: "active_track_post nfc t = None"
      and rest: "open_tracks nfc limits operation matched items (AList.update next t active, next + 1, created + 1)
          = Inr (active', next', created')"
      using copy_point_InrD [OF nfc p] by (auto simp: mk_active_track_Inr t_def)
    have fresh: "next \<notin> set (map fst active)" using Cons.prems(3) by auto
    from rest have "open_tracks nfc limits operation matched items (active @ [(next, t)], next + 1, created + 1)
          = Inr (active', next', created')"
      by (simp only: alist_update_new [OF fresh])
    note IH = Cons.IH [OF this]
    have "distinct (map fst (active @ [(next, t)]))" using Cons.prems(2) fresh by simp
    moreover have "\<forall>k \<in> fst ` set (active @ [(next, t)]). k < next + 1" using Cons.prems(3) by auto
    ultimately obtain new where
      "distinct (map fst active')" "\<forall>k \<in> fst ` set active'. k < next'"
      "active' = (active @ [(next, t)]) @ new" "next' = next + 1 + int (length new)" "created' = created + 1 + int (length new)"
      "map (at_points \<circ> snd) new = map (\<lambda>ob. [point_of ob]) (unmatched matched items)"
      "\<forall>(k, t) \<in> set new. at_ordinal t = k \<and> at_missed_samples t = 0 \<and> active_track_post nfc t = None"
      using IH by blast
    then show ?thesis
      using False t by (intro conjI exI [of _ "(next, t) # new"]) (auto simp: item t_def unmatched_def comp_def)
  qed
qed (simp add: unmatched_def)

lemma matched_and_unmatched:
  assumes "distinct js" and "\<forall>j \<in> set js. j < length xs"
  shows "mset (map ((!) xs) js) + mset (unmatched js (enumerate 0 xs)) = mset xs"
proof -
  have e: "enumerate 0 xs = map (\<lambda>i. (i, xs ! i)) [0..<length xs]"
    by (intro nth_equalityI) (auto simp: nth_enumerate_eq)
  have "unmatched js (enumerate 0 xs) = map ((!) xs) (filter (\<lambda>i. i \<notin> set js) [0..<length xs])"
    by (simp add: unmatched_def e filter_map comp_def)
  moreover have "mset js = mset (filter (\<lambda>i. i \<in> set js) [0..<length xs])"
    using assms by (intro set_eq_iff_mset_eq_distinct [THEN iffD1]) auto
  ultimately have "mset (map ((!) xs) js) + mset (unmatched js (enumerate 0 xs)) =
      image_mset ((!) xs) (filter_mset (\<lambda>i. i \<in> set js) (mset [0..<length xs]) + filter_mset (\<lambda>i. i \<notin> set js) (mset [0..<length xs]))"
    by (simp only: mset_map mset_filter image_mset_union)
  also have "\<dots> = mset (map ((!) xs) [0..<length xs])"
    by (simp only: mset_map multiset_partition [symmetric])
  finally show ?thesis by (simp only: map_nth)
qed

section \<open>Sorted tracks and completing them all\<close>

definition tracks_ok :: "(string \<Rightarrow> string) \<Rightarrow> int \<Rightarrow> active \<Rightarrow> bool" where
  "tracks_ok nfc next active \<longleftrightarrow>
     distinct (map fst active) \<and>
     (\<forall>(k, t) \<in> set active. at_ordinal t = k \<and> k < next \<and> active_track_post nfc t = None)"

lemma sorted_tracks_mset:
  assumes "distinct (map fst active)"
  shows "mset (sorted_tracks active) = mset (map snd active)"
proof -
  have "map (\<lambda>k. the (map_of active k)) (map fst active) = map snd active"
    using assms by (auto simp: map_of_eq_Some_iff [OF assms])
  then have "image_mset (\<lambda>k. the (map_of active k)) (mset (map fst active)) = mset (map snd active)"
    by (simp only: flip: mset_map)
  then show ?thesis by (simp only: sorted_tracks_def mset_map mset_sort)
qed

lemma sorted_tracks_ordinals:
  assumes "tracks_ok nfc next active"
  shows "map at_ordinal (sorted_tracks active) = sort (map fst active)"
proof -
  have "at_ordinal (the (map_of active k)) = k" if "k \<in> set (map fst active)" for k
    using assms that by (fastforce simp: tracks_ok_def dest: map_of_is_SomeI)
  then show ?thesis by (auto simp: sorted_tracks_def intro!: map_idI)
qed

lemma sorted_tracks_nth:
  assumes "tracks_ok nfc next active" and "i < length (sorted_tracks active)"
  shows "map_of active (at_ordinal (sorted_tracks active ! i)) = Some (sorted_tracks active ! i)"
proof -
  have "sorted_tracks active ! i \<in> set (map snd active)"
    using assms sorted_tracks_mset [of active] nth_mem [OF assms(2)] by (metis set_mset_mset tracks_ok_def)
  then obtain k where "(k, sorted_tracks active ! i) \<in> set active" by auto
  with assms(1) show ?thesis by (auto simp: tracks_ok_def intro!: map_of_is_SomeI)
qed

lemma complete_all_outcome:
  assumes r: "complete_all nfc reason st = Inr st'" and ok: "tracks_ok nfc next (ps_active st)"
  shows "\<exists>new. st' = st\<lparr>ps_active := [], ps_completed := ps_completed st @ new\<rparr> \<and>
     length new = length (ps_active st) \<and>
     mset (completed_points new) = mset (active_points (ps_active st)) \<and>
     (\<forall>v \<in> set new. tracklet_post nfc v = None \<and> tk_termination_reason v = reason \<and>
        (\<exists>(k, t) \<in> set (ps_active st). tk_points v = at_points t))"
proof -
  obtain new where st': "st' = st\<lparr>ps_completed := ps_completed st @ new, ps_active := []\<rparr>"
    and new: "list_all2 (\<lambda>t v. complete_track nfc t reason = Inr v) (sorted_tracks (ps_active st)) new"
    using r by (auto simp: complete_all_def outcome mapE_Inr_iff)
  have tracks: "mset (sorted_tracks (ps_active st)) = mset (map snd (ps_active st))"
    using ok by (intro sorted_tracks_mset) (simp add: tracks_ok_def)
  have points: "completed_points new = concat (map at_points (sorted_tracks (ps_active st)))"
    using new by (induction rule: list_all2_induct) (auto simp: complete_track_Inr)
  have sums: "mset (concat (map at_points ts)) = \<Sum>\<^sub># (image_mset (\<lambda>t. mset (at_points t)) (mset ts))" for ts
    by (induction ts) auto
  have "mset (completed_points new) = mset (active_points (ps_active st))"
    unfolding points active_points_def map_map [symmetric] sums tracks ..
  moreover have "length new = length (ps_active st)"
    using new by (auto dest!: list_all2_lengthD simp: sorted_tracks_def)
  moreover have "tracklet_post nfc v = None \<and> tk_termination_reason v = reason \<and>
        (\<exists>(k, t) \<in> set (ps_active st). tk_points v = at_points t)" if "v \<in> set new" for v
  proof -
    from that obtain i where i: "i < length new" "v = new ! i" by (auto simp: in_set_conv_nth)
    define t where "t = sorted_tracks (ps_active st) ! i"
    have t: "t \<in> set (sorted_tracks (ps_active st))" "complete_track nfc t reason = Inr v"
      using list_all2_nthD2 [OF new i(1)] list_all2_lengthD [OF new] i by (simp_all add: t_def)
    from t(1) have "t \<in> snd ` set (ps_active st)"
      using mset_eq_setD [OF tracks] by simp
    with complete_track_Inr [OF t(2)] show ?thesis by force
  qed
  ultimately show ?thesis using st' by (intro exI [of _ new]) simp
qed

section \<open>One frame\<close>

lemma frame_stepE:
  assumes "frame_step nfc limits operation cancelled found d st0 = Inr st'"
  obtains st pairs active1 active2 completed misses active3 "next" created where
    "\<not> cancelled" "cut_step nfc d st0 = Inr st"
    "associate (association_weights (sorted_tracks (ps_active st)) (sort_detections found)) (sort_detections found) = Inr pairs"
    "extend_matched nfc limits operation (sorted_tracks (ps_active st)) (sort_detections found) pairs (ps_active st) = Inr active1"
    "age_unmatched nfc (map (\<lambda>(row, column). at_ordinal (sorted_tracks (ps_active st) ! row)) pairs)
       (sort (map fst active1)) (active1, ps_completed st, ps_miss_terminations st) = Inr (active2, completed, misses)"
    "open_tracks nfc limits operation (map snd pairs) (enumerate 0 (sort_detections found))
       (active2, ps_next_ordinal st, ps_created_tracks st) = Inr (active3, next, created)"
    "st' = st\<lparr>ps_active := active3, ps_next_ordinal := next, ps_created_tracks := created,
       ps_maximum_active := max (ps_maximum_active st) (int (length active3)),
       ps_miss_terminations := misses, ps_completed := completed\<rparr>"
  using assms by (auto simp: frame_step_def check_cancelled_def outcome Let_def)

lemma cut_step_outcome:
  assumes "cut_step nfc d st = Inr st'" and "tracks_ok nfc next (ps_active st)"
  shows "tracks_ok nfc next (ps_active st') \<and> ps_next_ordinal st' = ps_next_ordinal st \<and>
    ps_created_tracks st' = ps_created_tracks st \<and> ps_maximum_active st' = ps_maximum_active st \<and>
    ps_miss_terminations st' = ps_miss_terminations st \<and> ps_source_terminations st' = ps_source_terminations st \<and>
    mset (active_points (ps_active st')) + mset (completed_points (ps_completed st')) =
      mset (active_points (ps_active st)) + mset (completed_points (ps_completed st)) \<and>
    (\<exists>new. ps_completed st' = ps_completed st @ new \<and> ps_cut_terminations st' = ps_cut_terminations st + int (length new) \<and>
       length (ps_active st) = length (ps_active st') + length new \<and>
       (\<forall>v \<in> set new. \<exists>(k, t) \<in> set (ps_active st). tk_points v = at_points t)) \<and>
    (if CUT_THRESHOLD_BASIS_POINTS \<le> fd_score_basis_points d
     then ps_active st' = [] \<and> ps_cut_frames st' = ps_cut_frames st + 1 else st' = st)"
proof (cases "CUT_THRESHOLD_BASIS_POINTS \<le> fd_score_basis_points d")
  case True
  let ?st = "st\<lparr>ps_cut_frames := ps_cut_frames st + 1, ps_cut_terminations := ps_cut_terminations st + int (length (ps_active st))\<rparr>"
  have "complete_all nfc ''cut'' ?st = Inr st'" using assms(1) True by (simp add: cut_step_def)
  moreover have "tracks_ok nfc next (ps_active ?st)" using assms(2) by simp
  ultimately obtain new where "st' = ?st\<lparr>ps_active := [], ps_completed := ps_completed ?st @ new\<rparr>"
     "length new = length (ps_active ?st)" "mset (completed_points new) = mset (active_points (ps_active ?st))"
     "\<forall>v \<in> set new. tracklet_post nfc v = None \<and> tk_termination_reason v = ''cut'' \<and>
        (\<exists>(k, t) \<in> set (ps_active ?st). tk_points v = at_points t)"
    using complete_all_outcome by blast
  with True show ?thesis by (auto simp: tracks_ok_def)
next
  case False
  with assms show ?thesis by (simp add: cut_step_def)
qed

lemma multiset_balance:
  fixes a0 :: "'a multiset"
  assumes "a2 + c2 = a1 + c1" "a1 = a0 + m" "a0 + c1 = s" "m + u = f"
  shows "(a2 + u) + c2 = s + f"
proof -
  have "(a2 + u) + c2 = (a2 + c2) + u" by (simp add: ac_simps)
  also have "\<dots> = (a0 + c1) + (m + u)" by (simp only: assms(1,2)) (simp add: ac_simps)
  finally show ?thesis by (simp only: assms(3,4))
qed

lemma association_facts:
  assumes ok: "tracks_ok nfc next active"
    and "associate (association_weights (sorted_tracks active) detections) detections = Inr pairs"
  shows "\<And>i j. (i, j) \<in> set pairs \<Longrightarrow> i < length (sorted_tracks active) \<and> j < length detections \<and>
      map_of active (at_ordinal (sorted_tracks active ! i)) = Some (sorted_tracks active ! i) \<and>
      ASSOCIATION_IOU_BASIS_POINTS \<le> iou_basis_points
        (ge_box_xyxy (tp_geometry (last (at_points (sorted_tracks active ! i))))) (ge_box_xyxy (ob_geometry (detections ! j)))"
    and "distinct (map snd pairs)"
    and "distinct (map (\<lambda>(i, j). at_ordinal (sorted_tracks active ! i)) pairs)"
proof -
  let ?rows = "sorted_tracks active"
  note pairs = associate_outcome [OF assms(2)]
  have in_range: "i < length ?rows \<and> j < length detections" if "(i, j) \<in> set pairs" for i j
    using pairs that by (auto simp: is_matching_def)
  with sorted_tracks_nth [OF ok] pairs show "i < length ?rows \<and> j < length detections \<and>
      map_of active (at_ordinal (?rows ! i)) = Some (?rows ! i) \<and>
      ASSOCIATION_IOU_BASIS_POINTS \<le> iou_basis_points
        (ge_box_xyxy (tp_geometry (last (at_points (?rows ! i))))) (ge_box_xyxy (ob_geometry (detections ! j)))"
    if "(i, j) \<in> set pairs" for i j
    using that by blast
  have firsts: "distinct (map fst pairs)" and seconds: "distinct (map snd pairs)"
    using pairs by (auto simp: is_matching_def distinct_map)
  have "distinct (map at_ordinal ?rows)"
    using ok by (simp add: tracks_ok_def sorted_tracks_ordinals [OF ok])
  then have "inj_on (nth (map at_ordinal ?rows)) (set (map fst pairs))"
    by (rule inj_on_nth) (use in_range in auto)
  then have "inj_on (\<lambda>i. at_ordinal (?rows ! i)) (set (map fst pairs))"
    by (rule inj_on_cong [THEN iffD1, rotated]) (use in_range in auto)
  then have "distinct (map (\<lambda>i. at_ordinal (?rows ! i)) (map fst pairs))"
    using firsts by (simp only: distinct_map [of _ "map fst pairs"] simp_thms)
  then show "distinct (map (\<lambda>(i, j). at_ordinal (?rows ! i)) pairs)"
    by (simp add: comp_def split_def)
  show "distinct (map snd pairs)" by (rule seconds)
qed

text \<open>The observations of a frame become the points the tracks gain.\<close>

lemma frame_step_conserves:
  assumes nfc: "nfc_ascii nfc"
    and step: "frame_step nfc limits operation cancelled found d st0 = Inr st'"
    and ok: "tracks_ok nfc (ps_next_ordinal st0) (ps_active st0)"
  shows "tracks_ok nfc (ps_next_ordinal st') (ps_active st') \<and>
    mset (active_points (ps_active st')) + mset (completed_points (ps_completed st')) =
      mset (active_points (ps_active st0)) + mset (completed_points (ps_completed st0)) + mset (map point_of found)"
  using step
proof (cases rule: frame_stepE)
  case (1 st pairs active1 active2 completed misses active3 "next" created)
  define rows where "rows = sorted_tracks (ps_active st)"
  define detections where "detections = sort_detections found"
  note parts = 1 [folded rows_def detections_def]
  have cut: "tracks_ok nfc (ps_next_ordinal st) (ps_active st)"
     "mset (active_points (ps_active st)) + mset (completed_points (ps_completed st)) =
        mset (active_points (ps_active st0)) + mset (completed_points (ps_completed st0))"
    using cut_step_outcome [OF parts(2) ok] by auto
  have distinct: "distinct (map fst (ps_active st))" using cut(1) by (simp add: tracks_ok_def)
  note pairs = association_facts [OF cut(1) parts(3) [unfolded rows_def], folded rows_def]
  have "\<forall>(i, j) \<in> set pairs. map_of (ps_active st) (at_ordinal (rows ! i)) = Some (rows ! i)"
    using pairs(1) by auto
  note E = extend_matched_outcome [OF nfc parts(4) distinct this pairs(3)]
  have extended: "map fst active1 = map fst (ps_active st)"
      "mset (active_points active1) = mset (active_points (ps_active st)) + mset (map (\<lambda>(i, j). point_of (detections ! j)) pairs)"
    using E by blast+
  have extended3: "(k, t) \<in> set (ps_active st) \<or> at_ordinal t = k \<and> active_track_post nfc t = None"
    if "(k, t) \<in> set active1" for k t
    using E [THEN conjunct2, THEN conjunct2, THEN bspec, OF that] by auto
  have keys1: "distinct (map fst active1)" using distinct extended(1) by simp
  have "distinct (sort (map fst active1))" "set (sort (map fst active1)) \<subseteq> set (map fst active1)" using keys1 by simp_all
  note A = age_unmatched_outcome [OF parts(5) keys1 this]
  have aged: "distinct (map fst active2)" "set (map fst active2) \<subseteq> set (map fst active1)"
      "mset (active_points active2) + mset (completed_points completed) =
        mset (active_points active1) + mset (completed_points (ps_completed st))"
    using A by blast+
  have aged4: "(k, u) \<in> set active1 \<or> at_ordinal u = k \<and> active_track_post nfc u = None" if "(k, u) \<in> set active2" for k u
    using A [THEN conjunct2, THEN conjunct2, THEN conjunct2, THEN conjunct2, THEN bspec, OF that] by (auto split: if_splits)
  have below: "\<forall>k \<in> fst ` set active2. k < ps_next_ordinal st"
  proof
    fix k assume "k \<in> fst ` set active2"
    then have "k \<in> set (map fst (ps_active st))" using aged(2) by (auto simp flip: extended(1))
    with cut(1) show "k < ps_next_ordinal st" by (auto simp: tracks_ok_def)
  qed
  from open_tracks_outcome [OF nfc parts(6) aged(1) below] obtain new where
      opened: "distinct (map fst active3)" "\<forall>k \<in> fst ` set active3. k < next" "active3 = active2 @ new"
        "map (at_points \<circ> snd) new = map (\<lambda>ob. [point_of ob]) (unmatched (map snd pairs) (enumerate 0 detections))"
        "\<forall>(k, t) \<in> set new. at_ordinal t = k \<and> at_missed_samples t = 0 \<and> active_track_post nfc t = None"
    by blast
  have ok3: "tracks_ok nfc next active3"
  proof -
    have "at_ordinal t = k \<and> active_track_post nfc t = None" if "(k, t) \<in> set active3" for k t
      using that aged4 [of k t] extended3 [of k t] cut(1) opened(3,5) by (auto simp: tracks_ok_def)
    with opened(1,2) show ?thesis by (auto simp: tracks_ok_def)
  qed
  have gain: "mset (map (\<lambda>(i, j). point_of (detections ! j)) pairs) +
      mset (map point_of (unmatched (map snd pairs) (enumerate 0 detections))) = mset (map point_of found)"
  proof -
    have "mset (map ((!) detections) (map snd pairs)) + mset (unmatched (map snd pairs) (enumerate 0 detections)) = mset detections"
      using pairs(1,2) by (intro matched_and_unmatched) auto
    then have "image_mset point_of (mset (map ((!) detections) (map snd pairs)) +
        mset (unmatched (map snd pairs) (enumerate 0 detections))) = image_mset point_of (mset detections)" by simp
    then show ?thesis
      by (simp add: detections_def sort_detections_def comp_def split_def multiset.map_comp)
  qed
  have "active_points new = map point_of (unmatched (map snd pairs) (enumerate 0 detections))"
    unfolding active_points_def opened(4) by (simp add: concat_map_singleton)
  then show ?thesis
    using multiset_balance [OF aged(3) extended(2) cut(2) gain] parts(7) ok3 by (simp add: opened(3))
qed

text \<open>
  The invariant rule of a frame: \<open>P0\<close> holds of the points and misses of a track before it, \<open>P\<close> after
  it, \<open>Q\<close> of the points of a completed one.
\<close>

lemma frame_step_invariant:
  assumes nfc: "nfc_ascii nfc"
    and step: "frame_step nfc limits operation cancelled found d st0 = Inr st'"
    and ok: "tracks_ok nfc (ps_next_ordinal st0) (ps_active st0)"
    and before: "\<And>k t. (k, t) \<in> set (ps_active st0) \<Longrightarrow> P0 (at_points t) (at_missed_samples t)"
    and completes: "\<And>ps m. P0 ps m \<Longrightarrow> Q ps"
    and extends: "\<And>ps m ob. P0 ps m \<Longrightarrow> fd_score_basis_points d < CUT_THRESHOLD_BASIS_POINTS \<Longrightarrow> ob \<in> set found \<Longrightarrow>
      ASSOCIATION_IOU_BASIS_POINTS \<le>
        iou_basis_points (ge_box_xyxy (tp_geometry (last ps))) (ge_box_xyxy (ob_geometry ob)) \<Longrightarrow> P (ps @ [point_of ob]) 0"
    and ages: "\<And>ps m. P0 ps m \<Longrightarrow> fd_score_basis_points d < CUT_THRESHOLD_BASIS_POINTS \<Longrightarrow>
      m + 1 \<le> MAX_MISSED_SAMPLES \<Longrightarrow> P ps (m + 1)"
    and opens: "\<And>ob. ob \<in> set found \<Longrightarrow> P [point_of ob] 0"
  shows "(\<forall>(k, t) \<in> set (ps_active st'). P (at_points t) (at_missed_samples t)) \<and>
    (\<exists>new. ps_completed st' = ps_completed st0 @ new \<and> (\<forall>v \<in> set new. Q (tk_points v)))"
  using step
proof (cases rule: frame_stepE)
  case (1 st pairs active1 active2 completed misses active3 "next" created)
  define rows where "rows = sorted_tracks (ps_active st)"
  define detections where "detections = sort_detections found"
  note parts = 1 [folded rows_def detections_def]
  have found: "set detections = set found" by (simp add: detections_def sort_detections_def)
  note cut = cut_step_outcome [OF parts(2) ok]
  have ok1: "tracks_ok nfc (ps_next_ordinal st) (ps_active st)" using cut by simp
  have distinct: "distinct (map fst (ps_active st))" using ok1 by (simp add: tracks_ok_def)
  have kept: "(k, t) \<in> set (ps_active st0) \<and> fd_score_basis_points d < CUT_THRESHOLD_BASIS_POINTS"
    if "(k, t) \<in> set (ps_active st)" for k t
    using cut that by (auto split: if_splits)
  obtain new1 where new1: "ps_completed st = ps_completed st0 @ new1"
      "\<forall>v \<in> set new1. \<exists>(k, t) \<in> set (ps_active st0). tk_points v = at_points t"
    using cut by blast
  note pairs = association_facts [OF ok1 parts(3) [unfolded rows_def], folded rows_def]
  have at: "\<forall>(i, j) \<in> set pairs. map_of (ps_active st) (at_ordinal (rows ! i)) = Some (rows ! i)"
    using pairs(1) by auto
  note E = extend_matched_outcome [OF nfc parts(4) distinct at pairs(3)]
  define matched where "matched = map (\<lambda>(i, j). at_ordinal (rows ! i)) pairs"
  have extended: "if k \<in> set matched then P (at_points t) (at_missed_samples t) else (k, t) \<in> set (ps_active st)"
    if kt: "(k, t) \<in> set active1" for k t
  proof -
    from E [THEN conjunct2, THEN conjunct2, THEN bspec, OF kt] consider
        "(k, t) \<in> set (ps_active st)" "k \<notin> set matched"
      | i j where "(i, j) \<in> set pairs" "k = at_ordinal (rows ! i)"
          "t = \<lparr>at_ordinal = k, at_points = at_points (rows ! i) @ [point_of (detections ! j)], at_missed_samples = 0\<rparr>"
      by (auto simp: matched_def)
    then show ?thesis
    proof cases
      case 2
      have "(k, rows ! i) \<in> set (ps_active st)"
        using pairs(1) [OF 2(1)] 2(2) by (auto dest: map_of_SomeD)
      then have "P0 (at_points (rows ! i)) (at_missed_samples (rows ! i))" "fd_score_basis_points d < CUT_THRESHOLD_BASIS_POINTS"
        using kept before by auto
      moreover have "detections ! j \<in> set found" using pairs(1) [OF 2(1)] found nth_mem by blast
      ultimately have "P (at_points (rows ! i) @ [point_of (detections ! j)]) 0"
        using pairs(1) [OF 2(1)] by (blast intro: extends)
      moreover have "k \<in> set matched" using 2(1,2) by (force simp: matched_def)
      ultimately show ?thesis using 2(3) by simp
    qed simp
  qed
  have keys: "distinct (map fst active1)" "distinct (sort (map fst active1))"
      "set (sort (map fst active1)) \<subseteq> set (map fst active1)"
    using E [THEN conjunct1] distinct by simp_all
  note A = age_unmatched_outcome [OF parts(5) keys, folded matched_def]
  obtain new2 where new2: "completed = ps_completed st @ new2"
      "\<forall>v \<in> set new2. \<exists>(k, t) \<in> set active1. k \<in> set (sort (map fst active1)) - set matched \<and> tk_points v = at_points t \<and>
          MAX_MISSED_SAMPLES < at_missed_samples t + 1 \<and>
          tk_termination_reason v = ''miss_timeout'' \<and> tracklet_post nfc v = None"
    using A [THEN conjunct2, THEN conjunct2, THEN conjunct2, THEN conjunct1] by (elim exE conjE)
  have aged: "P (at_points u) (at_missed_samples u)" if ku: "(k, u) \<in> set active2" for k u
  proof -
    have "k \<in> set (map fst active1)" using A [THEN conjunct2, THEN conjunct1] ku by force
    then consider t where "k \<notin> set matched" "(k, t) \<in> set active1"
          "u = \<lparr>at_ordinal = k, at_points = at_points t, at_missed_samples = at_missed_samples t + 1\<rparr>"
          "active_track_post nfc u = None"
      | "k \<in> set matched" "(k, u) \<in> set active1"
      using A [THEN conjunct2, THEN conjunct2, THEN conjunct2, THEN conjunct2, THEN bspec, OF ku] by (auto split: if_splits)
    then show ?thesis
    proof cases
      case 1
      then have "(k, t) \<in> set (ps_active st)" using extended [of k t] by simp
      moreover have "at_missed_samples t + 1 \<le> MAX_MISSED_SAMPLES"
        using active_track_postD(5) [OF 1(4)] 1(3) by simp
      ultimately have "P (at_points t) (at_missed_samples t + 1)" using kept before by (blast intro: ages)
      then show ?thesis using 1(3) by simp
    next
      case 2
      then show ?thesis using extended [of k u] by simp
    qed
  qed
  have below: "\<forall>k \<in> fst ` set active2. k < ps_next_ordinal st"
  proof
    fix k assume "k \<in> fst ` set active2"
    then have "k \<in> set (map fst (ps_active st))" using A [THEN conjunct2, THEN conjunct1] E [THEN conjunct1] by auto
    with ok1 show "k < ps_next_ordinal st" by (auto simp: tracks_ok_def)
  qed
  have "distinct (map fst active2)" using A [THEN conjunct1] .
  from open_tracks_outcome [OF nfc parts(6) this below] obtain new where
      opened: "active3 = active2 @ new"
        "map (at_points \<circ> snd) new = map (\<lambda>ob. [point_of ob]) (unmatched (map snd pairs) (enumerate 0 detections))"
        "\<forall>(k, t) \<in> set new. at_missed_samples t = 0"
    by blast
  have "P (at_points t) (at_missed_samples t)" if kt: "(k, t) \<in> set new" for k t
  proof -
    have "at_points t \<in> set (map (at_points \<circ> snd) new)" using kt by force
    then obtain ob where "ob \<in> set (unmatched (map snd pairs) (enumerate 0 detections))" "at_points t = [point_of ob]"
      unfolding opened(2) by auto
    moreover have "set (unmatched js (enumerate 0 xs)) \<subseteq> set xs" for js and xs :: "observation list"
      by (auto simp: unmatched_def in_set_enumerate_eq)
    ultimately show ?thesis using opened(3) kt found opens by fastforce
  qed
  with aged have "\<forall>(k, t) \<in> set active3. P (at_points t) (at_missed_samples t)"
    by (auto simp: opened(1))
  moreover have "Q (tk_points v)" if "v \<in> set (new1 @ new2)" for v
  proof -
    from that have "v \<in> set new1 \<or> v \<in> set new2" by simp
    then obtain k t where "(k, t) \<in> set (ps_active st0)" "tk_points v = at_points t"
    proof
      assume "v \<in> set new2"
      with new2(2) obtain k t where "(k, t) \<in> set active1" "k \<notin> set matched" "tk_points v = at_points t" by blast
      with extended [of k t] kept [of k t] show ?thesis by (intro that [of k t]) simp_all
    qed (use new1(2) that in blast)
    with before completes show ?thesis by metis
  qed
  ultimately show ?thesis
    using parts(7) new1(1) new2(1) by (intro conjI exI [of _ "new1 @ new2"]) auto
qed

section \<open>All frames of a page\<close>

lemma frame_loop_conserves:
  assumes nfc: "nfc_ascii nfc"
    and "frame_loop nfc limits operation cancel n by_frame items st = Inr st'"
    and "tracks_ok nfc (ps_next_ordinal st) (ps_active st)"
  shows "tracks_ok nfc (ps_next_ordinal st') (ps_active st') \<and>
    mset (active_points (ps_active st')) + mset (completed_points (ps_completed st')) =
      mset (active_points (ps_active st)) + mset (completed_points (ps_completed st)) +
      mset (concat (map (\<lambda>(f, _). map point_of (the (by_frame (fr_frame_id f)))) items))"
  using assms(2-)
proof (induction items arbitrary: n st)
  case (Cons item items)
  obtain f d where item: "item = (f, d)" by fastforce
  from Cons.prems(1) obtain st1 where
      step: "frame_step nfc limits operation (cancel n) (the (by_frame (fr_frame_id f))) d st = Inr st1"
    and rest: "frame_loop nfc limits operation cancel (Suc n) by_frame items st1 = Inr st'"
    by (auto simp: item outcome)
  note first = frame_step_conserves [OF nfc step Cons.prems(2)]
  from Cons.IH [OF rest] first show ?case by (simp add: item ac_simps)
qed simp

text \<open>
  The invariant rule of the loop: \<open>P i\<close> holds of the active tracks before frame \<open>i\<close>, \<open>Q\<close> of every
  completed one.
\<close>

lemma frame_loop_invariant:
  assumes nfc: "nfc_ascii nfc"
    and "frame_loop nfc limits operation cancel n by_frame items st = Inr st'"
    and "tracks_ok nfc (ps_next_ordinal st) (ps_active st)"
    and "\<And>k t. (k, t) \<in> set (ps_active st) \<Longrightarrow> P 0 (at_points t) (at_missed_samples t)"
    and "\<And>v. v \<in> set (ps_completed st) \<Longrightarrow> Q (tk_points v)"
    and completes: "\<And>i ps m. i < length items \<Longrightarrow> P i ps m \<Longrightarrow> Q ps"
    and extends: "\<And>i ps m ob. i < length items \<Longrightarrow> P i ps m \<Longrightarrow>
      fd_score_basis_points (snd (items ! i)) < CUT_THRESHOLD_BASIS_POINTS \<Longrightarrow>
      ob \<in> set (the (by_frame (fr_frame_id (fst (items ! i))))) \<Longrightarrow>
      ASSOCIATION_IOU_BASIS_POINTS \<le>
        iou_basis_points (ge_box_xyxy (tp_geometry (last ps))) (ge_box_xyxy (ob_geometry ob)) \<Longrightarrow>
      P (Suc i) (ps @ [point_of ob]) 0"
    and ages: "\<And>i ps m. i < length items \<Longrightarrow> P i ps m \<Longrightarrow>
      fd_score_basis_points (snd (items ! i)) < CUT_THRESHOLD_BASIS_POINTS \<Longrightarrow>
      m + 1 \<le> MAX_MISSED_SAMPLES \<Longrightarrow> P (Suc i) ps (m + 1)"
    and opens: "\<And>i ob. i < length items \<Longrightarrow> ob \<in> set (the (by_frame (fr_frame_id (fst (items ! i))))) \<Longrightarrow>
      P (Suc i) [point_of ob] 0"
  shows "(\<forall>(k, t) \<in> set (ps_active st'). P (length items) (at_points t) (at_missed_samples t)) \<and>
    (\<forall>v \<in> set (ps_completed st'). Q (tk_points v))"
  using assms(2-)
proof (induction items arbitrary: n st P)
  case (Cons item items)
  obtain f d where item: "item = (f, d)" by fastforce
  from Cons.prems(1) obtain st1 where
      step: "frame_step nfc limits operation (cancel n) (the (by_frame (fr_frame_id f))) d st = Inr st1"
    and rest: "frame_loop nfc limits operation cancel (Suc n) by_frame items st1 = Inr st'"
    by (auto simp: item outcome)
  have first: "(\<forall>(k, t) \<in> set (ps_active st1). P (Suc 0) (at_points t) (at_missed_samples t)) \<and>
    (\<exists>new. ps_completed st1 = ps_completed st @ new \<and> (\<forall>v \<in> set new. Q (tk_points v)))"
    using Cons.prems(3) Cons.prems(5-8) [of 0]
    by (intro frame_step_invariant [OF nfc step Cons.prems(2), of "P 0"]) (auto simp: item)
  have ok1: "tracks_ok nfc (ps_next_ordinal st1) (ps_active st1)"
    using frame_step_conserves [OF nfc step Cons.prems(2)] by simp
  have "(\<forall>(k, t) \<in> set (ps_active st'). P (Suc (length items)) (at_points t) (at_missed_samples t)) \<and>
    (\<forall>v \<in> set (ps_completed st'). Q (tk_points v))"
  proof (rule Cons.IH [OF rest ok1, of "\<lambda>i. P (Suc i)"])
    show "P (Suc 0) (at_points t) (at_missed_samples t)" if "(k, t) \<in> set (ps_active st1)" for k t
      using first that by blast
    show "Q (tk_points v)" if "v \<in> set (ps_completed st1)" for v
      using first that Cons.prems(4) by auto
  qed (use Cons.prems(5-8) [of "Suc _"] in simp_all)
  then show ?case by simp
qed auto

lemma frame_loop_append:
  "frame_loop nfc limits operation cancel n by_frame (xs @ ys) st =
     bindE (frame_loop nfc limits operation cancel n by_frame xs st)
       (frame_loop nfc limits operation cancel (n + length xs) by_frame ys)"
proof (induction xs arbitrary: n st)
  case (Cons x xs)
  show ?case
    by (cases x) (auto simp: Cons bindE_def split: sum.splits)
qed simp

end
