(* ===== verification/Tracker_Pages.thy ===== *)
theory Tracker_Pages
  imports Tracker_Facts
begin

text \<open>
  The tracker's pages: what the validation accepts, how a complete page is computed, and the properties
  of its tracklets.
\<close>

section \<open>What the validation accepts\<close>

definition observation_fits ::
  "source \<Rightarrow> int \<Rightarrow> source_stream option \<Rightarrow> frame_ref list \<Rightarrow> observation \<Rightarrow> bool" where
  "observation_fits src stream_index stream frames ob \<longleftrightarrow>
     (\<exists>f. find (\<lambda>f. fr_frame_id f = ob_frame_id ob) frames = Some f \<and> ob_pts ob = fr_pts f) \<and>
     ob_source_id ob = so_source_id src \<and> ob_stream_index ob = stream_index \<and>
     (\<exists>st. stream = Some st \<and> ge_source_width (ob_geometry ob) = ss_width st \<and>
        ge_source_height (ob_geometry ob) = ss_height st)"

lemma observation_fitsD:
  assumes "observation_fits src stream_index stream frames ob"
  shows "\<exists>f \<in> set frames. fr_frame_id f = ob_frame_id ob \<and> ob_pts ob = fr_pts f"
proof -
  from assms obtain f where f: "find (\<lambda>f. fr_frame_id f = ob_frame_id ob) frames = Some f" "ob_pts ob = fr_pts f"
    by (auto simp: observation_fits_def)
  then show ?thesis by (auto simp: find_Some_iff intro!: bexI [of _ f])
qed

lemma group_observations_Inr:
  "group_observations src stream_index stream frames operation seen grouped observations = Inr m \<longleftrightarrow>
     (\<forall>ob \<in> set observations. observation_fits src stream_index stream frames ob) \<and>
     distinct (map ob_observation_id observations) \<and> ob_observation_id ` set observations \<inter> set seen = {} \<and>
     m = (\<lambda>f. map_option (\<lambda>items. items @ filter (\<lambda>ob. ob_frame_id ob = f) observations) (grouped f))"
proof (induction observations arbitrary: seen grouped)
  case Nil
  show ?case by (auto simp: option.map_ident fun_eq_iff)
next
  case (Cons ob observations)
  show ?case
  proof (cases "observation_fits src stream_index stream frames ob \<and> ob_observation_id ob \<notin> set seen")
    case True
    then obtain f where f: "find (\<lambda>f. fr_frame_id f = ob_frame_id ob) frames = Some f" "ob_pts ob = fr_pts f"
      by (auto simp: observation_fits_def)
    then have id: "fr_frame_id f = ob_frame_id ob" by (auto simp: find_Some_iff)
    have "group_observations src stream_index stream frames operation seen grouped (ob # observations) =
        group_observations src stream_index stream frames operation (ob_observation_id ob # seen)
          (grouped(ob_frame_id ob := map_option (\<lambda>items. items @ [ob]) (grouped (ob_frame_id ob)))) observations"
      using True f id by (auto simp: observation_fits_def)
    moreover have "(\<lambda>g. map_option (\<lambda>items. items @ filter (\<lambda>ob. ob_frame_id ob = g) observations)
          ((grouped(ob_frame_id ob := map_option (\<lambda>items. items @ [ob]) (grouped (ob_frame_id ob)))) g)) =
        (\<lambda>g. map_option (\<lambda>items. items @ filter (\<lambda>ob. ob_frame_id ob = g) (ob # observations)) (grouped g))"
      by (auto simp: fun_eq_iff option.map_comp comp_def)
    ultimately show ?thesis using True Cons.IH by auto
  next
    case False
    then have "group_observations src stream_index stream frames operation seen grouped (ob # observations) =
        Inl (tracker_error CONFLICT operation)"
      by (auto simp: observation_fits_def split: option.splits)
    with False show ?thesis by auto
  qed
qed

definition prior_diagnostics :: "tracking_cursor option \<Rightarrow> tracking_diagnostics" where
  "prior_diagnostics cursor = (case cursor of None \<Rightarrow> no_diagnostics | Some c \<Rightarrow> tc_diagnostics c)"

definition selected_discontinuities :: "frame_discontinuity list option \<Rightarrow> frame_discontinuity list" where
  "selected_discontinuities discontinuities = (case discontinuities of None \<Rightarrow> [] | Some ds \<Rightarrow> ds)"

text \<open>The conditions of \<open>validate_inputs\<close> and its value, given the selected stream.\<close>

lemma validate_inputs_Inr:
  "validate_inputs nfc s src frames observations discontinuities cursor end_of_stream cancelled operation = Inr v \<longleftrightarrow>
   (\<exists>stream_index stream.
     request_shape_check (tr_limits s) frames observations discontinuities end_of_stream operation = None \<and>
     request_values_check nfc src frames observations discontinuities cursor operation = None \<and>
     cursor_binding_check s src cursor operation = None \<and>
     distinct (map fr_frame_id frames) \<and> distinct (map (\<lambda>f. (fr_stream_index f, fr_decode_index f)) frames) \<and>
     select_stream src frames cursor operation = Inr (stream_index, stream) \<and>
     list_all (\<lambda>(p, q). frame_seconds p < frame_seconds q \<and> decode_number p < decode_number q)
       (pairwise (ordered_frames frames cursor)) \<and>
     discontinuities_check frames (selected_discontinuities discontinuities) cursor operation = None \<and>
     (\<forall>ob \<in> set observations. observation_fits src stream_index stream frames ob) \<and>
     distinct (map ob_observation_id observations) \<and>
     (\<forall>f \<in> set frames. int (length (filter (\<lambda>ob. ob_frame_id ob = fr_frame_id f) observations))
        \<le> tl_max_active_tracks (tr_limits s)) \<and>
     td_frame_count (prior_diagnostics cursor) + int (length frames) \<le> tl_max_total_frames (tr_limits s) \<and>
     td_observation_count (prior_diagnostics cursor) + int (length observations) \<le> tl_max_total_observations (tr_limits s) \<and>
     (frames \<noteq> [] \<longrightarrow> frame_seconds (last frames) - media_seconds (first_pts_of frames cursor)
        \<le> of_int (tl_max_duration_seconds (tr_limits s))) \<and>
     \<not> cancelled \<and>
     v = \<lparr>vi_by_frame = (\<lambda>f. if f \<in> fr_frame_id ` set frames then Some (filter (\<lambda>ob. ob_frame_id ob = f) observations) else None),
          vi_discontinuities = selected_discontinuities discontinuities,
          vi_rate_supported = list_all (\<lambda>(p, q). frame_seconds q - frame_seconds p = 1 / of_int TRACKING_FPS)
            (pairwise (ordered_frames frames cursor)),
          vi_stream = stream\<rparr>)"
proof -
  have grouped: "(\<lambda>g. map_option (\<lambda>items. items @ filter (\<lambda>ob. ob_frame_id ob = g) observations)
       (map_of (map (\<lambda>f. (fr_frame_id f, [])) frames) g)) =
     (\<lambda>g. if g \<in> fr_frame_id ` set frames then Some (filter (\<lambda>ob. ob_frame_id ob = g) observations) else None)"
  proof
    fix g
    have "map_of (map (\<lambda>f. (fr_frame_id f, [] :: observation list)) frames) g = (if g \<in> fr_frame_id ` set frames then Some [] else None)"
      by (induction frames) auto
    then show "map_option (\<lambda>items. items @ filter (\<lambda>ob. ob_frame_id ob = g) observations)
       (map_of (map (\<lambda>f. (fr_frame_id f, [])) frames) g) =
     (if g \<in> fr_frame_id ` set frames then Some (filter (\<lambda>ob. ob_frame_id ob = g) observations) else None)" by simp
  qed
  have counts: "(case cursor of None \<Rightarrow> 0 | Some c \<Rightarrow> td_frame_count (tc_diagnostics c)) = td_frame_count (prior_diagnostics cursor)"
      "(case cursor of None \<Rightarrow> 0 | Some c \<Rightarrow> td_observation_count (tc_diagnostics c)) = td_observation_count (prior_diagnostics cursor)"
    by (cases cursor; simp add: prior_diagnostics_def no_diagnostics_def)+
  show ?thesis
    unfolding validate_inputs_def Let_def counts selected_discontinuities_def [symmetric] bindE_Inr_iff checked_Inr_iff
      split_paired_Ex prod.case run_checks_ConsN require_None group_observations_Inr grouped check_cancelled_def
    by (auto simp: list_all_iff)
qed

section \<open>How a complete page is computed\<close>

lemma cursor_binding_None:
  "cursor_binding_check s src (Some c) operation = None \<longleftrightarrow>
     cursor_integrity_hmac_sha256 c (tr_cursor_integrity_key s) = Inr (tc_integrity_hmac_sha256 c) \<and>
     \<not> tc_finished c \<and> tc_source_id c = so_source_id src \<and> tc_limits c = tr_limits s"
  by (auto simp: cursor_binding_check_def check_option_def split: sum.splits)

lemma request_values_None:
  "request_values_check nfc src frames observations discontinuities cursor operation = None \<longleftrightarrow>
     validate_source nfc src = None \<and> (\<forall>f \<in> set frames. frame_valid nfc f) \<and>
     (\<forall>ob \<in> set observations. observation_post nfc ob = None) \<and>
     (\<forall>d \<in> set (selected_discontinuities discontinuities). discontinuity_post nfc d = None) \<and>
     pred_option (\<lambda>c. tracking_cursor_post nfc c = None) cursor"
  by (cases discontinuities)
    (auto simp: request_values_check_def outcome run_checks_None selected_discontinuities_def)

lemma tracking_cursor_postD:
  assumes "tracking_cursor_post nfc c = None"
  shows "tracking_limits_post (tc_limits c) = None" "tracking_diagnostics_post (tc_diagnostics c) = None"
    "\<forall>t \<in> set (tc_active_tracks c). active_track_post nfc t = None" "cursor_prefix_ok c"
    "cursor_tracks_ok c [] (tc_active_tracks c)" "validate_source_stream nfc (tc_source_stream c) = None"
    "media_time_valid nfc (tc_first_pts c)" "frame_valid nfc (tc_last_frame c)"
  using assms by (simp_all add: tracking_cursor_post_def outcome run_checks_None)

lemma cursor_tracks_okD: "cursor_tracks_ok c seen ts \<Longrightarrow> t \<in> set ts \<Longrightarrow> \<exists>seen'. cursor_track_ok c seen' t"
  by (induction ts arbitrary: seen) auto

definition cursor_tracks :: "tracking_cursor option \<Rightarrow> active_track list" where
  "cursor_tracks cursor = (case cursor of None \<Rightarrow> [] | Some c \<Rightarrow> tc_active_tracks c)"

definition cursor_points :: "tracking_cursor option \<Rightarrow> track_point list" where
  "cursor_points cursor = concat (map at_points (cursor_tracks cursor))"

definition start_state :: "tracking_cursor option \<Rightarrow> page_state" where
  "start_state cursor =
     (let base = prior_diagnostics cursor in
      \<lparr>ps_active = map (\<lambda>t. (at_ordinal t, t)) (cursor_tracks cursor),
       ps_next_ordinal = (case cursor of None \<Rightarrow> 1 | Some c \<Rightarrow> tc_next_ordinal c),
       ps_created_tracks = td_created_tracks base, ps_maximum_active = td_maximum_active_tracks base,
       ps_cut_frames = td_detected_cut_frames base, ps_cut_terminations = td_cut_terminations base,
       ps_miss_terminations = td_miss_timeout_terminations base,
       ps_source_terminations = td_source_end_terminations base, ps_completed = []\<rparr>)"

lemma fold_update_distinct:
  assumes "distinct (map at_ordinal ts)" and "set (map at_ordinal ts) \<inter> set (map fst al) = {}"
  shows "fold (\<lambda>t. AList.update (at_ordinal t) t) ts al = al @ map (\<lambda>t. (at_ordinal t, t)) ts"
  using assms
proof (induction ts arbitrary: al)
  case (Cons t ts)
  then have "AList.update (at_ordinal t) t al = al @ [(at_ordinal t, t)]"
    by (intro alist_update_new) auto
  moreover have "set (map at_ordinal ts) \<inter> set (map fst (al @ [(at_ordinal t, t)])) = {}"
    using Cons.prems by auto
  ultimately show ?case using Cons by (simp del: map_append)
qed simp

lemma initial_state_start:
  assumes "pred_option (\<lambda>c. tracking_cursor_post nfc c = None) cursor"
  shows "initial_state nfc cursor (prior_diagnostics cursor) = Inr (start_state cursor)"
proof -
  have "mapE (copy_active_track nfc) (cursor_tracks cursor) = Inr (cursor_tracks cursor)"
    using assms by (intro mapE_id copy_active_track_valid) (auto simp: cursor_tracks_def dest!: tracking_cursor_postD(3) split: option.splits)
  moreover have "distinct (map at_ordinal (cursor_tracks cursor))"
    using assms by (auto simp: cursor_tracks_def cursor_prefix_ok_def Let_def dest!: tracking_cursor_postD(4) split: option.splits)
  ultimately show ?thesis
    using fold_update_distinct [of "cursor_tracks cursor" "[]"]
    by (simp add: initial_state_def start_state_def Let_def flip: cursor_tracks_def)
qed

lemma start_state_ok:
  assumes "pred_option (\<lambda>c. tracking_cursor_post nfc c = None) cursor"
  shows "tracks_ok nfc (ps_next_ordinal (start_state cursor)) (ps_active (start_state cursor))"
proof (cases cursor)
  case None
  then show ?thesis by (simp add: start_state_def cursor_tracks_def tracks_ok_def Let_def)
next
  case (Some c)
  with assms have post: "tracking_cursor_post nfc c = None" by simp
  have "at_ordinal t < tc_next_ordinal c" if "t \<in> set (tc_active_tracks c)" for t
    using cursor_tracks_okD [OF tracking_cursor_postD(5) [OF post] that] by (auto simp: cursor_track_ok_def Let_def)
  moreover have "distinct (map at_ordinal (tc_active_tracks c))"
    using tracking_cursor_postD(4) [OF post] by (simp add: cursor_prefix_ok_def Let_def)
  ultimately show ?thesis
    using Some tracking_cursor_postD(3) [OF post]
    by (auto simp: start_state_def cursor_tracks_def tracks_ok_def Let_def comp_def)
qed

lemma base_diagnostics:
  assumes "pred_option (\<lambda>c. tracking_cursor_post nfc c = None) cursor"
  shows "(case cursor of None \<Rightarrow> Inr no_diagnostics | Some c \<Rightarrow> copy_tracking_diagnostics (tc_diagnostics c)) =
     Inr (prior_diagnostics cursor)"
  using assms by (cases cursor) (simp_all add: prior_diagnostics_def copy_tracking_diagnostics_valid tracking_cursor_postD)

text \<open>The page that has no frame to continue from, and the one that does.\<close>

definition core_result ::
  "(string \<Rightarrow> string) \<Rightarrow> tracker \<Rightarrow> source \<Rightarrow> frame_ref list \<Rightarrow> tracking_cursor option \<Rightarrow> bool \<Rightarrow> source_stream option \<Rightarrow>
   page_state \<Rightarrow> tracking_diagnostics \<Rightarrow> tracking_page res" where
  "core_result nfc s src frames cursor end_of_stream selected st diagnostics =
     (case (frames, cursor) of
       ([], None) \<Rightarrow> mk_tracking_page nfc COMPLETE [] None True diagnostics None
     | _ \<Rightarrow>
         (case selected of
            None \<Rightarrow> Inl (AssertionError ''validated tracking page has no source stream'')
          | Some stream \<Rightarrow>
              let last_frame = (if frames \<noteq> [] then last frames else tc_last_frame (the cursor)) in
              bindE (next_cursor nfc s src stream last_frame (first_pts_of frames cursor) st diagnostics end_of_stream) (\<lambda>c.
              mk_tracking_page nfc COMPLETE (ps_completed st) (Some c) end_of_stream diagnostics None)))"

lemma track_page_core_complete:
  assumes "tg_state page = COMPLETE"
  shows "track_page_core nfc s src frames observations discontinuities cursor end_of_stream cancel operation = Inr page \<longleftrightarrow>
    (\<exists>v st1 st.
      \<not> cancel 0 \<and>
      validate_inputs nfc s src frames observations discontinuities cursor end_of_stream (cancel 1) operation = Inr v \<and>
      tr_requested_category s = ''vehicle'' \<and> (\<forall>ob \<in> set observations. ob_category ob = ''vehicle'') \<and>
      vi_rate_supported v \<and> (frames \<noteq> [] \<longrightarrow> discontinuities \<noteq> None) \<and>
      length frames = length (vi_discontinuities v) \<and>
      frame_loop nfc (tr_limits s) operation cancel 2 (vi_by_frame v) (zip frames (vi_discontinuities v)) (start_state cursor) = Inr st1 \<and>
      finish_source nfc end_of_stream st1 = Inr st \<and>
      tracking_diagnostics_post (page_diagnostics (prior_diagnostics cursor) (length frames) (length observations) st) = None \<and>
      length (ps_completed st) \<le> MAX_PORT_BATCH_ITEMS \<and>
      core_result nfc s src frames cursor end_of_stream (vi_stream v) st
        (page_diagnostics (prior_diagnostics cursor) (length frames) (length observations) st) = Inr page)"
    (is "?core = Inr page \<longleftrightarrow> ?rhs")
proof (cases "\<exists>v. validate_inputs nfc s src frames observations discontinuities cursor end_of_stream (cancel 1) operation = Inr v")
  case False
  then have "?core \<noteq> Inr page" by (auto simp: track_page_core_def bindE_Inr_iff)
  with False show ?thesis by blast
next
  case True
  then obtain v where v: "validate_inputs nfc s src frames observations discontinuities cursor end_of_stream (cancel 1) operation = Inr v"
    by blast
  then have "request_values_check nfc src frames observations discontinuities cursor operation = None"
    by (simp add: validate_inputs_Inr)
  then have post: "pred_option (\<lambda>c. tracking_cursor_post nfc c = None) cursor"
    by (simp only: request_values_None)
  have incomplete: "mk_tracking_page nfc state tracklets cur fin diag reason \<noteq> Inr page" if "state \<noteq> COMPLETE"
      for state tracklets cur fin diag reason
    using assms that by (auto simp: mk_tracking_page_def Let_def outcome)
  have core: "?core = bindE (checked (check_cancelled (cancel 0) operation) ()) (\<lambda>_.
      if tr_requested_category s \<noteq> ''vehicle'' \<or> (\<exists>ob \<in> set observations. ob_category ob \<noteq> ''vehicle'')
      then mk_tracking_page nfc UNSUPPORTED_RESULT [] None True (prior_diagnostics cursor) (Some ''category_unsupported'')
      else if \<not> vi_rate_supported v
      then mk_tracking_page nfc UNSUPPORTED_RESULT [] None True (prior_diagnostics cursor) (Some ''sampling_rate_unsupported'')
      else if discontinuities = None \<and> frames \<noteq> []
      then mk_tracking_page nfc UNKNOWN [] None True (prior_diagnostics cursor) (Some ''cut_scores_unavailable'')
      else bindE (checked (require (length frames = length (vi_discontinuities v)) (ValueError ''zip() arguments differ in length'')) ())
       (\<lambda>_.
      bindE (frame_loop nfc (tr_limits s) operation cancel 2 (vi_by_frame v) (zip frames (vi_discontinuities v)) (start_state cursor)) (\<lambda>st1.
      bindE (finish_source nfc end_of_stream st1) (\<lambda>st.
      let diagnostics = page_diagnostics (prior_diagnostics cursor) (length frames) (length observations) st in
      bindE (checked (run_checks
       [tracking_diagnostics_post diagnostics,
        require (length (ps_completed st) \<le> MAX_PORT_BATCH_ITEMS) (tracker_error LIMIT_EXCEEDED operation)]) ()) (\<lambda>_.
      core_result nfc s src frames cursor end_of_stream (vi_stream v) st diagnostics)))))"
    by (simp only: track_page_core_def v base_diagnostics [OF post] initial_state_start [OF post] core_result_def bindE_simps)
  show ?thesis
    unfolding core v using incomplete [of UNSUPPORTED_RESULT] incomplete [of UNKNOWN]
    by (auto simp: bindE_Inr_iff checked_Inr_iff check_cancelled_def Let_def split: if_splits)
qed

section \<open>Every observation is in one track\<close>

lemma next_cursor_Inr:
  assumes "next_cursor nfc s src stream last_frame first_pts st diagnostics end_of_stream = Inr c"
  shows "tc_active_tracks c = sorted_tracks (ps_active st)" "tc_next_ordinal c = ps_next_ordinal st"
    "tc_diagnostics c = diagnostics" "tc_finished c = end_of_stream" "tc_source_id c = so_source_id src"
    "tc_stream_index c = fr_stream_index last_frame"
  using assms
  by (auto simp: next_cursor_def seal_cursor_def cursor_integrity_hmac_sha256_def bindE_Inr_iff checked_Inr_iff Let_def
      mapE_Inr_iff copy_active_track_Inr list_all2_conv_all_nth split: if_splits intro: nth_equalityI)

lemma finish_source_outcome:
  assumes "finish_source nfc end_of_stream st1 = Inr st" and ok: "tracks_ok nfc next (ps_active st1)"
  shows "\<exists>new. ps_completed st = ps_completed st1 @ new \<and> ps_next_ordinal st = ps_next_ordinal st1 \<and>
    mset (active_points (ps_active st)) + mset (completed_points (ps_completed st)) =
      mset (active_points (ps_active st1)) + mset (completed_points (ps_completed st1)) \<and>
    (\<forall>v \<in> set new. \<exists>(k, t) \<in> set (ps_active st1). tk_points v = at_points t) \<and>
    (if end_of_stream then ps_active st = [] else st = st1)"
proof (cases end_of_stream)
  case True
  let ?st = "st1\<lparr>ps_source_terminations := ps_source_terminations st1 + int (length (ps_active st1))\<rparr>"
  have "complete_all nfc ''source_end'' ?st = Inr st" using assms(1) True by (simp add: finish_source_def)
  moreover have "tracks_ok nfc next (ps_active ?st)" using ok by simp
  ultimately obtain new where "st = ?st\<lparr>ps_active := [], ps_completed := ps_completed ?st @ new\<rparr>"
     "mset (completed_points new) = mset (active_points (ps_active ?st))"
     "\<forall>v \<in> set new. tracklet_post nfc v = None \<and> tk_termination_reason v = ''source_end'' \<and>
        (\<exists>(k, t) \<in> set (ps_active ?st). tk_points v = at_points t)"
    using complete_all_outcome by blast
  with True show ?thesis by (intro exI [of _ new]) auto
next
  case False
  with assms show ?thesis by (simp add: finish_source_def)
qed

lemma filter_by_key:
  assumes "distinct ks"
  shows "mset (concat (map (\<lambda>k. map g (filter (\<lambda>x. key x = k) xs)) ks)) =
     image_mset g (filter_mset (\<lambda>x. key x \<in> set ks) (mset xs))"
  using assms
proof (induction ks)
  case (Cons k ks)
  have "filter_mset (\<lambda>x. key x = k) (mset xs) + filter_mset (\<lambda>x. key x \<in> set ks) (mset xs) =
      filter_mset (\<lambda>x. key x \<in> set (k # ks)) (mset xs)"
    using Cons.prems by (auto simp: multiset_eq_iff)
  then have "image_mset g (filter_mset (\<lambda>x. key x = k) (mset xs)) + image_mset g (filter_mset (\<lambda>x. key x \<in> set ks) (mset xs)) =
      image_mset g (filter_mset (\<lambda>x. key x \<in> set (k # ks)) (mset xs))"
    by (simp only: flip: image_mset_union)
  with Cons show ?case by simp
qed simp

lemma observations_by_frame:
  assumes "distinct (map fr_frame_id frames)" and "length frames = length ds"
    and "\<forall>ob \<in> set observations. observation_fits src stream_index stream frames ob"
  shows "mset (concat (map (\<lambda>(f, _). map point_of (the (if fr_frame_id f \<in> fr_frame_id ` set frames
       then Some (filter (\<lambda>ob. ob_frame_id ob = fr_frame_id f) observations) else None))) (zip frames ds))) =
     mset (map point_of observations)"
proof -
  have "map (\<lambda>(f, _). map point_of (the (if fr_frame_id f \<in> fr_frame_id ` set frames
       then Some (filter (\<lambda>ob. ob_frame_id ob = fr_frame_id f) observations) else None))) (zip frames ds) =
     map (\<lambda>k. map point_of (filter (\<lambda>ob. ob_frame_id ob = k) observations)) (map fr_frame_id frames)"
    using assms(2) by (intro nth_equalityI) auto
  moreover have "ob_frame_id ob \<in> set (map fr_frame_id frames)" if "ob \<in> set observations" for ob
    using observation_fitsD [of src stream_index stream frames ob] assms(3) that by force
  then have "filter_mset (\<lambda>ob. ob_frame_id ob \<in> set (map fr_frame_id frames)) (mset observations) = mset observations"
    by (intro filter_mset_eq_conv [THEN iffD2]) auto
  ultimately show ?thesis
    using filter_by_key [OF assms(1), of point_of ob_frame_id observations] by simp
qed

lemma track_page_Inr:
  "track_page nfc s src frames observations discontinuities cursor end_of_stream cancel = Inr (page, s') \<longleftrightarrow>
     track_page_core nfc s src frames observations discontinuities cursor end_of_stream cancel ''track_page'' = Inr page \<and>
     (\<exists>calls. record_call (tr_calls s) TRACKER ''track_page'' (length frames) = Inr calls \<and> s' = s\<lparr>tr_calls := calls\<rparr>)"
  by (auto simp: track_page_def bindE_Inr_iff except_value_Inr)

lemma core_result_Inr:
  assumes "core_result nfc s src frames cursor end_of_stream selected st diagnostics = Inr page"
  shows "frames = [] \<and> cursor = None \<and> tg_tracklets page = [] \<and> tg_cursor page = None \<and> tg_finished page \<or>
    (frames \<noteq> [] \<or> cursor \<noteq> None) \<and> tg_tracklets page = ps_completed st \<and> tg_finished page = end_of_stream \<and>
      (\<exists>stream c. selected = Some stream \<and> tg_cursor page = Some c \<and>
         next_cursor nfc s src stream (if frames \<noteq> [] then last frames else tc_last_frame (the cursor))
           (first_pts_of frames cursor) st diagnostics end_of_stream = Inr c)"
  using assms
  by (cases frames; cases cursor)
    (auto simp: core_result_def mk_tracking_page_def bindE_Inr_iff checked_Inr_iff Let_def split: option.splits)

lemma core_conserves:
  assumes nfc: "nfc_ascii nfc" and complete: "tg_state page = COMPLETE"
    and core: "track_page_core nfc s src frames observations discontinuities cursor end_of_stream cancel operation = Inr page"
  shows "mset (completed_points (tg_tracklets page)) + mset (cursor_points (tg_cursor page)) =
      mset (cursor_points cursor) + mset (map point_of observations)"
    and "end_of_stream \<Longrightarrow> cursor_points (tg_cursor page) = []"
proof -
  from core [unfolded track_page_core_complete [OF complete]] obtain v st1 st where
      v: "validate_inputs nfc s src frames observations discontinuities cursor end_of_stream (cancel 1) operation = Inr v"
    and lens: "length frames = length (vi_discontinuities v)"
    and loop: "frame_loop nfc (tr_limits s) operation cancel 2 (vi_by_frame v) (zip frames (vi_discontinuities v)) (start_state cursor) = Inr st1"
    and finish: "finish_source nfc end_of_stream st1 = Inr st"
    and result: "core_result nfc s src frames cursor end_of_stream (vi_stream v) st
        (page_diagnostics (prior_diagnostics cursor) (length frames) (length observations) st) = Inr page"
    by blast
  from v [unfolded validate_inputs_Inr] obtain stream_index stream where
      shape: "request_shape_check (tr_limits s) frames observations discontinuities end_of_stream operation = None"
    and req: "request_values_check nfc src frames observations discontinuities cursor operation = None"
    and ids: "distinct (map fr_frame_id frames)"
    and fits: "\<forall>ob \<in> set observations. observation_fits src stream_index stream frames ob"
    and by_frame: "vi_by_frame v = (\<lambda>f. if f \<in> fr_frame_id ` set frames
        then Some (filter (\<lambda>ob. ob_frame_id ob = f) observations) else None)"
    by auto
  have post: "pred_option (\<lambda>c. tracking_cursor_post nfc c = None) cursor"
    using req by (simp only: request_values_None)
  note ok = start_state_ok [OF post]
  have start: "mset (active_points (ps_active (start_state cursor))) + mset (completed_points (ps_completed (start_state cursor))) =
      mset (cursor_points cursor)"
    by (simp add: start_state_def cursor_points_def active_points_def comp_def Let_def)
  note looped = frame_loop_conserves [OF nfc loop ok]
  obtain new where fin: "ps_completed st = ps_completed st1 @ new"
      "mset (active_points (ps_active st)) + mset (completed_points (ps_completed st)) =
       mset (active_points (ps_active st1)) + mset (completed_points (ps_completed st1))"
      "if end_of_stream then ps_active st = [] else st = st1"
    using finish_source_outcome [OF finish conjunct1 [OF looped]] by blast
  have total: "mset (active_points (ps_active st)) + mset (completed_points (ps_completed st)) =
      mset (cursor_points cursor) + mset (map point_of observations)"
    using looped fin(2) start observations_by_frame [OF ids lens fits] by (simp add: by_frame)
  have ok2: "distinct (map fst (ps_active st))"
    using looped fin(3) by (auto simp: tracks_ok_def split: if_splits)
  have sums: "mset (concat (map at_points ts)) = \<Sum>\<^sub># (image_mset (\<lambda>t. mset (at_points t)) (mset ts))" for ts
    by (induction ts) auto
  have sorted: "mset (concat (map at_points (sorted_tracks (ps_active st)))) = mset (active_points (ps_active st))"
    unfolding active_points_def map_map [symmetric] sums sorted_tracks_mset [OF ok2] ..
  from core_result_Inr [OF result] consider
      "frames = []" "cursor = None" "tg_tracklets page = []" "tg_cursor page = None"
    | c where "tg_tracklets page = ps_completed st" "tg_cursor page = Some c"
        "tc_active_tracks c = sorted_tracks (ps_active st)"
    by (elim disjE conjE exE) (auto dest: next_cursor_Inr(1))
  then show "mset (completed_points (tg_tracklets page)) + mset (cursor_points (tg_cursor page)) =
      mset (cursor_points cursor) + mset (map point_of observations)"
  proof cases
    case 1
    with shape show ?thesis by (simp add: cursor_points_def cursor_tracks_def request_shape_check_def)
  next
    case 2
    with sorted total show ?thesis by (simp add: cursor_points_def cursor_tracks_def add.commute)
  qed
  assume end_of_stream
  with fin(3) have "ps_active st = []" by simp
  with core_result_Inr [OF result] show "cursor_points (tg_cursor page) = []"
    by (auto simp: cursor_points_def cursor_tracks_def next_cursor_Inr(1) sorted_tracks_def)
qed

end
