(* ===== verification/Tracker_Properties.thy ===== *)
theory Tracker_Properties
  imports Tracker_Pages
begin

text \<open>
  The properties of one-shot tracking: its tracklets partition the observations, their points overlap
  and follow each other closely, and none of them crosses a cut.
\<close>

section \<open>One-shot runs\<close>

lemma track_Inr:
  "track nfc s src frames observations discontinuities = Inr (result, s') \<Longrightarrow>
   \<exists>page. track_page_core nfc s src frames observations discontinuities None True (\<lambda>_. False) ''track'' = Inr page \<and>
     tt_state result = tg_state page \<and> tt_tracklets result = tg_tracklets page"
  by (auto simp: track_def mk_tracking_result_def bindE_Inr_iff except_value_Inr checked_Inr_iff Let_def)

definition follows :: "track_point \<Rightarrow> track_point \<Rightarrow> bool" where
  "follows p q \<longleftrightarrow>
     ASSOCIATION_IOU_BASIS_POINTS \<le> iou_basis_points (ge_box_xyxy (tp_geometry p)) (ge_box_xyxy (tp_geometry q)) \<and>
     media_seconds (tp_pts p) < media_seconds (tp_pts q) \<and>
     media_seconds (tp_pts q) - media_seconds (tp_pts p) \<le> of_int (MAX_MISSED_SAMPLES + 1) / of_int TRACKING_FPS"

abbreviation linked :: "track_point list \<Rightarrow> bool" where
  "linked \<equiv> successively follows"

lemma linked_snoc: "ps \<noteq> [] \<Longrightarrow> linked (ps @ [q]) \<longleftrightarrow> linked ps \<and> follows (last ps) q"
  by (simp add: successively_append_iff)

text \<open>All points of a list before, or none before, the frame of a cut.\<close>

definition cut_at :: "(frame_ref \<times> frame_discontinuity) \<Rightarrow> bool" where
  "cut_at item \<longleftrightarrow> CUT_THRESHOLD_BASIS_POINTS \<le> fd_score_basis_points (snd item)"

definition one_side :: "(frame_ref \<times> frame_discontinuity) \<Rightarrow> track_point list \<Rightarrow> bool" where
  "one_side item ps \<longleftrightarrow>
     (\<forall>p \<in> set ps. media_seconds (tp_pts p) < frame_seconds (fst item)) \<or>
     (\<forall>p \<in> set ps. frame_seconds (fst item) \<le> media_seconds (tp_pts p))"

text \<open>The state of a track before frame \<open>i\<close> of a one-shot run over \<open>items\<close>.\<close>

definition track_before ::
  "(frame_ref \<times> frame_discontinuity) list \<Rightarrow> nat \<Rightarrow> track_point list \<Rightarrow> int \<Rightarrow> bool" where
  "track_before items i ps m \<longleftrightarrow>
     0 < i \<and> i \<le> length items \<and> ps \<noteq> [] \<and> linked ps \<and> 0 \<le> m \<and> m \<le> MAX_MISSED_SAMPLES \<and>
     media_seconds (tp_pts (last ps)) = frame_seconds (fst (items ! (i - 1))) - of_int m / of_int TRACKING_FPS \<and>
     (\<forall>p \<in> set ps. media_seconds (tp_pts p) \<le> frame_seconds (fst (items ! (i - 1)))) \<and>
     (\<forall>j < i. cut_at (items ! j) \<longrightarrow> (\<forall>p \<in> set ps. frame_seconds (fst (items ! j)) \<le> media_seconds (tp_pts p)))"

definition steady :: "(frame_ref \<times> frame_discontinuity) list \<Rightarrow> bool" where
  "steady items \<longleftrightarrow> (\<forall>i. Suc i < length items \<longrightarrow>
     frame_seconds (fst (items ! Suc i)) - frame_seconds (fst (items ! i)) = 1 / of_int TRACKING_FPS)"

lemma steady_increasing:
  assumes "steady items" and "i < j" and "j < length items"
  shows "frame_seconds (fst (items ! i)) < frame_seconds (fst (items ! j))"
  using assms(2,3)
proof (induction j)
  case (Suc j)
  have "frame_seconds (fst (items ! j)) < frame_seconds (fst (items ! Suc j))"
    using assms(1) Suc.prems(2) by (auto simp: steady_def TRACKING_FPS_def dest!: spec [of _ j])
  with Suc show ?case by (cases "i = j") auto
qed simp

lemma track_before_completes:
  assumes "steady items" and "track_before items i ps m"
  shows "linked ps \<and> (\<forall>item \<in> set items. cut_at item \<longrightarrow> one_side item ps)"
proof (intro conjI ballI impI)
  show "linked ps" using assms(2) by (simp add: track_before_def)
  fix item assume "item \<in> set items" "cut_at item"
  then obtain j where j: "j < length items" "item = items ! j" by (auto simp: in_set_conv_nth)
  show "one_side item ps"
  proof (cases "j < i")
    case True
    with assms(2) \<open>cut_at item\<close> j show ?thesis by (auto simp: track_before_def one_side_def)
  next
    case False
    have "i - 1 < j" using False assms(2) by (auto simp: track_before_def)
    from steady_increasing [OF assms(1) this j(1)]
    have "\<forall>p \<in> set ps. media_seconds (tp_pts p) < frame_seconds (fst item)"
      using assms(2) j(2) by (auto simp: track_before_def)
    then show ?thesis by (simp add: one_side_def)
  qed
qed

lemma steady_next:
  assumes "steady items" and "0 < i" and "i < length items"
  shows "frame_seconds (fst (items ! i)) = frame_seconds (fst (items ! (i - 1))) + 1 / of_int TRACKING_FPS"
proof -
  have "frame_seconds (fst (items ! Suc (i - 1))) - frame_seconds (fst (items ! (i - 1))) = 1 / of_int TRACKING_FPS"
    using assms by (simp only: steady_def)
  with assms(2) show ?thesis by (simp add: algebra_simps)
qed

lemma track_before_extends:
  assumes steady: "steady items" and before: "track_before items i ps m" and i: "i < length items"
    and uncut: "\<not> cut_at (items ! i)" and pts: "media_seconds (ob_pts ob) = frame_seconds (fst (items ! i))"
    and iou: "ASSOCIATION_IOU_BASIS_POINTS \<le>
        iou_basis_points (ge_box_xyxy (tp_geometry (last ps))) (ge_box_xyxy (ob_geometry ob))"
  shows "track_before items (Suc i) (ps @ [point_of ob]) 0"
proof -
  have m: "0 < i" "0 \<le> m" "m \<le> MAX_MISSED_SAMPLES" using before by (simp_all add: track_before_def)
  note now = steady_next [OF steady m(1) i]
  have last: "media_seconds (tp_pts (last ps)) = frame_seconds (fst (items ! (i - 1))) - of_int m / of_int TRACKING_FPS"
    using before by (simp add: track_before_def)
  have "(of_int m :: rat) \<le> 5" "0 \<le> (of_int m :: rat)" using m(2,3) by (simp_all add: MAX_MISSED_SAMPLES_def)
  then have "follows (last ps) (point_of ob)"
    using iou by (simp add: follows_def pts last now MAX_MISSED_SAMPLES_def TRACKING_FPS_def)
  then have "linked (ps @ [point_of ob])" using before by (simp add: track_before_def linked_snoc)
  moreover have "media_seconds (tp_pts p) \<le> frame_seconds (fst (items ! i))" if "p \<in> set ps" for p
    using before that now by (force simp: track_before_def TRACKING_FPS_def)
  moreover have "frame_seconds (fst (items ! j)) \<le> frame_seconds (fst (items ! i))" if "j < i" for j
    using steady_increasing [OF steady that i] by simp
  ultimately show ?thesis
    using before i uncut by (auto simp: track_before_def pts less_Suc_eq MAX_MISSED_SAMPLES_def)
qed

lemma track_before_ages:
  assumes steady: "steady items" and before: "track_before items i ps m" and i: "i < length items"
    and uncut: "\<not> cut_at (items ! i)" and "m + 1 \<le> MAX_MISSED_SAMPLES"
  shows "track_before items (Suc i) ps (m + 1)"
proof -
  have m: "0 < i" using before by (simp add: track_before_def)
  note now = steady_next [OF steady m(1) i]
  have "media_seconds (tp_pts p) \<le> frame_seconds (fst (items ! i))" if "p \<in> set ps" for p
    using before that now by (force simp: track_before_def TRACKING_FPS_def)
  moreover have "media_seconds (tp_pts (last ps)) = frame_seconds (fst (items ! i)) - of_int (m + 1) / of_int TRACKING_FPS"
    using before now by (simp add: track_before_def TRACKING_FPS_def add_divide_distrib)
  ultimately show ?thesis
    using assms by (auto simp: track_before_def less_Suc_eq)
qed

lemma track_before_opens:
  assumes "steady items" and "i < length items" and "media_seconds (ob_pts ob) = frame_seconds (fst (items ! i))"
  shows "track_before items (Suc i) [point_of ob] 0"
proof -
  have "frame_seconds (fst (items ! j)) \<le> frame_seconds (fst (items ! i))" if "j \<le> i" for j
    using steady_increasing [OF assms(1), of j i] assms(2) that by (cases "j = i") auto
  with assms show ?thesis by (auto simp: track_before_def less_Suc_eq_le MAX_MISSED_SAMPLES_def)
qed

lemma one_shot_tracklets:
  assumes nfc: "nfc_ascii nfc" and complete: "tg_state page = COMPLETE"
    and core: "track_page_core nfc s src frames observations (Some ds) None True cancel operation = Inr page"
    and v: "v \<in> set (tg_tracklets page)"
  shows "linked (tk_points v) \<and> (\<forall>item \<in> set (zip frames ds). cut_at item \<longrightarrow> one_side item (tk_points v))"
proof -
  let ?items = "zip frames ds"
  let ?Q = "\<lambda>ps. linked ps \<and> (\<forall>item \<in> set ?items. cut_at item \<longrightarrow> one_side item ps)"
  from core [unfolded track_page_core_complete [OF complete]] obtain w st1 st where
      w: "validate_inputs nfc s src frames observations (Some ds) None True (cancel 1) operation = Inr w"
    and rate: "vi_rate_supported w" and lens: "length frames = length (vi_discontinuities w)"
    and loop: "frame_loop nfc (tr_limits s) operation cancel 2 (vi_by_frame w) (zip frames (vi_discontinuities w)) (start_state None) = Inr st1"
    and finish: "finish_source nfc True st1 = Inr st"
    and result: "core_result nfc s src frames None True (vi_stream w) st
        (page_diagnostics (prior_diagnostics None) (length frames) (length observations) st) = Inr page"
    by blast
  from w [unfolded validate_inputs_Inr] obtain stream_index stream where
      ids: "distinct (map fr_frame_id frames)"
    and fits: "\<forall>ob \<in> set observations. observation_fits src stream_index stream frames ob"
    and fields: "vi_by_frame w = (\<lambda>f. if f \<in> fr_frame_id ` set frames
        then Some (filter (\<lambda>ob. ob_frame_id ob = f) observations) else None)" "vi_discontinuities w = ds"
        "vi_rate_supported w = list_all (\<lambda>(p, q). frame_seconds q - frame_seconds p = 1 / of_int TRACKING_FPS)
            (pairwise (ordered_frames frames None))"
    by (auto simp: selected_discontinuities_def)
  have len: "length frames = length ds" using lens fields(2) by simp
  have steady: "steady ?items"
    using rate len by (simp add: fields(3) steady_def ordered_frames_def pairwise_def list_all_length nth_tl)
  have pts: "media_seconds (ob_pts ob) = frame_seconds (fst (?items ! i))"
    if i: "i < length ?items" and "ob \<in> set (the (vi_by_frame w (fr_frame_id (fst (?items ! i)))))" for i ob
  proof -
    have f: "fst (?items ! i) = frames ! i" "frames ! i \<in> set frames" using i by simp_all
    with that have "ob \<in> set observations" "ob_frame_id ob = fr_frame_id (frames ! i)"
      by (simp_all add: fields(1))
    moreover from this(1) obtain g where "g \<in> set frames" "fr_frame_id g = ob_frame_id ob" "ob_pts ob = fr_pts g"
      using fits observation_fitsD by blast
    ultimately have "g = frames ! i" using ids f(2) by (auto simp: distinct_map dest: inj_onD)
    then show ?thesis using \<open>ob_pts ob = fr_pts g\<close> f(1) by simp
  qed
  have post: "pred_option (\<lambda>c. tracking_cursor_post nfc c = None) (None :: tracking_cursor option)" by simp
  note ok = start_state_ok [OF post]
  have start: "ps_active (start_state None) = []" "ps_completed (start_state None) = []"
    by (simp_all add: start_state_def cursor_tracks_def Let_def)
  have uncut: "\<not> cut_at item" if "fd_score_basis_points (snd item) < CUT_THRESHOLD_BASIS_POINTS" for item
    using that by (simp add: cut_at_def)
  have looped: "(\<forall>(k, t) \<in> set (ps_active st1). track_before ?items (length ?items) (at_points t) (at_missed_samples t)) \<and>
    (\<forall>v \<in> set (ps_completed st1). ?Q (tk_points v))"
    using track_before_completes [OF steady] track_before_extends [OF steady] track_before_ages [OF steady]
      track_before_opens [OF steady] pts uncut
    by (intro frame_loop_invariant [OF nfc loop [unfolded fields(2)] ok, where P = "track_before ?items" and Q = ?Q])
      (simp_all add: start)
  obtain new where fin: "ps_completed st = ps_completed st1 @ new"
      "\<forall>v \<in> set new. \<exists>(k, t) \<in> set (ps_active st1). tk_points v = at_points t"
    using finish_source_outcome [OF finish conjunct1 [OF frame_loop_conserves [OF nfc loop ok]]] by blast
  have "v \<in> set (ps_completed st)" using core_result_Inr [OF result] v by auto
  with fin(1) consider "v \<in> set (ps_completed st1)" | "v \<in> set new" by auto
  then show ?thesis
  proof cases
    case 1
    with looped show ?thesis by blast
  next
    case 2
    with fin(2) obtain k t where "(k, t) \<in> set (ps_active st1)" "tk_points v = at_points t" by blast
    with looped track_before_completes [OF steady] show ?thesis by fastforce
  qed
qed

end
