(* ===== verification/Tracker_Paging.thy ===== *)
theory Tracker_Paging
  imports Tracker_Pages
begin

text \<open>
  Paging: two consecutive pages give what one page over all their frames gives.
\<close>

section \<open>The loop on a prefix of completed tracklets, without cancellation\<close>

lemma list_all_pairwise: "list_all (\<lambda>(p, q). R p q) (pairwise xs) \<longleftrightarrow> successively R xs"
  by (induction xs rule: induct_list012) (simp_all add: pairwise_def)

definition with_prefix :: "tracklet list \<Rightarrow> page_state \<Rightarrow> page_state" where
  "with_prefix xs st = st\<lparr>ps_completed := xs @ ps_completed st\<rparr>"

lemma with_prefix_fields [simp]:
  "ps_active (with_prefix xs st) = ps_active st" "ps_next_ordinal (with_prefix xs st) = ps_next_ordinal st"
  "ps_created_tracks (with_prefix xs st) = ps_created_tracks st" "ps_maximum_active (with_prefix xs st) = ps_maximum_active st"
  "ps_cut_frames (with_prefix xs st) = ps_cut_frames st" "ps_cut_terminations (with_prefix xs st) = ps_cut_terminations st"
  "ps_miss_terminations (with_prefix xs st) = ps_miss_terminations st"
  "ps_source_terminations (with_prefix xs st) = ps_source_terminations st"
  "ps_completed (with_prefix xs st) = xs @ ps_completed st"
  by (simp_all add: with_prefix_def)

lemma with_prefix_updates [simp]:
  "(with_prefix xs st)\<lparr>ps_cut_frames := a\<rparr> = with_prefix xs (st\<lparr>ps_cut_frames := a\<rparr>)"
  "(with_prefix xs st)\<lparr>ps_cut_terminations := b\<rparr> = with_prefix xs (st\<lparr>ps_cut_terminations := b\<rparr>)"
  "(with_prefix xs st)\<lparr>ps_source_terminations := b\<rparr> = with_prefix xs (st\<lparr>ps_source_terminations := b\<rparr>)"
  by (simp_all add: with_prefix_def)

lemma with_prefix_Nil [simp]: "with_prefix [] st = st"
  by (simp add: with_prefix_def)

lemma age_unmatched_prefix:
  "age_unmatched nfc matched ordinals (active, completed, misses) = Inr (active', completed', misses') \<Longrightarrow>
   age_unmatched nfc matched ordinals (active, xs @ completed, misses) = Inr (active', xs @ completed', misses')"
proof (induction ordinals arbitrary: active completed misses)
  case (Cons k ordinals)
  then show ?case by (auto simp: Let_def bindE_Inr_iff split: if_splits)
qed simp

lemma complete_all_prefix:
  "complete_all nfc reason st = Inr st' \<Longrightarrow> complete_all nfc reason (with_prefix xs st) = Inr (with_prefix xs st')"
  by (auto simp: complete_all_def bindE_Inr_iff with_prefix_def)

lemma cut_step_prefix:
  "cut_step nfc d st = Inr st' \<Longrightarrow> cut_step nfc d (with_prefix xs st) = Inr (with_prefix xs st')"
  by (auto simp: cut_step_def complete_all_prefix split: if_splits)

lemma finish_source_prefix:
  "finish_source nfc e st = Inr st' \<Longrightarrow> finish_source nfc e (with_prefix xs st) = Inr (with_prefix xs st')"
  by (auto simp: finish_source_def complete_all_prefix split: if_splits)

lemma frame_step_prefix:
  assumes "frame_step nfc limits operation cancelled found d st = Inr st'"
  shows "frame_step nfc limits operation False found d (with_prefix xs st) = Inr (with_prefix xs st')"
  using assms
proof (cases rule: frame_stepE)
  case (1 st1 pairs active1 active2 completed misses active3 "next" created)
  show ?thesis
    unfolding frame_step_def check_cancelled_def
    by (simp add: cut_step_prefix [OF 1(2)] 1(3,4,6,7) age_unmatched_prefix [OF 1(5)] Let_def)
qed

lemma frame_loop_prefix:
  assumes "frame_loop nfc limits operation cancel n by_frame items st = Inr st'"
    and "\<forall>item \<in> set items. by_frame' (fr_frame_id (fst item)) = by_frame (fr_frame_id (fst item))"
  shows "frame_loop nfc limits operation (\<lambda>_. False) m by_frame' items (with_prefix xs st) = Inr (with_prefix xs st')"
  using assms
proof (induction items arbitrary: n m st)
  case (Cons item items)
  obtain f d where item: "item = (f, d)" by fastforce
  from Cons.prems(1) obtain st1 where
      "frame_step nfc limits operation (cancel n) (the (by_frame (fr_frame_id f))) d st = Inr st1"
    and rest: "frame_loop nfc limits operation cancel (Suc n) by_frame items st1 = Inr st'"
    by (auto simp: item bindE_Inr_iff)
  from frame_step_prefix [OF this(1), of xs] Cons.IH [OF rest] Cons.prems(2) show ?case by (simp add: item)
qed simp

section \<open>The active tracks stay in the order of their ordinals\<close>

lemma alist_delete_sorted: "sorted (map fst al) \<Longrightarrow> sorted (map fst (AList.delete k al))"
  by (induction al) (auto simp: alist_delete_set)

lemma age_unmatched_sorted:
  assumes "age_unmatched nfc matched ordinals (active, completed, misses) = Inr (active', completed', misses')"
    and "sorted (map fst active)" and "distinct (map fst active)" and "distinct ordinals" and "set ordinals \<subseteq> set (map fst active)"
  shows "sorted (map fst active')"
  using assms
proof (induction ordinals arbitrary: active completed misses)
  case (Cons k ordinals)
  have keys: "map fst (AList.update k t active) = map fst active" for t
    using Cons.prems(5) by (intro alist_update_keys) auto
  then have images: "fst ` set (AList.update k t active) = fst ` set active" for t
    by (metis set_map)
  have dels: "set ordinals \<subseteq> set (map fst (AList.delete k active))" "distinct (map fst (AList.delete k active))"
    using Cons.prems(3-5) by (auto simp: AList.delete_keys distinct_removeAll)
  show ?case
    using Cons.prems Cons.IH [OF _ alist_delete_sorted [OF Cons.prems(2), of k] dels(2) _ dels(1)] keys images Cons.IH
    by (auto simp: Let_def bindE_Inr_iff split: if_splits)
qed simp

lemma open_tracks_sorted:
  assumes "open_tracks nfc limits operation matched items (active, next, created) = Inr (active', next', created')"
    and "sorted (map fst active)" and "\<forall>k \<in> fst ` set active. k < next"
  shows "sorted (map fst active')"
  using assms
proof (induction items arbitrary: active "next" created)
  case (Cons item items)
  have new: "AList.update next t active = active @ [(next, t)]" for t
    using Cons.prems(3) by (intro alist_update_new) auto
  have extended: "sorted (map fst (active @ [(next, t)]))" "\<forall>k \<in> fst ` set (active @ [(next, t)]). k < next + 1" for t
    using Cons.prems(2,3) by (auto simp: sorted_append less_imp_le)
  show ?case
    using Cons.prems Cons.IH [OF _ extended] Cons.IH
    by (cases item) (auto simp: new bindE_Inr_iff split: if_splits)
qed simp

lemma frame_step_sorted:
  assumes nfc: "nfc_ascii nfc"
    and step: "frame_step nfc limits operation cancelled found d st0 = Inr st'"
    and ok: "tracks_ok nfc (ps_next_ordinal st0) (ps_active st0)" and sorted: "sorted (map fst (ps_active st0))"
  shows "sorted (map fst (ps_active st'))"
  using step
proof (cases rule: frame_stepE)
  case (1 st pairs active1 active2 completed misses active3 "next" created)
  note cut = cut_step_outcome [OF 1(2) ok]
  have ok1: "tracks_ok nfc (ps_next_ordinal st) (ps_active st)" and sorted1: "sorted (map fst (ps_active st))"
    using cut sorted by (auto split: if_splits)
  have distinct: "distinct (map fst (ps_active st))" using ok1 by (simp add: tracks_ok_def)
  note pairs = association_facts [OF ok1 1(3)]
  have "\<forall>(i, j) \<in> set pairs. map_of (ps_active st) (at_ordinal (sorted_tracks (ps_active st) ! i)) = Some (sorted_tracks (ps_active st) ! i)"
    using pairs(1) by auto
  from extend_matched_outcome [OF nfc 1(4) distinct this pairs(3)]
  have keys1: "map fst active1 = map fst (ps_active st)" by (rule conjunct1)
  have ordinals: "distinct (sort (map fst active1))" "set (sort (map fst active1)) \<subseteq> set (map fst active1)"
      "distinct (map fst active1)"
    using distinct keys1 by simp_all
  have sorted2: "sorted (map fst active2)"
    using age_unmatched_sorted [OF 1(5) _ ordinals(3,1,2)] sorted1 keys1 by simp
  note aged = age_unmatched_outcome [OF 1(5) ordinals(3,1,2)]
  have below: "\<forall>k \<in> fst ` set active2. k < ps_next_ordinal st"
  proof
    fix k assume "k \<in> fst ` set active2"
    then have "k \<in> set (map fst (ps_active st))" using aged [THEN conjunct2, THEN conjunct1] keys1 by auto
    with ok1 show "k < ps_next_ordinal st" by (auto simp: tracks_ok_def)
  qed
  have "sorted (map fst active3)"
    by (rule open_tracks_sorted [OF 1(6) sorted2 below])
  then show ?thesis by (simp add: 1(7))
qed

lemma frame_loop_sorted:
  assumes nfc: "nfc_ascii nfc"
    and "frame_loop nfc limits operation cancel n by_frame items st = Inr st'"
    and "tracks_ok nfc (ps_next_ordinal st) (ps_active st)" and "sorted (map fst (ps_active st))"
  shows "sorted (map fst (ps_active st'))"
  using assms(2-)
proof (induction items arbitrary: n st)
  case (Cons item items)
  obtain f d where item: "item = (f, d)" by fastforce
  from Cons.prems(1) obtain st1 where
      step: "frame_step nfc limits operation (cancel n) (the (by_frame (fr_frame_id f))) d st = Inr st1"
    and rest: "frame_loop nfc limits operation cancel (Suc n) by_frame items st1 = Inr st'"
    by (auto simp: item bindE_Inr_iff)
  show ?case
    using frame_step_conserves [OF nfc step Cons.prems(2)] frame_step_sorted [OF nfc step Cons.prems(2,3)]
    by (intro Cons.IH [OF rest]) simp_all
qed simp

lemma sorted_tracks_sorted:
  assumes "tracks_ok nfc next active" and "sorted (map fst active)"
  shows "map (\<lambda>t. (at_ordinal t, t)) (sorted_tracks active) = active"
proof -
  have distinct: "distinct (map fst active)" using assms(1) by (simp add: tracks_ok_def)
  have "sort (map fst active) = map fst active"
    using assms(2) by (simp add: sorted_sort_id)
  then have "map (\<lambda>t. (at_ordinal t, t)) (sorted_tracks active) =
      map ((\<lambda>t. (at_ordinal t, t)) \<circ> (\<lambda>k. the (map_of active k)) \<circ> fst) active"
    by (simp add: sorted_tracks_def)
  also have "\<dots> = active"
    using assms(1) distinct by (intro map_idI) (auto simp: tracks_ok_def)
  finally show ?thesis .
qed

section \<open>The cursor of a page is where its loop stopped\<close>

lemma next_cursor_values:
  assumes nfc: "nfc_ascii nfc" and frame: "frame_valid nfc last_frame"
    and first: "media_time_valid nfc first_pts"
    and c: "next_cursor nfc s src stream last_frame first_pts st diagnostics e = Inr c"
  shows "tc_last_frame c = last_frame" "tc_first_pts c = first_pts" "tc_source_stream c = stream"
    "tracking_limits_post (tr_limits s) = None"
proof -
  obtain stream' limits' where stream': "copy_source_stream nfc stream = Inr stream'"
    and limits': "copy_tracking_limits (tr_limits s) = Inr limits'"
    using c by (auto simp: next_cursor_def bindE_Inr_iff)
  have "validate_source_stream nfc stream = None"
    using stream' by (simp add: copy_source_stream_def bindE_Inr_iff checked_Inr_iff)
  note copies = copy_source_stream_valid [OF this] copy_frame_valid [OF nfc frame] media_time_roundtrip(1) [OF first]
  show "tracking_limits_post (tr_limits s) = None"
    using limits' by (cases "tr_limits s") (auto simp: copy_tracking_limits_def checked_Inr_iff Let_def)
  show "tc_last_frame c = last_frame" "tc_first_pts c = first_pts" "tc_source_stream c = stream"
    using c by (auto simp: next_cursor_def copies seal_cursor_def bindE_Inr_iff checked_Inr_iff Let_def)
qed

lemma next_cursor_with_prefix [simp]:
  "next_cursor nfc s src stream f t (with_prefix xs st) d e = next_cursor nfc s src stream f t st d e"
  by (simp add: next_cursor_def)

lemma resumed_state:
  assumes nfc: "nfc_ascii nfc" and ok: "tracks_ok nfc (ps_next_ordinal st) (ps_active st)"
    and sorted: "sorted (map fst (ps_active st))"
    and c: "next_cursor nfc s src stream last_frame first_pts st (page_diagnostics base n m st) e = Inr c"
  shows "with_prefix (ps_completed st) (start_state (Some c)) = st"
  using next_cursor_Inr(1-3) [OF c] sorted_tracks_sorted [OF ok sorted]
  by (cases st) (simp add: with_prefix_def start_state_def cursor_tracks_def prior_diagnostics_def page_diagnostics_def Let_def)

section \<open>Selecting the stream\<close>

definition frame_in_stream :: "source \<Rightarrow> int \<Rightarrow> source_stream \<Rightarrow> frame_ref \<Rightarrow> bool" where
  "frame_in_stream src i st f \<longleftrightarrow>
     fr_source_id f = so_source_id src \<and> fr_stream_index f = i \<and> frame_time_base f = ss_time_base st \<and>
     pred_option (\<lambda>d. mt_time_base d = ss_time_base st) (fr_duration f)"

lemma select_stream_frames:
  assumes "frames \<noteq> []"
  shows "select_stream src frames cursor operation = Inr (i, stream) \<longleftrightarrow>
     (\<exists>st. stream = Some st \<and> i = fr_stream_index (hd frames) \<and> stream_by_index src i = Some st \<and>
        (\<forall>f \<in> set frames. frame_in_stream src i st f) \<and>
        pred_option (\<lambda>c. tc_stream_index c = i \<and> tc_source_stream c = st) cursor)"
  using assms
  by (cases frames; cases cursor)
    (auto simp: select_stream_def frame_in_stream_def list_all_iff Let_def checked_Inr_iff split: option.splits)

lemma select_stream_resumed:
  "select_stream src frames (Some c) operation = Inr (i, stream) \<Longrightarrow>
     i = tc_stream_index c \<and> stream = Some (tc_source_stream c) \<and>
     (\<forall>f \<in> set frames. frame_in_stream src i (tc_source_stream c) f)"
  by (cases "frames = []")
    (auto simp: select_stream_frames, auto simp: select_stream_def Let_def checked_Inr_iff)

section \<open>The inputs of two pages are accepted as those of one\<close>

lemma find_distinct:
  assumes "find P xs = None"
  shows "find P (xs @ ys) = find P ys"
  using assms by (induction xs) (auto split: if_splits)

lemma find_append_Some: "find P xs = Some f \<Longrightarrow> find P (xs @ ys) = Some f"
  by (induction xs) (auto split: if_splits)

lemma observation_fits_left:
  "observation_fits src i stream frames ob \<Longrightarrow> observation_fits src i stream (frames @ following) ob"
  by (auto simp: observation_fits_def find_append_Some)

lemma observation_fits_right:
  assumes "observation_fits src i stream frames ob" and "distinct (map fr_frame_id (following @ frames))"
  shows "observation_fits src i stream (following @ frames) ob"
proof -
  from observation_fitsD [OF assms(1)] obtain f where "f \<in> set frames" "fr_frame_id f = ob_frame_id ob" by blast
  then have "find (\<lambda>f. fr_frame_id f = ob_frame_id ob) following = None"
    using assms(2) by (force simp: find_None_iff)
  with assms(1) show ?thesis by (simp add: observation_fits_def find_distinct)
qed

lemma positions_distinct:
  assumes "successively (\<lambda>p q. frame_seconds p < frame_seconds q \<and> decode_number p < decode_number q) frames"
  shows "distinct (map (\<lambda>f. (fr_stream_index f, fr_decode_index f)) frames)"
proof -
  have "transp (\<lambda>p q :: frame_ref. frame_seconds p < frame_seconds q \<and> decode_number p < decode_number q)"
    by (auto simp: transp_def)
  then have "sorted_wrt (\<lambda>p q. frame_seconds p < frame_seconds q \<and> decode_number p < decode_number q) frames"
    using assms by (simp add: successively_conv_sorted_wrt)
  then show ?thesis
    by (induction frames) fastforce+
qed

lemma first_pts_append: "frames \<noteq> [] \<Longrightarrow> first_pts_of (frames @ following) cursor = first_pts_of frames cursor"
  by (cases cursor) (simp_all add: first_pts_of_def)

lemma ordered_append:
  assumes "frames \<noteq> []" and "tc_last_frame c = last frames"
  shows "successively R (ordered_frames (frames @ following) cursor) \<longleftrightarrow>
    successively R (ordered_frames frames cursor) \<and> successively R (ordered_frames following (Some c))"
  using assms by (cases cursor; cases following)
    (auto simp: ordered_frames_def successively_append_iff successively_Cons)

lemma frame_observations_append:
  assumes "distinct (map fr_frame_id (frames @ following))" and "f \<in> set frames"
    and "\<forall>ob \<in> set later. observation_fits src i stream following ob"
  shows "filter (\<lambda>ob. ob_frame_id ob = fr_frame_id f) (earlier_ones @ later) =
     filter (\<lambda>ob. ob_frame_id ob = fr_frame_id f) earlier_ones"
proof -
  have "ob_frame_id ob \<noteq> fr_frame_id f" if "ob \<in> set later" for ob
    using observation_fitsD [of src i stream following ob] assms that by force
  then show ?thesis by (simp add: filter_empty_conv)
qed

lemma frame_observations_prepend:
  assumes "distinct (map fr_frame_id (frames @ following))" and "f \<in> set following"
    and "\<forall>ob \<in> set earlier_ones. observation_fits src i stream frames ob"
  shows "filter (\<lambda>ob. ob_frame_id ob = fr_frame_id f) (earlier_ones @ later) =
     filter (\<lambda>ob. ob_frame_id ob = fr_frame_id f) later"
proof -
  have "ob_frame_id ob \<noteq> fr_frame_id f" if "ob \<in> set earlier_ones" for ob
    using observation_fitsD [of src i stream frames ob] assms that by force
  then show ?thesis by (simp add: filter_empty_conv)
qed

lemma discontinuities_None:
  "discontinuities_check frames ds cursor operation = None \<longleftrightarrow>
     (ds \<noteq> [] \<longrightarrow> (cursor = None \<longrightarrow> fd_score_basis_points (hd ds) = 0) \<and>
        list_all (\<lambda>(d, f). discontinuity_of f d) (zip ds frames))"
  by (cases ds) (auto simp: discontinuities_check_def)

lemma validate_composed:
  assumes v1: "validate_inputs nfc s src frames obs (Some ds) c0 False x1 operation = Inr v1"
    and v2: "validate_inputs nfc s src following later (Some ds') (Some c1) e x2 operation = Inr v2"
    and c1: "tc_last_frame c1 = last frames" "tc_first_pts c1 = first_pts_of frames c0"
      "vi_stream v1 = Some (tc_source_stream c1)" "tc_stream_index c1 = fr_stream_index (last frames)"
      "td_frame_count (tc_diagnostics c1) = td_frame_count (prior_diagnostics c0) + int (length frames)"
      "td_observation_count (tc_diagnostics c1) = td_observation_count (prior_diagnostics c0) + int (length obs)"
    and distinct: "distinct (map fr_frame_id (frames @ following))" "distinct (map ob_observation_id (obs @ later))"
    and sizes: "int (length (frames @ following)) \<le> tl_max_page_frames (tr_limits s)"
      "int (length (obs @ later)) \<le> tl_max_page_observations (tr_limits s)"
  shows "validate_inputs nfc s src (frames @ following) (obs @ later) (Some (ds @ ds')) c0 e False operation =
      Inr \<lparr>vi_by_frame = (\<lambda>f. if f \<in> fr_frame_id ` set (frames @ following)
             then Some (filter (\<lambda>ob. ob_frame_id ob = f) (obs @ later)) else None),
           vi_discontinuities = ds @ ds', vi_rate_supported = (vi_rate_supported v1 \<and> vi_rate_supported v2),
           vi_stream = vi_stream v1\<rparr>"
    and "vi_stream v2 = vi_stream v1"
proof -
  from v1 [unfolded validate_inputs_Inr list_all_pairwise] obtain i1 stream where
      shape1: "request_shape_check (tr_limits s) frames obs (Some ds) False operation = None"
    and req1: "request_values_check nfc src frames obs (Some ds) c0 operation = None"
    and bind1: "cursor_binding_check s src c0 operation = None"
    and sel1: "select_stream src frames c0 operation = Inr (i1, stream)"
    and order1: "successively (\<lambda>p q. frame_seconds p < frame_seconds q \<and> decode_number p < decode_number q) (ordered_frames frames c0)"
    and disc1: "discontinuities_check frames ds c0 operation = None"
    and fits1: "\<forall>ob \<in> set obs. observation_fits src i1 stream frames ob"
    and most1: "\<forall>f \<in> set frames. int (length (filter (\<lambda>ob. ob_frame_id ob = fr_frame_id f) obs)) \<le> tl_max_active_tracks (tr_limits s)"
    and dur1: "frames \<noteq> [] \<longrightarrow> frame_seconds (last frames) - media_seconds (first_pts_of frames c0) \<le> of_int (tl_max_duration_seconds (tr_limits s))"
    and rate1: "vi_rate_supported v1 = successively (\<lambda>p q. frame_seconds q - frame_seconds p = 1 / of_int TRACKING_FPS) (ordered_frames frames c0)"
    and stream1: "vi_stream v1 = stream"
    by (auto simp: selected_discontinuities_def)
  from v2 [unfolded validate_inputs_Inr list_all_pairwise] obtain i2 stream2 where
      shape2: "request_shape_check (tr_limits s) following later (Some ds') e operation = None"
    and req2: "request_values_check nfc src following later (Some ds') (Some c1) operation = None"
    and sel2: "select_stream src following (Some c1) operation = Inr (i2, stream2)"
    and order2: "successively (\<lambda>p q. frame_seconds p < frame_seconds q \<and> decode_number p < decode_number q) (ordered_frames following (Some c1))"
    and disc2: "discontinuities_check following ds' (Some c1) operation = None"
    and fits2: "\<forall>ob \<in> set later. observation_fits src i2 stream2 following ob"
    and most2: "\<forall>f \<in> set following. int (length (filter (\<lambda>ob. ob_frame_id ob = fr_frame_id f) later)) \<le> tl_max_active_tracks (tr_limits s)"
    and total2: "td_frame_count (tc_diagnostics c1) + int (length following) \<le> tl_max_total_frames (tr_limits s)"
      "td_observation_count (tc_diagnostics c1) + int (length later) \<le> tl_max_total_observations (tr_limits s)"
    and dur2: "following \<noteq> [] \<longrightarrow> frame_seconds (last following) - media_seconds (tc_first_pts c1) \<le> of_int (tl_max_duration_seconds (tr_limits s))"
    and rate2: "vi_rate_supported v2 = successively (\<lambda>p q. frame_seconds q - frame_seconds p = 1 / of_int TRACKING_FPS) (ordered_frames following (Some c1))"
    and stream2: "vi_stream v2 = stream2"
    by (auto simp: selected_discontinuities_def prior_diagnostics_def first_pts_of_def)
  have ne: "frames \<noteq> []" and lens: "length ds = length frames" "length ds' = length following"
    using shape1 shape2 by (auto simp: request_shape_check_def split: if_splits)
  from sel1 ne obtain st where st: "stream = Some st" "i1 = fr_stream_index (hd frames)" "stream_by_index src i1 = Some st"
      "\<forall>f \<in> set frames. frame_in_stream src i1 st f" "pred_option (\<lambda>c. tc_stream_index c = i1 \<and> tc_source_stream c = st) c0"
    by (auto simp: select_stream_frames)
  have "fr_stream_index (last frames) = i1" using st(4) ne by (auto simp: frame_in_stream_def)
  moreover have st_c1: "st = tc_source_stream c1" using stream1 c1(3) st(1) by simp
  ultimately have same: "i2 = i1" "stream2 = stream" and more_in: "\<forall>f \<in> set following. frame_in_stream src i1 st f"
    using select_stream_resumed [OF sel2] c1(4) st(1) by auto
  show "vi_stream v2 = vi_stream v1" using same stream1 stream2 by simp
  have sel: "select_stream src (frames @ following) c0 operation = Inr (i1, stream)"
    using ne st more_in by (auto simp: select_stream_frames hd_append)
  have order: "successively (\<lambda>p q. frame_seconds p < frame_seconds q \<and> decode_number p < decode_number q) (ordered_frames (frames @ following) c0)"
    using order1 order2 by (simp add: ordered_append [OF ne c1(1)])
  then have positions: "distinct (map (\<lambda>f. (fr_stream_index f, fr_decode_index f)) (frames @ following))"
    by (intro positions_distinct) (auto simp: ordered_frames_def successively_Cons split: option.splits)
  have shape: "request_shape_check (tr_limits s) (frames @ following) (obs @ later) (Some (ds @ ds')) e operation = None"
    using ne lens sizes by (simp add: request_shape_check_def)
  have req: "request_values_check nfc src (frames @ following) (obs @ later) (Some (ds @ ds')) c0 operation = None"
    using req1 req2 unfolding request_values_None by (auto simp: selected_discontinuities_def)
  have disc: "discontinuities_check (frames @ following) (ds @ ds') c0 operation = None"
  proof -
    have "ds \<noteq> []" using lens ne by auto
    with disc1 disc2 lens show ?thesis by (cases "ds' = []") (auto simp: discontinuities_None hd_append)
  qed
  have fits: "\<forall>ob \<in> set (obs @ later). observation_fits src i1 stream (frames @ following) ob"
    using fits1 fits2 distinct(1) same by (auto intro: observation_fits_left observation_fits_right)
  have most: "\<forall>f \<in> set (frames @ following). int (length (filter (\<lambda>ob. ob_frame_id ob = fr_frame_id f) (obs @ later)))
      \<le> tl_max_active_tracks (tr_limits s)"
  proof
    fix f assume "f \<in> set (frames @ following)"
    then consider "f \<in> set frames" | "f \<in> set following" by auto
    then show "int (length (filter (\<lambda>ob. ob_frame_id ob = fr_frame_id f) (obs @ later))) \<le> tl_max_active_tracks (tr_limits s)"
    proof cases
      case 1
      from frame_observations_append [OF distinct(1) 1 fits2, of obs] most1 1 show ?thesis by simp
    next
      case 2
      from frame_observations_prepend [OF distinct(1) 2 fits1, of later] most2 2 show ?thesis by simp
    qed
  qed
  have dur: "frame_seconds (last (frames @ following)) - media_seconds (first_pts_of (frames @ following) c0)
      \<le> of_int (tl_max_duration_seconds (tr_limits s))"
    using dur1 dur2 ne c1(2) by (auto simp: first_pts_append last_append)
  show "validate_inputs nfc s src (frames @ following) (obs @ later) (Some (ds @ ds')) c0 e False operation =
      Inr \<lparr>vi_by_frame = (\<lambda>f. if f \<in> fr_frame_id ` set (frames @ following)
             then Some (filter (\<lambda>ob. ob_frame_id ob = f) (obs @ later)) else None),
           vi_discontinuities = ds @ ds', vi_rate_supported = (vi_rate_supported v1 \<and> vi_rate_supported v2),
           vi_stream = vi_stream v1\<rparr>"
    unfolding validate_inputs_Inr list_all_pairwise
    using shape req bind1 distinct positions sel order disc fits most dur total2 c1(5,6) rate1 rate2 stream1
    by (intro exI [of _ i1] exI [of _ stream])
      (simp add: selected_discontinuities_def ordered_append [OF ne c1(1)] algebra_simps del: map_append)
qed

section \<open>Two pages make one\<close>

lemma start_sorted:
  "sorted (map at_ordinal (cursor_tracks cursor)) \<Longrightarrow> sorted (map fst (ps_active (start_state cursor)))"
  by (simp add: start_state_def Let_def comp_def)

lemma core_sorted:
  assumes nfc: "nfc_ascii nfc" and sorted: "sorted (map at_ordinal (cursor_tracks cursor))"
    and complete: "tg_state page = COMPLETE"
    and core: "track_page_core nfc s src frames obs ds cursor e cancel operation = Inr page"
  shows "sorted (map at_ordinal (cursor_tracks (tg_cursor page)))"
proof -
  from core [unfolded track_page_core_complete [OF complete]] obtain v st1 st where
      v: "validate_inputs nfc s src frames obs ds cursor e (cancel 1) operation = Inr v"
    and loop: "frame_loop nfc (tr_limits s) operation cancel 2 (vi_by_frame v) (zip frames (vi_discontinuities v)) (start_state cursor) = Inr st1"
    and finish: "finish_source nfc e st1 = Inr st"
    and result: "core_result nfc s src frames cursor e (vi_stream v) st
        (page_diagnostics (prior_diagnostics cursor) (length frames) (length obs) st) = Inr page"
    by blast
  from v have "request_values_check nfc src frames obs ds cursor operation = None"
    by (simp add: validate_inputs_Inr)
  then have ok: "tracks_ok nfc (ps_next_ordinal (start_state cursor)) (ps_active (start_state cursor))"
    by (intro start_state_ok) (simp only: request_values_None)
  note looped = conjunct1 [OF frame_loop_conserves [OF nfc loop ok]]
  have "tracks_ok nfc (ps_next_ordinal st) (ps_active st)"
    using finish_source_outcome [OF finish looped] looped by (auto simp: tracks_ok_def split: if_splits)
  then show ?thesis
    using core_result_Inr [OF result]
    by (auto simp: cursor_tracks_def next_cursor_Inr(1) sorted_tracks_ordinals)
qed

lemma core_result_frames:
  "frames \<noteq> [] \<Longrightarrow> core_result nfc s src frames cursor e (Some stream) st diagnostics =
     bindE (next_cursor nfc s src stream (last frames) (first_pts_of frames cursor) st diagnostics e) (\<lambda>c.
       mk_tracking_page nfc COMPLETE (ps_completed st) (Some c) e diagnostics None)"
  by (cases frames) (simp_all add: core_result_def)

lemma core_compose:
  assumes nfc: "nfc_ascii nfc" and sorted: "sorted (map at_ordinal (cursor_tracks c0))"
    and complete: "tg_state page1 = COMPLETE" "tg_state page2 = COMPLETE"
    and core1: "track_page_core nfc s src frames obs (Some ds) c0 False cancel1 operation = Inr page1"
    and core2: "track_page_core nfc s src following later (Some ds') (tg_cursor page1) e cancel2 operation = Inr page2"
    and distinct: "distinct (map fr_frame_id (frames @ following))" "distinct (map ob_observation_id (obs @ later))"
      "distinct (map tk_tracklet_id (tg_tracklets page1 @ tg_tracklets page2))"
    and sizes: "int (length (frames @ following)) \<le> tl_max_page_frames (tr_limits s)"
      "int (length (obs @ later)) \<le> tl_max_page_observations (tr_limits s)"
      "length (tg_tracklets page1 @ tg_tracklets page2) \<le> MAX_PORT_BATCH_ITEMS"
  shows "track_page_core nfc s src (frames @ following) (obs @ later) (Some (ds @ ds')) c0 e (\<lambda>_. False) operation =
      Inr (page2\<lparr>tg_tracklets := tg_tracklets page1 @ tg_tracklets page2\<rparr>)"
    and "tracking_limits_post (tr_limits s) = None"
proof -
  from core1 [unfolded track_page_core_complete [OF complete(1)]] obtain v1 st1 where
      v1: "validate_inputs nfc s src frames obs (Some ds) c0 False (cancel1 1) operation = Inr v1"
    and vehicle1: "tr_requested_category s = ''vehicle''" "\<forall>ob \<in> set obs. ob_category ob = ''vehicle''" "vi_rate_supported v1"
    and loop1: "frame_loop nfc (tr_limits s) operation cancel1 2 (vi_by_frame v1) (zip frames (vi_discontinuities v1)) (start_state c0) = Inr st1"
    and result1: "core_result nfc s src frames c0 False (vi_stream v1) st1
        (page_diagnostics (prior_diagnostics c0) (length frames) (length obs) st1) = Inr page1"
    by (auto simp: finish_source_def)
  from v1 [unfolded validate_inputs_Inr] obtain i1 stream1 where
      shape1: "request_shape_check (tr_limits s) frames obs (Some ds) False operation = None"
    and req1: "request_values_check nfc src frames obs (Some ds) c0 operation = None"
    and sel1: "select_stream src frames c0 operation = Inr (i1, stream1)"
    and fits1: "\<forall>ob \<in> set obs. observation_fits src i1 stream1 frames ob"
    and fields1: "vi_discontinuities v1 = ds" "vi_by_frame v1 = (\<lambda>f. if f \<in> fr_frame_id ` set frames
        then Some (filter (\<lambda>ob. ob_frame_id ob = f) obs) else None)"
    by (auto simp: selected_discontinuities_def)
  have ne: "frames \<noteq> []" and len1: "length ds = length frames"
    using shape1 by (auto simp: request_shape_check_def split: if_splits)
  have post0: "pred_option (\<lambda>c. tracking_cursor_post nfc c = None) c0" and valid: "\<forall>f \<in> set frames. frame_valid nfc f"
    using req1 unfolding request_values_None by blast+
  define diag1 where "diag1 = page_diagnostics (prior_diagnostics c0) (length frames) (length obs) st1"
  obtain stream c1 where stream: "vi_stream v1 = Some stream" and page1: "tg_cursor page1 = Some c1" "tg_tracklets page1 = ps_completed st1"
    and next1: "next_cursor nfc s src stream (last frames) (first_pts_of frames c0) st1 diag1 False = Inr c1"
    using core_result_Inr [OF result1] ne by (auto simp: diag1_def)
  have first: "media_time_valid nfc (first_pts_of frames c0)"
    using valid ne post0 by (cases c0) (auto simp: first_pts_of_def frame_valid_def dest: tracking_cursor_postD(7))
  have c1: "tc_last_frame c1 = last frames" "tc_first_pts c1 = first_pts_of frames c0" "tc_source_stream c1 = stream"
      "tc_stream_index c1 = fr_stream_index (last frames)" "tc_diagnostics c1 = diag1"
    using next_cursor_values [OF nfc _ first next1] next_cursor_Inr [OF next1] valid ne by simp_all
  show "tracking_limits_post (tr_limits s) = None"
    using next_cursor_values(4) [OF nfc _ first next1] valid ne by simp
  note ok0 = start_state_ok [OF post0]
  note ok1 = conjunct1 [OF frame_loop_conserves [OF nfc loop1 ok0]]
  have resumed: "with_prefix (ps_completed st1) (start_state (Some c1)) = st1"
    using resumed_state [OF nfc ok1 frame_loop_sorted [OF nfc loop1 ok0 start_sorted [OF sorted]] next1 [unfolded diag1_def]] .
  from core2 [unfolded page1(1) track_page_core_complete [OF complete(2)]] obtain v2 st2 st where
      v2: "validate_inputs nfc s src following later (Some ds') (Some c1) e (cancel2 1) operation = Inr v2"
    and vehicle2: "\<forall>ob \<in> set later. ob_category ob = ''vehicle''" "vi_rate_supported v2"
    and loop2: "frame_loop nfc (tr_limits s) operation cancel2 2 (vi_by_frame v2) (zip following (vi_discontinuities v2)) (start_state (Some c1)) = Inr st2"
    and finish2: "finish_source nfc e st2 = Inr st"
    and diag2: "tracking_diagnostics_post (page_diagnostics (prior_diagnostics (Some c1)) (length following) (length later) st) = None"
    and result2: "core_result nfc s src following (Some c1) e (vi_stream v2) st
        (page_diagnostics (prior_diagnostics (Some c1)) (length following) (length later) st) = Inr page2"
    by blast
  from v2 [unfolded validate_inputs_Inr] obtain i2 stream2 where
      shape2: "request_shape_check (tr_limits s) following later (Some ds') e operation = None"
    and fits2: "\<forall>ob \<in> set later. observation_fits src i2 stream2 following ob"
    and fields2: "vi_discontinuities v2 = ds'" "vi_by_frame v2 = (\<lambda>f. if f \<in> fr_frame_id ` set following
        then Some (filter (\<lambda>ob. ob_frame_id ob = f) later) else None)"
    by (auto simp: selected_discontinuities_def)
  have len2: "length ds' = length following"
    using shape2 by (auto simp: request_shape_check_def split: if_splits)
  define v where "v = \<lparr>vi_by_frame = (\<lambda>f. if f \<in> fr_frame_id ` set (frames @ following)
       then Some (filter (\<lambda>ob. ob_frame_id ob = f) (obs @ later)) else None),
     vi_discontinuities = ds @ ds', vi_rate_supported = (vi_rate_supported v1 \<and> vi_rate_supported v2), vi_stream = vi_stream v1\<rparr>"
  have validated: "validate_inputs nfc s src (frames @ following) (obs @ later) (Some (ds @ ds')) c0 e False operation = Inr v"
    and streams: "vi_stream v2 = vi_stream v1"
    using validate_composed [OF v1 v2 c1(1,2) _ c1(4) _ _ distinct(1,2) sizes(1,2)] stream c1(3,5)
    by (simp_all add: v_def diag1_def page_diagnostics_def)
  have by1: "vi_by_frame v (fr_frame_id f) = vi_by_frame v1 (fr_frame_id f)" if "f \<in> set frames" for f
    using frame_observations_append [OF distinct(1) that fits2, of obs] that by (simp add: v_def fields1 del: filter_append)
  have by2: "vi_by_frame v (fr_frame_id f) = vi_by_frame v2 (fr_frame_id f)" if "f \<in> set following" for f
    using frame_observations_prepend [OF distinct(1) that fits1, of later] that by (simp add: v_def fields2 del: filter_append)
  have eq1: "\<forall>item \<in> set (zip frames ds). vi_by_frame v (fr_frame_id (fst item)) = vi_by_frame v1 (fr_frame_id (fst item))"
    using by1 by (auto dest: set_zip_leftD)
  have eq2: "\<forall>item \<in> set (zip following ds'). vi_by_frame v (fr_frame_id (fst item)) = vi_by_frame v2 (fr_frame_id (fst item))"
    using by2 by (auto dest: set_zip_leftD)
  have run1: "frame_loop nfc (tr_limits s) operation (\<lambda>_. False) 2 (vi_by_frame v) (zip frames ds) (start_state c0) = Inr st1"
    using frame_loop_prefix [OF loop1 [unfolded fields1(1)] eq1, of 2 "[]"] by simp
  have run2: "frame_loop nfc (tr_limits s) operation (\<lambda>_. False) (2 + length frames) (vi_by_frame v) (zip following ds') st1 =
      Inr (with_prefix (ps_completed st1) st2)"
    using frame_loop_prefix [OF loop2 [unfolded fields2(1)] eq2, of "2 + length frames" "ps_completed st1"]
    by (simp only: resumed)
  have run: "frame_loop nfc (tr_limits s) operation (\<lambda>_. False) 2 (vi_by_frame v) (zip (frames @ following) (ds @ ds')) (start_state c0) =
      Inr (with_prefix (ps_completed st1) st2)"
    using run1 run2 len1 by (simp add: frame_loop_append)
  have diag: "page_diagnostics (prior_diagnostics c0) (length (frames @ following)) (length (obs @ later)) (with_prefix (ps_completed st1) st) =
      page_diagnostics (prior_diagnostics (Some c1)) (length following) (length later) st" (is "_ = ?diag")
    by (simp add: page_diagnostics_def prior_diagnostics_def c1(5) diag1_def)
  have last2: "(if following \<noteq> [] then last following else tc_last_frame (the (Some c1))) =
      (if following \<noteq> [] then last following else last frames)" (is "_ = ?last")
    by (simp add: c1(1))
  have first2: "first_pts_of following (Some c1) = first_pts_of frames c0"
    unfolding first_pts_of_def [of following] by (simp add: c1(2))
  obtain c2 where page2: "tg_cursor page2 = Some c2" "tg_tracklets page2 = ps_completed st"
    and next2: "next_cursor nfc s src stream ?last (first_pts_of frames c0) st ?diag e = Inr c2"
    using core_result_Inr [OF result2] unfolding streams stream last2 first2 by auto
  have "core_result nfc s src following (Some c1) e (vi_stream v2) st ?diag =
      bindE (next_cursor nfc s src stream ?last (first_pts_of frames c0) st ?diag e) (\<lambda>c.
        mk_tracking_page nfc COMPLETE (ps_completed st) (Some c) e ?diag None)"
    unfolding core_result_def streams stream last2 [symmetric] first2 [symmetric] by (cases following) simp_all
  then have made: "mk_tracking_page nfc COMPLETE (ps_completed st) (Some c2) e ?diag None = Inr page2"
    using result2 next2 by simp
  have posts: "\<forall>t \<in> set (ps_completed st1). tracklet_post nfc t = None"
    using result1 next1 ne by (cases frames)
      (auto simp: core_result_def stream diag1_def mk_tracking_page_def tracking_page_post_def checked_Inr_iff run_checks_None Let_def bindE_Inr_iff)
  have "mk_tracking_page nfc COMPLETE (ps_completed st1 @ ps_completed st) (Some c2) e ?diag None =
      Inr (page2\<lparr>tg_tracklets := ps_completed st1 @ ps_completed st\<rparr>)"
    using made posts distinct(3) sizes(3)
    by (auto simp: mk_tracking_page_def tracking_page_post_def checked_Inr_iff run_checks_None Let_def page1(2) page2(2))
  then have result: "core_result nfc s src (frames @ following) c0 e (vi_stream v) (with_prefix (ps_completed st1) st) ?diag =
      Inr (page2\<lparr>tg_tracklets := tg_tracklets page1 @ tg_tracklets page2\<rparr>)"
  proof -
    have joined: "frames @ following \<noteq> []" "last (frames @ following) = ?last"
        "first_pts_of (frames @ following) c0 = first_pts_of frames c0" "vi_stream v = Some stream"
      using ne by (simp_all add: last_append first_pts_append v_def stream)
    show ?thesis
      unfolding joined(4) core_result_frames [OF joined(1)] joined(2,3) next_cursor_with_prefix next2
      using \<open>mk_tracking_page nfc COMPLETE (ps_completed st1 @ ps_completed st) (Some c2) e ?diag None = _\<close>
      by (simp add: page1(2) page2(2))
  qed
  have "tg_state (page2\<lparr>tg_tracklets := tg_tracklets page1 @ tg_tracklets page2\<rparr>) = COMPLETE" using complete(2) by simp
  note core = track_page_core_complete [OF this]
  have fields: "vi_rate_supported v" "vi_discontinuities v = ds @ ds'"
    using vehicle1(3) vehicle2(2) by (simp_all add: v_def)
  have vehicles: "\<forall>ob \<in> set (obs @ later). ob_category ob = ''vehicle''" using vehicle1(2) vehicle2(1) by auto
  have lens: "length (frames @ following) = length (ds @ ds')" using len1 len2 by simp
  have size: "length (ps_completed (with_prefix (ps_completed st1) st)) \<le> MAX_PORT_BATCH_ITEMS"
    using sizes(3) by (simp add: page1(2) page2(2))
  show "track_page_core nfc s src (frames @ following) (obs @ later) (Some (ds @ ds')) c0 e (\<lambda>_. False) operation =
      Inr (page2\<lparr>tg_tracklets := tg_tracklets page1 @ tg_tracklets page2\<rparr>)"
    unfolding core
    using validated vehicle1(1) vehicles run [folded fields(2)] finish_source_prefix [OF finish2, of "ps_completed st1"]
      diag2 [folded diag] result [folded diag] size lens [folded fields(2)] fields(1)
    by blast
qed

end
