(* ===== verification/Tracker_Examples.thy ===== *)
theory Tracker_Examples
  imports Tracker_Pages
begin

text \<open>
  A concrete run of the tracker, used to show that the hypotheses of its properties can hold: one frame
  with one vehicle, tracked in one call and in two pages.
\<close>

section \<open>The inputs\<close>

definition ex_vehicle_members :: "(string \<times> json) list" where
  "ex_vehicle_members = observation_identity_members (so_source_id ex_source) (fr_frame_id (ex_frame 0 0)) 0
     (ex_time 0) ex_geometry ''vehicle'' 1 ex_producer"

definition ex_vehicle :: observation where
  "ex_vehicle = \<lparr>ob_observation_id = ''obs'' @ ''_'' @ sha256_hex (render (sort_json (JObj ex_vehicle_members))),
     ob_source_id = so_source_id ex_source, ob_frame_id = fr_frame_id (ex_frame 0 0), ob_stream_index = 0,
     ob_pts = ex_time 0, ob_geometry = ex_geometry, ob_category = ''vehicle'', ob_confidence_millionths = 1,
     ob_producer = ex_producer\<rparr>"

lemma ex_vehicle_fields [simp]:
  "ob_source_id ex_vehicle = so_source_id ex_source" "ob_frame_id ex_vehicle = fr_frame_id (ex_frame 0 0)"
  "ob_stream_index ex_vehicle = 0" "ob_pts ex_vehicle = ex_time 0" "ob_geometry ex_vehicle = ex_geometry"
  "ob_category ex_vehicle = ''vehicle''" "ob_confidence_millionths ex_vehicle = 1" "ob_producer ex_vehicle = ex_producer"
  by (simp_all add: ex_vehicle_def)

lemma vehicle_category: "general_ok id ''vehicle''" "is_category ''vehicle''"
  by (simp_all add: general_ok_id_ascii char_evaluation MAX_GENERAL_STRING_BYTES_def)

lemma ex_vehicle_valid: "observation_post id ex_vehicle = None"
proof -
  note ids = ex_ids [of 0, simplified]
  have "mk_identifier id ''obs'' (JObj ex_vehicle_members) = Inr (ob_observation_id ex_vehicle)"
    unfolding ex_vehicle_def observation.simps using ex_ids [of 0]
    by (intro mk_identifier_eval) (simp_all add: ex_vehicle_members_def observation_identity_members_def
        ex_json_evaluation render_evaluation)
  moreover have "observation_projection ex_vehicle = ex_vehicle_members"
    by (simp add: observation_projection_def ex_vehicle_members_def)
  moreover have "general_ok id (ob_observation_id ex_vehicle)"
    by (simp only: ex_vehicle_def observation.simps, rule general_ok_hash_id [OF nfc_id]) (simp_all add: char_evaluation)
  moreover have "is_typed_id ''obs'' (ob_observation_id ex_vehicle)"
    by (simp only: ex_vehicle_def observation.simps is_typed_id_hash)
  moreover have "media_time_valid id (ex_time 0)" by (rule ex_time_valid) simp
  ultimately show ?thesis
    using ex_ids [of 0] ex_geometry_valid ex_producer_valid vehicle_category
    by (simp add: observation_post_def outcome MAX_I31_def MAX_CONFIDENCE_MILLIONTHS_def del: is_category.simps)
qed

definition ex_score :: frame_discontinuity where
  "ex_score = \<lparr>fd_source_id = so_source_id ex_source, fd_frame_id = fr_frame_id (ex_frame 0 0), fd_stream_index = 0,
     fd_pts = ex_time 0, fd_score_basis_points = 0\<rparr>"

lemma ex_score_valid: "discontinuity_post id ex_score = None"
proof -
  have "media_time_valid id (ex_time 0)" by (rule ex_time_valid) simp
  then show ?thesis
    using ex_ids [of 0] by (simp add: discontinuity_post_def ex_score_def outcome MAX_I31_def MAX_DISCONTINUITY_BASIS_POINTS_def)
qed

definition ex_tracker :: tracker where
  "ex_tracker = \<lparr>tr_requested_category = ''vehicle'', tr_limits = default_tracking_limits,
     tr_cursor_integrity_key = replicate 32 (CHR ''k''), tr_calls = []\<rparr>"

lemmas limit_evaluation = default_tracking_limits_def MAX_PORT_BATCH_ITEMS_def MAX_PERCEPTION_OBSERVATIONS_def
  MAX_TRACK_POINTS_def

lemma default_tracking_limits_valid: "tracking_limits_post default_tracking_limits = None"
  by (simp add: tracking_limits_post_def limit_evaluation)

lemma ex_stream_selected: "stream_by_index ex_source 0 = Some ex_stream"
  by (simp add: stream_by_index_def ex_source_def ex_stream_def)

lemma ex_frame_fields [simp]:
  "fr_source_id (ex_frame i t) = so_source_id ex_source" "fr_stream_index (ex_frame i t) = 0"
  "fr_pts (ex_frame i t) = ex_time t" "fr_duration (ex_frame i t) = None"
  by (simp_all add: ex_frame_def)

lemma ex_time_fields [simp]: "mt_time_base (ex_time n) = ex_time_base"
  by (simp add: ex_time_def)

lemma ex_stream_fields [simp]:
  "ss_time_base ex_stream = ex_time_base" "ss_width ex_stream = 2" "ss_height ex_stream = 1" "ss_stream_index ex_stream = 0"
  by (simp_all add: ex_stream_def)

lemma ex_geometry_fields [simp]: "ge_source_width ex_geometry = 2" "ge_source_height ex_geometry = 1"
  by (simp_all add: ex_geometry_def)

lemma ex_source_validated: "validate_source id ex_source = None"
  using ex_source_valid
  by (simp add: validate_source_def validate_source_stream_def source_valid_def source_stream_valid_def run_checks_None list_all_iff)

definition ex_inputs :: validated_inputs where
  "ex_inputs = \<lparr>vi_by_frame = (\<lambda>f. if f = fr_frame_id (ex_frame 0 0) then Some [ex_vehicle] else None),
     vi_discontinuities = [ex_score], vi_rate_supported = True, vi_stream = Some ex_stream\<rparr>"

lemma ex_validate:
  "validate_inputs id ex_tracker ex_source [ex_frame 0 0] [ex_vehicle] (Some [ex_score]) None e False operation = Inr ex_inputs"
proof -
  have frame: "frame_valid id (ex_frame 0 0)" by (rule ex_frame_valid) simp_all
  have "select_stream ex_source [ex_frame 0 0] None operation = Inr (0, Some ex_stream)"
    by (simp add: select_stream_def ex_stream_selected Let_def)
  moreover have "observation_fits ex_source 0 (Some ex_stream) [ex_frame 0 0] ex_vehicle"
    by (simp add: observation_fits_def)
  moreover have "request_values_check id ex_source [ex_frame 0 0] [ex_vehicle] (Some [ex_score]) None operation = None"
    unfolding request_values_None
    using ex_source_validated frame ex_vehicle_valid ex_score_valid by (simp add: selected_discontinuities_def)
  moreover have "request_shape_check default_tracking_limits [ex_frame 0 0] [ex_vehicle] (Some [ex_score]) e operation = None"
    by (simp add: request_shape_check_def limit_evaluation)
  moreover have "discontinuities_check [ex_frame 0 0] [ex_score] None operation = None"
    by (simp add: discontinuities_check_def discontinuity_of_def ex_score_def)
  ultimately show ?thesis
    unfolding validate_inputs_Inr
    by (intro exI [of _ 0] exI [of _ "Some ex_stream"])
      (simp add: ex_tracker_def ex_inputs_def selected_discontinuities_def cursor_binding_check_def check_option_def
        ordered_frames_def pairwise_def prior_diagnostics_def no_diagnostics_def first_pts_of_def fun_eq_iff,
       simp add: limit_evaluation)
qed

section \<open>The loop\<close>

definition ex_active :: active_track where
  "ex_active = \<lparr>at_ordinal = 1, at_points = [point_of ex_vehicle], at_missed_samples = 0\<rparr>"

definition ex_state :: page_state where
  "ex_state = \<lparr>ps_active = [(1, ex_active)], ps_next_ordinal = 2, ps_created_tracks = 1, ps_maximum_active = 1,
     ps_cut_frames = 0, ps_cut_terminations = 0, ps_miss_terminations = 0, ps_source_terminations = 0, ps_completed = []\<rparr>"

lemma ex_active_valid: "active_track_post id ex_active = None"
  using point_of_valid [OF ex_vehicle_valid]
  by (simp add: active_track_post_def ex_active_def MAX_TRACK_POINTS_def MAX_MISSED_SAMPLES_def)

lemma ex_loop:
  "frame_loop id default_tracking_limits operation (\<lambda>_. False) 2 (vi_by_frame ex_inputs) (zip [ex_frame 0 0] [ex_score])
     (start_state None) = Inr ex_state"
proof -
  have made: "mk_active_track id 1 [point_of ex_vehicle] 0 = Inr ex_active"
    using ex_active_valid by (simp add: mk_active_track_Inr ex_active_def)
  have cut: "cut_step id ex_score st = Inr st" for st
    by (simp add: cut_step_def ex_score_def CUT_THRESHOLD_BASIS_POINTS_def)
  have "sort_detections [ex_vehicle] = [ex_vehicle]" by (simp add: sort_detections_def)
  then show ?thesis
    by (simp add: ex_inputs_def start_state_def cursor_tracks_def prior_diagnostics_def no_diagnostics_def Let_def
        frame_step_def check_cancelled_def cut sorted_tracks_def association_weights_def associate_def
        copy_point [OF nfc_id ex_vehicle_valid] made ex_state_def)
      (simp add: limit_evaluation)
qed

section \<open>The tracklet\<close>

definition ex_vehicle_track_members :: "(string \<times> json) list" where
  "ex_vehicle_track_members = tracklet_identity_members (so_source_id ex_source) 0 ''vehicle''
     [point_of ex_vehicle] ''source_end'' TRACKER_PRODUCER ''source_clip'' ''inferred''"

definition ex_vehicle_track :: tracklet where
  "ex_vehicle_track = \<lparr>tk_tracklet_id = ''trk'' @ ''_'' @ sha256_hex (render (sort_json (JObj ex_vehicle_track_members))),
     tk_source_id = so_source_id ex_source, tk_stream_index = 0, tk_category = ''vehicle'',
     tk_points = [point_of ex_vehicle], tk_termination_reason = ''source_end'', tk_producer = TRACKER_PRODUCER,
     tk_identity_scope = ''source_clip'', tk_continuity = ''inferred''\<rparr>"

lemma tracker_producer_valid: "producer_post id TRACKER_PRODUCER = None"
  by (simp add: producer_post_def TRACKER_PRODUCER_def TRACKER_CONFIGURATION_SHA256_def sha256_check_None general_ok_id_hash
      token_check_literal [OF nfc_id] char_evaluation MAX_TOKEN_BYTES_def)

lemma ex_vehicle_ids:
  "general_ok id (ob_observation_id ex_vehicle)" "length (quote (ob_observation_id ex_vehicle)) \<le> 410"
  "general_ok id TRACKER_CONFIGURATION_SHA256" "length (quote TRACKER_CONFIGURATION_SHA256) \<le> 386"
proof -
  show "general_ok id (ob_observation_id ex_vehicle)" by (rule observation_postD(1) [OF ex_vehicle_valid])
  have "length (ob_observation_id ex_vehicle) = 68" by (simp add: ex_vehicle_def)
  then show "length (quote (ob_observation_id ex_vehicle)) \<le> 410"
    using length_quote [of "ob_observation_id ex_vehicle"] by simp
  show "general_ok id TRACKER_CONFIGURATION_SHA256"
    by (simp add: TRACKER_CONFIGURATION_SHA256_def general_ok_id_hash)
  show "length (quote TRACKER_CONFIGURATION_SHA256) \<le> 386"
    using length_quote [of TRACKER_CONFIGURATION_SHA256] by (simp add: TRACKER_CONFIGURATION_SHA256_def)
qed

lemma ex_vehicle_track_identifier:
  "mk_identifier id ''trk'' (JObj ex_vehicle_track_members) = Inr (tk_tracklet_id ex_vehicle_track)"
  unfolding ex_vehicle_track_def tracklet.simps using ex_ids [of 0] ex_vehicle_ids
  by (intro mk_identifier_eval) (simp_all add: ex_vehicle_track_members_def tracklet_identity_members_def
        track_point_to_mapping_def TRACKER_PRODUCER_def ex_json_evaluation render_evaluation)

lemma ex_vehicle_track_valid: "tracklet_post id ex_vehicle_track = None"
proof -
  have tid: "general_ok id (tk_tracklet_id ex_vehicle_track)" "is_typed_id ''trk'' (tk_tracklet_id ex_vehicle_track)"
    by (simp only: ex_vehicle_track_def tracklet.simps, rule general_ok_hash_id [OF nfc_id], simp_all add: char_evaluation)
      (simp only: ex_vehicle_track_def tracklet.simps is_typed_id_hash)
  have fields: "tk_source_id ex_vehicle_track = so_source_id ex_source" "tk_stream_index ex_vehicle_track = 0"
     "tk_category ex_vehicle_track = ''vehicle''" "tk_points ex_vehicle_track = [point_of ex_vehicle]"
     "tk_termination_reason ex_vehicle_track = ''source_end''" "tk_producer ex_vehicle_track = TRACKER_PRODUCER"
     "tk_identity_scope ex_vehicle_track = ''source_clip''" "tk_continuity ex_vehicle_track = ''inferred''"
    by (simp_all add: ex_vehicle_track_def)
  have members: "tracklet_projection ex_vehicle_track = ex_vehicle_track_members"
    by (simp add: tracklet_projection_def ex_vehicle_track_members_def fields)
  have "point_scope_check ex_vehicle_track (point_of ex_vehicle) = None"
    by (simp add: point_scope_check_def fields)
  moreover have "token_check id ''source_end'' p (Some termination_reasons) = None"
      "token_check id ''source_clip'' p (Some [''source_clip'']) = None"
      "token_check id ''inferred'' p (Some [''inferred'']) = None" for p
    by (simp_all add: token_check_literal [OF nfc_id] char_evaluation MAX_TOKEN_BYTES_def termination_reasons_def)
  ultimately show ?thesis
    using tid point_of_valid [OF ex_vehicle_valid] ex_ids [of 0] tracker_producer_valid ex_vehicle_track_identifier vehicle_category
    by (simp add: tracklet_post_def general_string_check_None typed_id_check_None bounded_int_check_None
        category_check_None plain_producer_None identifier_check_None MAX_I31_def MAX_TRACK_POINTS_def members fields
        general_ok_id_ascii char_evaluation MAX_GENERAL_STRING_BYTES_def del: is_category.simps)
qed

lemma ex_complete: "complete_track id ex_active ''source_end'' = Inr ex_vehicle_track"
proof -
  have "general_ok id ''source_end''" by (simp add: general_ok_id_ascii char_evaluation MAX_GENERAL_STRING_BYTES_def)
  moreover have "general_ok id (so_source_id ex_source)" using ex_ids(1) [of 0] by simp
  moreover have "mk_identifier id ''trk'' (JObj (tracklet_identity_members (so_source_id ex_source) 0 ''vehicle''
      [point_of ex_vehicle] ''source_end'' TRACKER_PRODUCER ''source_clip'' ''inferred'')) = Inr (tk_tracklet_id ex_vehicle_track)"
    using ex_vehicle_track_identifier by (simp add: ex_vehicle_track_members_def)
  ultimately show ?thesis
    using point_of_valid [OF ex_vehicle_valid] tracker_producer_valid vehicle_category ex_vehicle_track_valid
    by (simp add: complete_track_def tracklet_create_def ex_active_def general_string_check_None [THEN iffD2]
        category_check_None [THEN iffD2] plain_producer_None [THEN iffD2] MAX_TRACK_POINTS_def Let_def
        del: is_category.simps) (simp add: ex_vehicle_track_def)
qed

section \<open>The cursors and the pages\<close>

text \<open>\<open>e\<close> says whether the source has ended.\<close>

definition ex_diagnostics :: "bool \<Rightarrow> tracking_diagnostics" where
  "ex_diagnostics e = \<lparr>td_frame_count = 1, td_observation_count = 1, td_created_tracks = 1, td_maximum_active_tracks = 1,
     td_detected_cut_frames = 0, td_cut_terminations = 0, td_miss_timeout_terminations = 0,
     td_source_end_terminations = (if e then 1 else 0)\<rparr>"

definition ex_unsealed :: "bool \<Rightarrow> tracking_cursor" where
  "ex_unsealed e = \<lparr>tc_source_id = so_source_id ex_source, tc_stream_index = 0, tc_time_base = ex_time_base,
     tc_source_stream = ex_stream, tc_limits = default_tracking_limits, tc_first_pts = ex_time 0,
     tc_last_frame = ex_frame 0 0, tc_active_tracks = (if e then [] else [ex_active]), tc_next_ordinal = 2,
     tc_diagnostics = ex_diagnostics e, tc_integrity_hmac_sha256 = replicate 64 (CHR ''0''), tc_finished = e\<rparr>"

definition ex_cursor :: "bool \<Rightarrow> tracking_cursor" where
  "ex_cursor e = (ex_unsealed e)\<lparr>tc_integrity_hmac_sha256 :=
     hmac_sha256_hex (replicate 32 (CHR ''k'')) (render (sort_json (cursor_payload (ex_unsealed e))))\<rparr>"

definition ex_page :: "bool \<Rightarrow> tracking_page" where
  "ex_page e = \<lparr>tg_state = COMPLETE, tg_tracklets = (if e then [ex_vehicle_track] else []), tg_cursor = Some (ex_cursor e),
     tg_finished = e, tg_diagnostics = ex_diagnostics e, tg_reason = None\<rparr>"

lemma ex_stream_validated: "validate_source_stream id ex_stream = None"
  using ex_stream_valid by (simp add: validate_source_stream_def source_stream_valid_def ex_time_base_valid)

lemma ex_cursor_valid:
  assumes "is_sha256 seal"
  shows "tracking_cursor_post id ((ex_unsealed e)\<lparr>tc_integrity_hmac_sha256 := seal\<rparr>) = None"
proof -
  have "frame_valid id (ex_frame 0 0)" by (rule ex_frame_valid) simp_all
  moreover have "media_time_valid id (ex_time 0)" by (rule ex_time_valid) simp
  moreover have "tracking_diagnostics_post (ex_diagnostics e) = None"
    by (simp add: tracking_diagnostics_post_def ex_diagnostics_def)
  moreover have "cursor_prefix_ok ((ex_unsealed e)\<lparr>tc_integrity_hmac_sha256 := seal\<rparr>)"
    by (simp add: cursor_prefix_ok_def ex_unsealed_def ex_diagnostics_def ex_active_def Let_def TRACKING_FPS_def)
      (simp add: limit_evaluation)
  moreover have "cursor_tracks_ok ((ex_unsealed e)\<lparr>tc_integrity_hmac_sha256 := seal\<rparr>) []
      (tc_active_tracks (ex_unsealed e))"
    by (simp add: ex_unsealed_def ex_active_def cursor_track_ok_def point_in_cursor_def pairwise_def Let_def)
      (simp add: limit_evaluation)
  moreover have "active_track_post id t = None" if "t \<in> set (tc_active_tracks (ex_unsealed e))" for t
    using that ex_active_valid by (simp add: ex_unsealed_def split: if_splits)
  ultimately show ?thesis
    using assms ex_ids(2) [of 0] default_tracking_limits_valid ex_time_base_valid ex_stream_validated
    by (simp add: tracking_cursor_post_def validate_frame_None validate_media_time_None run_checks_None)
      (simp add: ex_unsealed_def MAX_I31_def limit_evaluation)
qed

lemma is_sha256_hmac: "is_sha256 (hmac_sha256_hex key content)"
  by (simp add: is_sha256_def)

lemma ex_cursor_post: "tracking_cursor_post id (ex_cursor e) = None"
  unfolding ex_cursor_def by (rule ex_cursor_valid [OF is_sha256_hmac])

lemma ex_unsealed_post: "tracking_cursor_post id (ex_unsealed e) = None"
proof -
  have "is_sha256 (replicate 64 (CHR ''0''))" by (simp add: is_sha256_def list_all_iff is_lower_hex_def is_digit_def code_def)
  moreover have "(ex_unsealed e)\<lparr>tc_integrity_hmac_sha256 := replicate 64 (CHR ''0'')\<rparr> = ex_unsealed e"
    by (simp add: ex_unsealed_def)
  ultimately show ?thesis using ex_cursor_valid [of "replicate 64 (CHR ''0'')" e] by simp
qed

lemma ex_seal_cursor:
  "seal_cursor id (replicate 32 (CHR ''k'')) ((ex_unsealed e)\<lparr>tc_integrity_hmac_sha256 := []\<rparr>) = Inr (ex_cursor e)"
proof -
  have "(ex_unsealed e)\<lparr>tc_integrity_hmac_sha256 := []\<rparr>\<lparr>tc_integrity_hmac_sha256 := replicate 64 (CHR ''0'')\<rparr> = ex_unsealed e"
    by (simp add: ex_unsealed_def)
  then show ?thesis
    using ex_unsealed_post [of e] by (simp add: seal_cursor_def cursor_integrity_hmac_sha256_def Let_def ex_cursor_def)
qed

lemma ex_next_cursor:
  assumes "ps_active st = (if e then [] else [(1, ex_active)])" and "ps_next_ordinal st = 2"
  shows "next_cursor id ex_tracker ex_source ex_stream (ex_frame 0 0) (ex_time 0) st (ex_diagnostics e) e = Inr (ex_cursor e)"
proof -
  have "frame_valid id (ex_frame 0 0)" by (rule ex_frame_valid) simp_all
  note frame = copy_frame_valid [OF nfc_id this]
  have "media_time_valid id (ex_time 0)" by (rule ex_time_valid) simp
  note first = media_time_roundtrip(1) [OF this]
  have tracks: "mapE (copy_active_track id) (sorted_tracks (ps_active st)) = Inr (if e then [] else [ex_active])"
    by (simp add: assms(1) sorted_tracks_def copy_active_track_valid ex_active_valid)
  have "next_cursor id ex_tracker ex_source ex_stream (ex_frame 0 0) (ex_time 0) st (ex_diagnostics e) e =
      seal_cursor id (replicate 32 (CHR ''k'')) ((ex_unsealed e)\<lparr>tc_integrity_hmac_sha256 := []\<rparr>)"
    by (simp only: next_cursor_def copy_source_stream_valid [OF ex_stream_validated] frame first tracks bindE_simps)
      (simp add: ex_tracker_def copy_tracking_limits_valid default_tracking_limits_valid ex_unsealed_def assms(2))
  then show ?thesis by (simp only: ex_seal_cursor)
qed

lemma ex_page_made:
  "mk_tracking_page id COMPLETE (if e then [ex_vehicle_track] else []) (Some (ex_cursor e)) e (ex_diagnostics e) None = Inr (ex_page e)"
proof -
  have "tracking_diagnostics_post (ex_diagnostics e) = None"
    by (simp add: tracking_diagnostics_post_def ex_diagnostics_def)
  moreover have "tc_finished (ex_cursor e) = e" "tc_diagnostics (ex_cursor e) = ex_diagnostics e"
    by (simp_all add: ex_cursor_def ex_unsealed_def)
  ultimately show ?thesis
    using ex_vehicle_track_valid ex_cursor_post [of e]
    by (simp add: mk_tracking_page_def tracking_page_post_def check_accepts MAX_PORT_BATCH_ITEMS_def ex_page_def Let_def checked_Inr_iff)
qed

definition ex_final :: "bool \<Rightarrow> page_state" where
  "ex_final e = (if e then ex_state\<lparr>ps_active := [], ps_source_terminations := 1, ps_completed := [ex_vehicle_track]\<rparr> else ex_state)"

lemma ex_finish: "finish_source id e ex_state = Inr (ex_final e)"
  by (simp add: finish_source_def complete_all_def ex_state_def sorted_tracks_def ex_complete ex_final_def)

lemma ex_final_fields:
  "ps_active (ex_final e) = (if e then [] else [(1, ex_active)])" "ps_next_ordinal (ex_final e) = 2"
  "ps_completed (ex_final e) = (if e then [ex_vehicle_track] else [])"
  by (simp_all add: ex_final_def ex_state_def)

lemma ex_diagnostics_valid: "tracking_diagnostics_post (ex_diagnostics e) = None"
  by (simp add: tracking_diagnostics_post_def ex_diagnostics_def)

lemma ex_core:
  "track_page_core id ex_tracker ex_source [ex_frame 0 0] [ex_vehicle] (Some [ex_score]) None e (\<lambda>_. False) operation = Inr (ex_page e)"
proof -
  have complete: "tg_state (ex_page e) = COMPLETE" by (simp add: ex_page_def)
  have diag: "page_diagnostics (prior_diagnostics None) (length [ex_frame 0 0]) (length [ex_vehicle]) (ex_final e) = ex_diagnostics e"
    by (simp add: page_diagnostics_def prior_diagnostics_def no_diagnostics_def ex_final_def ex_state_def ex_diagnostics_def)
  have result: "core_result id ex_tracker ex_source [ex_frame 0 0] None e (vi_stream ex_inputs) (ex_final e) (ex_diagnostics e) = Inr (ex_page e)"
    using ex_page_made [of e]
    by (simp add: core_result_def ex_inputs_def first_pts_of_def ex_next_cursor [of "ex_final e" e] ex_final_fields)
  have loop: "frame_loop id (tr_limits ex_tracker) operation (\<lambda>_. False) 2 (vi_by_frame ex_inputs)
      (zip [ex_frame 0 0] (vi_discontinuities ex_inputs)) (start_state None) = Inr ex_state"
    using ex_loop [of operation] by (simp add: ex_inputs_def ex_tracker_def)
  show ?thesis
    unfolding track_page_core_complete [OF complete]
    using ex_validate [of e operation] loop ex_finish [of e] diag ex_diagnostics_valid [of e] result
    by (intro exI [of _ ex_inputs] exI [of _ ex_state] exI [of _ "ex_final e"])
      (simp add: ex_tracker_def ex_inputs_def ex_final_fields MAX_PORT_BATCH_ITEMS_def)
qed

section \<open>The flush page\<close>

definition ex_flush_inputs :: validated_inputs where
  "ex_flush_inputs = \<lparr>vi_by_frame = (\<lambda>f. None), vi_discontinuities = [], vi_rate_supported = True, vi_stream = Some ex_stream\<rparr>"

lemma ex_cursor_fields:
  "tc_stream_index (ex_cursor e) = 0" "tc_source_stream (ex_cursor e) = ex_stream" "tc_first_pts (ex_cursor e) = ex_time 0"
  "tc_last_frame (ex_cursor e) = ex_frame 0 0" "tc_active_tracks (ex_cursor e) = (if e then [] else [ex_active])"
  "tc_diagnostics (ex_cursor e) = ex_diagnostics e" "tc_finished (ex_cursor e) = e" "tc_next_ordinal (ex_cursor e) = 2"
  "tc_source_id (ex_cursor e) = so_source_id ex_source" "tc_limits (ex_cursor e) = default_tracking_limits"
  by (simp_all add: ex_cursor_def ex_unsealed_def)

lemma ex_cursor_bound: "cursor_binding_check ex_tracker ex_source (Some (ex_cursor False)) operation = None"
proof -
  have "cursor_payload (ex_cursor False) = cursor_payload (ex_unsealed False)"
    by (simp add: cursor_payload_def ex_cursor_def)
  then show ?thesis
    unfolding cursor_binding_None
    by (simp add: cursor_integrity_hmac_sha256_def ex_tracker_def ex_cursor_fields) (simp add: ex_cursor_def)
qed

lemma ex_flush_validate:
  "validate_inputs id ex_tracker ex_source [] [] (Some []) (Some (ex_cursor False)) True False operation = Inr ex_flush_inputs"
proof -
  have "request_values_check id ex_source [] [] (Some []) (Some (ex_cursor False)) operation = None"
    unfolding request_values_None using ex_source_validated ex_cursor_post by (simp add: selected_discontinuities_def)
  moreover have "request_shape_check default_tracking_limits [] [] (Some []) True operation = None"
    by (simp add: request_shape_check_def limit_evaluation)
  moreover have "select_stream ex_source [] (Some (ex_cursor False)) operation = Inr (0, Some ex_stream)"
    by (simp add: select_stream_def ex_stream_selected Let_def ex_cursor_fields)
  ultimately show ?thesis
    unfolding validate_inputs_Inr using ex_cursor_bound
    by (intro exI [of _ 0] exI [of _ "Some ex_stream"])
      (simp add: ex_tracker_def ex_flush_inputs_def selected_discontinuities_def ordered_frames_def pairwise_def
        discontinuities_check_def prior_diagnostics_def ex_cursor_fields,
       simp add: limit_evaluation ex_diagnostics_def)
qed

lemma ex_flush:
  "track_page_core id ex_tracker ex_source [] [] (Some []) (Some (ex_cursor False)) True (\<lambda>_. False) operation = Inr (ex_page True)"
proof -
  have complete: "tg_state (ex_page True) = COMPLETE" by (simp add: ex_page_def)
  have start: "start_state (Some (ex_cursor False)) = ex_state"
    by (simp add: start_state_def cursor_tracks_def ex_cursor_fields prior_diagnostics_def ex_state_def ex_diagnostics_def
        Let_def ex_active_def)
  have diag: "page_diagnostics (prior_diagnostics (Some (ex_cursor False))) (length ([] :: frame_ref list))
      (length ([] :: observation list)) (ex_final True) = ex_diagnostics True"
    by (simp add: page_diagnostics_def prior_diagnostics_def ex_cursor_fields ex_final_def ex_state_def ex_diagnostics_def)
  have result: "core_result id ex_tracker ex_source [] (Some (ex_cursor False)) True (vi_stream ex_flush_inputs) (ex_final True)
      (ex_diagnostics True) = Inr (ex_page True)"
    using ex_page_made [of True]
    by (simp add: core_result_def ex_flush_inputs_def first_pts_of_def ex_cursor_fields ex_next_cursor [of "ex_final True" True]
        ex_final_fields)
  show ?thesis
    unfolding track_page_core_complete [OF complete]
    using ex_flush_validate [of operation] start ex_finish [of True] diag ex_diagnostics_valid [of True] result
    by (intro exI [of _ ex_flush_inputs] exI [of _ ex_state] exI [of _ "ex_final True"])
      (simp add: ex_tracker_def ex_flush_inputs_def ex_final_fields MAX_PORT_BATCH_ITEMS_def)
qed

lemma ex_record_call: "n \<le> 64 \<Longrightarrow> \<exists>calls. record_call (tr_calls s) TRACKER ''track_page'' n = Inr calls"
  by (simp add: record_call_ok is_port_token_def token_evaluation MAX_PORT_BATCH_ITEMS_def)

lemma ex_track_page:
  "\<exists>s'. track_page id ex_tracker ex_source [ex_frame 0 0] [ex_vehicle] (Some [ex_score]) None e (\<lambda>_. False) = Inr (ex_page e, s') \<and>
     tr_requested_category s' = ''vehicle'' \<and> tr_limits s' = default_tracking_limits \<and>
     tr_cursor_integrity_key s' = replicate 32 (CHR ''k'')"
proof -
  obtain calls where "record_call (tr_calls ex_tracker) TRACKER ''track_page'' 1 = Inr calls"
    using ex_record_call [of 1 ex_tracker] by auto
  then have "track_page id ex_tracker ex_source [ex_frame 0 0] [ex_vehicle] (Some [ex_score]) None e (\<lambda>_. False) =
      Inr (ex_page e, ex_tracker\<lparr>tr_calls := calls\<rparr>)"
    by (simp add: track_page_Inr ex_core)
  then show ?thesis by (auto simp: ex_tracker_def)
qed

end
