(* ===== verification/Port_Errors.thy ===== *)
theory Port_Errors
  imports Record_Errors
begin

text \<open>
  The errors a port operation raises on its own behalf: value errors, which it turns into a
  \<open>PortError\<close> of its own, and its \<open>PortError\<close>s.  Checks and results that raise nothing else.
\<close>

definition foreseen :: "port_kind \<Rightarrow> string \<Rightarrow> exn \<Rightarrow> bool" where
  "foreseen kind operation e \<longleftrightarrow> is_value_error e \<or> (\<exists>c. e = PortError c kind operation)"

definition foreseen_check :: "port_kind \<Rightarrow> string \<Rightarrow> check \<Rightarrow> bool" where
  "foreseen_check kind operation c \<longleftrightarrow> pred_option (foreseen kind operation) c"

definition foreseen_result :: "port_kind \<Rightarrow> string \<Rightarrow> 'a res \<Rightarrow> bool" where
  "foreseen_result kind operation m \<longleftrightarrow> (\<forall>e. m = Inl e \<longrightarrow> foreseen kind operation e)"

lemma foreseen_simps [simp]:
  "foreseen kind operation (ValueError m)" "foreseen kind operation (PortError ec kind operation)" "foreseen_check kind operation None" "foreseen_check kind operation (Some e) \<longleftrightarrow> foreseen kind operation e"
  "foreseen_check kind operation (require b e) \<longleftrightarrow> b \<or> foreseen kind operation e" "foreseen_result kind operation (Inr x)" "foreseen_result kind operation (Inl e) \<longleftrightarrow> foreseen kind operation e"
  "foreseen_result kind operation (checked c x) \<longleftrightarrow> foreseen_check kind operation c"
  by (auto simp: foreseen_def foreseen_check_def foreseen_result_def require_def checked_def split: option.splits)

lemma foreseen_run_checks: "list_all (foreseen_check kind operation) cs \<Longrightarrow> foreseen_check kind operation (run_checks cs)"
  by (induction cs) (auto simp: run_checks.simps(2) split: option.splits)

lemma foreseen_bindE: "foreseen_result kind operation m \<Longrightarrow> (\<And>x. m = Inr x \<Longrightarrow> foreseen_result kind operation (f x)) \<Longrightarrow> foreseen_result kind operation (bindE m f)"
  by (cases m) (simp_all add: foreseen_result_def)

lemma foreseen_mapE: "(\<And>x. x \<in> set xs \<Longrightarrow> foreseen_result kind operation (f x)) \<Longrightarrow> foreseen_result kind operation (mapE f xs)"
  by (induction xs) (auto intro!: foreseen_bindE)

lemma record_foreseen: "is_record_error e \<Longrightarrow> foreseen kind operation e"
  by (cases e) (simp_all add: foreseen_def)

lemma record_check_foreseen: "record_check c \<Longrightarrow> foreseen_check kind operation c"
  by (cases c) (simp_all add: record_foreseen)

lemma record_result_foreseen: "record_result m \<Longrightarrow> foreseen_result kind operation m"
  by (simp add: record_result_def foreseen_result_def record_foreseen)

lemma foreseen_records [simp]:
  "foreseen_check kind operation (observation_post nfc ob)" "foreseen_check kind operation (track_point_post nfc p)" "foreseen_check kind operation (tracklet_post nfc t)"
  "foreseen_check kind operation (time_base_post nfc tb)" "foreseen_check kind operation (source_stream_post nfc ss)" "foreseen_check kind operation (frame_post nfc f)"
  "foreseen_check kind operation (media_time_post nfc mt)" "foreseen_check kind operation (producer_post nfc pr)"
  "foreseen_result kind operation (frame_from_mapping nfc j)" "foreseen_result kind operation (media_time_from_mapping nfc j path)"
  by (intro record_check_foreseen record_result_foreseen;
      simp add: time_base_post_def source_stream_post_def producer_post_def record_run_checks)+

lemma foreseen_from_mapping [simp]:
  "foreseen_result kind operation (observation_from_mapping nfc j)" "foreseen_result kind operation (track_point_from_mapping nfc j path)"
proof -
  have "record_result (track_point_from_mapping nfc j path)" for j path
    by (auto simp: track_point_from_mapping_def Let_def intro!: record_bindE)
  then show "foreseen_result kind operation (track_point_from_mapping nfc j path)" by (rule record_result_foreseen)
  have "record_result (observation_from_mapping nfc j)"
    by (auto simp: observation_from_mapping_def Let_def intro!: record_bindE)
  then show "foreseen_result kind operation (observation_from_mapping nfc j)" by (rule record_result_foreseen)
qed

end
