(* ===== verification/Tracker_Theorems.thy ===== *)
theory Tracker_Theorems
  imports Tracker_Properties Tracker_Paging Tracker_Examples Port_Errors
begin

text \<open>
  What the tracker promises: the observations are conserved, tracklets are made of overlapping close
  observations and never cross a cut, paging does not change the result, and only port errors leave it.
\<close>

section \<open>Errors\<close>

lemma foreseen_tracker_error [simp]: "foreseen TRACKER operation (tracker_error ec operation)"
  by (simp add: tracker_error_def)

lemma foreseen_validations [simp]:
  "foreseen_check TRACKER operation (validate_media_time nfc mt)" "foreseen_check TRACKER operation (validate_source_stream nfc ss)"
  "foreseen_check TRACKER operation (validate_frame nfc f)"
proof -
  show mt: "foreseen_check TRACKER operation (validate_media_time nfc mt)" for mt
    by (cases "mt_estimate_producer mt") (simp_all add: validate_media_time_def check_option_def foreseen_run_checks)
  show "foreseen_check TRACKER operation (validate_source_stream nfc ss)" by (simp add: validate_source_stream_def foreseen_run_checks)
  show "foreseen_check TRACKER operation (validate_frame nfc f)"
    by (cases "fr_duration f") (simp_all add: validate_frame_def check_option_def foreseen_run_checks mt)
qed

lemma foreseen_tracks [simp]:
  "foreseen_check TRACKER operation (active_track_post nfc t)" "foreseen_check TRACKER operation (tracking_limits_post l)" "foreseen_check TRACKER operation (tracking_diagnostics_post d)"
  "foreseen_result TRACKER operation (mk_active_track nfc i ps m)" "foreseen_result TRACKER operation (copy_active_track nfc t)"
  "foreseen_result TRACKER operation (copy_track_point_from_observation nfc ob)" "foreseen_result TRACKER operation (copy_tracking_limits l)"
  "foreseen_result TRACKER operation (copy_tracking_diagnostics d)" "foreseen_result TRACKER operation (copy_source_stream nfc ss)" "foreseen_result TRACKER operation (copy_frame nfc f)"
  by (auto simp: active_track_post_def tracking_limits_post_def tracking_diagnostics_post_def mk_active_track_def
      copy_active_track_def copy_track_point_def copy_track_point_from_observation_def track_point_from_observation_def
      copy_tracking_limits_def copy_tracking_diagnostics_def copy_source_stream_def copy_frame_def Let_def list_all_iff
      intro!: foreseen_run_checks foreseen_bindE foreseen_mapE)

lemma foreseen_cursor_post [simp]: "foreseen_check TRACKER operation (tracking_cursor_post nfc c)"
  by (auto simp: tracking_cursor_post_def list_all_iff intro!: foreseen_run_checks)

lemma foreseen_page [simp]: "foreseen_result TRACKER operation (mk_tracking_page nfc state tracklets cursor fin diag reason)"
  by (auto simp: mk_tracking_page_def tracking_page_post_def Let_def list_all_iff intro!: foreseen_run_checks split: option.splits)

lemma foreseen_seal [simp]: "foreseen_result TRACKER operation (seal_cursor nfc key c)" "foreseen_result TRACKER operation (next_cursor nfc s src stream f t st d e)"
  by (auto simp: seal_cursor_def next_cursor_def cursor_integrity_hmac_sha256_def Let_def
      intro!: foreseen_bindE foreseen_mapE)

lemma foreseen_complete_track [simp]: "foreseen_result TRACKER operation (complete_track nfc t reason)"
proof -
  have "record_check (category_check nfc s path)" "record_check (plain_producer nfc p path)" for s p path
    by (simp_all add: category_check_def plain_producer_def producer_post_def record_run_checks)
  then have "record_result (tracklet_create nfc a b c ps reason p)" for a b c ps p
    using record_canonical_bytes
    by (auto simp: tracklet_create_def mk_identifier_def Let_def list_all_iff intro!: record_bindE record_run_checks)
  then show ?thesis by (simp add: complete_track_def record_result_foreseen Let_def)
qed

lemma foreseen_stages [simp]:
  "foreseen_result TRACKER operation (complete_all nfc reason st)" "foreseen_result TRACKER operation (cut_step nfc d st)" "foreseen_result TRACKER operation (finish_source nfc e st)"
  "foreseen_result TRACKER operation (extend_matched nfc limits operation rows detections pairs active)"
  "foreseen_result TRACKER operation (age_unmatched nfc matched ordinals acc)"
  "foreseen_result TRACKER operation (open_tracks nfc limits operation columns items acc')"
proof -
  show all: "foreseen_result TRACKER operation (complete_all nfc reason st)" for reason st
    by (auto simp: complete_all_def intro!: foreseen_bindE foreseen_mapE)
  show "foreseen_result TRACKER operation (cut_step nfc d st)" "foreseen_result TRACKER operation (finish_source nfc e st)"
    by (simp_all add: cut_step_def finish_source_def all)
  show "foreseen_result TRACKER operation (extend_matched nfc limits operation rows detections pairs active)"
    by (induction pairs arbitrary: active) (auto simp: Let_def intro!: foreseen_bindE)
  show "foreseen_result TRACKER operation (age_unmatched nfc matched ordinals acc)"
    by (induction ordinals arbitrary: acc) (auto simp: Let_def intro!: foreseen_bindE)
  show "foreseen_result TRACKER operation (open_tracks nfc limits operation columns items acc')"
    by (induction items arbitrary: acc') (auto simp: Let_def intro!: foreseen_bindE)
qed

lemma foreseen_associate [simp]:
  "foreseen_result TRACKER operation (associate (association_weights rows detections) detections)"
proof (cases "associate (association_weights rows detections) detections")
  case (Inl e)
  then have "\<exists>m. e = ValueError m"
    using associate_returns [of rows detections]
    by (auto simp: associate_def maximum_assignment_def Let_def bindE_Inl_iff split: if_splits option.splits)
  with Inl show ?thesis by auto
qed simp

lemma foreseen_frame_loop: "foreseen_result TRACKER operation (frame_loop nfc limits operation cancel n by_frame items st)"
proof (induction items arbitrary: n st)
  case (Cons item items)
  then show ?case
    by (cases item) (auto simp: frame_step_def check_cancelled_def Let_def intro!: foreseen_bindE)
qed simp

lemma foreseen_initial: "foreseen_result TRACKER operation (initial_state nfc cursor base)"
  by (auto simp: initial_state_def intro!: foreseen_bindE foreseen_mapE)

lemma foreseen_group: "foreseen_result TRACKER operation (group_observations src i stream frames operation seen grouped obs)"
  by (induction obs arbitrary: seen grouped) (auto split: option.splits)

lemma foreseen_validate: "foreseen_result TRACKER operation (validate_inputs nfc s src frames obs ds cursor e x operation)"
proof -
  have "foreseen_check TRACKER operation (request_values_check nfc src frames obs ds cursor operation)"
  proof -
    have "foreseen_check TRACKER operation (validate_source nfc src)"
    proof -
      have "record_check (fingerprint_post nfc (so_fingerprint src))" "record_check (source_post nfc src)"
        by (simp_all add: fingerprint_post_def record_run_checks)
      then show ?thesis
        by (auto simp: validate_source_def list_all_iff record_check_foreseen intro!: foreseen_run_checks)
    qed
    moreover have "foreseen_check TRACKER operation (discontinuity_post nfc d)" for d
    proof -
      have "record_check (plain_media_time nfc v path)" for v path
        by (cases "mt_estimate_method v"; cases "mt_estimate_producer v")
          (simp_all add: plain_media_time_def check_option_def plain_time_base_def plain_producer_def time_base_post_def
            producer_post_def record_run_checks_Cons)
      then show ?thesis by (intro record_check_foreseen) (simp add: discontinuity_post_def record_run_checks)
    qed
    ultimately have "foreseen_check TRACKER operation (run_checks
     [validate_source nfc src, run_checks (map (validate_frame nfc) frames), run_checks (map (observation_post nfc) obs),
      check_option (\<lambda>ds. run_checks (map (discontinuity_post nfc) ds)) ds, check_option (tracking_cursor_post nfc) cursor])"
      by (auto simp: check_option_def list_all_iff intro!: foreseen_run_checks split: option.splits)
    then show ?thesis
      by (auto simp: request_values_check_def except_value_check_def foreseen_check_def split: option.splits)
  qed
  moreover have "foreseen_check TRACKER operation (cursor_binding_check s src cursor operation)"
    by (auto simp: cursor_binding_check_def check_option_def cursor_integrity_hmac_sha256_def
        intro!: foreseen_run_checks split: option.splits sum.splits if_splits)
  moreover have "foreseen_result TRACKER operation (select_stream src frames cursor operation)"
    by (auto simp: select_stream_def Let_def intro!: foreseen_run_checks split: list.splits option.splits)
  ultimately show ?thesis
    by (auto simp: validate_inputs_def request_shape_check_def discontinuities_check_def check_cancelled_def Let_def
        intro!: foreseen_bindE foreseen_run_checks foreseen_group split: list.splits)
qed

lemma validated_stream:
  assumes "validate_inputs nfc s src frames obs ds cursor e x operation = Inr v" and "frames \<noteq> [] \<or> cursor \<noteq> None"
  shows "vi_stream v \<noteq> None"
proof -
  from assms(1) [unfolded validate_inputs_Inr] obtain i stream where
    "select_stream src frames cursor operation = Inr (i, stream)" "vi_stream v = stream" by auto
  with assms(2) show ?thesis
    by (cases "frames = []") (auto simp: select_stream_frames dest: select_stream_resumed)
qed

lemma validated_streams:
  "validate_inputs nfc s src frames obs ds (Some c) e x operation = Inr v \<Longrightarrow> vi_stream v = None \<Longrightarrow> False"
  "validate_inputs nfc s src (f # fs) obs ds cursor e x operation = Inr v \<Longrightarrow> vi_stream v = None \<Longrightarrow> False"
  using validated_stream by blast+

lemma foreseen_core: "foreseen_result TRACKER operation (track_page_core nfc s src frames obs ds cursor e cancel operation)"
proof -
  have check: "foreseen_check TRACKER operation (check_cancelled x operation)" for x
    by (simp add: check_cancelled_def)
  show ?thesis
    by (cases frames; cases cursor; auto simp: track_page_core_def check Let_def simp del: One_nat_def
          intro!: foreseen_bindE foreseen_validate foreseen_initial foreseen_frame_loop foreseen_run_checks
          split: option.splits)
      (drule (1) validated_streams, simp)+
qed

section \<open>Helper lemmas\<close>

lemma track_page_core_calls:
  "track_page_core nfc (s\<lparr>tr_calls := calls\<rparr>) = track_page_core nfc s"
proof -
  have fields: "tr_limits (s\<lparr>tr_calls := calls\<rparr>) = tr_limits s"
      "tr_requested_category (s\<lparr>tr_calls := calls\<rparr>) = tr_requested_category s"
      "tr_cursor_integrity_key (s\<lparr>tr_calls := calls\<rparr>) = tr_cursor_integrity_key s"
    by simp_all
  have "cursor_binding_check (s\<lparr>tr_calls := calls\<rparr>) = cursor_binding_check s"
    by (intro ext, unfold cursor_binding_check_def fields) (rule refl)
  moreover have "next_cursor nfc (s\<lparr>tr_calls := calls\<rparr>) = next_cursor nfc s"
    by (intro ext, unfold next_cursor_def fields) (rule refl)
  ultimately show ?thesis
    by (intro ext, unfold track_page_core_def validate_inputs_def fields) (simp only:)
qed

lemma page_error:
  assumes "tracking_limits_post (tr_limits s) = None"
    and "track_page nfc s src frames observations discontinuities cursor e cancel = Inl err"
  shows "\<exists>ec. err = PortError ec TRACKER ''track_page''"
proof (cases "track_page_core nfc s src frames observations discontinuities cursor e cancel ''track_page''")
  case (Inl x)
  then have "foreseen TRACKER ''track_page'' x" by (metis foreseen_core foreseen_simps(7))
  with Inl assms(2) show ?thesis
    by (auto simp: track_page_def except_value_def foreseen_def tracker_error_def split: if_splits)
next
  case (Inr page)
  from Inr obtain v where "validate_inputs nfc s src frames observations discontinuities cursor e (cancel 1) ''track_page'' = Inr v"
    by (auto simp: track_page_core_def bindE_Inr_iff)
  then have "request_shape_check (tr_limits s) frames observations discontinuities e ''track_page'' = None"
    by (auto simp: validate_inputs_Inr)
  then have "int (length frames) \<le> tl_max_page_frames (tr_limits s)"
    by (auto simp: request_shape_check_def split: if_splits)
  moreover have "tl_max_page_frames (tr_limits s) \<le> int MAX_PORT_BATCH_ITEMS"
    using assms(1) by (simp add: tracking_limits_post_def outcome)
  ultimately have "length frames \<le> MAX_PORT_BATCH_ITEMS" by simp
  then have "track_page nfc s src frames observations discontinuities cursor e cancel \<noteq> Inl err"
    using Inr by (simp add: track_page_def record_call_ok is_port_token_def token_evaluation)
  with assms(2) show ?thesis by simp
qed

lemma iou_symmetric: "iou_basis_points a b = iou_basis_points b a"
proof -
  obtain a0 a1 a2 a3 b0 b1 b2 b3 where ab: "a = (a0, a1, a2, a3)" "b = (b0, b1, b2, b3)" by (metis prod.collapse)
  show ?thesis
    unfolding ab iou_basis_points.simps Let_def max.commute [of b0 a0] max.commute [of b1 a1] min.commute [of b2 a2]
      min.commute [of b3 a3] add.commute [of "(b2 - b0) * (b3 - b1)"]
    by (rule refl)
qed

lemma iou_self: "a0 < a2 \<Longrightarrow> a1 < a3 \<Longrightarrow> iou_basis_points (a0, a1, a2, a3) (a0, a1, a2, a3) = 10000"
  by (simp add: Let_def)

lemma div_mult_le_int: "0 < (k :: int) \<Longrightarrow> n div k * k \<le> n"
  using pos_mod_sign [of k n] div_mult_mod_eq [of n k] by linarith

lemma full_sides:
  assumes "(w :: int) * h = a * b" and "0 \<le> w" "w \<le> a" "0 \<le> h" "h \<le> b" and "0 < a" "0 < b"
  shows "w = a \<and> h = b"
proof -
  have "a * b \<le> w * b" using mult_left_mono [OF assms(5,2)] assms(1) by simp
  then have "w = a" using assms(3,7) by simp
  then show ?thesis using assms by simp
qed

lemma iou_full:
  assumes "a0 < a2" "a1 < a3" "b0 < b2" "b1 < b3"
    and full: "iou_basis_points (a0, a1, a2, a3) (b0, b1, b2, b3) = 10000"
  shows "(a0, a1, a2, a3) = (b0, b1, b2, b3)"
proof -
  define w where "w = max 0 (min a2 b2 - max a0 b0)"
  define h where "h = max 0 (min a3 b3 - max a1 b1)"
  define A where "A = (a2 - a0) * (a3 - a1)"
  define B where "B = (b2 - b0) * (b3 - b1)"
  have "0 < A" "0 < B" using assms by (simp_all add: A_def B_def)
  have w: "0 \<le> w" "w \<le> a2 - a0" "w \<le> b2 - b0" and h: "0 \<le> h" "h \<le> a3 - a1" "h \<le> b3 - b1"
    unfolding w_def h_def using assms by auto
  have le: "w * h \<le> A" "w * h \<le> B"
    unfolding A_def B_def using w h by (auto intro: mult_mono)
  have union: "0 < A + B - w * h" using le \<open>0 < A\<close> \<open>0 < B\<close> by linarith
  have "w * h * 10000 div (A + B - w * h) = 10000"
    using full union by (simp add: Let_def w_def h_def A_def B_def)
  then have "10000 * (A + B - w * h) \<le> w * h * 10000"
    using div_mult_le_int [OF union, of "w * h * 10000"] by simp
  then have "A + B \<le> 2 * (w * h)" by (simp add: algebra_simps)
  with le have eqA: "w * h = A" and eqB: "w * h = B" by simp_all
  have "w = a2 - a0 \<and> h = a3 - a1" "w = b2 - b0 \<and> h = b3 - b1"
    using full_sides [OF eqA [unfolded A_def]] full_sides [OF eqB [unfolded B_def]] w h assms(1-4) by simp_all
  then show ?thesis unfolding w_def h_def using assms by auto
qed

lemma byte_delta_bounds: "0 \<le> byte_delta x y k" "byte_delta x y k \<le> 255" "byte_delta x x k = 0"
proof -
  have "code (x ! k) < 256" "code (y ! k) < 256" by (rule code_less_256)+
  then show "0 \<le> byte_delta x y k" "byte_delta x y k \<le> 255" "byte_delta x x k = 0"
    by (simp_all add: byte_delta_def)
qed

lemma discontinuity_range:
  assumes "rgb24_discontinuity_basis_points previous current width height = Inr n"
  shows "0 \<le> n \<and> n \<le> 10000 \<and> (previous = Some current \<longrightarrow> n = 0)"
proof (cases previous)
  case (Some before)
  define offsets :: "nat list" where "offsets = map (\<lambda>k. 12 * k) [0..<(nat (width * height * 3) + 11) div 12]"
  define total where "total = sum_list (map (\<lambda>offset. byte_delta before current offset
      + byte_delta before current (offset + 1) + byte_delta before current (offset + 2)) offsets)"
  have size: "0 < width * height" and n: "n = total * 10000 div (3 * int (length offsets) * 255)"
    using assms Some by (auto simp: rgb24_discontinuity_basis_points_def Let_def total_def offsets_def split: if_splits)
  have "0 < length offsets" using size by (simp add: offsets_def)
  moreover have "0 \<le> total"
    unfolding total_def by (rule sum_list_nonneg) (auto intro: add_nonneg_nonneg byte_delta_bounds)
  moreover have "total \<le> sum_list (map (\<lambda>_. 765) offsets)"
    unfolding total_def
  proof (rule sum_list_mono)
    fix offset
    show "byte_delta before current offset + byte_delta before current (offset + 1) + byte_delta before current (offset + 2) \<le> 765"
      using byte_delta_bounds(2) [of before current offset] byte_delta_bounds(2) [of before current "offset + 1"]
        byte_delta_bounds(2) [of before current "offset + 2"] by linarith
  qed
  then have "total \<le> 765 * int (length offsets)" by (simp add: sum_list_triv)
  ultimately have "0 \<le> n" and "total * 10000 \<le> (3 * int (length offsets) * 255) * 10000"
    unfolding n by (simp_all add: pos_imp_zdiv_nonneg_iff)
  from zdiv_mono1 [OF this(2), of "3 * int (length offsets) * 255"] \<open>0 < length offsets\<close> have "n \<le> 10000"
    by (simp add: n)
  moreover have "before = current \<Longrightarrow> n = 0" by (simp add: n total_def byte_delta_bounds(3))
  ultimately show ?thesis using \<open>0 \<le> n\<close> Some by simp
qed (use assms in \<open>auto simp: rgb24_discontinuity_basis_points_def Let_def split: if_splits\<close>)

section \<open>The properties\<close>

text \<open>
  C3: a page of the tracker loses, repeats and invents no observation: as multisets, the points of the
  tracklets it completes and of the tracks it leaves open in its cursor are the points of the tracks
  open in the given cursor and those of the page's observations.  The last page leaves no track open.
\<close>

theorem page_conserves_observations:
  assumes "nfc_ascii nfc" and "tg_state page = COMPLETE"
    and "track_page nfc s src frames observations discontinuities cursor end_of_stream cancel = Inr (page, s')"
  shows "mset (completed_points (tg_tracklets page)) + mset (cursor_points (tg_cursor page)) =
      mset (cursor_points cursor) + mset (map point_of observations) \<and>
    (if end_of_stream then cursor_points (tg_cursor page) = [] else True)"
proof -
  from assms(3) have core: "track_page_core nfc s src frames observations discontinuities cursor end_of_stream cancel
      ''track_page'' = Inr page"
    by (simp add: track_page_Inr)
  from core_conserves [OF assms(1,2) core] show ?thesis by simp
qed

lemma page_conserves_observations_witness:
  "completed_points (tg_tracklets (ex_page True)) = [point_of ex_vehicle]"
proof -
  obtain s' where "track_page id ex_tracker ex_source [ex_frame 0 0] [ex_vehicle] (Some [ex_score]) None True (\<lambda>_. False) =
      Inr (ex_page True, s')"
    using ex_track_page by blast
  from page_conserves_observations [OF nfc_id _ this] show ?thesis
    by (simp add: ex_page_def cursor_points_def cursor_tracks_def ex_cursor_fields completed_points_def)
qed

text \<open>
  C5: within a tracklet of a one-shot call each point follows the one before it: their boxes overlap by
  at least the association threshold, time increases, and at most five samples of the 5 Hz sampling are
  missing between them.  No tracklet crosses a detected cut: when the discontinuity score of a frame
  reaches the threshold, the points of a tracklet lie all before that frame or none of them does.
\<close>

theorem tracklets_follow_within_cuts:
  assumes "nfc_ascii nfc" and "tt_state result = COMPLETE"
    and "track nfc s src frames observations (Some ds) = Inr (result, s')"
    and "v \<in> set (tt_tracklets result)"
  shows "successively (\<lambda>p q.
      ASSOCIATION_IOU_BASIS_POINTS \<le> iou_basis_points (ge_box_xyxy (tp_geometry p)) (ge_box_xyxy (tp_geometry q)) \<and>
      media_seconds (tp_pts p) < media_seconds (tp_pts q) \<and>
      media_seconds (tp_pts q) - media_seconds (tp_pts p) \<le> of_int (MAX_MISSED_SAMPLES + 1) / of_int TRACKING_FPS)
      (tk_points v) \<and>
    (\<forall>(f, d) \<in> set (zip frames ds). CUT_THRESHOLD_BASIS_POINTS \<le> fd_score_basis_points d \<longrightarrow>
      (\<forall>p \<in> set (tk_points v). media_seconds (tp_pts p) < media_seconds (fr_pts f)) \<or>
      (\<forall>p \<in> set (tk_points v). media_seconds (fr_pts f) \<le> media_seconds (tp_pts p)))"
proof -
  from track_Inr [OF assms(3)] assms(2,4) one_shot_tracklets [OF assms(1)]
  have "linked (tk_points v) \<and> (\<forall>item \<in> set (zip frames ds). cut_at item \<longrightarrow> one_side item (tk_points v))"
    by metis
  then show ?thesis
    by (auto simp: one_side_def cut_at_def follows_def [abs_def])
qed

lemma ex_result:
  "\<exists>s'. track id ex_tracker ex_source [ex_frame 0 0] [ex_vehicle] (Some [ex_score]) =
     Inr (\<lparr>tt_state = COMPLETE, tt_tracklets = [ex_vehicle_track], tt_reason = None\<rparr>, s')"
proof -
  have "mk_tracking_result id COMPLETE [ex_vehicle_track] None =
      Inr \<lparr>tt_state = COMPLETE, tt_tracklets = [ex_vehicle_track], tt_reason = None\<rparr>"
    using ex_vehicle_track_valid
    by (simp add: mk_tracking_result_def tracking_result_post_def checked_Inr_iff run_checks_None MAX_PORT_BATCH_ITEMS_def
        outcome)
  then show ?thesis
    by (simp add: track_def ex_core ex_page_def [of True] record_call_ok operation_tokens MAX_PORT_BATCH_ITEMS_def)
qed

lemma tracklets_follow_within_cuts_witness:
  "successively (\<lambda>p q.
      ASSOCIATION_IOU_BASIS_POINTS \<le> iou_basis_points (ge_box_xyxy (tp_geometry p)) (ge_box_xyxy (tp_geometry q)) \<and>
      media_seconds (tp_pts p) < media_seconds (tp_pts q) \<and>
      media_seconds (tp_pts q) - media_seconds (tp_pts p) \<le> of_int (MAX_MISSED_SAMPLES + 1) / of_int TRACKING_FPS)
    (tk_points ex_vehicle_track)"
proof -
  from ex_result obtain s' where r: "track id ex_tracker ex_source [ex_frame 0 0] [ex_vehicle] (Some [ex_score]) =
     Inr (\<lparr>tt_state = COMPLETE, tt_tracklets = [ex_vehicle_track], tt_reason = None\<rparr>, s')" ..
  show ?thesis
    by (rule tracklets_follow_within_cuts [OF nfc_id _ r, THEN conjunct1]) simp_all
qed

text \<open>
  C4: paging does not change the result.  When a page and the page that follows it from its cursor are
  complete, one page over the frames, observations and scores of both is complete, completes the
  tracklets of both in order, and ends with the cursor and the diagnostics of the second.  (The batches
  are disjoint and together within the page limits; the open tracks of the first cursor are in
  ascending order, as the tracker leaves them.)
\<close>

theorem pages_compose:
  assumes "nfc_ascii nfc" and "sorted (map at_ordinal (cursor_tracks c0))"
    and "tg_state page1 = COMPLETE" and "tg_state page2 = COMPLETE"
    and "track_page nfc s src frames obs (Some ds) c0 False cancel1 = Inr (page1, s1)"
    and "track_page nfc s1 src following later (Some ds') (tg_cursor page1) e cancel2 = Inr (page2, s2)"
    and "distinct (map fr_frame_id (frames @ following))" and "distinct (map ob_observation_id (obs @ later))"
    and "distinct (map tk_tracklet_id (tg_tracklets page1 @ tg_tracklets page2))"
    and "int (length (frames @ following)) \<le> tl_max_page_frames (tr_limits s)"
    and "int (length (obs @ later)) \<le> tl_max_page_observations (tr_limits s)"
    and "length (tg_tracklets page1 @ tg_tracklets page2) \<le> MAX_PORT_BATCH_ITEMS"
  shows "\<exists>s'. track_page nfc s src (frames @ following) (obs @ later) (Some (ds @ ds')) c0 e (\<lambda>_. False) =
      Inr (page2\<lparr>tg_tracklets := tg_tracklets page1 @ tg_tracklets page2\<rparr>, s')"
proof -
  from assms(5) obtain calls where core1: "track_page_core nfc s src frames obs (Some ds) c0 False cancel1 ''track_page'' = Inr page1"
      and s1: "s1 = s\<lparr>tr_calls := calls\<rparr>"
    by (auto simp: track_page_Inr)
  from assms(6) have core2:
      "track_page_core nfc s src following later (Some ds') (tg_cursor page1) e cancel2 ''track_page'' = Inr page2"
    by (auto simp: track_page_Inr s1 track_page_core_calls)
  note both = core_compose [OF assms(1-4) core1 core2 assms(7-12)]
  have "tl_max_page_frames (tr_limits s) \<le> int MAX_PORT_BATCH_ITEMS"
    using both(2) by (simp add: tracking_limits_post_def outcome)
  with assms(10) have "length (frames @ following) \<le> MAX_PORT_BATCH_ITEMS" by linarith
  then obtain calls' where "record_call (tr_calls s) TRACKER ''track_page'' (length (frames @ following)) = Inr calls'"
    by (simp add: record_call_ok is_port_token_def token_evaluation)
  with both(1) show ?thesis by (auto simp: track_page_Inr)
qed

lemma ex_flush_page:
  assumes "tr_requested_category s = ''vehicle''" "tr_limits s = default_tracking_limits"
    "tr_cursor_integrity_key s = replicate 32 (CHR ''k'')"
  shows "\<exists>s'. track_page id s ex_source [] [] (Some []) (Some (ex_cursor False)) True (\<lambda>_. False) = Inr (ex_page True, s')"
proof -
  have "s = ex_tracker\<lparr>tr_calls := tr_calls s\<rparr>" using assms by (simp add: ex_tracker_def)
  moreover have "\<exists>s'. track_page id (ex_tracker\<lparr>tr_calls := calls\<rparr>) ex_source [] [] (Some []) (Some (ex_cursor False)) True
      (\<lambda>_. False) = Inr (ex_page True, s')" for calls
    using ex_flush [of "''track_page''"] ex_record_call [of 0 "ex_tracker\<lparr>tr_calls := calls\<rparr>"]
    by (auto simp: track_page_Inr track_page_core_calls)
  ultimately show ?thesis by metis
qed

lemma pages_compose_witness:
  "\<exists>s'. track_page id ex_tracker ex_source [ex_frame 0 0] [ex_vehicle] (Some [ex_score]) None True (\<lambda>_. False) =
     Inr ((ex_page True)\<lparr>tg_tracklets := [ex_vehicle_track]\<rparr>, s')"
proof -
  obtain s1 where page1: "track_page id ex_tracker ex_source [ex_frame 0 0] [ex_vehicle] (Some [ex_score]) None False (\<lambda>_. False) =
      Inr (ex_page False, s1)" and s1: "tr_requested_category s1 = ''vehicle''" "tr_limits s1 = default_tracking_limits"
      "tr_cursor_integrity_key s1 = replicate 32 (CHR ''k'')"
    using ex_track_page by blast
  from ex_flush_page [OF s1] obtain s2 where page2:
      "track_page id s1 ex_source [] [] (Some []) (tg_cursor (ex_page False)) True (\<lambda>_. False) = Inr (ex_page True, s2)"
    by (auto simp: ex_page_def [of False])
  have sizes: "int (length ([ex_frame 0 0] @ [])) \<le> tl_max_page_frames (tr_limits ex_tracker)"
      "int (length ([ex_vehicle] @ [])) \<le> tl_max_page_observations (tr_limits ex_tracker)"
      "length (tg_tracklets (ex_page False) @ tg_tracklets (ex_page True)) \<le> MAX_PORT_BATCH_ITEMS"
    by (simp_all add: ex_tracker_def ex_page_def limit_evaluation)
  have "\<exists>s'. track_page id ex_tracker ex_source ([ex_frame 0 0] @ []) ([ex_vehicle] @ []) (Some ([ex_score] @ [])) None True
      (\<lambda>_. False) = Inr ((ex_page True)\<lparr>tg_tracklets := tg_tracklets (ex_page False) @ tg_tracklets (ex_page True)\<rparr>, s')"
    by (rule pages_compose [OF nfc_id _ _ _ page1 page2 _ _ _ sizes]) (simp_all add: cursor_tracks_def ex_page_def)
  then show ?thesis by (simp add: ex_page_def)
qed

text \<open>
  C29: on a tracker with valid limits, every failure of a page is a \<open>PortError\<close> of the tracker for
  \<open>track_page\<close>: no value error of a constructor, no assertion and no error of the assignment leaves it.
\<close>

theorem track_page_only_port_errors:
  assumes "tracking_limits_post (tr_limits s) = None"
    and "track_page nfc s src frames observations discontinuities cursor end_of_stream cancel = Inl err"
  shows "\<exists>ec. err = PortError ec TRACKER ''track_page''"
  by (rule page_error [OF assms])

lemma track_page_only_port_errors_witness:
  "\<exists>err ec. track_page id ex_tracker ex_source [] [] None None True (\<lambda>_. True) = Inl err \<and>
     err = PortError ec TRACKER ''track_page''"
proof -
  have limits: "tracking_limits_post (tr_limits ex_tracker) = None"
    by (simp add: ex_tracker_def default_tracking_limits_valid)
  have "track_page id ex_tracker ex_source [] [] None None True (\<lambda>_. True) = Inl (tracker_error CANCELLED ''track_page'')"
    by (simp add: track_page_def track_page_core_def check_cancelled_def except_value_def tracker_error_def)
  with track_page_only_port_errors [OF limits this] show ?thesis by blast
qed

text \<open>
  The overlap the association maximises is a similarity in basis points: symmetric, between 0 and
  10000, and 10000 on two boxes exactly when they are the same box.
\<close>

theorem iou_similarity:
  assumes "fst a < fst (snd (snd a))" "fst (snd a) < snd (snd (snd a))"
    and "fst b < fst (snd (snd b))" "fst (snd b) < snd (snd (snd b))"
  shows "iou_basis_points a b = iou_basis_points b a \<and> 0 \<le> iou_basis_points a b \<and> iou_basis_points a b \<le> 10000 \<and>
    (iou_basis_points a b = 10000 \<longleftrightarrow> a = b)"
  using iou_range [of a b] iou_symmetric [of a b] assms
  by (cases a; cases b) (metis fst_conv snd_conv iou_self iou_full)

lemma iou_similarity_witness:
  "iou_basis_points (0, 0, 2, 2) (1, 0, 3, 2) = 3333 \<and> iou_basis_points (0, 0, 2, 2) (1, 0, 3, 2) \<le> 10000"
  using iou_similarity [of "(0, 0, 2, 2)" "(1, 0, 3, 2)"] by (simp add: Let_def)

text \<open>
  The discontinuity score is a number of basis points, and 0 between equal frames.
\<close>

theorem discontinuity_bounds:
  assumes "rgb24_discontinuity_basis_points previous current width height = Inr n"
  shows "0 \<le> n \<and> n \<le> MAX_DISCONTINUITY_BASIS_POINTS \<and> (if previous = Some current then n = 0 else True)"
  using discontinuity_range [OF assms] by (simp add: MAX_DISCONTINUITY_BASIS_POINTS_def)

lemma replicate_three: "replicate 3 x = [x, x, x]" by (simp add: numeral_eq_Suc)

lemma discontinuity_bounds_witness:
  "rgb24_discontinuity_basis_points (Some (replicate 3 (CHR 0x00))) (replicate 3 (CHR 0xFF)) 1 1 = Inr 10000 \<and>
   10000 \<le> MAX_DISCONTINUITY_BASIS_POINTS"
proof -
  have "rgb24_discontinuity_basis_points (Some (replicate 3 (CHR 0x00))) (replicate 3 (CHR 0xFF)) 1 1 = Inr 10000"
    by (simp add: rgb24_discontinuity_basis_points_def Let_def MAX_RGB24_BYTES_def byte_delta_def code_def replicate_three)
  with discontinuity_bounds [OF this] show ?thesis by simp
qed

end
