(* ===== verification/Frame_Access.thy ===== *)
theory Frame_Access
  imports Sampling
begin

text \<open>
  The original-frame port of \<open>frame_access.py\<close>: frames with their packed RGB24 pixels, the
  all-or-nothing result of a read, and the in-memory reader.  \<open>own_source\<close> and \<open>own_frame\<close> are
  \<open>_copy_source\<close> and \<open>_copy_frame\<close>, which write a record and read it back.
\<close>

section \<open>Frames\<close>

definition MAX_ORIGINAL_FRAME_BYTES :: int where "MAX_ORIGINAL_FRAME_BYTES = 128 * 1024 * 1024"
definition MAX_ORIGINAL_FRAME_TOTAL_BYTES :: int where "MAX_ORIGINAL_FRAME_TOTAL_BYTES = 512 * 1024 * 1024"

definition reader_error :: "port_error_code \<Rightarrow> string \<Rightarrow> exn" where
  "reader_error c operation = PortError c ORIGINAL_FRAME_READER operation"

definition own_source :: "(string \<Rightarrow> string) \<Rightarrow> source \<Rightarrow> string \<Rightarrow> source res" where
  "own_source nfc v operation =
     except_value (source_from_mapping nfc (source_to_mapping v)) (reader_error INVALID_REQUEST operation)"

definition own_frame :: "(string \<Rightarrow> string) \<Rightarrow> frame_ref \<Rightarrow> string \<Rightarrow> frame_ref res" where
  "own_frame nfc v operation =
     except_value (frame_from_mapping nfc (frame_to_mapping v)) (reader_error INVALID_REQUEST operation)"

definition stream_dimensions :: "source \<Rightarrow> frame_ref \<Rightarrow> string \<Rightarrow> (int \<times> int) res" where
  "stream_dimensions src frame operation =
     (if fr_source_id frame \<noteq> so_source_id src then Inl (reader_error CONFLICT operation)
      else case find (\<lambda>s. ss_stream_index s = fr_stream_index frame) (so_streams src) of
             None \<Rightarrow> Inl (reader_error CONFLICT operation)
           | Some stream \<Rightarrow>
               if mt_time_base (fr_pts frame) \<noteq> ss_time_base stream \<or>
                  \<not> pred_option (\<lambda>d. mt_time_base d = ss_time_base stream) (fr_duration frame)
               then Inl (reader_error CONFLICT operation)
               else Inr (ss_width stream, ss_height stream))"

record original_frame =
  of_source :: source
  of_frame :: frame_ref
  of_pixels :: string
  of_width :: int
  of_height :: int
  of_sha256 :: string

definition original_frame_create :: "(string \<Rightarrow> string) \<Rightarrow> source \<Rightarrow> frame_ref \<Rightarrow> string \<Rightarrow> original_frame res" where
  "original_frame_create nfc src frame pixels =
     bindE (own_source nfc src ''construct'') (\<lambda>src'.
     bindE (own_frame nfc frame ''construct'') (\<lambda>frame'.
     bindE (stream_dimensions src' frame' ''construct'') (\<lambda>(width, height).
     let expected_bytes = width * height * 3
     in checked (run_checks
          [require (expected_bytes \<le> MAX_ORIGINAL_FRAME_BYTES) (reader_error LIMIT_EXCEEDED ''construct''),
           require (int (length pixels) = expected_bytes) (reader_error CONFLICT ''construct'')])
          \<lparr>of_source = src', of_frame = frame', of_pixels = pixels, of_width = width, of_height = height,
           of_sha256 = sha256_hex pixels\<rparr>)))"

section \<open>Results\<close>

record original_result =
  or_state :: perception_result_state
  or_frames :: "original_frame list"
  or_reason :: "string option"

text \<open>\<open>__post_init__\<close>, which replaces the frames by frames it constructs anew\<close>

definition original_result_post :: "(string \<Rightarrow> string) \<Rightarrow> original_result \<Rightarrow> original_result res" where
  "original_result_post nfc v =
     bindE (checked (run_checks
       [require (length (or_frames v) \<le> MAX_PORT_BATCH_ITEMS) (ValueError ''invalid original-frame result''),
        (if or_state v = COMPLETE
         then require (or_reason v = None) (ValueError ''complete original-frame result has a reason'')
         else require (or_frames v = [] \<and> or_reason v \<noteq> None \<and> pred_option is_reason (or_reason v))
                (ValueError ''incomplete original-frame result is invalid'')),
        require (distinct (map (\<lambda>o'. fr_frame_id (of_frame o')) (or_frames v)))
          (ValueError ''original-frame result contains duplicate frames''),
        require (or_frames v = [] \<or>
            length (remdups (map (\<lambda>o'. so_source_id (of_source o')) (or_frames v))) = 1 \<and>
            length (remdups (map (\<lambda>o'. fr_stream_index (of_frame o')) (or_frames v))) = 1)
          (ValueError ''original-frame result mixes sources or streams'')]) ()) (\<lambda>_.
     bindE (mapE (\<lambda>o'. original_frame_create nfc (of_source o') (of_frame o') (of_pixels o')) (or_frames v)) (\<lambda>owned.
     Inr (v\<lparr>or_frames := owned\<rparr>)))"

definition mk_original_result ::
  "(string \<Rightarrow> string) \<Rightarrow> perception_result_state \<Rightarrow> original_frame list \<Rightarrow> string option \<Rightarrow> original_result res" where
  "mk_original_result nfc state frames reason =
     original_result_post nfc \<lparr>or_state = state, or_frames = frames, or_reason = reason\<rparr>"

section \<open>The in-memory reader\<close>

record fake_reader =
  rd_source :: source
  rd_frames :: "string \<rightharpoonup> original_frame"
  rd_state :: perception_result_state
  rd_reason :: "string option"
  rd_max_payload_bytes :: int
  rd_producer :: producer
  rd_calls :: "port_call list"

definition reader_descriptor :: "int \<Rightarrow> capability_descriptor" where
  "reader_descriptor max_payload_bytes = \<lparr>cd_port = ORIGINAL_FRAME_READER,
     cd_implementation = ''visualworld.fake.original_frame_reader'', cd_implementation_version = ''1'',
     cd_deterministic = True, cd_offline = True, cd_max_batch_items = int MAX_PORT_BATCH_ITEMS,
     cd_max_payload_bytes = Some max_payload_bytes, cd_contract_version = 1, cd_allowed_effects = []\<rparr>"

definition reader_configuration ::
  "original_frame list \<Rightarrow> int \<Rightarrow> perception_result_state \<Rightarrow> string option \<Rightarrow> json" where
  "reader_configuration frames max_payload_bytes state reason = JObj
     [(''frames'', JArr (map (\<lambda>o'. JObj [(''frame_id'', JStr (fr_frame_id (of_frame o'))),
         (''sha256'', JStr (of_sha256 o'))]) frames)),
      (''max_payload_bytes'', JInt max_payload_bytes),
      (''reason'', (case reason of None \<Rightarrow> JNull | Some r \<Rightarrow> JStr r)),
      (''state'', JStr (perception_state_value state))]"

definition frames_by_frame_id :: "original_frame list \<Rightarrow> (string \<rightharpoonup> original_frame)" where
  "frames_by_frame_id frames = map_of (rev (map (\<lambda>o'. (fr_frame_id (of_frame o'), o')) frames))"

definition fake_reader_create ::
  "(string \<Rightarrow> string) \<Rightarrow> source \<Rightarrow> original_frame list \<Rightarrow> perception_result_state \<Rightarrow> string option \<Rightarrow> int \<Rightarrow> fake_reader res" where
  "fake_reader_create nfc src frames state reason max_payload_bytes =
     bindE (own_source nfc src ''init'') (\<lambda>owned_source.
     bindE (checked (require (1 \<le> max_payload_bytes \<and> max_payload_bytes \<le> 2 ^ 63 - 1)
       (reader_error LIMIT_EXCEEDED ''init'')) ()) (\<lambda>_.
     bindE (except_value (mk_original_result nfc state [] reason) (reader_error INVALID_REQUEST ''init'')) (\<lambda>configured.
     bindE (checked (run_checks
       [require (length frames \<le> MAX_PORT_BATCH_ITEMS) (reader_error LIMIT_EXCEEDED ''init''),
        require (or_state configured = COMPLETE \<or> frames = []) (reader_error INVALID_REQUEST ''init''),
        require (list_all (\<lambda>o'. of_source o' = owned_source) frames) (reader_error CONFLICT ''init''),
        require (distinct (map (\<lambda>o'. fr_frame_id (of_frame o')) frames)) (reader_error CONFLICT ''init'')]) ()) (\<lambda>_.
     bindE (mapE (\<lambda>o'. original_frame_create nfc owned_source (of_frame o') (of_pixels o')) frames) (\<lambda>owned.
     bindE (checked (capability_descriptor_post (reader_descriptor max_payload_bytes)) ()) (\<lambda>_.
     let producer = \<lparr>pr_name = ''visualworld.fake.original-frame-reader'', pr_version = ''1'',
           pr_configuration_sha256 = sha256_hex (render (sort_json
             (reader_configuration owned max_payload_bytes (or_state configured) (or_reason configured))))\<rparr>
     in checked (producer_post nfc producer)
          \<lparr>rd_source = owned_source, rd_frames = frames_by_frame_id owned, rd_state = or_state configured,
           rd_reason = or_reason configured, rd_max_payload_bytes = max_payload_bytes, rd_producer = producer,
           rd_calls = []\<rparr>))))))"

text \<open>the loop that adds up the bytes of the requested frames\<close>

fun requested_bytes :: "source \<Rightarrow> string \<Rightarrow> int \<Rightarrow> frame_ref list \<Rightarrow> int res" where
  "requested_bytes src operation expected [] = Inr expected"
| "requested_bytes src operation expected (f # fs) =
     bindE (stream_dimensions src f operation) (\<lambda>(width, height).
     let frame_bytes = width * height * 3
     in if MAX_ORIGINAL_FRAME_BYTES < frame_bytes then Inl (reader_error LIMIT_EXCEEDED operation)
        else requested_bytes src operation (expected + frame_bytes) fs)"

definition stored_frame :: "fake_reader \<Rightarrow> frame_ref \<Rightarrow> original_frame res" where
  "stored_frame r f =
     (case rd_frames r (fr_frame_id f) of
        None \<Rightarrow> Inl (reader_error CONFLICT ''read'')
      | Some stored \<Rightarrow> if of_frame stored = f then Inr stored else Inl (reader_error CONFLICT ''read''))"

definition fake_answer :: "(string \<Rightarrow> string) \<Rightarrow> fake_reader \<Rightarrow> frame_ref list \<Rightarrow> original_result res" where
  "fake_answer nfc r requested =
     (if rd_state r \<noteq> COMPLETE then mk_original_result nfc (rd_state r) [] (rd_reason r)
      else bindE (mapE (stored_frame r) requested) (\<lambda>selected. mk_original_result nfc COMPLETE selected None))"

definition fake_read ::
  "(string \<Rightarrow> string) \<Rightarrow> fake_reader \<Rightarrow> source \<Rightarrow> frame_ref list \<Rightarrow> int \<Rightarrow> (original_result \<times> fake_reader) res" where
  "fake_read nfc r src frames max_total_bytes =
     bindE (own_source nfc src ''read'') (\<lambda>requested_source.
     bindE (checked (run_checks
       [require (requested_source = rd_source r) (reader_error CONFLICT ''read''),
        require (1 \<le> length frames \<and> int (length frames) \<le> cd_max_batch_items (reader_descriptor (rd_max_payload_bytes r)))
          (reader_error LIMIT_EXCEEDED ''read'')]) ()) (\<lambda>_.
     bindE (mapE (\<lambda>f. own_frame nfc f ''read'') frames) (\<lambda>requested.
     bindE (checked (run_checks
       [require (distinct (map fr_frame_id requested) \<and>
            distinct (map (\<lambda>f. (fr_stream_index f, fr_decode_index f)) requested)) (reader_error CONFLICT ''read''),
        require (list_all (\<lambda>f. fr_source_id f = so_source_id requested_source) requested \<and>
            length (remdups (map fr_stream_index requested)) = 1) (reader_error CONFLICT ''read'')]) ()) (\<lambda>_.
     bindE (requested_bytes requested_source ''read'' 0 requested) (\<lambda>expected_bytes.
     bindE (checked (require (1 \<le> max_total_bytes \<and> max_total_bytes \<le> MAX_ORIGINAL_FRAME_TOTAL_BYTES \<and>
           expected_bytes \<le> min max_total_bytes (rd_max_payload_bytes r)) (reader_error LIMIT_EXCEEDED ''read'')) ()) (\<lambda>_.
     bindE (fake_answer nfc r requested) (\<lambda>result.
     bindE (record_call (rd_calls r) ORIGINAL_FRAME_READER ''read'' (length requested)) (\<lambda>calls.
     Inr (result, r\<lparr>rd_calls := calls\<rparr>)))))))))"

end
