(* ===== verification/Evidence.thy ===== *)
theory Evidence
  imports Perception_Examples Ports Geometry Loading "HOL-Library.Product_Lexorder"
begin

text \<open>
  The values of \<open>evidence.py\<close>: defensive copies of records, integer-only evidence scores with their
  ranking key, evidence intents with their JSON form, plans, and materialised crops.  A copy builds
  each held value anew, so here it is the value itself once every constructor has accepted it.
  \<open>Fraction\<close> is \<open>rat\<close>, its numerator and denominator are those of \<open>quotient_of\<close>.
\<close>

section \<open>Constants\<close>

definition DEFAULT_MAX_SELECTED_OBSERVATIONS :: int where "DEFAULT_MAX_SELECTED_OBSERVATIONS = 3"
definition MAX_SELECTED_OBSERVATIONS :: int where "MAX_SELECTED_OBSERVATIONS = 8"
definition MAX_EVIDENCE_RGB24_FRAME_BYTES :: int where "MAX_EVIDENCE_RGB24_FRAME_BYTES = 128 * 1024 * 1024"
definition MILLION :: int where "MILLION = 1000000"
definition evidence_kind :: string where "evidence_kind = ''original_frame''"
definition evidence_retention :: string where "evidence_retention = ''derived_private''"
definition evidence_deletion_owner :: string where "evidence_deletion_owner = ''coordinator_source_cascade''"
definition MAX_SOURCE_AREA_PIXELS :: int where "MAX_SOURCE_AREA_PIXELS = MAX_I31 * MAX_I31"
definition MAX_MIDPOINT_DISTANCE_NUMERATOR_BITS :: nat where "MAX_MIDPOINT_DISTANCE_NUMERATOR_BITS = 161"
definition MAX_MIDPOINT_DISTANCE_DENOMINATOR_BITS :: nat where "MAX_MIDPOINT_DISTANCE_DENOMINATOR_BITS = 96"

definition selector_error :: "port_error_code \<Rightarrow> string \<Rightarrow> exn" where
  "selector_error c operation = PortError c EVIDENCE_SELECTOR operation"

text \<open>\<open>int.bit_length\<close> of a non-negative number\<close>

fun bit_length :: "nat \<Rightarrow> nat" where
  "bit_length n = (if n = 0 then 0 else Suc (bit_length (n div 2)))"

declare bit_length.simps [simp del]

section \<open>Copies\<close>

definition own_producer :: "(string \<Rightarrow> string) \<Rightarrow> producer \<Rightarrow> producer res" where
  "own_producer nfc v = checked (producer_post nfc v) v"

definition own_time :: "(string \<Rightarrow> string) \<Rightarrow> media_time \<Rightarrow> media_time res" where
  "own_time nfc v = checked (run_checks
     [check_option (producer_post nfc) (mt_estimate_producer v), time_base_post nfc (mt_time_base v),
      media_time_post nfc v]) v"

definition own_rational :: "(string \<Rightarrow> string) \<Rightarrow> rational \<Rightarrow> rational res" where
  "own_rational nfc v = checked (rational_post nfc v) v"

definition own_geometry :: "(string \<Rightarrow> string) \<Rightarrow> geometry \<Rightarrow> geometry res" where
  "own_geometry nfc v =
     bindE (case ge_producer_space v of None \<Rightarrow> Inr () | Some s \<Rightarrow> checked (producer_space_post s) ()) (\<lambda>_.
     bindE (case ge_coefficients v of None \<Rightarrow> Inr []
            | Some k \<Rightarrow> mapE (own_rational nfc) [ac_a k, ac_b k, ac_c k, ac_d k, ac_e k, ac_f k]) (\<lambda>_.
     checked (geometry_post nfc v) v))"

definition own_observation :: "(string \<Rightarrow> string) \<Rightarrow> observation \<Rightarrow> observation res" where
  "own_observation nfc v =
     bindE (own_time nfc (ob_pts v)) (\<lambda>_. bindE (own_geometry nfc (ob_geometry v)) (\<lambda>_.
     bindE (own_producer nfc (ob_producer v)) (\<lambda>_. checked (observation_post nfc v) v)))"

definition own_track_point :: "(string \<Rightarrow> string) \<Rightarrow> track_point \<Rightarrow> track_point res" where
  "own_track_point nfc v =
     bindE (own_time nfc (tp_pts v)) (\<lambda>_. bindE (own_geometry nfc (tp_geometry v)) (\<lambda>_.
     checked (track_point_post nfc v) v))"

definition own_tracklet :: "(string \<Rightarrow> string) \<Rightarrow> tracklet \<Rightarrow> tracklet res" where
  "own_tracklet nfc v =
     bindE (checked (require (1 \<le> length (tk_points v) \<and> length (tk_points v) \<le> MAX_PORT_BATCH_ITEMS)
       (ValueError ''invalid tracklet'')) ()) (\<lambda>_.
     bindE (mapE (own_track_point nfc) (tk_points v)) (\<lambda>_.
     bindE (own_producer nfc (tk_producer v)) (\<lambda>_. checked (tracklet_post nfc v) v)))"

definition own_artifact :: "(string \<Rightarrow> string) \<Rightarrow> artifact \<Rightarrow> artifact res" where
  "own_artifact nfc v = checked (artifact_post nfc v) v"

definition own_evidence_ref :: "(string \<Rightarrow> string) \<Rightarrow> evidence_ref \<Rightarrow> evidence_ref res" where
  "own_evidence_ref nfc v =
     bindE (own_artifact nfc (ev_artifact v)) (\<lambda>_.
     bindE (case ev_geometry v of None \<Rightarrow> Inr None | Some g \<Rightarrow> bindE (own_geometry nfc g) (\<lambda>g'. Inr (Some g'))) (\<lambda>_.
     checked (evidence_post nfc v) v))"

definition own_crop :: "rgb24_crop \<Rightarrow> rgb24_crop res" where
  "own_crop v = rgb24_crop_create (cr_width v) (cr_height v) (cr_pixels v)"

section \<open>Limits and the producer\<close>

definition selection_limits_post :: "int \<Rightarrow> check" where
  "selection_limits_post n = require (1 \<le> n \<and> n \<le> MAX_SELECTED_OBSERVATIONS)
     (ValueError ''max_selected_observations is outside the supported bound'')"

definition selector_configuration :: "int \<Rightarrow> json" where
  "selector_configuration max_selected = JObj
     [(''deletion_owner'', JStr evidence_deletion_owner),
      (''evidence_kind'', JStr evidence_kind),
      (''max_selected_observations'', JInt max_selected),
      (''ranking'', JArr (map JStr
        [''boundary_touch_count_ascending'', ''confidence_millionths_descending'',
         ''visible_area_millionths_descending'', ''visible_area_pixels_descending'',
         ''midpoint_distance_seconds_x2_ascending'', ''point_index_ascending'', ''observation_id_ascending''])),
      (''retention'', JStr evidence_retention),
      (''schema'', JStr ''visualworld.best-frame-evidence-selector-configuration''),
      (''schema_version'', JInt 1)]"

definition selector_producer :: "int \<Rightarrow> producer" where
  "selector_producer max_selected =
     \<lparr>pr_name = ''visualworld.best-frame-evidence-selector'', pr_version = ''1'',
      pr_configuration_sha256 = sha256_hex (render (sort_json (selector_configuration max_selected)))\<rparr>"

section \<open>Scores\<close>

record evidence_score =
  es_boundary_touch_count :: int
  es_confidence_millionths :: int
  es_visible_area_pixels :: int
  es_source_area_pixels :: int
  es_visible_area_millionths :: int
  es_midpoint_numerator :: int
  es_midpoint_denominator :: int
  es_point_index :: int
  es_point_count :: int
  es_pts :: media_time
  es_observation_id :: string

definition evidence_score_post :: "(string \<Rightarrow> string) \<Rightarrow> evidence_score \<Rightarrow> check" where
  "evidence_score_post nfc v = run_checks
     [require (0 \<le> es_boundary_touch_count v \<and> es_boundary_touch_count v \<le> 4)
        (ValueError ''boundary touch count is invalid''),
      require (0 \<le> es_confidence_millionths v \<and> es_confidence_millionths v \<le> MAX_CONFIDENCE_MILLIONTHS)
        (ValueError ''confidence is invalid''),
      require (1 \<le> es_visible_area_pixels v \<and> es_visible_area_pixels v \<le> es_source_area_pixels v \<and>
          es_source_area_pixels v \<le> MAX_SOURCE_AREA_PIXELS)
        (ValueError ''visible area is invalid''),
      require (0 \<le> es_visible_area_millionths v \<and> es_visible_area_millionths v \<le> MILLION)
        (ValueError ''visible area ratio is invalid''),
      require (es_visible_area_millionths v = es_visible_area_pixels v * MILLION div es_source_area_pixels v)
        (ValueError ''visible area ratio is inconsistent''),
      require (1 \<le> es_point_count v \<and> es_point_count v \<le> int MAX_PORT_BATCH_ITEMS)
        (ValueError ''point count is invalid''),
      require (0 \<le> es_point_index v \<and> es_point_index v < es_point_count v)
        (ValueError ''point index is invalid''),
      require (0 \<le> es_midpoint_numerator v \<and> 0 < es_midpoint_denominator v \<and>
          bit_length (nat (es_midpoint_numerator v)) \<le> MAX_MIDPOINT_DISTANCE_NUMERATOR_BITS \<and>
          bit_length (nat (es_midpoint_denominator v)) \<le> MAX_MIDPOINT_DISTANCE_DENOMINATOR_BITS)
        (ValueError ''midpoint distance is invalid''),
      require (quotient_of (of_int (es_midpoint_numerator v) / of_int (es_midpoint_denominator v)) =
          (es_midpoint_numerator v, es_midpoint_denominator v))
        (ValueError ''midpoint distance is not normalized''),
      check_of (own_time nfc (es_pts v)),
      require (is_typed_id ''obs'' (es_observation_id v)) (ValueError ''observation identifier is invalid'')]"

type_synonym rank = "int \<times> int \<times> int \<times> int \<times> rat \<times> int \<times> string"

definition score_rank :: "evidence_score \<Rightarrow> rank" where
  "score_rank v =
     (es_boundary_touch_count v, - es_confidence_millionths v, - es_visible_area_millionths v,
      - es_visible_area_pixels v, of_int (es_midpoint_numerator v) / of_int (es_midpoint_denominator v),
      es_point_index v, es_observation_id v)"

definition rank_key :: "(string \<Rightarrow> string) \<Rightarrow> evidence_score \<Rightarrow> rank res" where
  "rank_key nfc v = checked (evidence_score_post nfc v) (score_rank v)"

definition score_to_mapping :: "evidence_score \<Rightarrow> json" where
  "score_to_mapping v = JObj
     [(''components'', JObj
        [(''boundary_touch_count'', JInt (es_boundary_touch_count v)),
         (''confidence_millionths'', JInt (es_confidence_millionths v)),
         (''source_area_pixels'', JInt (es_source_area_pixels v)),
         (''visible_area_millionths'', JInt (es_visible_area_millionths v)),
         (''visible_area_pixels'', JInt (es_visible_area_pixels v))]),
      (''tie_break'', JObj
        [(''midpoint_distance_seconds_x2'', JObj
           [(''denominator'', JInt (es_midpoint_denominator v)), (''numerator'', JInt (es_midpoint_numerator v))]),
         (''observation_id'', JStr (es_observation_id v)),
         (''point_count'', JInt (es_point_count v)),
         (''point_index'', JInt (es_point_index v)),
         (''pts'', media_time_to_mapping (es_pts v))])]"

fun plain_int :: "exn \<Rightarrow> json \<Rightarrow> int res" where
  "plain_int e (JInt n) = Inr n"
| "plain_int e _ = Inl e"

fun plain_str :: "exn \<Rightarrow> json \<Rightarrow> string res" where
  "plain_str e (JStr s) = Inr s"
| "plain_str e _ = Inl e"

definition score_from_mapping :: "(string \<Rightarrow> string) \<Rightarrow> json \<Rightarrow> evidence_score res" where
  "score_from_mapping nfc value =
     bindE (exact_fields value [''components'', ''tie_break''] ''score'' []) (\<lambda>item.
     bindE (exact_fields (get item ''components'')
       [''boundary_touch_count'', ''confidence_millionths'', ''source_area_pixels'', ''visible_area_millionths'',
        ''visible_area_pixels''] ''score.components'' []) (\<lambda>components.
     bindE (exact_fields (get item ''tie_break'')
       [''midpoint_distance_seconds_x2'', ''observation_id'', ''point_count'', ''point_index'', ''pts'']
       ''score.tie_break'' []) (\<lambda>tie_break.
     bindE (exact_fields (get tie_break ''midpoint_distance_seconds_x2'') [''denominator'', ''numerator'']
       ''score.tie_break.midpoint_distance_seconds_x2'' []) (\<lambda>midpoint.
     bindE (mapE (plain_int (ValueError ''evidence score components must be integers''))
       [get components ''boundary_touch_count'', get components ''confidence_millionths'',
        get components ''visible_area_pixels'', get components ''source_area_pixels'',
        get components ''visible_area_millionths'', get midpoint ''numerator'', get midpoint ''denominator'',
        get tie_break ''point_index'', get tie_break ''point_count'']) (\<lambda>n.
     bindE (plain_str (ValueError ''observation identifier is invalid'') (get tie_break ''observation_id''))
       (\<lambda>observation_id.
     bindE (media_time_from_mapping nfc (get tie_break ''pts'') ''score.tie_break.pts'') (\<lambda>pts.
     let v = \<lparr>es_boundary_touch_count = n ! 0, es_confidence_millionths = n ! 1, es_visible_area_pixels = n ! 2,
              es_source_area_pixels = n ! 3, es_visible_area_millionths = n ! 4, es_midpoint_numerator = n ! 5,
              es_midpoint_denominator = n ! 6, es_point_index = n ! 7, es_point_count = n ! 8, es_pts = pts,
              es_observation_id = observation_id\<rparr>
     in checked (evidence_score_post nfc v) v)))))))"

definition own_score :: "(string \<Rightarrow> string) \<Rightarrow> evidence_score \<Rightarrow> evidence_score res" where
  "own_score nfc v =
     bindE (own_time nfc (es_pts v)) (\<lambda>_. checked (evidence_score_post nfc v) v)"

section \<open>Intents\<close>

record evidence_intent =
  ei_rank :: int
  ei_tracklet_id :: string
  ei_observation_id :: string
  ei_source_id :: string
  ei_frame_id :: string
  ei_stream_index :: int
  ei_pts :: media_time
  ei_geometry :: geometry
  ei_score :: evidence_score
  ei_selector :: producer
  ei_kind :: string
  ei_retention :: string
  ei_deletion_owner :: string

text \<open>The area, the frame area and the number of frame edges a box touches\<close>

fun box_measures :: "box \<Rightarrow> int \<Rightarrow> int \<Rightarrow> int \<times> int \<times> int" where
  "box_measures (x_min, y_min, x_max, y_max) width height =
     ((x_max - x_min) * (y_max - y_min), width * height,
      of_bool (x_min = 0) + of_bool (y_min = 0) + of_bool (x_max = width) + of_bool (y_max = height))"

definition geometry_measures :: "geometry \<Rightarrow> int \<times> int \<times> int" where
  "geometry_measures g = box_measures (ge_box_xyxy g) (ge_source_width g) (ge_source_height g)"

definition evidence_intent_post :: "(string \<Rightarrow> string) \<Rightarrow> evidence_intent \<Rightarrow> check" where
  "evidence_intent_post nfc v = run_checks
     [require (1 \<le> ei_rank v \<and> ei_rank v \<le> MAX_SELECTED_OBSERVATIONS) (ValueError ''evidence rank is invalid''),
      require (is_typed_id ''trk'' (ei_tracklet_id v) \<and> is_typed_id ''obs'' (ei_observation_id v) \<and>
          is_typed_id ''src'' (ei_source_id v) \<and> is_typed_id ''frm'' (ei_frame_id v))
        (ValueError ''evidence intent identifier is invalid''),
      require (0 \<le> ei_stream_index v \<and> ei_stream_index v \<le> MAX_STREAM_INDEX) (ValueError ''stream index is invalid''),
      check_of (own_time nfc (ei_pts v)),
      check_of (own_geometry nfc (ei_geometry v)),
      check_of (own_score nfc (ei_score v)),
      check_of (own_producer nfc (ei_selector v)),
      require (es_observation_id (ei_score v) = ei_observation_id v \<and> es_pts (ei_score v) = ei_pts v)
        (ValueError ''evidence score scope is inconsistent''),
      require (geometry_measures (ei_geometry v) =
          (es_visible_area_pixels (ei_score v), es_source_area_pixels (ei_score v), es_boundary_touch_count (ei_score v)))
        (ValueError ''evidence score geometry is inconsistent''),
      require (ei_kind v = evidence_kind \<and> ei_retention v = evidence_retention \<and>
          ei_deletion_owner v = evidence_deletion_owner)
        (ValueError ''evidence lifecycle policy is invalid'')]"

definition intent_schema :: string where "intent_schema = ''visualworld.evidence_intent''"

definition intent_to_mapping :: "evidence_intent \<Rightarrow> json" where
  "intent_to_mapping v = JObj
     [(''deletion_owner'', JStr (ei_deletion_owner v)), (''frame_id'', JStr (ei_frame_id v)),
      (''geometry'', geometry_to_mapping (ei_geometry v)), (''kind'', JStr (ei_kind v)),
      (''observation_id'', JStr (ei_observation_id v)), (''pts'', media_time_to_mapping (ei_pts v)),
      (''rank'', JInt (ei_rank v)), (''retention'', JStr (ei_retention v)), (''schema'', JStr intent_schema),
      (''schema_version'', JInt 1), (''score'', score_to_mapping (ei_score v)),
      (''selector'', producer_to_mapping (ei_selector v)), (''source_id'', JStr (ei_source_id v)),
      (''stream_index'', JInt (ei_stream_index v)), (''tracklet_id'', JStr (ei_tracklet_id v))]"

definition intent_from_mapping :: "(string \<Rightarrow> string) \<Rightarrow> json \<Rightarrow> evidence_intent res" where
  "intent_from_mapping nfc value =
     bindE (exact_fields value
       [''deletion_owner'', ''frame_id'', ''geometry'', ''kind'', ''observation_id'', ''pts'', ''rank'', ''retention'',
        ''schema'', ''schema_version'', ''score'', ''selector'', ''source_id'', ''stream_index'', ''tracklet_id'']
       ''$'' []) (\<lambda>item.
     bindE (checked (require (get item ''schema'' = JStr intent_schema \<and> get item ''schema_version'' = JInt 1)
       (ValueError ''unsupported evidence intent schema'')) ()) (\<lambda>_.
     bindE (mapE (plain_str (ValueError ''evidence intent scalar is invalid''))
       [get item ''tracklet_id'', get item ''observation_id'', get item ''source_id'', get item ''frame_id'',
        get item ''kind'', get item ''retention'', get item ''deletion_owner'']) (\<lambda>s.
     bindE (mapE (plain_int (ValueError ''evidence intent integer is invalid''))
       [get item ''rank'', get item ''stream_index'']) (\<lambda>n.
     bindE (media_time_from_mapping nfc (get item ''pts'') ''pts'') (\<lambda>pts.
     bindE (geometry_from_mapping nfc (get item ''geometry'') ''geometry'') (\<lambda>geometry.
     bindE (score_from_mapping nfc (get item ''score'')) (\<lambda>score.
     bindE (producer_from_mapping nfc (get item ''selector'') ''selector'') (\<lambda>selector.
     let v = \<lparr>ei_rank = n ! 0, ei_tracklet_id = s ! 0, ei_observation_id = s ! 1, ei_source_id = s ! 2,
              ei_frame_id = s ! 3, ei_stream_index = n ! 1, ei_pts = pts, ei_geometry = geometry, ei_score = score,
              ei_selector = selector, ei_kind = s ! 4, ei_retention = s ! 5, ei_deletion_owner = s ! 6\<rparr>
     in checked (evidence_intent_post nfc v) v))))))))"

definition dumps_evidence_intent :: "(string \<Rightarrow> string) \<Rightarrow> evidence_intent \<Rightarrow> string res" where
  "dumps_evidence_intent nfc v =
     bindE (checked (evidence_intent_post nfc v) ()) (\<lambda>_. canonical_bytes nfc (intent_to_mapping v))"

definition loads_evidence_intent :: "(string \<Rightarrow> string) \<Rightarrow> nat \<Rightarrow> string \<Rightarrow> evidence_intent res" where
  "loads_evidence_intent nfc limit data =
     bindE (parse_json nfc limit data) (\<lambda>value. intent_from_mapping nfc (JObj value))"

text \<open>
  The loop over \<open>reader.read\<close> is the one of the record loaders, with value errors of its own; only
  their texts differ.
\<close>

definition load_evidence_intent ::
  "(string \<Rightarrow> string) \<Rightarrow> nat \<Rightarrow> ('s \<Rightarrow> nat \<Rightarrow> read_result \<times> 's) \<Rightarrow> 's \<Rightarrow> evidence_intent res" where
  "load_evidence_intent nfc limit read s =
     bindE (case fst (read_bounded read s (MAX_RECORD_BYTES + 1)) of
         Inl e \<Rightarrow> Inl (if e = fail ''record_read_failed'' ''$'' then ValueError ''evidence intent read failed''
                        else ValueError ''evidence intent reader must be binary'')
       | Inr data \<Rightarrow> Inr data)
       (loads_evidence_intent nfc limit)"

definition own_intent :: "(string \<Rightarrow> string) \<Rightarrow> evidence_intent \<Rightarrow> evidence_intent res" where
  "own_intent nfc v =
     bindE (own_time nfc (ei_pts v)) (\<lambda>_. bindE (own_geometry nfc (ei_geometry v)) (\<lambda>_.
     bindE (own_score nfc (ei_score v)) (\<lambda>_. bindE (own_producer nfc (ei_selector v)) (\<lambda>_.
     checked (evidence_intent_post nfc v) v))))"

end
