(* ===== verification/Evidence_Selector.thy ===== *)
theory Evidence_Selector
  imports Evidence
begin

text \<open>
  \<open>BestFrameEvidenceSelector\<close> of \<open>evidence.py\<close>: plans (the best observations of a tracklet, ranked),
  the port operation \<open>select\<close>, and the crop made only on request.
\<close>

section \<open>Results\<close>

record evidence_selection_result =
  er_state :: perception_result_state
  er_observation_ids :: "string list"
  er_reason :: "string option"

definition evidence_selection_result_post :: "evidence_selection_result \<Rightarrow> check" where
  "evidence_selection_result_post v = run_checks
     [require (length (er_observation_ids v) \<le> MAX_PORT_BATCH_ITEMS)
        (ValueError ''selected observations exceed the port bound''),
      require (list_all (is_typed_id ''obs'') (er_observation_ids v))
        (ValueError ''selected observation identifiers are invalid''),
      require (distinct (er_observation_ids v)) (ValueError ''selected observation identifiers must be unique''),
      validate_result (er_state v) (er_reason v) (length (er_observation_ids v))]"

record evidence_plan_result =
  ep_state :: perception_result_state
  ep_intents :: "evidence_intent list"
  ep_reason :: "string option"

definition evidence_plan_result_post :: "(string \<Rightarrow> string) \<Rightarrow> evidence_plan_result \<Rightarrow> check" where
  "evidence_plan_result_post nfc v = run_checks
     [require (int (length (ep_intents v)) \<le> MAX_SELECTED_OBSERVATIONS)
        (ValueError ''evidence intents exceed the supported bound''),
      run_checks (map (evidence_intent_post nfc) (ep_intents v)),
      require (distinct (map ei_observation_id (ep_intents v)))
        (ValueError ''evidence intent observations must be unique''),
      require (map ei_rank (ep_intents v) = map int [1..<length (ep_intents v) + 1])
        (ValueError ''evidence intent ranks must be contiguous''),
      (if ep_state v = COMPLETE
       then require (ep_reason v = None) (ValueError ''complete evidence plan cannot have a reason'')
       else require (ep_intents v = [] \<and> ep_reason v \<noteq> None \<and> pred_option is_reason (ep_reason v))
              (ValueError ''incomplete evidence plan requires a stable reason''))]"

definition plan_observation_ids :: "evidence_plan_result \<Rightarrow> string list" where
  "plan_observation_ids v = map ei_observation_id (ep_intents v)"

definition optional_member :: "string \<Rightarrow> json option \<Rightarrow> (string \<times> json) list" where
  "optional_member key value = (case value of None \<Rightarrow> [] | Some j \<Rightarrow> [(key, j)])"

definition plan_to_mapping :: "(string \<Rightarrow> string) \<Rightarrow> evidence_plan_result \<Rightarrow> json res" where
  "plan_to_mapping nfc v = checked (evidence_plan_result_post nfc v)
     (JObj ([(''intents'', JArr (map intent_to_mapping (ep_intents v))), (''state'', JStr (perception_state_value (ep_state v)))]
        @ optional_member ''reason'' (map_option JStr (ep_reason v))))"

datatype evidence_need = INSPECTION | DOWNSTREAM_DETAIL

datatype detail_resolution = RESOLVABLE | UNRESOLVABLE | UNKNOWN_RESOLUTION

record materialized_evidence =
  me_intent :: evidence_intent
  me_need :: evidence_need
  me_detail_resolution :: detail_resolution
  me_reference :: evidence_ref
  me_crop :: rgb24_crop

definition materialized_evidence_post :: "(string \<Rightarrow> string) \<Rightarrow> materialized_evidence \<Rightarrow> check" where
  "materialized_evidence_post nfc v = check_of
     (bindE (own_intent nfc (me_intent v)) (\<lambda>intent.
      bindE (own_evidence_ref nfc (me_reference v)) (\<lambda>reference.
      bindE (own_crop (me_crop v)) (\<lambda>crop.
      if ev_frame_id reference \<noteq> ei_frame_id intent \<or> ev_geometry reference \<noteq> Some (ei_geometry intent) \<or>
         ev_kind reference \<noteq> ei_kind intent \<or> ev_retention reference \<noteq> ei_retention intent
      then Inl (ValueError ''materialized evidence is inconsistent'')
      else bindE (crop_artifact nfc crop) (\<lambda>artifact.
        checked (require (ev_artifact reference = artifact) (ValueError ''materialized evidence is inconsistent'')) ())))))"

fun need_value :: "evidence_need \<Rightarrow> string" where
  "need_value INSPECTION = ''inspection''"
| "need_value DOWNSTREAM_DETAIL = ''downstream_detail''"

fun resolution_value :: "detail_resolution \<Rightarrow> string" where
  "resolution_value RESOLVABLE = ''resolvable''"
| "resolution_value UNRESOLVABLE = ''unresolvable''"
| "resolution_value UNKNOWN_RESOLUTION = ''unknown''"

definition materialized_to_mapping :: "(string \<Rightarrow> string) \<Rightarrow> materialized_evidence \<Rightarrow> json res" where
  "materialized_to_mapping nfc v = checked (materialized_evidence_post nfc v)
     (JObj [(''intent'', intent_to_mapping (me_intent v)), (''need'', JStr (need_value (me_need v))),
            (''detail_resolution'', JStr (resolution_value (me_detail_resolution v))),
            (''reference'', evidence_to_mapping (me_reference v))])"

record evidence_crop_result =
  ec_state :: perception_result_state
  ec_materialized :: "materialized_evidence option"
  ec_reason :: "string option"

definition evidence_crop_result_post :: "(string \<Rightarrow> string) \<Rightarrow> evidence_crop_result \<Rightarrow> check" where
  "evidence_crop_result_post nfc v =
     (if ec_state v = COMPLETE
      then (case ec_materialized v of
              None \<Rightarrow> Some (ValueError ''complete crop result requires materialized evidence'')
            | Some m \<Rightarrow> run_checks
                [require (ec_reason v = None) (ValueError ''complete crop result requires materialized evidence''),
                 materialized_evidence_post nfc m])
      else require (ec_materialized v = None \<and> ec_reason v \<noteq> None \<and> pred_option is_reason (ec_reason v))
             (ValueError ''incomplete crop result requires a stable reason''))"

definition mk_crop_result ::
  "(string \<Rightarrow> string) \<Rightarrow> perception_result_state \<Rightarrow> materialized_evidence option \<Rightarrow> string option \<Rightarrow> evidence_crop_result res" where
  "mk_crop_result nfc state materialized reason =
     (let v = \<lparr>ec_state = state, ec_materialized = materialized, ec_reason = reason\<rparr>
      in checked (evidence_crop_result_post nfc v) v)"

definition crop_result_to_mapping :: "(string \<Rightarrow> string) \<Rightarrow> evidence_crop_result \<Rightarrow> json res" where
  "crop_result_to_mapping nfc v =
     bindE (checked (evidence_crop_result_post nfc v) ()) (\<lambda>_.
     bindE (case ec_materialized v of None \<Rightarrow> Inr None
            | Some m \<Rightarrow> bindE (materialized_to_mapping nfc m) (\<lambda>j. Inr (Some j))) (\<lambda>materialized.
     Inr (JObj ([(''state'', JStr (perception_state_value (ec_state v)))] @ optional_member ''materialized'' materialized
        @ optional_member ''reason'' (map_option JStr (ec_reason v))))))"

section \<open>Scoring\<close>

definition evidence_media_seconds :: "media_time \<Rightarrow> rat" where
  "evidence_media_seconds v =
     of_int (int_of_decimal (mt_value v) * int_of_decimal (tb_numerator (mt_time_base v)))
       / of_int (int_of_decimal (tb_denominator (mt_time_base v)))"

definition score_observation ::
  "(string \<Rightarrow> string) \<Rightarrow> observation \<Rightarrow> nat \<Rightarrow> nat \<Rightarrow> media_time \<Rightarrow> media_time \<Rightarrow> evidence_score res" where
  "score_observation nfc ob point_index point_count start finish =
     (case geometry_measures (ob_geometry ob) of (visible_area, source_area, boundary_touches) \<Rightarrow>
        let midpoint = \<bar>2 * evidence_media_seconds (ob_pts ob) - evidence_media_seconds start
                        - evidence_media_seconds finish\<bar>;
            v = \<lparr>es_boundary_touch_count = boundary_touches, es_confidence_millionths = ob_confidence_millionths ob,
                 es_visible_area_pixels = visible_area, es_source_area_pixels = source_area,
                 es_visible_area_millionths = visible_area * MILLION div source_area,
                 es_midpoint_numerator = fst (quotient_of midpoint), es_midpoint_denominator = snd (quotient_of midpoint),
                 es_point_index = int point_index, es_point_count = int point_count, es_pts = ob_pts ob,
                 es_observation_id = ob_observation_id ob\<rparr>
        in bindE (own_time nfc (ob_pts ob)) (\<lambda>_. checked (evidence_score_post nfc v) v))"

section \<open>The selector\<close>

record evidence_selector =
  sl_max_selected :: int
  sl_calls :: "port_call list"

definition selector_descriptor :: capability_descriptor where
  "selector_descriptor = \<lparr>cd_port = EVIDENCE_SELECTOR, cd_implementation = ''visualworld.best-frame-evidence-selector'',
     cd_implementation_version = ''1'', cd_deterministic = True, cd_offline = True,
     cd_max_batch_items = int MAX_PORT_BATCH_ITEMS, cd_max_payload_bytes = Some MAX_EVIDENCE_RGB24_FRAME_BYTES,
     cd_contract_version = 1, cd_allowed_effects = []\<rparr>"

definition selector_create :: "(string \<Rightarrow> string) \<Rightarrow> int option \<Rightarrow> evidence_selector res" where
  "selector_create nfc limits =
     (let n = (case limits of None \<Rightarrow> DEFAULT_MAX_SELECTED_OBSERVATIONS | Some m \<Rightarrow> m)
      in checked (run_checks [selection_limits_post n, producer_post nfc (selector_producer n),
             capability_descriptor_post selector_descriptor])
           \<lparr>sl_max_selected = n, sl_calls = []\<rparr>)"

definition selector_producer_of :: "(string \<Rightarrow> string) \<Rightarrow> evidence_selector \<Rightarrow> producer res" where
  "selector_producer_of nfc s = own_producer nfc (selector_producer (sl_max_selected s))"

definition point_matches :: "tracklet \<Rightarrow> track_point \<Rightarrow> observation \<Rightarrow> bool" where
  "point_matches t p ob \<longleftrightarrow>
     ob_source_id ob = tk_source_id t \<and> ob_stream_index ob = tk_stream_index t \<and> ob_category ob = tk_category t \<and>
     ob_source_id ob = tp_source_id p \<and> ob_stream_index ob = tp_stream_index p \<and> ob_category ob = tp_category p \<and>
     ob_frame_id ob = tp_frame_id p \<and> ob_pts ob = tp_pts p \<and> ob_geometry ob = tp_geometry p"

text \<open>\<open>{observation.observation_id: observation for ...}\<close>, where a later one replaces an earlier one\<close>

definition by_id :: "observation list \<Rightarrow> (string \<rightharpoonup> observation)" where
  "by_id obs = map_of (rev (map (\<lambda>ob. (ob_observation_id ob, ob)) obs))"

definition validated_evidence_inputs ::
  "(string \<Rightarrow> string) \<Rightarrow> tracklet \<Rightarrow> observation list \<Rightarrow> string \<Rightarrow> (tracklet \<times> (string \<rightharpoonup> observation)) res" where
  "validated_evidence_inputs nfc t obs operation =
     bindE (checked (require (length obs \<le> MAX_PORT_BATCH_ITEMS) (selector_error LIMIT_EXCEEDED operation)) ()) (\<lambda>_.
     bindE (except_value (bindE (own_tracklet nfc t) (\<lambda>t'. bindE (mapE (own_observation nfc) obs) (\<lambda>obs'. Inr (t', obs'))))
       (selector_error INVALID_REQUEST operation)) (\<lambda>(t', obs').
     checked (run_checks
       [require (distinct (map ob_observation_id obs') \<and>
           ob_observation_id ` set obs' = tp_observation_id ` set (tk_points t')) (selector_error CONFLICT operation),
        require (list_all (\<lambda>p. point_matches t' p (the (by_id obs' (tp_observation_id p)))) (tk_points t'))
          (selector_error CONFLICT operation)])
       (t', by_id obs')))"

definition make_intent ::
  "(string \<Rightarrow> string) \<Rightarrow> evidence_selector \<Rightarrow> string \<Rightarrow> nat \<Rightarrow> evidence_score \<times> observation \<Rightarrow> evidence_intent res" where
  "make_intent nfc s tracklet_id index item =
     (case item of (score, ob) \<Rightarrow>
        bindE (own_time nfc (ob_pts ob)) (\<lambda>pts.
        bindE (own_geometry nfc (ob_geometry ob)) (\<lambda>geometry.
        bindE (selector_producer_of nfc s) (\<lambda>selector.
        let v = \<lparr>ei_rank = int index + 1, ei_tracklet_id = tracklet_id, ei_observation_id = ob_observation_id ob,
                 ei_source_id = ob_source_id ob, ei_frame_id = ob_frame_id ob, ei_stream_index = ob_stream_index ob,
                 ei_pts = pts, ei_geometry = geometry, ei_score = score, ei_selector = selector,
                 ei_kind = evidence_kind, ei_retention = evidence_retention,
                 ei_deletion_owner = evidence_deletion_owner\<rparr>
        in checked (evidence_intent_post nfc v) v))))"

text \<open>\<open>sorted(candidates, key=lambda item: item[0].rank_key())\<close>; each key is computed once\<close>

definition rank_candidates ::
  "(string \<Rightarrow> string) \<Rightarrow> (evidence_score \<times> observation) list \<Rightarrow> (evidence_score \<times> observation) list res" where
  "rank_candidates nfc candidates =
     bindE (mapE (\<lambda>item. rank_key nfc (fst item)) candidates) (\<lambda>keys.
     Inr (map snd (sort_key fst (zip keys candidates))))"

definition evidence_plan_core ::
  "(string \<Rightarrow> string) \<Rightarrow> evidence_selector \<Rightarrow> tracklet \<Rightarrow> observation list \<Rightarrow> string \<Rightarrow> evidence_plan_result res" where
  "evidence_plan_core nfc s t obs operation =
     bindE (validated_evidence_inputs nfc t obs operation) (\<lambda>(t', found).
     bindE (mapE_from 0 (\<lambda>i p. let ob = the (found (tp_observation_id p)) in
              bindE (score_observation nfc ob i (length (tk_points t')) (start_pts t') (end_pts t')) (\<lambda>score.
              Inr (score, ob))) (tk_points t')) (\<lambda>candidates.
     bindE (rank_candidates nfc candidates) (\<lambda>ranked.
     bindE (mapE_from 0 (make_intent nfc s (tk_tracklet_id t')) (take (nat (sl_max_selected s)) ranked)) (\<lambda>intents.
     let v = \<lparr>ep_state = COMPLETE, ep_intents = intents, ep_reason = None\<rparr>
     in checked (evidence_plan_result_post nfc v) v))))"

text \<open>\<open>except PortError: raise\<close> and \<open>except BaseException\<close> as an invalid request\<close>

definition only_port_errors :: "'a res \<Rightarrow> exn \<Rightarrow> 'a res" where
  "only_port_errors m e = (case m of Inr x \<Rightarrow> Inr x | Inl (PortError c port operation) \<Rightarrow> Inl (PortError c port operation)
     | Inl _ \<Rightarrow> Inl e)"

definition evidence_select ::
  "(string \<Rightarrow> string) \<Rightarrow> evidence_selector \<Rightarrow> tracklet \<Rightarrow> observation list \<Rightarrow>
   (evidence_selection_result \<times> evidence_selector) res" where
  "evidence_select nfc s t obs =
     bindE (only_port_errors
       (bindE (evidence_plan_core nfc s t obs ''select'') (\<lambda>plan.
        let v = \<lparr>er_state = ep_state plan, er_observation_ids = plan_observation_ids plan, er_reason = ep_reason plan\<rparr>
        in checked (evidence_selection_result_post v) v))
       (selector_error INVALID_REQUEST ''select'')) (\<lambda>result.
     bindE (record_call (sl_calls s) EVIDENCE_SELECTOR ''select'' (length obs)) (\<lambda>calls.
     Inr (result, s\<lparr>sl_calls := calls\<rparr>)))"

definition evidence_plan ::
  "(string \<Rightarrow> string) \<Rightarrow> evidence_selector \<Rightarrow> tracklet \<Rightarrow> observation list \<Rightarrow>
   (evidence_plan_result \<times> evidence_selector) res" where
  "evidence_plan nfc s t obs =
     bindE (only_port_errors (evidence_plan_core nfc s t obs ''plan'') (selector_error INVALID_REQUEST ''plan'')) (\<lambda>result.
     bindE (record_call (sl_calls s) EVIDENCE_SELECTOR ''plan'' (length obs)) (\<lambda>calls.
     Inr (result, s\<lparr>sl_calls := calls\<rparr>)))"

definition materialize_core ::
  "(string \<Rightarrow> string) \<Rightarrow> evidence_selector \<Rightarrow> evidence_intent \<Rightarrow> tracklet \<Rightarrow> observation list \<Rightarrow> string option \<Rightarrow>
   evidence_need \<Rightarrow> detail_resolution \<Rightarrow> evidence_crop_result res" where
  "materialize_core nfc s intent t obs frame need detail =
     bindE (except_value (own_intent nfc intent) (selector_error INVALID_REQUEST ''materialize'')) (\<lambda>owned.
     bindE (evidence_plan_core nfc s t obs ''materialize'') (\<lambda>expected.
     bindE (checked (require (owned \<in> set (ep_intents expected)) (selector_error CONFLICT ''materialize'')) ()) (\<lambda>_.
     case frame of
       None \<Rightarrow> mk_crop_result nfc UNKNOWN None (Some ''source_pixels_unavailable'')
     | Some pixels \<Rightarrow>
         if detail = UNRESOLVABLE then mk_crop_result nfc UNKNOWN None (Some ''detail_unresolvable'')
         else if need = DOWNSTREAM_DETAIL \<and> detail = UNKNOWN_RESOLUTION
         then mk_crop_result nfc UNKNOWN None (Some ''detail_resolution_unknown'')
         else
           let width = ge_source_width (ei_geometry owned); height = ge_source_height (ei_geometry owned) in
           bindE (checked (require (width * height * 3 \<le> MAX_EVIDENCE_RGB24_FRAME_BYTES)
             (selector_error LIMIT_EXCEEDED ''materialize'')) ()) (\<lambda>_.
           bindE (except_value
             (bindE (extract_rgb24_crop pixels width height (ei_geometry owned)) (\<lambda>crop.
              bindE (crop_artifact nfc crop) (\<lambda>artifact.
              bindE (evidence_create nfc (ei_frame_id owned) artifact (Some (ei_geometry owned)) (ei_kind owned)
                       (ei_retention owned)) (\<lambda>reference.
              Inr (crop, reference)))))
             (selector_error INVALID_REQUEST ''materialize'')) (\<lambda>(crop, reference).
           let m = \<lparr>me_intent = owned, me_need = need, me_detail_resolution = detail, me_reference = reference,
                    me_crop = crop\<rparr> in
           bindE (checked (materialized_evidence_post nfc m) ()) (\<lambda>_.
           mk_crop_result nfc COMPLETE (Some m) None))))))"

definition evidence_materialize ::
  "(string \<Rightarrow> string) \<Rightarrow> evidence_selector \<Rightarrow> evidence_intent \<Rightarrow> tracklet \<Rightarrow> observation list \<Rightarrow> string option \<Rightarrow>
   evidence_need \<Rightarrow> detail_resolution \<Rightarrow> (evidence_crop_result \<times> evidence_selector) res" where
  "evidence_materialize nfc s intent t obs frame need detail =
     bindE (only_port_errors (materialize_core nfc s intent t obs frame need detail)
       (selector_error INVALID_REQUEST ''materialize'')) (\<lambda>result.
     bindE (record_call (sl_calls s) EVIDENCE_SELECTOR ''materialize'' 1) (\<lambda>calls.
     Inr (result, s\<lparr>sl_calls := calls\<rparr>)))"

end
