(* ===== verification/Fake_Perception.thy ===== *)
theory Fake_Perception
  imports Tracker Evidence_Selector
begin

text \<open>
  The scripted perception ports of \<open>ports.py\<close>: a sampler, a detector, a tracker and an evidence
  selector that return a fixed answer once it fits the request.  They check the same contract the real
  ports keep, which is stated as the locales of \<open>Perception_Ports\<close>.
\<close>

section \<open>Detection results\<close>

record detection_result =
  dr_state :: perception_result_state
  dr_observations :: "observation list"
  dr_reason :: "string option"

definition detection_result_post :: "(string \<Rightarrow> string) \<Rightarrow> detection_result \<Rightarrow> check" where
  "detection_result_post nfc v = run_checks
     [require (length (dr_observations v) \<le> MAX_PERCEPTION_OBSERVATIONS) (ValueError ''observations exceed the port bound''),
      run_checks (map (observation_post nfc) (dr_observations v)),
      require (distinct (map ob_observation_id (dr_observations v))) (ValueError ''observation identifiers must be unique''),
      validate_result (dr_state v) (dr_reason v) (length (dr_observations v))]"

section \<open>The sampler\<close>

record fake_sampler =
  fs_selected_frame_ids :: "string list"
  fs_calls :: "port_call list"

definition fake_sampler_create :: "string list \<Rightarrow> fake_sampler res" where
  "fake_sampler_create ids =
     bindE (checked (run_checks
       [require (length ids \<le> MAX_PORT_BATCH_ITEMS) (PortError LIMIT_EXCEEDED FRAME_SAMPLER ''init''),
        require (distinct ids \<and> list_all (is_typed_id ''frm'') ids) (PortError INVALID_REQUEST FRAME_SAMPLER ''init'')]) ())
       (\<lambda>_. bindE (fake_descriptor FRAME_SAMPLER None) (\<lambda>_.
     Inr \<lparr>fs_selected_frame_ids = ids, fs_calls = []\<rparr>))"

definition frames_by_id :: "frame_ref list \<Rightarrow> (string \<rightharpoonup> frame_ref)" where
  "frames_by_id frames = map_of (rev (map (\<lambda>f. (fr_frame_id f, f)) frames))"

definition fake_sample ::
  "fake_sampler \<Rightarrow> source \<Rightarrow> frame_ref list \<Rightarrow> sampling \<Rightarrow> (frame_ref list \<times> fake_sampler) res" where
  "fake_sample s src candidates sampling =
     bindE (checked (run_checks
       [require (length candidates \<le> MAX_PORT_BATCH_ITEMS) (PortError LIMIT_EXCEEDED FRAME_SAMPLER ''sample''),
        require (list_all (\<lambda>f. fr_source_id f = so_source_id src) candidates)
          (PortError INVALID_REQUEST FRAME_SAMPLER ''sample''),
        require (distinct (map fr_frame_id candidates) \<and> set (fs_selected_frame_ids s) \<subseteq> fr_frame_id ` set candidates)
          (PortError CONFLICT FRAME_SAMPLER ''sample'')]) ()) (\<lambda>_.
     let result = map (\<lambda>i. the (frames_by_id candidates i)) (fs_selected_frame_ids s) in
     bindE (record_call (fs_calls s) FRAME_SAMPLER ''sample'' (length result)) (\<lambda>calls.
     Inr (result, s\<lparr>fs_calls := calls\<rparr>)))"

section \<open>The request of a perception port\<close>

definition plain_perception_source :: "(string \<Rightarrow> string) \<Rightarrow> source \<Rightarrow> bool" where
  "plain_perception_source nfc src \<longleftrightarrow>
     run_checks (fingerprint_post nfc (so_fingerprint src)
       # concat (map (\<lambda>s. [time_base_post nfc (ss_time_base s), source_stream_post nfc s]) (so_streams src))
       @ [source_post nfc src]) = None"

definition perception_frames ::
  "(string \<Rightarrow> string) \<Rightarrow> source \<Rightarrow> frame_ref list \<Rightarrow> port_kind \<Rightarrow> string \<Rightarrow> (string \<rightharpoonup> frame_ref) res" where
  "perception_frames nfc src frames port operation =
     (let streams = stream_by_index src;
          based = (\<lambda>f t. mt_time_base t = ss_time_base (the (streams (fr_stream_index f))))
      in checked (run_checks
        [require (plain_perception_source nfc src) (PortError INVALID_REQUEST port operation),
         require (length frames \<le> MAX_PORT_BATCH_ITEMS) (PortError LIMIT_EXCEEDED port operation),
         require (distinct (map ss_stream_index (so_streams src)) \<and> distinct (map fr_frame_id frames) \<and>
             distinct (map (\<lambda>f. (fr_stream_index f, fr_decode_index f)) frames) \<and>
             list_all (\<lambda>f. fr_source_id f = so_source_id src) frames \<and>
             list_all (\<lambda>f. streams (fr_stream_index f) \<noteq> None) frames \<and>
             list_all (\<lambda>f. based f (fr_pts f)) frames \<and>
             list_all (\<lambda>f. pred_option (based f) (fr_duration f)) frames)
           (PortError CONFLICT port operation)])
        (frames_by_id frames))"

definition observation_in_scope :: "source \<Rightarrow> (string \<rightharpoonup> frame_ref) \<Rightarrow> observation \<Rightarrow> bool" where
  "observation_in_scope src frames ob \<longleftrightarrow>
     (case (frames (ob_frame_id ob), stream_by_index src (ob_stream_index ob)) of
        (Some f, Some stream) \<Rightarrow>
          ob_source_id ob = so_source_id src \<and> ob_stream_index ob = fr_stream_index f \<and> ob_pts ob = fr_pts f \<and>
          ge_source_width (ob_geometry ob) = ss_width stream \<and> ge_source_height (ob_geometry ob) = ss_height stream
      | _ \<Rightarrow> False)"

definition perception_observations ::
  "(string \<Rightarrow> string) \<Rightarrow> source \<Rightarrow> (string \<rightharpoonup> frame_ref) \<Rightarrow> observation list \<Rightarrow> port_kind \<Rightarrow> string \<Rightarrow>
   (string \<rightharpoonup> observation) res" where
  "perception_observations nfc src frames obs port operation =
     checked (run_checks
       [require (length obs \<le> MAX_PERCEPTION_OBSERVATIONS) (PortError LIMIT_EXCEEDED port operation),
        except_value_check (run_checks (map (observation_post nfc) obs)) (PortError INVALID_REQUEST port operation),
        require (distinct (map ob_observation_id obs)) (PortError CONFLICT port operation),
        require (list_all (observation_in_scope src frames) obs) (PortError CONFLICT port operation)])
       (by_id obs)"

definition perception_discontinuities ::
  "(string \<Rightarrow> string) \<Rightarrow> frame_ref list \<Rightarrow> frame_discontinuity list option \<Rightarrow> port_kind \<Rightarrow> string \<Rightarrow> check" where
  "perception_discontinuities nfc frames discontinuities port operation =
     (case discontinuities of
        None \<Rightarrow> None
      | Some ds \<Rightarrow> run_checks
          [require (length ds = length frames) (PortError INVALID_REQUEST port operation),
           except_value_check (run_checks (map (discontinuity_post nfc) ds)) (PortError INVALID_REQUEST port operation),
           require (list_all (\<lambda>(d, f). fd_source_id d = fr_source_id f \<and> fd_frame_id d = fr_frame_id f \<and>
               fd_stream_index d = fr_stream_index f \<and> fd_pts d = fr_pts f) (zip ds frames))
             (PortError CONFLICT port operation)])"

section \<open>The detector\<close>

record fake_detector =
  fd_result :: detection_result
  fd_calls :: "port_call list"

definition fake_detector_create :: "detection_result \<Rightarrow> fake_detector res" where
  "fake_detector_create result =
     bindE (fake_descriptor DETECTOR None) (\<lambda>_. Inr \<lparr>fd_result = result, fd_calls = []\<rparr>)"

definition fake_detect ::
  "(string \<Rightarrow> string) \<Rightarrow> fake_detector \<Rightarrow> source \<Rightarrow> frame_ref list \<Rightarrow> (detection_result \<times> fake_detector) res" where
  "fake_detect nfc s src frames =
     bindE (perception_frames nfc src frames DETECTOR ''detect'') (\<lambda>by_frame.
     bindE (perception_observations nfc src by_frame (dr_observations (fd_result s)) DETECTOR ''detect'') (\<lambda>_.
     bindE (record_call (fd_calls s) DETECTOR ''detect'' (length frames)) (\<lambda>calls.
     Inr (fd_result s, s\<lparr>fd_calls := calls\<rparr>))))"

section \<open>The tracker\<close>

record fake_tracker =
  ft_result :: tracking_result
  ft_calls :: "port_call list"

definition fake_tracker_create :: "tracking_result \<Rightarrow> fake_tracker res" where
  "fake_tracker_create result =
     bindE (fake_descriptor TRACKER None) (\<lambda>_. Inr \<lparr>ft_result = result, ft_calls = []\<rparr>)"

text \<open>The test on one point of a tracklet; \<open>None\<close> is the observation missing from the request\<close>

definition scripted_point_ok :: "tracklet \<Rightarrow> track_point \<Rightarrow> observation option \<Rightarrow> bool" where
  "scripted_point_ok t p found =
     (case found of
        None \<Rightarrow> False
      | Some ob \<Rightarrow>
          tk_stream_index t = ob_stream_index ob \<and> tk_category t = ob_category ob \<and>
          tp_source_id p = ob_source_id ob \<and> tp_stream_index p = ob_stream_index ob \<and>
          tp_category p = ob_category ob \<and> tp_frame_id p = ob_frame_id ob \<and> tp_pts p = ob_pts ob \<and>
          tp_geometry p = ob_geometry ob)"

fun scripted_tracklets ::
  "source \<Rightarrow> (string \<rightharpoonup> observation) \<Rightarrow> tracklet list \<Rightarrow> string list \<Rightarrow> string list res" where
  "scripted_tracklets src found [] tracked = Inr tracked"
| "scripted_tracklets src found (t # ts) tracked =
     (if tk_source_id t = so_source_id src \<and>
         list_all (\<lambda>p. scripted_point_ok t p (found (tp_observation_id p))) (tk_points t)
      then scripted_tracklets src found ts (tracked @ map tp_observation_id (tk_points t))
      else Inl (PortError CONFLICT TRACKER ''track''))"

definition fake_track ::
  "(string \<Rightarrow> string) \<Rightarrow> fake_tracker \<Rightarrow> source \<Rightarrow> frame_ref list \<Rightarrow> observation list \<Rightarrow> frame_discontinuity list option \<Rightarrow>
   (tracking_result \<times> fake_tracker) res" where
  "fake_track nfc s src frames obs discontinuities =
     bindE (perception_frames nfc src frames TRACKER ''track'') (\<lambda>by_frame.
     bindE (checked (perception_discontinuities nfc frames discontinuities TRACKER ''track'') ()) (\<lambda>_.
     bindE (perception_observations nfc src by_frame obs TRACKER ''track'') (\<lambda>found.
     bindE (scripted_tracklets src found (tt_tracklets (ft_result s)) []) (\<lambda>tracked.
     bindE (checked (require (tt_state (ft_result s) = COMPLETE \<longrightarrow>
         distinct tracked \<and> set tracked = ob_observation_id ` set obs) (PortError CONFLICT TRACKER ''track'')) ()) (\<lambda>_.
     bindE (record_call (ft_calls s) TRACKER ''track'' (length frames)) (\<lambda>calls.
     Inr (ft_result s, s\<lparr>ft_calls := calls\<rparr>)))))))"

section \<open>The evidence selector\<close>

record fake_selector =
  fe_result :: evidence_selection_result
  fe_calls :: "port_call list"

definition fake_selector_create :: "evidence_selection_result \<Rightarrow> fake_selector res" where
  "fake_selector_create result =
     bindE (fake_descriptor EVIDENCE_SELECTOR None) (\<lambda>_. Inr \<lparr>fe_result = result, fe_calls = []\<rparr>)"

definition fake_select ::
  "(string \<Rightarrow> string) \<Rightarrow> fake_selector \<Rightarrow> tracklet \<Rightarrow> observation list \<Rightarrow>
   (evidence_selection_result \<times> fake_selector) res" where
  "fake_select nfc s t obs =
     (let point_of_id = (\<lambda>i. the (find (\<lambda>p. tp_observation_id p = i) (tk_points t))) in
      bindE (checked (run_checks
        [except_value_check (tracklet_post nfc t) (selector_error INVALID_REQUEST ''select''),
         require (length obs \<le> MAX_PORT_BATCH_ITEMS) (selector_error LIMIT_EXCEEDED ''select''),
         except_value_check (run_checks (map (observation_post nfc) obs)) (selector_error INVALID_REQUEST ''select''),
         require (distinct (map ob_observation_id obs)) (selector_error CONFLICT ''select''),
         require (ob_observation_id ` set obs = tp_observation_id ` set (tk_points t) \<and>
             set (er_observation_ids (fe_result s)) \<subseteq> ob_observation_id ` set obs) (selector_error CONFLICT ''select''),
         require (list_all (\<lambda>ob. point_matches t (point_of_id (ob_observation_id ob)) ob) obs)
           (selector_error CONFLICT ''select'')]) ()) (\<lambda>_.
      bindE (record_call (fe_calls s) EVIDENCE_SELECTOR ''select'' (length obs)) (\<lambda>calls.
      Inr (fe_result s, s\<lparr>fe_calls := calls\<rparr>))))"

end
