(* ===== verification/Materialization.thy ===== *)
theory Materialization
  imports Frame_Access Evidence_Selector Fake_Perception Tracking
begin

text \<open>
  \<open>perception_materialization.py\<close>: image-change scores and evidence crops made from the pixels an
  original-frame reader returns.  The reader (\<open>OriginalFrameReader.read\<close>) and the planner
  (\<open>MaterializingEvidencePlanner.materialize\<close>) are protocols of the code, so both are arguments of
  the definitions: functions that return their result and their next state.  A run that raises
  returns no state; what the reader logged before the exception is not part of the model.
\<close>

type_synonym 'r reader = "'r \<Rightarrow> source \<Rightarrow> frame_ref list \<Rightarrow> int \<Rightarrow> (original_result \<times> 'r) res"

type_synonym 's planner = "'s \<Rightarrow> evidence_intent \<Rightarrow> tracklet \<Rightarrow> observation list \<Rightarrow> string option \<Rightarrow>
  evidence_need \<Rightarrow> detail_resolution \<Rightarrow> (evidence_crop_result \<times> 's) res"

section \<open>Configuration\<close>

definition MATERIALIZATION_PROTOCOL_VERSION :: int where "MATERIALIZATION_PROTOCOL_VERSION = 1"
definition MAX_TOTAL_EVIDENCE_BYTES :: int where "MAX_TOTAL_EVIDENCE_BYTES = 256 * 1024 * 1024"
definition MAX_MATERIALIZED_EVIDENCE_ITEMS :: nat where "MAX_MATERIALIZED_EVIDENCE_ITEMS = 4096"

definition materialize_error :: "port_error_code \<Rightarrow> exn" where
  "materialize_error c = PortError c EVIDENCE_SELECTOR ''materialize_run''"

record materialization_config =
  mc_need :: evidence_need
  mc_detail_resolution :: detail_resolution
  mc_max_total_original_frame_bytes :: int
  mc_max_total_evidence_bytes :: int
  mc_protocol_version :: int

definition default_materialization_config :: materialization_config where
  "default_materialization_config = \<lparr>mc_need = INSPECTION, mc_detail_resolution = UNKNOWN_RESOLUTION,
     mc_max_total_original_frame_bytes = MAX_ORIGINAL_FRAME_TOTAL_BYTES,
     mc_max_total_evidence_bytes = MAX_EVIDENCE_RGB24_FRAME_BYTES,
     mc_protocol_version = MATERIALIZATION_PROTOCOL_VERSION\<rparr>"

definition materialization_config_post :: "materialization_config \<Rightarrow> check" where
  "materialization_config_post v = require
     (3 \<le> mc_max_total_original_frame_bytes v \<and> mc_max_total_original_frame_bytes v \<le> MAX_ORIGINAL_FRAME_TOTAL_BYTES \<and>
      0 \<le> mc_max_total_evidence_bytes v \<and> mc_max_total_evidence_bytes v \<le> MAX_TOTAL_EVIDENCE_BYTES \<and>
      mc_protocol_version v = MATERIALIZATION_PROTOCOL_VERSION)
     (ValueError ''invalid evidence materialization configuration'')"

definition materialization_config_to_mapping :: "materialization_config \<Rightarrow> json res" where
  "materialization_config_to_mapping v = checked (materialization_config_post v)
     (JObj [(''detail_resolution'', JStr (resolution_value (mc_detail_resolution v))),
            (''max_total_evidence_bytes'', JInt (mc_max_total_evidence_bytes v)),
            (''max_total_original_frame_bytes'', JInt (mc_max_total_original_frame_bytes v)),
            (''need'', JStr (need_value (mc_need v))),
            (''protocol_version'', JInt (mc_protocol_version v))])"

definition materialization_producer :: "(string \<Rightarrow> string) \<Rightarrow> materialization_config \<Rightarrow> producer res" where
  "materialization_producer nfc config =
     bindE (materialization_config_to_mapping config) (\<lambda>encoded.
     let v = \<lparr>pr_name = ''visualworld.perception-evidence-materialization'', pr_version = ''1'',
              pr_configuration_sha256 = sha256_hex (render (sort_json encoded))\<rparr>
     in checked (producer_post nfc v) v)"

section \<open>Results\<close>

record materialization_result =
  ma_state :: perception_result_state
  ma_materialized :: "materialized_evidence list"
  ma_reason :: "string option"

definition materialization_result_post :: "(string \<Rightarrow> string) \<Rightarrow> materialization_result \<Rightarrow> check" where
  "materialization_result_post nfc v = run_checks
     [require (length (ma_materialized v) \<le> MAX_MATERIALIZED_EVIDENCE_ITEMS)
        (ValueError ''invalid evidence materialization result''),
      run_checks (map (materialized_evidence_post nfc) (ma_materialized v)),
      (if ma_state v = COMPLETE
       then require (ma_reason v = None) (ValueError ''complete materialization has a reason'')
       else require (ma_materialized v = [] \<and> ma_reason v \<noteq> None \<and> pred_option is_reason (ma_reason v))
              (ValueError ''incomplete materialization is invalid''))]"

definition mk_materialization_result ::
  "(string \<Rightarrow> string) \<Rightarrow> perception_result_state \<Rightarrow> materialized_evidence list \<Rightarrow> string option \<Rightarrow>
   materialization_result res" where
  "mk_materialization_result nfc state materialized reason =
     (let v = \<lparr>ma_state = state, ma_materialized = materialized, ma_reason = reason\<rparr>
      in checked (materialization_result_post nfc v) v)"

text \<open>\<open>FrameDiscontinuityResult\<close> of \<open>coordinator.py\<close>\<close>

record discontinuity_result =
  fdr_state :: perception_result_state
  fdr_discontinuities :: "frame_discontinuity list"
  fdr_reason :: "string option"

definition discontinuity_result_post :: "(string \<Rightarrow> string) \<Rightarrow> discontinuity_result \<Rightarrow> check" where
  "discontinuity_result_post nfc v = run_checks
     [require (length (fdr_discontinuities v) \<le> MAX_PORT_BATCH_ITEMS) (ValueError ''invalid discontinuity result''),
      run_checks (map (discontinuity_post nfc) (fdr_discontinuities v)),
      (if fdr_state v = COMPLETE
       then require (fdr_reason v = None) (ValueError ''complete discontinuity result has a reason'')
       else require (fdr_discontinuities v = [] \<and> fdr_reason v \<noteq> None \<and> pred_option is_reason (fdr_reason v))
              (ValueError ''incomplete discontinuity result is invalid''))]"

definition mk_discontinuity_result ::
  "(string \<Rightarrow> string) \<Rightarrow> perception_result_state \<Rightarrow> frame_discontinuity list \<Rightarrow> string option \<Rightarrow> discontinuity_result res" where
  "mk_discontinuity_result nfc state discontinuities reason =
     (let v = \<lparr>fdr_state = state, fdr_discontinuities = discontinuities, fdr_reason = reason\<rparr>
      in checked (discontinuity_result_post nfc v) v)"

section \<open>OriginalFrameDiscontinuityProvider\<close>

record discontinuity_provider =
  dp_reader_descriptor :: capability_descriptor
  dp_config :: materialization_config
  dp_producer :: producer

definition provider_descriptor :: capability_descriptor where
  "provider_descriptor = \<lparr>cd_port = FRAME_DISCONTINUITY, cd_implementation = ''visualworld.original-frame-discontinuity'',
     cd_implementation_version = ''1'', cd_deterministic = True, cd_offline = True,
     cd_max_batch_items = int MAX_PORT_BATCH_ITEMS, cd_max_payload_bytes = None, cd_contract_version = 1,
     cd_allowed_effects = []\<rparr>"

definition provider_create ::
  "(string \<Rightarrow> string) \<Rightarrow> capability_descriptor \<Rightarrow> materialization_config \<Rightarrow> discontinuity_provider res" where
  "provider_create nfc descriptor config =
     bindE (checked (run_checks
       [require (cd_port descriptor = ORIGINAL_FRAME_READER) (ValueError ''invalid original-frame discontinuity adapter''),
        materialization_config_post config]) ()) (\<lambda>_.
     bindE (materialization_config_to_mapping config) (\<lambda>mapping.
     let encoded = JObj
           [(''algorithm'', JStr ''rgb24_every_fourth_pixel_mean_absolute_delta''), (''algorithm_version'', JInt 1),
            (''materialization'', mapping), (''reader_implementation'', JStr (cd_implementation descriptor)),
            (''reader_implementation_version'', JStr (cd_implementation_version descriptor))];
         producer = \<lparr>pr_name = ''visualworld.original-frame-discontinuity'', pr_version = ''1'',
           pr_configuration_sha256 = sha256_hex (render (sort_json encoded))\<rparr>
     in checked (run_checks [producer_post nfc producer, capability_descriptor_post provider_descriptor])
          \<lparr>dp_reader_descriptor = descriptor, dp_config = config, dp_producer = producer\<rparr>))"

text \<open>
  The checks \<open>_read\<close> and \<open>_read_one\<close> make of what the reader returned: it is validated anew, and a
  complete result holds exactly the requested frames of the source.
\<close>

definition exact_result ::
  "(string \<Rightarrow> string) \<Rightarrow> source \<Rightarrow> frame_ref list \<Rightarrow> original_result \<Rightarrow> original_result res" where
  "exact_result nfc src requested result =
     bindE (except_value (original_result_post nfc result) (reader_error INVALID_REQUEST ''read'')) (\<lambda>owned.
     checked (require (or_state owned = COMPLETE \<longrightarrow>
          length (or_frames owned) = length requested \<and>
          list_all (\<lambda>(original, frame). of_source original = src \<and> of_frame original = frame)
            (zip (or_frames owned) requested)) (reader_error CONFLICT ''read'')) owned)"

definition provider_read ::
  "(string \<Rightarrow> string) \<Rightarrow> 'r reader \<Rightarrow> discontinuity_provider \<Rightarrow> 'r \<Rightarrow> source \<Rightarrow> frame_ref list \<Rightarrow> (original_result \<times> 'r) res" where
  "provider_read nfc read p r src requested =
     bindE (checked (require (int (length requested) \<le> cd_max_batch_items (dp_reader_descriptor p))
       (reader_error LIMIT_EXCEEDED ''read'')) ()) (\<lambda>_.
     bindE (read r src requested (mc_max_total_original_frame_bytes (dp_config p))) (\<lambda>(result, r').
     bindE (exact_result nfc src requested result) (\<lambda>owned. Inr (owned, r'))))"

fun score_frames ::
  "(string \<Rightarrow> string) \<Rightarrow> 'r reader \<Rightarrow> discontinuity_provider \<Rightarrow> 'r \<Rightarrow> source \<Rightarrow> frame_ref option \<Rightarrow> frame_ref list \<Rightarrow>
   frame_discontinuity list \<Rightarrow> (discontinuity_result \<times> 'r) res" where
  "score_frames nfc read p r src previous [] scored =
     bindE (mk_discontinuity_result nfc COMPLETE scored None) (\<lambda>v. Inr (v, r))"
| "score_frames nfc read p r src previous (current # rest) scored =
     bindE (provider_read nfc read p r src (case previous of None \<Rightarrow> [current] | Some f \<Rightarrow> [f, current])) (\<lambda>(result, r').
     if or_state result \<noteq> COMPLETE
     then bindE (mk_discontinuity_result nfc (or_state result) [] (or_reason result)) (\<lambda>v. Inr (v, r'))
     else
       let original = last (or_frames result);
           previous_pixels = map_option (\<lambda>_. of_pixels (hd (or_frames result))) previous in
       bindE (rgb24_discontinuity_basis_points previous_pixels (of_pixels original) (of_width original) (of_height original))
         (\<lambda>score.
       bindE (discontinuity_from_frame nfc current score) (\<lambda>d.
       score_frames nfc read p r' src (Some current) rest (scored @ [d]))))"

text \<open>\<open>score\<close>; its early return for no frames is what the loop returns then\<close>

definition provider_score ::
  "(string \<Rightarrow> string) \<Rightarrow> 'r reader \<Rightarrow> discontinuity_provider \<Rightarrow> 'r \<Rightarrow> source \<Rightarrow> frame_ref option \<Rightarrow> frame_ref list \<Rightarrow>
   (discontinuity_result \<times> 'r) res" where
  "provider_score nfc read p r src previous_selected frames = score_frames nfc read p r src previous_selected frames []"

section \<open>OriginalFrameMaterializer\<close>

definition materializer_create :: "capability_descriptor \<Rightarrow> materialization_config \<Rightarrow> materialization_config res" where
  "materializer_create descriptor config =
     checked (run_checks
       [require (cd_port descriptor = ORIGINAL_FRAME_READER) (ValueError ''invalid original-frame materializer''),
        materialization_config_post config]) config"

definition read_one ::
  "(string \<Rightarrow> string) \<Rightarrow> 'r reader \<Rightarrow> materialization_config \<Rightarrow> 'r \<Rightarrow> source \<Rightarrow> frame_ref \<Rightarrow> (original_result \<times> 'r) res" where
  "read_one nfc read config r src frame =
     bindE (read r src [frame] (mc_max_total_original_frame_bytes config)) (\<lambda>(result, r').
     bindE (exact_result nfc src [frame] result) (\<lambda>owned. Inr (owned, r')))"

definition tracklets_by_id :: "tracklet list \<Rightarrow> (string \<rightharpoonup> tracklet)" where
  "tracklets_by_id ts = map_of (rev (map (\<lambda>t. (tk_tracklet_id t, t)) ts))"

text \<open>the observations of the points of a tracklet, where they are known\<close>

definition selected_observations :: "(string \<rightharpoonup> observation) \<Rightarrow> tracklet \<Rightarrow> observation list" where
  "selected_observations by_observation t = List.map_filter (\<lambda>p. by_observation (tp_observation_id p)) (tk_points t)"

definition crop_item ::
  "(string \<Rightarrow> string) \<Rightarrow> materialization_config \<Rightarrow> evidence_intent \<Rightarrow> evidence_crop_result \<Rightarrow> materialized_evidence res" where
  "crop_item nfc config intent result =
     (case ec_materialized result of
        None \<Rightarrow> Inl (materialize_error CONFLICT)
      | Some item \<Rightarrow> checked (require (me_intent item = intent \<and> me_need item = mc_need config \<and>
            me_detail_resolution item = mc_detail_resolution config) (materialize_error CONFLICT)) item)"

fun materialize_intents ::
  "(string \<Rightarrow> string) \<Rightarrow> 'r reader \<Rightarrow> 's planner \<Rightarrow> materialization_config \<Rightarrow> source \<Rightarrow> (string \<rightharpoonup> frame_ref) \<Rightarrow>
   (string \<rightharpoonup> observation) \<Rightarrow> (string \<rightharpoonup> tracklet) \<Rightarrow> evidence_intent list \<Rightarrow> materialized_evidence list \<Rightarrow> int \<Rightarrow>
   string set \<Rightarrow> 'r \<Rightarrow> 's \<Rightarrow> (materialization_result \<times> 'r \<times> 's) res" where
  "materialize_intents nfc read plan config src by_frame by_observation by_tracklet [] selected spent ids r s =
     bindE (mk_materialization_result nfc COMPLETE selected None) (\<lambda>v. Inr (v, r, s))"
| "materialize_intents nfc read plan config src by_frame by_observation by_tracklet (intent # rest) selected spent ids r s =
     (case (by_frame (ei_frame_id intent), by_tracklet (ei_tracklet_id intent)) of
        (Some frame, Some t) \<Rightarrow>
          let obs = selected_observations by_observation t in
          if length obs \<noteq> length (tk_points t) then Inl (materialize_error CONFLICT)
          else bindE (read_one nfc read config r src frame) (\<lambda>(result, r').
            if or_state result \<noteq> COMPLETE
            then bindE (mk_materialization_result nfc (or_state result) [] (or_reason result)) (\<lambda>v. Inr (v, r', s))
            else bindE (plan s intent t obs (Some (of_pixels (hd (or_frames result)))) (mc_need config)
                         (mc_detail_resolution config)) (\<lambda>(cropped, s').
              bindE (checked (except_value_check (evidence_crop_result_post nfc cropped) (materialize_error INVALID_REQUEST))
                ()) (\<lambda>_.
              if ec_state cropped \<noteq> COMPLETE
              then bindE (mk_materialization_result nfc (ec_state cropped) [] (ec_reason cropped)) (\<lambda>v. Inr (v, r', s'))
              else bindE (crop_item nfc config intent cropped) (\<lambda>item.
                let spent' = spent + int (length (cr_pixels (me_crop item)));
                    evidence_id = ev_evidence_id (me_reference item) in
                if mc_max_total_evidence_bytes config < spent' then Inl (materialize_error LIMIT_EXCEEDED)
                else if evidence_id \<in> ids then Inl (materialize_error CONFLICT)
                else materialize_intents nfc read plan config src by_frame by_observation by_tracklet rest
                       (selected @ [item]) spent' (insert evidence_id ids) r' s'))))
      | _ \<Rightarrow> Inl (materialize_error CONFLICT))"

definition materialize_run ::
  "(string \<Rightarrow> string) \<Rightarrow> 'r reader \<Rightarrow> 's planner \<Rightarrow> materialization_config \<Rightarrow> 'r \<Rightarrow> 's \<Rightarrow> source \<Rightarrow> frame_ref list \<Rightarrow>
   observation list \<Rightarrow> tracklet list \<Rightarrow> evidence_intent list \<Rightarrow> (materialization_result \<times> 'r \<times> 's) res" where
  "materialize_run nfc read plan config r s src frames obs ts intents =
     (if intents \<noteq> [] \<and> mc_detail_resolution config = UNRESOLVABLE
      then bindE (mk_materialization_result nfc UNKNOWN [] (Some ''detail_unresolvable'')) (\<lambda>v. Inr (v, r, s))
      else if intents \<noteq> [] \<and> mc_need config = DOWNSTREAM_DETAIL \<and> mc_detail_resolution config = UNKNOWN_RESOLUTION
      then bindE (mk_materialization_result nfc UNKNOWN [] (Some ''detail_resolution_unknown'')) (\<lambda>v. Inr (v, r, s))
      else if \<not> (distinct (map fr_frame_id frames) \<and> distinct (map ob_observation_id obs) \<and> distinct (map tk_tracklet_id ts))
      then Inl (materialize_error CONFLICT)
      else materialize_intents nfc read plan config src (frames_by_id frames) (by_id obs) (tracklets_by_id ts) intents
             [] 0 {} r s)"

end
