(* ===== verification/Frame_Readers.thy ===== *)
theory Frame_Readers
  imports Frame_Access Record_Properties
begin

text \<open>
  What a reader of original frames promises, as a locale interpreted on the in-memory reader: a
  complete answer holds the requested frames, all of them and in order, with the pixels the reader
  has for them.
\<close>

section \<open>Valid original frames\<close>

definition frame_area :: "source \<Rightarrow> frame_ref \<Rightarrow> int option" where
  "frame_area src f = (case stream_dimensions src f '''' of Inl _ \<Rightarrow> None | Inr (width, height) \<Rightarrow> Some (width * height))"

definition original_valid :: "(string \<Rightarrow> string) \<Rightarrow> original_frame \<Rightarrow> bool" where
  "original_valid nfc v \<longleftrightarrow>
     source_valid nfc (of_source v) \<and> frame_valid nfc (of_frame v) \<and>
     stream_dimensions (of_source v) (of_frame v) ''construct'' = Inr (of_width v, of_height v) \<and>
     of_width v * of_height v * 3 \<le> MAX_ORIGINAL_FRAME_BYTES \<and>
     int (length (of_pixels v)) = of_width v * of_height v * 3 \<and> of_sha256 v = sha256_hex (of_pixels v)"

lemma own_source_valid: "nfc_ascii nfc \<Longrightarrow> source_valid nfc v \<Longrightarrow> own_source nfc v operation = Inr v"
  by (simp add: own_source_def source_roundtrip)

lemma own_frame_valid: "nfc_ascii nfc \<Longrightarrow> frame_valid nfc v \<Longrightarrow> own_frame nfc v operation = Inr v"
  by (simp add: own_frame_def frame_roundtrip)

lemma own_source_accepted: "own_source nfc v operation = Inr s \<Longrightarrow> source_valid nfc s"
  by (auto simp: own_source_def outcome intro: accepted_source)

lemma own_frame_accepted: "own_frame nfc v operation = Inr f \<Longrightarrow> frame_valid nfc f"
  by (auto simp: own_frame_def outcome intro: accepted_frame)

lemma stream_dimensions_operation:
  "stream_dimensions src f operation = Inr d \<longleftrightarrow> stream_dimensions src f operation' = Inr d"
  by (simp add: stream_dimensions_def split: option.splits)

lemma frame_area_eq: "stream_dimensions src f operation = Inr (w, h) \<Longrightarrow> frame_area src f = Some (w * h)"
  by (simp add: frame_area_def stream_dimensions_operation [of src f operation "(w, h)" "''''"])

lemma original_frame_create_accepted:
  "original_frame_create nfc src f pixels = Inr v \<Longrightarrow> original_valid nfc v \<and> of_pixels v = pixels"
  by (auto simp: original_frame_create_def original_valid_def outcome Let_def
      dest: own_source_accepted own_frame_accepted)

lemma original_frame_create_valid:
  "nfc_ascii nfc \<Longrightarrow> original_valid nfc v \<Longrightarrow> original_frame_create nfc (of_source v) (of_frame v) (of_pixels v) = Inr v"
  by (cases v) (simp add: original_frame_create_def original_valid_def own_source_valid own_frame_valid Let_def)

section \<open>Results\<close>

lemma original_result_post_Inr:
  assumes "nfc_ascii nfc" and "original_result_post nfc v = Inr w"
  shows "list_all (original_valid nfc) (or_frames w)" "or_state w = or_state v" "or_reason w = or_reason v"
    "map of_pixels (or_frames w) = map of_pixels (or_frames v)" "or_state w = COMPLETE \<or> or_frames w = []"
proof -
  have owned: "list_all2 (\<lambda>o' o''. original_frame_create nfc (of_source o') (of_frame o') (of_pixels o') = Inr o'')
      (or_frames v) (or_frames w)"
    and same: "or_state w = or_state v" "or_reason w = or_reason v" "or_state v = COMPLETE \<or> or_frames v = []"
    using assms(2) by (auto simp: original_result_post_def outcome mapE_Inr_iff split: if_splits)
  from owned have "list_all2 (\<lambda>o' o''. original_valid nfc o'' \<and> of_pixels o'' = of_pixels o') (or_frames v) (or_frames w)"
    by (rule list_all2_mono) (simp add: original_frame_create_accepted)
  then show "list_all (original_valid nfc) (or_frames w)" "map of_pixels (or_frames w) = map of_pixels (or_frames v)"
    by (induction rule: list_all2_induct) simp_all
  show "or_state w = or_state v" "or_reason w = or_reason v" by (fact same)+
  show "or_state w = COMPLETE \<or> or_frames w = []" using same owned by auto
qed

definition one_request :: "original_frame list \<Rightarrow> bool" where
  "one_request os \<longleftrightarrow> length os \<le> MAX_PORT_BATCH_ITEMS \<and> distinct (map (\<lambda>o'. fr_frame_id (of_frame o')) os) \<and>
     (os = [] \<or> length (remdups (map (\<lambda>o'. so_source_id (of_source o')) os)) = 1 \<and>
       length (remdups (map (\<lambda>o'. fr_stream_index (of_frame o')) os)) = 1)"

lemma complete_result:
  assumes "nfc_ascii nfc" and "list_all (original_valid nfc) os"
  shows "mk_original_result nfc COMPLETE os None = Inr v \<longleftrightarrow>
    one_request os \<and> v = \<lparr>or_state = COMPLETE, or_frames = os, or_reason = None\<rparr>"
proof -
  have "mapE (\<lambda>o'. original_frame_create nfc (of_source o') (of_frame o') (of_pixels o')) os = Inr (map id os)"
    using assms by (intro mapE_cong_Inr) (simp add: original_frame_create_valid list_all_iff)
  then show ?thesis by (auto simp: mk_original_result_def original_result_post_def one_request_def outcome)
qed

lemma incomplete_result:
  "state \<noteq> COMPLETE \<Longrightarrow> mk_original_result nfc state [] reason = Inr v \<longleftrightarrow>
     (\<exists>r. reason = Some r \<and> is_reason r) \<and> v = \<lparr>or_state = state, or_frames = [], or_reason = reason\<rparr>"
  by (cases reason) (auto simp: mk_original_result_def original_result_post_def outcome)

section \<open>The in-memory reader\<close>

definition fake_reader_ok :: "(string \<Rightarrow> string) \<Rightarrow> fake_reader \<Rightarrow> bool" where
  "fake_reader_ok nfc r \<longleftrightarrow>
     source_valid nfc (rd_source r) \<and>
     (\<forall>k v. rd_frames r k = Some v \<longrightarrow> original_valid nfc v \<and> of_source v = rd_source r \<and> fr_frame_id (of_frame v) = k)"

definition fake_pixels :: "fake_reader \<Rightarrow> source \<Rightarrow> frame_ref \<Rightarrow> string option" where
  "fake_pixels r src f =
     (if src = rd_source r
      then (case rd_frames r (fr_frame_id f) of None \<Rightarrow> None
            | Some v \<Rightarrow> if of_frame v = f then Some (of_pixels v) else None)
      else None)"

lemma frames_by_frame_id_Some:
  "frames_by_frame_id os k = Some v \<Longrightarrow> v \<in> set os \<and> fr_frame_id (of_frame v) = k"
  by (auto simp: frames_by_frame_id_def dest!: map_of_SomeD)

lemma fake_reader_create_ok:
  assumes nfc: "nfc_ascii nfc" and "fake_reader_create nfc src frames state reason payload = Inr r"
  shows "fake_reader_ok nfc r" "rd_state r = state" "rd_calls r = []" "rd_max_payload_bytes r = payload"
proof -
  obtain owned_source configured owned where made: "own_source nfc src ''init'' = Inr owned_source"
      "mk_original_result nfc state [] reason = Inr configured"
      "mapE (\<lambda>o'. original_frame_create nfc owned_source (of_frame o') (of_pixels o')) frames = Inr owned"
      "rd_source r = owned_source" "rd_frames r = frames_by_frame_id owned" "rd_state r = or_state configured"
      "rd_calls r = []" "rd_max_payload_bytes r = payload"
    using assms(2) by (auto simp: fake_reader_create_def outcome Let_def)
  then show "rd_calls r = []" "rd_max_payload_bytes r = payload" by simp_all
  show "rd_state r = state" using made(2,6)
    by (auto simp: mk_original_result_def original_result_post_def outcome)
  have valid: "source_valid nfc owned_source" using made(1) by (rule own_source_accepted)
  have "original_valid nfc v \<and> of_source v = owned_source" if "v \<in> set owned" for v
  proof -
    from that obtain i where i: "i < length owned" "v = owned ! i" by (auto simp: in_set_conv_nth)
    define o' where "o' = frames ! i"
    have o': "original_frame_create nfc owned_source (of_frame o') (of_pixels o') = Inr v"
      using made(3) i by (simp add: mapE_Inr_iff list_all2_conv_all_nth o'_def)
    moreover have "of_source v = owned_source"
      using o' by (auto simp: original_frame_create_def own_source_valid [OF nfc valid] outcome Let_def)
    ultimately show ?thesis by (simp add: original_frame_create_accepted)
  qed
  then show "fake_reader_ok nfc r" using valid made(4,5) by (auto simp: fake_reader_ok_def dest: frames_by_frame_id_Some)
qed

definition total_bytes :: "original_frame list \<Rightarrow> int" where
  "total_bytes os = (\<Sum>o' \<leftarrow> os. int (length (of_pixels o')))"

lemma requested_bytes_total:
  assumes "list_all2 (\<lambda>f o'. original_valid nfc o' \<and> of_source o' = src \<and> of_frame o' = f) fs os"
  shows "requested_bytes src operation expected fs = Inr (expected + total_bytes os)"
  using assms
proof (induction arbitrary: expected rule: list_all2_induct)
  case (Cons f fs o' os)
  from Cons.hyps have "stream_dimensions src f operation = Inr (of_width o', of_height o')"
    by (auto simp: original_valid_def stream_dimensions_operation [of src f operation _ "''construct''"])
  with Cons show ?case by (auto simp: original_valid_def total_bytes_def Let_def)
qed (simp add: total_bytes_def)

lemma list_all2_map_eq: "list_all2 (\<lambda>x y. P x y \<and> g y = x) xs ys \<Longrightarrow> xs = map g ys"
  by (induction rule: list_all2_induct) simp_all

lemma fake_read_complete:
  assumes nfc: "nfc_ascii nfc" and ok: "fake_reader_ok nfc r" and state: "rd_state r = COMPLETE"
    and src: "source_valid nfc src" and fs: "\<forall>f \<in> set fs. frame_valid nfc f"
  shows "fake_read nfc r src fs n = Inr (v, r') \<longleftrightarrow>
    src = rd_source r \<and> fs \<noteq> [] \<and> distinct (map (\<lambda>f. (fr_stream_index f, fr_decode_index f)) fs) \<and>
    1 \<le> n \<and> n \<le> MAX_ORIGINAL_FRAME_TOTAL_BYTES \<and>
    (\<exists>os. list_all2 (\<lambda>f o'. rd_frames r (fr_frame_id f) = Some o' \<and> of_frame o' = f) fs os \<and> one_request os \<and>
       total_bytes os \<le> min n (rd_max_payload_bytes r) \<and>
       v = \<lparr>or_state = COMPLETE, or_frames = os, or_reason = None\<rparr>) \<and>
    r' = r\<lparr>rd_calls := rd_calls r @ [\<lparr>pc_port = ORIGINAL_FRAME_READER, pc_operation = ''read'', pc_item_count = length fs\<rparr>]\<rparr>"
    (is "?run \<longleftrightarrow> ?ok")
proof -
  have requested: "mapE (\<lambda>f. own_frame nfc f ''read'') fs = Inr fs"
    using fs mapE_cong_Inr [of fs "\<lambda>f. own_frame nfc f ''read''" id] by (simp add: own_frame_valid [OF nfc])
  have stored: "mapE (stored_frame r) fs = Inr os \<longleftrightarrow>
      list_all2 (\<lambda>f o'. rd_frames r (fr_frame_id f) = Some o' \<and> of_frame o' = f) fs os" for os
    unfolding mapE_Inr_iff list_all2_conv_all_nth by (auto simp: stored_frame_def split: option.splits if_splits)
  have valid: "list_all2 (\<lambda>f o'. original_valid nfc o' \<and> of_source o' = rd_source r \<and> of_frame o' = f) fs os"
    if "list_all2 (\<lambda>f o'. rd_frames r (fr_frame_id f) = Some o' \<and> of_frame o' = f) fs os" for os
    using that by (rule list_all2_mono) (use ok in \<open>auto simp: fake_reader_ok_def\<close>)
  have member: "list_all (original_valid nfc) os" "fs = map of_frame os" "\<forall>o' \<in> set os. of_source o' = rd_source r"
    if "list_all2 (\<lambda>f o'. rd_frames r (fr_frame_id f) = Some o' \<and> of_frame o' = f) fs os" for os
    using valid [OF that] by (induction rule: list_all2_induct) simp_all
  have "is_port_token ''read''" by (simp add: is_port_token_def token_evaluation)
  note call = record_call_ok [OF this]
  have read: "?run \<longleftrightarrow> src = rd_source r \<and> (1 \<le> length fs \<and> length fs \<le> MAX_PORT_BATCH_ITEMS) \<and>
      (distinct (map fr_frame_id fs) \<and> distinct (map (\<lambda>f. (fr_stream_index f, fr_decode_index f)) fs)) \<and>
      (list_all (\<lambda>f. fr_source_id f = so_source_id src) fs \<and> length (remdups (map fr_stream_index fs)) = 1) \<and>
      (\<exists>expected. requested_bytes src ''read'' 0 fs = Inr expected \<and> 1 \<le> n \<and> n \<le> MAX_ORIGINAL_FRAME_TOTAL_BYTES \<and>
         expected \<le> min n (rd_max_payload_bytes r)) \<and>
      (\<exists>os. mapE (stored_frame r) fs = Inr os \<and> mk_original_result nfc COMPLETE os None = Inr v) \<and>
      r' = r\<lparr>rd_calls := rd_calls r @ [\<lparr>pc_port = ORIGINAL_FRAME_READER, pc_operation = ''read'', pc_item_count = length fs\<rparr>]\<rparr>"
    by (simp add: fake_read_def fake_answer_def own_source_valid [OF nfc src] requested bindE_Inr_iff checked_Inr_iff state
        reader_descriptor_def call cong: conj_cong) blast
  show ?thesis
  proof
    assume ?run
    then obtain expected os where run: "src = rd_source r" "1 \<le> length fs" "length fs \<le> MAX_PORT_BATCH_ITEMS"
        "distinct (map (\<lambda>f. (fr_stream_index f, fr_decode_index f)) fs)"
        "requested_bytes src ''read'' 0 fs = Inr expected" "1 \<le> n" "n \<le> MAX_ORIGINAL_FRAME_TOTAL_BYTES"
        "expected \<le> min n (rd_max_payload_bytes r)" "mapE (stored_frame r) fs = Inr os"
        "mk_original_result nfc COMPLETE os None = Inr v"
        "r' = r\<lparr>rd_calls := rd_calls r @ [\<lparr>pc_port = ORIGINAL_FRAME_READER, pc_operation = ''read'', pc_item_count = length fs\<rparr>]\<rparr>"
      unfolding read by blast
    note found = run(9) [unfolded stored]
    have "total_bytes os \<le> min n (rd_max_payload_bytes r)"
      using run(1,5,8) requested_bytes_total [OF valid [OF found]] by simp
    moreover have "fs \<noteq> []" "one_request os" "v = \<lparr>or_state = COMPLETE, or_frames = os, or_reason = None\<rparr>"
      using run(2,10) complete_result [OF nfc member(1) [OF found], of v] by auto
    ultimately show ?ok using run(1,4,6,7,11) found by blast
  next
    assume ok': ?ok
    then obtain os where found: "list_all2 (\<lambda>f o'. rd_frames r (fr_frame_id f) = Some o' \<and> of_frame o' = f) fs os"
      and one: "one_request os" and total: "total_bytes os \<le> min n (rd_max_payload_bytes r)"
      and v: "v = \<lparr>or_state = COMPLETE, or_frames = os, or_reason = None\<rparr>" by blast
    note os = member [OF found]
    have bytes: "requested_bytes src ''read'' 0 fs = Inr (total_bytes os)"
      using requested_bytes_total [OF valid [OF found]] ok' by simp
    have "fr_source_id f = so_source_id src" if "f \<in> set fs" for f
    proof -
      from that os obtain o' where "o' \<in> set os" "f = of_frame o'" by auto
      with os have "stream_dimensions src f ''construct'' = Inr (of_width o', of_height o')"
        using ok' by (auto simp: list_all_iff original_valid_def)
      then show ?thesis by (simp add: stream_dimensions_def split: if_splits)
    qed
    then have sources: "list_all (\<lambda>f. fr_source_id f = so_source_id src) fs" by (simp add: list_all_iff)
    have shape: "length fs \<le> MAX_PORT_BATCH_ITEMS" "distinct (map fr_frame_id fs)"
        "length (remdups (map fr_stream_index fs)) = 1" "1 \<le> length fs"
      using one ok' by (auto simp: os(2) one_request_def comp_def Suc_le_eq)
    have "mapE (stored_frame r) fs = Inr os" "mk_original_result nfc COMPLETE os None = Inr v"
      using found stored [of os] complete_result [OF nfc os(1), of v] one v by simp_all
    with shape sources bytes total ok' show ?run unfolding read by blast
  qed
qed

end
