(* ===== verification/Evidence_Facts.thy ===== *)
theory Evidence_Facts
  imports Evidence_Selector
begin

text \<open>
  Lemmas on evidence selection: when a copy, a score, an intent and a plan are built, and that a plan
  is built for every valid tracklet with its observations.
\<close>

section \<open>Copies\<close>

lemma own_copies [outcome]:
  "own_producer nfc p = Inr p' \<longleftrightarrow> producer_post nfc p = None \<and> p' = p"
  "own_time nfc t = Inr t' \<longleftrightarrow> media_time_valid nfc t \<and> t' = t"
  "own_artifact nfc a = Inr a' \<longleftrightarrow> artifact_post nfc a = None \<and> a' = a"
  by (auto simp: own_producer_def own_time_def own_artifact_def media_time_valid_def outcome)

lemma own_geometry_Inr [outcome]: "own_geometry nfc g = Inr g' \<longleftrightarrow> geometry_valid nfc g \<and> g' = g"
  by (cases "ge_producer_space g"; cases "ge_coefficients g")
    (auto simp: own_geometry_def own_rational_def geometry_valid_def affine_coefficients_valid_def outcome)

lemma own_observation_Inr [outcome]:
  "own_observation nfc ob = Inr ob' \<longleftrightarrow> observation_post nfc ob = None \<and> ob' = ob"
  using observation_postD(6,7,12) [of nfc ob] by (auto simp: own_observation_def outcome)

lemma own_track_point_Inr [outcome]:
  "own_track_point nfc p = Inr p' \<longleftrightarrow> track_point_post nfc p = None \<and> p' = p"
  using track_point_postD(6,7) [of nfc p] by (auto simp: own_track_point_def outcome)

lemma mapE_own: "(\<And>x y. f x = Inr y \<longleftrightarrow> P x \<and> y = x) \<Longrightarrow> mapE f xs = Inr ys \<longleftrightarrow> list_all P xs \<and> ys = xs"
  by (induction xs arbitrary: ys) (auto simp: outcome)

lemma own_tracklet_Inr [outcome]: "own_tracklet nfc t = Inr t' \<longleftrightarrow> tracklet_post nfc t = None \<and> t' = t"
proof -
  have "1 \<le> length (tk_points t) \<and> length (tk_points t) \<le> MAX_PORT_BATCH_ITEMS \<and>
      list_all (\<lambda>p. track_point_post nfc p = None) (tk_points t) \<and> producer_post nfc (tk_producer t) = None"
    if "tracklet_post nfc t = None"
    using tracklet_postD(7-9,15) [OF that]
    by (auto simp: list_all_iff MAX_TRACK_POINTS_def MAX_PORT_BATCH_ITEMS_def Suc_le_eq)
  then show ?thesis
    by (auto simp: own_tracklet_def outcome mapE_own [OF own_track_point_Inr])
qed

lemma own_evidence_ref_Inr [outcome]: "own_evidence_ref nfc v = Inr v' \<longleftrightarrow> evidence_valid nfc v \<and> v' = v"
  by (cases "ev_geometry v") (auto simp: own_evidence_ref_def evidence_valid_def outcome)

lemma own_score_Inr [outcome]: "own_score nfc v = Inr v' \<longleftrightarrow> evidence_score_post nfc v = None \<and> v' = v"
  by (auto simp: own_score_def evidence_score_post_def outcome)

lemma own_intent_Inr [outcome]: "own_intent nfc v = Inr v' \<longleftrightarrow> evidence_intent_post nfc v = None \<and> v' = v"
  by (auto simp: own_intent_def evidence_intent_post_def outcome)

section \<open>Scores\<close>

lemma bit_length_le: "bit_length n \<le> k \<longleftrightarrow> n < 2 ^ k"
proof (induction n arbitrary: k rule: bit_length.induct)
  case (1 n)
  show ?case
  proof (cases "n = 0")
    case True
    then show ?thesis by (simp add: bit_length.simps)
  next
    case False
    then have step: "bit_length n = Suc (bit_length (n div 2))" by (subst bit_length.simps) simp
    show ?thesis
    proof (cases k)
      case (Suc j)
      have "n div 2 < 2 ^ j \<longleftrightarrow> n < 2 ^ j * 2" by (rule div_less_iff_less_mult) simp
      with Suc 1 [OF False] show ?thesis by (simp add: step mult.commute)
    qed (use False step in simp)
  qed
qed

lemma geometry_measures_bounds:
  assumes "geometry_valid nfc g" and "geometry_measures g = (visible, whole, touches)"
  shows "1 \<le> visible" "visible \<le> whole" "whole \<le> MAX_SOURCE_AREA_PIXELS" "0 \<le> touches" "touches \<le> 4"
proof -
  obtain x0 y0 x1 y1 where box: "ge_box_xyxy g = (x0, y0, x1, y1)" by (metis prod.collapse)
  have b: "0 \<le> x0" "x0 < x1" "x1 \<le> ge_source_width g" "0 \<le> y0" "y0 < y1" "y1 \<le> ge_source_height g"
      "ge_source_width g \<le> MAX_I31" "ge_source_height g \<le> MAX_I31"
    using assms(1) by (simp_all add: geometry_valid_def geometry_post_def box outcome)
  have eq: "visible = (x1 - x0) * (y1 - y0)" "whole = ge_source_width g * ge_source_height g"
    and t: "touches = of_bool (x0 = 0) + of_bool (y0 = 0) + of_bool (x1 = ge_source_width g) + of_bool (y1 = ge_source_height g)"
    using assms(2) by (simp_all add: geometry_measures_def box)
  have "0 < visible" unfolding eq using b by (intro mult_pos_pos) simp_all
  then show "1 \<le> visible" by simp
  show "visible \<le> whole" unfolding eq using b by (intro mult_mono) simp_all
  show "whole \<le> MAX_SOURCE_AREA_PIXELS" unfolding eq MAX_SOURCE_AREA_PIXELS_def using b by (intro mult_mono) simp_all
  show "0 \<le> touches" "touches \<le> 4" unfolding t by simp_all
qed

text \<open>A media time is \<open>a / d\<close> with \<open>|a| < 2 ^ 95\<close> and \<open>0 < d < 2 ^ 32\<close>.\<close>

lemma media_seconds_parts:
  assumes "media_time_valid nfc t"
  shows "\<exists>a d. evidence_media_seconds t = of_int a / of_int d \<and> \<bar>a\<bar> < 2 ^ 95 \<and> 0 < d \<and> d < 2 ^ 32"
proof -
  define v where "v = int_of_decimal (mt_value t)"
  define n where "n = int_of_decimal (tb_numerator (mt_time_base t))"
  define d where "d = int_of_decimal (tb_denominator (mt_time_base t))"
  have "- (2 ^ 63) \<le> v" "v \<le> 2 ^ 63" and n: "1 \<le> n" "n \<le> 2 ^ 32 - 1" and d: "1 \<le> d" "d \<le> 2 ^ 32 - 1"
    using assms by (simp_all add: media_time_valid_def media_time_post_def time_base_post_def outcome v_def n_def d_def
        MIN_I64_def MAX_I64_def MAX_U32_def)
  then have "\<bar>v\<bar> \<le> 2 ^ 63" by linarith
  with n have "\<bar>v * n\<bar> \<le> 2 ^ 63 * (2 ^ 32 - 1)"
    unfolding abs_mult by (intro mult_mono) simp_all
  then have "\<bar>v * n\<bar> < 2 ^ 95" by simp
  moreover have "evidence_media_seconds t = of_int (v * n) / of_int d"
    by (simp add: evidence_media_seconds_def v_def n_def d_def)
  ultimately show ?thesis using d by (intro exI [of _ "v * n"] exI [of _ d]) simp
qed

lemma quotient_of_bounds:
  assumes "q = of_int a / of_int d" and "0 < d"
  shows "\<bar>fst (quotient_of q)\<bar> \<le> \<bar>a\<bar>" "snd (quotient_of q) \<le> d" "0 < snd (quotient_of q)"
proof -
  obtain n m where q: "quotient_of q = (n, m)" by (cases "quotient_of q")
  have m: "0 < m" and coprime: "coprime n m" using q by (simp_all add: quotient_of_denom_pos quotient_of_coprime)
  have "of_int a / of_int d = (of_int n / of_int m :: rat)" using quotient_of_div [OF q] assms(1) by simp
  then have "(of_int (a * m) :: rat) = of_int (n * d)" using assms(2) m by (simp add: field_simps)
  then have cross: "a * m = n * d" by (simp only: of_int_eq_iff)
  then have "m dvd n * d" by (metis dvd_triv_right)
  with coprime have "m dvd d" by (simp add: coprime_commute coprime_dvd_mult_right_iff)
  then obtain k where k: "d = m * k" ..
  then have "0 < k" using assms(2) m by (simp add: zero_less_mult_iff)
  have "a = n * k" using cross k m by simp
  then show "\<bar>fst (quotient_of q)\<bar> \<le> \<bar>a\<bar>" using \<open>0 < k\<close> mult_left_mono [of 1 k "\<bar>n\<bar>"] by (simp add: q abs_mult)
  show "snd (quotient_of q) \<le> d" using k \<open>0 < k\<close> m by (simp add: q)
  show "0 < snd (quotient_of q)" by (simp add: q m)
qed

lemma midpoint_bounds:
  assumes "media_time_valid nfc t" "media_time_valid nfc s" "media_time_valid nfc e"
  defines "q \<equiv> \<bar>2 * evidence_media_seconds t - evidence_media_seconds s - evidence_media_seconds e\<bar>"
  shows "0 \<le> fst (quotient_of q)" "fst (quotient_of q) < 2 ^ 161" "0 < snd (quotient_of q)" "snd (quotient_of q) < 2 ^ 96"
proof -
  obtain a b c i j k where parts: "evidence_media_seconds t = of_int a / of_int i" "evidence_media_seconds s = of_int b / of_int j"
      "evidence_media_seconds e = of_int c / of_int k"
    and a: "\<bar>a\<bar> < 2 ^ 95" "\<bar>b\<bar> < 2 ^ 95" "\<bar>c\<bar> < 2 ^ 95"
    and i: "0 < i" "0 < j" "0 < k" "i < 2 ^ 32" "j < 2 ^ 32" "k < 2 ^ 32"
    using media_seconds_parts [OF assms(1)] media_seconds_parts [OF assms(2)] media_seconds_parts [OF assms(3)] by metis
  define z where "z = 2 * (a * (j * k)) - b * (i * k) - c * (i * j)"
  have "2 * (of_int a / of_int i) - of_int b / of_int j - of_int c / of_int k = (of_int z / of_int (i * j * k) :: rat)"
    using i by (simp add: z_def field_simps)
  then have q: "q = of_int \<bar>z\<bar> / of_int (i * j * k)"
    using i by (simp add: q_def parts abs_divide abs_mult)
  have term_le: "\<bar>x * (u * v)\<bar> \<le> (2 ^ 95 - 1) * ((2 ^ 32 - 1) * (2 ^ 32 - 1))"
    if "\<bar>x\<bar> < 2 ^ 95" "0 < u" "0 < v" "u < 2 ^ 32" "v < 2 ^ 32" for x u v :: int
    using that unfolding abs_mult by (intro mult_mono) simp_all
  have "\<bar>z\<bar> \<le> 2 * \<bar>a * (j * k)\<bar> + \<bar>b * (i * k)\<bar> + \<bar>c * (i * j)\<bar>"
    unfolding z_def by linarith
  also have "\<dots> \<le> 4 * ((2 ^ 95 - 1) * ((2 ^ 32 - 1) * (2 ^ 32 - 1)))"
    using term_le [of a j k] term_le [of b i k] term_le [of c i j] a i by linarith
  finally have z: "\<bar>z\<bar> < 2 ^ 161" by simp
  have "i * j * k \<le> (2 ^ 32 - 1) * (2 ^ 32 - 1) * (2 ^ 32 - 1)"
    using i by (intro mult_mono) simp_all
  then have d: "i * j * k < 2 ^ 96" by simp
  have pos: "0 < i * j * k" using i by simp
  note bounds = quotient_of_bounds [OF q pos]
  show "fst (quotient_of q) < 2 ^ 161" "0 < snd (quotient_of q)" "snd (quotient_of q) < 2 ^ 96"
    using bounds z d by linarith+
  have "q = of_int (fst (quotient_of q)) / of_int (snd (quotient_of q))" by (rule quotient_of_div) simp
  moreover have "0 \<le> q" by (simp add: q_def)
  ultimately have "(0 :: rat) \<le> of_int (fst (quotient_of q)) / of_int (snd (quotient_of q))" by metis
  then show "0 \<le> fst (quotient_of q)" using bounds(3) by (simp add: zero_le_divide_iff)
qed

definition score_of :: "observation \<Rightarrow> nat \<Rightarrow> nat \<Rightarrow> media_time \<Rightarrow> media_time \<Rightarrow> evidence_score" where
  "score_of ob i n start finish =
     (case geometry_measures (ob_geometry ob) of (visible, whole, touches) \<Rightarrow>
        let midpoint = \<bar>2 * evidence_media_seconds (ob_pts ob) - evidence_media_seconds start
                        - evidence_media_seconds finish\<bar>
        in \<lparr>es_boundary_touch_count = touches, es_confidence_millionths = ob_confidence_millionths ob,
            es_visible_area_pixels = visible, es_source_area_pixels = whole,
            es_visible_area_millionths = visible * MILLION div whole,
            es_midpoint_numerator = fst (quotient_of midpoint), es_midpoint_denominator = snd (quotient_of midpoint),
            es_point_index = int i, es_point_count = int n, es_pts = ob_pts ob,
            es_observation_id = ob_observation_id ob\<rparr>)"

lemma score_observation_valid:
  assumes ob: "observation_post nfc ob = None" and ends: "media_time_valid nfc start" "media_time_valid nfc finish"
    and i: "i < n" "n \<le> MAX_PORT_BATCH_ITEMS"
  shows "score_observation nfc ob i n start finish = Inr (score_of ob i n start finish)"
    and "evidence_score_post nfc (score_of ob i n start finish) = None"
proof -
  obtain visible whole touches where m: "geometry_measures (ob_geometry ob) = (visible, whole, touches)"
    by (metis prod.collapse)
  note D = observation_postD [OF ob]
  note b = geometry_measures_bounds [OF D(7) m]
  note mid = midpoint_bounds [OF D(6) ends]
  have ratio: "0 \<le> visible * MILLION div whole" "visible * MILLION div whole \<le> MILLION"
  proof -
    show "0 \<le> visible * MILLION div whole" using b by (simp add: MILLION_def pos_imp_zdiv_nonneg_iff)
    have "visible * MILLION div whole \<le> whole * MILLION div whole"
      using b by (intro zdiv_mono1 mult_right_mono) (simp_all add: MILLION_def)
    then show "visible * MILLION div whole \<le> MILLION" using b by simp
  qed
  have norm: "quotient_of (of_int (fst (quotient_of q)) / of_int (snd (quotient_of q))) = quotient_of q" for q :: rat
    using quotient_of_div [of q "fst (quotient_of q)" "snd (quotient_of q)"] by simp
  show post: "evidence_score_post nfc (score_of ob i n start finish) = None"
    using b mid D(6,10,11,15) i ratio
    by (simp add: evidence_score_post_def score_of_def Let_def m outcome bit_length_le norm
        MAX_MIDPOINT_DISTANCE_NUMERATOR_BITS_def MAX_MIDPOINT_DISTANCE_DENOMINATOR_BITS_def nat_less_iff)
  then show "score_observation nfc ob i n start finish = Inr (score_of ob i n start finish)"
    using D(6) by (simp add: score_observation_def score_of_def Let_def m outcome)
qed

end
