(* ===== verification/Evidence_Plans.thy ===== *)
theory Evidence_Plans
  imports Evidence_Facts "HOL-Library.Multiset"
begin

text \<open>
  The plan of a tracklet: its observations scored, ranked and cut to the selection bound, computed
  without a failure for every valid tracklet with its observations.
\<close>

section \<open>The specification\<close>

definition evidence_matches :: "tracklet \<Rightarrow> observation list \<Rightarrow> bool" where
  "evidence_matches t obs \<longleftrightarrow>
     distinct (map ob_observation_id obs) \<and>
     ob_observation_id ` set obs = tp_observation_id ` set (tk_points t) \<and>
     (\<forall>p \<in> set (tk_points t). point_matches t p (the (by_id obs (tp_observation_id p))))"

definition scored :: "tracklet \<Rightarrow> observation list \<Rightarrow> (evidence_score \<times> observation) list" where
  "scored t obs = map (\<lambda>(i, p). let ob = the (by_id obs (tp_observation_id p))
     in (score_of ob i (length (tk_points t)) (start_pts t) (end_pts t), ob)) (enumerate 0 (tk_points t))"

definition best :: "int \<Rightarrow> tracklet \<Rightarrow> observation list \<Rightarrow> (evidence_score \<times> observation) list" where
  "best n t obs = take (nat n) (sort_key (\<lambda>item. score_rank (fst item)) (scored t obs))"

definition intent_of :: "int \<Rightarrow> string \<Rightarrow> nat \<Rightarrow> evidence_score \<times> observation \<Rightarrow> evidence_intent" where
  "intent_of n tracklet_id index item =
     (case item of (score, ob) \<Rightarrow>
        \<lparr>ei_rank = int index + 1, ei_tracklet_id = tracklet_id, ei_observation_id = ob_observation_id ob,
         ei_source_id = ob_source_id ob, ei_frame_id = ob_frame_id ob, ei_stream_index = ob_stream_index ob,
         ei_pts = ob_pts ob, ei_geometry = ob_geometry ob, ei_score = score, ei_selector = selector_producer n,
         ei_kind = evidence_kind, ei_retention = evidence_retention, ei_deletion_owner = evidence_deletion_owner\<rparr>)"

definition plan_of :: "int \<Rightarrow> tracklet \<Rightarrow> observation list \<Rightarrow> evidence_plan_result" where
  "plan_of n t obs =
     \<lparr>ep_state = COMPLETE, ep_intents = map (\<lambda>(i, item). intent_of n (tk_tracklet_id t) i item) (enumerate 0 (best n t obs)),
      ep_reason = None\<rparr>"

section \<open>Sorting and numbering\<close>

lemma map_insort_key: "map g (insort_key (\<lambda>x. f (g x)) x xs) = insort_key f (g x) (map g xs)"
  by (induction xs) auto

lemma map_sort_key: "map g (sort_key (\<lambda>x. f (g x)) xs) = sort_key f (map g xs)"
proof (induction xs)
  case (Cons x xs)
  then show ?case by (simp add: map_insort_key [of g f x "sort_key (\<lambda>x. f (g x)) xs"])
qed simp

lemma sort_zip_key: "map snd (sort_key fst (zip (map f xs) xs)) = sort_key f xs"
proof -
  have "zip (map f xs) xs = map (\<lambda>x. (f x, x)) xs" by (induction xs) auto
  moreover have "sort_key fst (map (\<lambda>x. (f x, x)) xs) = map (\<lambda>x. (f x, x)) (sort_key (\<lambda>x. fst (f x, x)) xs)"
    by (rule map_sort_key [symmetric])
  ultimately show ?thesis by (simp add: comp_def)
qed

lemma mapE_from_enumerate:
  "(\<And>j x. (j, x) \<in> set (enumerate i xs) \<Longrightarrow> f j x = Inr (g j x)) \<Longrightarrow>
   mapE_from i f xs = Inr (map (\<lambda>(j, x). g j x) (enumerate i xs))"
  by (induction xs arbitrary: i) simp_all

lemma map_snd_enumerate: "map (\<lambda>p. f (snd p)) (enumerate i xs) = map f xs"
  by (induction xs arbitrary: i) simp_all

lemma by_id_Some:
  assumes "distinct (map ob_observation_id obs)"
  shows "by_id obs k = Some ob \<longleftrightarrow> ob \<in> set obs \<and> ob_observation_id ob = k"
proof -
  have "distinct (map fst (rev (map (\<lambda>ob. (ob_observation_id ob, ob)) obs)))"
    using assms by (simp add: comp_def rev_map [symmetric])
  then show ?thesis by (auto simp: by_id_def map_of_eq_Some_iff)
qed

section \<open>The candidates\<close>

lemma matched_observation:
  assumes "evidence_matches t obs" and "p \<in> set (tk_points t)"
  shows "\<exists>ob. by_id obs (tp_observation_id p) = Some ob \<and> ob \<in> set obs \<and> ob_observation_id ob = tp_observation_id p \<and>
    point_matches t p ob"
proof -
  have distinct: "distinct (map ob_observation_id obs)" using assms(1) by (simp add: evidence_matches_def)
  have "tp_observation_id p \<in> ob_observation_id ` set obs" using assms by (auto simp: evidence_matches_def)
  then obtain ob where "ob \<in> set obs" "ob_observation_id ob = tp_observation_id p" by auto
  moreover from this have "by_id obs (tp_observation_id p) = Some ob" using by_id_Some [OF distinct] by blast
  ultimately show ?thesis using assms by (auto simp: evidence_matches_def)
qed

lemma scored_ids:
  assumes "evidence_matches t obs"
  shows "map (\<lambda>item. ob_observation_id (snd item)) (scored t obs) = map tp_observation_id (tk_points t)"
proof -
  have "ob_observation_id (the (by_id obs (tp_observation_id p))) = tp_observation_id p" if "p \<in> set (tk_points t)" for p
    using matched_observation [OF assms that] by auto
  then have "map (\<lambda>(i, p). ob_observation_id (the (by_id obs (tp_observation_id p)))) (enumerate 0 (tk_points t)) =
      map (\<lambda>(i, p). tp_observation_id p) (enumerate 0 (tk_points t))"
    by (auto simp: in_set_enumerate_eq)
  also have "\<dots> = map tp_observation_id (tk_points t)" by (simp add: split_def map_snd_enumerate)
  finally show ?thesis by (simp add: scored_def Let_def split_def comp_def)
qed

lemma tracklet_ends:
  assumes "tracklet_post nfc t = None"
  shows "media_time_valid nfc (start_pts t)" "media_time_valid nfc (end_pts t)"
  using tracklet_postD(7,9) [OF assms] by (auto simp: start_pts_def end_pts_def intro: track_point_postD(6))

lemma scored_valid:
  assumes t: "tracklet_post nfc t = None" and obs: "\<forall>ob \<in> set obs. observation_post nfc ob = None"
    and matches: "evidence_matches t obs" and item: "(score, ob) \<in> set (scored t obs)"
  shows "ob \<in> set obs" "evidence_score_post nfc score = None" "es_observation_id score = ob_observation_id ob"
    "es_pts score = ob_pts ob"
    "geometry_measures (ob_geometry ob) =
       (es_visible_area_pixels score, es_source_area_pixels score, es_boundary_touch_count score)"
proof -
  obtain i p where ip: "(i, p) \<in> set (enumerate 0 (tk_points t))" "ob = the (by_id obs (tp_observation_id p))"
      "score = score_of ob i (length (tk_points t)) (start_pts t) (end_pts t)"
    using item by (auto simp: scored_def Let_def)
  then have p: "p \<in> set (tk_points t)" "i < length (tk_points t)" by (auto simp: in_set_enumerate_eq)
  show ob: "ob \<in> set obs" using matched_observation [OF matches p(1)] ip(2) by auto
  have len: "length (tk_points t) \<le> MAX_PORT_BATCH_ITEMS"
    using tracklet_postD(8) [OF t] by (simp add: MAX_TRACK_POINTS_def MAX_PORT_BATCH_ITEMS_def)
  show "evidence_score_post nfc score = None"
    unfolding ip(3) by (rule score_observation_valid(2) [OF _ tracklet_ends [OF t] p(2) len]) (use ob obs in blast)
  show "es_observation_id score = ob_observation_id ob" "es_pts score = ob_pts ob"
    "geometry_measures (ob_geometry ob) =
       (es_visible_area_pixels score, es_source_area_pixels score, es_boundary_touch_count score)"
    unfolding ip(3) by (simp_all add: score_of_def Let_def split: prod.split)
qed

lemma best_candidates:
  "set (best n t obs) \<subseteq> set (scored t obs)"
  "evidence_matches t obs \<Longrightarrow> tracklet_post nfc t = None \<Longrightarrow> distinct (map (\<lambda>item. ob_observation_id (snd item)) (best n t obs))"
proof -
  show "set (best n t obs) \<subseteq> set (scored t obs)"
    unfolding best_def by (rule subset_trans [OF set_take_subset]) simp
  assume matches: "evidence_matches t obs" and t: "tracklet_post nfc t = None"
  let ?sorted = "sort_key (\<lambda>item. score_rank (fst item)) (scored t obs)"
  have "mset (map (\<lambda>item. ob_observation_id (snd item)) ?sorted) = mset (map tp_observation_id (tk_points t))"
    by (simp only: mset_map mset_sort) (simp only: mset_map [symmetric] scored_ids [OF matches])
  with tracklet_postD(10) [OF t] have "distinct (map (\<lambda>item. ob_observation_id (snd item)) ?sorted)"
    by (metis mset_eq_imp_distinct_iff)
  then show "distinct (map (\<lambda>item. ob_observation_id (snd item)) (best n t obs))"
    unfolding best_def by (metis distinct_take take_map)
qed

section \<open>The plan\<close>

lemma selector_producer_valid:
  assumes "nfc_ascii nfc"
  shows "producer_post nfc (selector_producer n) = None"
  using assms
  by (simp add: producer_post_def selector_producer_def sha256_check_None general_ok_ascii is_sha256_ascii
      token_check_literal char_evaluation MAX_TOKEN_BYTES_def MAX_GENERAL_STRING_BYTES_def)

lemma intent_of_valid:
  assumes nfc: "nfc_ascii nfc" and t: "tracklet_post nfc t = None" and obs: "\<forall>ob \<in> set obs. observation_post nfc ob = None"
    and matches: "evidence_matches t obs" and item: "item \<in> set (scored t obs)" and i: "int i < MAX_SELECTED_OBSERVATIONS"
  shows "evidence_intent_post nfc (intent_of n (tk_tracklet_id t) i item) = None"
    and "make_intent nfc s (tk_tracklet_id t) i item = Inr (intent_of (sl_max_selected s) (tk_tracklet_id t) i item)"
proof -
  obtain score ob where pair: "item = (score, ob)" by (cases item)
  note facts = scored_valid [OF t obs matches item [unfolded pair]]
  have post: "observation_post nfc ob = None" using facts(1) obs by blast
  note D = observation_postD [OF post]
  have trk: "is_typed_id ''trk'' (tk_tracklet_id t)"
    using t unfolding tracklet_post_def run_checks_ConsN typed_id_check_None by blast
  show valid: "evidence_intent_post nfc (intent_of n (tk_tracklet_id t) i item) = None" for n
    using facts D(4-7,13-15) trk i selector_producer_valid [OF nfc]
    by (simp add: evidence_intent_post_def intent_of_def pair outcome MAX_I31_def MAX_STREAM_INDEX_def)
  show "make_intent nfc s (tk_tracklet_id t) i item = Inr (intent_of (sl_max_selected s) (tk_tracklet_id t) i item)"
  proof -
    have "own_time nfc (ob_pts ob) = Inr (ob_pts ob)" "own_geometry nfc (ob_geometry ob) = Inr (ob_geometry ob)"
      "selector_producer_of nfc s = Inr (selector_producer (sl_max_selected s))"
      using D(6,7) selector_producer_valid [OF nfc] by (simp_all add: outcome selector_producer_of_def)
    then show ?thesis
      using valid [of "sl_max_selected s"] by (simp add: make_intent_def intent_of_def pair)
  qed
qed

lemma validated_evidence_inputs_Inr:
  "validated_evidence_inputs nfc t obs operation = Inr r \<longleftrightarrow>
     length obs \<le> MAX_PORT_BATCH_ITEMS \<and> tracklet_post nfc t = None \<and> (\<forall>ob \<in> set obs. observation_post nfc ob = None) \<and>
     evidence_matches t obs \<and> r = (t, by_id obs)"
  by (auto simp: validated_evidence_inputs_def evidence_matches_def outcome except_value_Inr mapE_own [OF own_observation_Inr]
      list_all_iff)

lemma plan_of_valid:
  assumes nfc: "nfc_ascii nfc" and n: "selection_limits_post n = None" and t: "tracklet_post nfc t = None"
    and obs: "\<forall>ob \<in> set obs. observation_post nfc ob = None" and matches: "evidence_matches t obs"
  shows "evidence_plan_result_post nfc (plan_of n t obs) = None"
proof -
  have bound: "1 \<le> n" "n \<le> MAX_SELECTED_OBSERVATIONS" using n by (simp_all add: selection_limits_post_def)
  have len: "int (length (best n t obs)) \<le> n" using bound(1) by (simp add: best_def min_def le_nat_iff)
  have intents: "evidence_intent_post nfc v = None" if "v \<in> set (ep_intents (plan_of n t obs))" for v
  proof -
    from that obtain i item where v: "v = intent_of n (tk_tracklet_id t) i item" "(i, item) \<in> set (enumerate 0 (best n t obs))"
      by (auto simp: plan_of_def)
    then have "item \<in> set (scored t obs)" "int i < MAX_SELECTED_OBSERVATIONS"
      using best_candidates(1) [of n t obs] len bound(2) by (auto simp: in_set_enumerate_eq)
    then show ?thesis unfolding v by (rule intent_of_valid(1) [OF nfc t obs matches])
  qed
  have ids: "map ei_observation_id (ep_intents (plan_of n t obs)) = map (\<lambda>item. ob_observation_id (snd item)) (best n t obs)"
    by (simp add: plan_of_def intent_of_def split_def comp_def)
      (simp add: map_map [symmetric, unfolded comp_def, of "\<lambda>item. ob_observation_id (snd item)" snd] del: map_map)
  have ranks: "map ei_rank (ep_intents (plan_of n t obs)) = map int [1..<length (best n t obs) + 1]"
    by (rule nth_equalityI) (simp_all add: plan_of_def intent_of_def split_def nth_enumerate_eq del: upt_Suc)
  show ?thesis
    using len bound(2) intents best_candidates(2) [OF matches t, of n]
    by (simp add: evidence_plan_result_post_def run_checks_None ids ranks del: map_map) (simp add: plan_of_def)
qed

lemma evidence_plan_core_Inr:
  assumes nfc: "nfc_ascii nfc" and n: "selection_limits_post (sl_max_selected s) = None"
  shows "evidence_plan_core nfc s t obs operation = Inr plan \<longleftrightarrow>
     length obs \<le> MAX_PORT_BATCH_ITEMS \<and> tracklet_post nfc t = None \<and> (\<forall>ob \<in> set obs. observation_post nfc ob = None) \<and>
     evidence_matches t obs \<and> plan = plan_of (sl_max_selected s) t obs"
proof (cases "length obs \<le> MAX_PORT_BATCH_ITEMS \<and> tracklet_post nfc t = None \<and>
    (\<forall>ob \<in> set obs. observation_post nfc ob = None) \<and> evidence_matches t obs")
  case True
  then have t: "tracklet_post nfc t = None" and obs: "\<forall>ob \<in> set obs. observation_post nfc ob = None"
    and matches: "evidence_matches t obs" by blast+
  have inputs: "validated_evidence_inputs nfc t obs operation = Inr (t, by_id obs)"
    using True by (simp add: validated_evidence_inputs_Inr)
  have len: "length (tk_points t) \<le> MAX_PORT_BATCH_ITEMS"
    using tracklet_postD(8) [OF t] by (simp add: MAX_TRACK_POINTS_def MAX_PORT_BATCH_ITEMS_def)
  have candidates: "mapE_from 0 (\<lambda>i p. let ob = the (by_id obs (tp_observation_id p)) in
      bindE (score_observation nfc ob i (length (tk_points t)) (start_pts t) (end_pts t)) (\<lambda>score. Inr (score, ob))) (tk_points t) =
      Inr (scored t obs)"
    unfolding scored_def
  proof (rule mapE_from_enumerate)
    fix i p assume ip: "(i, p) \<in> set (enumerate 0 (tk_points t))"
    then have p: "p \<in> set (tk_points t)" "i < length (tk_points t)" by (auto simp: in_set_enumerate_eq)
    obtain ob where ob: "by_id obs (tp_observation_id p) = Some ob" "ob \<in> set obs"
      using matched_observation [OF matches p(1)] by blast
    show "(let ob = the (by_id obs (tp_observation_id p)) in
      bindE (score_observation nfc ob i (length (tk_points t)) (start_pts t) (end_pts t)) (\<lambda>score. Inr (score, ob))) =
      Inr (let ob = the (by_id obs (tp_observation_id p)) in (score_of ob i (length (tk_points t)) (start_pts t) (end_pts t), ob))"
      using score_observation_valid(1) [OF _ tracklet_ends [OF t] p(2) len, of ob] ob obs by simp
  qed
  have "mapE (\<lambda>item. rank_key nfc (fst item)) (scored t obs) = Inr (map (\<lambda>item. score_rank (fst item)) (scored t obs))"
    using scored_valid(2) [OF t obs matches] by (intro mapE_cong_Inr) (auto simp: rank_key_def outcome)
  then have ranked: "rank_candidates nfc (scored t obs) = Inr (sort_key (\<lambda>item. score_rank (fst item)) (scored t obs))"
    by (simp add: rank_candidates_def sort_zip_key)
  have "1 \<le> sl_max_selected s" "sl_max_selected s \<le> MAX_SELECTED_OBSERVATIONS"
    using n by (simp_all add: selection_limits_post_def)
  then have short: "int (length (best (sl_max_selected s) t obs)) \<le> MAX_SELECTED_OBSERVATIONS"
    by (simp add: best_def min_def le_nat_iff)
  have made: "mapE_from 0 (make_intent nfc s (tk_tracklet_id t)) (best (sl_max_selected s) t obs) =
      Inr (ep_intents (plan_of (sl_max_selected s) t obs))"
    unfolding plan_of_def evidence_plan_result.simps
    by (rule mapE_from_enumerate, rule intent_of_valid(2) [OF nfc t obs matches])
      (use best_candidates(1) [of "sl_max_selected s" t obs] short in \<open>auto simp: in_set_enumerate_eq\<close>)
  have "evidence_plan_core nfc s t obs operation = Inr (plan_of (sl_max_selected s) t obs)"
    using made plan_of_valid [OF nfc n t obs matches]
    by (simp add: evidence_plan_core_def inputs candidates ranked best_def [symmetric]) (simp add: plan_of_def)
  with True show ?thesis by auto
next
  case False
  then have "validated_evidence_inputs nfc t obs operation \<noteq> Inr r" for r by (simp add: validated_evidence_inputs_Inr) blast
  with False show ?thesis by (cases "validated_evidence_inputs nfc t obs operation") (auto simp: evidence_plan_core_def)
qed

end
