(* ===== verification/Evidence_Crops.thy ===== *)
theory Evidence_Crops
  imports Evidence_Plans
begin

text \<open>
  When materialisation succeeds, and what its crop and its reference are.
\<close>

lemma mk_crop_result_Inr:
  "mk_crop_result nfc state materialized reason = Inr r \<Longrightarrow>
   ec_state r = state \<and> ec_materialized r = materialized \<and> ec_reason r = reason"
  by (auto simp: mk_crop_result_def checked_Inr_iff Let_def)

lemma materialize_core_Inr:
  assumes nfc: "nfc_ascii nfc" and n: "selection_limits_post (sl_max_selected s) = None"
    and run: "materialize_core nfc s intent t obs frame need detail = Inr r"
  shows "evidence_intent_post nfc intent = None" "tracklet_post nfc t = None" "evidence_matches t obs"
    "intent \<in> set (ep_intents (plan_of (sl_max_selected s) t obs))"
    "ec_materialized r = None \<Longrightarrow> ec_state r = UNKNOWN \<and>
       (frame = None \<or> detail = UNRESOLVABLE \<or> need = DOWNSTREAM_DETAIL \<and> detail = UNKNOWN_RESOLUTION)"
    "ec_materialized r = Some m \<Longrightarrow> ec_state r = COMPLETE \<and> me_intent m = intent \<and> detail \<noteq> UNRESOLVABLE \<and>
       (need = DOWNSTREAM_DETAIL \<longrightarrow> detail = RESOLVABLE) \<and>
       (\<exists>pixels artifact. frame = Some pixels \<and>
          extract_rgb24_crop pixels (ge_source_width (ei_geometry intent)) (ge_source_height (ei_geometry intent))
            (ei_geometry intent) = Inr (me_crop m) \<and>
          crop_artifact nfc (me_crop m) = Inr artifact \<and>
          evidence_create nfc (ei_frame_id intent) artifact (Some (ei_geometry intent)) (ei_kind intent) (ei_retention intent) =
            Inr (me_reference m))"
proof -
  from run have owned: "evidence_intent_post nfc intent = None" and
      "length obs \<le> MAX_PORT_BATCH_ITEMS \<and> tracklet_post nfc t = None \<and> (\<forall>ob \<in> set obs. observation_post nfc ob = None) \<and>
        evidence_matches t obs"
    and member: "intent \<in> set (ep_intents (plan_of (sl_max_selected s) t obs))"
    by (auto simp: materialize_core_def bindE_Inr_iff except_value_Inr own_intent_Inr checked_Inr_iff
        evidence_plan_core_Inr [OF nfc n])
  then show "evidence_intent_post nfc intent = None" "tracklet_post nfc t = None" "evidence_matches t obs"
    "intent \<in> set (ep_intents (plan_of (sl_max_selected s) t obs))" by blast+
  have cases: "ec_state r = UNKNOWN \<and> ec_materialized r = None \<and>
      (frame = None \<or> detail = UNRESOLVABLE \<or> need = DOWNSTREAM_DETAIL \<and> detail = UNKNOWN_RESOLUTION) \<or>
    ec_state r = COMPLETE \<and> detail \<noteq> UNRESOLVABLE \<and> \<not> (need = DOWNSTREAM_DETAIL \<and> detail = UNKNOWN_RESOLUTION) \<and>
    (\<exists>pixels artifact m. ec_materialized r = Some m \<and> me_intent m = intent \<and> frame = Some pixels \<and>
          extract_rgb24_crop pixels (ge_source_width (ei_geometry intent)) (ge_source_height (ei_geometry intent))
            (ei_geometry intent) = Inr (me_crop m) \<and>
          crop_artifact nfc (me_crop m) = Inr artifact \<and>
          evidence_create nfc (ei_frame_id intent) artifact (Some (ei_geometry intent)) (ei_kind intent) (ei_retention intent) =
            Inr (me_reference m))"
    using run
    by (fastforce simp: materialize_core_def bindE_Inr_iff except_value_Inr own_intent_Inr checked_Inr_iff Let_def
        split: option.splits if_splits dest!: mk_crop_result_Inr)
  then show "ec_materialized r = None \<Longrightarrow> ec_state r = UNKNOWN \<and>
       (frame = None \<or> detail = UNRESOLVABLE \<or> need = DOWNSTREAM_DETAIL \<and> detail = UNKNOWN_RESOLUTION)" by auto
  assume "ec_materialized r = Some m"
  with cases show "ec_state r = COMPLETE \<and> me_intent m = intent \<and> detail \<noteq> UNRESOLVABLE \<and>
       (need = DOWNSTREAM_DETAIL \<longrightarrow> detail = RESOLVABLE) \<and>
       (\<exists>pixels artifact. frame = Some pixels \<and>
          extract_rgb24_crop pixels (ge_source_width (ei_geometry intent)) (ge_source_height (ei_geometry intent))
            (ei_geometry intent) = Inr (me_crop m) \<and>
          crop_artifact nfc (me_crop m) = Inr artifact \<and>
          evidence_create nfc (ei_frame_id intent) artifact (Some (ei_geometry intent)) (ei_kind intent) (ei_retention intent) =
            Inr (me_reference m))"
    by (cases detail) auto
qed

lemma evidence_create_fields:
  "evidence_create nfc frame_id artifact geometry kind retention = Inr v \<Longrightarrow>
   ev_frame_id v = frame_id \<and> ev_artifact v = artifact \<and> ev_geometry v = geometry"
  by (auto simp: evidence_create_def outcome Let_def)

lemma crop_artifact_fields:
  "crop_artifact nfc c = Inr a \<Longrightarrow> ar_sha256 a = cr_sha256 c \<and> ar_bytes a = show_int (int (length (cr_pixels c)))"
  by (auto simp: crop_artifact_def outcome Let_def)

end
