(* ===== verification/Materialization_Facts.thy ===== *)
theory Materialization_Facts
  imports Materialization Frame_Readers Evidence_Crops
begin

text \<open>
  The readers and planners \<open>perception_materialization.py\<close> relies on, as locales interpreted on the
  in-memory reader and the best-frame selector, and what its two clients make of them.  A complete
  run of either loop is described by a step relation, so that runs can be cut and joined.
\<close>

section \<open>Readers\<close>

locale frame_reader =
  fixes nfc :: "string \<Rightarrow> string"
    and read :: "'r \<Rightarrow> source \<Rightarrow> frame_ref list \<Rightarrow> int \<Rightarrow> (original_result \<times> 'r) res"
    and ok :: "'r \<Rightarrow> bool"
    and pixels_of :: "'r \<Rightarrow> source \<Rightarrow> frame_ref \<Rightarrow> string option"
  assumes ascii: "ok r \<Longrightarrow> nfc_ascii nfc"
    and read_keeps: "\<lbrakk>ok r; source_valid nfc src; \<forall>f \<in> set fs. frame_valid nfc f; read r src fs n = Inr (v, r')\<rbrakk> \<Longrightarrow>
      ok r' \<and> pixels_of r' = pixels_of r"
    and read_exact: "\<lbrakk>ok r; source_valid nfc src; \<forall>f \<in> set fs. frame_valid nfc f; read r src fs n = Inr (v, r');
      or_state v = COMPLETE\<rbrakk> \<Longrightarrow>
      map of_frame (or_frames v) = fs \<and> list_all (original_valid nfc) (or_frames v) \<and>
      (\<forall>o' \<in> set (or_frames v). of_source o' = src \<and> pixels_of r src (of_frame o') = Some (of_pixels o'))"
begin

lemma exact_result_kept:
  assumes "ok r" "source_valid nfc src" "\<forall>f \<in> set fs. frame_valid nfc f" "read r src fs n = Inr (v, r')"
    and "exact_result nfc src fs v = Inr w" and "or_state w = COMPLETE"
  shows "map of_frame (or_frames w) = fs" "list_all (original_valid nfc) (or_frames w)"
    "\<forall>o' \<in> set (or_frames w). of_source o' = src \<and> pixels_of r src (of_frame o') = Some (of_pixels o')"
proof -
  from assms(5) have post: "original_result_post nfc v = Inr w" by (auto simp: exact_result_def outcome)
  have state: "or_state v = COMPLETE" using original_result_post_Inr(2) [OF ascii [OF assms(1)] post] assms(6) by simp
  note exact = read_exact [OF assms(1-4) state]
  have valid: "\<And>o'. o' \<in> set (or_frames v) \<Longrightarrow> original_valid nfc o'" using exact by (simp add: list_all_iff)
  have "mapE (\<lambda>o'. original_frame_create nfc (of_source o') (of_frame o') (of_pixels o')) (or_frames v) =
      Inr (map id (or_frames v))"
    by (intro mapE_cong_Inr) (simp add: original_frame_create_valid [OF ascii [OF assms(1)]] valid)
  then have "w = v" using post by (auto simp: original_result_post_def outcome)
  with exact show "map of_frame (or_frames w) = fs" "list_all (original_valid nfc) (or_frames w)"
    "\<forall>o' \<in> set (or_frames w). of_source o' = src \<and> pixels_of r src (of_frame o') = Some (of_pixels o')" by simp_all
qed

end

lemma mk_original_result_state: "mk_original_result nfc state frames reason = Inr v \<Longrightarrow> or_state v = state"
  by (auto simp: mk_original_result_def original_result_post_def outcome)

lemma fake_answer_state: "fake_answer nfc r requested = Inr v \<Longrightarrow> or_state v = rd_state r"
  by (cases "rd_state r = COMPLETE") (auto simp: fake_answer_def bindE_Inr_iff mk_original_result_state)

lemma fake_read_state:
  assumes "fake_read nfc r src fs n = Inr (v, r')"
  shows "or_state v = rd_state r" "\<exists>calls. r' = r\<lparr>rd_calls := calls\<rparr>"
proof -
  obtain requested calls where parts: "fake_answer nfc r requested = Inr v" "r' = r\<lparr>rd_calls := calls\<rparr>"
    using assms by (auto simp: fake_read_def bindE_Inr_iff)
  show "or_state v = rd_state r" using parts(1) by (rule fake_answer_state)
  show "\<exists>calls. r' = r\<lparr>rd_calls := calls\<rparr>" using parts(2) by blast
qed

lemma logged_reader: "fake_reader_ok nfc (r\<lparr>rd_calls := calls\<rparr>) = fake_reader_ok nfc r"
  "fake_pixels (r\<lparr>rd_calls := calls\<rparr>) = fake_pixels r"
proof -
  show "fake_reader_ok nfc (r\<lparr>rd_calls := calls\<rparr>) = fake_reader_ok nfc r" by (simp add: fake_reader_ok_def)
  have "fake_pixels (r\<lparr>rd_calls := calls\<rparr>) src f = fake_pixels r src f" for src f by (simp add: fake_pixels_def)
  then show "fake_pixels (r\<lparr>rd_calls := calls\<rparr>) = fake_pixels r" by (intro ext)
qed

lemma fake_read_keeps: "fake_read nfc r src fs n = Inr (v, r') \<Longrightarrow>
  fake_reader_ok nfc r' = fake_reader_ok nfc r \<and> fake_pixels r' = fake_pixels r"
  by (drule fake_read_state(2)) (auto simp: logged_reader)

lemma fake_read_exact:
  assumes nfc: "nfc_ascii nfc" and ok: "fake_reader_ok nfc r" and src: "source_valid nfc src" and fs: "\<forall>f \<in> set fs. frame_valid nfc f"
    and read: "fake_read nfc r src fs n = Inr (v, r')" and complete: "or_state v = COMPLETE"
  shows "map of_frame (or_frames v) = fs \<and> list_all (original_valid nfc) (or_frames v) \<and>
      (\<forall>o' \<in> set (or_frames v). of_source o' = src \<and> fake_pixels r src (of_frame o') = Some (of_pixels o'))"
proof -
  have "rd_state r = COMPLETE" using fake_read_state(1) [OF read] complete by simp
  from fake_read_complete [OF nfc ok this src fs, THEN iffD1, OF read] have "src = rd_source r"
    and "list_all2 (\<lambda>f o'. rd_frames r (fr_frame_id f) = Some o' \<and> of_frame o' = f) fs (or_frames v)" by auto
  from this(2) show ?thesis
    by (induction rule: list_all2_induct) (use ok \<open>src = rd_source r\<close> in \<open>auto simp: fake_reader_ok_def fake_pixels_def\<close>)
qed

interpretation fake_reader: frame_reader nfc "fake_read nfc" "\<lambda>r. nfc_ascii nfc \<and> fake_reader_ok nfc r" fake_pixels
  for nfc
  by unfold_locales (use fake_read_keeps fake_read_exact in blast)+

section \<open>Image changes\<close>

text \<open>
  One iteration of the scoring loop that goes on, and a complete run: the changes it finds and the
  state of the reader it ends in.
\<close>

definition score_step ::
  "(string \<Rightarrow> string) \<Rightarrow> 'r reader \<Rightarrow> discontinuity_provider \<Rightarrow> source \<Rightarrow> 'r \<Rightarrow> frame_ref option \<Rightarrow> frame_ref \<Rightarrow>
   frame_discontinuity \<Rightarrow> 'r \<Rightarrow> bool" where
  "score_step nfc read p src r previous current d r' \<longleftrightarrow>
     (\<exists>result score.
        provider_read nfc read p r src (case previous of None \<Rightarrow> [current] | Some f \<Rightarrow> [f, current]) = Inr (result, r') \<and>
        or_state result = COMPLETE \<and>
        rgb24_discontinuity_basis_points (map_option (\<lambda>_. of_pixels (hd (or_frames result))) previous)
          (of_pixels (last (or_frames result))) (of_width (last (or_frames result))) (of_height (last (or_frames result))) =
          Inr score \<and>
        discontinuity_from_frame nfc current score = Inr d)"

inductive scores ::
  "(string \<Rightarrow> string) \<Rightarrow> 'r reader \<Rightarrow> discontinuity_provider \<Rightarrow> source \<Rightarrow> 'r \<Rightarrow> frame_ref option \<Rightarrow> frame_ref list \<Rightarrow>
   frame_discontinuity list \<Rightarrow> 'r \<Rightarrow> bool"
  for nfc :: "string \<Rightarrow> string" and read :: "'r reader" and p :: discontinuity_provider and src :: source where
  scores_none: "scores nfc read p src r previous [] [] r"
| scores_frame: "\<lbrakk>score_step nfc read p src r previous current d r1; scores nfc read p src r1 (Some current) rest ds r2\<rbrakk> \<Longrightarrow>
    scores nfc read p src r previous (current # rest) (d # ds) r2"

inductive_simps scores_Nil [simp]: "scores nfc read p src r previous [] ds r'"
inductive_simps scores_Cons: "scores nfc read p src r previous (current # rest) ds r'"

lemma score_frames_complete:
  "score_frames nfc read p r src previous fs acc = Inr (v, r') \<and> fdr_state v = COMPLETE \<longleftrightarrow>
   (\<exists>ds. scores nfc read p src r previous fs ds r' \<and> mk_discontinuity_result nfc COMPLETE (acc @ ds) None = Inr v)"
proof (induction fs arbitrary: r previous acc)
  case Nil
  then show ?case by (auto simp: mk_discontinuity_result_def outcome Let_def)
next
  case (Cons current rest)
  have "score_frames nfc read p r src previous (current # rest) acc = Inr (v, r') \<and> fdr_state v = COMPLETE \<longleftrightarrow>
      (\<exists>d r1. score_step nfc read p src r previous current d r1 \<and>
         score_frames nfc read p r1 src (Some current) rest (acc @ [d]) = Inr (v, r') \<and> fdr_state v = COMPLETE)"
    by (auto simp: score_step_def outcome Let_def mk_discontinuity_result_def split: if_splits)
  also have "\<dots> \<longleftrightarrow> (\<exists>d r1 ds. score_step nfc read p src r previous current d r1 \<and>
      scores nfc read p src r1 (Some current) rest ds r' \<and> mk_discontinuity_result nfc COMPLETE (acc @ d # ds) None = Inr v)"
    by (simp add: Cons.IH)
  finally show ?case by (auto simp: scores_Cons)
qed

lemma scores_append:
  "scores nfc read p src r previous (xs @ ys) ds r' \<longleftrightarrow>
   (\<exists>ds1 ds2 r1. ds = ds1 @ ds2 \<and> scores nfc read p src r previous xs ds1 r1 \<and>
      scores nfc read p src r1 (if xs = [] then previous else Some (last xs)) ys ds2 r')"
proof (induction xs arbitrary: r previous ds)
  case (Cons current rest)
  let ?next = "if rest = [] then Some current else Some (last rest)"
  have "scores nfc read p src r previous ((current # rest) @ ys) ds r' \<longleftrightarrow>
      (\<exists>d r0 ds1 ds2 r1. ds = d # ds1 @ ds2 \<and> score_step nfc read p src r previous current d r0 \<and>
         scores nfc read p src r0 (Some current) rest ds1 r1 \<and> scores nfc read p src r1 ?next ys ds2 r')"
    unfolding append_Cons scores_Cons Cons.IH by blast
  also have "\<dots> \<longleftrightarrow> (\<exists>ds1 ds2 r1. ds = ds1 @ ds2 \<and> scores nfc read p src r previous (current # rest) ds1 r1 \<and>
      scores nfc read p src r1 ?next ys ds2 r')"
    (is "?split \<longleftrightarrow> ?joined")
  proof
    assume ?split
    then obtain d r0 ds1 ds2 r1 where parts: "ds = d # ds1 @ ds2" "score_step nfc read p src r previous current d r0"
        "scores nfc read p src r0 (Some current) rest ds1 r1" "scores nfc read p src r1 ?next ys ds2 r'" by blast
    have "scores nfc read p src r previous (current # rest) (d # ds1) r1" using parts(2,3) by (rule scores_frame)
    moreover have "ds = (d # ds1) @ ds2" using parts(1) by simp
    ultimately show ?joined using parts(4) by blast
  next
    assume ?joined
    then obtain ds1 ds2 r1 where parts: "ds = ds1 @ ds2" "scores nfc read p src r previous (current # rest) ds1 r1"
        "scores nfc read p src r1 ?next ys ds2 r'" by blast
    from parts(2) obtain d ds' r0 where "ds1 = d # ds'" "score_step nfc read p src r previous current d r0"
        "scores nfc read p src r0 (Some current) rest ds' r1" by (auto simp: scores_Cons)
    with parts(1,3) show ?split by (metis append_Cons)
  qed
  finally show ?case by (simp add: if_distrib)
qed simp

lemma scores_length: "scores nfc read p src r previous fs ds r' \<Longrightarrow> length ds = length fs"
  by (induction rule: scores.induct) simp_all

lemma mk_discontinuity_result_Inr:
  "mk_discontinuity_result nfc COMPLETE ds None = Inr v \<longleftrightarrow>
   length ds \<le> MAX_PORT_BATCH_ITEMS \<and> (\<forall>d \<in> set ds. discontinuity_post nfc d = None) \<and>
   v = \<lparr>fdr_state = COMPLETE, fdr_discontinuities = ds, fdr_reason = None\<rparr>"
  by (auto simp: mk_discontinuity_result_def discontinuity_result_post_def outcome Let_def run_checks_None)

text \<open>the change of the pixels \<open>px\<close> from one frame to the next\<close>

definition change_of ::
  "(frame_ref \<Rightarrow> string option) \<Rightarrow> source \<Rightarrow> frame_ref option \<Rightarrow> frame_ref \<Rightarrow> int \<Rightarrow> bool" where
  "change_of px src previous current n \<longleftrightarrow>
     (\<exists>width height after. stream_dimensions src current ''construct'' = Inr (width, height) \<and> px current = Some after \<and>
        (case previous of
           None \<Rightarrow> rgb24_discontinuity_basis_points None after width height = Inr n
         | Some f \<Rightarrow> \<exists>before. px f = Some before \<and>
             rgb24_discontinuity_basis_points (Some before) after width height = Inr n))"

context frame_reader
begin

lemma provider_read_exact:
  assumes "ok r" "source_valid nfc src" "\<forall>f \<in> set fs. frame_valid nfc f"
    and "provider_read nfc read p r src fs = Inr (w, r')" and "or_state w = COMPLETE"
  shows "ok r'" "pixels_of r' = pixels_of r" "map of_frame (or_frames w) = fs" "list_all (original_valid nfc) (or_frames w)"
    "\<forall>o' \<in> set (or_frames w). of_source o' = src \<and> pixels_of r src (of_frame o') = Some (of_pixels o')"
proof -
  from assms(4) obtain n v where run: "read r src fs n = Inr (v, r')" "exact_result nfc src fs v = Inr w"
    by (auto simp: provider_read_def outcome)
  show "ok r'" "pixels_of r' = pixels_of r" using read_keeps [OF assms(1-3) run(1)] by simp_all
  show "map of_frame (or_frames w) = fs" "list_all (original_valid nfc) (or_frames w)"
    "\<forall>o' \<in> set (or_frames w). of_source o' = src \<and> pixels_of r src (of_frame o') = Some (of_pixels o')"
    by (rule exact_result_kept [OF assms(1-3) run assms(5)])+
qed

lemma score_step_exact:
  assumes "ok r" "source_valid nfc src" "frame_valid nfc current" "\<forall>f \<in> set_option previous. frame_valid nfc f"
    and step: "score_step nfc read p src r previous current d r'"
  shows "ok r'" "pixels_of r' = pixels_of r"
    "\<exists>n. change_of (pixels_of r src) src previous current n \<and> discontinuity_from_frame nfc current n = Inr d"
proof -
  let ?fs = "case previous of None \<Rightarrow> [current] | Some f \<Rightarrow> [f, current]"
  from step obtain w score where run: "provider_read nfc read p r src ?fs = Inr (w, r')" "or_state w = COMPLETE"
      "rgb24_discontinuity_basis_points (map_option (\<lambda>_. of_pixels (hd (or_frames w))) previous)
         (of_pixels (last (or_frames w))) (of_width (last (or_frames w))) (of_height (last (or_frames w))) = Inr score"
      "discontinuity_from_frame nfc current score = Inr d" unfolding score_step_def by blast
  have "\<forall>f \<in> set ?fs. frame_valid nfc f" using assms(3,4) by (cases previous) simp_all
  note exact = provider_read_exact [OF assms(1,2) this run(1,2)]
  show "ok r'" "pixels_of r' = pixels_of r" by (fact exact)+
  have "change_of (pixels_of r src) src previous current score"
  proof (cases previous)
    case None
    with exact(3) obtain o' where o': "or_frames w = [o']" "of_frame o' = current" by auto
    have "stream_dimensions src current ''construct'' = Inr (of_width o', of_height o')"
        "pixels_of r src current = Some (of_pixels o')" using exact(4,5) by (simp_all add: o' original_valid_def)
    moreover have "rgb24_discontinuity_basis_points None (of_pixels o') (of_width o') (of_height o') = Inr score"
      using run(3) by (simp add: None o')
    ultimately show ?thesis unfolding change_of_def None by simp
  next
    case (Some f)
    with exact(3) obtain o1 o2 where o': "or_frames w = [o1, o2]" "of_frame o1 = f" "of_frame o2 = current" by auto
    have "original_valid nfc o2" using exact(4) unfolding o'(1) by simp
    moreover have found: "of_source o2 = src" "pixels_of r src (of_frame o1) = Some (of_pixels o1)"
        "pixels_of r src (of_frame o2) = Some (of_pixels o2)" using exact(5) unfolding o'(1) by simp_all
    ultimately have "stream_dimensions src current ''construct'' = Inr (of_width o2, of_height o2)"
      unfolding o'(3) [symmetric] original_valid_def by metis
    moreover note found(2,3) [unfolded o'(2,3)]
    moreover have "rgb24_discontinuity_basis_points (Some (of_pixels o1)) (of_pixels o2) (of_width o2) (of_height o2) = Inr score"
      using run(3) by (simp add: Some o')
    ultimately show ?thesis unfolding change_of_def Some by simp
  qed
  with run(4) show "\<exists>n. change_of (pixels_of r src) src previous current n \<and> discontinuity_from_frame nfc current n = Inr d"
    by blast
qed

lemma scores_exact:
  assumes "scores nfc read p src r previous fs ds r'" and "ok r" "source_valid nfc src"
    and "\<forall>f \<in> set fs. frame_valid nfc f" "\<forall>f \<in> set_option previous. frame_valid nfc f"
  shows "ok r' \<and> pixels_of r' = pixels_of r \<and>
    list_all2 (\<lambda>(before, f) d. \<exists>n. change_of (pixels_of r src) src before f n \<and> discontinuity_from_frame nfc f n = Inr d)
      (zip (previous # map Some fs) fs) ds"
  using assms
proof (induction rule: scores.induct)
  case (scores_frame r previous current d r1 rest ds r2)
  then have "frame_valid nfc current" by simp
  note step = score_step_exact [OF scores_frame.prems(1,2) this scores_frame.prems(4) scores_frame.hyps(1)]
  with scores_frame.IH scores_frame.prems show ?case by simp
qed simp

end

section \<open>Planners\<close>

locale evidence_planner =
  fixes plan :: "'s \<Rightarrow> evidence_intent \<Rightarrow> tracklet \<Rightarrow> observation list \<Rightarrow> string option \<Rightarrow> evidence_need \<Rightarrow>
      detail_resolution \<Rightarrow> (evidence_crop_result \<times> 's) res"
    and able :: "'s \<Rightarrow> bool"
  assumes plan_keeps: "\<lbrakk>able s; plan s intent t obs frame need detail = Inr (v, s')\<rbrakk> \<Longrightarrow> able s'"
    and plan_exact: "\<lbrakk>able s; plan s intent t obs (Some pixels) need detail = Inr (v, s'); ec_materialized v = Some m\<rbrakk> \<Longrightarrow>
      extract_rgb24_crop pixels (ge_source_width (ei_geometry intent)) (ge_source_height (ei_geometry intent))
        (ei_geometry intent) = Inr (me_crop m) \<and> ev_frame_id (me_reference m) = ei_frame_id intent"

lemma evidence_materialize_core:
  "evidence_materialize nfc s intent t obs pixels need detail = Inr (v, s') \<Longrightarrow>
   materialize_core nfc s intent t obs pixels need detail = Inr v \<and> sl_max_selected s' = sl_max_selected s"
  by (auto simp: evidence_materialize_def only_port_errors_def bindE_Inr_iff split: sum.splits exn.splits)

interpretation best_planner: evidence_planner "evidence_materialize nfc"
  "\<lambda>s. nfc_ascii nfc \<and> selection_limits_post (sl_max_selected s) = None" for nfc
proof
  fix s intent t obs pixels need detail v s'
  assume "nfc_ascii nfc \<and> selection_limits_post (sl_max_selected s) = None"
    and "evidence_materialize nfc s intent t obs pixels need detail = Inr (v, s')"
  then show "nfc_ascii nfc \<and> selection_limits_post (sl_max_selected s') = None"
    using evidence_materialize_core by metis
next
  fix s intent t obs pixels need detail v s' m
  assume able: "nfc_ascii nfc \<and> selection_limits_post (sl_max_selected s) = None"
    and run: "evidence_materialize nfc s intent t obs (Some pixels) need detail = Inr (v, s')" and m: "ec_materialized v = Some m"
  from run have "materialize_core nfc s intent t obs (Some pixels) need detail = Inr v"
    by (simp add: evidence_materialize_core)
  from materialize_core_Inr(6) [OF able [THEN conjunct1] able [THEN conjunct2] this m]
  show "extract_rgb24_crop pixels (ge_source_width (ei_geometry intent)) (ge_source_height (ei_geometry intent))
      (ei_geometry intent) = Inr (me_crop m) \<and> ev_frame_id (me_reference m) = ei_frame_id intent"
    by (auto dest: evidence_create_fields)
qed

end
