(* ===== verification/Materialization_Runs.thy ===== *)
theory Materialization_Runs
  imports Materialization_Facts
begin

text \<open>
  Complete runs of the materialiser as a step relation, and what holds of them for every reader and
  every planner that keep their promises.
\<close>

section \<open>Steps and runs\<close>

definition materialize_step ::
  "(string \<Rightarrow> string) \<Rightarrow> 'r reader \<Rightarrow> 's planner \<Rightarrow> materialization_config \<Rightarrow> source \<Rightarrow> (string \<rightharpoonup> frame_ref) \<Rightarrow>
   (string \<rightharpoonup> observation) \<Rightarrow> (string \<rightharpoonup> tracklet) \<Rightarrow> 'r \<Rightarrow> 's \<Rightarrow> evidence_intent \<Rightarrow> materialized_evidence \<Rightarrow> 'r \<Rightarrow> 's \<Rightarrow> bool" where
  "materialize_step nfc read plan config src by_frame by_observation by_tracklet r s intent item r' s' \<longleftrightarrow>
     (\<exists>frame t result cropped.
        by_frame (ei_frame_id intent) = Some frame \<and> by_tracklet (ei_tracklet_id intent) = Some t \<and>
        length (selected_observations by_observation t) = length (tk_points t) \<and>
        read_one nfc read config r src frame = Inr (result, r') \<and> or_state result = COMPLETE \<and>
        plan s intent t (selected_observations by_observation t) (Some (of_pixels (hd (or_frames result)))) (mc_need config)
          (mc_detail_resolution config) = Inr (cropped, s') \<and>
        evidence_crop_result_post nfc cropped = None \<and> ec_state cropped = COMPLETE \<and>
        crop_item nfc config intent cropped = Inr item)"

inductive materializes ::
  "(string \<Rightarrow> string) \<Rightarrow> 'r reader \<Rightarrow> 's planner \<Rightarrow> materialization_config \<Rightarrow> source \<Rightarrow> (string \<rightharpoonup> frame_ref) \<Rightarrow>
   (string \<rightharpoonup> observation) \<Rightarrow> (string \<rightharpoonup> tracklet) \<Rightarrow> 'r \<Rightarrow> 's \<Rightarrow> evidence_intent list \<Rightarrow> materialized_evidence list \<Rightarrow> 'r \<Rightarrow> 's \<Rightarrow> bool"
  for nfc :: "string \<Rightarrow> string" and read :: "'r reader" and plan :: "'s planner" and config :: materialization_config
    and src :: source and by_frame :: "string \<rightharpoonup> frame_ref" and by_observation :: "string \<rightharpoonup> observation"
    and by_tracklet :: "string \<rightharpoonup> tracklet" where
  materializes_none: "materializes nfc read plan config src by_frame by_observation by_tracklet r s [] [] r s"
| materializes_intent: "\<lbrakk>materialize_step nfc read plan config src by_frame by_observation by_tracklet r s intent item r1 s1;
    materializes nfc read plan config src by_frame by_observation by_tracklet r1 s1 intents items r2 s2\<rbrakk> \<Longrightarrow>
    materializes nfc read plan config src by_frame by_observation by_tracklet r s (intent # intents) (item # items) r2 s2"

inductive_simps materializes_Nil [simp]:
  "materializes nfc read plan config src by_frame by_observation by_tracklet r s [] items r' s'"
inductive_simps materializes_Cons:
  "materializes nfc read plan config src by_frame by_observation by_tracklet r s (intent # intents) items r' s'"

text \<open>the byte budget and the distinct references, checked item by item\<close>

definition item_bytes :: "materialized_evidence \<Rightarrow> int" where
  "item_bytes m = int (length (cr_pixels (me_crop m)))"

definition item_id :: "materialized_evidence \<Rightarrow> string" where
  "item_id m = ev_evidence_id (me_reference m)"

fun within_budget :: "int \<Rightarrow> int \<Rightarrow> string set \<Rightarrow> materialized_evidence list \<Rightarrow> bool" where
  "within_budget limit spent ids [] \<longleftrightarrow> True"
| "within_budget limit spent ids (m # ms) \<longleftrightarrow>
     spent + item_bytes m \<le> limit \<and> item_id m \<notin> ids \<and> within_budget limit (spent + item_bytes m) (insert (item_id m) ids) ms"

lemma within_budget_total:
  "within_budget limit spent ids ms \<Longrightarrow> spent \<le> limit \<Longrightarrow>
   spent + sum_list (map item_bytes ms) \<le> limit \<and> distinct (map item_id ms) \<and> set (map item_id ms) \<inter> ids = {}"
  by (induction ms arbitrary: spent ids) fastforce+

lemma mk_materialization_result_state:
  "mk_materialization_result nfc state items reason = Inr v \<Longrightarrow>
   ma_state v = state \<and> ma_materialized v = items \<and> ma_reason v = reason"
  by (auto simp: mk_materialization_result_def outcome Let_def)

lemma materialize_intents_Cons:
  "materialize_intents nfc read plan config src by_frame by_observation by_tracklet (intent # rest) selected spent ids r s =
     Inr (v, r', s') \<and> ma_state v = COMPLETE \<longleftrightarrow>
   (\<exists>item r1 s1. materialize_step nfc read plan config src by_frame by_observation by_tracklet r s intent item r1 s1 \<and>
      spent + item_bytes item \<le> mc_max_total_evidence_bytes config \<and> item_id item \<notin> ids \<and>
      materialize_intents nfc read plan config src by_frame by_observation by_tracklet rest (selected @ [item])
        (spent + item_bytes item) (insert (item_id item) ids) r1 s1 = Inr (v, r', s') \<and> ma_state v = COMPLETE)"
  (is "?run \<longleftrightarrow> ?ok")
proof
  assume run: ?run
  then obtain frame t where found: "by_frame (ei_frame_id intent) = Some frame" "by_tracklet (ei_tracklet_id intent) = Some t"
    by (auto split: option.splits)
  have obs: "length (selected_observations by_observation t) = length (tk_points t)"
    using run found by (auto simp: Let_def split: if_splits)
  obtain result r1 where read: "read_one nfc read config r src frame = Inr (result, r1)"
    using run found obs by (auto simp: Let_def bindE_Inr_iff)
  have state: "or_state result = COMPLETE"
    using run found obs read by (auto simp: Let_def bindE_Inr_iff dest: mk_materialization_result_state split: if_splits)
  obtain cropped s1 where plan: "plan s intent t (selected_observations by_observation t)
      (Some (of_pixels (hd (or_frames result)))) (mc_need config) (mc_detail_resolution config) = Inr (cropped, s1)"
    and post: "evidence_crop_result_post nfc cropped = None"
    using run found obs read state by (auto simp: Let_def bindE_Inr_iff checked_Inr_iff except_value_check_None)
  have complete: "ec_state cropped = COMPLETE"
    using run found obs read state plan post
    by (auto simp: Let_def bindE_Inr_iff dest: mk_materialization_result_state split: if_splits)
  obtain item where item: "crop_item nfc config intent cropped = Inr item"
    using run found obs read state plan post complete by (auto simp: Let_def bindE_Inr_iff)
  have "materialize_step nfc read plan config src by_frame by_observation by_tracklet r s intent item r1 s1"
    unfolding materialize_step_def using found obs read state plan post complete item by blast
  moreover have "spent + item_bytes item \<le> mc_max_total_evidence_bytes config \<and> item_id item \<notin> ids \<and>
      materialize_intents nfc read plan config src by_frame by_observation by_tracklet rest (selected @ [item])
        (spent + item_bytes item) (insert (item_id item) ids) r1 s1 = Inr (v, r', s') \<and> ma_state v = COMPLETE"
    using run found obs read state plan post complete item
    by (auto simp: Let_def item_bytes_def item_id_def split: if_splits)
  ultimately show ?ok by blast
next
  assume ?ok
  then show ?run by (auto simp: materialize_step_def Let_def item_bytes_def item_id_def)
qed

lemma materialize_intents_complete:
  "materialize_intents nfc read plan config src by_frame by_observation by_tracklet intents selected spent ids r s =
     Inr (v, r', s') \<and> ma_state v = COMPLETE \<longleftrightarrow>
   (\<exists>items. materializes nfc read plan config src by_frame by_observation by_tracklet r s intents items r' s' \<and>
      within_budget (mc_max_total_evidence_bytes config) spent ids items \<and>
      mk_materialization_result nfc COMPLETE (selected @ items) None = Inr v)"
proof (induction intents arbitrary: selected spent ids r s)
  case Nil
  then show ?case by (auto simp: bindE_Inr_iff dest: mk_materialization_result_state)
next
  case (Cons intent rest)
  show ?case unfolding materialize_intents_Cons Cons.IH materializes_Cons by fastforce
qed

section \<open>Exact runs\<close>

text \<open>the item made for an intent: its crop is cut from the pixels the reader has for the frame\<close>

definition exact_item :: "(frame_ref \<Rightarrow> string option) \<Rightarrow> (string \<rightharpoonup> frame_ref) \<Rightarrow> evidence_intent \<Rightarrow> materialized_evidence \<Rightarrow> bool" where
  "exact_item px by_frame intent item \<longleftrightarrow>
     me_intent item = intent \<and> ev_frame_id (me_reference item) = ei_frame_id intent \<and>
     (\<exists>frame pixels. by_frame (ei_frame_id intent) = Some frame \<and> px frame = Some pixels \<and>
        extract_rgb24_crop pixels (ge_source_width (ei_geometry intent)) (ge_source_height (ei_geometry intent))
          (ei_geometry intent) = Inr (me_crop item))"

locale materialization = frame_reader nfc read ok pixels_of + evidence_planner plan able
  for nfc :: "string \<Rightarrow> string" and read :: "'r \<Rightarrow> source \<Rightarrow> frame_ref list \<Rightarrow> int \<Rightarrow> (original_result \<times> 'r) res"
    and ok :: "'r \<Rightarrow> bool" and pixels_of :: "'r \<Rightarrow> source \<Rightarrow> frame_ref \<Rightarrow> string option"
    and plan :: "'s \<Rightarrow> evidence_intent \<Rightarrow> tracklet \<Rightarrow> observation list \<Rightarrow> string option \<Rightarrow> evidence_need \<Rightarrow>
      detail_resolution \<Rightarrow> (evidence_crop_result \<times> 's) res" and able :: "'s \<Rightarrow> bool"
begin

lemma read_one_exact:
  assumes "ok r" "source_valid nfc src" "frame_valid nfc frame"
    and "read_one nfc read config r src frame = Inr (w, r')" and "or_state w = COMPLETE"
  shows "ok r'" "pixels_of r' = pixels_of r" "pixels_of r src frame = Some (of_pixels (hd (or_frames w)))"
proof -
  from assms(4) obtain n v where run: "read r src [frame] n = Inr (v, r')" "exact_result nfc src [frame] v = Inr w"
    by (auto simp: read_one_def outcome)
  have valid: "\<forall>f \<in> set [frame]. frame_valid nfc f" using assms(3) by simp
  show "ok r'" "pixels_of r' = pixels_of r" using read_keeps [OF assms(1,2) valid run(1)] by simp_all
  note exact = exact_result_kept [OF assms(1,2) valid run assms(5)]
  then obtain o' where "or_frames w = [o']" "of_frame o' = frame" by auto
  with exact(3) show "pixels_of r src frame = Some (of_pixels (hd (or_frames w)))" by simp
qed

lemma materialize_step_exact:
  assumes "ok r" "able s" "source_valid nfc src" "\<forall>k f. by_frame k = Some f \<longrightarrow> frame_valid nfc f"
    and "materialize_step nfc read plan config src by_frame by_observation by_tracklet r s intent item r' s'"
  shows "ok r' \<and> able s' \<and> pixels_of r' = pixels_of r \<and> exact_item (pixels_of r src) by_frame intent item"
proof -
  from assms(5) obtain frame t result cropped where step: "by_frame (ei_frame_id intent) = Some frame"
      "read_one nfc read config r src frame = Inr (result, r')" "or_state result = COMPLETE"
      "plan s intent t (selected_observations by_observation t) (Some (of_pixels (hd (or_frames result)))) (mc_need config)
        (mc_detail_resolution config) = Inr (cropped, s')" "crop_item nfc config intent cropped = Inr item"
    unfolding materialize_step_def by blast
  have "frame_valid nfc frame" using assms(4) step(1) by blast
  note read = read_one_exact [OF assms(1,3) this step(2,3)]
  from step(5) have item: "ec_materialized cropped = Some item" "me_intent item = intent"
    by (auto simp: crop_item_def outcome split: option.splits)
  from plan_exact [OF assms(2) step(4) item(1)] item(2) read(3) step(1)
  have "exact_item (pixels_of r src) by_frame intent item" by (auto simp: exact_item_def)
  with read plan_keeps [OF assms(2) step(4)] show ?thesis by simp
qed

lemma materializes_exact:
  assumes "materializes nfc read plan config src by_frame by_observation by_tracklet r s intents items r' s'"
    and "ok r" "able s" "source_valid nfc src" "\<forall>k f. by_frame k = Some f \<longrightarrow> frame_valid nfc f"
  shows "list_all2 (exact_item (pixels_of r src) by_frame) intents items"
  using assms
proof (induction rule: materializes.induct)
  case (materializes_intent r s intent item r1 s1 intents items r2 s2)
  from materialize_step_exact [OF materializes_intent.prems materializes_intent.hyps(1)] materializes_intent.IH
    materializes_intent.prems
  show ?case by simp
qed simp

lemma materialize_run_exact:
  assumes "ok r" "able s" "source_valid nfc src" "\<forall>f \<in> set frames. frame_valid nfc f" "materialization_config_post config = None"
    and run: "materialize_run nfc read plan config r s src frames obs ts intents = Inr (v, r', s')"
    and complete: "ma_state v = COMPLETE"
  shows "list_all2 (exact_item (pixels_of r src) (frames_by_id frames)) intents (ma_materialized v)"
    "sum_list (map item_bytes (ma_materialized v)) \<le> mc_max_total_evidence_bytes config"
    "distinct (map item_id (ma_materialized v))"
proof -
  have "materialize_intents nfc read plan config src (frames_by_id frames) (by_id obs) (tracklets_by_id ts) intents [] 0 {} r s =
      Inr (v, r', s')"
    using run complete by (auto simp: materialize_run_def bindE_Inr_iff dest: mk_materialization_result_state split: if_splits)
  with complete materialize_intents_complete [of nfc read plan config src "frames_by_id frames" "by_id obs" "tracklets_by_id ts"
      intents "[]" 0 "{}" r s v r' s']
  obtain items where items: "materializes nfc read plan config src (frames_by_id frames) (by_id obs) (tracklets_by_id ts)
        r s intents items r' s'" "within_budget (mc_max_total_evidence_bytes config) 0 {} items"
      "mk_materialization_result nfc COMPLETE items None = Inr v" by auto
  have same: "ma_materialized v = items" using mk_materialization_result_state [OF items(3)] by simp
  have "\<forall>k f. frames_by_id frames k = Some f \<longrightarrow> frame_valid nfc f"
    using assms(4) by (auto simp: frames_by_id_def dest!: map_of_SomeD)
  from materializes_exact [OF items(1) assms(1-3) this]
  show "list_all2 (exact_item (pixels_of r src) (frames_by_id frames)) intents (ma_materialized v)" by (simp add: same)
  have "0 \<le> mc_max_total_evidence_bytes config" using assms(5) by (simp add: materialization_config_post_def)
  from within_budget_total [OF items(2) this]
  show "sum_list (map item_bytes (ma_materialized v)) \<le> mc_max_total_evidence_bytes config"
    "distinct (map item_id (ma_materialized v))" by (simp_all add: same)
qed

end

interpretation stored_evidence: materialization nfc "fake_read nfc" "\<lambda>r. nfc_ascii nfc \<and> fake_reader_ok nfc r" fake_pixels
  "evidence_materialize nfc" "\<lambda>s. nfc_ascii nfc \<and> selection_limits_post (sl_max_selected s) = None"
  for nfc
  by unfold_locales

end
