(* ===== verification/Perception_Ports.thy ===== *)
theory Perception_Ports
  imports Fake_Perception Evidence_Plans Tracker_Pages
begin

text \<open>
  What the tracker port and the evidence port promise their callers, as locales, each interpreted on
  the real component and on its scripted fake; and what a caller that chains them can rely on.
\<close>

section \<open>Partitions of the observations\<close>

definition partitions :: "(string \<Rightarrow> string) \<Rightarrow> observation list \<Rightarrow> tracklet list \<Rightarrow> bool" where
  "partitions nfc obs ts \<longleftrightarrow>
     (\<forall>t \<in> set ts. tracklet_post nfc t = None) \<and> (\<forall>ob \<in> set obs. observation_post nfc ob = None) \<and>
     distinct (map ob_observation_id obs) \<and> mset (concat (map tk_points ts)) = mset (map point_of obs)"

definition own_observations :: "tracklet \<Rightarrow> observation list \<Rightarrow> observation list" where
  "own_observations t obs = filter (\<lambda>ob. ob_observation_id ob \<in> tp_observation_id ` set (tk_points t)) obs"

lemma partition_ids:
  assumes "partitions nfc obs ts"
  shows "mset (map tp_observation_id (concat (map tk_points ts))) = mset (map ob_observation_id obs)"
    and "distinct (map tp_observation_id (concat (map tk_points ts)))"
proof -
  have "mset (map tp_observation_id (concat (map tk_points ts))) = image_mset tp_observation_id (mset (map point_of obs))"
    using assms by (simp only: partitions_def mset_map)
  then show "mset (map tp_observation_id (concat (map tk_points ts))) = mset (map ob_observation_id obs)"
    by (simp add: multiset.map_comp comp_def)
  then show "distinct (map tp_observation_id (concat (map tk_points ts)))"
    using assms by (metis mset_eq_imp_distinct_iff partitions_def)
qed

lemma partition_matches:
  assumes "partitions nfc obs ts" and t: "t \<in> set ts"
  shows "evidence_matches t (own_observations t obs)" "length (own_observations t obs) \<le> MAX_PORT_BATCH_ITEMS"
    "\<forall>ob \<in> set (own_observations t obs). observation_post nfc ob = None"
proof -
  have post: "tracklet_post nfc t = None" and distinct: "distinct (map ob_observation_id obs)"
    and same: "mset (concat (map tk_points ts)) = mset (map point_of obs)"
    using assms by (simp_all add: partitions_def)
  have found: "\<exists>ob \<in> set obs. p = point_of ob" if "p \<in> set (tk_points t)" for p
  proof -
    have "p \<in> set (map point_of obs)" using that t mset_eq_setD [OF same] by auto
    then show ?thesis by auto
  qed
  have own: "distinct (map ob_observation_id (own_observations t obs))"
    using distinct by (simp add: own_observations_def distinct_map_filter)
  have ids: "ob_observation_id ` set (own_observations t obs) = tp_observation_id ` set (tk_points t)"
    using found by (force simp: own_observations_def)
  have "point_matches t p (the (by_id (own_observations t obs) (tp_observation_id p)))" if p: "p \<in> set (tk_points t)" for p
  proof -
    from found [OF p] obtain ob where ob: "ob \<in> set obs" "p = point_of ob" by blast
    then have "ob \<in> set (own_observations t obs)" using p by (force simp: own_observations_def)
    then have "by_id (own_observations t obs) (tp_observation_id p) = Some ob"
      using by_id_Some [OF own] ob(2) by simp
    moreover have "point_scope_check t p = None" using tracklet_postD(9) [OF post] p by blast
    ultimately show ?thesis by (simp add: point_matches_def point_scope_check_def ob(2))
  qed
  with own ids show "evidence_matches t (own_observations t obs)" by (simp add: evidence_matches_def)
  have "length (own_observations t obs) = card (tp_observation_id ` set (tk_points t))"
    using distinct_card [OF own] ids by simp
  also have "\<dots> \<le> length (tk_points t)" by (metis card_length length_map list.set_map)
  finally show "length (own_observations t obs) \<le> MAX_PORT_BATCH_ITEMS"
    using tracklet_postD(8) [OF post] by (simp add: MAX_TRACK_POINTS_def MAX_PORT_BATCH_ITEMS_def)
  show "\<forall>ob \<in> set (own_observations t obs). observation_post nfc ob = None"
    using assms by (auto simp: partitions_def own_observations_def)
qed

lemma distinct_concat_unique:
  "distinct (concat (map f ts)) \<Longrightarrow> t \<in> set ts \<Longrightarrow> u \<in> set ts \<Longrightarrow> x \<in> set (f t) \<Longrightarrow> x \<in> set (f u) \<Longrightarrow> t = u"
  by (induction ts) auto

section \<open>The interfaces\<close>

locale tracker_port =
  fixes nfc :: "string \<Rightarrow> string"
    and track :: "'s \<Rightarrow> source \<Rightarrow> frame_ref list \<Rightarrow> observation list \<Rightarrow> frame_discontinuity list option \<Rightarrow> (tracking_result \<times> 's) res"
    and inv :: "'s \<Rightarrow> bool"
  assumes track_inv: "inv s \<Longrightarrow> track s src frames obs ds = Inr (r, s') \<Longrightarrow> inv s'"
    and track_partitions: "inv s \<Longrightarrow> track s src frames obs ds = Inr (r, s') \<Longrightarrow> tt_state r = COMPLETE \<Longrightarrow>
      partitions nfc obs (tt_tracklets r)"
begin

lemma observation_in_one_tracklet:
  assumes "inv s" "track s src frames obs ds = Inr (r, s')" "tt_state r = COMPLETE" and ob: "ob \<in> set obs"
  shows "\<exists>!t. t \<in> set (tt_tracklets r) \<and> point_of ob \<in> set (tk_points t)"
proof -
  note p = track_partitions [OF assms(1-3)]
  have "point_of ob \<in> set (concat (map tk_points (tt_tracklets r)))"
    using ob p mset_eq_setD [of "concat (map tk_points (tt_tracklets r))" "map point_of obs"] by (auto simp: partitions_def)
  then obtain t where t: "t \<in> set (tt_tracklets r)" "point_of ob \<in> set (tk_points t)" by auto
  have "distinct (concat (map tk_points (tt_tracklets r)))"
    using partition_ids(2) [OF p] by (simp only: distinct_map)
  then have "u = t" if "u \<in> set (tt_tracklets r)" "point_of ob \<in> set (tk_points u)" for u
    using distinct_concat_unique that t by metis
  with t show ?thesis by blast
qed

end

locale evidence_port =
  fixes select :: "'e \<Rightarrow> tracklet \<Rightarrow> observation list \<Rightarrow> (evidence_selection_result \<times> 'e) res"
    and ready :: "'e \<Rightarrow> bool"
  assumes select_ready: "ready e \<Longrightarrow> select e t obs = Inr (r, e') \<Longrightarrow> ready e'"
    and select_own: "ready e \<Longrightarrow> select e t obs = Inr (r, e') \<Longrightarrow>
      distinct (er_observation_ids r) \<and> set (er_observation_ids r) \<subseteq> tp_observation_id ` set (tk_points t)"

text \<open>The caller that selects evidence for every tracklet from the tracklet's own observations\<close>

fun select_all ::
  "('e \<Rightarrow> tracklet \<Rightarrow> observation list \<Rightarrow> (evidence_selection_result \<times> 'e) res) \<Rightarrow> 'e \<Rightarrow> observation list \<Rightarrow>
   tracklet list \<Rightarrow> (evidence_selection_result list \<times> 'e) res" where
  "select_all select e obs [] = Inr ([], e)"
| "select_all select e obs (t # ts) =
     bindE (select e t (own_observations t obs)) (\<lambda>(r, e').
     bindE (select_all select e' obs ts) (\<lambda>(rs, e''). Inr (r # rs, e'')))"

locale perception_chain = tracker_port nfc track inv + evidence_port select ready
  for nfc :: "string \<Rightarrow> string"
    and track :: "'s \<Rightarrow> source \<Rightarrow> frame_ref list \<Rightarrow> observation list \<Rightarrow> frame_discontinuity list option \<Rightarrow> (tracking_result \<times> 's) res"
    and inv :: "'s \<Rightarrow> bool"
    and select :: "'e \<Rightarrow> tracklet \<Rightarrow> observation list \<Rightarrow> (evidence_selection_result \<times> 'e) res"
    and ready :: "'e \<Rightarrow> bool"
begin

lemma select_all_ids:
  "ready e \<Longrightarrow> distinct (map tp_observation_id (concat (map tk_points ts))) \<Longrightarrow> select_all select e obs ts = Inr (rs, e') \<Longrightarrow>
   distinct (concat (map er_observation_ids rs)) \<and>
   set (concat (map er_observation_ids rs)) \<subseteq> tp_observation_id ` set (concat (map tk_points ts))"
proof (induction ts arbitrary: e rs)
  case (Cons t ts)
  from Cons.prems(3) obtain r e1 rs1 where r: "select e t (own_observations t obs) = Inr (r, e1)"
      "select_all select e1 obs ts = Inr (rs1, e')" "rs = r # rs1"
    by (auto simp: bindE_Inr_iff split: prod.splits)
  have "distinct (map tp_observation_id (concat (map tk_points ts)))" using Cons.prems(2) by simp
  note rest = Cons.IH [OF select_ready [OF Cons.prems(1) r(1)] this r(2)]
  note own = select_own [OF Cons.prems(1) r(1)]
  have "tp_observation_id ` set (tk_points t) \<inter> tp_observation_id ` set (concat (map tk_points ts)) = {}"
    using Cons.prems(2) by (simp only: list.map concat.simps map_append distinct_append set_map)
  with rest own have "set (er_observation_ids r) \<inter> set (concat (map er_observation_ids rs1)) = {}" by blast
  with rest own show ?case
    unfolding r(3) list.map concat.simps distinct_append set_append by (simp only: image_Un) blast
qed simp

lemma evidence_disjoint:
  assumes "inv s" "track s src frames obs ds = Inr (result, s')" "tt_state result = COMPLETE"
    and "ready e" "select_all select e obs (tt_tracklets result) = Inr (rs, e')"
  shows "distinct (concat (map er_observation_ids rs)) \<and>
    set (concat (map er_observation_ids rs)) \<subseteq> ob_observation_id ` set obs"
proof -
  note p = track_partitions [OF assms(1-3)]
  from select_all_ids [OF assms(4) partition_ids(2) [OF p] assms(5)] mset_eq_setD [OF partition_ids(1) [OF p]]
  show ?thesis by simp
qed

end

section \<open>The real tracker and its fake\<close>

lemma track_Inr_core:
  assumes "track nfc s src frames obs ds = Inr (r, s')"
  shows "\<exists>page. track_page_core nfc s src frames obs ds None True (\<lambda>_. False) ''track'' = Inr page \<and>
    tt_state r = tg_state page \<and> tt_tracklets r = tg_tracklets page \<and> tracking_result_post nfc r = None"
  using assms by (auto simp: track_def mk_tracking_result_def bindE_Inr_iff except_value_Inr checked_Inr_iff Let_def)

lemma track_partition:
  assumes nfc: "nfc_ascii nfc" and run: "track nfc s src frames obs ds = Inr (r, s')" and complete: "tt_state r = COMPLETE"
  shows "partitions nfc obs (tt_tracklets r)"
proof -
  from track_Inr_core [OF run] complete obtain page where
      core: "track_page_core nfc s src frames obs ds None True (\<lambda>_. False) ''track'' = Inr page"
    and page: "tg_state page = COMPLETE" "tt_tracklets r = tg_tracklets page" and post: "tracking_result_post nfc r = None"
    by auto
  have open_tracks_closed: "cursor_points (tg_cursor page) = []" by (rule core_conserves(2) [OF nfc page(1) core]) simp
  from core_conserves(1) [OF nfc page(1) core]
  have "mset (concat (map tk_points (tt_tracklets r))) = mset (map point_of obs)"
    by (simp add: page(2) completed_points_def open_tracks_closed) (simp add: cursor_points_def cursor_tracks_def)
  moreover obtain v where "validate_inputs nfc s src frames obs ds None True False ''track'' = Inr v"
    using core by (auto simp: track_page_core_def bindE_Inr_iff)
  then have "\<forall>ob \<in> set obs. observation_post nfc ob = None" "distinct (map ob_observation_id obs)"
    unfolding validate_inputs_Inr request_values_None by blast+
  moreover have "\<forall>t \<in> set (tt_tracklets r). tracklet_post nfc t = None"
    using post by (simp add: tracking_result_post_def run_checks_None)
  ultimately show ?thesis by (simp add: partitions_def)
qed

lemma scripted_tracklets_Inr:
  "scripted_tracklets src found ts acc = Inr tracked \<Longrightarrow>
   tracked = acc @ map tp_observation_id (concat (map tk_points ts)) \<and>
   (\<forall>t \<in> set ts. \<forall>p \<in> set (tk_points t). scripted_point_ok t p (found (tp_observation_id p)))"
proof (induction ts arbitrary: acc)
  case (Cons t ts)
  then have "scripted_tracklets src found ts (acc @ map tp_observation_id (tk_points t)) = Inr tracked"
    and ok: "\<forall>p \<in> set (tk_points t). scripted_point_ok t p (found (tp_observation_id p))"
    by (auto simp: list_all_iff split: if_splits)
  from Cons.IH [OF this(1)] ok show ?case by simp
qed simp

lemma fake_track_partition:
  assumes result: "tracking_result_post nfc (ft_result s) = None"
    and run: "fake_track nfc s src frames obs ds = Inr (r, s')" and complete: "tt_state r = COMPLETE"
  shows "partitions nfc obs (tt_tracklets r)"
proof -
  have r: "r = ft_result s" using run by (auto simp: fake_track_def bindE_Inr_iff)
  from run complete obtain found tracked where
      found: "found = by_id obs" "\<forall>ob \<in> set obs. observation_post nfc ob = None" "distinct (map ob_observation_id obs)"
    and scripted: "scripted_tracklets src found (tt_tracklets r) [] = Inr tracked"
    and all: "distinct tracked" "set tracked = ob_observation_id ` set obs"
    by (auto simp: fake_track_def r bindE_Inr_iff checked_Inr_iff perception_observations_def outcome run_checks_None)
  let ?points = "concat (map tk_points (tt_tracklets r))"
  note points = scripted_tracklets_Inr [OF scripted]
  have tracked: "tracked = map tp_observation_id ?points" using points by simp
  have point: "p = point_of (the (by_id obs (tp_observation_id p)))" if "p \<in> set ?points" for p
  proof -
    from that obtain t where "t \<in> set (tt_tracklets r)" "p \<in> set (tk_points t)" by auto
    with points have "scripted_point_ok t p (by_id obs (tp_observation_id p))" by (simp add: found(1))
    then obtain ob where ob: "by_id obs (tp_observation_id p) = Some ob" "scripted_point_ok t p (Some ob)"
      by (cases "by_id obs (tp_observation_id p)") (auto simp: scripted_point_ok_def)
    moreover have "ob_observation_id ob = tp_observation_id p" using ob(1) by (simp add: by_id_Some [OF found(3)])
    ultimately show ?thesis
      unfolding ob(1) option.sel by (cases p) (simp add: scripted_point_ok_def point_of_def)
  qed
  have "mset tracked = mset (map ob_observation_id obs)"
    using all found(3) by (metis set_eq_iff_mset_eq_distinct set_map)
  then have "image_mset (\<lambda>i. point_of (the (by_id obs i))) (mset tracked) =
      mset (map (\<lambda>ob. point_of (the (by_id obs (ob_observation_id ob)))) obs)"
    by (simp add: multiset.map_comp comp_def)
  moreover have "map (\<lambda>ob. point_of (the (by_id obs (ob_observation_id ob)))) obs = map point_of obs"
    using by_id_Some [OF found(3)] by (intro map_cong) (metis option.sel)+
  moreover have "map (\<lambda>i. point_of (the (by_id obs i))) tracked = ?points"
    unfolding tracked map_map comp_def using point by (intro map_idI) metis
  ultimately have "mset ?points = mset (map point_of obs)" by (metis mset_map)
  moreover have "\<forall>t \<in> set (tt_tracklets r). tracklet_post nfc t = None"
    using result by (simp add: r tracking_result_post_def run_checks_None)
  ultimately show ?thesis using found by (simp add: partitions_def)
qed

interpretation real_tracker: tracker_port nfc "track nfc" "\<lambda>_ :: tracker. nfc_ascii nfc" for nfc
  by unfold_locales (auto intro: track_partition)

interpretation scripted_tracker:
  tracker_port nfc "fake_track nfc" "\<lambda>s. tracking_result_post nfc (ft_result s) = None" for nfc
proof unfold_locales
  fix s s' :: fake_tracker and src frames obs ds r
  assume inv: "tracking_result_post nfc (ft_result s) = None" and run: "fake_track nfc s src frames obs ds = Inr (r, s')"
  from run have "ft_result s' = ft_result s" by (auto simp: fake_track_def bindE_Inr_iff)
  with inv show "tracking_result_post nfc (ft_result s') = None" by simp
  show "tt_state r = COMPLETE \<Longrightarrow> partitions nfc obs (tt_tracklets r)"
    by (rule fake_track_partition [OF inv run])
qed

section \<open>The real selector and its fake\<close>

definition selector_ready :: "(string \<Rightarrow> string) \<Rightarrow> evidence_selector \<Rightarrow> bool" where
  "selector_ready nfc e \<longleftrightarrow> nfc_ascii nfc \<and> selection_limits_post (sl_max_selected e) = None"

lemma only_port_errors_Inr [outcome]: "only_port_errors m e = Inr x \<longleftrightarrow> m = Inr x"
  by (auto simp: only_port_errors_def split: sum.splits exn.splits)

lemma plan_ids: "plan_observation_ids (plan_of n t obs) = map (\<lambda>item. ob_observation_id (snd item)) (best n t obs)"
  by (simp add: plan_observation_ids_def plan_of_def intent_of_def split_def comp_def)
    (simp only: map_snd_enumerate [of "\<lambda>item. ob_observation_id (snd item)"])

lemma best_ids:
  assumes "evidence_matches t obs"
  shows "ob_observation_id ` snd ` set (best n t obs) \<subseteq> tp_observation_id ` set (tk_points t)"
proof -
  have "ob_observation_id ` snd ` set (scored t obs) = tp_observation_id ` set (tk_points t)"
    using arg_cong [OF scored_ids [OF assms], of set] by (simp add: image_image)
  with best_candidates(1) [of n t obs] show ?thesis by blast
qed

lemma evidence_select_Inr:
  assumes ready: "selector_ready nfc e"
  shows "evidence_select nfc e t obs = Inr (r, e') \<longleftrightarrow>
    length obs \<le> MAX_PORT_BATCH_ITEMS \<and> tracklet_post nfc t = None \<and> (\<forall>ob \<in> set obs. observation_post nfc ob = None) \<and>
    evidence_matches t obs \<and>
    r = \<lparr>er_state = COMPLETE, er_observation_ids = map (\<lambda>item. ob_observation_id (snd item)) (best (sl_max_selected e) t obs),
         er_reason = None\<rparr> \<and>
    e' = e\<lparr>sl_calls := sl_calls e @ [\<lparr>pc_port = EVIDENCE_SELECTOR, pc_operation = ''select'', pc_item_count = length obs\<rparr>]\<rparr>"
proof -
  let ?r = "\<lparr>er_state = COMPLETE, er_observation_ids = map (\<lambda>item. ob_observation_id (snd item)) (best (sl_max_selected e) t obs),
         er_reason = None\<rparr>"
  have nfc: "nfc_ascii nfc" and n: "selection_limits_post (sl_max_selected e) = None"
    using ready by (simp_all add: selector_ready_def)
  note core = evidence_plan_core_Inr [OF nfc n]
  have post: "evidence_selection_result_post ?r = None"
    if "tracklet_post nfc t = None" "\<forall>ob \<in> set obs. observation_post nfc ob = None" "evidence_matches t obs"
  proof -
    have "sl_max_selected e \<le> MAX_SELECTED_OBSERVATIONS" "1 \<le> sl_max_selected e"
      using n by (simp_all add: selection_limits_post_def)
    then have "int (length (best (sl_max_selected e) t obs)) \<le> MAX_SELECTED_OBSERVATIONS"
      by (simp add: best_def min_def le_nat_iff)
    then have "length (best (sl_max_selected e) t obs) \<le> MAX_PORT_BATCH_ITEMS"
      by (simp add: MAX_SELECTED_OBSERVATIONS_def MAX_PORT_BATCH_ITEMS_def)
    moreover have "is_typed_id ''obs'' (ob_observation_id (snd item))" if "item \<in> set (best (sl_max_selected e) t obs)" for item
    proof -
      have "snd item \<in> set obs"
        using scored_valid(1) [of nfc t obs "fst item" "snd item"] that best_candidates(1) [of "sl_max_selected e" t obs]
          \<open>tracklet_post nfc t = None\<close> \<open>\<forall>ob \<in> set obs. observation_post nfc ob = None\<close> \<open>evidence_matches t obs\<close>
        by auto
      then show ?thesis using \<open>\<forall>ob \<in> set obs. observation_post nfc ob = None\<close> observation_postD(15) by blast
    qed
    ultimately show ?thesis
      using best_candidates(2) [OF that(3) that(1), of "sl_max_selected e"]
      by (simp add: evidence_selection_result_post_def outcome list_all_iff)
  qed
  have "evidence_select nfc e t obs = Inr (r, e') \<longleftrightarrow>
    (\<exists>plan. evidence_plan_core nfc e t obs ''select'' = Inr plan \<and>
       evidence_selection_result_post \<lparr>er_state = ep_state plan, er_observation_ids = plan_observation_ids plan,
         er_reason = ep_reason plan\<rparr> = None \<and>
       r = \<lparr>er_state = ep_state plan, er_observation_ids = plan_observation_ids plan, er_reason = ep_reason plan\<rparr> \<and>
       (\<exists>calls. record_call (sl_calls e) EVIDENCE_SELECTOR ''select'' (length obs) = Inr calls \<and> e' = e\<lparr>sl_calls := calls\<rparr>))"
    by (auto simp: evidence_select_def outcome Let_def)
  also have "\<dots> \<longleftrightarrow> length obs \<le> MAX_PORT_BATCH_ITEMS \<and> tracklet_post nfc t = None \<and>
    (\<forall>ob \<in> set obs. observation_post nfc ob = None) \<and> evidence_matches t obs \<and> r = ?r \<and>
    e' = e\<lparr>sl_calls := sl_calls e @ [\<lparr>pc_port = EVIDENCE_SELECTOR, pc_operation = ''select'', pc_item_count = length obs\<rparr>]\<rparr>"
    using post unfolding core
    by (auto simp: plan_ids record_call_ok operation_tokens) (simp_all add: plan_of_def)
  finally show ?thesis .
qed

interpretation best_selector: evidence_port "evidence_select nfc" "selector_ready nfc" for nfc
proof unfold_locales
  fix e e' t obs r
  assume ready: "selector_ready nfc e" and run: "evidence_select nfc e t obs = Inr (r, e')"
  note facts = run [unfolded evidence_select_Inr [OF ready]]
  then show "selector_ready nfc e'" using ready by (auto simp: selector_ready_def)
  from facts show "distinct (er_observation_ids r) \<and> set (er_observation_ids r) \<subseteq> tp_observation_id ` set (tk_points t)"
    using best_candidates(2) [of t obs nfc "sl_max_selected e"] best_ids [of t obs "sl_max_selected e"]
    by (auto simp: image_image)
qed

interpretation scripted_selector:
  evidence_port "fake_select nfc" "\<lambda>e. evidence_selection_result_post (fe_result e) = None" for nfc
proof unfold_locales
  fix e e' :: fake_selector and t obs r
  assume ready: "evidence_selection_result_post (fe_result e) = None" and run: "fake_select nfc e t obs = Inr (r, e')"
  from run have same: "fe_result e' = fe_result e" "r = fe_result e"
    and subset: "set (er_observation_ids (fe_result e)) \<subseteq> tp_observation_id ` set (tk_points t)"
    by (auto simp: fake_select_def Let_def bindE_Inr_iff checked_Inr_iff outcome)
  show "evidence_selection_result_post (fe_result e') = None" using ready same by simp
  show "distinct (er_observation_ids r) \<and> set (er_observation_ids r) \<subseteq> tp_observation_id ` set (tk_points t)"
    using ready subset by (simp add: same evidence_selection_result_post_def outcome)
qed

interpretation perception: perception_chain nfc "track nfc" "\<lambda>_ :: tracker. nfc_ascii nfc" "evidence_select nfc" "selector_ready nfc" for nfc ..

section \<open>The chain of the real components\<close>

lemma select_all_total:
  assumes "selector_ready nfc e" and "partitions nfc obs all" and "set ts \<subseteq> set all"
  shows "\<exists>rs e'. select_all (evidence_select nfc) e obs ts = Inr (rs, e') \<and> length rs = length ts \<and>
    (\<forall>r \<in> set rs. er_state r = COMPLETE \<and> er_observation_ids r \<noteq> [])"
  using assms(1,3)
proof (induction ts arbitrary: e)
  case (Cons t ts)
  have t: "t \<in> set all" using Cons.prems by simp
  note own = partition_matches [OF assms(2) t]
  have post: "tracklet_post nfc t = None" using assms(2) t by (simp add: partitions_def)
  let ?r = "\<lparr>er_state = COMPLETE, er_observation_ids =
      map (\<lambda>item. ob_observation_id (snd item)) (best (sl_max_selected e) t (own_observations t obs)), er_reason = None\<rparr>"
  obtain e1 where e1: "evidence_select nfc e t (own_observations t obs) = Inr (?r, e1)"
    using own post by (simp add: evidence_select_Inr [OF Cons.prems(1)])
  have "1 \<le> sl_max_selected e" using Cons.prems(1) by (simp add: selector_ready_def selection_limits_post_def)
  moreover have "length (scored t (own_observations t obs)) = length (tk_points t)" by (simp add: scored_def)
  ultimately have "best (sl_max_selected e) t (own_observations t obs) \<noteq> []"
    using tracklet_postD(7) [OF post] by (auto simp: best_def take_eq_Nil dest: arg_cong [of _ _ length])
  moreover obtain rs e' where "select_all (evidence_select nfc) e1 obs ts = Inr (rs, e')" "length rs = length ts"
      "\<forall>r \<in> set rs. er_state r = COMPLETE \<and> er_observation_ids r \<noteq> []"
    using Cons.IH [OF best_selector.select_ready [OF Cons.prems(1) e1]] Cons.prems(2) by auto
  ultimately show ?case using e1 by auto
qed simp

end
