(* ===== verification/Evidence_Codec.thy ===== *)
theory Evidence_Codec
  imports Evidence_Facts
begin

text \<open>
  The JSON form of scores and intents is read back as it was written, from the mapping and from the
  canonical bytes.
\<close>

lemma evidence_score_postD:
  assumes "evidence_score_post nfc v = None"
  shows "media_time_valid nfc (es_pts v)" "is_typed_id ''obs'' (es_observation_id v)"
  using assms unfolding evidence_score_post_def run_checks_ConsN require_None outcome by blast+

lemma evidence_intent_postD:
  assumes "evidence_intent_post nfc v = None"
  shows "is_typed_id ''trk'' (ei_tracklet_id v)" "is_typed_id ''obs'' (ei_observation_id v)"
    "is_typed_id ''src'' (ei_source_id v)" "is_typed_id ''frm'' (ei_frame_id v)" "media_time_valid nfc (ei_pts v)"
    "geometry_valid nfc (ei_geometry v)" "evidence_score_post nfc (ei_score v) = None" "producer_post nfc (ei_selector v) = None"
    "ei_kind v = evidence_kind" "ei_retention v = evidence_retention" "ei_deletion_owner v = evidence_deletion_owner"
  using assms unfolding evidence_intent_post_def run_checks_ConsN require_None outcome by blast+

lemma score_roundtrip [roundtrip]:
  assumes post: "evidence_score_post nfc v = None"
  shows "score_from_mapping nfc (score_to_mapping v) = Inr v"
    and "score_from_mapping nfc (sort_json (score_to_mapping v)) = Inr v"
proof -
  note facts = post evidence_score_postD(1) [OF post]
  show "score_from_mapping nfc (score_to_mapping v) = Inr v"
    using facts by (cases v) (simp add: score_from_mapping_def score_to_mapping_def roundtrip codec_simps cong: bindE_weak_cong)
  show "score_from_mapping nfc (sort_json (score_to_mapping v)) = Inr v"
    using facts by (cases v) (simp add: score_from_mapping_def score_to_mapping_def roundtrip codec_simps cong: bindE_weak_cong)
qed

lemma intent_roundtrip [roundtrip]:
  assumes post: "evidence_intent_post nfc v = None"
  shows "intent_from_mapping nfc (intent_to_mapping v) = Inr v"
    and "intent_from_mapping nfc (sort_json (intent_to_mapping v)) = Inr v"
proof -
  note facts = post evidence_intent_postD(5-8) [OF post]
  show "intent_from_mapping nfc (intent_to_mapping v) = Inr v"
    using facts by (cases v) (simp add: intent_from_mapping_def intent_to_mapping_def intent_schema_def roundtrip codec_simps
        cong: bindE_weak_cong)
  show "intent_from_mapping nfc (sort_json (intent_to_mapping v)) = Inr v"
    using facts by (cases v) (simp add: intent_from_mapping_def intent_to_mapping_def intent_schema_def roundtrip codec_simps
        cong: bindE_weak_cong)
qed

lemma plain_score [plain]:
  assumes "evidence_score_post nfc v = None"
  shows "plain_json (score_to_mapping v)"
proof -
  note D = evidence_score_postD [OF assms]
  have "list_all is_ascii (es_observation_id v)"
    using D(2) by (auto elim!: typed_id_ascii [rotated] simp: char_evaluation)
  with D(1) show ?thesis
    by (auto simp: score_to_mapping_def intro: plain) (simp_all add: char_evaluation)
qed

lemma plain_intent [plain]:
  assumes "evidence_intent_post nfc v = None"
  shows "plain_json (intent_to_mapping v)"
proof -
  note D = evidence_intent_postD [OF assms]
  have "list_all is_ascii (ei_tracklet_id v)" "list_all is_ascii (ei_observation_id v)" "list_all is_ascii (ei_source_id v)"
      "list_all is_ascii (ei_frame_id v)"
    using D(1-4) by (auto elim!: typed_id_ascii [rotated] simp: char_evaluation)
  with D(5-11) show ?thesis
    by (auto simp: intent_to_mapping_def intent_schema_def evidence_kind_def evidence_retention_def
        evidence_deletion_owner_def intro: plain) (simp_all add: char_evaluation)
qed

lemma loads_dumps_intent:
  assumes "dumps_evidence_intent nfc v = Inr b" and "MAX_DEPTH \<le> limit"
  shows "loads_evidence_intent nfc limit b = Inr v"
proof -
  have valid: "evidence_intent_post nfc v = None" and bytes: "canonical_bytes nfc (intent_to_mapping v) = Inr b"
    using assms(1) by (auto simp: dumps_evidence_intent_def outcome)
  obtain kvs where kvs: "intent_to_mapping v = JObj kvs" by (simp add: intent_to_mapping_def)
  obtain members where "parse_json nfc limit b = Inr members" "JObj members = sort_json (intent_to_mapping v)"
    using parse_canonical_mapping [OF bytes plain_intent [OF valid] kvs assms(2)] by blast
  then show ?thesis
    using intent_roundtrip(2) [OF valid] by (simp add: loads_evidence_intent_def)
qed

lemma load_dumps_intent:
  assumes "dumps_evidence_intent nfc v = Inr b" and "MAX_DEPTH \<le> limit" and "file_reader read content" and "content s = b"
  shows "load_evidence_intent nfc limit read s = Inr v"
proof -
  have "length b \<le> MAX_RECORD_BYTES"
    using assms(1) by (auto simp: dumps_evidence_intent_def canonical_bytes_def Let_def outcome)
  then show ?thesis
    using loads_dumps_intent [OF assms(1,2)] assms(4) read_bounded_content [OF assms(3), of s "MAX_RECORD_BYTES + 1"]
    by (auto simp: load_evidence_intent_def)
qed

end
