(* ===== verification/Evidence_Examples.thy ===== *)
theory Evidence_Examples
  imports Evidence_Plans Evidence_Codec Tracker_Examples
begin

text \<open>
  A concrete plan: the tracklet of the tracker's example with its one observation, its intent, and a
  crop of a two-pixel frame.
\<close>

definition ex_selector :: evidence_selector where
  "ex_selector = \<lparr>sl_max_selected = 3, sl_calls = []\<rparr>"

definition ex_evidence_score :: evidence_score where
  "ex_evidence_score = \<lparr>es_boundary_touch_count = 3, es_confidence_millionths = 1, es_visible_area_pixels = 1,
     es_source_area_pixels = 2, es_visible_area_millionths = 500000, es_midpoint_numerator = 0,
     es_midpoint_denominator = 1, es_point_index = 0, es_point_count = 1, es_pts = ex_time 0,
     es_observation_id = ob_observation_id ex_vehicle\<rparr>"

definition ex_intent :: evidence_intent where
  "ex_intent = intent_of 3 (tk_tracklet_id ex_vehicle_track) 0 (ex_evidence_score, ex_vehicle)"

lemma ex_selector_valid: "selection_limits_post (sl_max_selected ex_selector) = None"
  by (simp add: ex_selector_def selection_limits_post_def MAX_SELECTED_OBSERVATIONS_def)

lemma ex_track_fields [simp]:
  "tk_points ex_vehicle_track = [point_of ex_vehicle]" "tk_source_id ex_vehicle_track = so_source_id ex_source"
  "tk_stream_index ex_vehicle_track = 0" "tk_category ex_vehicle_track = ''vehicle''"
  by (simp_all add: ex_vehicle_track_def)

lemma ex_matches: "evidence_matches ex_vehicle_track [ex_vehicle]"
  by (simp add: evidence_matches_def by_id_def point_matches_def)

lemma ex_scored: "scored ex_vehicle_track [ex_vehicle] = [(ex_evidence_score, ex_vehicle)]"
  by (simp add: scored_def by_id_def score_of_def start_pts_def end_pts_def geometry_measures_def
      ex_evidence_score_def) (simp add: ex_geometry_def MILLION_def)

lemma ex_best: "best 3 ex_vehicle_track [ex_vehicle] = [(ex_evidence_score, ex_vehicle)]"
  by (simp add: best_def ex_scored)

lemma ex_plan_intents: "ep_intents (plan_of 3 ex_vehicle_track [ex_vehicle]) = [ex_intent]"
  by (simp add: plan_of_def ex_best ex_intent_def)

lemma ex_plan_core:
  "evidence_plan_core id ex_selector ex_vehicle_track [ex_vehicle] operation = Inr (plan_of 3 ex_vehicle_track [ex_vehicle])"
  using ex_vehicle_track_valid ex_vehicle_valid ex_matches
  by (simp add: evidence_plan_core_Inr [OF nfc_id ex_selector_valid] MAX_PORT_BATCH_ITEMS_def) (simp add: ex_selector_def)

lemma ex_intent_valid: "evidence_intent_post id ex_intent = None"
  unfolding ex_intent_def
  using ex_vehicle_valid ex_scored
  by (intro intent_of_valid(1) [OF nfc_id ex_vehicle_track_valid _ ex_matches]) (simp_all add: MAX_SELECTED_OBSERVATIONS_def)

lemma ex_intent_fields [simp]:
  "ei_geometry ex_intent = ex_geometry" "ei_frame_id ex_intent = fr_frame_id (ex_frame 0 0)"
  "ei_kind ex_intent = evidence_kind" "ei_retention ex_intent = evidence_retention"
  "ge_source_width ex_geometry = 2" "ge_source_height ex_geometry = 1"
  by (simp_all add: ex_intent_def intent_of_def)

lemma ex_selector_ids:
  "general_ok id (tk_tracklet_id ex_vehicle_track)" "length (quote (tk_tracklet_id ex_vehicle_track)) \<le> 410"
  "general_ok id (pr_configuration_sha256 (selector_producer 3))"
  "length (quote (pr_configuration_sha256 (selector_producer 3))) \<le> 386"
  "length (show_int 500000) \<le> 41" "length (show_int 3) \<le> 41"
proof -
  show "general_ok id (tk_tracklet_id ex_vehicle_track)" by (rule tracklet_postD(1) [OF ex_vehicle_track_valid])
  have "length (tk_tracklet_id ex_vehicle_track) = 68" by (simp add: ex_vehicle_track_def)
  then show "length (quote (tk_tracklet_id ex_vehicle_track)) \<le> 410"
    using length_quote [of "tk_tracklet_id ex_vehicle_track"] by simp
  show "general_ok id (pr_configuration_sha256 (selector_producer 3))"
    by (simp add: selector_producer_def general_ok_id_hash)
  show "length (quote (pr_configuration_sha256 (selector_producer 3))) \<le> 386"
    using length_quote [of "pr_configuration_sha256 (selector_producer 3)"] by (simp add: selector_producer_def)
  show "length (show_int 500000) \<le> 41" "length (show_int 3) \<le> 41" by (auto intro!: show_int_length)
qed

lemma ex_intent_dumps: "\<exists>b. dumps_evidence_intent id ex_intent = Inr b"
proof -
  define sha where "sha = pr_configuration_sha256 (selector_producer 3)"
  have producer: "selector_producer 3 = \<lparr>pr_name = ''visualworld.best-frame-evidence-selector'', pr_version = ''1'',
      pr_configuration_sha256 = sha\<rparr>"
    by (simp add: sha_def selector_producer_def)
  have sha: "general_ok id sha" "length (quote sha) \<le> 386" using ex_selector_ids(3,4) by (simp_all add: sha_def)
  have "length (show_nat 500000) \<le> 41" "length (show_nat 3) \<le> 41"
    using ex_selector_ids(5,6) by (simp_all add: show_int_def)
  then have "canonical_bytes id (intent_to_mapping ex_intent) = Inr (render (sort_json (intent_to_mapping ex_intent)))"
    using ex_ids [of 0] ex_vehicle_ids(1,2) ex_selector_ids(1,2,5,6) sha
    by (intro canonical_bytes_eval) (simp_all add: intent_to_mapping_def ex_intent_def intent_of_def score_to_mapping_def
        ex_evidence_score_def intent_schema_def evidence_kind_def evidence_retention_def evidence_deletion_owner_def producer
        ex_json_evaluation producer_to_mapping_def render_evaluation)
  then show ?thesis using ex_intent_valid by (simp add: dumps_evidence_intent_def)
qed

section \<open>A crop\<close>

definition ex_pixels :: string where
  "ex_pixels = [CHR 0x01, CHR 0x02, CHR 0x03, CHR 0x04, CHR 0x05, CHR 0x06]"

definition ex_crop :: rgb24_crop where
  "ex_crop = \<lparr>cr_width = 1, cr_height = 1, cr_pixels = [CHR 0x01, CHR 0x02, CHR 0x03],
     cr_sha256 = sha256_hex [CHR 0x01, CHR 0x02, CHR 0x03]\<rparr>"

definition ex_crop_artifact :: artifact where
  "ex_crop_artifact = \<lparr>ar_sha256 = cr_sha256 ex_crop, ar_bytes = show_int 3, ar_media_type = RGB24_MEDIA_TYPE\<rparr>"

definition ex_reference :: evidence_ref where
  "ex_reference = \<lparr>ev_evidence_id = ''evi'' @ ''_'' @ sha256_hex (render (sort_json
       (evidence_identity (cr_sha256 ex_crop) (fr_frame_id (ex_frame 0 0)) (Some ex_geometry) evidence_kind))),
     ev_frame_id = fr_frame_id (ex_frame 0 0), ev_artifact = ex_crop_artifact, ev_geometry = Some ex_geometry,
     ev_kind = evidence_kind, ev_retention = evidence_retention\<rparr>"

lemma ex_extract: "extract_rgb24_crop ex_pixels 2 1 ex_geometry = Inr ex_crop"
  by (simp add: extract_rgb24_crop_def rgb24_crop_create_def dimension_check_def ex_geometry_def ex_pixels_def MAX_I31_def
      slice_def ex_crop_def numeral_eq_Suc)

lemma ex_artifact_made: "crop_artifact id ex_crop = Inr ex_crop_artifact" and ex_crop_artifact_valid: "artifact_post id ex_crop_artifact = None"
proof -
  have "decimal_check id (show_int 3) False 0 MAX_U64 p = None" for p
    by (rule decimal_check_show_int [OF nfc_id]) (simp_all add: bound_defs)
  then show "artifact_post id ex_crop_artifact = None"
    by (simp add: artifact_post_def ex_crop_artifact_def ex_crop_def RGB24_MEDIA_TYPE_def sha256_check_None general_ok_id_hash
        token_check_literal [OF nfc_id] char_evaluation MAX_TOKEN_BYTES_def)
  then show "crop_artifact id ex_crop = Inr ex_crop_artifact"
    by (simp add: crop_artifact_def ex_crop_artifact_def) (simp add: ex_crop_def)
qed

lemma ex_reference_made:
  "evidence_create id (fr_frame_id (ex_frame 0 0)) ex_crop_artifact (Some ex_geometry) evidence_kind evidence_retention = Inr ex_reference"
  and ex_reference_valid: "evidence_valid id ex_reference"
proof -
  define sha where "sha = cr_sha256 ex_crop"
  have sha: "general_ok id sha" "length (quote sha) \<le> 386"
    using length_quote [of "cr_sha256 ex_crop"] by (simp_all add: sha_def ex_crop_def general_ok_id_hash)
  have same: "ar_sha256 ex_crop_artifact = sha" by (simp add: ex_crop_artifact_def sha_def)
  let ?j = "evidence_identity sha (fr_frame_id (ex_frame 0 0)) (Some ex_geometry) evidence_kind"
  have ident: "mk_identifier id ''evi'' ?j = Inr (''evi'' @ ''_'' @ sha256_hex (render (sort_json ?j)))"
    using ex_ids [of 0] sha
    by (intro mk_identifier_eval) (simp_all add: evidence_identity_def optional_geometry_json_def evidence_kind_def
        ex_json_evaluation render_evaluation)
  have eid: "ev_evidence_id ex_reference = ''evi'' @ ''_'' @ sha256_hex (render (sort_json ?j))"
    by (simp add: ex_reference_def sha_def)
  have "general_ok id (ev_evidence_id ex_reference)"
    unfolding eid by (rule general_ok_hash_id [OF nfc_id]) (simp_all add: char_evaluation)
  moreover have "is_typed_id ''evi'' (ev_evidence_id ex_reference)" unfolding eid by (rule is_typed_id_hash)
  moreover have projection: "evidence_identity_projection ex_reference = ?j"
    by (simp add: evidence_identity_projection_def) (simp add: ex_reference_def same)
  ultimately have post: "evidence_post id ex_reference = None"
    using ex_ids [of 0]
    by (simp add: evidence_post_def typed_id_check_None identifier_check_None ident eid)
      (simp add: ex_reference_def evidence_kind_def evidence_retention_def token_check_literal [OF nfc_id] char_evaluation
        MAX_TOKEN_BYTES_def)
  have "ex_reference = \<lparr>ev_evidence_id = ''evi'' @ ''_'' @ sha256_hex (render (sort_json ?j)),
      ev_frame_id = fr_frame_id (ex_frame 0 0), ev_artifact = ex_crop_artifact, ev_geometry = Some ex_geometry,
      ev_kind = evidence_kind, ev_retention = evidence_retention\<rparr>"
    by (simp add: ex_reference_def sha_def)
  then show "evidence_create id (fr_frame_id (ex_frame 0 0)) ex_crop_artifact (Some ex_geometry) evidence_kind evidence_retention = Inr ex_reference"
    using post by (simp add: evidence_create_def same ident)
  have "ev_artifact ex_reference = ex_crop_artifact" "ev_geometry ex_reference = Some ex_geometry"
    by (simp_all add: ex_reference_def)
  then show "evidence_valid id ex_reference"
    using post ex_crop_artifact_valid ex_geometry_valid by (simp add: evidence_valid_def)
qed

definition ex_materialized :: materialized_evidence where
  "ex_materialized = \<lparr>me_intent = ex_intent, me_need = DOWNSTREAM_DETAIL, me_detail_resolution = RESOLVABLE,
     me_reference = ex_reference, me_crop = ex_crop\<rparr>"

lemma ex_materialized_valid: "materialized_evidence_post id ex_materialized = None"
proof -
  have "own_crop ex_crop = Inr ex_crop"
    by (simp add: own_crop_def rgb24_crop_create_def ex_crop_def dimension_check_def MAX_I31_def)
  moreover have "own_intent id ex_intent = Inr ex_intent" "own_evidence_ref id ex_reference = Inr ex_reference"
    using ex_intent_valid ex_reference_valid by (simp_all add: own_intent_Inr own_evidence_ref_Inr)
  moreover have "ev_frame_id ex_reference = fr_frame_id (ex_frame 0 0)" "ev_geometry ex_reference = Some ex_geometry"
      "ev_kind ex_reference = evidence_kind" "ev_retention ex_reference = evidence_retention" "ev_artifact ex_reference = ex_crop_artifact"
    by (simp_all add: ex_reference_def)
  ultimately show ?thesis
    by (simp add: materialized_evidence_post_def ex_materialized_def ex_artifact_made)
qed

lemma ex_materialize:
  "\<exists>s'. evidence_materialize id ex_selector ex_intent ex_vehicle_track [ex_vehicle] (Some ex_pixels) DOWNSTREAM_DETAIL RESOLVABLE =
     Inr (\<lparr>ec_state = COMPLETE, ec_materialized = Some ex_materialized, ec_reason = None\<rparr>, s')"
proof -
  have owned: "own_intent id ex_intent = Inr ex_intent" using ex_intent_valid by (simp add: own_intent_Inr)
  have result: "mk_crop_result id COMPLETE (Some ex_materialized) None =
      Inr \<lparr>ec_state = COMPLETE, ec_materialized = Some ex_materialized, ec_reason = None\<rparr>"
    by (simp add: mk_crop_result_def evidence_crop_result_post_def ex_materialized_valid)
  have "materialize_core id ex_selector ex_intent ex_vehicle_track [ex_vehicle] (Some ex_pixels) DOWNSTREAM_DETAIL RESOLVABLE =
      Inr \<lparr>ec_state = COMPLETE, ec_materialized = Some ex_materialized, ec_reason = None\<rparr>"
    by (simp add: materialize_core_def owned ex_plan_core ex_plan_intents ex_extract ex_artifact_made ex_reference_made
        MAX_EVIDENCE_RGB24_FRAME_BYTES_def ex_materialized_def [symmetric] ex_materialized_valid result)
  then show ?thesis
    by (simp add: evidence_materialize_def only_port_errors_def record_call_ok is_port_token_def token_evaluation
        MAX_PORT_BATCH_ITEMS_def)
qed

end
