(* ===== verification/Perception_Theorems.thy ===== *)
theory Perception_Theorems
  imports Perception_Ports Evidence_Crops Evidence_Examples Tracker_Theorems Record_Properties
begin

text \<open>
  The properties of evidence selection, and of the chain from tracking to evidence.
\<close>

section \<open>Helper lemmas\<close>

lemma scored_ranks_distinct: "distinct (map (\<lambda>item. score_rank (fst item)) (scored t obs))"
proof -
  have "map (\<lambda>item. es_point_index (fst item)) (scored t obs) = map (\<lambda>(i, p). int i) (enumerate 0 (tk_points t))"
    by (simp add: scored_def Let_def split_def comp_def score_of_def)
  also have "\<dots> = map int [0..<length (tk_points t)]"
    by (rule nth_equalityI) (simp_all add: split_def nth_enumerate_eq)
  finally have "distinct (map (\<lambda>item. es_point_index (fst item)) (scored t obs))" by (simp add: distinct_map)
  then have "distinct (map (\<lambda>r. fst (snd (snd (snd (snd (snd r)))))) (map (\<lambda>item. score_rank (fst item)) (scored t obs)))"
    by (simp add: score_rank_def comp_def)
  then show ?thesis by (simp only: distinct_map)
qed

lemma best_split:
  fixes t obs n
  defines "ranks \<equiv> map (\<lambda>item. score_rank (fst item))"
  shows "sorted_wrt (<) (ranks (best n t obs))"
    and "item \<in> set (scored t obs) \<Longrightarrow> item \<notin> set (best n t obs) \<Longrightarrow> c \<in> set (best n t obs) \<Longrightarrow>
      score_rank (fst c) < score_rank (fst item)"
proof -
  let ?sorted = "sort_key (\<lambda>item. score_rank (fst item)) (scored t obs)"
  have "mset (ranks ?sorted) = mset (ranks (scored t obs))" by (simp add: ranks_def)
  then have "distinct (ranks ?sorted)"
    using scored_ranks_distinct [of t obs] unfolding ranks_def by (metis mset_eq_imp_distinct_iff)
  then have strict: "sorted_wrt (<) (ranks ?sorted)"
    using sorted_sort_key [of "\<lambda>item. score_rank (fst item)" "scored t obs"]
    by (simp add: ranks_def strict_sorted_iff)
  have parts: "ranks ?sorted = ranks (best n t obs) @ ranks (drop (nat n) ?sorted)"
    by (simp add: ranks_def best_def map_append [symmetric] del: map_append)
  then show "sorted_wrt (<) (ranks (best n t obs))" using strict by (simp add: sorted_wrt_append)
  assume item: "item \<in> set (scored t obs)" "item \<notin> set (best n t obs)" and c: "c \<in> set (best n t obs)"
  have "set ?sorted = set (best n t obs) \<union> set (drop (nat n) ?sorted)"
    unfolding best_def set_append [symmetric] by simp
  then have "item \<in> set (drop (nat n) ?sorted)" using item by auto
  with strict c parts show "score_rank (fst c) < score_rank (fst item)"
    by (auto simp: sorted_wrt_append ranks_def)
qed

lemma evidence_plan_Inr:
  assumes "nfc_ascii nfc" and "selection_limits_post (sl_max_selected s) = None"
  shows "evidence_plan nfc s t obs = Inr (plan, s') \<longleftrightarrow>
    length obs \<le> MAX_PORT_BATCH_ITEMS \<and> tracklet_post nfc t = None \<and> (\<forall>ob \<in> set obs. observation_post nfc ob = None) \<and>
    evidence_matches t obs \<and> plan = plan_of (sl_max_selected s) t obs \<and>
    s' = s\<lparr>sl_calls := sl_calls s @ [\<lparr>pc_port = EVIDENCE_SELECTOR, pc_operation = ''plan'', pc_item_count = length obs\<rparr>]\<rparr>"
  unfolding evidence_plan_def bindE_Inr_iff only_port_errors_Inr evidence_plan_core_Inr [OF assms]
  by (auto simp: record_call_ok is_port_token_def token_evaluation)

lemma plan_intents:
  "map ei_score (ep_intents (plan_of n t obs)) = map fst (best n t obs)"
  "length (ep_intents (plan_of n t obs)) = min (nat n) (length (tk_points t))"
  "map ei_rank (ep_intents (plan_of n t obs)) = map int [1..<length (ep_intents (plan_of n t obs)) + 1]"
proof -
  show "map ei_score (ep_intents (plan_of n t obs)) = map fst (best n t obs)"
    by (simp add: plan_of_def intent_of_def split_def comp_def) (simp only: map_snd_enumerate)
  show "length (ep_intents (plan_of n t obs)) = min (nat n) (length (tk_points t))"
    by (simp add: plan_of_def best_def scored_def min.commute)
  show "map ei_rank (ep_intents (plan_of n t obs)) = map int [1..<length (ep_intents (plan_of n t obs)) + 1]"
    by (rule nth_equalityI) (simp_all add: plan_of_def intent_of_def split_def nth_enumerate_eq del: upt_Suc)
qed

lemma by_id_permuted:
  assumes "mset obs = mset obs'" and "distinct (map ob_observation_id obs)"
  shows "by_id obs' = by_id obs"
proof
  fix k
  have "distinct (map ob_observation_id obs')" using assms by (metis mset_eq_imp_distinct_iff mset_map)
  then show "by_id obs' k = by_id obs k"
    using by_id_Some [OF assms(2)] by_id_Some [of obs'] mset_eq_setD [OF assms(1)]
    by (metis not_Some_eq)
qed

section \<open>Errors\<close>

abbreviation selecting :: "string \<Rightarrow> 'a res \<Rightarrow> bool" where
  "selecting \<equiv> foreseen_result EVIDENCE_SELECTOR"

lemma selecting_copies [simp]:
  "selecting operation (own_producer nfc p)" "selecting operation (own_time nfc t)" "selecting operation (own_geometry nfc g)"
  "selecting operation (own_observation nfc ob)" "selecting operation (own_track_point nfc tp)"
  "selecting operation (own_tracklet nfc tk)"
proof -
  have producer: "selecting operation (own_producer nfc p)" for p by (simp add: own_producer_def)
  then show "selecting operation (own_producer nfc p)" .
  have time: "selecting operation (own_time nfc t)" for t
    by (auto simp: own_time_def check_option_def intro!: foreseen_run_checks split: option.splits)
  then show "selecting operation (own_time nfc t)" .
  have posts: "record_check (geometry_post nfc g)" "record_check (rational_post nfc q)" "record_check (producer_space_post s)" for g q s
    by (simp_all add: rational_post_def producer_space_post_def record_run_checks)
  have geometry: "selecting operation (own_geometry nfc g)" for g
    using posts by (auto simp: own_geometry_def own_rational_def record_check_foreseen
        intro!: foreseen_bindE foreseen_mapE split: option.splits)
  then show "selecting operation (own_geometry nfc g)" .
  show "selecting operation (own_observation nfc ob)"
    by (auto simp: own_observation_def producer time geometry intro!: foreseen_bindE)
  have point: "selecting operation (own_track_point nfc tp)" for tp
    by (auto simp: own_track_point_def time geometry intro!: foreseen_bindE)
  then show "selecting operation (own_track_point nfc tp)" .
  show "selecting operation (own_tracklet nfc tk)"
    by (auto simp: own_tracklet_def producer point intro!: foreseen_bindE foreseen_mapE)
qed

lemma selecting_except:
  "selecting operation m \<Longrightarrow> selecting operation (except_value m (selector_error ec operation))"
  by (auto simp: foreseen_result_def except_value_def selector_error_def foreseen_def split: sum.splits)

lemma selecting_plan:
  assumes "nfc_ascii nfc" and "selection_limits_post (sl_max_selected s) = None"
  shows "selecting operation (evidence_plan_core nfc s t obs operation)"
proof (cases "validated_evidence_inputs nfc t obs operation")
  case (Inl e)
  have "selecting operation (validated_evidence_inputs nfc t obs operation)"
    by (auto simp: validated_evidence_inputs_def selector_error_def
        intro!: foreseen_bindE foreseen_run_checks foreseen_mapE selecting_except [unfolded selector_error_def] split: prod.splits)
  with Inl show ?thesis by (simp add: evidence_plan_core_def)
next
  case (Inr r)
  then have "\<exists>plan. evidence_plan_core nfc s t obs operation = Inr plan"
    unfolding validated_evidence_inputs_Inr evidence_plan_core_Inr [OF assms] by blast
  then show ?thesis by auto
qed

lemma only_port_errors_selecting:
  "selecting operation m \<Longrightarrow> only_port_errors m (selector_error INVALID_REQUEST operation) = Inl e \<Longrightarrow>
   \<exists>ec. e = PortError ec EVIDENCE_SELECTOR operation"
  by (auto simp: only_port_errors_def selector_error_def foreseen_result_def foreseen_def split: sum.splits exn.splits)

lemma foreseen_crop [simp]: "foreseen kind operation (CropError c)"
  by (simp add: foreseen_def)

lemma foreseen_check_of [simp]: "foreseen_check kind operation (check_of m) \<longleftrightarrow> foreseen_result kind operation m"
  by (cases m) simp_all

lemma selecting_intent [simp]:
  "selecting operation (own_score nfc v)" "selecting operation (own_intent nfc w)"
proof -
  have score: "foreseen_check EVIDENCE_SELECTOR operation (evidence_score_post nfc v)" for v
    by (auto simp: evidence_score_post_def intro!: foreseen_run_checks)
  then show "selecting operation (own_score nfc v)" by (auto simp: own_score_def intro!: foreseen_bindE)
  have own: "selecting operation (own_score nfc v)" for v using score by (auto simp: own_score_def intro!: foreseen_bindE)
  have "foreseen_check EVIDENCE_SELECTOR operation (evidence_intent_post nfc w)"
    by (auto simp: evidence_intent_post_def own intro!: foreseen_run_checks)
  then show "selecting operation (own_intent nfc w)" by (auto simp: own_intent_def own intro!: foreseen_bindE)
qed

lemma selecting_crops [simp]:
  "selecting operation (extract_rgb24_crop frame width height g)" "selecting operation (crop_artifact nfc c)"
  "selecting operation (evidence_create nfc f a ge k re)" "selecting operation (own_crop c)"
  "selecting operation (own_evidence_ref nfc ref)"
proof -
  have crop: "selecting operation (rgb24_crop_create w h pixels)" for w h pixels
    by (auto simp: rgb24_crop_create_def dimension_check_def intro!: foreseen_run_checks)
  then show "selecting operation (own_crop c)" by (simp add: own_crop_def)
  show "selecting operation (extract_rgb24_crop frame width height g)"
    by (auto simp: extract_rgb24_crop_def dimension_check_def crop intro!: foreseen_bindE foreseen_run_checks split: prod.splits)
  have artifact: "foreseen_check EVIDENCE_SELECTOR operation (artifact_post nfc a)" for a
    by (intro record_check_foreseen) (simp add: artifact_post_def record_run_checks)
  then show "selecting operation (crop_artifact nfc c)" by (simp add: crop_artifact_def Let_def)
  have post: "foreseen_check EVIDENCE_SELECTOR operation (evidence_post nfc v)" for v
    by (intro record_check_foreseen) simp
  have "record_result (mk_identifier nfc prefix j)" for prefix j
    by (auto simp: mk_identifier_def intro!: record_bindE)
  then show "selecting operation (evidence_create nfc f a ge k re)"
    by (auto simp: evidence_create_def Let_def post record_result_foreseen intro!: foreseen_bindE)
  show "selecting operation (own_evidence_ref nfc ref)"
    by (auto simp: own_evidence_ref_def own_artifact_def artifact post intro!: foreseen_bindE split: option.splits)
qed

lemma selecting_materialize:
  assumes "nfc_ascii nfc" and "selection_limits_post (sl_max_selected s) = None"
  shows "selecting ''materialize'' (materialize_core nfc s intent t obs frame need detail)"
proof -
  have post: "foreseen_check EVIDENCE_SELECTOR operation (materialized_evidence_post nfc m)" for operation m
    by (auto simp: materialized_evidence_post_def intro!: foreseen_bindE)
  have result: "selecting operation (mk_crop_result nfc state m reason)" for operation state m reason
    by (auto simp: mk_crop_result_def Let_def evidence_crop_result_post_def post intro!: foreseen_run_checks split: option.splits)
  have error: "foreseen EVIDENCE_SELECTOR operation (selector_error ec operation)" for ec operation
    by (simp add: selector_error_def)
  show ?thesis
    unfolding materialize_core_def Let_def
    by (auto simp: post result error intro!: foreseen_bindE selecting_plan [OF assms] selecting_except split: option.splits prod.splits)
qed

section \<open>The properties\<close>

text \<open>
  C7: a plan holds the best-ranked observations of the tracklet and no other: as many as the bound
  allows, numbered from 1 in strictly improving rank order, each an observation of the tracklet and
  none twice; and every observation of the tracklet that is left out ranks after every selected one.
\<close>

theorem evidence_plan_best:
  assumes "nfc_ascii nfc" and "selection_limits_post (sl_max_selected s) = None"
    and "evidence_plan nfc s t obs = Inr (plan, s')"
  shows "length (ep_intents plan) = min (nat (sl_max_selected s)) (length (tk_points t)) \<and>
    map ei_rank (ep_intents plan) = map int [1..<length (ep_intents plan) + 1] \<and>
    distinct (plan_observation_ids plan) \<and>
    set (plan_observation_ids plan) \<subseteq> tp_observation_id ` set (tk_points t) \<and>
    sorted_wrt (\<lambda>v w. score_rank (ei_score v) < score_rank (ei_score w)) (ep_intents plan) \<and>
    (\<forall>(score, ob) \<in> set (scored t obs). ob_observation_id ob \<in> set (plan_observation_ids plan) \<or>
       (\<forall>v \<in> set (ep_intents plan). score_rank (ei_score v) < score_rank score))"
proof -
  note facts = assms(3) [unfolded evidence_plan_Inr [OF assms(1,2)]]
  let ?n = "sl_max_selected s"
  have plan: "plan = plan_of ?n t obs" and matches: "evidence_matches t obs" and post: "tracklet_post nfc t = None"
    using facts by blast+
  have scores: "set (map ei_score (ep_intents plan)) = fst ` set (best ?n t obs)"
    unfolding plan plan_intents(1) by simp
  have "sorted_wrt (<) (map score_rank (map ei_score (ep_intents plan)))"
    using best_split(1) [of ?n t obs] by (simp only: plan plan_intents(1)) (simp add: comp_def)
  then have sorted: "sorted_wrt (\<lambda>v w. score_rank (ei_score v) < score_rank (ei_score w)) (ep_intents plan)"
    by (simp add: sorted_wrt_map)
  have rest: "ob_observation_id ob \<in> set (plan_observation_ids plan) \<or>
       (\<forall>v \<in> set (ep_intents plan). score_rank (ei_score v) < score_rank score)" if "(score, ob) \<in> set (scored t obs)" for score ob
  proof (cases "(score, ob) \<in> set (best ?n t obs)")
    case True
    then show ?thesis by (force simp: plan plan_ids)
  next
    case False
    show ?thesis
    proof (intro disjI2 ballI)
      fix v assume "v \<in> set (ep_intents plan)"
      then obtain c where "c \<in> set (best ?n t obs)" "ei_score v = fst c" using scores by (metis image_iff list.set_map)
      then show "score_rank (ei_score v) < score_rank score" using best_split(2) [OF that False] by simp
    qed
  qed
  have "\<forall>(score, ob) \<in> set (scored t obs). ob_observation_id ob \<in> set (plan_observation_ids plan) \<or>
       (\<forall>v \<in> set (ep_intents plan). score_rank (ei_score v) < score_rank score)"
    using rest by (intro ballI) (simp only: split_paired_all prod.case)
  moreover have "distinct (plan_observation_ids plan)"
    unfolding plan plan_ids by (rule best_candidates(2) [OF matches post])
  moreover have "set (plan_observation_ids plan) \<subseteq> tp_observation_id ` set (tk_points t)"
    using best_ids [OF matches, of ?n] by (simp add: plan plan_ids image_image)
  ultimately show ?thesis
    using plan_intents(2,3) [of ?n t obs] sorted unfolding plan by blast
qed

lemma ex_plan:
  "\<exists>s'. evidence_plan id ex_selector ex_vehicle_track [ex_vehicle] = Inr (plan_of 3 ex_vehicle_track [ex_vehicle], s')"
  by (simp add: evidence_plan_def only_port_errors_def ex_plan_core record_call_ok is_port_token_def token_evaluation
      MAX_PORT_BATCH_ITEMS_def)

lemma evidence_plan_best_witness:
  "length (ep_intents (plan_of 3 ex_vehicle_track [ex_vehicle])) = 1 \<and>
   set (plan_observation_ids (plan_of 3 ex_vehicle_track [ex_vehicle])) \<subseteq> {ob_observation_id ex_vehicle}"
proof -
  obtain s' where "evidence_plan id ex_selector ex_vehicle_track [ex_vehicle] = Inr (plan_of 3 ex_vehicle_track [ex_vehicle], s')"
    using ex_plan by blast
  from evidence_plan_best [OF nfc_id ex_selector_valid this] show ?thesis by (simp add: ex_selector_def)
qed

text \<open>
  The plan of a tracklet does not depend on the order in which its observations are passed.
\<close>

theorem evidence_plan_order:
  assumes "nfc_ascii nfc" and "selection_limits_post (sl_max_selected s) = None"
    and "mset obs = mset obs'"
    and "evidence_plan nfc s t obs = Inr (plan, s')"
  shows "evidence_plan nfc s t obs' = Inr (plan, s')"
proof -
  note facts = assms(4) [unfolded evidence_plan_Inr [OF assms(1,2)]]
  have distinct: "distinct (map ob_observation_id obs)" using facts by (simp add: evidence_matches_def)
  note by_id = by_id_permuted [OF assms(3) distinct]
  have "evidence_matches t obs'"
    using facts mset_eq_setD [OF assms(3)] distinct mset_eq_imp_distinct_iff [of "map ob_observation_id obs" "map ob_observation_id obs'"]
      assms(3) by (simp add: evidence_matches_def by_id)
  moreover have "plan_of (sl_max_selected s) t obs' = plan_of (sl_max_selected s) t obs"
    by (simp add: plan_of_def best_def scored_def by_id)
  moreover have "length obs' = length obs" using assms(3) by (rule mset_eq_length [symmetric])
  ultimately show ?thesis
    using facts mset_eq_setD [OF assms(3)] by (simp add: evidence_plan_Inr [OF assms(1,2)])
qed

text \<open>
  C6: the chain from tracking to evidence never breaks.  When tracking is complete, selecting evidence
  for each of its tracklets from the tracklet's own observations succeeds for every tracklet (none of
  the score bounds refuses one), gives each at least one observation, and no observation is selected
  for two tracklets.
\<close>

theorem tracked_evidence:
  assumes "nfc_ascii nfc" and "selection_limits_post (sl_max_selected e) = None"
    and "track nfc s src frames obs ds = Inr (result, s')" and "tt_state result = COMPLETE"
  shows "\<exists>rs e'. select_all (evidence_select nfc) e obs (tt_tracklets result) = Inr (rs, e') \<and>
    length rs = length (tt_tracklets result) \<and>
    (\<forall>r \<in> set rs. er_state r = COMPLETE \<and> er_observation_ids r \<noteq> []) \<and>
    distinct (concat (map er_observation_ids rs)) \<and>
    set (concat (map er_observation_ids rs)) \<subseteq> ob_observation_id ` set obs"
proof -
  have ready: "selector_ready nfc e" using assms(1,2) by (simp add: selector_ready_def)
  from select_all_total [OF ready track_partition [OF assms(1,3,4)], of "tt_tracklets result"]
  obtain rs e' where rs: "select_all (evidence_select nfc) e obs (tt_tracklets result) = Inr (rs, e')"
      "length rs = length (tt_tracklets result)" "\<forall>r \<in> set rs. er_state r = COMPLETE \<and> er_observation_ids r \<noteq> []"
    by auto
  from perception.evidence_disjoint [OF assms(1) assms(3,4) ready rs(1)] rs show ?thesis by blast
qed

lemma tracked_evidence_witness:
  "\<exists>r e'. select_all (evidence_select id) ex_selector [ex_vehicle] [ex_vehicle_track] = Inr ([r], e') \<and>
     er_observation_ids r = [ob_observation_id ex_vehicle]"
proof -
  from ex_result obtain s' where r: "track id ex_tracker ex_source [ex_frame 0 0] [ex_vehicle] (Some [ex_score]) =
     Inr (\<lparr>tt_state = COMPLETE, tt_tracklets = [ex_vehicle_track], tt_reason = None\<rparr>, s')" ..
  from tracked_evidence [OF nfc_id ex_selector_valid r] obtain rs e' where
      rs: "select_all (evidence_select id) ex_selector [ex_vehicle] [ex_vehicle_track] = Inr (rs, e')" "length rs = 1"
        "\<forall>r \<in> set rs. er_observation_ids r \<noteq> []" "distinct (concat (map er_observation_ids rs))"
        "set (concat (map er_observation_ids rs)) \<subseteq> {ob_observation_id ex_vehicle}"
    by auto
  from rs(2) obtain r where one: "rs = [r]" by (auto simp: length_Suc_conv)
  with rs(3-5) have "er_observation_ids r = [ob_observation_id ex_vehicle]"
    by (cases "er_observation_ids r"; cases "tl (er_observation_ids r)") auto
  with rs(1) one show ?thesis by blast
qed

text \<open>
  C8: a crop is made only on request and is exact.  Materialisation accepts only an intent of the
  tracklet's own plan.  Without pixels, when the detail cannot be resolved, or when it might not be and is
  needed downstream, it answers \<open>UNKNOWN\<close> without a crop; otherwise the crop is, byte for byte, the part of the supplied frame inside
  the box of the intent, and the reference it returns carries the digest of those bytes and the frame
  and geometry of the intent.
\<close>

theorem materialized_exact:
  assumes "nfc_ascii nfc" and "selection_limits_post (sl_max_selected s) = None"
    and "evidence_materialize nfc s intent t obs frame need detail = Inr (r, s')"
  shows "intent \<in> set (ep_intents (plan_of (sl_max_selected s) t obs)) \<and>
    (case ec_materialized r of
       None \<Rightarrow> ec_state r = UNKNOWN \<and>
         (frame = None \<or> detail = UNRESOLVABLE \<or> need = DOWNSTREAM_DETAIL \<and> detail = UNKNOWN_RESOLUTION)
     | Some m \<Rightarrow> ec_state r = COMPLETE \<and> me_intent m = intent \<and> detail \<noteq> UNRESOLVABLE \<and>
         \<not> (need = DOWNSTREAM_DETAIL \<and> detail = UNKNOWN_RESOLUTION) \<and>
         ev_frame_id (me_reference m) = ei_frame_id intent \<and> ev_geometry (me_reference m) = Some (ei_geometry intent) \<and>
         ar_sha256 (ev_artifact (me_reference m)) = sha256_hex (cr_pixels (me_crop m)) \<and>
         (\<exists>pixels x0 y0 x1 y1. frame = Some pixels \<and> ge_box_xyxy (ei_geometry intent) = (x0, y0, x1, y1) \<and>
            cr_width (me_crop m) = x1 - x0 \<and> cr_height (me_crop m) = y1 - y0 \<and>
            (\<forall>i < nat (x1 - x0). \<forall>j < nat (y1 - y0). \<forall>ch < 3.
               cr_pixels (me_crop m) ! ((j * nat (x1 - x0) + i) * 3 + ch) =
               pixels ! (((nat y0 + j) * nat (ge_source_width (ei_geometry intent)) + (nat x0 + i)) * 3 + ch))))"
proof -
  from assms(3) have core: "materialize_core nfc s intent t obs frame need detail = Inr r"
    by (auto simp: evidence_materialize_def outcome)
  note facts = materialize_core_Inr [OF assms(1,2) core]
  show ?thesis
  proof (cases "ec_materialized r")
    case None
    with facts(4,5) show ?thesis by simp
  next
    case (Some m)
    obtain x0 y0 x1 y1 where box: "ge_box_xyxy (ei_geometry intent) = (x0, y0, x1, y1)" by (metis prod.collapse)
    have valid: "geometry_valid nfc (ei_geometry intent)" by (rule evidence_intent_postD(6) [OF facts(1)])
    from facts(6) [OF Some] obtain pixels artifact where made: "frame = Some pixels"
        "extract_rgb24_crop pixels (ge_source_width (ei_geometry intent)) (ge_source_height (ei_geometry intent))
           (ei_geometry intent) = Inr (me_crop m)"
        "crop_artifact nfc (me_crop m) = Inr artifact"
        "evidence_create nfc (ei_frame_id intent) artifact (Some (ei_geometry intent)) (ei_kind intent) (ei_retention intent) =
           Inr (me_reference m)" by blast
    have "int (length pixels) = ge_source_width (ei_geometry intent) * ge_source_height (ei_geometry intent) * 3"
      using made(2) by (auto simp: extract_rgb24_crop_def outcome)
    from extract_crop_spec [OF valid box this] made(2) have crop: "cr_width (me_crop m) = x1 - x0" "cr_height (me_crop m) = y1 - y0"
        "cr_sha256 (me_crop m) = sha256_hex (cr_pixels (me_crop m))"
      and bytes: "\<forall>i j ch. i < nat (x1 - x0) \<longrightarrow> j < nat (y1 - y0) \<longrightarrow> ch < 3 \<longrightarrow>
        cr_pixels (me_crop m) ! ((j * nat (x1 - x0) + i) * 3 + ch) =
        pixels ! (((nat y0 + j) * nat (ge_source_width (ei_geometry intent)) + (nat x0 + i)) * 3 + ch)"
      by auto
    have reference: "ev_frame_id (me_reference m) = ei_frame_id intent" "ev_geometry (me_reference m) = Some (ei_geometry intent)"
        "ar_sha256 (ev_artifact (me_reference m)) = sha256_hex (cr_pixels (me_crop m))"
      using evidence_create_fields [OF made(4)] crop_artifact_fields [OF made(3)] crop(3) by simp_all
    from facts(6) [OF Some] have "ec_state r = COMPLETE" "me_intent m = intent" "detail \<noteq> UNRESOLVABLE"
        "\<not> (need = DOWNSTREAM_DETAIL \<and> detail = UNKNOWN_RESOLUTION)" by auto
    with facts(4) reference crop(1,2) bytes made(1) box show ?thesis by (simp add: Some)
  qed
qed

lemma materialized_exact_witness:
  "ev_frame_id (me_reference ex_materialized) = fr_frame_id (ex_frame 0 0) \<and>
   ar_sha256 (ev_artifact (me_reference ex_materialized)) = sha256_hex [CHR 0x01, CHR 0x02, CHR 0x03]"
proof -
  obtain s' where run: "evidence_materialize id ex_selector ex_intent ex_vehicle_track [ex_vehicle] (Some ex_pixels)
      DOWNSTREAM_DETAIL RESOLVABLE = Inr (\<lparr>ec_state = COMPLETE, ec_materialized = Some ex_materialized, ec_reason = None\<rparr>, s')"
    using ex_materialize by blast
  from materialized_exact [OF nfc_id ex_selector_valid run] show ?thesis
    by (simp add: ex_materialized_def ex_crop_def)
qed

text \<open>
  C26: whatever it is given, a selector with valid limits fails only with its own \<open>PortError\<close>, for the
  operation that was called.
\<close>

theorem selector_only_port_errors:
  assumes "nfc_ascii nfc" and "selection_limits_post (sl_max_selected s) = None"
  shows "(\<forall>e. evidence_plan nfc s t obs = Inl e \<longrightarrow> (\<exists>ec. e = PortError ec EVIDENCE_SELECTOR ''plan'')) \<and>
    (\<forall>e. evidence_select nfc s t obs = Inl e \<longrightarrow> (\<exists>ec. e = PortError ec EVIDENCE_SELECTOR ''select'')) \<and>
    (\<forall>e. evidence_materialize nfc s intent t obs frame need detail = Inl e \<longrightarrow>
      (\<exists>ec. e = PortError ec EVIDENCE_SELECTOR ''materialize''))"
proof (intro conjI allI impI)
  note core = evidence_plan_core_Inr [OF assms]
  have call: "record_call (sl_calls s) EVIDENCE_SELECTOR operation n \<noteq> Inl e"
    if "operation \<in> {''plan'', ''select'', ''materialize''}" "n \<le> MAX_PORT_BATCH_ITEMS" for operation n e
    using that by (auto simp: record_call_ok is_port_token_def token_evaluation)
  fix e
  assume "evidence_plan nfc s t obs = Inl e"
  then show "\<exists>ec. e = PortError ec EVIDENCE_SELECTOR ''plan''"
    using only_port_errors_selecting [OF selecting_plan [OF assms]] call
    by (auto simp: evidence_plan_def bindE_Inl_iff only_port_errors_Inr core)
next
  note core = evidence_plan_core_Inr [OF assms]
  fix e
  assume run: "evidence_select nfc s t obs = Inl e"
  have "selecting ''select'' (bindE (evidence_plan_core nfc s t obs ''select'') (\<lambda>plan.
        let v = \<lparr>er_state = ep_state plan, er_observation_ids = plan_observation_ids plan, er_reason = ep_reason plan\<rparr>
        in checked (evidence_selection_result_post v) v))"
    by (auto simp: evidence_selection_result_post_def validate_result_def Let_def
        intro!: foreseen_bindE selecting_plan [OF assms] foreseen_run_checks)
  from only_port_errors_selecting [OF this] run show "\<exists>ec. e = PortError ec EVIDENCE_SELECTOR ''select''"
    by (auto simp: evidence_select_def bindE_Inl_iff bindE_Inr_iff only_port_errors_Inr core record_call_ok operation_tokens)
next
  fix e
  assume "evidence_materialize nfc s intent t obs frame need detail = Inl e"
  then show "\<exists>ec. e = PortError ec EVIDENCE_SELECTOR ''materialize''"
    using only_port_errors_selecting [OF selecting_materialize [OF assms]]
    by (auto simp: evidence_materialize_def bindE_Inl_iff record_call_ok is_port_token_def token_evaluation
        MAX_PORT_BATCH_ITEMS_def)
qed

lemma selector_only_port_errors_witness:
  "\<exists>e ec. evidence_plan id ex_selector ex_vehicle_track (replicate 65 ex_vehicle) = Inl e \<and>
     e = PortError ec EVIDENCE_SELECTOR ''plan''"
proof -
  have "evidence_plan id ex_selector ex_vehicle_track (replicate 65 ex_vehicle) = Inl (selector_error LIMIT_EXCEEDED ''plan'')"
    by (simp add: evidence_plan_def evidence_plan_core_def validated_evidence_inputs_def MAX_PORT_BATCH_ITEMS_def
        only_port_errors_def selector_error_def)
  with selector_only_port_errors [OF nfc_id ex_selector_valid] show ?thesis by blast
qed

text \<open>
  C24: an intent written by \<open>dumps_evidence_intent\<close> is read back by \<open>load_evidence_intent\<close> from any file
  reader, with its score and its geometry.
\<close>

theorem intent_bytes_roundtrip:
  assumes "dumps_evidence_intent nfc v = Inr b" and "MAX_DEPTH \<le> limit"
    and "file_reader read content" and "content s = b"
  shows "load_evidence_intent nfc limit read s = Inr v"
  by (rule load_dumps_intent [OF assms])

lemma intent_bytes_roundtrip_witness: "\<exists>b. load_evidence_intent id 1000 chunked_read b = Inr ex_intent"
proof -
  obtain b where b: "dumps_evidence_intent id ex_intent = Inr b" using ex_intent_dumps by blast
  have "load_evidence_intent id 1000 chunked_read b = Inr ex_intent"
    by (rule intent_bytes_roundtrip [OF b _ chunked_reader]) (simp_all add: MAX_DEPTH_def)
  then show ?thesis by blast
qed

end
