(* ===== verification/Materialization_Theorems.thy ===== *)
theory Materialization_Theorems
  imports Materialization_Runs Perception_Theorems
begin

text \<open>
  The properties of original-frame access and of evidence materialisation, with a reader that holds
  the two-pixel frame of the examples as their concrete instance.
\<close>

section \<open>A concrete reader\<close>

definition ex_original :: original_frame where
  "ex_original = \<lparr>of_source = ex_source, of_frame = ex_frame 0 0, of_pixels = ex_pixels, of_width = 2, of_height = 1,
     of_sha256 = sha256_hex ex_pixels\<rparr>"

definition ex_reader :: fake_reader where
  "ex_reader = \<lparr>rd_source = ex_source, rd_frames = frames_by_frame_id [ex_original], rd_state = COMPLETE, rd_reason = None,
     rd_max_payload_bytes = 6,
     rd_producer = \<lparr>pr_name = ''visualworld.fake.original-frame-reader'', pr_version = ''1'',
       pr_configuration_sha256 = sha256_hex (render (sort_json (reader_configuration [ex_original] 6 COMPLETE None)))\<rparr>,
     rd_calls = []\<rparr>"

lemma ex_dimensions: "stream_dimensions ex_source (ex_frame 0 0) operation = Inr (2, 1)"
  by (simp add: stream_dimensions_def ex_frame_def ex_source_def ex_stream_def ex_time_def)

lemma ex_frame_0_valid: "frame_valid id (ex_frame 0 0)" by (rule ex_frame_valid) simp_all

lemma ex_original_valid: "original_valid id ex_original"
  using ex_source_valid ex_frame_0_valid ex_dimensions
  by (simp add: original_valid_def ex_original_def MAX_ORIGINAL_FRAME_BYTES_def) (simp add: ex_pixels_def)

lemma ex_original_fields [simp]:
  "of_source ex_original = ex_source" "of_frame ex_original = ex_frame 0 0" "of_pixels ex_original = ex_pixels"
  "of_width ex_original = 2" "of_height ex_original = 1"
  by (simp_all add: ex_original_def)

lemma ex_reader_made: "fake_reader_create id ex_source [ex_original] COMPLETE None 6 = Inr ex_reader"
proof -
  have "mk_original_result id COMPLETE [] None = Inr \<lparr>or_state = COMPLETE, or_frames = [], or_reason = None\<rparr>"
    by (simp add: complete_result [OF nfc_id] one_request_def)
  moreover have "original_frame_create id ex_source (ex_frame 0 0) ex_pixels = Inr ex_original"
    using original_frame_create_valid [OF nfc_id ex_original_valid] by simp
  moreover have "producer_post id (rd_producer ex_reader) = None"
    by (simp add: producer_post_def ex_reader_def sha256_check_None general_ok_id_hash token_check_literal [OF nfc_id]
        char_evaluation MAX_TOKEN_BYTES_def)
  moreover have "capability_descriptor_post (reader_descriptor 6) = None"
    by (simp add: capability_descriptor_post_def reader_descriptor_def is_port_token_def token_evaluation
        MAX_PORT_BATCH_ITEMS_def MAX_I64_def)
  ultimately show ?thesis
    by (simp add: fake_reader_create_def own_source_valid [OF nfc_id ex_source_valid] ex_reader_def MAX_PORT_BATCH_ITEMS_def)
qed

lemma ex_reader_ok: "fake_reader_ok id ex_reader"
  by (rule fake_reader_create_ok(1) [OF nfc_id ex_reader_made])

lemma ex_read:
  "fake_read id ex_reader ex_source [ex_frame 0 0] 6 =
   Inr (\<lparr>or_state = COMPLETE, or_frames = [ex_original], or_reason = None\<rparr>,
        ex_reader\<lparr>rd_calls := [\<lparr>pc_port = ORIGINAL_FRAME_READER, pc_operation = ''read'', pc_item_count = 1\<rparr>]\<rparr>)"
proof -
  have state: "rd_state ex_reader = COMPLETE" by (simp add: ex_reader_def)
  have frames: "\<forall>f \<in> set [ex_frame 0 0]. frame_valid id f" using ex_frame_0_valid by simp
  have "rd_source ex_reader = ex_source" "rd_frames ex_reader = frames_by_frame_id [ex_original]"
      "rd_max_payload_bytes ex_reader = 6" "rd_calls ex_reader = []" by (simp_all add: ex_reader_def)
  then show ?thesis
    unfolding fake_read_complete [OF nfc_id ex_reader_ok state ex_source_valid frames]
    by (simp add: frames_by_frame_id_def one_request_def total_bytes_def MAX_ORIGINAL_FRAME_TOTAL_BYTES_def
        MAX_PORT_BATCH_ITEMS_def) (simp add: ex_pixels_def)
qed

section \<open>The properties\<close>

text \<open>
  C12: the in-memory reader of original frames answers all or nothing.  For valid requests it answers
  exactly when the source is its own, the frames are distinct and all stored, they lie in one stream,
  and their pixels fit the byte limits of the caller and of the reader; then the answer is the stored
  frames in the order of the request, and the call is logged.
\<close>

theorem reader_all_or_nothing:
  assumes "nfc_ascii nfc" and "fake_reader_create nfc owner originals COMPLETE None payload = Inr r"
    and "source_valid nfc src" and "\<forall>f \<in> set fs. frame_valid nfc f"
  shows "fake_read nfc r src fs limit = Inr (v, r') \<longleftrightarrow>
    src = rd_source r \<and> fs \<noteq> [] \<and> distinct (map (\<lambda>f. (fr_stream_index f, fr_decode_index f)) fs) \<and>
    1 \<le> limit \<and> limit \<le> MAX_ORIGINAL_FRAME_TOTAL_BYTES \<and>
    (\<exists>os. list_all2 (\<lambda>f o'. rd_frames r (fr_frame_id f) = Some o' \<and> of_frame o' = f) fs os \<and> one_request os \<and>
       (\<Sum>o' \<leftarrow> os. int (length (of_pixels o'))) \<le> min limit payload \<and>
       v = \<lparr>or_state = COMPLETE, or_frames = os, or_reason = None\<rparr>) \<and>
    r' = r\<lparr>rd_calls := rd_calls r @ [\<lparr>pc_port = ORIGINAL_FRAME_READER, pc_operation = ''read'', pc_item_count = length fs\<rparr>]\<rparr>"
  using fake_read_complete [OF assms(1) fake_reader_create_ok(1,2) [OF assms(1,2)] assms(3,4), of limit v r']
    fake_reader_create_ok(4) [OF assms(1,2)]
  by (simp add: total_bytes_def)

lemma reader_all_or_nothing_witness:
  "(\<exists>r'. fake_read id ex_reader ex_source [ex_frame 0 0] 6 =
      Inr (\<lparr>or_state = COMPLETE, or_frames = [ex_original], or_reason = None\<rparr>, r')) \<and>
   \<not> (\<exists>v r'. fake_read id ex_reader ex_source [ex_frame 0 0] 5 = Inr (v, r'))"
proof -
  have frames: "\<forall>f \<in> set [ex_frame 0 0]. frame_valid id f" using ex_frame_0_valid by simp
  note read = reader_all_or_nothing [OF nfc_id ex_reader_made ex_source_valid frames]
  have fields: "rd_source ex_reader = ex_source" "rd_frames ex_reader = frames_by_frame_id [ex_original]"
      "rd_calls ex_reader = []" by (simp_all add: ex_reader_def)
  have "length ex_pixels = 6" by (simp add: ex_pixels_def)
  then show ?thesis
    unfolding read by (simp add: fields frames_by_frame_id_def one_request_def list_all2_Cons1 MAX_ORIGINAL_FRAME_TOTAL_BYTES_def
        MAX_PORT_BATCH_ITEMS_def)
qed

text \<open>
  C10: the scores of the discontinuity adapter are measured on the pixels the reader holds.  A complete
  answer has one record per frame, in order; its score is the sampled mean absolute difference between
  the frame and the frame before it, which for the first one is the predecessor the caller names.
\<close>

theorem changes_measured_on_pixels:
  assumes "nfc_ascii nfc" and "fake_reader_create nfc owner originals state reason payload = Inr r"
    and "source_valid nfc src" and "\<forall>f \<in> set fs. frame_valid nfc f" and "\<forall>f \<in> set_option previous. frame_valid nfc f"
    and "provider_score nfc (fake_read nfc) p r src previous fs = Inr (v, r')" and "fdr_state v = COMPLETE"
  shows "list_all2 (\<lambda>(before, f) d.
      fd_frame_id d = fr_frame_id f \<and> fd_pts d = fr_pts f \<and>
      change_of (fake_pixels r src) src before f (fd_score_basis_points d))
    (zip (previous # map Some fs) fs) (fdr_discontinuities v)"
proof -
  from assms(6,7) obtain ds where run: "scores nfc (fake_read nfc) p src r previous fs ds r'"
    and "mk_discontinuity_result nfc COMPLETE ds None = Inr v"
    using score_frames_complete [of nfc "fake_read nfc" p r src previous fs "[]" v r'] by (auto simp: provider_score_def)
  then have same: "fdr_discontinuities v = ds" by (simp add: mk_discontinuity_result_Inr)
  have "nfc_ascii nfc \<and> fake_reader_ok nfc r" using assms(1) fake_reader_create_ok(1) [OF assms(1,2)] by simp
  from fake_reader.scores_exact [OF run this assms(3-5)]
  have "list_all2 (\<lambda>(before, f) d. \<exists>n. change_of (fake_pixels r src) src before f n \<and> discontinuity_from_frame nfc f n = Inr d)
      (zip (previous # map Some fs) fs) ds" by simp
  then show ?thesis unfolding same
    by (rule list_all2_mono) (auto simp: discontinuity_from_frame_def outcome Let_def)
qed

lemma adapter_producer_valid:
  "producer_post id \<lparr>pr_name = ''visualworld.original-frame-discontinuity'', pr_version = ''1'',
     pr_configuration_sha256 = sha256_hex content\<rparr> = None"
  by (simp add: producer_post_def sha256_check_None general_ok_id_hash token_check_literal [OF nfc_id] char_evaluation
      MAX_TOKEN_BYTES_def)

lemma default_config_valid: "materialization_config_post default_materialization_config = None"
  by (simp add: materialization_config_post_def default_materialization_config_def MAX_ORIGINAL_FRAME_TOTAL_BYTES_def
      MAX_EVIDENCE_RGB24_FRAME_BYTES_def MAX_TOTAL_EVIDENCE_BYTES_def MATERIALIZATION_PROTOCOL_VERSION_def)

definition ex_config :: materialization_config where
  "ex_config = default_materialization_config\<lparr>mc_max_total_original_frame_bytes := 6, mc_need := DOWNSTREAM_DETAIL,
     mc_detail_resolution := RESOLVABLE\<rparr>"

lemma ex_config_valid: "materialization_config_post ex_config = None"
  using default_config_valid by (simp add: materialization_config_post_def ex_config_def MAX_ORIGINAL_FRAME_TOTAL_BYTES_def)

lemma ex_provider:
  "\<exists>p. provider_create id (reader_descriptor 6) ex_config = Inr p \<and> dp_config p = ex_config \<and>
     dp_reader_descriptor p = reader_descriptor 6"
proof -
  obtain mapping where "materialization_config_to_mapping ex_config = Inr mapping"
    by (simp add: materialization_config_to_mapping_def ex_config_valid)
  moreover have "capability_descriptor_post provider_descriptor = None"
    by (simp add: capability_descriptor_post_def provider_descriptor_def is_port_token_def token_evaluation MAX_PORT_BATCH_ITEMS_def)
  moreover have "cd_port (reader_descriptor 6) = ORIGINAL_FRAME_READER" by (simp add: reader_descriptor_def)
  ultimately show ?thesis
    by (simp add: provider_create_def ex_config_valid adapter_producer_valid Let_def)
qed

lemma ex_exact: "exact_result id ex_source [ex_frame 0 0] \<lparr>or_state = COMPLETE, or_frames = [ex_original], or_reason = None\<rparr> =
    Inr \<lparr>or_state = COMPLETE, or_frames = [ex_original], or_reason = None\<rparr>"
proof -
  have "mk_original_result id COMPLETE [ex_original] None = Inr \<lparr>or_state = COMPLETE, or_frames = [ex_original], or_reason = None\<rparr>"
    using ex_original_valid by (simp add: complete_result [OF nfc_id] one_request_def MAX_PORT_BATCH_ITEMS_def)
  then show ?thesis by (simp add: exact_result_def mk_original_result_def)
qed

lemma ex_first_score:
  assumes "dp_config p = ex_config" and "dp_reader_descriptor p = reader_descriptor 6"
  shows "\<exists>r'. provider_score id (fake_read id) p ex_reader ex_source None [ex_frame 0 0] =
    Inr (\<lparr>fdr_state = COMPLETE, fdr_discontinuities = [ex_score], fdr_reason = None\<rparr>, r')"
proof -
  have "rgb24_discontinuity_basis_points None ex_pixels 2 1 = Inr 0"
    by (simp add: rgb24_discontinuity_basis_points_def ex_pixels_def MAX_RGB24_BYTES_def Let_def)
  moreover have "discontinuity_from_frame id (ex_frame 0 0) 0 = Inr ex_score"
    using ex_score_valid ex_frame_0_valid
    by (simp add: discontinuity_from_frame_def plain_frame_ref_None [THEN iffD2] ex_score_def Let_def)
  ultimately show ?thesis
    using assms ex_exact ex_read ex_score_valid
    by (simp add: provider_score_def provider_read_def reader_descriptor_def MAX_PORT_BATCH_ITEMS_def ex_config_def
        mk_discontinuity_result_def discontinuity_result_post_def)
qed

lemma changes_measured_on_pixels_witness:
  "\<exists>p r'. provider_create id (reader_descriptor 6) ex_config = Inr p \<and>
     provider_score id (fake_read id) p ex_reader ex_source None [ex_frame 0 0] =
       Inr (\<lparr>fdr_state = COMPLETE, fdr_discontinuities = [ex_score], fdr_reason = None\<rparr>, r') \<and>
     change_of (fake_pixels ex_reader ex_source) ex_source None (ex_frame 0 0) (fd_score_basis_points ex_score)"
proof -
  obtain p where p: "provider_create id (reader_descriptor 6) ex_config = Inr p" "dp_config p = ex_config"
      "dp_reader_descriptor p = reader_descriptor 6" using ex_provider by blast
  obtain r' where run: "provider_score id (fake_read id) p ex_reader ex_source None [ex_frame 0 0] =
      Inr (\<lparr>fdr_state = COMPLETE, fdr_discontinuities = [ex_score], fdr_reason = None\<rparr>, r')"
    using ex_first_score [OF p(2,3)] by blast
  have "\<forall>f \<in> set [ex_frame 0 0]. frame_valid id f" using ex_frame_0_valid by simp
  from changes_measured_on_pixels [OF nfc_id ex_reader_made ex_source_valid this _ run] p(1) run show ?thesis by auto
qed

text \<open>
  C11: pages of scores compose.  Whatever the reader is, scoring two pages one after the other, the
  second with the last frame of the first as its predecessor, gives the records of scoring their
  frames in one call, as long as these fit one page; so paging never loses or repeats a comparison.
\<close>

theorem score_pages_compose:
  "provider_score nfc read p r src previous (xs @ ys) = Inr (v, r') \<and> fdr_state v = COMPLETE \<longleftrightarrow>
   length (xs @ ys) \<le> MAX_PORT_BATCH_ITEMS \<and>
   (\<exists>v1 r1 v2. provider_score nfc read p r src previous xs = Inr (v1, r1) \<and> fdr_state v1 = COMPLETE \<and>
      provider_score nfc read p r1 src (if xs = [] then previous else Some (last xs)) ys = Inr (v2, r') \<and> fdr_state v2 = COMPLETE \<and>
      v = \<lparr>fdr_state = COMPLETE, fdr_discontinuities = fdr_discontinuities v1 @ fdr_discontinuities v2, fdr_reason = None\<rparr>)"
proof -
  have runs: "provider_score nfc read p r0 src prev fs = Inr (w, r1) \<and> fdr_state w = COMPLETE \<longleftrightarrow>
      (\<exists>ds. scores nfc read p src r0 prev fs ds r1 \<and> length fs \<le> MAX_PORT_BATCH_ITEMS \<and>
        (\<forall>d \<in> set ds. discontinuity_post nfc d = None) \<and>
        w = \<lparr>fdr_state = COMPLETE, fdr_discontinuities = ds, fdr_reason = None\<rparr>)" for r0 prev fs w r1
    unfolding provider_score_def score_frames_complete mk_discontinuity_result_Inr
    using scores_length [of nfc read p src r0 prev fs _ r1] by auto
  let ?next = "if xs = [] then previous else Some (last xs)"
  show ?thesis (is "?whole \<longleftrightarrow> ?parts")
  proof
    assume ?whole
    then obtain ds where ds: "scores nfc read p src r previous (xs @ ys) ds r'" "length (xs @ ys) \<le> MAX_PORT_BATCH_ITEMS"
        "\<forall>d \<in> set ds. discontinuity_post nfc d = None" "v = \<lparr>fdr_state = COMPLETE, fdr_discontinuities = ds, fdr_reason = None\<rparr>"
      unfolding runs by blast
    from ds(1) [unfolded scores_append] obtain ds1 ds2 r1 where parts: "ds = ds1 @ ds2"
        "scores nfc read p src r previous xs ds1 r1" "scores nfc read p src r1 ?next ys ds2 r'" by blast
    have "provider_score nfc read p r src previous xs = Inr (\<lparr>fdr_state = COMPLETE, fdr_discontinuities = ds1, fdr_reason = None\<rparr>, r1)"
      using runs [of r previous xs "\<lparr>fdr_state = COMPLETE, fdr_discontinuities = ds1, fdr_reason = None\<rparr>" r1] parts ds by auto
    moreover have "provider_score nfc read p r1 src ?next ys =
        Inr (\<lparr>fdr_state = COMPLETE, fdr_discontinuities = ds2, fdr_reason = None\<rparr>, r')"
      using runs [of r1 ?next ys "\<lparr>fdr_state = COMPLETE, fdr_discontinuities = ds2, fdr_reason = None\<rparr>" r'] parts ds by auto
    ultimately show ?parts using ds(2,4) parts(1) by (intro conjI exI) auto
  next
    assume ?parts
    then obtain v1 r1 v2 where parts: "length (xs @ ys) \<le> MAX_PORT_BATCH_ITEMS"
        "provider_score nfc read p r src previous xs = Inr (v1, r1) \<and> fdr_state v1 = COMPLETE"
        "provider_score nfc read p r1 src ?next ys = Inr (v2, r') \<and> fdr_state v2 = COMPLETE"
        "v = \<lparr>fdr_state = COMPLETE, fdr_discontinuities = fdr_discontinuities v1 @ fdr_discontinuities v2, fdr_reason = None\<rparr>"
      by blast
    from parts(2) [unfolded runs] obtain ds1 where ds1: "scores nfc read p src r previous xs ds1 r1"
        "\<forall>d \<in> set ds1. discontinuity_post nfc d = None" "fdr_discontinuities v1 = ds1" by auto
    from parts(3) [unfolded runs] obtain ds2 where ds2: "scores nfc read p src r1 ?next ys ds2 r'"
        "\<forall>d \<in> set ds2. discontinuity_post nfc d = None" "fdr_discontinuities v2 = ds2" by auto
    from ds1(1) ds2(1) have "scores nfc read p src r previous (xs @ ys) (ds1 @ ds2) r'" unfolding scores_append by blast
    then show ?whole unfolding runs using parts(1,4) ds1(2,3) ds2(2,3) by auto
  qed
qed

text \<open>
  C9: a complete materialisation run is exact and stays in its budget.  With the in-memory reader and
  the best-frame selector there is one item per intent, in the order of the intents; the crop of each
  is cut by the box of its intent from the pixels the reader holds for its frame, all crops together
  fit the byte limit of the configuration, and no two items share an evidence identifier.
\<close>

theorem materialization_exact:
  assumes "nfc_ascii nfc" and "fake_reader_create nfc owner originals state reason payload = Inr r"
    and "selector_create nfc limits = Inr s" and "materializer_create descriptor config = Inr config'"
    and "source_valid nfc src" and "\<forall>f \<in> set frames. frame_valid nfc f"
    and "materialize_run nfc (fake_read nfc) (evidence_materialize nfc) config' r s src frames obs ts intents = Inr (v, r', s')"
    and "ma_state v = COMPLETE"
  shows "list_all2 (\<lambda>intent m. me_intent m = intent \<and> ev_frame_id (me_reference m) = ei_frame_id intent \<and>
      (\<exists>f pixels. frames_by_id frames (ei_frame_id intent) = Some f \<and> fake_pixels r src f = Some pixels \<and>
        extract_rgb24_crop pixels (ge_source_width (ei_geometry intent)) (ge_source_height (ei_geometry intent))
          (ei_geometry intent) = Inr (me_crop m)))
    intents (ma_materialized v) \<and>
    (\<Sum>m \<leftarrow> ma_materialized v. int (length (cr_pixels (me_crop m)))) \<le> mc_max_total_evidence_bytes config \<and>
    distinct (map (\<lambda>m. ev_evidence_id (me_reference m)) (ma_materialized v))"
proof -
  have able: "nfc_ascii nfc \<and> selection_limits_post (sl_max_selected s) = None"
    using assms(1,3) by (auto simp: selector_create_def outcome Let_def)
  have ok: "nfc_ascii nfc \<and> fake_reader_ok nfc r" using assms(1) fake_reader_create_ok(1) [OF assms(1,2)] by simp
  have config: "config' = config" "materialization_config_post config' = None"
    using assms(4) by (auto simp: materializer_create_def outcome)
  note exact = stored_evidence.materialize_run_exact [OF ok able assms(5,6) config(2) assms(7,8)]
  show ?thesis using exact unfolding exact_item_def item_bytes_def item_id_def config(1) by simp
qed

lemma ex_materialization:
  "\<exists>r' s'. materialize_run id (fake_read id) (evidence_materialize id) ex_config ex_reader ex_selector ex_source [ex_frame 0 0]
     [ex_vehicle] [ex_vehicle_track] [ex_intent] =
   Inr (\<lparr>ma_state = COMPLETE, ma_materialized = [ex_materialized], ma_reason = None\<rparr>, r', s')"
proof -
  obtain s' where cropped: "evidence_materialize id ex_selector ex_intent ex_vehicle_track [ex_vehicle] (Some ex_pixels)
      DOWNSTREAM_DETAIL RESOLVABLE = Inr (\<lparr>ec_state = COMPLETE, ec_materialized = Some ex_materialized, ec_reason = None\<rparr>, s')"
    using ex_materialize by blast
  have config: "mc_need ex_config = DOWNSTREAM_DETAIL" "mc_detail_resolution ex_config = RESOLVABLE"
      "mc_max_total_original_frame_bytes ex_config = 6" "mc_max_total_evidence_bytes ex_config = MAX_EVIDENCE_RGB24_FRAME_BYTES"
    by (simp_all add: ex_config_def default_materialization_config_def)
  have found: "frames_by_id [ex_frame 0 0] (fr_frame_id (ex_frame 0 0)) = Some (ex_frame 0 0)"
      "tracklets_by_id [ex_vehicle_track] (ei_tracklet_id ex_intent) = Some ex_vehicle_track"
      "selected_observations (by_id [ex_vehicle]) ex_vehicle_track = [ex_vehicle]"
    by (simp_all add: frames_by_id_def tracklets_by_id_def selected_observations_def by_id_def List.map_filter_simps
        ex_intent_def intent_of_def)
  have crop: "crop_item id ex_config ex_intent \<lparr>ec_state = COMPLETE, ec_materialized = Some ex_materialized, ec_reason = None\<rparr> =
      Inr ex_materialized"
    by (simp add: crop_item_def config) (simp add: ex_materialized_def)
  have post: "evidence_crop_result_post id \<lparr>ec_state = COMPLETE, ec_materialized = Some ex_materialized, ec_reason = None\<rparr> = None"
    by (simp add: evidence_crop_result_post_def ex_materialized_valid)
  have size: "length (cr_pixels (me_crop ex_materialized)) = 3" by (simp add: ex_materialized_def ex_crop_def)
  have result: "mk_materialization_result id COMPLETE [ex_materialized] None =
      Inr \<lparr>ma_state = COMPLETE, ma_materialized = [ex_materialized], ma_reason = None\<rparr>"
    by (simp add: mk_materialization_result_def materialization_result_post_def ex_materialized_valid
        MAX_MATERIALIZED_EVIDENCE_ITEMS_def)
  show ?thesis
    by (simp add: materialize_run_def read_one_def config found ex_read ex_exact cropped crop post size result Let_def
        MAX_EVIDENCE_RGB24_FRAME_BYTES_def)
qed

lemma materialization_exact_witness:
  "fake_pixels ex_reader ex_source (ex_frame 0 0) = Some ex_pixels \<and>
   extract_rgb24_crop ex_pixels 2 1 ex_geometry = Inr (me_crop ex_materialized)"
proof -
  obtain r' s' where run: "materialize_run id (fake_read id) (evidence_materialize id) ex_config ex_reader ex_selector ex_source
      [ex_frame 0 0] [ex_vehicle] [ex_vehicle_track] [ex_intent] =
    Inr (\<lparr>ma_state = COMPLETE, ma_materialized = [ex_materialized], ma_reason = None\<rparr>, r', s')" (is "_ = Inr (?v, _)")
    using ex_materialization by blast
  have selector: "selector_create id None = Inr ex_selector"
    using selector_producer_valid [OF nfc_id, of 3]
    by (simp add: selector_create_def ex_selector_def DEFAULT_MAX_SELECTED_OBSERVATIONS_def selection_limits_post_def
        MAX_SELECTED_OBSERVATIONS_def capability_descriptor_post_def selector_descriptor_def is_port_token_def token_evaluation
        MAX_PORT_BATCH_ITEMS_def MAX_EVIDENCE_RGB24_FRAME_BYTES_def MAX_I64_def Let_def)
  have materializer: "materializer_create (reader_descriptor 6) ex_config = Inr ex_config"
    by (simp add: materializer_create_def ex_config_valid reader_descriptor_def)
  have frames: "\<forall>f \<in> set [ex_frame 0 0]. frame_valid id f" using ex_frame_0_valid by simp
  have "ma_state ?v = COMPLETE" by simp
  from materialization_exact [OF nfc_id ex_reader_made selector materializer ex_source_valid frames run this]
  have "\<exists>pixels. fake_pixels ex_reader ex_source (ex_frame 0 0) = Some pixels \<and>
      extract_rgb24_crop pixels 2 1 ex_geometry = Inr (me_crop ex_materialized)"
    by (auto simp: frames_by_id_def)
  moreover have "fake_pixels ex_reader ex_source (ex_frame 0 0) = Some ex_pixels"
    by (simp add: fake_pixels_def ex_reader_def frames_by_frame_id_def)
  ultimately show ?thesis by simp
qed

end
