(* ===== verification/Detection.thy ===== *)
theory Detection
  imports Fake_Perception Geometry Json_Text
begin

text \<open>
  The vehicle detector of \<open>detection.py\<close>: the records a perception worker returns, the decoder of
  the worker's output, the fixture worker and \<open>OpenVinoVehicleDetector\<close>.  The sandboxed process
  that runs the model is not modelled: the decoder starts from what the process wrote, and the
  detector takes a worker (the protocol \<open>PerceptionWorker\<close>) as an argument.
\<close>

section \<open>Constants\<close>

definition DETECTOR_INPUT_WIDTH :: int where "DETECTOR_INPUT_WIDTH = 384"
definition DETECTOR_INPUT_HEIGHT :: int where "DETECTOR_INPUT_HEIGHT = 384"
definition DETECTOR_COORDINATE_SCALE :: int where "DETECTOR_COORDINATE_SCALE = 1000000"
definition DETECTOR_CONFIDENCE_FLOOR_MILLIONTHS :: int where "DETECTOR_CONFIDENCE_FLOOR_MILLIONTHS = 950000"
definition DETECTOR_RUNTIME_ID :: string where
  "DETECTOR_RUNTIME_ID = ''visualworld-perception-openvino-2026.3.1-vehicle-0201-v1''"
definition DETECTOR_RUNTIME_CLOSURE_SHA256 :: string where
  "DETECTOR_RUNTIME_CLOSURE_SHA256 = ''5859db2175bcf154586052d891f7e4f06cfb6b38cea5c62ac625c7d7aa961530''"
definition DETECTOR_MODEL_XML_SHA256 :: string where
  "DETECTOR_MODEL_XML_SHA256 = ''ae39ec7c4cc5c1ab5ef3db71c8fa307500f07a87f17d95bdb0d1c84762751d1a''"
definition DETECTOR_MODEL_BIN_SHA256 :: string where
  "DETECTOR_MODEL_BIN_SHA256 = ''612df843314c179460e754316d67e6eedd0e778f96ad1129fc0c34c8e935cb0b''"
definition DETECTOR_WORKER_SHA256 :: string where
  "DETECTOR_WORKER_SHA256 = ''674e1748b1bdc84db711db71e05a2fdfd73bcdeeecc16800e209727a99b47f2e''"
definition DETECTOR_MANIFEST_SHA256 :: string where
  "DETECTOR_MANIFEST_SHA256 = ''0feb184e4dff58a728aeb34e155af278da5df2705d27a8a6d43fe0f7b9bd7599''"
definition MEDIA_RUNTIME_ID :: string where "MEDIA_RUNTIME_ID = ''visualworld-pyav-18.1.0-ffmpeg-9.0.1-v2''"
definition MEDIA_MANIFEST_SHA256 :: string where
  "MEDIA_MANIFEST_SHA256 = ''58cf6f64280888ecc01c647044c38b9b56f197389b6bfc7ead7fbbe93a52ba32''"
definition MEDIA_TREE_SHA256 :: string where
  "MEDIA_TREE_SHA256 = ''7015262cd5dfdfd976d6ee092f0f93541597ea35e0331c3abb9ce6d4c54daeaf''"
definition EXPECTED_PYAV :: string where "EXPECTED_PYAV = ''18.1.0''"
definition EXPECTED_OPENVINO :: string where "EXPECTED_OPENVINO = ''2026.3.1-22476-759c5a6ab8c-releases/2026/3''"
definition EXPECTED_NUMPY :: string where "EXPECTED_NUMPY = ''2.5.3''"
definition EXPECTED_TELEMETRY :: string where "EXPECTED_TELEMETRY = ''2025.2.0''"

definition detector_configuration :: json where
  "detector_configuration = JObj
     [(''category'', JStr ''vehicle''),
      (''confidence_floor_millionths'', JInt DETECTOR_CONFIDENCE_FLOOR_MILLIONTHS),
      (''device'', JStr ''CPU''),
      (''input'', JObj
         [(''color_conversion'', JStr ''RGB-to-BGR''), (''height'', JInt DETECTOR_INPUT_HEIGHT),
          (''input_layout'', JStr ''NHWC-u8''), (''model_layout'', JStr ''NCHW''),
          (''resize'', JStr ''OpenVINO RESIZE_LINEAR''), (''width'', JInt DETECTOR_INPUT_WIDTH)]),
      (''media_manifest_sha256'', JStr MEDIA_MANIFEST_SHA256),
      (''media_runtime_id'', JStr MEDIA_RUNTIME_ID),
      (''media_tree_sha256'', JStr MEDIA_TREE_SHA256),
      (''model_bin_sha256'', JStr DETECTOR_MODEL_BIN_SHA256),
      (''model_xml_sha256'', JStr DETECTOR_MODEL_XML_SHA256),
      (''num_streams'', JInt 1),
      (''output'', JObj
         [(''coordinate_scale'', JInt DETECTOR_COORDINATE_SCALE), (''coordinate_space'', JStr ''normalized_millionths'')]),
      (''performance_hint'', JStr ''LATENCY''),
      (''runtime_closure_sha256'', JStr DETECTOR_RUNTIME_CLOSURE_SHA256),
      (''runtime_id'', JStr DETECTOR_RUNTIME_ID),
      (''schema'', JStr ''visualworld.openvino-vehicle-detector-configuration''),
      (''schema_version'', JInt 1),
      (''threads'', JInt 4),
      (''worker_sha256'', JStr DETECTOR_WORKER_SHA256)]"

definition DETECTOR_CONFIGURATION_SHA256 :: string where
  "DETECTOR_CONFIGURATION_SHA256 = sha256_hex (render (sort_json detector_configuration))"

definition detector_producer :: producer where
  "detector_producer = \<lparr>pr_name = ''visualworld.openvino-vehicle-detector'', pr_version = ''1'',
     pr_configuration_sha256 = DETECTOR_CONFIGURATION_SHA256\<rparr>"

definition detector_error :: "port_error_code \<Rightarrow> exn" where
  "detector_error c = PortError c DETECTOR ''detect''"

abbreviation decode_failed :: exn where
  "decode_failed \<equiv> detector_error DECODE_FAILED"

section \<open>Records of a worker\<close>

record detection_provenance =
  dv_source_sha256 :: string
  dv_source_bytes :: int
  dv_configuration_sha256 :: string
  dv_confidence_floor_millionths :: int
  dv_model_xml_sha256 :: string
  dv_model_bin_sha256 :: string
  dv_runtime_id :: string
  dv_runtime_closure_sha256 :: string
  dv_worker_sha256 :: string
  dv_perception_manifest_sha256 :: string
  dv_media_runtime_id :: string
  dv_media_manifest_sha256 :: string
  dv_media_tree_sha256 :: string

definition provenance_post :: "detection_provenance \<Rightarrow> check" where
  "provenance_post v = require
     (is_sha256 (dv_source_sha256 v) \<and> 1 \<le> dv_source_bytes v \<and> dv_source_bytes v \<le> 2 ^ 63 - 1 \<and>
      dv_configuration_sha256 v = DETECTOR_CONFIGURATION_SHA256 \<and>
      dv_confidence_floor_millionths v = DETECTOR_CONFIDENCE_FLOOR_MILLIONTHS \<and>
      dv_model_xml_sha256 v = DETECTOR_MODEL_XML_SHA256 \<and> dv_model_bin_sha256 v = DETECTOR_MODEL_BIN_SHA256 \<and>
      dv_runtime_id v = DETECTOR_RUNTIME_ID \<and> dv_runtime_closure_sha256 v = DETECTOR_RUNTIME_CLOSURE_SHA256 \<and>
      dv_worker_sha256 v = DETECTOR_WORKER_SHA256 \<and> dv_perception_manifest_sha256 v = DETECTOR_MANIFEST_SHA256 \<and>
      dv_media_runtime_id v = MEDIA_RUNTIME_ID \<and> dv_media_manifest_sha256 v = MEDIA_MANIFEST_SHA256 \<and>
      dv_media_tree_sha256 v = MEDIA_TREE_SHA256)
     (ValueError ''invalid detector provenance'')"

text \<open>\<open>DetectionProvenance(source_sha256, source_bytes)\<close> with the defaults of the other fields\<close>

definition mk_provenance :: "string \<Rightarrow> int \<Rightarrow> detection_provenance res" where
  "mk_provenance source_sha256 source_bytes =
     (let v = \<lparr>dv_source_sha256 = source_sha256, dv_source_bytes = source_bytes,
               dv_configuration_sha256 = DETECTOR_CONFIGURATION_SHA256,
               dv_confidence_floor_millionths = DETECTOR_CONFIDENCE_FLOOR_MILLIONTHS,
               dv_model_xml_sha256 = DETECTOR_MODEL_XML_SHA256, dv_model_bin_sha256 = DETECTOR_MODEL_BIN_SHA256,
               dv_runtime_id = DETECTOR_RUNTIME_ID, dv_runtime_closure_sha256 = DETECTOR_RUNTIME_CLOSURE_SHA256,
               dv_worker_sha256 = DETECTOR_WORKER_SHA256, dv_perception_manifest_sha256 = DETECTOR_MANIFEST_SHA256,
               dv_media_runtime_id = MEDIA_RUNTIME_ID, dv_media_manifest_sha256 = MEDIA_MANIFEST_SHA256,
               dv_media_tree_sha256 = MEDIA_TREE_SHA256\<rparr>
      in checked (provenance_post v) v)"

record worker_detection =
  wd_box :: box
  wd_confidence_millionths :: int

definition worker_detection_post :: "worker_detection \<Rightarrow> check" where
  "worker_detection_post v =
     (case wd_box v of (x_min, y_min, x_max, y_max) \<Rightarrow> require
        (0 \<le> x_min \<and> x_min < x_max \<and> x_max \<le> DETECTOR_COORDINATE_SCALE \<and>
         0 \<le> y_min \<and> y_min < y_max \<and> y_max \<le> DETECTOR_COORDINATE_SCALE \<and>
         DETECTOR_CONFIDENCE_FLOOR_MILLIONTHS \<le> wd_confidence_millionths v \<and> wd_confidence_millionths v \<le> 1000000)
        (ValueError ''invalid worker detection''))"

definition worker_time_check :: "(string \<Rightarrow> string) \<Rightarrow> media_time \<Rightarrow> check" where
  "worker_time_check nfc v = run_checks
     [require (mt_basis v = ''measured'' \<and> mt_estimate_method v = None \<and> mt_estimate_producer v = None)
        (ValueError ''invalid worker time''),
      except_value_check (run_checks [time_base_post nfc (mt_time_base v), media_time_post nfc v])
        (ValueError ''invalid worker time'')]"

record worker_frame =
  wf_decode_index :: string
  wf_pts :: media_time
  wf_duration :: "media_time option"
  wf_key_frame :: bool
  wf_detections :: "worker_detection list"

definition worker_frame_post :: "(string \<Rightarrow> string) \<Rightarrow> worker_frame \<Rightarrow> check" where
  "worker_frame_post nfc v = run_checks
     [require (is_unsigned_decimal (wf_decode_index v) \<and> length (wf_decode_index v) \<le> 20 \<and>
         int_of_decimal (wf_decode_index v) \<le> MAX_U64 \<and> length (wf_detections v) \<le> MAX_PORT_BATCH_ITEMS)
        (ValueError ''invalid worker frame''),
      worker_time_check nfc (wf_pts v),
      (case wf_duration v of
         None \<Rightarrow> None
       | Some d \<Rightarrow> run_checks [worker_time_check nfc d,
           require (mt_time_base d = mt_time_base (wf_pts v)) (ValueError ''invalid worker frame'')]),
      run_checks (map worker_detection_post (wf_detections v)),
      require (distinct (map (\<lambda>d. (wd_box d, wd_confidence_millionths d)) (wf_detections v)))
        (ValueError ''invalid worker frame'')]"

record worker_result =
  wr_provenance :: detection_provenance
  wr_stream_index :: int
  wr_width :: int
  wr_height :: int
  wr_rotation_degrees :: int
  wr_time_base :: time_base
  wr_frames :: "worker_frame list"

definition worker_result_post :: "(string \<Rightarrow> string) \<Rightarrow> worker_result \<Rightarrow> check" where
  "worker_result_post nfc v = run_checks
     [provenance_post (wr_provenance v),
      require (0 \<le> wr_stream_index v \<and> wr_stream_index v \<le> MAX_I31 \<and> 1 \<le> wr_width v \<and> wr_width v \<le> MAX_I31 \<and>
          1 \<le> wr_height v \<and> wr_height v \<le> MAX_I31 \<and> wr_rotation_degrees v mod 90 = 0 \<and>
          length (wr_frames v) \<le> MAX_PORT_BATCH_ITEMS) (ValueError ''invalid worker result''),
      except_value_check (time_base_post nfc (wr_time_base v)) (ValueError ''invalid worker result''),
      run_checks (map (\<lambda>f. run_checks [worker_frame_post nfc f,
          require (mt_time_base (wf_pts f) = wr_time_base v) (ValueError ''invalid worker result'')]) (wr_frames v)),
      require (distinct (map wf_decode_index (wr_frames v))) (ValueError ''invalid worker result''),
      require ((\<Sum>f \<leftarrow> wr_frames v. length (wf_detections f)) \<le> MAX_PERCEPTION_OBSERVATIONS)
        (ValueError ''invalid worker result'')]"

section \<open>The fixture worker\<close>

record fixture_worker =
  fw_result :: worker_result
  fw_calls :: nat

definition fixture_worker_create :: "(string \<Rightarrow> string) \<Rightarrow> worker_result \<Rightarrow> fixture_worker res" where
  "fixture_worker_create nfc result = checked (worker_result_post nfc result) \<lparr>fw_result = result, fw_calls = 0\<rparr>"

definition fixture_infer ::
  "(string \<Rightarrow> string) \<Rightarrow> fixture_worker \<Rightarrow> source \<Rightarrow> frame_ref list \<Rightarrow> (worker_result \<times> fixture_worker) res" where
  "fixture_infer nfc w src frames =
     bindE (perception_frames nfc src frames DETECTOR ''detect'') (\<lambda>_. Inr (fw_result w, w\<lparr>fw_calls := fw_calls w + 1\<rparr>))"

section \<open>Limits\<close>

record perception_limits =
  pl_max_source_bytes :: int
  pl_max_duration_seconds :: int
  pl_max_width :: int
  pl_max_height :: int
  pl_max_pixels :: int
  pl_max_frames :: int
  pl_max_decoded_bytes :: int
  pl_max_detections_per_frame :: int
  pl_max_stdout_bytes :: int
  pl_max_stderr_bytes :: int
  pl_wall_timeout_ms :: int
  pl_memory_bytes :: int
  pl_task_count :: int

definition default_perception_limits :: perception_limits where
  "default_perception_limits = \<lparr>pl_max_source_bytes = 64 * 1024 * 1024, pl_max_duration_seconds = 60 * 60,
     pl_max_width = 4096, pl_max_height = 4096, pl_max_pixels = 8388608, pl_max_frames = 300,
     pl_max_decoded_bytes = 384 * 1024 * 1024, pl_max_detections_per_frame = int MAX_PORT_BATCH_ITEMS,
     pl_max_stdout_bytes = 16 * 1024 * 1024, pl_max_stderr_bytes = 1024 * 1024, pl_wall_timeout_ms = 300000,
     pl_memory_bytes = 2 * 1024 * 1024 * 1024, pl_task_count = 1024\<rparr>"

definition perception_limits_post :: "perception_limits \<Rightarrow> check" where
  "perception_limits_post v = run_checks
     [require (list_all (\<lambda>n. 0 < n)
         [pl_max_source_bytes v, pl_max_duration_seconds v, pl_max_width v, pl_max_height v, pl_max_pixels v,
          pl_max_frames v, pl_max_decoded_bytes v, pl_max_detections_per_frame v, pl_max_stdout_bytes v,
          pl_max_stderr_bytes v, pl_wall_timeout_ms v, pl_memory_bytes v, pl_task_count v])
        (ValueError ''perception limits must be positive integers''),
      require (pl_max_source_bytes v \<le> 2 ^ 30 \<and> pl_max_duration_seconds v \<le> 24 * 60 * 60 \<and>
          pl_max_width v \<le> MAX_I31 \<and> pl_max_height v \<le> MAX_I31 \<and> pl_max_pixels v \<le> 2 ^ 34 \<and>
          pl_max_frames v \<le> 100000 \<and> pl_max_decoded_bytes v \<le> 2 ^ 40 \<and>
          pl_max_detections_per_frame v \<le> int MAX_PORT_BATCH_ITEMS \<and> pl_max_stdout_bytes v \<le> 16 * 1024 * 1024 \<and>
          pl_max_stderr_bytes v \<le> 1024 * 1024 \<and> pl_wall_timeout_ms v \<le> 300000 \<and>
          pl_memory_bytes v \<le> 2 * 1024 * 1024 * 1024 \<and> pl_task_count v \<le> 1024)
        (ValueError ''perception limit exceeds the approved bound'')]"

definition copy_perception_limits :: "perception_limits \<Rightarrow> int option \<Rightarrow> perception_limits res" where
  "copy_perception_limits v wall_timeout_ms =
     (let w = v\<lparr>pl_wall_timeout_ms := (case wall_timeout_ms of None \<Rightarrow> pl_wall_timeout_ms v | Some n \<Rightarrow> n)\<rparr>
      in checked (perception_limits_post w) w)"

text \<open>
  \<open>_checkpoint\<close> and \<open>_remaining_worker_limits\<close>: \<open>cancellation\<close> is what \<open>_cancellation_state\<close> found
  (\<open>None\<close> when the event cannot be read), \<open>now\<close> what the monotonic clock returned.
\<close>

definition checkpoint_failure :: "bool option \<Rightarrow> int \<Rightarrow> int \<Rightarrow> port_error_code option" where
  "checkpoint_failure cancellation now deadline_ns =
     (case cancellation of
        None \<Rightarrow> Some ISOLATION_UNAVAILABLE
      | Some True \<Rightarrow> Some CANCELLED
      | Some False \<Rightarrow> if deadline_ns \<le> now then Some TIMEOUT else None)"

definition checkpoint :: "bool option \<Rightarrow> int \<Rightarrow> int \<Rightarrow> int res" where
  "checkpoint cancellation now deadline_ns =
     (case checkpoint_failure cancellation now deadline_ns of
        Some c \<Rightarrow> Inl (detector_error c) | None \<Rightarrow> Inr now)"

definition remaining_worker_limits :: "perception_limits \<Rightarrow> bool option \<Rightarrow> int \<Rightarrow> int \<Rightarrow> perception_limits res" where
  "remaining_worker_limits limits cancellation now deadline_ns =
     bindE (checkpoint cancellation now deadline_ns) (\<lambda>t.
     let remaining_ms = (deadline_ns - t) div 1000000 in
     if remaining_ms < 1 then Inl (detector_error TIMEOUT)
     else copy_perception_limits limits (Some (min (pl_wall_timeout_ms limits) remaining_ms)))"

end
