(* ===== verification/Detection_Decode.thy ===== *)
theory Detection_Decode
  imports Detection
begin

text \<open>
  The decoder of the worker's output (\<open>_decode_worker_output\<close>).  The standard library's JSON is the
  argument \<open>loads\<close>: the value \<open>json.loads\<close> reads from the bytes, with the pairs of every object as they
  come, and the text \<open>json.dumps\<close> writes for it with sorted keys and no spaces; \<open>None\<close> when either
  raises.  Numbers with a fraction are read as empty objects, which no field of the output allows and
  which every check treats alike.
\<close>

section \<open>Typed reads\<close>

fun decoded_digest :: "json \<Rightarrow> string res" where
  "decoded_digest (JStr s) = (if is_sha256 s then Inr s else Inl decode_failed)"
| "decoded_digest _ = Inl decode_failed"

fun decoded_token :: "json \<Rightarrow> string res" where
  "decoded_token (JStr s) = (if is_port_token s then Inr s else Inl decode_failed)"
| "decoded_token _ = Inl decode_failed"

fun decoded_int :: "json \<Rightarrow> int \<Rightarrow> int \<Rightarrow> int res" where
  "decoded_int (JInt n) minimum maximum = (if minimum \<le> n \<and> n \<le> maximum then Inr n else Inl decode_failed)"
| "decoded_int _ minimum maximum = Inl decode_failed"

fun decoded_decimal :: "json \<Rightarrow> int \<Rightarrow> string res" where
  "decoded_decimal (JStr s) maximum =
     (if is_unsigned_decimal s \<and> length s \<le> 20 \<and> int_of_decimal s \<le> maximum then Inr s else Inl decode_failed)"
| "decoded_decimal _ maximum = Inl decode_failed"

fun decoded_signed_decimal :: "json \<Rightarrow> string res" where
  "decoded_signed_decimal (JStr s) =
     (if is_signed_decimal s \<and> length s \<le> 20 \<and> - (2 ^ 63) \<le> int_of_decimal s \<and> int_of_decimal s \<le> 2 ^ 63 - 1
      then Inr s else Inl decode_failed)"
| "decoded_signed_decimal _ = Inl decode_failed"

fun decoded_mapping :: "json \<Rightarrow> string list \<Rightarrow> (string \<times> json) list res" where
  "decoded_mapping (JObj kvs) keys = (if set (map fst kvs) = set keys then Inr kvs else Inl decode_failed)"
| "decoded_mapping _ keys = Inl decode_failed"

fun decoded_list :: "json \<Rightarrow> exn \<Rightarrow> json list res" where
  "decoded_list (JArr js) e = Inr js"
| "decoded_list _ e = Inl e"

fun decoded_bool :: "json \<Rightarrow> bool res" where
  "decoded_bool (JBool b) = Inr b"
| "decoded_bool _ = Inl decode_failed"

definition decoded_time_base :: "(string \<Rightarrow> string) \<Rightarrow> json \<Rightarrow> time_base res" where
  "decoded_time_base nfc value =
     bindE (decoded_mapping value [''numerator'', ''denominator'']) (\<lambda>item.
     bindE (decoded_decimal (get item ''numerator'') MAX_U32) (\<lambda>numerator.
     bindE (decoded_decimal (get item ''denominator'') MAX_U32) (\<lambda>denominator.
     let v = \<lparr>tb_numerator = numerator, tb_denominator = denominator\<rparr> in
     if numerator = ''0'' \<or> denominator = ''0'' then Inl decode_failed
     else checked (except_value_check (time_base_post nfc v) decode_failed) v)))"

definition decoded_media_time :: "(string \<Rightarrow> string) \<Rightarrow> json \<Rightarrow> media_time res" where
  "decoded_media_time nfc value =
     bindE (decoded_mapping value [''value'', ''time_base'']) (\<lambda>item.
     bindE (decoded_signed_decimal (get item ''value'')) (\<lambda>ticks.
     bindE (decoded_time_base nfc (get item ''time_base'')) (\<lambda>time_base.
     let v = \<lparr>mt_value = ticks, mt_time_base = time_base, mt_basis = ''measured'', mt_estimate_method = None,
              mt_estimate_producer = None\<rparr>
     in checked (except_value_check (media_time_post nfc v) decode_failed) v)))"

section \<open>Frames\<close>

fun decoded_box :: "json list \<Rightarrow> box res" where
  "decoded_box [a, b, c', d] =
     bindE (decoded_int a 0 DETECTOR_COORDINATE_SCALE) (\<lambda>x_min.
     bindE (decoded_int b 0 DETECTOR_COORDINATE_SCALE) (\<lambda>y_min.
     bindE (decoded_int c' 0 DETECTOR_COORDINATE_SCALE) (\<lambda>x_max.
     bindE (decoded_int d 0 DETECTOR_COORDINATE_SCALE) (\<lambda>y_max. Inr (x_min, y_min, x_max, y_max)))))"
| "decoded_box _ = Inl decode_failed"

definition decode_detection :: "json \<Rightarrow> worker_detection res" where
  "decode_detection value =
     bindE (decoded_mapping value [''box_normalized_millionths'', ''confidence_millionths'']) (\<lambda>detection.
     bindE (decoded_list (get detection ''box_normalized_millionths'') decode_failed) (\<lambda>raw_box.
     bindE (decoded_box raw_box) (\<lambda>b.
     bindE (decoded_int (get detection ''confidence_millionths'') DETECTOR_CONFIDENCE_FLOOR_MILLIONTHS 1000000)
       (\<lambda>confidence.
     let v = \<lparr>wd_box = b, wd_confidence_millionths = confidence\<rparr>
     in checked (except_value_check (worker_detection_post v) decode_failed) v))))"

definition frames_by_decode_index :: "frame_ref list \<Rightarrow> (string \<rightharpoonup> frame_ref)" where
  "frames_by_decode_index frames = map_of (rev (map (\<lambda>f. (fr_decode_index f, f)) frames))"

text \<open>one iteration of the loop over the frames, without the running total of the detections\<close>

definition decode_frame :: "(string \<Rightarrow> string) \<Rightarrow> perception_limits \<Rightarrow> (string \<rightharpoonup> frame_ref) \<Rightarrow> json \<Rightarrow> worker_frame res" where
  "decode_frame nfc limits expected_frames value =
     bindE (decoded_mapping value [''decode_index'', ''detections'', ''duration'', ''key_frame'', ''pts'']) (\<lambda>item.
     bindE (decoded_decimal (get item ''decode_index'') MAX_U64) (\<lambda>decode_index.
     case expected_frames decode_index of
       None \<Rightarrow> Inl decode_failed
     | Some expected \<Rightarrow>
         bindE (decoded_media_time nfc (get item ''pts'')) (\<lambda>pts.
         bindE (if get item ''duration'' = JNull then Inr None
                else bindE (decoded_media_time nfc (get item ''duration'')) (\<lambda>d. Inr (Some d))) (\<lambda>duration.
         bindE (decoded_bool (get item ''key_frame'')) (\<lambda>key_frame.
         bindE (checked (require (pts = fr_pts expected \<and> duration = fr_duration expected \<and>
             pred_option (\<lambda>k. key_frame = k) (fr_key_frame expected)) decode_failed) ()) (\<lambda>_.
         bindE (decoded_list (get item ''detections'') (detector_error LIMIT_EXCEEDED)) (\<lambda>raw_detections.
         bindE (checked (require (int (length raw_detections) \<le> pl_max_detections_per_frame limits)
             (detector_error LIMIT_EXCEEDED)) ()) (\<lambda>_.
         bindE (mapE decode_detection raw_detections) (\<lambda>detections.
         Inr \<lparr>wf_decode_index = decode_index, wf_pts = pts, wf_duration = duration, wf_key_frame = key_frame,
              wf_detections = detections\<rparr>)))))))))"

fun decode_frames ::
  "(string \<Rightarrow> string) \<Rightarrow> perception_limits \<Rightarrow> (string \<rightharpoonup> frame_ref) \<Rightarrow> nat \<Rightarrow> json list \<Rightarrow> worker_frame list res" where
  "decode_frames nfc limits expected_frames detected [] = Inr []"
| "decode_frames nfc limits expected_frames detected (value # rest) =
     bindE (decode_frame nfc limits expected_frames value) (\<lambda>v.
     let detected' = detected + length (wf_detections v) in
     if MAX_PERCEPTION_OBSERVATIONS < detected' then Inl (detector_error LIMIT_EXCEEDED)
     else bindE (checked (except_value_check (worker_frame_post nfc v) decode_failed) ()) (\<lambda>_.
          bindE (decode_frames nfc limits expected_frames detected' rest) (\<lambda>vs. Inr (v # vs))))"

text \<open>\<open>tuple(sorted(expected_frames, key=int))\<close>, on the keys of the dictionary\<close>

definition expected_order :: "frame_ref list \<Rightarrow> string list" where
  "expected_order frames = sort_key int_of_decimal (remdups (map fr_decode_index frames))"

section \<open>The whole output\<close>

definition expected_runtime :: "(string \<times> json) list" where
  "expected_runtime =
     [(''model_bin_sha256'', JStr DETECTOR_MODEL_BIN_SHA256), (''model_xml_sha256'', JStr DETECTOR_MODEL_XML_SHA256),
      (''numpy'', JStr EXPECTED_NUMPY), (''openvino'', JStr EXPECTED_OPENVINO), (''pyav'', JStr EXPECTED_PYAV),
      (''runtime_id'', JStr DETECTOR_RUNTIME_ID), (''telemetry'', JStr EXPECTED_TELEMETRY),
      (''worker_sha256'', JStr DETECTOR_WORKER_SHA256)]"

definition check_runtime :: "json \<Rightarrow> check" where
  "check_runtime value = check_of
     (bindE (decoded_mapping value (map fst expected_runtime)) (\<lambda>runtime.
      bindE (checked (require (list_all (\<lambda>(k, v). get runtime k = v) expected_runtime) (detector_error ISOLATION_UNAVAILABLE)) ())
        (\<lambda>_. mapE (\<lambda>(k, v). decoded_token v) runtime)))"

definition check_isolation :: "json \<Rightarrow> check" where
  "check_isolation value = check_of
     (bindE (decoded_mapping value [''landlock_denied'', ''network_denied'', ''no_new_privileges'', ''non_root'']) (\<lambda>isolation.
      checked (require (list_all (\<lambda>(k, v). v = JBool True) isolation) (detector_error ISOLATION_UNAVAILABLE)) ()))"

record decoded_stream =
  sx_stream_index :: int
  sx_width :: int
  sx_height :: int
  sx_rotation :: int
  sx_time_base :: time_base

definition stream_fits :: "frame_ref list \<Rightarrow> decoded_stream \<Rightarrow> source_stream \<Rightarrow> bool" where
  "stream_fits frames v stream \<longleftrightarrow>
     fr_stream_index ` set frames = {sx_stream_index v} \<and> ss_width stream = sx_width v \<and> ss_height stream = sx_height v \<and>
     ss_rotation_degrees stream mod 360 = sx_rotation v \<and> ss_time_base stream = sx_time_base v"

definition decode_stream ::
  "(string \<Rightarrow> string) \<Rightarrow> perception_limits \<Rightarrow> source \<Rightarrow> frame_ref list \<Rightarrow> json \<Rightarrow> decoded_stream res" where
  "decode_stream nfc limits src frames value =
     bindE (decoded_mapping value [''height'', ''rotation_degrees'', ''stream_index'', ''time_base'', ''width'']) (\<lambda>stream.
     bindE (decoded_int (get stream ''stream_index'') 0 MAX_I31) (\<lambda>stream_index.
     bindE (decoded_int (get stream ''width'') 1 (pl_max_width limits)) (\<lambda>width.
     bindE (decoded_int (get stream ''height'') 1 (pl_max_height limits)) (\<lambda>height.
     bindE (decoded_int (get stream ''rotation_degrees'') 0 359) (\<lambda>rotation.
     bindE (checked (require (rotation mod 90 = 0) decode_failed) ()) (\<lambda>_.
     bindE (decoded_time_base nfc (get stream ''time_base'')) (\<lambda>time_base.
     let v = \<lparr>sx_stream_index = stream_index, sx_width = width, sx_height = height, sx_rotation = rotation,
              sx_time_base = time_base\<rparr>
     in checked (require (case stream_by_index src stream_index of None \<Rightarrow> False | Some s \<Rightarrow> stream_fits frames v s)
          decode_failed) v)))))))"

definition decode_source_binding :: "perception_limits \<Rightarrow> source \<Rightarrow> string \<Rightarrow> int \<Rightarrow> json \<Rightarrow> check" where
  "decode_source_binding limits src digest source_bytes value = check_of
     (bindE (decoded_mapping value [''bytes'', ''sha256'']) (\<lambda>output_source.
      bindE (decoded_digest (get output_source ''sha256'')) (\<lambda>output_digest.
      bindE (checked (require (output_digest = digest) decode_failed) ()) (\<lambda>_.
      bindE (decoded_int (get output_source ''bytes'') 1 (pl_max_source_bytes limits)) (\<lambda>output_bytes.
      checked (require (output_bytes = source_bytes \<and> digest = fp_digest (so_fingerprint src) \<and>
        show_int source_bytes = fp_bytes (so_fingerprint src)) decode_failed) ())))))"

definition decode_worker_value ::
  "(string \<Rightarrow> string) \<Rightarrow> json \<Rightarrow> source \<Rightarrow> frame_ref list \<Rightarrow> string \<Rightarrow> int \<Rightarrow> perception_limits \<Rightarrow> worker_result res" where
  "decode_worker_value nfc raw src frames digest source_bytes limits =
     bindE (decoded_mapping raw
       [''frames'', ''isolation'', ''runtime'', ''schema_version'', ''source'', ''status'', ''stream'']) (\<lambda>root.
     bindE (checked (run_checks
       [require (get root ''schema_version'' = JInt 1) decode_failed,
        require (get root ''status'' = JStr ''ok'') decode_failed,
        decode_source_binding limits src digest source_bytes (get root ''source''),
        check_runtime (get root ''runtime''),
        check_isolation (get root ''isolation'')]) ()) (\<lambda>_.
     bindE (decode_stream nfc limits src frames (get root ''stream'')) (\<lambda>stream.
     bindE (decoded_list (get root ''frames'') decode_failed) (\<lambda>items.
     bindE (checked (require (length items = length frames \<and> length items \<le> MAX_PORT_BATCH_ITEMS) decode_failed) ()) (\<lambda>_.
     bindE (decode_frames nfc limits (frames_by_decode_index frames) 0 items) (\<lambda>selected.
     bindE (checked (require (map wf_decode_index selected = expected_order frames) decode_failed) ()) (\<lambda>_.
     bindE (mk_provenance digest source_bytes) (\<lambda>provenance.
     let v = \<lparr>wr_provenance = provenance, wr_stream_index = sx_stream_index stream, wr_width = sx_width stream,
              wr_height = sx_height stream, wr_rotation_degrees = sx_rotation stream, wr_time_base = sx_time_base stream,
              wr_frames = selected\<rparr>
     in checked (except_value_check (worker_result_post nfc v) decode_failed) v))))))))"

text \<open>\<open>_no_duplicate_object\<close>, the hook for every object of the text\<close>

fun unique_keys :: "json \<Rightarrow> bool"
and unique_keys_members :: "(string \<times> json) list \<Rightarrow> bool"
and unique_keys_items :: "json list \<Rightarrow> bool" where
  "unique_keys JNull = True"
| "unique_keys (JBool b) = True"
| "unique_keys (JInt i) = True"
| "unique_keys (JStr s) = True"
| "unique_keys (JArr js) = unique_keys_items js"
| "unique_keys (JObj kvs) = (distinct (map fst kvs) \<and> unique_keys_members kvs)"
| "unique_keys_members [] = True"
| "unique_keys_members ((k, v) # kvs) = (unique_keys v \<and> unique_keys_members kvs)"
| "unique_keys_items [] = True"
| "unique_keys_items (v # vs) = (unique_keys v \<and> unique_keys_items vs)"

text \<open>what the process left behind: the two streams, its exit code and what it used\<close>

record worker_run =
  wx_stdout :: string
  wx_stderr :: string
  wx_returncode :: int
  wx_wall_ms :: int
  wx_cpu_ms :: int
  wx_memory_peak_bytes :: int

definition decode_worker_output ::
  "(string \<Rightarrow> string) \<Rightarrow> (string \<Rightarrow> (json \<times> string) option) \<Rightarrow> worker_run \<Rightarrow> source \<Rightarrow> frame_ref list \<Rightarrow> string \<Rightarrow> int \<Rightarrow>
   perception_limits \<Rightarrow> worker_result res" where
  "decode_worker_output nfc loads run src frames digest source_bytes limits =
     (if wx_returncode run \<noteq> 0
      then Inl (if wx_returncode run = 20 then detector_error LIMIT_EXCEEDED
                else if wx_returncode run = 22 then detector_error ISOLATION_UNAVAILABLE else decode_failed)
      else if wx_stderr run \<noteq> render (JObj [(''schema_version'', JInt 1), (''status'', JStr ''ok'')]) @ [CHR 0x0A]
      then Inl decode_failed
      else if wx_stdout run = [] \<or> pl_max_stdout_bytes limits < int (length (wx_stdout run))
      then Inl (detector_error LIMIT_EXCEEDED)
      else case loads (wx_stdout run) of
             None \<Rightarrow> Inl decode_failed
           | Some (raw, canonical) \<Rightarrow>
               if \<not> unique_keys raw \<or> wx_stdout run \<noteq> canonical @ [CHR 0x0A] then Inl decode_failed
               else decode_worker_value nfc raw src frames digest source_bytes limits)"

end
