(* ===== verification/Detector.thy ===== *)
theory Detector
  imports Detection_Decode
begin

text \<open>
  \<open>OpenVinoVehicleDetector\<close> of \<open>detection.py\<close>.  The worker (the protocol \<open>PerceptionWorker\<close>) is two
  arguments: \<open>supported w\<close> is what the property of that name returns, \<open>None\<close> when reading it raises or
  gives no boolean, and \<open>infer\<close> returns a result with the worker's next state.  A call that raises
  returns no state; what the worker did before is not part of the model.
\<close>

type_synonym 'w worker = "'w \<Rightarrow> source \<Rightarrow> frame_ref list \<Rightarrow> (worker_result \<times> 'w) res"

record 'w vehicle_detector =
  vd_worker :: 'w
  vd_calls :: "port_call list"

definition vehicle_detector_descriptor :: capability_descriptor where
  "vehicle_detector_descriptor =
     \<lparr>cd_port = DETECTOR, cd_implementation = ''visualworld.openvino-vehicle-detector'', cd_implementation_version = ''1'',
      cd_deterministic = True, cd_offline = True, cd_max_batch_items = int MAX_PORT_BATCH_ITEMS,
      cd_max_payload_bytes = Some (16 * 1024 * 1024), cd_contract_version = 1, cd_allowed_effects = []\<rparr>"

definition vehicle_detector_create :: "'w \<Rightarrow> 'w vehicle_detector res" where
  "vehicle_detector_create w =
     checked (capability_descriptor_post vehicle_detector_descriptor) \<lparr>vd_worker = w, vd_calls = []\<rparr>"

definition detector_provenance :: "(string \<Rightarrow> string) \<Rightarrow> source \<Rightarrow> detection_provenance res" where
  "detector_provenance nfc src =
     bindE (perception_frames nfc src [] DETECTOR ''detect'') (\<lambda>_.
     except_value (mk_provenance (fp_digest (so_fingerprint src)) (int_of_decimal (fp_bytes (so_fingerprint src))))
       (detector_error INVALID_REQUEST))"

section \<open>The worker's answer\<close>

text \<open>\<open>except PortError: raise\<close>, and any other exception becomes a decoding failure\<close>

fun passed_on :: "exn \<Rightarrow> exn" where
  "passed_on (PortError c port operation) = PortError c port operation"
| "passed_on e = decode_failed"

definition run_worker :: "(string \<Rightarrow> string) \<Rightarrow> 'w worker \<Rightarrow> 'w worker" where
  "run_worker nfc infer w src frames =
     (case bindE (infer w src frames) (\<lambda>(output, w'). checked (worker_result_post nfc output) (output, w')) of
        Inl e \<Rightarrow> Inl (passed_on e)
      | Inr answer \<Rightarrow> Inr answer)"

definition output_fits :: "source_stream \<Rightarrow> frame_ref list \<Rightarrow> worker_result \<Rightarrow> bool" where
  "output_fits stream frames output \<longleftrightarrow>
     wr_stream_index output = ss_stream_index stream \<and> wr_width output = ss_width stream \<and>
     wr_height output = ss_height stream \<and>
     wr_rotation_degrees output mod 360 = ss_rotation_degrees stream mod 360 \<and>
     wr_time_base output = ss_time_base stream \<and>
     wf_decode_index ` set (wr_frames output) = fr_decode_index ` set frames"

definition output_by_index :: "worker_result \<Rightarrow> (string \<rightharpoonup> worker_frame)" where
  "output_by_index output = map_of (rev (map (\<lambda>f. (wf_decode_index f, f)) (wr_frames output)))"

text \<open>\<open>_copy_media_time\<close>\<close>

definition rebuilt_media_time :: "(string \<Rightarrow> string) \<Rightarrow> media_time \<Rightarrow> media_time res" where
  "rebuilt_media_time nfc v = checked (run_checks
     [time_base_post nfc (mt_time_base v),
      (case mt_estimate_producer v of None \<Rightarrow> None | Some p \<Rightarrow> producer_post nfc p),
      media_time_post nfc v]) v"

definition detection_observation ::
  "(string \<Rightarrow> string) \<Rightarrow> source \<Rightarrow> detector_transform \<Rightarrow> frame_ref \<Rightarrow> worker_detection \<Rightarrow> observation res" where
  "detection_observation nfc src transform frame d =
     except_value
       (bindE (map_box nfc transform (wd_box d) ''inferred'') (\<lambda>geometry.
        bindE (rebuilt_media_time nfc (fr_pts frame)) (\<lambda>pts.
        observation_create nfc (so_source_id src) (fr_frame_id frame) (fr_stream_index frame) pts geometry ''vehicle''
          (wd_confidence_millionths d) detector_producer)))
       decode_failed"

definition frame_matches :: "frame_ref \<Rightarrow> worker_frame \<Rightarrow> bool" where
  "frame_matches frame v \<longleftrightarrow> wf_pts v = fr_pts frame \<and> wf_duration v = fr_duration frame \<and>
     pred_option (\<lambda>k. wf_key_frame v = k) (fr_key_frame frame)"

definition frame_observations ::
  "(string \<Rightarrow> string) \<Rightarrow> source \<Rightarrow> source_stream \<Rightarrow> frame_ref \<Rightarrow> worker_frame \<Rightarrow> observation list res" where
  "frame_observations nfc src stream frame v =
     bindE (checked (require (frame_matches frame v) decode_failed) ()) (\<lambda>_.
     bindE (detector_transform_create (ss_width stream) (ss_height stream) DETECTOR_COORDINATE_SCALE
         DETECTOR_COORDINATE_SCALE (ss_rotation_degrees stream) None) (\<lambda>transform.
     mapE (detection_observation nfc src transform frame) (wf_detections v)))"

section \<open>\<open>detect\<close>\<close>

definition detection_result_create ::
  "(string \<Rightarrow> string) \<Rightarrow> perception_result_state \<Rightarrow> observation list \<Rightarrow> string option \<Rightarrow> detection_result res" where
  "detection_result_create nfc state obs reason =
     (let v = \<lparr>dr_state = state, dr_observations = obs, dr_reason = reason\<rparr> in checked (detection_result_post nfc v) v)"

text \<open>the part of \<open>detect\<close> after the worker has answered\<close>

definition observations_of_output ::
  "(string \<Rightarrow> string) \<Rightarrow> source \<Rightarrow> frame_ref list \<Rightarrow> worker_result \<Rightarrow> detection_result res" where
  "observations_of_output nfc src frames output =
     (let stream = the (stream_by_index src (fr_stream_index (hd frames))) in
     bindE (detector_provenance nfc src) (\<lambda>provenance.
     bindE (checked (require (wr_provenance output = provenance \<and> output_fits stream frames output) decode_failed) ()) (\<lambda>_.
     bindE (mapE (\<lambda>frame. frame_observations nfc src stream frame (the (output_by_index output (fr_decode_index frame))))
         frames) (\<lambda>groups.
     let obs = concat groups in
     if MAX_PERCEPTION_OBSERVATIONS < length obs then Inl (detector_error LIMIT_EXCEEDED)
     else detection_result_create nfc COMPLETE obs None))))"

definition detect_core ::
  "(string \<Rightarrow> string) \<Rightarrow> ('w \<Rightarrow> bool option) \<Rightarrow> 'w worker \<Rightarrow> 'w \<Rightarrow> source \<Rightarrow> frame_ref list \<Rightarrow> (detection_result \<times> 'w) res" where
  "detect_core nfc supported infer w src frames =
     (if frames = [] then bindE (detection_result_create nfc COMPLETE [] None) (\<lambda>r. Inr (r, w))
      else if length (remdups (map fr_stream_index frames)) \<noteq> 1
      then bindE (detection_result_create nfc UNSUPPORTED_RESULT [] (Some ''multi_stream_batch_unsupported'')) (\<lambda>r. Inr (r, w))
      else case supported w of
             None \<Rightarrow> Inl (detector_error ISOLATION_UNAVAILABLE)
           | Some False \<Rightarrow>
               bindE (detection_result_create nfc UNSUPPORTED_RESULT [] (Some ''platform_unsupported'')) (\<lambda>r. Inr (r, w))
           | Some True \<Rightarrow>
               bindE (run_worker nfc infer w src frames) (\<lambda>(output, w').
               bindE (observations_of_output nfc src frames output) (\<lambda>r. Inr (r, w'))))"

definition detect ::
  "(string \<Rightarrow> string) \<Rightarrow> ('w \<Rightarrow> bool option) \<Rightarrow> 'w worker \<Rightarrow> 'w vehicle_detector \<Rightarrow> source \<Rightarrow> frame_ref list \<Rightarrow>
   (detection_result \<times> 'w vehicle_detector) res" where
  "detect nfc supported infer s src frames =
     bindE (perception_frames nfc src frames DETECTOR ''detect'') (\<lambda>_.
     bindE (detect_core nfc supported infer (vd_worker s) src frames) (\<lambda>(r, w).
     bindE (record_call (vd_calls s) DETECTOR ''detect'' (length frames)) (\<lambda>calls.
     Inr (r, \<lparr>vd_worker = w, vd_calls = calls\<rparr>))))"

end
