(* ===== verification/Detector_Facts.thy ===== *)
theory Detector_Facts
  imports Detector Port_Errors
begin

text \<open>
  Facts about the detector: a box inside the content of a detector image never loses its pixels, what
  the checks of a request and of a worker's answer give, and when an observation is built.
\<close>

section \<open>Boxes inside the content\<close>

lemma unit_share: "(l :: rat) < r \<Longrightarrow> l \<le> x \<Longrightarrow> x \<le> r \<Longrightarrow> \<exists>a. 0 \<le> a \<and> a \<le> 1 \<and> x = l + a * (r - l)"
  by (rule exI [of _ "(x - l) / (r - l)"]) (simp add: field_simps)

lemma detector_point_onto:
  assumes ok: "transform_ok t" and xy: "in_box (x, y) (dt_content_box_xyxy t)"
  obtains p where "detector_point t p = (x, y)" "in_box p (0, 0, dt_source_width t, dt_source_height t)"
proof -
  obtain l u r lo where b: "dt_content_box_xyxy t = (l, u, r, lo)"
    by (cases "dt_content_box_xyxy t")
  define w h :: rat where "w = of_int (dt_source_width t)" and "h = of_int (dt_source_height t)"
  have pos: "0 < w" "0 < h" using ok by (simp_all add: transform_ok_def w_def h_def)
  have lr: "(of_int l :: rat) < of_int r" "(of_int u :: rat) < of_int lo"
    using ok by (simp_all add: transform_ok_def box_ok_def b)
  obtain a where a: "0 \<le> a" "a \<le> 1" "x = of_int l + a * (of_int r - of_int l)"
    using unit_share [OF lr(1)] xy by (auto simp: b)
  obtain e where e: "0 \<le> e" "e \<le> 1" "y = of_int u + e * (of_int lo - of_int u)"
    using unit_share [OF lr(2)] xy by (auto simp: b)
  have inside: "0 \<le> s * z \<and> s * z \<le> z" if "0 \<le> s" "s \<le> 1" "0 < z" for s z :: rat
    using that mult_right_mono [of s 1 z] by simp
  have ae: "0 \<le> 1 - a" "1 - a \<le> 1" "0 \<le> 1 - e" "1 - e \<le> 1" using a e by simp_all
  consider "dt_rotation_degrees t = 0" | "dt_rotation_degrees t = 90" | "dt_rotation_degrees t = 180"
    | "dt_rotation_degrees t = 270"
    using ok by (auto simp: transform_ok_def)
  then show ?thesis
  proof cases
    case 1
    show ?thesis
      by (rule that [of "(a * w, e * h)"])
        (use 1 pos a e inside in \<open>simp_all add: detector_point_def display_size_def b a(3) e(3) flip: w_def h_def\<close>)
  next
    case 2
    show ?thesis
      by (rule that [of "(e * w, (1 - a) * h)"])
        (use 2 pos a e ae inside [of "1 - a" h] inside [of e w] in
          \<open>simp_all add: detector_point_def display_size_def b a(3) e(3) field_simps flip: w_def h_def\<close>)
  next
    case 3
    show ?thesis
      by (rule that [of "((1 - a) * w, (1 - e) * h)"])
        (use 3 pos a e ae inside [of "1 - a" w] inside [of "1 - e" h] in
          \<open>simp_all add: detector_point_def display_size_def b a(3) e(3) field_simps flip: w_def h_def\<close>)
  next
    case 4
    show ?thesis
      by (rule that [of "((1 - e) * w, a * h)"])
        (use 4 pos a e ae inside [of "1 - e" w] inside [of a h] in
          \<open>simp_all add: detector_point_def display_size_def b a(3) e(3) field_simps flip: w_def h_def\<close>)
  qed
qed

lemma detector_point_separates:
  assumes ok: "transform_ok t" and p: "detector_point t p = (x, y)" and q: "detector_point t q = (x', y')"
    and ne: "x \<noteq> x'" "y \<noteq> y'"
  shows "fst p \<noteq> fst q" "snd p \<noteq> snd q"
proof -
  obtain l u r lo where b: "dt_content_box_xyxy t = (l, u, r, lo)"
    by (cases "dt_content_box_xyxy t")
  have "dt_rotation_degrees t \<in> {0, 90, 180, 270}"
    using ok by (simp add: transform_ok_def)
  then show "fst p \<noteq> fst q" "snd p \<noteq> snd q"
    using p q ne by (cases p; cases q; auto simp: detector_point_def display_size_def b Let_def split: if_splits)+
qed

fun box_within :: "box \<Rightarrow> box \<Rightarrow> bool" where
  "box_within (x0, y0, x1, y1) (p0, q0, p1, q1) \<longleftrightarrow> p0 \<le> x0 \<and> x0 < x1 \<and> x1 \<le> p1 \<and> q0 \<le> y0 \<and> y0 < y1 \<and> y1 \<le> q1"

lemma transformed_box_nonempty:
  assumes ok: "transform_ok t" and b: "box_within b (dt_content_box_xyxy t)"
    and inv: "\<And>p. (affine_x k (fst (detector_point t p)) (snd (detector_point t p)),
          affine_y k (fst (detector_point t p)) (snd (detector_point t p))) = p"
  shows "box_ok (transformed_box b k (dt_source_width t) (dt_source_height t)) (dt_source_width t) (dt_source_height t)"
proof -
  let ?W = "dt_source_width t" and ?H = "dt_source_height t"
  obtain x0 y0 x1 y1 where xy: "b = (x0, y0, x1, y1)" by (cases b)
  obtain l u r lo where content: "dt_content_box_xyxy t = (l, u, r, lo)"
    by (cases "dt_content_box_xyxy t")
  have corners: "in_box (of_int x0, of_int y0) (dt_content_box_xyxy t)" "in_box (of_int x1, of_int y1) (dt_content_box_xyxy t)"
    using b by (auto simp: xy content)
  obtain p where p: "detector_point t p = (of_int x0, of_int y0)" "in_box p (0, 0, ?W, ?H)"
    by (rule detector_point_onto [OF ok corners(1)])
  obtain q where q: "detector_point t q = (of_int x1, of_int y1)" "in_box q (0, 0, ?W, ?H)"
    by (rule detector_point_onto [OF ok corners(2)])
  have image: "(affine_x k (of_int x0) (of_int y0), affine_y k (of_int x0) (of_int y0)) = p"
      "(affine_x k (of_int x1) (of_int y1), affine_y k (of_int x1) (of_int y1)) = q"
    using inv [of p] inv [of q] by (simp_all add: p q)
  have "in_box p (transformed_box b k ?W ?H)" "in_box q (transformed_box b k ?W ?H)"
    using transformed_box_contains [of "of_int x0" "of_int y0" b k ?W ?H]
      transformed_box_contains [of "of_int x1" "of_int y1" b k ?W ?H] b p(2) q(2)
    unfolding image by (auto simp: xy content)
  moreover have "fst p \<noteq> fst q" "snd p \<noteq> snd q"
    using detector_point_separates [OF ok p(1) q(1)] b by (auto simp: xy content)
  moreover obtain a0 b0 a1 b1 where tb: "transformed_box b k ?W ?H = (a0, b0, a1, b1)"
    by (cases "transformed_box b k ?W ?H")
  ultimately have "a0 < a1" "b0 < b1"
    by (cases p; cases q; force)+
  with transformed_box_ok [OF tb] ok show ?thesis by (simp add: tb transform_ok_def)
qed

lemma map_box_inside:
  assumes nfc: "nfc_ascii nfc" and t: "detector_transform_create sw sh dw dh rotation None = Inr t"
    and b: "box_within b (0, 0, dw, dh)" and m: "m \<in> set measurements"
  shows "\<exists>g. map_box nfc t b m = Inr g"
proof -
  have ok: "transform_ok t" by (rule detector_transform_create_ok [OF t])
  have dims: "dt_content_box_xyxy t = (0, 0, dw, dh)" "dt_detector_width t = dw" "dt_detector_height t = dh"
    using t by (auto simp: detector_transform_create_def checked_Inr_iff)
  obtain k where k: "coefficients nfc t = Inr k" "affine_coefficients_valid nfc k"
    "\<And>p. (affine_x k (fst (detector_point t p)) (snd (detector_point t p)),
          affine_y k (fst (detector_point t p)) (snd (detector_point t p))) = p"
    using coefficients_inverse [OF nfc ok] by blast
  have "box_ok b (dt_detector_width t) (dt_detector_height t)"
    using b ok by (cases b) (auto simp: dims box_ok_def transform_ok_def)
  from map_box_eval(1) [OF nfc ok this m k(1,2)] transformed_box_nonempty [OF ok _ k(3), of b] b show ?thesis
    by (simp add: dims)
qed

section \<open>Requests\<close>

lemma perception_frames_InrD:
  assumes "perception_frames nfc src frames port operation = Inr m"
  shows "plain_perception_source nfc src" "length frames \<le> MAX_PORT_BATCH_ITEMS" "distinct (map fr_frame_id frames)"
    "distinct (map (\<lambda>f. (fr_stream_index f, fr_decode_index f)) frames)"
    "\<And>f. f \<in> set frames \<Longrightarrow> fr_source_id f = so_source_id src"
    "\<And>f. f \<in> set frames \<Longrightarrow> \<exists>s. stream_by_index src (fr_stream_index f) = Some s"
    "m = frames_by_id frames"
  using assms by (auto simp: perception_frames_def Let_def checked_Inr_iff run_checks_None list_all_iff)

lemma stream_by_indexD:
  assumes "stream_by_index src i = Some s"
  shows "s \<in> set (so_streams src)" "ss_stream_index s = i"
  using map_of_SomeD [OF assms [unfolded stream_by_index_def]] by auto

lemma plain_stream:
  "plain_perception_source nfc src \<Longrightarrow> s \<in> set (so_streams src) \<Longrightarrow> source_stream_valid nfc s"
  by (auto simp: plain_perception_source_def run_checks_None source_stream_valid_def)

lemma map_of_rev_distinct:
  "distinct (map f xs) \<Longrightarrow> x \<in> set xs \<Longrightarrow> map_of (rev (map (\<lambda>x. (f x, x)) xs)) (f x) = Some x"
  by (simp add: map_of_eq_Some_iff rev_map [symmetric] comp_def distinct_rev [unfolded rev_map])

lemma frames_by_id_mem: "distinct (map fr_frame_id frames) \<Longrightarrow> f \<in> set frames \<Longrightarrow> frames_by_id frames (fr_frame_id f) = Some f"
  unfolding frames_by_id_def by (rule map_of_rev_distinct)

section \<open>Answers of the worker\<close>

lemma worker_result_postD:
  assumes "worker_result_post nfc v = None"
  shows "provenance_post (wr_provenance v) = None" "wr_rotation_degrees v mod 90 = 0"
    "\<And>f. f \<in> set (wr_frames v) \<Longrightarrow> worker_frame_post nfc f = None" "distinct (map wf_decode_index (wr_frames v))"
    "(\<Sum>f \<leftarrow> wr_frames v. length (wf_detections f)) \<le> MAX_PERCEPTION_OBSERVATIONS"
  using assms unfolding worker_result_post_def run_checks_ConsN by (auto simp: run_checks_None split: option.splits)

lemma worker_frame_detections:
  "worker_frame_post nfc f = None \<Longrightarrow> d \<in> set (wf_detections f) \<Longrightarrow> worker_detection_post d = None"
  unfolding worker_frame_post_def run_checks_ConsN by (auto simp: run_checks_None)

lemma output_by_indexD:
  assumes "output_by_index output i = Some v"
  shows "v \<in> set (wr_frames output)" "wf_decode_index v = i"
  using map_of_SomeD [OF assms [unfolded output_by_index_def]] by auto

lemma output_by_index_found:
  assumes "i \<in> wf_decode_index ` set (wr_frames output)"
  shows "\<exists>v. output_by_index output i = Some v"
proof -
  have "i \<in> fst ` set (rev (map (\<lambda>f. (wf_decode_index f, f)) (wr_frames output)))" using assms by force
  then show ?thesis unfolding output_by_index_def using map_of_eq_None_iff [of _ i] by (metis option.exhaust)
qed

lemma run_worker_Inr:
  "run_worker nfc infer w src frames = Inr (output, w') \<longleftrightarrow>
     infer w src frames = Inr (output, w') \<and> worker_result_post nfc output = None"
  by (cases "infer w src frames") (auto simp: run_worker_def checked_def split: option.splits sum.splits)

section \<open>Observations\<close>

lemma observation_create_Inr:
  assumes "observation_create nfc source_id frame_id stream_index pts geometry category confidence p = Inr ob"
  shows "observation_post nfc ob = None" "ob_source_id ob = source_id" "ob_frame_id ob = frame_id"
    "ob_stream_index ob = stream_index" "ob_pts ob = pts" "ob_geometry ob = geometry" "ob_category ob = category"
    "ob_confidence_millionths ob = confidence" "ob_producer ob = p"
  using assms unfolding observation_create_def Let_def by (auto simp: bindE_Inr_iff checked_Inr_iff)

text \<open>what the code promises about the observation of a detection\<close>

definition observes :: "(string \<Rightarrow> string) \<Rightarrow> source \<Rightarrow> source_stream \<Rightarrow> frame_ref \<Rightarrow> worker_detection \<Rightarrow> observation \<Rightarrow> bool" where
  "observes nfc src stream frame d ob \<longleftrightarrow>
     observation_post nfc ob = None \<and> ob_source_id ob = so_source_id src \<and> ob_frame_id ob = fr_frame_id frame \<and>
     ob_stream_index ob = fr_stream_index frame \<and> ob_pts ob = fr_pts frame \<and> ob_category ob = ''vehicle'' \<and>
     ob_confidence_millionths ob = wd_confidence_millionths d \<and> ob_producer ob = detector_producer \<and>
     (\<exists>transform. detector_transform_create (ss_width stream) (ss_height stream) DETECTOR_COORDINATE_SCALE
         DETECTOR_COORDINATE_SCALE (ss_rotation_degrees stream) None = Inr transform \<and>
       map_box nfc transform (wd_box d) ''inferred'' = Inr (ob_geometry ob))"

lemma detection_observation_observes:
  assumes "detector_transform_create (ss_width stream) (ss_height stream) DETECTOR_COORDINATE_SCALE
      DETECTOR_COORDINATE_SCALE (ss_rotation_degrees stream) None = Inr transform"
    and "detection_observation nfc src transform frame d = Inr ob"
  shows "observes nfc src stream frame d ob"
  using assms observation_create_Inr [of nfc] unfolding detection_observation_def except_value_Inr bindE_Inr_iff
  by (auto simp: observes_def rebuilt_media_time_def checked_Inr_iff)

lemma frame_observations_Inr:
  assumes "frame_observations nfc src stream frame v = Inr obs"
  shows "frame_matches frame v" "list_all2 (observes nfc src stream frame) (wf_detections v) obs"
proof -
  from assms show "frame_matches frame v" by (auto simp: frame_observations_def bindE_Inr_iff checked_Inr_iff)
  from assms obtain transform where t: "detector_transform_create (ss_width stream) (ss_height stream)
      DETECTOR_COORDINATE_SCALE DETECTOR_COORDINATE_SCALE (ss_rotation_degrees stream) None = Inr transform"
    and obs: "list_all2 (\<lambda>d ob. detection_observation nfc src transform frame d = Inr ob) (wf_detections v) obs"
    by (auto simp: frame_observations_def bindE_Inr_iff mapE_Inr_iff)
  show "list_all2 (observes nfc src stream frame) (wf_detections v) obs"
    by (rule list_all2_mono [OF obs]) (rule detection_observation_observes [OF t])
qed

lemma map_box_dimensions:
  assumes "map_box nfc t b m = Inr g"
  shows "ge_source_width g = dt_source_width t" "ge_source_height g = dt_source_height t"
  using assms by (auto simp: map_box_def bindE_Inr_iff checked_Inr_iff Let_def split: prod.splits)

lemma observes_in_scope:
  assumes "observes nfc src stream frame d ob" and "frames (fr_frame_id frame) = Some frame"
    and "stream_by_index src (fr_stream_index frame) = Some stream"
  shows "observation_in_scope src frames ob"
proof -
  obtain t where t: "detector_transform_create (ss_width stream) (ss_height stream) DETECTOR_COORDINATE_SCALE
      DETECTOR_COORDINATE_SCALE (ss_rotation_degrees stream) None = Inr t"
    and g: "map_box nfc t (wd_box d) ''inferred'' = Inr (ob_geometry ob)"
    using assms(1) by (auto simp: observes_def)
  have "dt_source_width t = ss_width stream" "dt_source_height t = ss_height stream"
    using t by (auto simp: detector_transform_create_def checked_Inr_iff)
  with assms map_box_dimensions [OF g] show ?thesis by (simp add: observation_in_scope_def observes_def)
qed

end
