(* ===== verification/Record_Sizes.thy ===== *)
theory Record_Sizes
  imports Loading Ingestion_Examples "HOL-Library.Multiset"
begin

text \<open>
  The canonical bytes of a record made of valid parts never exceed the bounds of the writer, so an
  observation made of valid parts is always built.
\<close>

section \<open>How long canonical bytes are\<close>

fun wide :: "json \<Rightarrow> nat"
and wide_members :: "(string \<times> json) list \<Rightarrow> nat"
and wide_items :: "json list \<Rightarrow> nat" where
  "wide JNull = 4"
| "wide (JBool b) = 5"
| "wide (JInt i) = length (show_int i)"
| "wide (JStr s) = length (quote s)"
| "wide (JArr js) = 2 + wide_items js"
| "wide (JObj kvs) = 2 + wide_members kvs"
| "wide_members [] = 0"
| "wide_members ((k, v) # kvs) = length (quote k) + 2 + wide v + wide_members kvs"
| "wide_items [] = 0"
| "wide_items (v # vs) = 1 + wide v + wide_items vs"

lemma wide_members_sum: "wide_members kvs = (\<Sum>(k, v) \<leftarrow> kvs. length (quote k) + 2 + wide v)"
  by (induction kvs) auto

lemma wide_members_sort: "wide_members (sort_key f kvs) = wide_members kvs"
  unfolding wide_members_sum by (simp flip: sum_mset_sum_list)

lemma wide_sort:
  "wide (sort_json v) = wide v" "wide_members (sort_members kvs) = wide_members kvs" "wide_items (sort_items js) = wide_items js"
  by (induction v and kvs and js rule: sort_json_sort_members_sort_items.induct) (simp_all add: wide_members_sort)

lemma render_wide:
  "length (render v) \<le> wide v" "length (render_members kvs) \<le> wide_members kvs" "length (render_items js) \<le> wide_items js"
  by (induction v and kvs and js rule: render_render_members_render_items.induct) auto

section \<open>Values within the bounds\<close>

definition fits :: "(string \<Rightarrow> string) \<Rightarrow> nat \<Rightarrow> nat \<Rightarrow> json \<Rightarrow> bool" where
  "fits nfc depth n v \<longleftrightarrow> shape_ok nfc depth v \<and> printable v \<and> wide v \<le> n"

lemma fits_identifier:
  "fits nfc 1 MAX_RECORD_BYTES v \<Longrightarrow> mk_identifier nfc prefix v = Inr (prefix @ ''_'' @ sha256_hex (render (sort_json v)))"
  using render_wide(1) [of "sort_json v"]
  by (intro mk_identifier_eval) (simp_all add: fits_def validate_shape_None wide_sort del: validate_shape.simps)

lemma fits_bool: "depth \<le> MAX_DEPTH \<Longrightarrow> 5 \<le> n \<Longrightarrow> fits nfc depth n (JBool b)"
  by (simp add: fits_def)

lemma fits_int: "depth \<le> MAX_DEPTH \<Longrightarrow> 41 \<le> n \<Longrightarrow> \<bar>i\<bar> \<le> MAX_I31 \<Longrightarrow> fits nfc depth n (JInt i)"
proof -
  assume i: "depth \<le> MAX_DEPTH" "41 \<le> n" "\<bar>i\<bar> \<le> MAX_I31"
  then have "\<bar>i\<bar> < 2 ^ 128" by (simp add: MAX_I31_def)
  then have len: "length (show_int i) \<le> 41" by (rule show_int_length)
  moreover have "length (show_nat (nat \<bar>i\<bar>)) \<le> length (show_int i)" by (auto simp: show_int_def)
  ultimately show ?thesis using i by (simp add: fits_def)
qed

lemma fits_string: "depth \<le> MAX_DEPTH \<Longrightarrow> general_ok nfc s \<Longrightarrow> 6 * length s + 2 \<le> n \<Longrightarrow> fits nfc depth n (JStr s)"
  using length_quote [of s] by (simp add: fits_def)

lemma quote_unescaped: "list_all (\<lambda>c. escape_char c = [c]) s \<Longrightarrow> length (quote s) = length s + 2"
proof -
  assume "list_all (\<lambda>c. escape_char c = [c]) s"
  then have "concat (map escape_char s) = s" by (induction s) auto
  then show ?thesis by (simp add: quote_def)
qed

lemma decimal_unescaped: "is_signed_decimal s \<Longrightarrow> list_all (\<lambda>c. escape_char c = [c]) s"
proof -
  have digit: "escape_char c = [c]" if "is_digit c" for c
    using that by (auto simp: escape_char_def is_digit_def code_def)
  have "is_unsigned_decimal s \<Longrightarrow> list_all is_digit s" for s
    by (cases s) (auto simp: is_digit_def code_def)
  then have unsigned: "is_unsigned_decimal s \<Longrightarrow> list_all (\<lambda>c. escape_char c = [c]) s" for s
    using digit by (fastforce simp: list_all_iff)
  have minus: "escape_char (CHR ''-'') = [CHR ''-'']" by (simp add: escape_char_def code_def)
  assume "is_signed_decimal s"
  then show ?thesis using unsigned [of s] unsigned [of "tl s"] minus by (cases s) (auto split: if_splits simp del: is_unsigned_decimal.simps)
qed

lemma fits_decimal:
  assumes "depth \<le> MAX_DEPTH" "4098 \<le> n"
    and "general_ok nfc s \<and> (if is_signed then is_signed_decimal s else is_unsigned_decimal s) \<and> lo \<le> int_of_decimal s \<and> int_of_decimal s \<le> hi"
  shows "fits nfc depth n (JStr s)"
proof -
  have "is_signed_decimal s" using assms(3) is_signed_decimal_unsigned by (auto split: if_splits)
  then have "length (quote s) = length s + 2" by (intro quote_unescaped decimal_unescaped)
  then show ?thesis using assms by (simp add: fits_def general_ok_def MAX_GENERAL_STRING_BYTES_def)
qed

lemma fits_object:
  assumes nfc: "nfc_ascii nfc" and d: "depth \<le> MAX_DEPTH"
    and "list_all2 (\<lambda>(k, v) m. list_all is_ascii k \<and> length k \<le> 40 \<and> fits nfc (Suc depth) m v) kvs ms"
    and "length kvs \<le> MAX_OBJECT_MEMBERS" and "2 + sum_list ms + length ms * 244 \<le> n"
  shows "fits nfc depth n (JObj kvs)"
proof -
  have key: "general_ok nfc k" if "list_all is_ascii k" "length k \<le> 40" for k
    using that by (intro general_ok_ascii [OF nfc]) (simp_all add: MAX_GENERAL_STRING_BYTES_def)
  have "shape_members nfc depth kvs \<and> printable_members kvs \<and> wide_members kvs \<le> sum_list ms + length ms * 244"
    using assms(3)
  proof (induction kvs ms rule: list_all2_induct)
    case (Cons kv kvs m ms)
    obtain k v where kv: "kv = (k, v)" by (cases kv)
    have "length (quote k) \<le> 242" using Cons.hyps(1) length_quote [of k] by (simp add: kv)
    then show ?case using Cons key by (auto simp: kv fits_def)
  qed simp
  then show ?thesis using assms(2,4,5) by (simp add: fits_def)
qed

lemma typed_id_length: "is_typed_id prefix s \<Longrightarrow> length s \<le> length prefix + 65"
  by (auto simp: is_typed_id_def is_sha256_def)

lemma fits_token:
  "depth \<le> MAX_DEPTH \<Longrightarrow> 770 \<le> n \<Longrightarrow> token_check nfc s path allowed = None \<Longrightarrow> fits nfc depth n (JStr s)"
  by (rule fits_string) (auto simp: token_check_None MAX_TOKEN_BYTES_def)

lemma fits_time_base:
  assumes "nfc_ascii nfc" and "time_base_post nfc v = None" and "Suc depth \<le> MAX_DEPTH"
  shows "fits nfc depth 8686 (time_base_to_mapping v)"
  using assms unfolding time_base_to_mapping_def time_base_post_def run_checks_ConsN decimal_check_None
  by (intro fits_object [where ms = "[4098, 4098]"])
    (auto simp: char_evaluation MAX_OBJECT_MEMBERS_def intro: fits_decimal)

lemma fits_rational:
  assumes "nfc_ascii nfc" and "rational_post nfc v = None" and "Suc depth \<le> MAX_DEPTH"
  shows "fits nfc depth 8686 (rational_to_mapping v)"
  using assms unfolding rational_to_mapping_def rational_post_def run_checks_ConsN decimal_check_None
  by (intro fits_object [where ms = "[4098, 4098]"])
    (auto simp: char_evaluation MAX_OBJECT_MEMBERS_def intro: fits_decimal)

lemma fits_sha256: "depth \<le> MAX_DEPTH \<Longrightarrow> sha256_check nfc s path = None \<Longrightarrow> fits nfc depth 386 (JStr s)"
  by (rule fits_string) (auto simp: sha256_check_None is_sha256_def)

lemma fits_producer:
  assumes "nfc_ascii nfc" and "producer_post nfc v = None" and "Suc depth \<le> MAX_DEPTH"
  shows "fits nfc depth 3044 (producer_to_mapping v)"
  using assms unfolding producer_to_mapping_def producer_post_def run_checks_ConsN
  by (intro fits_object [where ms = "[386, 770, 770]"])
    (auto simp: char_evaluation MAX_OBJECT_MEMBERS_def intro: fits_token fits_sha256)

lemma fits_media_time:
  assumes nfc: "nfc_ascii nfc" and v: "media_time_valid nfc v" and d: "depth + 3 \<le> MAX_DEPTH"
  shows "fits nfc depth 19000 (media_time_to_mapping v)"
proof -
  have parts: "token_check nfc (mt_basis v) ''media_time.basis'' (Some [''measured'', ''estimated'']) = None"
    "decimal_check nfc (mt_value v) True MIN_I64 MAX_I64 ''media_time.value'' = None" "time_base_post nfc (mt_time_base v) = None"
    using v by (auto simp: media_time_valid_def media_time_post_def run_checks_ConsN)
  have members: "fits nfc (Suc depth) 770 (JStr (mt_basis v))" "fits nfc (Suc depth) 8686 (time_base_to_mapping (mt_time_base v))"
    "fits nfc (Suc depth) 4098 (JStr (mt_value v))"
    using d fits_decimal [of "Suc depth" 4098 nfc "mt_value v" True MIN_I64 MAX_I64] parts(2) [unfolded decimal_check_None]
    by (auto intro: fits_token [OF _ _ parts(1)] fits_time_base [OF nfc parts(3)])
  show ?thesis
  proof (cases "mt_basis v = ''estimated''")
    case True
    then obtain m p where e: "mt_estimate_method v = Some m" "mt_estimate_producer v = Some p"
      "token_check nfc m ''media_time.estimate.method'' (Some [''previous_pts_plus_duration'']) = None"
      using v by (auto simp: media_time_valid_def media_time_post_def run_checks_ConsN split: option.splits)
    have "producer_post nfc p = None" using v by (simp add: media_time_valid_def e)
    note estimate = fits_token [OF _ _ e(3), of "Suc (Suc depth)" 770] fits_producer [OF nfc this, of "Suc (Suc depth)"]
    have "fits nfc (Suc depth) 4304 (JObj [(''method'', JStr m), (''producer'', producer_to_mapping p)])"
      using estimate d by (intro fits_object [where ms = "[770, 3044]", OF nfc]) (simp_all add: char_evaluation MAX_OBJECT_MEMBERS_def)
    with members d True show ?thesis
      unfolding media_time_to_mapping_def e
      by (intro fits_object [where ms = "[770, 8686, 4098, 4304]", OF nfc]) (simp_all add: char_evaluation MAX_OBJECT_MEMBERS_def)
  next
    case False
    with members d show ?thesis
      unfolding media_time_to_mapping_def
      by (intro fits_object [where ms = "[770, 8686, 4098]", OF nfc]) (simp_all add: char_evaluation MAX_OBJECT_MEMBERS_def)
  qed
qed

section \<open>Geometry and observations\<close>

lemma fits_ints:
  assumes "Suc depth \<le> MAX_DEPTH" and "list_all (\<lambda>i. \<bar>i\<bar> \<le> MAX_I31) is" and "length is \<le> MAX_ARRAY_ITEMS"
    and "2 + length is * 42 \<le> n"
  shows "fits nfc depth n (JArr (map JInt is))"
proof -
  have "shape_items nfc depth (map JInt is) \<and> printable_items (map JInt is) \<and> wide_items (map JInt is) \<le> length is * 42"
    using assms(2)
  proof (induction "is")
    case (Cons i "is")
    with assms(1) fits_int [of "Suc depth" 41 i nfc] show ?case by (auto simp: fits_def)
  qed simp
  then show ?thesis using assms by (simp add: fits_def)
qed

lemma fits_box:
  assumes "Suc depth \<le> MAX_DEPTH" and "box_ok b width height"
  shows "fits nfc depth 170 (box_to_json b)"
proof -
  obtain x0 y0 x1 y1 where b: "b = (x0, y0, x1, y1)" by (cases b)
  show ?thesis
    using fits_ints [of depth "[x0, y0, x1, y1]" 170] assms by (simp add: b box_ok_def MAX_ARRAY_ITEMS_def)
qed

lemma fits_coefficients:
  assumes "nfc_ascii nfc" and "affine_coefficients_valid nfc k" and "Suc (Suc depth) \<le> MAX_DEPTH"
  shows "fits nfc depth 53582 (affine_coefficients_to_mapping k)"
  using assms unfolding affine_coefficients_to_mapping_def affine_coefficients_valid_def
  by (intro fits_object [where ms = "[8686, 8686, 8686, 8686, 8686, 8686]"])
    (auto simp: char_evaluation MAX_OBJECT_MEMBERS_def intro: fits_rational)

lemma fits_space:
  assumes "nfc_ascii nfc" and "producer_space_post v = None" and "Suc (Suc depth) \<le> MAX_DEPTH"
  shows "fits nfc depth 986 (producer_space_to_mapping v)"
  using assms unfolding producer_space_to_mapping_def producer_space_post_def run_checks_ConsN bounded_int_check_None
    validate_box_None
  by (intro fits_object [where ms = "[170, 41, 41]"])
    (auto simp: char_evaluation MAX_OBJECT_MEMBERS_def intro: fits_box fits_int)

lemma fits_literal:
  "nfc_ascii nfc \<Longrightarrow> depth \<le> MAX_DEPTH \<Longrightarrow> list_all is_ascii s \<Longrightarrow> length s \<le> 128 \<Longrightarrow> fits nfc depth 770 (JStr s)"
  by (intro fits_string general_ok_ascii) (simp_all add: MAX_GENERAL_STRING_BYTES_def)

lemma fits_geometry:
  assumes nfc: "nfc_ascii nfc" and v: "geometry_valid nfc v" and d: "depth + 4 \<le> MAX_DEPTH"
  shows "fits nfc depth 60000 (geometry_to_mapping v)"
proof -
  have checks: "token_check nfc (ge_space v) ''geometry.space'' (Some [''source_pixels'']) = None"
    "1 \<le> ge_source_width v" "ge_source_width v \<le> MAX_I31" "1 \<le> ge_source_height v" "ge_source_height v \<le> MAX_I31"
    "box_ok (ge_box_xyxy v) (ge_source_width v) (ge_source_height v)"
    "token_check nfc (ge_measurement v) ''geometry.measurement'' (Some measurements) = None"
    using v unfolding geometry_valid_def geometry_post_def run_checks_ConsN bounded_int_check_None validate_box_None by blast+
  then have members: "fits nfc (Suc depth) 170 (box_to_json (ge_box_xyxy v))" "fits nfc (Suc depth) 770 (JStr (ge_measurement v))"
    "fits nfc (Suc depth) 41 (JInt (ge_source_height v))" "fits nfc (Suc depth) 41 (JInt (ge_source_width v))"
    "fits nfc (Suc depth) 770 (JStr (ge_space v))"
    using d by (auto intro: fits_token fits_box fits_int)
  show ?thesis
  proof (cases "ge_transform_kind v = ''identity''")
    case True
    have "fits nfc (Suc depth) 1016 (JObj [(''kind'', JStr ''identity'')])"
      using d by (intro fits_object [where ms = "[770]", OF nfc])
        (auto simp: char_evaluation MAX_OBJECT_MEMBERS_def intro!: fits_literal [OF nfc])
    with members True d show ?thesis
      unfolding geometry_to_mapping_def
      by (intro fits_object [where ms = "[170, 770, 41, 41, 770, 1016]", OF nfc]) (simp_all add: char_evaluation MAX_OBJECT_MEMBERS_def)
  next
    case False
    then obtain space k where sk: "ge_producer_space v = Some space" "ge_coefficients v = Some k"
      using v by (auto simp: geometry_valid_def geometry_post_def run_checks_ConsN split: option.splits)
    have valid: "producer_space_post space = None" "affine_coefficients_valid nfc k"
      using v by (simp_all add: geometry_valid_def sk)
    have literal: "fits nfc (Suc (Suc depth)) 770 (JStr ''affine_rational'')"
      using d by (intro fits_literal [OF nfc]) (simp_all add: char_evaluation)
    have "fits nfc (Suc depth) 54842 (JObj [(''coefficients'', affine_coefficients_to_mapping k), (''kind'', JStr ''affine_rational'')])"
      using d literal fits_coefficients [OF nfc valid(2), of "Suc (Suc depth)"]
      by (intro fits_object [where ms = "[53582, 770]", OF nfc]) (simp_all add: char_evaluation MAX_OBJECT_MEMBERS_def)
    with members False d fits_space [OF nfc valid(1), of "Suc depth"] show ?thesis
      unfolding geometry_to_mapping_def sk
      by (intro fits_object [where ms = "[170, 770, 41, 41, 770, 986, 54842]", OF nfc])
        (simp_all add: char_evaluation MAX_OBJECT_MEMBERS_def)
  qed
qed

lemma fits_observation:
  assumes nfc: "nfc_ascii nfc" and ids: "is_typed_id ''src'' source_id" "general_ok nfc source_id" "is_typed_id ''frm'' frame_id"
      "general_ok nfc frame_id" and i: "0 \<le> i" "i \<le> MAX_I31"
    and pts: "media_time_valid nfc pts" and g: "geometry_valid nfc g"
    and category: "is_category category" "general_ok nfc category"
    and confidence: "0 \<le> confidence" "confidence \<le> MAX_CONFIDENCE_MILLIONTHS" and p: "producer_post nfc p = None"
  shows "fits nfc 1 MAX_RECORD_BYTES
    (JObj (observation_identity_members source_id frame_id i pts g category confidence p))"
proof -
  have parts: "fits nfc 2 770 (JStr category)" "fits nfc 2 410 (JStr frame_id)" "fits nfc 2 410 (JStr source_id)"
    "fits nfc 2 41 (JInt confidence)" "fits nfc 2 41 (JInt 1)" "fits nfc 2 41 (JInt i)"
    using ids i category confidence typed_id_length [OF ids(1)] typed_id_length [OF ids(3)]
    by (auto intro!: fits_string fits_int simp: MAX_DEPTH_def MAX_I31_def MAX_CONFIDENCE_MILLIONTHS_def)
      (cases category; simp)
  show ?thesis
    unfolding observation_identity_members_def
    using parts fits_geometry [OF nfc g, of 2] fits_producer [OF nfc p, of 2] fits_media_time [OF nfc pts, of 2]
    by (intro fits_object [where ms = "[770, 41, 410, 60000, 41, 3044, 19000, 410, 41]", OF nfc])
      (simp_all add: numeral_2_eq_2 char_evaluation MAX_OBJECT_MEMBERS_def MAX_DEPTH_def MAX_RECORD_BYTES_def)
qed

lemma observation_create_total:
  assumes nfc: "nfc_ascii nfc" and ids: "is_typed_id ''src'' source_id" "general_ok nfc source_id" "is_typed_id ''frm'' frame_id"
      "general_ok nfc frame_id" and i: "0 \<le> i" "i \<le> MAX_I31"
    and pts: "media_time_valid nfc pts" and g: "geometry_valid nfc g"
    and category: "is_category category" "general_ok nfc category"
    and confidence: "0 \<le> confidence" "confidence \<le> MAX_CONFIDENCE_MILLIONTHS" and p: "producer_post nfc p = None"
  shows "\<exists>ob. observation_create nfc source_id frame_id i pts g category confidence p = Inr ob"
proof -
  define j where "j = JObj (observation_identity_members source_id frame_id i pts g category confidence p)"
  define oid where "oid = ''obs'' @ ''_'' @ sha256_hex (render (sort_json j))"
  have ident: "mk_identifier nfc ''obs'' j = Inr oid"
    unfolding oid_def j_def by (rule fits_identifier [OF fits_observation [OF assms]])
  have "general_ok nfc oid"
    unfolding oid_def by (rule general_ok_hash_id [OF nfc]) (simp_all add: char_evaluation)
  moreover have "is_typed_id ''obs'' oid" unfolding oid_def by (rule is_typed_id_hash)
  ultimately have oid: "general_ok nfc oid" "is_typed_id ''obs'' oid" by blast+
  define v where "v = \<lparr>ob_observation_id = oid, ob_source_id = source_id, ob_frame_id = frame_id, ob_stream_index = i,
    ob_pts = pts, ob_geometry = g, ob_category = category, ob_confidence_millionths = confidence, ob_producer = p\<rparr>"
  have "observation_projection v = observation_identity_members source_id frame_id i pts g category confidence p"
    by (simp add: v_def observation_projection_def)
  then have post: "observation_post nfc v = None"
    using assms oid ident by (simp add: observation_post_def outcome v_def flip: j_def del: is_category.simps)
  have "run_checks
       [general_string_check nfc source_id ''source_id'', general_string_check nfc frame_id ''frame_id'',
        general_string_check nfc category ''category'', category_check nfc category ''category'',
        plain_media_time nfc pts ''pts'', plain_geometry nfc g ''geometry'', plain_producer nfc p ''producer''] = None"
    using assms by (simp add: outcome del: is_category.simps)
  then show ?thesis
    unfolding observation_create_def j_def [symmetric] ident by (simp add: checked_def Let_def post flip: v_def)
qed

end
