(* ===== verification/Detector_Runs.thy ===== *)
theory Detector_Runs
  imports Detector_Facts Record_Sizes
begin

text \<open>
  Whole calls of the detector: no detection of a worker that answered for the requested frames is lost,
  and the answers the decoder accepts are answers for the requested frames.
\<close>

section \<open>Every detection becomes an observation\<close>

lemma detector_producer_valid: "nfc_ascii nfc \<Longrightarrow> producer_post nfc detector_producer = None"
  by (simp add: producer_post_def detector_producer_def DETECTOR_CONFIGURATION_SHA256_def sha256_check_None
      general_ok_ascii is_sha256_ascii token_check_literal char_evaluation MAX_TOKEN_BYTES_def MAX_GENERAL_STRING_BYTES_def)

lemma transform_created:
  assumes "source_stream_valid nfc stream" and "ss_rotation_degrees stream mod 90 = 0"
  shows "\<exists>transform. detector_transform_create (ss_width stream) (ss_height stream) DETECTOR_COORDINATE_SCALE
    DETECTOR_COORDINATE_SCALE (ss_rotation_degrees stream) None = Inr transform"
  using assms
  by (simp add: detector_transform_create_def source_stream_valid_def source_stream_post_def run_checks_ConsN
      bounded_int_check_None dimension_check_None DETECTOR_COORDINATE_SCALE_def MAX_I31_def checked_Inr_iff)

lemma worker_detection_box:
  assumes "worker_detection_post d = None"
  shows "box_within (wd_box d) (0, 0, DETECTOR_COORDINATE_SCALE, DETECTOR_COORDINATE_SCALE)"
    "0 \<le> wd_confidence_millionths d" "wd_confidence_millionths d \<le> MAX_CONFIDENCE_MILLIONTHS"
  using assms by (auto simp: worker_detection_post_def MAX_CONFIDENCE_MILLIONTHS_def
      DETECTOR_CONFIDENCE_FLOOR_MILLIONTHS_def split: prod.splits)

lemma detection_observation_total:
  assumes nfc: "nfc_ascii nfc" and frame: "frame_valid nfc frame" "fr_source_id frame = so_source_id src"
    and d: "worker_detection_post d = None"
    and t: "detector_transform_create sw sh DETECTOR_COORDINATE_SCALE DETECTOR_COORDINATE_SCALE rotation None = Inr t"
  shows "\<exists>ob. detection_observation nfc src t frame d = Inr ob"
proof -
  have m: "''inferred'' \<in> set measurements" by (simp add: measurements_def)
  from map_box_inside [OF nfc t worker_detection_box(1) [OF d] m] obtain g
    where g: "map_box nfc t (wd_box d) ''inferred'' = Inr g" by blast
  have valid: "geometry_valid nfc g" by (rule map_box_Inr [OF nfc detector_transform_create_ok [OF t] g])
  have pts: "media_time_valid nfc (fr_pts frame)" "frame_post nfc frame = None" using frame by (simp_all add: frame_valid_def)
  have ids: "is_typed_id ''src'' (fr_source_id frame)" "general_ok nfc (fr_source_id frame)" "is_typed_id ''frm'' (fr_frame_id frame)"
    "general_ok nfc (fr_frame_id frame)" "0 \<le> fr_stream_index frame" "fr_stream_index frame \<le> MAX_I31"
    using pts(2) unfolding frame_post_def run_checks_ConsN typed_id_check_None bounded_int_check_None by blast+
  have category: "is_category ''vehicle''" "general_ok nfc ''vehicle''"
    by (simp_all add: general_ok_ascii [OF nfc] char_evaluation MAX_GENERAL_STRING_BYTES_def)
  from observation_create_total [OF nfc ids pts(1) valid category worker_detection_box(2,3) [OF d]
      detector_producer_valid [OF nfc]]
  obtain ob where ob: "observation_create nfc (fr_source_id frame) (fr_frame_id frame) (fr_stream_index frame)
      (fr_pts frame) g ''vehicle'' (wd_confidence_millionths d) detector_producer = Inr ob" ..
  have "rebuilt_media_time nfc (fr_pts frame) = Inr (fr_pts frame)"
    using pts(1) by (auto simp: rebuilt_media_time_def media_time_valid_def checked_def run_checks.simps(2) split: option.splits)
  with g ob frame(2) show ?thesis by (simp add: detection_observation_def)
qed

lemma frame_observations_total:
  assumes nfc: "nfc_ascii nfc" and frame: "frame_valid nfc frame" "fr_source_id frame = so_source_id src"
    and stream: "source_stream_valid nfc stream" "ss_rotation_degrees stream mod 90 = 0"
    and v: "worker_frame_post nfc v = None"
  shows "frame_observations nfc src stream frame v = Inl decode_failed \<and> \<not> frame_matches frame v \<or>
    (\<exists>obs. frame_observations nfc src stream frame v = Inr obs \<and> length obs = length (wf_detections v))"
proof (cases "frame_matches frame v")
  case True
  obtain t where t: "detector_transform_create (ss_width stream) (ss_height stream) DETECTOR_COORDINATE_SCALE
    DETECTOR_COORDINATE_SCALE (ss_rotation_degrees stream) None = Inr t" using transform_created [OF stream] by blast
  have "\<forall>d \<in> set (wf_detections v). \<exists>ob. detection_observation nfc src t frame d = Inr ob"
    using detection_observation_total [OF nfc frame worker_frame_detections [OF v] t] by blast
  then obtain f where "\<forall>d \<in> set (wf_detections v). detection_observation nfc src t frame d = Inr (f d)" by metis
  then have "mapE (detection_observation nfc src t frame) (wf_detections v) = Inr (map f (wf_detections v))"
    by (intro mapE_cong_Inr) blast
  with True t show ?thesis by (simp add: frame_observations_def checked_def)
qed (simp add: frame_observations_def checked_def)

section \<open>Answers that fit the request\<close>

definition one_stream :: "frame_ref list \<Rightarrow> bool" where
  "one_stream frames \<longleftrightarrow> frames \<noteq> [] \<and> (\<forall>f \<in> set frames. fr_stream_index f = fr_stream_index (hd frames))"

lemma one_stream_iff:
  assumes "frames \<noteq> []"
  shows "length (remdups (map fr_stream_index frames)) = 1 \<longleftrightarrow> one_stream frames"
proof -
  let ?I = "fr_stream_index ` set frames"
  have "fr_stream_index (hd frames) \<in> ?I" using assms by simp
  then have "?I = {i} \<Longrightarrow> ?I = {fr_stream_index (hd frames)}" for i by simp
  then have "(\<exists>i. ?I = {i}) \<longleftrightarrow> ?I = {fr_stream_index (hd frames)}" by blast
  then have "card ?I = 1 \<longleftrightarrow> ?I = {fr_stream_index (hd frames)}" by (simp add: card_1_singleton_iff)
  also have "\<dots> \<longleftrightarrow> (\<forall>f \<in> set frames. fr_stream_index f = fr_stream_index (hd frames))"
    using \<open>fr_stream_index (hd frames) \<in> ?I\<close> by blast
  also have "\<dots> \<longleftrightarrow> one_stream frames" using assms by (simp add: one_stream_def)
  finally show ?thesis by (simp add: length_remdups_card_conv)
qed

definition duplicate_ids :: exn where
  "duplicate_ids = ValueError ''observation identifiers must be unique''"

lemma detection_result_create_complete:
  assumes "\<And>ob. ob \<in> set obs \<Longrightarrow> observation_post nfc ob = None" and "length obs \<le> MAX_PERCEPTION_OBSERVATIONS"
  shows "detection_result_create nfc COMPLETE obs None =
    (if distinct (map ob_observation_id obs) then Inr \<lparr>dr_state = COMPLETE, dr_observations = obs, dr_reason = None\<rparr>
     else Inl duplicate_ids)"
proof -
  have "run_checks (map (observation_post nfc) obs) = None" using assms(1) by (auto simp: run_checks_None)
  then show ?thesis using assms(2)
    by (simp add: detection_result_create_def detection_result_post_def run_checks.simps(2) require_def checked_def
        validate_result_def duplicate_ids_def)
qed

lemma concat_groups:
  assumes "list_all2 (\<lambda>x ys. \<forall>y \<in> set ys. P y) xs groups"
  shows "\<forall>y \<in> set (concat groups). P y"
  using assms by (induction rule: list_all2_induct) auto

lemma mapE_Inl: "mapE f xs = Inl e \<Longrightarrow> \<exists>x \<in> set xs. f x = Inl e"
  by (induction xs) (auto simp: bindE_Inl_iff)

lemma detector_provenance_cases:
  assumes "perception_frames nfc src frames port operation = Inr m"
  shows "detector_provenance nfc src =
    except_value (mk_provenance (fp_digest (so_fingerprint src)) (int_of_decimal (fp_bytes (so_fingerprint src))))
      (detector_error INVALID_REQUEST)"
  using assms by (auto simp: detector_provenance_def perception_frames_def Let_def checked_def run_checks.simps(2) require_def
      split: option.splits if_splits)

lemma mk_provenance_error: "mk_provenance digest n = Inl e \<Longrightarrow> is_value_error e"
  by (auto simp: mk_provenance_def Let_def checked_def provenance_post_def require_def split: if_splits)

section \<open>The outcomes of an answered request\<close>

definition answered :: "(string \<Rightarrow> string) \<Rightarrow> source \<Rightarrow> frame_ref list \<Rightarrow> worker_result \<Rightarrow> bool" where
  "answered nfc src frames output \<longleftrightarrow>
     nfc_ascii nfc \<and> perception_frames nfc src frames DETECTOR ''detect'' = Inr (frames_by_id frames) \<and>
     (\<forall>f \<in> set frames. frame_valid nfc f) \<and> one_stream frames \<and> worker_result_post nfc output = None"

definition stream_of :: "source \<Rightarrow> frame_ref list \<Rightarrow> source_stream" where
  "stream_of src frames = the (stream_by_index src (fr_stream_index (hd frames)))"

definition frame_of :: "worker_result \<Rightarrow> frame_ref \<Rightarrow> worker_frame" where
  "frame_of output frame = the (output_by_index output (fr_decode_index frame))"

lemma answered_stream:
  assumes "answered nfc src frames output" and "f \<in> set frames"
  shows "stream_by_index src (fr_stream_index f) = Some (stream_of src frames)" "source_stream_valid nfc (stream_of src frames)"
proof -
  have accepted: "perception_frames nfc src frames DETECTOR ''detect'' = Inr (frames_by_id frames)"
    and single: "one_stream frames" using assms(1) by (simp_all add: answered_def)
  have "hd frames \<in> set frames" using single by (simp add: one_stream_def)
  from perception_frames_InrD(6) [OF accepted this] obtain s where s: "stream_by_index src (fr_stream_index (hd frames)) = Some s"
    by blast
  then have "stream_of src frames = s" by (simp add: stream_of_def)
  with s have stream: "stream_by_index src (fr_stream_index (hd frames)) = Some (stream_of src frames)" by simp
  moreover have "fr_stream_index f = fr_stream_index (hd frames)"
    using single assms(2) unfolding one_stream_def by blast
  ultimately show "stream_by_index src (fr_stream_index f) = Some (stream_of src frames)" by simp
  show "source_stream_valid nfc (stream_of src frames)"
    by (rule plain_stream [OF perception_frames_InrD(1) [OF accepted] stream_by_indexD(1) [OF stream]])
qed

lemma rotation_fits:
  assumes "worker_result_post nfc output = None" and "output_fits stream frames output"
  shows "ss_rotation_degrees stream mod 90 = 0"
proof -
  have divides: "(90::int) dvd 360" by (rule dvdI [of _ _ 4]) simp
  have rotation: "wr_rotation_degrees output mod 360 = ss_rotation_degrees stream mod 360"
    using assms(2) by (simp add: output_fits_def)
  have "ss_rotation_degrees stream mod 90 = ss_rotation_degrees stream mod 360 mod 90"
    by (rule mod_mod_cancel [OF divides, symmetric])
  also have "\<dots> = wr_rotation_degrees output mod 360 mod 90" by (simp only: rotation)
  also have "\<dots> = wr_rotation_degrees output mod 90" by (rule mod_mod_cancel [OF divides])
  also have "\<dots> = 0" by (rule worker_result_postD(2) [OF assms(1)])
  finally show ?thesis .
qed

lemma answered_frame:
  assumes "answered nfc src frames output" and "output_fits (stream_of src frames) frames output" and "f \<in> set frames"
  shows "frame_of output f \<in> set (wr_frames output)" "wf_decode_index (frame_of output f) = fr_decode_index f"
    "worker_frame_post nfc (frame_of output f) = None"
proof -
  have "fr_decode_index f \<in> wf_decode_index ` set (wr_frames output)" using assms(2,3) by (auto simp: output_fits_def)
  then have "output_by_index output (fr_decode_index f) = Some (frame_of output f)"
    using output_by_index_found by (fastforce simp: frame_of_def)
  from output_by_indexD [OF this] worker_result_postD(3) [of nfc "output"] assms(1)
  show "frame_of output f \<in> set (wr_frames output)" "wf_decode_index (frame_of output f) = fr_decode_index f"
    "worker_frame_post nfc (frame_of output f) = None" by (auto simp: answered_def)
qed

lemma answered_group:
  assumes "answered nfc src frames output" and "output_fits (stream_of src frames) frames output" and "f \<in> set frames"
  shows "frame_observations nfc src (stream_of src frames) f (frame_of output f) = Inl decode_failed \<and>
      \<not> frame_matches f (frame_of output f) \<or>
    (\<exists>obs. frame_observations nfc src (stream_of src frames) f (frame_of output f) = Inr obs \<and>
      length obs = length (wf_detections (frame_of output f)))"
proof -
  have facts: "nfc_ascii nfc" "frame_valid nfc f" "fr_source_id f = so_source_id src"
    using assms(1,3) perception_frames_InrD(5) by (auto simp: answered_def)
  have "ss_rotation_degrees (stream_of src frames) mod 90 = 0"
    using rotation_fits [OF _ assms(2)] assms(1) by (auto simp: answered_def)
  from frame_observations_total [OF facts answered_stream(2) [OF assms(1,3)] this answered_frame(3) [OF assms]]
  show ?thesis .
qed

text \<open>the observations of the answer, frame by frame\<close>

definition groups_of ::
  "(string \<Rightarrow> string) \<Rightarrow> source \<Rightarrow> frame_ref list \<Rightarrow> worker_result \<Rightarrow> observation list list \<Rightarrow> bool" where
  "groups_of nfc src frames output groups \<longleftrightarrow>
     list_all2 (\<lambda>f obs. \<exists>v \<in> set (wr_frames output). wf_decode_index v = fr_decode_index f \<and> frame_matches f v \<and>
       list_all2 (observes nfc src (stream_of src frames) f) (wf_detections v) obs) frames groups"

lemma groups_of_answer:
  assumes "answered nfc src frames output" and "output_fits (stream_of src frames) frames output"
    and "mapE (\<lambda>f. frame_observations nfc src (stream_of src frames) f (frame_of output f)) frames = Inr groups"
  shows "groups_of nfc src frames output groups"
proof -
  from assms(3) have all: "list_all2 (\<lambda>f obs. frame_observations nfc src (stream_of src frames) f (frame_of output f) = Inr obs) frames groups"
    by (simp add: mapE_Inr_iff)
  show ?thesis unfolding groups_of_def
  proof (rule list.rel_mono_strong [OF all])
    fix f obs assume f: "f \<in> set frames"
      and obs: "frame_observations nfc src (stream_of src frames) f (frame_of output f) = Inr obs"
    from frame_observations_Inr [OF obs] answered_frame [OF assms(1,2) f]
    show "\<exists>v \<in> set (wr_frames output). wf_decode_index v = fr_decode_index f \<and> frame_matches f v \<and>
       list_all2 (observes nfc src (stream_of src frames) f) (wf_detections v) obs" by blast
  qed
qed

lemma groups_observations:
  assumes "groups_of nfc src frames output groups" and "ob \<in> set (concat groups)"
  shows "\<exists>f d. f \<in> set frames \<and> observes nfc src (stream_of src frames) f d ob"
proof -
  from assms(2) obtain obs where obs: "obs \<in> set groups" "ob \<in> set obs" by auto
  then obtain i where i: "i < length groups" "groups ! i = obs" by (auto simp: in_set_conv_nth)
  note all = assms(1) [unfolded groups_of_def]
  have len: "i < length frames" using list_all2_lengthD [OF all] i(1) by simp
  with list_all2_nthD [OF all this] obtain v :: worker_frame where v: "i < length frames"
    "list_all2 (observes nfc src (stream_of src frames) (frames ! i)) (wf_detections v) obs"
    unfolding i(2) by blast
  from obs(2) obtain j where "j < length obs" "obs ! j = ob" by (auto simp: in_set_conv_nth)
  with v have "observes nfc src (stream_of src frames) (frames ! i) (wf_detections v ! j) ob"
    by (auto simp: list_all2_conv_all_nth)
  with v(1) show ?thesis using nth_mem by blast
qed

lemma observations_of_output_outcome:
  assumes "answered nfc src frames output"
  shows "(\<exists>ec. observations_of_output nfc src frames output = Inl (detector_error ec)) \<or>
    (\<exists>groups. groups_of nfc src frames output groups \<and> observations_of_output nfc src frames output =
       (if distinct (map ob_observation_id (concat groups))
        then Inr \<lparr>dr_state = COMPLETE, dr_observations = concat groups, dr_reason = None\<rparr> else Inl duplicate_ids))"
proof -
  let ?stream = "stream_of src frames"
  let ?group = "\<lambda>f. frame_observations nfc src ?stream f (frame_of output f)"
  have "perception_frames nfc src frames DETECTOR ''detect'' = Inr (frames_by_id frames)"
    using assms by (simp add: answered_def)
  from detector_provenance_cases [OF this] have "detector_provenance nfc src = Inl e \<Longrightarrow> e = detector_error INVALID_REQUEST" for e
    using mk_provenance_error by (auto simp: except_value_def split: sum.splits if_splits)
  then consider (wrong) "detector_provenance nfc src = Inl (detector_error INVALID_REQUEST)"
    | (right) provenance where "detector_provenance nfc src = Inr provenance" by (cases "detector_provenance nfc src") auto
  then show ?thesis
  proof cases
    case wrong
    then have "observations_of_output nfc src frames output = Inl (detector_error INVALID_REQUEST)"
      by (simp add: observations_of_output_def)
    then show ?thesis by blast
  next
    case right
    show ?thesis
    proof (cases "wr_provenance output = provenance \<and> output_fits ?stream frames output")
      case False
      with right show ?thesis by (auto simp: observations_of_output_def stream_of_def checked_def require_def)
    next
      case fits: True
      then have run: "observations_of_output nfc src frames output = bindE (mapE ?group frames) (\<lambda>groups.
          if MAX_PERCEPTION_OBSERVATIONS < length (concat groups) then Inl (detector_error LIMIT_EXCEEDED)
          else detection_result_create nfc COMPLETE (concat groups) None)"
        using right by (simp add: observations_of_output_def stream_of_def frame_of_def checked_def Let_def)
      show ?thesis
      proof (cases "mapE ?group frames")
        case (Inl e)
        with answered_group [OF assms] fits mapE_Inl [OF Inl] have "e = decode_failed" by fastforce
        with Inl have "observations_of_output nfc src frames output = Inl decode_failed" by (simp add: run)
        then show ?thesis by blast
      next
        case (Inr groups)
        have groups: "groups_of nfc src frames output groups" by (rule groups_of_answer [OF assms _ Inr]) (use fits in simp)
        have "observation_post nfc ob = None" if "ob \<in> set (concat groups)" for ob
          using groups_observations [OF groups that] by (auto simp: observes_def)
        note create = detection_result_create_complete [of "concat groups", OF this]
        show ?thesis
        proof (cases "MAX_PERCEPTION_OBSERVATIONS < length (concat groups)")
          case True
          then have "observations_of_output nfc src frames output = Inl (detector_error LIMIT_EXCEEDED)"
            unfolding run Inr bindE_simps by (rule if_P)
          then show ?thesis by blast
        next
          case False
          then have "observations_of_output nfc src frames output = detection_result_create nfc COMPLETE (concat groups) None"
            unfolding run Inr bindE_simps by (rule if_not_P)
          with create groups False show ?thesis by (metis not_less)
        qed
      qed
    qed
  qed
qed

section \<open>Equal identifiers are hash collisions\<close>

text \<open>
  The identifier of an observation is the hash of its canonical bytes.  Two detections of one answer
  differ in their frame, their box or their confidence, and so do the bytes of their observations.
\<close>

definition observation_bytes :: "observation \<Rightarrow> string" where
  "observation_bytes ob = render (sort_json (JObj (observation_projection ob)))"

definition detection_key :: "observation \<Rightarrow> string \<times> (box option \<times> int)" where
  "detection_key ob =
     (ob_frame_id ob, (map_option ps_box_xyxy (ge_producer_space (ob_geometry ob)), ob_confidence_millionths ob))"

lemma observation_bytes_key:
  assumes o1: "observation_post nfc o1 = None" and o2: "observation_post nfc o2 = None"
    and same: "observation_bytes o1 = observation_bytes o2"
  shows "detection_key o1 = detection_key o2"
proof -
  have keys: "distinct (map fst (observation_projection v))" for v
    by (simp add: observation_projection_def observation_identity_members_def)
  have plain: "plain_json (JObj (observation_projection v))" if "observation_post nfc v = None" for v
    using plain_observation [OF that] unfolding observation_to_mapping_def
    by (simp add: plain_members_iff observation_projection_def observation_identity_members_def)
  have bytes: "canonical_bytes nfc (JObj (observation_projection v)) = Inr (observation_bytes v)"
    if "observation_post nfc v = None" for v
    using observation_postD(16) [OF that]
    by (auto simp: mk_identifier_def bindE_Inr_iff canonical_bytes_def Let_def checked_Inr_iff observation_bytes_def)
  from canonical_parse [OF bytes [OF o1] plain [OF o1] order_refl] canonical_parse [OF bytes [OF o2] plain [OF o2] order_refl]
  have "sort_key fst (sort_members (observation_projection o1)) = sort_key fst (sort_members (observation_projection o2))"
    by (simp add: same)
  then have member: "sort_json (get (observation_projection o1) k) = sort_json (get (observation_projection o2) k)" for k
    by (metis get_sorted keys)
  have geometry: "geometry_from_mapping nfc (sort_json (geometry_to_mapping (ob_geometry v))) [] = Inr (ob_geometry v)"
    if "observation_post nfc v = None" for v
    by (rule geometry_roundtrip(2) [OF observation_postD(7) [OF that]])
  have gets: "get (observation_projection v) ''geometry'' = geometry_to_mapping (ob_geometry v)"
    "get (observation_projection v) ''frame_id'' = JStr (ob_frame_id v)"
    "get (observation_projection v) ''confidence_millionths'' = JInt (ob_confidence_millionths v)" for v
    by (simp_all add: observation_projection_def observation_identity_members_def)
  have "sort_json (geometry_to_mapping (ob_geometry o1)) = sort_json (geometry_to_mapping (ob_geometry o2))"
    using member [of "''geometry''"] unfolding gets .
  then have "ob_geometry o1 = ob_geometry o2" using geometry [OF o1] geometry [OF o2] by (metis Inr_inject)
  moreover have "ob_frame_id o1 = ob_frame_id o2" "ob_confidence_millionths o1 = ob_confidence_millionths o2"
    using member [of "''frame_id''"] member [of "''confidence_millionths''"] unfolding gets by simp_all
  ultimately show ?thesis by (simp add: detection_key_def)
qed

lemma map_box_producer_box:
  "map_box nfc t b m = Inr g \<Longrightarrow> map_option ps_box_xyxy (ge_producer_space g) = Some b"
  by (auto simp: map_box_def bindE_Inr_iff checked_Inr_iff Let_def)

lemma observes_key:
  "observes nfc src stream f d ob \<Longrightarrow> detection_key ob = (fr_frame_id f, (Some (wd_box d), wd_confidence_millionths d))"
  by (auto simp: observes_def detection_key_def dest: map_box_producer_box)

lemma distinct_groups:
  assumes "list_all2 (\<lambda>x ys. (\<forall>y \<in> set ys. fst (k y) = F x) \<and> distinct (map k ys)) xs groups" and "distinct (map F xs)"
  shows "distinct (map k (concat groups)) \<and> fst ` k ` set (concat groups) \<subseteq> F ` set xs"
  using assms
proof (induction rule: list_all2_induct)
  case (Cons x xs ys groups)
  then have IH: "distinct (map k (concat groups))" "fst ` k ` set (concat groups) \<subseteq> F ` set xs" and x: "F x \<notin> F ` set xs"
    by simp_all
  have "k ` set ys \<inter> k ` set (concat groups) = {}"
  proof (rule ccontr)
    assume "k ` set ys \<inter> k ` set (concat groups) \<noteq> {}"
    then obtain y z where "y \<in> set ys" "z \<in> set (concat groups)" "k y = k z" by blast
    moreover from this have "fst (k z) \<in> fst ` k ` set (concat groups)" by blast
    ultimately have "F x = fst (k z)" "fst (k z) \<in> F ` set xs" using Cons(1) IH(2) by (metis, blast)
    with x show False by simp
  qed
  with Cons(1) IH show ?case by auto
qed simp

lemma groups_distinct:
  assumes "answered nfc src frames output" and "groups_of nfc src frames output groups"
  shows "distinct (map detection_key (concat groups))"
proof -
  have post: "worker_result_post nfc output = None"
    and accepted: "perception_frames nfc src frames DETECTOR ''detect'' = Inr (frames_by_id frames)"
    using assms(1) by (simp_all add: answered_def)
  have "list_all2 (\<lambda>f obs. (\<forall>ob \<in> set obs. fst (detection_key ob) = fr_frame_id f) \<and> distinct (map detection_key obs)) frames groups"
  proof (rule list.rel_mono_strong [OF assms(2) [unfolded groups_of_def]])
    fix f obs
    assume "\<exists>v \<in> set (wr_frames output). wf_decode_index v = fr_decode_index f \<and> frame_matches f v \<and>
       list_all2 (observes nfc src (stream_of src frames) f) (wf_detections v) obs"
    then obtain v where v: "v \<in> set (wr_frames output)"
      "list_all2 (observes nfc src (stream_of src frames) f) (wf_detections v) obs" by blast
    have keys: "map detection_key obs =
        map (\<lambda>d. (fr_frame_id f, (Some (wd_box d), wd_confidence_millionths d))) (wf_detections v)"
      using v(2) by (induction rule: list_all2_induct) (simp_all add: observes_key)
    have "distinct (map (\<lambda>d. (wd_box d, wd_confidence_millionths d)) (wf_detections v))"
      using worker_result_postD(3) [OF post v(1)] unfolding worker_frame_post_def run_checks_ConsN by simp
    then have "distinct (map detection_key obs)" by (simp add: keys distinct_map inj_on_def)
    moreover have "\<forall>ob \<in> set obs. fst (detection_key ob) = fr_frame_id f"
      using v(2) by (induction rule: list_all2_induct) (simp_all add: observes_key)
    ultimately show "(\<forall>ob \<in> set obs. fst (detection_key ob) = fr_frame_id f) \<and> distinct (map detection_key obs)" by blast
  qed
  from distinct_groups [OF this perception_frames_InrD(3) [OF accepted]] show ?thesis by blast
qed

lemma equal_ids_collide:
  assumes "answered nfc src frames output" and "groups_of nfc src frames output groups"
    and "\<not> distinct (map ob_observation_id (concat groups))"
  shows "\<exists>o1 \<in> set (concat groups). \<exists>o2 \<in> set (concat groups).
    observation_bytes o1 \<noteq> observation_bytes o2 \<and> sha256_hex (observation_bytes o1) = sha256_hex (observation_bytes o2)"
proof -
  have post: "observation_post nfc ob = None" if "ob \<in> set (concat groups)" for ob
    using groups_observations [OF assms(2) that] by (auto simp: observes_def)
  have hash: "ob_observation_id ob = ''obs'' @ ''_'' @ sha256_hex (observation_bytes ob)" if "ob \<in> set (concat groups)" for ob
    using observation_postD(16) [OF post [OF that]]
    by (auto simp: mk_identifier_def bindE_Inr_iff canonical_bytes_def Let_def checked_Inr_iff observation_bytes_def)
  note keys = groups_distinct [OF assms(1,2)]
  then have "distinct (concat groups)" by (simp only: distinct_map)
  with assms(3) obtain o1 o2 where o: "o1 \<in> set (concat groups)" "o2 \<in> set (concat groups)" "o1 \<noteq> o2"
    "ob_observation_id o1 = ob_observation_id o2"
    unfolding distinct_map inj_on_def by blast
  have "detection_key o1 \<noteq> detection_key o2"
    using keys o(1-3) unfolding distinct_map inj_on_def by blast
  then have "observation_bytes o1 \<noteq> observation_bytes o2"
    using observation_bytes_key [OF post [OF o(1)] post [OF o(2)]] by blast
  moreover have "sha256_hex (observation_bytes o1) = sha256_hex (observation_bytes o2)"
    using o(4) by (simp add: hash [OF o(1)] hash [OF o(2)])
  ultimately show ?thesis using o(1,2) by blast
qed

section \<open>A complete answer\<close>

lemma frame_of_bij:
  assumes "answered nfc src frames output" and "output_fits (stream_of src frames) frames output"
  shows "bij_betw (frame_of output) (set frames) (set (wr_frames output))" "distinct frames" "distinct (wr_frames output)"
proof -
  have accepted: "perception_frames nfc src frames DETECTOR ''detect'' = Inr (frames_by_id frames)"
    and single: "one_stream frames" and post: "worker_result_post nfc output = None" using assms(1) by (simp_all add: answered_def)
  note pairs = perception_frames_InrD(4) [OF accepted]
  show "distinct frames" using perception_frames_InrD(3) [OF accepted] by (simp add: distinct_map)
  note indices = worker_result_postD(4) [OF post]
  then show "distinct (wr_frames output)" by (simp add: distinct_map)
  have same: "f = g" if "f \<in> set frames" "g \<in> set frames" "fr_decode_index f = fr_decode_index g" for f g
  proof -
    have "fr_stream_index f = fr_stream_index g" using single that unfolding one_stream_def by metis
    with pairs that show ?thesis by (simp add: distinct_map inj_on_def)
  qed
  have "inj_on (frame_of output) (set frames)"
    using same answered_frame(2) [OF assms] by (intro inj_onI) metis
  moreover have "frame_of output ` set frames = set (wr_frames output)"
  proof
    show "frame_of output ` set frames \<subseteq> set (wr_frames output)" using answered_frame(1) [OF assms] by blast
    show "set (wr_frames output) \<subseteq> frame_of output ` set frames"
    proof
      fix v assume v: "v \<in> set (wr_frames output)"
      then obtain f where f: "f \<in> set frames" "fr_decode_index f = wf_decode_index v"
        using assms(2) unfolding output_fits_def by (metis imageE imageI)
      have "frame_of output f = v"
        using map_of_rev_distinct [OF indices v] f(2) by (simp add: frame_of_def output_by_index_def)
      with f show "v \<in> frame_of output ` set frames" by blast
    qed
  qed
  ultimately show "bij_betw (frame_of output) (set frames) (set (wr_frames output))" by (simp add: bij_betw_def)
qed

lemma detection_count:
  assumes "answered nfc src frames output" and "output_fits (stream_of src frames) frames output"
  shows "(\<Sum>f \<leftarrow> frames. length (wf_detections (frame_of output f))) = (\<Sum>v \<leftarrow> wr_frames output. length (wf_detections v))"
proof -
  note bij = frame_of_bij [OF assms]
  have "(\<Sum>f \<leftarrow> frames. length (wf_detections (frame_of output f))) = (\<Sum>f \<in> set frames. length (wf_detections (frame_of output f)))"
    by (rule sum_list_distinct_conv_sum_set [OF bij(2)])
  also have "\<dots> = (\<Sum>v \<in> set (wr_frames output). length (wf_detections v))" by (rule sum.reindex_bij_betw [OF bij(1)])
  also have "\<dots> = (\<Sum>v \<leftarrow> wr_frames output. length (wf_detections v))" by (rule sum_list_distinct_conv_sum_set [OF bij(3), symmetric])
  finally show ?thesis .
qed

lemma complete_answer:
  assumes "answered nfc src frames output" and "output_fits (stream_of src frames) frames output"
    and "detector_provenance nfc src = Inr (wr_provenance output)"
    and "\<forall>f \<in> set frames. frame_matches f (frame_of output f)"
  shows "\<exists>groups. groups_of nfc src frames output groups \<and>
    length (concat groups) = (\<Sum>v \<leftarrow> wr_frames output. length (wf_detections v)) \<and>
    observations_of_output nfc src frames output =
       (if distinct (map ob_observation_id (concat groups))
        then Inr \<lparr>dr_state = COMPLETE, dr_observations = concat groups, dr_reason = None\<rparr> else Inl duplicate_ids)"
proof -
  let ?group = "\<lambda>f. frame_observations nfc src (stream_of src frames) f (frame_of output f)"
  have "\<forall>f \<in> set frames. \<exists>obs. ?group f = Inr obs \<and> length obs = length (wf_detections (frame_of output f))"
    using answered_group [OF assms(1,2)] assms(4) by blast
  then obtain h where h: "\<forall>f \<in> set frames. ?group f = Inr (h f) \<and> length (h f) = length (wf_detections (frame_of output f))"
    by metis
  then have groups: "mapE ?group frames = Inr (map h frames)" by (intro mapE_cong_Inr) blast
  have count: "length (concat (map h frames)) = (\<Sum>v \<leftarrow> wr_frames output. length (wf_detections v))"
    using h by (simp add: length_concat comp_def flip: detection_count [OF assms(1,2)]) (rule arg_cong [where f = sum_list], simp)
  moreover have "\<dots> \<le> MAX_PERCEPTION_OBSERVATIONS"
    using assms(1) worker_result_postD(5) by (auto simp: answered_def)
  ultimately have small: "length (concat (map h frames)) \<le> MAX_PERCEPTION_OBSERVATIONS" by simp
  have of: "groups_of nfc src frames output (map h frames)" by (rule groups_of_answer [OF assms(1,2) groups])
  have "observation_post nfc ob = None" if "ob \<in> set (concat (map h frames))" for ob
    using groups_observations [OF of that] by (auto simp: observes_def)
  note create = detection_result_create_complete [OF this small]
  have "observations_of_output nfc src frames output = detection_result_create nfc COMPLETE (concat (map h frames)) None"
    using groups small assms(2,3)
    by (simp add: observations_of_output_def checked_def not_less flip: stream_of_def frame_of_def)
  with of count create show ?thesis by auto
qed

end
