(* ===== verification/Detector_Decoding.thy ===== *)
theory Detector_Decoding
  imports Detector_Runs
begin

text \<open>
  The decoder of the worker's output: what it accepts answers the request it was made for, and it raises
  nothing but port errors.
\<close>

section \<open>What the decoder accepts\<close>

lemma decode_source_bindingD:
  assumes "decode_source_binding limits src digest n value = None"
  shows "is_sha256 digest" "1 \<le> n" "n \<le> pl_max_source_bytes limits" "digest = fp_digest (so_fingerprint src)"
    "show_int n = fp_bytes (so_fingerprint src)"
proof -
  have digestD: "decoded_digest j = Inr s \<Longrightarrow> is_sha256 s" for j s by (cases j) (auto split: if_splits)
  have intD: "decoded_int j lo hi = Inr i \<Longrightarrow> lo \<le> i \<and> i \<le> hi" for j lo hi i by (cases j) (auto split: if_splits)
  from assms show "is_sha256 digest" "1 \<le> n" "n \<le> pl_max_source_bytes limits" "digest = fp_digest (so_fingerprint src)"
    "show_int n = fp_bytes (so_fingerprint src)"
    unfolding decode_source_binding_def check_of_None bindE_Inr_iff checked_Inr_iff
    by (auto dest!: digestD intD)
qed

lemma decode_streamD:
  assumes "decode_stream nfc limits src frames value = Inr x"
  shows "\<exists>stream. stream_by_index src (sx_stream_index x) = Some stream \<and> stream_fits frames x stream"
    "0 \<le> sx_rotation x \<and> sx_rotation x \<le> 359"
proof -
  have intD: "decoded_int j lo hi = Inr i \<Longrightarrow> lo \<le> i \<and> i \<le> hi" for j lo hi i by (cases j) (auto split: if_splits)
  from assms show "\<exists>stream. stream_by_index src (sx_stream_index x) = Some stream \<and> stream_fits frames x stream"
    "0 \<le> sx_rotation x \<and> sx_rotation x \<le> 359"
    by (auto simp: decode_stream_def bindE_Inr_iff checked_Inr_iff Let_def split: option.split_asm dest!: intD)
qed

lemma decode_frameD:
  assumes "decode_frame nfc limits expected value = Inr v"
  shows "\<exists>f. expected (wf_decode_index v) = Some f \<and> frame_matches f v"
  using assms
  by (auto simp: decode_frame_def bindE_Inr_iff checked_Inr_iff frame_matches_def Let_def split: option.split_asm)

lemma decode_framesD:
  assumes "decode_frames nfc limits expected n values = Inr vs" and "v \<in> set vs"
  shows "\<exists>f. expected (wf_decode_index v) = Some f \<and> frame_matches f v"
  using assms
  by (induction "values" arbitrary: n vs)
    (auto simp: bindE_Inr_iff checked_Inr_iff Let_def split: if_splits dest: decode_frameD)

lemma set_expected_order: "set (expected_order frames) = fr_decode_index ` set frames"
  by (simp add: expected_order_def)

lemma decode_worker_valueD:
  assumes "decode_worker_value nfc raw src frames digest n limits = Inr v"
  shows "worker_result_post nfc v = None" "mk_provenance digest n = Inr (wr_provenance v)" "digest = fp_digest (so_fingerprint src)"
    "show_int n = fp_bytes (so_fingerprint src)" "fr_stream_index ` set frames = {wr_stream_index v}"
    "\<exists>stream. stream_by_index src (wr_stream_index v) = Some stream \<and> ss_width stream = wr_width v \<and>
      ss_height stream = wr_height v \<and> ss_rotation_degrees stream mod 360 = wr_rotation_degrees v mod 360 \<and>
      ss_time_base stream = wr_time_base v"
    "map wf_decode_index (wr_frames v) = expected_order frames"
    "\<And>w. w \<in> set (wr_frames v) \<Longrightarrow> \<exists>f. frames_by_decode_index frames (wf_decode_index w) = Some f \<and> frame_matches f w"
proof -
  from assms obtain source_value stream_value x items vs where
    binding: "decode_source_binding limits src digest n source_value = None"
    and x: "decode_stream nfc limits src frames stream_value = Inr x"
    and vs: "decode_frames nfc limits (frames_by_decode_index frames) 0 items = Inr vs" "map wf_decode_index vs = expected_order frames"
    and p: "mk_provenance digest n = Inr (wr_provenance v)" "worker_result_post nfc v = None"
    and v: "wr_stream_index v = sx_stream_index x" "wr_width v = sx_width x" "wr_height v = sx_height x"
      "wr_rotation_degrees v = sx_rotation x" "wr_time_base v = sx_time_base x" "wr_frames v = vs"
    unfolding decode_worker_value_def bindE_Inr_iff checked_Inr_iff Let_def run_checks_ConsN
    by (auto simp: except_value_check_def split: option.splits)
  note rotation = decode_streamD(2) [OF x]
  show "worker_result_post nfc v = None" "mk_provenance digest n = Inr (wr_provenance v)" by (fact p)+
  show "digest = fp_digest (so_fingerprint src)" "show_int n = fp_bytes (so_fingerprint src)"
    using decode_source_bindingD [OF binding] by simp_all
  show "fr_stream_index ` set frames = {wr_stream_index v}" using decode_streamD(1) [OF x] by (auto simp only: v stream_fits_def)
  show "\<exists>stream. stream_by_index src (wr_stream_index v) = Some stream \<and> ss_width stream = wr_width v \<and>
      ss_height stream = wr_height v \<and> ss_rotation_degrees stream mod 360 = wr_rotation_degrees v mod 360 \<and>
      ss_time_base stream = wr_time_base v"
    using decode_streamD(1) [OF x] rotation by (auto simp: v stream_fits_def)
  show "map wf_decode_index (wr_frames v) = expected_order frames" by (simp add: v vs)
  show "\<exists>f. frames_by_decode_index frames (wf_decode_index w) = Some f \<and> frame_matches f w" if "w \<in> set (wr_frames v)" for w
    using decode_framesD [OF vs(1)] that by (simp add: v)
qed

lemma decode_worker_outputD:
  "decode_worker_output nfc loads run src frames digest n limits = Inr v \<Longrightarrow>
     \<exists>raw canonical. loads (wx_stdout run) = Some (raw, canonical) \<and> decode_worker_value nfc raw src frames digest n limits = Inr v"
  by (auto simp: decode_worker_output_def split: if_splits option.splits)

lemma decoded_answer:
  assumes nfc: "nfc_ascii nfc" and accepted: "perception_frames nfc src frames DETECTOR ''detect'' = Inr m"
    and frames: "\<forall>f \<in> set frames. frame_valid nfc f"
    and decoded: "decode_worker_output nfc loads run src frames digest n limits = Inr v"
  shows "answered nfc src frames v" "output_fits (stream_of src frames) frames v"
    "detector_provenance nfc src = Inr (wr_provenance v)" "\<forall>f \<in> set frames. frame_matches f (frame_of v f)"
proof -
  from decode_worker_outputD [OF decoded] obtain raw
    where raw: "decode_worker_value nfc raw src frames digest n limits = Inr v" by blast
  note D = decode_worker_valueD [OF raw]
  have nonempty: "frames \<noteq> []" using D(5) by auto
  then have hd: "fr_stream_index (hd frames) = wr_stream_index v" using D(5) hd_in_set by fast
  have single: "one_stream frames" using D(5) nonempty unfolding one_stream_def hd by blast
  have m: "m = frames_by_id frames" by (rule perception_frames_InrD(7) [OF accepted])
  with nfc accepted frames single D(1) show answered: "answered nfc src frames v" by (simp add: answered_def)
  obtain stream where stream: "stream_by_index src (wr_stream_index v) = Some stream" "ss_width stream = wr_width v"
      "ss_height stream = wr_height v" "ss_rotation_degrees stream mod 360 = wr_rotation_degrees v mod 360"
      "ss_time_base stream = wr_time_base v" using D(6) by blast
  have "stream_of src frames = stream" by (simp add: stream_of_def hd stream(1))
  moreover have "wf_decode_index ` set (wr_frames v) = fr_decode_index ` set frames"
    using arg_cong [OF D(7), of set] by (simp add: set_expected_order)
  ultimately show fits: "output_fits (stream_of src frames) frames v"
    using stream stream_by_indexD(2) [OF stream(1)] by (simp add: output_fits_def)
  have "int_of_decimal (fp_bytes (so_fingerprint src)) = n" by (simp flip: D(4))
  then show "detector_provenance nfc src = Inr (wr_provenance v)"
    using D(2,3) by (simp add: detector_provenance_cases [OF accepted])
  show "\<forall>f \<in> set frames. frame_matches f (frame_of v f)"
  proof
    fix f assume f: "f \<in> set frames"
    note w = answered_frame [OF answered fits f]
    have "inj_on fr_decode_index (set frames)"
    proof (rule inj_onI)
      fix g h assume gh: "g \<in> set frames" "h \<in> set frames" "fr_decode_index g = fr_decode_index h"
      then have "fr_stream_index g = fr_stream_index h" using single unfolding one_stream_def by metis
      with perception_frames_InrD(4) [OF accepted] gh show "g = h" by (simp add: distinct_map inj_on_def)
    qed
    then have "distinct (map fr_decode_index frames)" using frame_of_bij(2) [OF answered fits] by (simp add: distinct_map)
    from map_of_rev_distinct [OF this f] have "frames_by_decode_index frames (fr_decode_index f) = Some f"
      by (simp add: frames_by_decode_index_def)
    with D(8) [OF w(1)] show "frame_matches f (frame_of v f)" by (simp add: w(2))
  qed
qed

section \<open>What the decoder raises\<close>

definition detector_only :: "'a res \<Rightarrow> bool" where
  "detector_only m \<longleftrightarrow> (\<forall>e. m = Inl e \<longrightarrow> (\<exists>ec. e = detector_error ec))"

lemma detector_only_simps [simp]:
  "detector_only (Inr x)" "detector_only (Inl (detector_error ec))"
  "detector_only (checked (require b (detector_error ec)) x)"
  by (auto simp: detector_only_def checked_def require_def)

lemma detector_only_bindE: "detector_only m \<Longrightarrow> (\<And>x. m = Inr x \<Longrightarrow> detector_only (f x)) \<Longrightarrow> detector_only (bindE m f)"
  by (cases m) (simp_all add: detector_only_def)

lemma detector_only_mapE: "(\<And>x. detector_only (f x)) \<Longrightarrow> detector_only (mapE f xs)"
  by (induction xs) (auto intro!: detector_only_bindE)

lemma detector_only_checked: "detector_only (checked c x) \<longleftrightarrow> (\<forall>e. c = Some e \<longrightarrow> (\<exists>ec. e = detector_error ec))"
  by (cases c) (auto simp: detector_only_def checked_def)

lemma detector_only_run_checks:
  "detector_only (checked c y) \<Longrightarrow> detector_only (checked (run_checks cs) y) \<Longrightarrow> detector_only (checked (run_checks (c # cs)) x)"
  by (cases c; cases "run_checks cs") (auto simp: detector_only_def checked_def run_checks.simps(2))

lemma detector_only_check_of: "detector_only m \<Longrightarrow> detector_only (checked (check_of m) x)"
  by (cases m) (auto simp: detector_only_def checked_def)

lemma foreseen_except: "foreseen_check DETECTOR ''detect'' c \<Longrightarrow> detector_only (checked (except_value_check c decode_failed) x)"
  by (cases c) (auto simp: except_value_check_def detector_only_def checked_def detector_error_def foreseen_check_def foreseen_def)

lemma detector_only_reads [simp]:
  "detector_only (decoded_digest j)" "detector_only (decoded_token j)" "detector_only (decoded_int j lo hi)"
  "detector_only (decoded_decimal j hi)" "detector_only (decoded_signed_decimal j)" "detector_only (decoded_mapping j keys)"
  "detector_only (decoded_list j (detector_error ec))" "detector_only (decoded_bool j)"
  by (cases j; simp)+

lemma foreseen_worker_posts:
  "foreseen_check DETECTOR ''detect'' (worker_detection_post d)"
  "foreseen_check DETECTOR ''detect'' (worker_frame_post nfc f)"
  "foreseen_check DETECTOR ''detect'' (worker_result_post nfc v)"
proof -
  have except: "foreseen_check DETECTOR ''detect'' c \<Longrightarrow> foreseen_check DETECTOR ''detect'' (except_value_check c (ValueError m))" for c m
    by (cases c) (auto simp: except_value_check_def foreseen_def)
  show d: "foreseen_check DETECTOR ''detect'' (worker_detection_post d)" for d
    by (simp add: worker_detection_post_def split: prod.splits)
  have t: "foreseen_check DETECTOR ''detect'' (worker_time_check nfc t)" for t
    unfolding worker_time_check_def
    by (intro foreseen_run_checks) (auto intro!: except foreseen_run_checks)
  show f: "foreseen_check DETECTOR ''detect'' (worker_frame_post nfc f)" for f
    unfolding worker_frame_post_def
    by (intro foreseen_run_checks) (auto simp: t d list_all_iff split: option.splits intro!: foreseen_run_checks)
  show "foreseen_check DETECTOR ''detect'' (worker_result_post nfc v)"
    unfolding worker_result_post_def
    by (intro foreseen_run_checks) (auto simp: f provenance_post_def list_all_iff intro!: except foreseen_run_checks)
qed

lemma decode_time_only [simp]:
  "detector_only (decoded_time_base nfc j)" "detector_only (decoded_media_time nfc j)"
proof -
  show base: "detector_only (decoded_time_base nfc j)" for j
    by (auto simp: decoded_time_base_def Let_def intro!: detector_only_bindE foreseen_except)
  show "detector_only (decoded_media_time nfc j)"
    by (auto simp: decoded_media_time_def Let_def base intro!: detector_only_bindE foreseen_except)
qed

lemma decode_detection_only: "detector_only (decode_detection j)"
proof -
  have "detector_only (decoded_box js)" for js
    by (cases js rule: decoded_box.cases) (auto intro!: detector_only_bindE)
  then show ?thesis
    by (auto simp: decode_detection_def Let_def intro!: detector_only_bindE foreseen_except foreseen_worker_posts)
qed

lemma decode_frame_only: "detector_only (decode_frame nfc limits expected j)"
  by (auto simp: decode_frame_def intro!: detector_only_bindE detector_only_mapE decode_detection_only split: option.splits)

lemma decode_frames_only: "detector_only (decode_frames nfc limits expected n js)"
  by (induction js arbitrary: n)
    (auto simp: Let_def intro!: detector_only_bindE decode_frame_only foreseen_except foreseen_worker_posts)

lemma decode_checks_only:
  "detector_only (checked (decode_source_binding limits src digest n j) x)"
  "detector_only (checked (check_runtime j) x)" "detector_only (checked (check_isolation j) x)"
  "detector_only (decode_stream nfc limits src frames j)"
  by (auto simp: decode_source_binding_def check_runtime_def check_isolation_def decode_stream_def Let_def
      intro!: detector_only_check_of detector_only_bindE detector_only_mapE split: prod.splits)

lemma provenance_created:
  "is_sha256 digest \<Longrightarrow> 1 \<le> n \<Longrightarrow> n \<le> 2 ^ 63 - 1 \<Longrightarrow> \<exists>p. mk_provenance digest n = Inr p"
  by (simp add: mk_provenance_def provenance_post_def checked_Inr_iff)

lemma decode_worker_value_only:
  assumes "pl_max_source_bytes limits \<le> 2 ^ 30"
  shows "detector_only (decode_worker_value nfc raw src frames digest n limits)"
proof -
  have provenance: "detector_only (mk_provenance digest n)" if "decode_source_binding limits src digest n j = None" for j
    using provenance_created [of digest n] decode_source_bindingD(1-3) [OF that] assms by auto
  show ?thesis
    unfolding decode_worker_value_def Let_def
    by (intro detector_only_bindE detector_only_run_checks foreseen_except foreseen_worker_posts decode_checks_only decode_frames_only)
      (auto simp: checked_Inr_iff run_checks_ConsN intro!: provenance)
qed

lemma decode_worker_output_only:
  assumes "perception_limits_post limits = None"
  shows "detector_only (decode_worker_output nfc loads run src frames digest n limits)"
proof -
  have "pl_max_source_bytes limits \<le> 2 ^ 30"
    using assms by (simp add: perception_limits_post_def run_checks_ConsN)
  from decode_worker_value_only [OF this] show ?thesis
    by (auto simp: decode_worker_output_def split: option.splits)
qed

end
