(* ===== verification/Detector_Examples.thy ===== *)
theory Detector_Examples
  imports Detector_Decoding
begin

text \<open>
  A one-byte clip of one two-pixel frame, what a worker writes after finding one vehicle in it, and the
  result that output stands for: the hypotheses of the detector's properties can hold.
\<close>

definition clip_fingerprint :: fingerprint where
  "clip_fingerprint = \<lparr>fp_digest = sha256_hex [], fp_bytes = ''1'', fp_algorithm = ''sha256''\<rparr>"

definition clip_source :: source where
  "clip_source = \<lparr>so_source_id = ''src'' @ ''_'' @ sha256_hex (render (sort_json (source_identity clip_fingerprint))),
     so_fingerprint = clip_fingerprint, so_streams = [ex_stream]\<rparr>"

definition clip_frame :: frame_ref where
  "clip_frame = \<lparr>fr_frame_id = ''frm'' @ ''_'' @
       sha256_hex (render (sort_json (frame_identity (so_source_id clip_source) 0 ''0'' (ex_time 0)))),
     fr_source_id = so_source_id clip_source, fr_stream_index = 0, fr_decode_index = ''0'', fr_pts = ex_time 0,
     fr_duration = None, fr_key_frame = Some True\<rparr>"

lemma clip_fingerprint_valid: "fingerprint_post id clip_fingerprint = None"
  by (simp add: fingerprint_post_def clip_fingerprint_def decimal_check_None general_ok_id_ascii char_evaluation
      MAX_GENERAL_STRING_BYTES_def nat_of_digits_def digit_val_def MAX_U64_def sha256_check_None general_ok_id_hash
      token_check_literal [OF nfc_id] MAX_TOKEN_BYTES_def)

lemma clip_source_id: "general_ok id (so_source_id clip_source)" "is_typed_id ''src'' (so_source_id clip_source)"
proof -
  show "general_ok id (so_source_id clip_source)"
    by (simp only: clip_source_def source.simps, rule general_ok_hash_id [OF nfc_id]) (simp_all add: char_evaluation)
  show "is_typed_id ''src'' (so_source_id clip_source)"
    by (simp only: clip_source_def source.simps is_typed_id_hash)
qed

lemma clip_source_valid: "source_valid id clip_source" "plain_perception_source id clip_source"
proof -
  have fits: "fits id 1 MAX_RECORD_BYTES (source_identity clip_fingerprint)"
  proof -
    have token: "fits id 3 770 (JStr ''sha256'')" "fits id 3 386 (JStr (sha256_hex []))" "fits id 3 41 (JInt 1)" "fits id 3 41 (JStr ''1'')"
      "fits id 2 41 (JInt 1)"
      by (auto intro!: fits_string fits_int general_ok_id_hash general_ok_id_ascii simp: MAX_DEPTH_def MAX_I31_def
          MAX_GENERAL_STRING_BYTES_def char_evaluation)
    have "fits id 2 3000 (fingerprint_to_mapping clip_fingerprint)"
      unfolding fingerprint_to_mapping_def
      using token by (intro fits_object [where ms = "[770, 41, 386]", OF nfc_id])
        (simp_all add: clip_fingerprint_def char_evaluation MAX_OBJECT_MEMBERS_def MAX_DEPTH_def)
    with token show ?thesis
      unfolding source_identity_def
      by (intro fits_object [where ms = "[3000, 41]", OF nfc_id])
        (simp_all add: char_evaluation MAX_OBJECT_MEMBERS_def MAX_DEPTH_def MAX_RECORD_BYTES_def numeral_2_eq_2)
  qed
  from fits_identifier [OF this, of "''src''"] clip_source_id clip_fingerprint_valid ex_stream_valid
  show "source_valid id clip_source"
    by (simp add: source_valid_def source_post_def typed_id_check_None identifier_check_def MAX_STREAMS_def)
      (simp add: clip_source_def)
  then show "plain_perception_source id clip_source"
    by (simp add: plain_perception_source_def source_valid_def source_stream_valid_def run_checks_None list_all_iff)
qed

lemma clip_time: "media_time_valid id (ex_time 0)" "mt_basis (ex_time 0) = ''measured''" "mt_time_base (ex_time 0) = ex_time_base"
  using ex_time_valid [of 0] by (simp_all add: ex_time_def)

lemma clip_frame_valid: "frame_valid id clip_frame"
proof -
  have token: "fits id 2 41 (JStr ''0'')" "fits id 2 41 (JInt 1)" "fits id 2 41 (JInt 0)" "fits id 2 410 (JStr (so_source_id clip_source))"
    using clip_source_id typed_id_length [OF clip_source_id(2)]
    by (auto intro!: fits_string fits_int general_ok_id_ascii simp: MAX_DEPTH_def MAX_I31_def MAX_GENERAL_STRING_BYTES_def char_evaluation)
  have fits: "fits id 1 MAX_RECORD_BYTES (frame_identity (so_source_id clip_source) 0 ''0'' (ex_time 0))"
    unfolding frame_identity_def
    using token fits_media_time [OF nfc_id clip_time(1), of 2]
    by (intro fits_object [where ms = "[41, 41, 19000, 410, 41]", OF nfc_id])
      (simp_all add: char_evaluation MAX_OBJECT_MEMBERS_def MAX_DEPTH_def MAX_RECORD_BYTES_def numeral_2_eq_2)
  have "general_ok id (fr_frame_id clip_frame)"
    by (simp only: clip_frame_def frame_ref.simps, rule general_ok_hash_id [OF nfc_id]) (simp_all add: char_evaluation)
  moreover have "is_typed_id ''frm'' (fr_frame_id clip_frame)"
    by (simp only: clip_frame_def frame_ref.simps is_typed_id_hash)
  moreover have "decimal_check id ''0'' False 0 MAX_U64 p = None" for p
    using decimal_check_show_int [OF nfc_id, of 0 0 MAX_U64 False p] by (simp add: bound_defs show_int_def show_nat_zero)
  ultimately show ?thesis
    using clip_time(1) clip_source_id fits_identifier [OF fits, of "''frm''"]
    by (simp add: frame_valid_def frame_post_def typed_id_check_None identifier_check_def frame_identity_projection_def
        bounded_int_check_None MAX_I31_def) (simp add: clip_frame_def frame_identity_projection_def)
qed

lemma clip_request: "perception_frames id clip_source [clip_frame] DETECTOR ''detect'' = Inr (frames_by_id [clip_frame])"
  using clip_source_valid(2) clip_time
  by (simp add: perception_frames_def checked_def run_checks.simps(2) require_def MAX_PORT_BATCH_ITEMS_def Let_def
      stream_by_index_def clip_source_def clip_frame_def ex_stream_def)

definition clip_answer :: worker_result where
  "clip_answer = \<lparr>wr_provenance = \<lparr>dv_source_sha256 = sha256_hex [], dv_source_bytes = 1,
       dv_configuration_sha256 = DETECTOR_CONFIGURATION_SHA256,
       dv_confidence_floor_millionths = DETECTOR_CONFIDENCE_FLOOR_MILLIONTHS,
       dv_model_xml_sha256 = DETECTOR_MODEL_XML_SHA256, dv_model_bin_sha256 = DETECTOR_MODEL_BIN_SHA256,
       dv_runtime_id = DETECTOR_RUNTIME_ID, dv_runtime_closure_sha256 = DETECTOR_RUNTIME_CLOSURE_SHA256,
       dv_worker_sha256 = DETECTOR_WORKER_SHA256, dv_perception_manifest_sha256 = DETECTOR_MANIFEST_SHA256,
       dv_media_runtime_id = MEDIA_RUNTIME_ID, dv_media_manifest_sha256 = MEDIA_MANIFEST_SHA256,
       dv_media_tree_sha256 = MEDIA_TREE_SHA256\<rparr>,
     wr_stream_index = 0, wr_width = 2, wr_height = 1, wr_rotation_degrees = 0, wr_time_base = ex_time_base,
     wr_frames = [\<lparr>wf_decode_index = ''0'', wf_pts = ex_time 0, wf_duration = None, wf_key_frame = True,
       wf_detections = [\<lparr>wd_box = (0, 0, 500000, 1000000), wd_confidence_millionths = 960000\<rparr>]\<rparr>]\<rparr>"

lemma clip_provenance: "mk_provenance (sha256_hex []) 1 = Inr (wr_provenance clip_answer)"
  by (simp add: mk_provenance_def provenance_post_def clip_answer_def checked_def)

lemma clip_answer_valid: "worker_result_post id clip_answer = None"
proof -
  have "worker_time_check id (ex_time 0) = None"
    using clip_time(1) by (simp add: worker_time_check_def media_time_valid_def run_checks.simps(2) except_value_check_def)
      (simp add: ex_time_def)
  moreover have "int_of_decimal ''0'' = 0" using int_of_decimal_show_int [of 0] by (simp add: show_int_def show_nat_zero)
  ultimately have frame: "worker_frame_post id v = None" if "v \<in> set (wr_frames clip_answer)" for v
    using that by (simp add: worker_frame_post_def clip_answer_def run_checks.simps(2) MAX_U64_def MAX_PORT_BATCH_ITEMS_def
        worker_detection_post_def DETECTOR_COORDINATE_SCALE_def DETECTOR_CONFIDENCE_FLOOR_MILLIONTHS_def)
  have "provenance_post (wr_provenance clip_answer) = None"
    by (simp add: provenance_post_def clip_answer_def)
  then show ?thesis
    using frame ex_time_base_valid clip_time(3)
    by (simp add: worker_result_post_def run_checks_ConsN except_value_check_def run_checks_None)
      (simp add: clip_answer_def MAX_I31_def MAX_PORT_BATCH_ITEMS_def MAX_PERCEPTION_OBSERVATIONS_def)
qed

section \<open>The worker's output\<close>

definition clip_time_json :: json where
  "clip_time_json = JObj [(''time_base'', JObj [(''denominator'', JStr ''1000''), (''numerator'', JStr ''1'')]), (''value'', JStr ''0'')]"

definition clip_output :: json where
  "clip_output = JObj
     [(''frames'', JArr [JObj
         [(''decode_index'', JStr ''0''),
          (''detections'', JArr [JObj
             [(''box_normalized_millionths'', JArr [JInt 0, JInt 0, JInt 500000, JInt 1000000]), (''confidence_millionths'', JInt 960000)]]),
          (''duration'', JNull), (''key_frame'', JBool True), (''pts'', clip_time_json)]]),
      (''isolation'', JObj [(''landlock_denied'', JBool True), (''network_denied'', JBool True),
          (''no_new_privileges'', JBool True), (''non_root'', JBool True)]),
      (''runtime'', JObj expected_runtime), (''schema_version'', JInt 1),
      (''source'', JObj [(''bytes'', JInt 1), (''sha256'', JStr (sha256_hex []))]), (''status'', JStr ''ok''),
      (''stream'', JObj [(''height'', JInt 1), (''rotation_degrees'', JInt 0), (''stream_index'', JInt 0),
          (''time_base'', JObj [(''denominator'', JStr ''1000''), (''numerator'', JStr ''1'')]), (''width'', JInt 2)])]"

definition clip_text :: string where
  "clip_text = render (sort_json clip_output) @ [CHR 0x0A]"

definition clip_run :: worker_run where
  "clip_run = \<lparr>wx_stdout = clip_text,
     wx_stderr = render (JObj [(''schema_version'', JInt 1), (''status'', JStr ''ok'')]) @ [CHR 0x0A], wx_returncode = 0,
     wx_wall_ms = 0, wx_cpu_ms = 0, wx_memory_peak_bytes = 0\<rparr>"

definition clip_loads :: "string \<Rightarrow> (json \<times> string) option" where
  "clip_loads s = (if s = clip_text then Some (clip_output, render (sort_json clip_output)) else None)"

text \<open>a bound on the text that needs no look at its characters\<close>

fun bulk :: "json \<Rightarrow> nat"
and bulk_members :: "(string \<times> json) list \<Rightarrow> nat"
and bulk_items :: "json list \<Rightarrow> nat" where
  "bulk JNull = 4"
| "bulk (JBool b) = 5"
| "bulk (JInt i) = length (show_int i)"
| "bulk (JStr s) = 6 * length s + 2"
| "bulk (JArr js) = 2 + bulk_items js"
| "bulk (JObj kvs) = 2 + bulk_members kvs"
| "bulk_members [] = 0"
| "bulk_members ((k, v) # kvs) = 6 * length k + 4 + bulk v + bulk_members kvs"
| "bulk_items [] = 0"
| "bulk_items (v # vs) = 1 + bulk v + bulk_items vs"

lemma wide_bulk: "wide v \<le> bulk v" "wide_members kvs \<le> bulk_members kvs" "wide_items js \<le> bulk_items js"
proof (induction v and kvs and js rule: bulk_bulk_members_bulk_items.induct)
  case (8 k v kvs)
  then show ?case using length_quote [of k] by simp
qed (simp_all add: length_quote [simplified])

lemma clip_text_length: "clip_text \<noteq> []" "length clip_text \<le> 16 * 1024 * 1024"
proof -
  have int: "\<bar>i\<bar> \<le> MAX_I31 \<Longrightarrow> length (show_int i) \<le> 41" for i by (rule show_int_length) (simp add: MAX_I31_def)
  note ints = int [of 0] int [of 1] int [of 2] int [of 500000] int [of 960000] int [of 1000000]
  have "bulk clip_output \<le> 100000"
    using ints by (simp add: clip_output_def clip_time_json_def expected_runtime_def MAX_I31_def DETECTOR_MODEL_BIN_SHA256_def
        DETECTOR_MODEL_XML_SHA256_def EXPECTED_NUMPY_def EXPECTED_OPENVINO_def EXPECTED_PYAV_def DETECTOR_RUNTIME_ID_def
        EXPECTED_TELEMETRY_def DETECTOR_WORKER_SHA256_def)
  moreover have "length (render (sort_json clip_output)) \<le> bulk clip_output"
    using render_wide(1) [of "sort_json clip_output"] wide_bulk(1) [of clip_output] by (simp add: wide_sort)
  ultimately show "length clip_text \<le> 16 * 1024 * 1024" by (simp add: clip_text_def)
  show "clip_text \<noteq> []" by (simp add: clip_text_def)
qed

lemma clip_runtime: "check_runtime (JObj expected_runtime) = None"
  by (simp add: check_runtime_def expected_runtime_def get_def checked_def require_def is_port_token_def token_evaluation
      DETECTOR_MODEL_BIN_SHA256_def DETECTOR_MODEL_XML_SHA256_def EXPECTED_NUMPY_def EXPECTED_OPENVINO_def EXPECTED_PYAV_def
      DETECTOR_RUNTIME_ID_def EXPECTED_TELEMETRY_def DETECTOR_WORKER_SHA256_def)

lemma clip_isolation:
  "check_isolation (JObj [(''landlock_denied'', JBool True), (''network_denied'', JBool True),
          (''no_new_privileges'', JBool True), (''non_root'', JBool True)]) = None"
  by (simp add: check_isolation_def checked_def require_def)

lemma show_one: "show_int 1 = ''1''"
  by code_simp

lemma clip_binding:
  "decode_source_binding default_perception_limits clip_source (sha256_hex []) 1
     (JObj [(''bytes'', JInt 1), (''sha256'', JStr (sha256_hex []))]) = None"
  using is_sha256_sha256_hex [of "[]"]
  by (simp add: decode_source_binding_def get_def checked_def require_def clip_source_def clip_fingerprint_def
      default_perception_limits_def insert_commute show_one)

lemma one_decimals: "nat_of_digits ''1'' = 1" "nat_of_digits ''1000'' = 1000" "nat_of_digits ''0'' = 0"
  by code_simp+

lemma clip_time_base:
  "decoded_time_base id (JObj [(''denominator'', JStr ''1000''), (''numerator'', JStr ''1'')]) = Inr ex_time_base"
  using ex_time_base_valid
  by (simp add: decoded_time_base_def get_def checked_def except_value_check_def one_decimals MAX_U32_def char_evaluation
      ex_time_base_def insert_commute)

lemma clip_decoded_time: "decoded_media_time id clip_time_json = Inr (ex_time 0)"
  using clip_time(1) clip_time_base
  by (simp add: decoded_media_time_def clip_time_json_def get_def checked_def except_value_check_def one_decimals char_evaluation
      insert_commute media_time_valid_def ex_time_def show_int_def show_nat_zero)

lemma clip_frame_decoded:
  "decode_frame id default_perception_limits (frames_by_decode_index [clip_frame])
     (JObj [(''decode_index'', JStr ''0''),
          (''detections'', JArr [JObj
             [(''box_normalized_millionths'', JArr [JInt 0, JInt 0, JInt 500000, JInt 1000000]), (''confidence_millionths'', JInt 960000)]]),
          (''duration'', JNull), (''key_frame'', JBool True), (''pts'', clip_time_json)]) = Inr (hd (wr_frames clip_answer))"
  using clip_decoded_time
  by (simp add: decode_frame_def get_def checked_def one_decimals MAX_U64_def frames_by_decode_index_def decode_detection_def
      worker_detection_post_def DETECTOR_COORDINATE_SCALE_def DETECTOR_CONFIDENCE_FLOOR_MILLIONTHS_def except_value_check_def
      default_perception_limits_def MAX_PORT_BATCH_ITEMS_def insert_commute Let_def)
    (simp add: clip_frame_def clip_answer_def)

lemma clip_decoded:
  "decode_worker_output id clip_loads clip_run clip_source [clip_frame] (sha256_hex []) 1 default_perception_limits = Inr clip_answer"
proof -
  have frames: "wr_frames clip_answer = [hd (wr_frames clip_answer)]" by (simp add: clip_answer_def)
  have post: "worker_frame_post id (hd (wr_frames clip_answer)) = None"
    by (rule worker_result_postD(3) [OF clip_answer_valid]) (simp add: clip_answer_def)
  have index: "wf_decode_index (hd (wr_frames clip_answer)) = ''0''" by (simp add: clip_answer_def)
  have order: "expected_order [clip_frame] = [''0'']" by (simp add: expected_order_def clip_frame_def)
  have stream: "decode_stream id default_perception_limits clip_source [clip_frame]
      (JObj [(''height'', JInt 1), (''rotation_degrees'', JInt 0), (''stream_index'', JInt 0),
          (''time_base'', JObj [(''denominator'', JStr ''1000''), (''numerator'', JStr ''1'')]), (''width'', JInt 2)]) =
      Inr \<lparr>sx_stream_index = 0, sx_width = 2, sx_height = 1, sx_rotation = 0, sx_time_base = ex_time_base\<rparr>"
    using clip_time_base
    by (simp add: decode_stream_def get_def checked_def require_def default_perception_limits_def MAX_I31_def stream_fits_def
        stream_by_index_def clip_source_def clip_frame_def ex_stream_def)
  have "decode_worker_value id clip_output clip_source [clip_frame] (sha256_hex []) 1 default_perception_limits = Inr clip_answer"
    using clip_binding clip_runtime clip_isolation stream clip_frame_decoded post order clip_provenance clip_answer_valid
    by (simp add: decode_worker_value_def clip_output_def get_def checked_def run_checks.simps(2) require_def
        MAX_PORT_BATCH_ITEMS_def MAX_PERCEPTION_OBSERVATIONS_def except_value_check_def index Let_def)
      (simp add: clip_answer_def)
  moreover have "unique_keys clip_output" "clip_text = render (sort_json clip_output) @ [CHR 0x0A]"
    by (simp_all add: clip_output_def clip_time_json_def expected_runtime_def clip_text_def)
  ultimately show ?thesis
    using clip_text_length by (simp add: decode_worker_output_def clip_run_def clip_loads_def default_perception_limits_def)
qed

end
