(* ===== verification/Detector_Theorems.thy ===== *)
theory Detector_Theorems
  imports Detector_Examples
begin

text \<open>
  What the detector promises of any worker: its observations are those of the worker's answer, mapped to
  the source and fit for the next port; and the errors that can leave it.
\<close>

section \<open>Calls of \<open>detect\<close>\<close>

lemma detect_token: "is_port_token ''detect''"
  by (simp add: is_port_token_def token_evaluation)

lemma detect_unfold:
  assumes "perception_frames nfc src frames DETECTOR ''detect'' = Inr m"
  shows "detect nfc supported infer s src frames =
    bindE (detect_core nfc supported infer (vd_worker s) src frames) (\<lambda>(r, w). Inr (r,
      \<lparr>vd_worker = w, vd_calls = vd_calls s @ [\<lparr>pc_port = DETECTOR, pc_operation = ''detect'', pc_item_count = length frames\<rparr>]\<rparr>))"
  using assms record_call_ok [OF detect_token perception_frames_InrD(2) [OF assms]] by (simp add: detect_def)

lemma no_observations:
  "detection_result_create nfc COMPLETE [] None = Inr \<lparr>dr_state = COMPLETE, dr_observations = [], dr_reason = None\<rparr>"
  "detection_result_create nfc UNSUPPORTED_RESULT [] (Some ''multi_stream_batch_unsupported'') =
     Inr \<lparr>dr_state = UNSUPPORTED_RESULT, dr_observations = [], dr_reason = Some ''multi_stream_batch_unsupported''\<rparr>"
  "detection_result_create nfc UNSUPPORTED_RESULT [] (Some ''platform_unsupported'') =
     Inr \<lparr>dr_state = UNSUPPORTED_RESULT, dr_observations = [], dr_reason = Some ''platform_unsupported''\<rparr>"
  by (simp_all add: detection_result_create_def detection_result_post_def validate_result_def run_checks.simps(2)
      require_def checked_def token_evaluation)

lemma detect_core_cases:
  assumes "frames \<noteq> []"
  obtains (multi) "detect_core nfc supported infer w src frames =
      Inr (\<lparr>dr_state = UNSUPPORTED_RESULT, dr_observations = [], dr_reason = Some ''multi_stream_batch_unsupported''\<rparr>, w)"
  | (unknown) "detect_core nfc supported infer w src frames = Inl (detector_error ISOLATION_UNAVAILABLE)"
  | (platform) "detect_core nfc supported infer w src frames =
      Inr (\<lparr>dr_state = UNSUPPORTED_RESULT, dr_observations = [], dr_reason = Some ''platform_unsupported''\<rparr>, w)"
  | (run) "one_stream frames" "supported w = Some True" "detect_core nfc supported infer w src frames =
      bindE (run_worker nfc infer w src frames) (\<lambda>(output, w').
      bindE (observations_of_output nfc src frames output) (\<lambda>r. Inr (r, w')))"
proof (cases "one_stream frames")
  case False
  then show ?thesis using assms one_stream_iff [OF assms] by (intro multi) (simp add: detect_core_def no_observations)
next
  case True
  then have core: "detect_core nfc supported infer w src frames =
     (case supported w of
             None \<Rightarrow> Inl (detector_error ISOLATION_UNAVAILABLE)
           | Some False \<Rightarrow>
               bindE (detection_result_create nfc UNSUPPORTED_RESULT [] (Some ''platform_unsupported'')) (\<lambda>r. Inr (r, w))
           | Some True \<Rightarrow>
               bindE (run_worker nfc infer w src frames) (\<lambda>(output, w').
               bindE (observations_of_output nfc src frames output) (\<lambda>r. Inr (r, w'))))"
    using assms one_stream_iff [OF assms] by (simp add: detect_core_def)
  show ?thesis
  proof (cases "supported w")
    case None
    then show ?thesis by (intro unknown) (simp add: core)
  next
    case (Some b)
    then show ?thesis using True by (cases b) (auto intro: platform run simp: core no_observations)
  qed
qed

lemma passed_on_cases: "passed_on x = decode_failed \<or> passed_on x = x \<and> (\<exists>c port operation. x = PortError c port operation)"
  by (cases x) auto

lemma run_worker_error:
  assumes "run_worker nfc infer w src frames = Inl e"
  shows "(\<exists>c. e = detector_error c) \<or> infer w src frames = Inl e \<and> (\<exists>c port operation. e = PortError c port operation)"
proof (cases "infer w src frames")
  case (Inl x)
  with assms passed_on_cases [of x] show ?thesis by (auto simp: run_worker_def)
next
  case (Inr answer)
  then obtain "output" w' x where "worker_result_post nfc output = Some x" "e = passed_on x"
    using assms by (cases answer) (auto simp: run_worker_def checked_def split: option.splits)
  with foreseen_worker_posts(3) [of nfc "output"] have "\<exists>c. e = detector_error c"
    by (cases x) (auto simp: foreseen_check_def foreseen_def detector_error_def)
  then show ?thesis by blast
qed

lemma detect_answered:
  assumes "nfc_ascii nfc" and "perception_frames nfc src frames DETECTOR ''detect'' = Inr m"
    and "\<forall>f \<in> set frames. frame_valid nfc f" and "one_stream frames" and "run_worker nfc infer w src frames = Inr (output, w')"
  shows "answered nfc src frames output"
  using assms perception_frames_InrD(7) [OF assms(2)] by (auto simp: answered_def run_worker_Inr)

lemma groups_accepted:
  assumes "answered nfc src frames output" and "groups_of nfc src frames output groups"
    and "length (concat groups) \<le> MAX_PERCEPTION_OBSERVATIONS" and "distinct (map ob_observation_id (concat groups))"
  shows "perception_observations nfc src (frames_by_id frames) (concat groups) port operation = Inr (by_id (concat groups))"
proof -
  have accepted: "perception_frames nfc src frames DETECTOR ''detect'' = Inr (frames_by_id frames)"
    using assms(1) by (simp add: answered_def)
  have each: "observation_post nfc ob = None \<and> observation_in_scope src (frames_by_id frames) ob" if "ob \<in> set (concat groups)" for ob
  proof -
    from groups_observations [OF assms(2) that] obtain f d
      where f: "f \<in> set frames" and d: "observes nfc src (stream_of src frames) f d ob" by blast
    have "frames_by_id frames (fr_frame_id f) = Some f" by (rule frames_by_id_mem [OF perception_frames_InrD(3) [OF accepted] f])
    from observes_in_scope [where frames = "frames_by_id frames", OF d this answered_stream(1) [OF assms(1) f]] d show ?thesis by (simp add: observes_def)
  qed
  have "run_checks (map (observation_post nfc) (concat groups)) = None" using each by (auto simp: run_checks_None)
  moreover have "list_all (observation_in_scope src (frames_by_id frames)) (concat groups)" using each by (auto simp: list_all_iff)
  ultimately show ?thesis using assms(3,4)
    by (simp add: perception_observations_def checked_def run_checks.simps(2) except_value_check_def)
qed

section \<open>Properties\<close>

text \<open>
  C13: the observations of a complete detection are accepted as they are by the next port (valid, distinct,
  of the requested frames, with the frame's time and the stream's size), and they are the worker's: frame
  by frame in the order of the request, and detection by detection in the order of the worker's frame of
  the same index, time and duration, each with the detection's confidence and its box mapped to the source.
\<close>

theorem detections_observed:
  assumes "nfc_ascii nfc" and "\<forall>f \<in> set frames. frame_valid nfc f"
    and "detect nfc supported infer s src frames = Inr (r, s')" and "dr_state r = COMPLETE"
  shows "perception_observations nfc src (frames_by_id frames) (dr_observations r) port operation =
      Inr (by_id (dr_observations r)) \<and>
    (if frames = [] then dr_observations r = []
     else \<exists>output groups. infer (vd_worker s) src frames = Inr (output, vd_worker s') \<and> dr_observations r = concat groups \<and>
       groups_of nfc src frames output groups)"
proof -
  obtain m where m: "perception_frames nfc src frames DETECTOR ''detect'' = Inr m"
    using assms(3) by (auto simp: detect_def bindE_Inr_iff)
  obtain w where core: "detect_core nfc supported infer (vd_worker s) src frames = Inr (r, w)" and w: "vd_worker s' = w"
    using assms(3) by (auto simp: detect_unfold [OF m] bindE_Inr_iff)
  show ?thesis
  proof (cases "frames = []")
    case True
    with core have "dr_observations r = []" by (auto simp: detect_core_def no_observations)
    with True show ?thesis by (simp add: perception_observations_def checked_def run_checks.simps(2) except_value_check_def)
  next
    case nonempty: False
    from nonempty show ?thesis
    proof (cases rule: detect_core_cases [of frames nfc supported infer "vd_worker s" src])
      case run
      with core obtain "output" where answer: "run_worker nfc infer (vd_worker s) src frames = Inr (output, w)"
        and r: "observations_of_output nfc src frames output = Inr r" by (auto simp: bindE_Inr_iff)
      note answered = detect_answered [OF assms(1) m assms(2) run(1) answer]
      from observations_of_output_outcome [OF answered] r obtain groups
        where groups: "groups_of nfc src frames output groups" "distinct (map ob_observation_id (concat groups))"
          "dr_observations r = concat groups" by (auto split: if_splits)
      have "length (concat groups) \<le> MAX_PERCEPTION_OBSERVATIONS"
        using r by (auto simp: observations_of_output_def detection_result_create_def detection_result_post_def bindE_Inr_iff
            checked_Inr_iff run_checks_ConsN Let_def groups(3) [symmetric] split: if_splits)
      from groups_accepted [OF answered groups(1) this groups(2)] groups answer nonempty w show ?thesis
        by (auto simp: run_worker_Inr)
    qed (use core assms(4) in auto)
  qed
qed

text \<open>
  C27: an exception that leaves \<open>detect\<close> is a port error of the detector, a port error the worker itself
  raised, or the bare \<open>ValueError\<close> of \<open>DetectionResult\<close> on equal identifiers; and this last one only when
  two observations of the worker's answer have different content and the same SHA-256.  Every other
  exception of the worker, and every flaw of its answer, has become a port error.
\<close>

theorem detect_errors:
  assumes "nfc_ascii nfc" and "\<forall>f \<in> set frames. frame_valid nfc f"
    and "detect nfc supported infer s src frames = Inl e"
  shows "(\<exists>c. e = PortError c DETECTOR ''detect'') \<or>
    infer (vd_worker s) src frames = Inl e \<and> (\<exists>c port operation. e = PortError c port operation) \<or>
    e = ValueError ''observation identifiers must be unique'' \<and>
      (\<exists>answer w groups. infer (vd_worker s) src frames = Inr (answer, w) \<and> groups_of nfc src frames answer groups \<and>
         (\<exists>o1 \<in> set (concat groups). \<exists>o2 \<in> set (concat groups). observation_bytes o1 \<noteq> observation_bytes o2 \<and>
            sha256_hex (observation_bytes o1) = sha256_hex (observation_bytes o2)))"
proof (cases "perception_frames nfc src frames DETECTOR ''detect''")
  case (Inl e')
  then have "e' = e" using assms(3) by (simp add: detect_def)
  with Inl show ?thesis
    by (auto simp: perception_frames_def Let_def checked_def run_checks.simps(2) require_def split: option.splits if_splits)
next
  case (Inr m)
  then have core: "detect_core nfc supported infer (vd_worker s) src frames = Inl e"
    using assms(3) by (auto simp: detect_unfold [OF Inr] bindE_Inl_iff)
  then have nonempty: "frames \<noteq> []" by (auto simp: detect_core_def no_observations)
  from nonempty show ?thesis
  proof (cases rule: detect_core_cases [of frames nfc supported infer "vd_worker s" src])
    case run
    show ?thesis
    proof (cases "run_worker nfc infer (vd_worker s) src frames")
      case (Inl e')
      then have "e' = e" using core run(3) by simp
      with run_worker_error [OF Inl] show ?thesis by (auto simp: detector_error_def)
    next
      case (Inr answer)
      then obtain "output" w where answer: "run_worker nfc infer (vd_worker s) src frames = Inr (output, w)" by (cases answer) auto
      with core run(3) have "observations_of_output nfc src frames output = Inl e" by (auto simp: bindE_Inl_iff)
      moreover note answered = detect_answered [OF assms(1) \<open>_ = Inr m\<close> assms(2) run(1) answer]
      ultimately consider ec where "e = detector_error ec" | groups where "groups_of nfc src frames output groups"
          "\<not> distinct (map ob_observation_id (concat groups))" "e = duplicate_ids"
        using observations_of_output_outcome [OF answered] by (auto split: if_splits)
      then show ?thesis
      proof cases
        case (2 groups)
        have "infer (vd_worker s) src frames = Inr (output, w)" using answer by (simp add: run_worker_Inr)
        with 2(1,3) equal_ids_collide [OF answered 2(1,2)] show ?thesis unfolding duplicate_ids_def by blast
      qed (simp add: detector_error_def)
    qed
  qed (use core in \<open>auto simp: detector_error_def\<close>)
qed

section \<open>Witnesses\<close>

definition clip_detector :: "fixture_worker vehicle_detector" where
  "clip_detector = \<lparr>vd_worker = \<lparr>fw_result = clip_answer, fw_calls = 0\<rparr>, vd_calls = []\<rparr>"

lemma clip_infer: "fixture_infer id (vd_worker clip_detector) clip_source [clip_frame] =
    Inr (clip_answer, \<lparr>fw_result = clip_answer, fw_calls = 1\<rparr>)"
  by (simp add: fixture_infer_def clip_request clip_detector_def)

lemma clip_detected: "\<exists>r s'. detect id (\<lambda>_. Some True) (fixture_infer id) clip_detector clip_source [clip_frame] = Inr (r, s') \<and>
    dr_state r = COMPLETE \<and> length (dr_observations r) = 1"
proof -
  note D = decoded_answer [OF nfc_id clip_request _ clip_decoded, simplified, OF clip_frame_valid]
  have core: "detect_core id (\<lambda>_. Some True) (fixture_infer id) (vd_worker clip_detector) clip_source [clip_frame] =
      bindE (observations_of_output id clip_source [clip_frame] clip_answer) (\<lambda>r. Inr (r, \<lparr>fw_result = clip_answer, fw_calls = 1\<rparr>))"
    by (simp add: detect_core_def run_worker_def clip_infer clip_answer_valid checked_def)
  have count: "(\<Sum>v \<leftarrow> wr_frames clip_answer. length (wf_detections v)) = 1" by (simp add: clip_answer_def)
  from complete_answer [OF D(1,2,3)] D(4) count obtain groups where groups: "length (concat groups) = 1"
    "observations_of_output id clip_source [clip_frame] clip_answer =
       (if distinct (map ob_observation_id (concat groups))
        then Inr \<lparr>dr_state = COMPLETE, dr_observations = concat groups, dr_reason = None\<rparr> else Inl duplicate_ids)" by auto
  obtain ob where "concat groups = [ob]" using groups(1) by (cases "concat groups") auto
  with groups(2) show ?thesis by (simp add: detect_unfold [OF clip_request] core)
qed

lemma detections_observed_witness:
  "\<exists>r s'. detect id (\<lambda>_. Some True) (fixture_infer id) clip_detector clip_source [clip_frame] = Inr (r, s') \<and>
     length (dr_observations r) = 1 \<and>
     perception_observations id clip_source (frames_by_id [clip_frame]) (dr_observations r) TRACKER ''track'' =
       Inr (by_id (dr_observations r))"
proof -
  obtain r s' where r: "detect id (\<lambda>_. Some True) (fixture_infer id) clip_detector clip_source [clip_frame] = Inr (r, s')"
    "dr_state r = COMPLETE" "length (dr_observations r) = 1" using clip_detected by blast
  from detections_observed [OF nfc_id _ r(1,2), of TRACKER "''track''"] clip_frame_valid r show ?thesis by auto
qed

lemma detect_errors_witness:
  "\<exists>e. detect id (\<lambda>_. None) (fixture_infer id) clip_detector clip_source [clip_frame] = Inl e \<and>
     (\<exists>c. e = PortError c DETECTOR ''detect'')"
proof -
  have e: "detect id (\<lambda>_. None) (fixture_infer id) clip_detector clip_source [clip_frame] =
      Inl (detector_error ISOLATION_UNAVAILABLE)"
    by (simp add: detect_unfold [OF clip_request] detect_core_def)
  have "\<forall>f \<in> set [clip_frame]. frame_valid id f" using clip_frame_valid by simp
  from detect_errors [OF nfc_id this e] e clip_infer show ?thesis by (auto simp: detector_error_def)
qed

end
