(* ===== verification/Isolated_Worker.thy ===== *)
theory Isolated_Worker
  imports Detector
begin

text \<open>
  \<open>IsolatedPerceptionWorker\<close> of \<open>detection.py\<close> and the command line of its sandbox.  What the operating
  system answers during a call is the record \<open>worker_system\<close>: one field per system step of \<open>infer\<close>, in
  the order of the code, and the readings of the cancellation event and of the monotonic clock, numbered
  from 0 (on entry) to 7 (after decoding).
\<close>

section \<open>The sandbox command line\<close>

record perception_runtime =
  prt_root :: string
  prt_media_root :: string

definition worker_arguments :: "perception_limits \<Rightarrow> int list \<Rightarrow> string list" where
  "worker_arguments limits decode_indices =
     [''/perception-runtime/python/bin/python3.13'', ''/perception-runtime/worker/perception_worker.py'',
      ''--decode-indices'', join_on (CHR '','') (map show_int decode_indices),
      ''--max-source-bytes'', show_int (pl_max_source_bytes limits),
      ''--max-duration-seconds'', show_int (pl_max_duration_seconds limits),
      ''--max-width'', show_int (pl_max_width limits),
      ''--max-height'', show_int (pl_max_height limits),
      ''--max-pixels'', show_int (pl_max_pixels limits),
      ''--max-frames'', show_int (pl_max_frames limits),
      ''--max-decoded-bytes'', show_int (pl_max_decoded_bytes limits),
      ''--max-detections-per-frame'', show_int (pl_max_detections_per_frame limits)]"

definition sandbox_options :: "perception_runtime \<Rightarrow> string list" where
  "sandbox_options runtime =
     [''--unshare-user'', ''--uid'', ''65534'', ''--gid'', ''65534'', ''--unshare-net'', ''--unshare-pid'', ''--unshare-ipc'',
      ''--unshare-uts'', ''--unshare-cgroup-try'', ''--disable-userns'', ''--die-with-parent'', ''--new-session'',
      ''--cap-drop'', ''ALL'', ''--clearenv'',
      ''--setenv'', ''PATH'', ''/perception-runtime/python/bin'',
      ''--setenv'', ''HOME'', ''/nonexistent'',
      ''--setenv'', ''LANG'', ''C.UTF-8'',
      ''--setenv'', ''PYTHONPATH'', ''/perception-runtime/site-packages:/media-runtime/venv/lib/python3.13/site-packages'',
      ''--setenv'', ''LD_LIBRARY_PATH'', ''/perception-runtime/site-packages/openvino/libs:/media-runtime/ffmpeg/lib'',
      ''--setenv'', ''OPENVINO_TELEMETRY_CONSENT'', ''NO'',
      ''--ro-bind'', prt_root runtime, ''/perception-runtime'',
      ''--ro-bind'', prt_media_root runtime, ''/media-runtime'',
      ''--dir'', ''/lib'', ''--ro-bind'', ''/usr/lib/x86_64-linux-gnu'', ''/lib/x86_64-linux-gnu'',
      ''--ro-bind'', ''/usr/lib64'', ''/lib64'',
      ''--dir'', ''/sys/devices/system/cpu'', ''--ro-bind'', ''/sys/devices/system/cpu'', ''/sys/devices/system/cpu'',
      ''--dir'', ''/sys/devices/system/node'', ''--ro-bind'', ''/sys/devices/system/node'', ''/sys/devices/system/node'',
      ''--dir'', ''/sys/kernel/mm'', ''--ro-bind'', ''/sys/kernel/mm'', ''/sys/kernel/mm'',
      ''--dir'', ''/etc'', ''--ro-bind'', ''/etc/ld.so.cache'', ''/etc/ld.so.cache'',
      ''--proc'', ''/proc'', ''--dev'', ''/dev'', ''--size'', ''33554432'', ''--tmpfs'', ''/tmp'', ''--remount-ro'', ''/'',
      ''--chdir'', ''/'']"

definition namespace_argv :: "perception_runtime \<Rightarrow> perception_limits \<Rightarrow> int list \<Rightarrow> string list" where
  "namespace_argv runtime limits decode_indices =
     [''/usr/bin/bwrap''] @ sandbox_options runtime @ worker_arguments limits decode_indices"

definition unit_properties :: "perception_limits \<Rightarrow> int \<Rightarrow> int \<Rightarrow> string list" where
  "unit_properties limits pid snapshot_fd =
     [''User=nobody'', ''Group=nogroup'', ''NoNewPrivileges=yes'', ''KillMode=control-group'',
      ''MemoryMax='' @ show_int (pl_memory_bytes limits), ''MemorySwapMax=0'',
      ''TasksMax='' @ show_int (pl_task_count limits), ''CPUQuota=400%'',
      ''RuntimeMaxSec='' @ show_int (max 1 ((pl_wall_timeout_ms limits + 999) div 1000)) @ ''s'',
      ''LimitNOFILE=64'', ''LimitNPROC='' @ show_int (pl_task_count limits),
      ''LimitFSIZE='' @ show_int (pl_max_stdout_bytes limits), ''UMask=0077'',
      ''OpenFile=/proc/'' @ show_int pid @ ''/fd/'' @ show_int snapshot_fd @ '':visualworld-source:read-only'']"

definition systemd_argv ::
  "perception_runtime \<Rightarrow> perception_limits \<Rightarrow> int \<Rightarrow> int \<Rightarrow> string \<Rightarrow> int list \<Rightarrow> string list" where
  "systemd_argv runtime limits pid snapshot_fd unit decode_indices =
     [''/usr/bin/systemd-run'', ''--quiet'', ''--pipe'', ''--wait'', ''--service-type=exec'', ''--unit='' @ unit] @
     map (\<lambda>item. ''--property='' @ item) (unit_properties limits pid snapshot_fd) @
     namespace_argv runtime limits decode_indices"

text \<open>\<open>parts\<close> are the numbers of the version of the C library, \<open>None\<close> when it has other parts\<close>

definition supported_platform :: "string \<Rightarrow> string \<Rightarrow> string \<Rightarrow> int list option \<Rightarrow> bool" where
  "supported_platform platform machine libc parts =
     (case parts of
        None \<Rightarrow> False
      | Some version \<Rightarrow> platform = ''linux'' \<and> machine = ''x86_64'' \<and> libc = ''glibc'' \<and> [2, 28] \<le> version)"

section \<open>\<open>infer\<close>\<close>

record worker_system =
  ws_supported :: "bool res"
  ws_cancelled :: "nat \<Rightarrow> bool option"
  ws_clock :: "nat \<Rightarrow> int"
  ws_runtime_copied :: bool
  ws_media_boundary :: check
  ws_perception_boundary :: check
  ws_open_source :: check
  ws_source_wrapped :: bool
  ws_snapshot :: "(string \<times> int) res"
  ws_snapshot_wrapped :: bool
  ws_source_closed :: bool
  ws_snapshot_closed :: bool
  ws_run :: "perception_limits \<Rightarrow> int list \<Rightarrow> worker_run res"

record isolated_worker =
  iw_limits :: perception_limits

definition isolated_worker_create :: "perception_limits option \<Rightarrow> isolated_worker res" where
  "isolated_worker_create limits =
     except_value
       (bindE (copy_perception_limits (case limits of None \<Rightarrow> default_perception_limits | Some l \<Rightarrow> l) None) (\<lambda>owned.
        Inr \<lparr>iw_limits = owned\<rparr>))
       (ValueError ''invalid perception runtime or limits'')"

text \<open>
  A system step may raise any exception.  What \<open>infer\<close> makes of it depends on the step: the boundary of
  the media runtime and the opening of the source are guarded against \<open>PortError\<close> only, the snapshot also
  against \<open>OSError\<close>, the run of the process also against \<open>SubprocessError\<close>; an exception that a handler
  does not name (\<open>None\<close>) leaves \<open>infer\<close> as it is.
\<close>

fun port_handler :: "exn \<Rightarrow> port_error_code option" where
  "port_handler (PortError c _ _) = Some c"
| "port_handler _ = None"

fun snapshot_handler :: "exn \<Rightarrow> port_error_code option" where
  "snapshot_handler (OSError _) = Some ISOLATION_UNAVAILABLE"
| "snapshot_handler e = port_handler e"

fun process_handler :: "exn \<Rightarrow> port_error_code option" where
  "process_handler (SubprocessError _) = Some ISOLATION_UNAVAILABLE"
| "process_handler e = snapshot_handler e"

text \<open>
  The handler's code is raised again after the file that is still open is closed, and a failure to close
  it takes precedence; an exception the handler does not name is not replaced.
\<close>

definition reraise :: "(exn \<Rightarrow> port_error_code option) \<Rightarrow> bool \<Rightarrow> exn \<Rightarrow> exn" where
  "reraise handler shut e =
     (case handler e of
        None \<Rightarrow> e
      | Some c \<Rightarrow> detector_error (if shut then c else ISOLATION_UNAVAILABLE))"

definition recoded :: "check \<Rightarrow> unit res" where
  "recoded outcome = (case outcome of None \<Rightarrow> Inr () | Some e \<Rightarrow> Inl (reraise port_handler True e))"

definition checkpoint_at :: "worker_system \<Rightarrow> nat \<Rightarrow> int \<Rightarrow> int res" where
  "checkpoint_at sys k deadline_ns = checkpoint (ws_cancelled sys k) (ws_clock sys k) deadline_ns"

text \<open>from opening the source to its sealed snapshot: the digest and the number of bytes\<close>

definition take_snapshot :: "worker_system \<Rightarrow> int \<Rightarrow> (string \<times> int) res" where
  "take_snapshot sys deadline_ns =
     (case ws_snapshot sys of
        Inl e \<Rightarrow> Inl (reraise snapshot_handler (ws_source_closed sys) e)
      | Inr taken \<Rightarrow>
          if \<not> ws_snapshot_wrapped sys then Inl (detector_error ISOLATION_UNAVAILABLE)
          else
            let setup_error = (if ws_source_closed sys then checkpoint_failure (ws_cancelled sys 4) (ws_clock sys 4) deadline_ns
                               else Some ISOLATION_UNAVAILABLE)
            in case setup_error of
                 None \<Rightarrow> Inr taken
               | Some c \<Rightarrow> Inl (detector_error (if ws_snapshot_closed sys then c else ISOLATION_UNAVAILABLE)))"

definition run_in_sandbox :: "worker_system \<Rightarrow> perception_limits \<Rightarrow> int \<Rightarrow> int list \<Rightarrow> worker_run res" where
  "run_in_sandbox sys limits deadline_ns requested =
     (case bindE (remaining_worker_limits limits (ws_cancelled sys 5) (ws_clock sys 5) deadline_ns) (\<lambda>worker_limits.
           bindE (ws_run sys worker_limits requested) (\<lambda>run.
           bindE (checkpoint_at sys 6 deadline_ns) (\<lambda>_. Inr run))) of
        Inl e \<Rightarrow> Inl (reraise process_handler (ws_snapshot_closed sys) e)
      | Inr run \<Rightarrow> if ws_snapshot_closed sys then Inr run else Inl (detector_error ISOLATION_UNAVAILABLE))"

definition requested_indices :: "frame_ref list \<Rightarrow> int list" where
  "requested_indices frames = sort (map (\<lambda>f. int_of_decimal (fr_decode_index f)) frames)"

text \<open>the part of \<open>infer\<close> after the limits are copied and the deadline is set\<close>

definition infer_within ::
  "(string \<Rightarrow> string) \<Rightarrow> (string \<Rightarrow> (json \<times> string) option) \<Rightarrow> worker_system \<Rightarrow> perception_limits \<Rightarrow> int \<Rightarrow> source \<Rightarrow> frame_ref list \<Rightarrow>
   worker_result res" where
  "infer_within nfc loads sys limits deadline_ns src frames =
     bindE (checkpoint_at sys 1 deadline_ns) (\<lambda>_.
     if length (remdups (map fr_stream_index frames)) \<noteq> 1 then Inl (detector_error INVALID_REQUEST)
     else if pl_max_frames limits \<le> last (requested_indices frames) then Inl (detector_error LIMIT_EXCEEDED)
     else bindE (recoded (ws_media_boundary sys)) (\<lambda>_.
     bindE (checkpoint_at sys 2 deadline_ns) (\<lambda>_.
     bindE (checked (ws_perception_boundary sys) ()) (\<lambda>_.
     bindE (checkpoint_at sys 3 deadline_ns) (\<lambda>_.
     bindE (recoded (ws_open_source sys)) (\<lambda>_.
     if \<not> ws_source_wrapped sys then Inl (detector_error ISOLATION_UNAVAILABLE)
     else bindE (take_snapshot sys deadline_ns) (\<lambda>(digest, source_bytes).
     if digest \<noteq> fp_digest (so_fingerprint src) \<or> show_int source_bytes \<noteq> fp_bytes (so_fingerprint src)
     then Inl (detector_error (if ws_snapshot_closed sys then CONFLICT else ISOLATION_UNAVAILABLE))
     else bindE (run_in_sandbox sys limits deadline_ns (requested_indices frames)) (\<lambda>run.
     bindE (decode_worker_output nfc loads run src frames digest source_bytes limits) (\<lambda>result.
     bindE (checkpoint_at sys 7 deadline_ns) (\<lambda>_. Inr result))))))))))"

definition isolated_infer ::
  "(string \<Rightarrow> string) \<Rightarrow> (string \<Rightarrow> (json \<times> string) option) \<Rightarrow> worker_system \<Rightarrow> isolated_worker worker" where
  "isolated_infer nfc loads sys w src frames =
     bindE (perception_frames nfc src frames DETECTOR ''detect'') (\<lambda>_.
     bindE (ws_supported sys) (\<lambda>supported.
     if \<not> supported then Inl (detector_error UNSUPPORTED)
     else if frames = [] then Inl (ValueError ''the adapter does not invoke a worker for an empty batch'')
     else if ws_cancelled sys 0 = None then Inl (detector_error ISOLATION_UNAVAILABLE)
     else if ws_cancelled sys 0 = Some True then Inl (detector_error CANCELLED)
     else case copy_perception_limits (iw_limits w) None of
            Inl _ \<Rightarrow> Inl (detector_error ISOLATION_UNAVAILABLE)
          | Inr limits \<Rightarrow>
              if \<not> ws_runtime_copied sys then Inl (detector_error ISOLATION_UNAVAILABLE)
              else bindE (infer_within nfc loads sys limits (ws_clock sys 0 + pl_wall_timeout_ms limits * 1000000) src frames)
                (\<lambda>result. Inr (result, w))))"

end
