(* ===== verification/Isolated_Facts.thy ===== *)
theory Isolated_Facts
  imports Isolated_Worker Detector_Decoding
begin

text \<open>
  What the detector may rely on when a perception worker answers, as a locale that is interpreted on the
  isolated worker; when that worker answers, and what it raises.
\<close>

section \<open>Workers that answer the request\<close>

text \<open>an answer the detector turns into observations without a failure\<close>

definition full_answer :: "(string \<Rightarrow> string) \<Rightarrow> source \<Rightarrow> frame_ref list \<Rightarrow> worker_result \<Rightarrow> bool" where
  "full_answer nfc src frames output \<longleftrightarrow>
     answered nfc src frames output \<and> output_fits (stream_of src frames) frames output \<and>
     detector_provenance nfc src = Inr (wr_provenance output) \<and> (\<forall>f \<in> set frames. frame_matches f (frame_of output f))"

locale perception_worker =
  fixes nfc :: "string \<Rightarrow> string"
    and infer :: "'w \<Rightarrow> source \<Rightarrow> frame_ref list \<Rightarrow> (worker_result \<times> 'w) res"
    and able :: "'w \<Rightarrow> bool"
  assumes answers_request:
    "\<lbrakk>able w; perception_frames nfc src frames DETECTOR ''detect'' = Inr by_frame; \<forall>f \<in> set frames. frame_valid nfc f;
      infer w src frames = Inr (output, w')\<rbrakk> \<Longrightarrow> full_answer nfc src frames output \<and> able w'"
begin

lemma infer_detected:
  assumes "able w" and "perception_frames nfc src frames DETECTOR ''detect'' = Inr by_frame"
    and "\<forall>f \<in> set frames. frame_valid nfc f" and "infer w src frames = Inr (output, w')"
  shows "run_worker nfc infer w src frames = Inr (output, w')"
    and "\<exists>groups. groups_of nfc src frames output groups \<and>
      length (concat groups) = (\<Sum>v \<leftarrow> wr_frames output. length (wf_detections v)) \<and>
      observations_of_output nfc src frames output =
        (if distinct (map ob_observation_id (concat groups))
         then Inr \<lparr>dr_state = COMPLETE, dr_observations = concat groups, dr_reason = None\<rparr> else Inl duplicate_ids)"
proof -
  have full: "full_answer nfc src frames output" using answers_request [OF assms] by blast
  then show "run_worker nfc infer w src frames = Inr (output, w')"
    using assms(4) by (simp add: run_worker_Inr full_answer_def answered_def)
  from full complete_answer [of nfc src frames "output"]
  show "\<exists>groups. groups_of nfc src frames output groups \<and>
      length (concat groups) = (\<Sum>v \<leftarrow> wr_frames output. length (wf_detections v)) \<and>
      observations_of_output nfc src frames output =
        (if distinct (map ob_observation_id (concat groups))
         then Inr \<lparr>dr_state = COMPLETE, dr_observations = concat groups, dr_reason = None\<rparr> else Inl duplicate_ids)"
    by (simp add: full_answer_def)
qed

end

section \<open>When the isolated worker answers\<close>

lemma checkpoint_at_Inr:
  "checkpoint_at sys k deadline = Inr n \<longleftrightarrow> ws_cancelled sys k = Some False \<and> ws_clock sys k < deadline \<and> n = ws_clock sys k"
  by (auto simp: checkpoint_at_def checkpoint_def checkpoint_failure_def split: option.splits bool.splits)

lemma copy_perception_limits_Inr:
  "copy_perception_limits v None = Inr u \<longleftrightarrow> u = v \<and> perception_limits_post v = None"
  by (auto simp: copy_perception_limits_def checked_Inr_iff)

lemma take_snapshot_Inr:
  assumes "take_snapshot sys deadline = Inr taken"
  shows "ws_snapshot sys = Inr taken" "ws_cancelled sys 4 = Some False" "ws_clock sys 4 < deadline"
  using assms
  by (auto simp: take_snapshot_def checkpoint_failure_def Let_def split: sum.splits if_splits option.splits bool.splits)

lemma recoded_Inr: "recoded outcome = Inr u \<longleftrightarrow> outcome = None"
  by (cases outcome) (simp_all add: recoded_def)

text \<open>The limits of the run: valid, and with no more time than is left\<close>

lemma remaining_limits_valid:
  assumes "perception_limits_post limits = None" and "1 \<le> n"
  shows "perception_limits_post (limits\<lparr>pl_wall_timeout_ms := min (pl_wall_timeout_ms limits) n\<rparr>) = None"
  using assms by (simp add: perception_limits_post_def run_checks_ConsN min.coboundedI1)

lemma remaining_worker_limits_cases:
  assumes "perception_limits_post limits = None"
  shows "(\<exists>c. remaining_worker_limits limits cancellation now deadline = Inl (detector_error c)) \<or>
    (\<exists>n. remaining_worker_limits limits cancellation now deadline = Inr (limits\<lparr>pl_wall_timeout_ms := n\<rparr>) \<and>
      cancellation = Some False \<and> 1 \<le> n \<and> n \<le> pl_wall_timeout_ms limits \<and> now + n * 1000000 \<le> deadline)"
proof (cases "checkpoint cancellation now deadline")
  case (Inl e)
  then obtain c where "e = detector_error c" by (auto simp: checkpoint_def split: option.splits)
  with Inl show ?thesis by (auto simp: remaining_worker_limits_def)
next
  case (Inr t)
  then have t: "t = now" "cancellation = Some False"
    by (auto simp: checkpoint_def checkpoint_failure_def split: option.splits bool.splits if_splits)
  let ?ms = "(deadline - now) div 1000000"
  show ?thesis
  proof (cases "?ms < 1")
    case True
    with Inr t show ?thesis by (simp add: remaining_worker_limits_def Let_def) blast
  next
    case False
    have "0 < pl_wall_timeout_ms limits" using assms by (simp add: perception_limits_post_def run_checks_ConsN)
    moreover have "?ms * 1000000 \<le> deadline - now" by simp
    moreover have "min (pl_wall_timeout_ms limits) ?ms * 1000000 \<le> ?ms * 1000000" by (intro mult_right_mono) simp_all
    ultimately show ?thesis
      using Inr t False remaining_limits_valid [OF assms, of ?ms]
      by (intro disjI2 exI [of _ "min (pl_wall_timeout_ms limits) ?ms"])
        (simp add: remaining_worker_limits_def copy_perception_limits_def checked_def Let_def)
  qed
qed

lemma run_in_sandbox_Inr:
  assumes "run_in_sandbox sys limits deadline requested = Inr run" and "perception_limits_post limits = None"
  shows "\<exists>n. 1 \<le> n \<and> n \<le> pl_wall_timeout_ms limits \<and> ws_clock sys 5 + n * 1000000 \<le> deadline \<and>
      ws_run sys (limits\<lparr>pl_wall_timeout_ms := n\<rparr>) requested = Inr run"
    "ws_cancelled sys 5 = Some False" "ws_cancelled sys 6 = Some False" "ws_clock sys 6 < deadline"
proof -
  let ?limits = "remaining_worker_limits limits (ws_cancelled sys 5) (ws_clock sys 5) deadline"
  obtain worker_limits where w: "?limits = Inr worker_limits" and run: "ws_run sys worker_limits requested = Inr run"
    and last: "checkpoint_at sys 6 deadline = Inr (ws_clock sys 6)"
    using assms(1) by (auto simp: run_in_sandbox_def bindE_Inr_iff checkpoint_at_Inr split: sum.splits if_split_asm)
  from remaining_worker_limits_cases [OF assms(2), of "ws_cancelled sys 5" "ws_clock sys 5" deadline] w obtain n
    where n: "worker_limits = limits\<lparr>pl_wall_timeout_ms := n\<rparr>" "ws_cancelled sys 5 = Some False" "1 \<le> n"
      "n \<le> pl_wall_timeout_ms limits" "ws_clock sys 5 + n * 1000000 \<le> deadline" by auto
  show "\<exists>n. 1 \<le> n \<and> n \<le> pl_wall_timeout_ms limits \<and> ws_clock sys 5 + n * 1000000 \<le> deadline \<and>
      ws_run sys (limits\<lparr>pl_wall_timeout_ms := n\<rparr>) requested = Inr run" using n(3-5) run n(1) by blast
  show "ws_cancelled sys 5 = Some False" by (fact n(2))
  show "ws_cancelled sys 6 = Some False" "ws_clock sys 6 < deadline" using last by (simp_all add: checkpoint_at_Inr)
qed

text \<open>everything a call that returns has seen\<close>

definition answered_in_time ::
  "(string \<Rightarrow> string) \<Rightarrow> (string \<Rightarrow> (json \<times> string) option) \<Rightarrow> worker_system \<Rightarrow> perception_limits \<Rightarrow> int \<Rightarrow> source \<Rightarrow> frame_ref list \<Rightarrow>
   worker_result \<Rightarrow> bool" where
  "answered_in_time nfc loads sys limits deadline src frames output \<longleftrightarrow>
     (\<forall>k \<in> {1..7}. ws_cancelled sys k = Some False \<and> ws_clock sys k < deadline) \<and>
     (\<forall>f \<in> set frames. int_of_decimal (fr_decode_index f) < pl_max_frames limits) \<and>
     (\<exists>digest n ms run. ws_snapshot sys = Inr (digest, n) \<and> digest = fp_digest (so_fingerprint src) \<and>
        show_int n = fp_bytes (so_fingerprint src) \<and> 1 \<le> ms \<and> ms \<le> pl_wall_timeout_ms limits \<and>
        ws_clock sys 5 + ms * 1000000 \<le> deadline \<and>
        ws_run sys (limits\<lparr>pl_wall_timeout_ms := ms\<rparr>) (requested_indices frames) = Inr run \<and>
        decode_worker_output nfc loads run src frames digest n limits = Inr output)"

lemma sorted_last: "sorted xs \<Longrightarrow> x \<in> set xs \<Longrightarrow> (x :: int) \<le> last xs"
  by (induction xs) (auto split: if_splits)

lemma infer_within_Inr:
  assumes run: "infer_within nfc loads sys limits deadline src frames = Inr output" and limits: "perception_limits_post limits = None"
    and nonempty: "frames \<noteq> []"
  shows "answered_in_time nfc loads sys limits deadline src frames output"
proof -
  obtain digest n worker_run where facts: "\<forall>k \<in> {1, 2, 3, 7}. ws_cancelled sys k = Some False \<and> ws_clock sys k < deadline"
      "last (requested_indices frames) < pl_max_frames limits" "take_snapshot sys deadline = Inr (digest, n)"
      "digest = fp_digest (so_fingerprint src)" "show_int n = fp_bytes (so_fingerprint src)"
      "run_in_sandbox sys limits deadline (requested_indices frames) = Inr worker_run"
      "decode_worker_output nfc loads worker_run src frames digest n limits = Inr output"
    using run by (auto simp: infer_within_def bindE_Inr_iff checkpoint_at_Inr recoded_Inr checked_Inr_iff split: if_splits prod.splits)
  note snapshot = take_snapshot_Inr [OF facts(3)] and sandbox = run_in_sandbox_Inr [OF facts(6) limits]
  obtain ms where ms: "1 \<le> ms" "ms \<le> pl_wall_timeout_ms limits" "ws_clock sys 5 + ms * 1000000 \<le> deadline"
    "ws_run sys (limits\<lparr>pl_wall_timeout_ms := ms\<rparr>) (requested_indices frames) = Inr worker_run" using sandbox(1) by blast
  have "{1..7} = {1, 2, 3, 4, 5, 6, 7 :: nat}" by auto
  moreover have "ws_clock sys 5 < deadline" using ms(1,3) by simp
  ultimately have times: "\<forall>k \<in> {1..7}. ws_cancelled sys k = Some False \<and> ws_clock sys k < deadline"
    using facts(1) snapshot sandbox by simp
  have "int_of_decimal (fr_decode_index f) \<le> last (requested_indices frames)" if "f \<in> set frames" for f
    by (rule sorted_last) (use that in \<open>simp_all add: requested_indices_def\<close>)
  with facts(2) have "\<forall>f \<in> set frames. int_of_decimal (fr_decode_index f) < pl_max_frames limits" by fastforce
  with times snapshot(1) facts(4,5,7) ms show ?thesis unfolding answered_in_time_def by blast
qed

lemma isolated_infer_Inr:
  assumes "isolated_infer nfc loads sys w src frames = Inr (output, w')"
  shows "w' = w" "frames \<noteq> []" "ws_supported sys = Inr True" "ws_cancelled sys 0 = Some False" "perception_limits_post (iw_limits w) = None"
    "answered_in_time nfc loads sys (iw_limits w) (ws_clock sys 0 + pl_wall_timeout_ms (iw_limits w) * 1000000) src frames output"
proof -
  have facts: "w' = w \<and> frames \<noteq> [] \<and> ws_supported sys = Inr True \<and> ws_cancelled sys 0 = Some False \<and>
    perception_limits_post (iw_limits w) = None \<and>
    infer_within nfc loads sys (iw_limits w) (ws_clock sys 0 + pl_wall_timeout_ms (iw_limits w) * 1000000) src frames = Inr output"
    using assms by (auto simp: isolated_infer_def bindE_Inr_iff copy_perception_limits_Inr split: if_splits sum.splits)
  with infer_within_Inr [of nfc loads sys "iw_limits w" _ src frames "output"]
  show "w' = w" "frames \<noteq> []" "ws_supported sys = Inr True" "ws_cancelled sys 0 = Some False" "perception_limits_post (iw_limits w) = None"
    "answered_in_time nfc loads sys (iw_limits w) (ws_clock sys 0 + pl_wall_timeout_ms (iw_limits w) * 1000000) src frames output"
    by blast+
qed

interpretation isolated: perception_worker nfc "isolated_infer nfc loads sys" "\<lambda>_. nfc_ascii nfc" for nfc loads sys
proof unfold_locales
  fix w src frames by_frame "output" w'
  assume nfc: "nfc_ascii nfc" and accepted: "perception_frames nfc src frames DETECTOR ''detect'' = Inr by_frame"
    and frames: "\<forall>f \<in> set frames. frame_valid nfc f" and run: "isolated_infer nfc loads sys w src frames = Inr (output, w')"
  from isolated_infer_Inr(6) [OF run] obtain digest n r
    where "decode_worker_output nfc loads r src frames digest n (iw_limits w) = Inr output"
    by (auto simp: answered_in_time_def)
  from decoded_answer [OF nfc accepted frames this] nfc show "full_answer nfc src frames output \<and> nfc_ascii nfc"
    by (simp add: full_answer_def)
qed

section \<open>What the isolated worker raises\<close>

text \<open>an exception a system step raised, for which the code around that step has no handler\<close>

definition unhandled :: "worker_system \<Rightarrow> int list \<Rightarrow> exn \<Rightarrow> bool" where
  "unhandled sys requested e \<longleftrightarrow>
     ws_supported sys = Inl e \<or> ws_perception_boundary sys = Some e \<or>
     port_handler e = None \<and> (ws_media_boundary sys = Some e \<or> ws_open_source sys = Some e) \<or>
     snapshot_handler e = None \<and> ws_snapshot sys = Inl e \<or>
     process_handler e = None \<and> (\<exists>limits. ws_run sys limits requested = Inl e)"

definition foreseen_by :: "(exn \<Rightarrow> bool) \<Rightarrow> 'a res \<Rightarrow> bool" where
  "foreseen_by exempt m \<longleftrightarrow> (\<forall>e. m = Inl e \<longrightarrow> (\<exists>c. e = detector_error c) \<or> exempt e)"

lemma foreseen_by_simps [simp]:
  "foreseen_by exempt (Inr x)" "foreseen_by exempt (Inl (detector_error c))"
  by (auto simp: foreseen_by_def)

lemma foreseen_by_bindE:
  "foreseen_by exempt m \<Longrightarrow> (\<And>x. m = Inr x \<Longrightarrow> foreseen_by exempt (f x)) \<Longrightarrow> foreseen_by exempt (bindE m f)"
  by (cases m) (simp_all add: foreseen_by_def)

lemma foreseen_by_only: "detector_only m \<Longrightarrow> foreseen_by exempt m"
  by (auto simp: foreseen_by_def detector_only_def)

lemma foreseen_by_reraise:
  "(handler e = None \<Longrightarrow> exempt e) \<Longrightarrow> foreseen_by exempt (Inl (reraise handler shut e))"
  by (auto simp: foreseen_by_def reraise_def split: option.splits)

lemma checkpoint_only: "detector_only (checkpoint_at sys k deadline)"
  by (auto simp: checkpoint_at_def checkpoint_def split: option.splits)

lemma take_snapshot_foreseen: "foreseen_by (unhandled sys requested) (take_snapshot sys deadline)"
  by (auto simp: take_snapshot_def unhandled_def Let_def intro!: foreseen_by_reraise split: sum.splits option.splits)

lemma run_in_sandbox_foreseen:
  assumes "perception_limits_post limits = None"
  shows "foreseen_by (unhandled sys requested) (run_in_sandbox sys limits deadline requested)"
proof -
  have raised: "process_handler e = None \<longrightarrow> unhandled sys requested e"
    if "bindE (remaining_worker_limits limits (ws_cancelled sys 5) (ws_clock sys 5) deadline) (\<lambda>worker_limits.
        bindE (ws_run sys worker_limits requested) (\<lambda>run. bindE (checkpoint_at sys 6 deadline) (\<lambda>_. Inr run))) = Inl e" for e
    using that remaining_worker_limits_cases [OF assms, of "ws_cancelled sys 5" "ws_clock sys 5" deadline]
      checkpoint_only [of sys 6 deadline]
    by (auto simp: bindE_Inl_iff unhandled_def detector_only_def detector_error_def)
  then show ?thesis
    by (auto simp: run_in_sandbox_def intro!: foreseen_by_reraise split: sum.splits)
qed

lemma infer_within_foreseen:
  assumes "perception_limits_post limits = None"
  shows "foreseen_by (unhandled sys (requested_indices frames)) (infer_within nfc loads sys limits deadline src frames)"
proof -
  have steps: "foreseen_by (unhandled sys (requested_indices frames)) (recoded (ws_media_boundary sys))"
    "foreseen_by (unhandled sys (requested_indices frames)) (recoded (ws_open_source sys))"
    "foreseen_by (unhandled sys (requested_indices frames)) (checked (ws_perception_boundary sys) ())"
    by (auto simp: recoded_def checked_def unhandled_def intro!: foreseen_by_reraise split: option.splits)
      (simp add: foreseen_by_def unhandled_def)
  show ?thesis
    unfolding infer_within_def
    by (intro foreseen_by_bindE)
      (auto simp: steps take_snapshot_foreseen run_in_sandbox_foreseen [OF assms] foreseen_by_only
        checkpoint_only decode_worker_output_only [OF assms] split: prod.splits intro!: foreseen_by_bindE)
qed

lemma perception_frames_only: "detector_only (perception_frames nfc src frames DETECTOR ''detect'')"
  by (auto simp: perception_frames_def Let_def detector_only_def checked_def run_checks.simps(2) require_def detector_error_def
      split: option.splits if_splits)

lemma isolated_infer_error:
  assumes "isolated_infer nfc loads sys w src frames = Inl e"
  shows "(\<exists>c. e = detector_error c) \<or>
    frames = [] \<and> e = ValueError ''the adapter does not invoke a worker for an empty batch'' \<or>
    unhandled sys (requested_indices frames) e"
proof -
  let ?empty = "\<lambda>e. frames = [] \<and> e = ValueError ''the adapter does not invoke a worker for an empty batch''"
  let ?exempt = "\<lambda>e. ?empty e \<or> unhandled sys (requested_indices frames) e"
  have "foreseen_by ?exempt (ws_supported sys)" by (auto simp: foreseen_by_def unhandled_def)
  moreover have "foreseen_by ?exempt (infer_within nfc loads sys (iw_limits w) deadline src frames)"
    if "perception_limits_post (iw_limits w) = None" for deadline
    using infer_within_foreseen [OF that, of sys frames nfc loads deadline src] by (auto simp: foreseen_by_def)
  moreover have "foreseen_by ?exempt (Inl (ValueError ''the adapter does not invoke a worker for an empty batch''))"
    if "frames = []" using that by (simp add: foreseen_by_def)
  ultimately have "foreseen_by ?exempt (isolated_infer nfc loads sys w src frames)"
    unfolding isolated_infer_def
    by (intro foreseen_by_bindE foreseen_by_only [OF perception_frames_only])
      (auto simp: copy_perception_limits_Inr split: sum.splits intro!: foreseen_by_bindE)
  with assms show ?thesis by (auto simp: foreseen_by_def)
qed

end
