(* ===== verification/Worker_Process.thy ===== *)
theory Worker_Process
  imports Detection_Decode
begin

text \<open>
  The supervision of the worker's process in \<open>detection.py\<close>: the event loop of \<open>_drain_worker\<close> and
  \<open>_run_worker\<close>.  What one iteration of the loop observes (the clock, the process, the cancellation event,
  the chunks that could be read) is a \<open>drain_tick\<close>; a run is a list of them, and a loop that has not ended
  after them is \<open>None\<close>.  Times in seconds are \<open>rat\<close>; the signals and the waiting are system calls, of
  which only the answers are kept.  A read gives bytes or blocks (\<open>BlockingIOError\<close>); one that fails in
  another way leaves the code as an \<open>OSError\<close> and is not modelled.
\<close>

section \<open>The event loop\<close>

datatype worker_stream = STDOUT | STDERR

datatype read_outcome = Blocked | Chunk string

record drain_tick =
  tk_running :: bool
  tk_now :: rat
  tk_cpu_usec :: int
  tk_memory_peak :: int
  tk_memory_current :: int
  tk_cancelled :: "bool option"
  tk_kill_clock :: rat
  tk_reads :: "(worker_stream \<times> read_outcome) list"
  tk_exited :: bool

record drain_state =
  dn_open :: "worker_stream set"
  dn_buffer :: "worker_stream \<Rightarrow> string"
  dn_failure :: "port_error_code option"
  dn_killed :: bool
  dn_termination :: "rat option"
  dn_cpu_peak :: int
  dn_memory_peak :: int

definition drain_start :: drain_state where
  "drain_start = \<lparr>dn_open = {STDOUT, STDERR}, dn_buffer = (\<lambda>_. []), dn_failure = None, dn_killed = False,
     dn_termination = None, dn_cpu_peak = 0, dn_memory_peak = 0\<rparr>"

fun stream_bound :: "perception_limits \<Rightarrow> worker_stream \<Rightarrow> int" where
  "stream_bound limits STDOUT = pl_max_stdout_bytes limits"
| "stream_bound limits STDERR = pl_max_stderr_bytes limits"

definition kill_once :: "rat \<Rightarrow> drain_state \<Rightarrow> drain_state" where
  "kill_once clock st = (if dn_killed st then st else st\<lparr>dn_killed := True, dn_termination := Some (clock + 2)\<rparr>)"

definition observe :: "rat \<Rightarrow> drain_tick \<Rightarrow> drain_state \<Rightarrow> drain_state" where
  "observe deadline tick st =
     (let failure = (case tk_cancelled tick of
            None \<Rightarrow> Some ISOLATION_UNAVAILABLE
          | Some True \<Rightarrow> Some CANCELLED
          | Some False \<Rightarrow> if deadline \<le> tk_now tick then Some TIMEOUT else dn_failure st);
          st' = st\<lparr>dn_cpu_peak := max (dn_cpu_peak st) (tk_cpu_usec tick),
                   dn_memory_peak := max (max (dn_memory_peak st) (tk_memory_peak tick)) (tk_memory_current tick),
                   dn_failure := failure\<rparr>
      in if failure \<noteq> None then kill_once (tk_kill_clock tick) st' else st')"

text \<open>\<open>select\<close> reports only registered streams, so a stream that was closed is not read again\<close>

definition read_stream :: "perception_limits \<Rightarrow> drain_tick \<Rightarrow> worker_stream \<times> read_outcome \<Rightarrow> drain_state \<Rightarrow> drain_state" where
  "read_stream limits tick ready st =
     (case ready of (stream, outcome) \<Rightarrow>
        if stream \<notin> dn_open st then st
        else case outcome of
          Blocked \<Rightarrow> st
        | Chunk chunk \<Rightarrow>
            if chunk = [] then st\<lparr>dn_open := dn_open st - {stream}\<rparr>
            else if stream_bound limits stream < int (length (dn_buffer st stream) + length chunk)
            then kill_once (tk_kill_clock tick) (st\<lparr>dn_failure := Some LIMIT_EXCEEDED\<rparr>)
            else st\<lparr>dn_buffer := (dn_buffer st)(stream := dn_buffer st stream @ chunk)\<rparr>)"

definition overdue :: "rat \<Rightarrow> drain_state \<Rightarrow> bool" where
  "overdue now st = (case dn_termination st of None \<Rightarrow> False | Some t \<Rightarrow> t \<le> now)"

fun drain_loop :: "perception_limits \<Rightarrow> rat \<Rightarrow> drain_tick list \<Rightarrow> drain_state \<Rightarrow> drain_state option" where
  "drain_loop limits deadline [] st = None"
| "drain_loop limits deadline (tick # ticks) st =
     (if dn_open st = {} \<and> \<not> tk_running tick then Some st
      else
        let observed = observe deadline tick st in
        if overdue (tk_now tick) observed then Some observed
        else
          let st' = fold (read_stream limits tick) (tk_reads tick) observed in
          if dn_failure st' \<noteq> None \<and> tk_exited tick \<and> dn_open st' = {} then Some st'
          else drain_loop limits deadline ticks st')"

section \<open>A run of the process\<close>

text \<open>the answers after the loop: \<open>wait\<close> (\<open>None\<close> when both timed out), the clock, and whether the unit stopped\<close>

record drain_exit =
  dx_returncode :: "int option"
  dx_clock :: rat
  dx_stopped :: bool

definition drain_worker ::
  "perception_limits \<Rightarrow> rat \<Rightarrow> drain_tick list \<Rightarrow> drain_exit \<Rightarrow> (port_error_code + worker_run) option" where
  "drain_worker limits started ticks exit =
     map_option (\<lambda>st.
       case dx_returncode exit of
         None \<Rightarrow> Inl ISOLATION_UNAVAILABLE
       | Some returncode \<Rightarrow>
           (case dn_failure st of
              Some failure \<Rightarrow> Inl (if dx_stopped exit then failure else ISOLATION_UNAVAILABLE)
            | None \<Rightarrow> Inr
                \<lparr>wx_stdout = dn_buffer st STDOUT, wx_stderr = dn_buffer st STDERR, wx_returncode = returncode,
                 wx_wall_ms = max 0 \<lfloor>(dx_clock exit - started) * 1000\<rfloor>, wx_cpu_ms = dn_cpu_peak st div 1000,
                 wx_memory_peak_bytes = dn_memory_peak st\<rparr>))
     (drain_loop limits (started + of_int (pl_wall_timeout_ms limits) / 1000) ticks drain_start)"

record worker_process =
  wp_started :: bool
  wp_clock :: rat
  wp_ticks :: "drain_tick list"
  wp_exit :: drain_exit
  wp_stopped :: bool

definition run_worker_process :: "perception_limits \<Rightarrow> worker_process \<Rightarrow> (port_error_code + worker_run) option" where
  "run_worker_process limits p =
     (if \<not> wp_started p then Some (Inl ISOLATION_UNAVAILABLE)
      else map_option (\<lambda>outcome. if wp_stopped p then outcome else Inl ISOLATION_UNAVAILABLE)
        (drain_worker limits (wp_clock p) (wp_ticks p) (wp_exit p)))"

section \<open>What a run without a failure has read\<close>

text \<open>what the chunks of a stream hold up to its end, the first empty chunk\<close>

definition calm :: "rat \<Rightarrow> drain_tick \<Rightarrow> bool" where
  "calm deadline tick \<longleftrightarrow> tk_cancelled tick = Some False \<and> tk_now tick < deadline"

definition contents :: "string list \<Rightarrow> string" where
  "contents chunks = concat (takeWhile (\<lambda>c. c \<noteq> []) chunks)"

lemma contents_append: "contents (xs @ ys) = contents xs @ (if [] \<in> set xs then [] else contents ys)"
  by (induction xs) (auto simp: contents_def)

lemma observe_calm:
  assumes "dn_failure (observe deadline tick st) = None"
  shows "calm deadline tick" "dn_failure st = None" "dn_open (observe deadline tick st) = dn_open st"
    "dn_buffer (observe deadline tick st) = dn_buffer st" "dn_termination (observe deadline tick st) = dn_termination st"
  using assms
  by (auto simp: observe_def calm_def kill_once_def Let_def not_le split: option.splits bool.splits if_splits)

lemma read_stream_failure:
  "dn_failure (read_stream limits tick ready st) = None \<Longrightarrow> dn_failure st = None \<and> dn_termination (read_stream limits tick ready st) = dn_termination st"
  by (auto simp: read_stream_def kill_once_def split: prod.splits read_outcome.splits if_splits)

lemma read_all_failure:
  "dn_failure (fold (read_stream limits tick) reads st) = None \<Longrightarrow>
     dn_failure st = None \<and> dn_termination (fold (read_stream limits tick) reads st) = dn_termination st"
proof (induction reads arbitrary: st)
  case (Cons ready reads)
  have "dn_failure (fold (read_stream limits tick) reads (read_stream limits tick ready st)) = None"
    using Cons.prems by (simp only: fold_simps)
  from Cons.IH [OF this] have "dn_failure (read_stream limits tick ready st) = None \<and>
      dn_termination (fold (read_stream limits tick) (ready # reads) st) =
      dn_termination (read_stream limits tick ready st)" by (simp only: fold_simps)
  with read_stream_failure [of limits tick ready st] show ?case by argo
qed simp

lemma drain_loop_Cons:
  assumes "next = fold (read_stream limits tick) (tk_reads tick) (observe deadline tick st)"
  shows "drain_loop limits deadline (tick # ticks) st =
     (if dn_open st = {} \<and> \<not> tk_running tick then Some st
      else if overdue (tk_now tick) (observe deadline tick st) then Some (observe deadline tick st)
      else if dn_failure next \<noteq> None \<and> tk_exited tick \<and> dn_open next = {} then Some next
      else drain_loop limits deadline ticks next)"
  unfolding drain_loop.simps Let_def assms ..

declare drain_loop.simps(2) [simp del]

lemma drain_loop_failure: "drain_loop limits deadline ticks st = Some st' \<Longrightarrow> dn_failure st \<noteq> None \<Longrightarrow> dn_failure st' \<noteq> None"
proof (induction ticks arbitrary: st)
  case (Cons tick ticks)
  define o' where "o' = observe deadline tick st"
  define next' where "next' = fold (read_stream limits tick) (tk_reads tick) o'"
  have failed: "dn_failure o' \<noteq> None" using observe_calm(2) [of deadline tick st] Cons.prems(2) by (auto simp: o'_def)
  have "dn_failure next' \<noteq> None" using read_all_failure [of limits tick "tk_reads tick" o'] failed by (auto simp: next'_def)
  with failed Cons drain_loop_Cons [OF next'_def [unfolded o'_def], folded o'_def, of ticks] show ?case
    by (auto split: if_split_asm)
qed simp

definition chunks_in :: "worker_stream \<Rightarrow> (worker_stream \<times> read_outcome) list \<Rightarrow> string list" where
  "chunks_in stream reads = concat (map (\<lambda>(s, r). case r of Chunk c \<Rightarrow> if s = stream then [c] else [] | Blocked \<Rightarrow> []) reads)"

lemma read_all_reads:
  "dn_failure (fold (read_stream limits tick) reads st) = None \<Longrightarrow>
   dn_buffer (fold (read_stream limits tick) reads st) stream =
     dn_buffer st stream @ (if stream \<in> dn_open st then contents (chunks_in stream reads) else []) \<and>
   (stream \<in> dn_open (fold (read_stream limits tick) reads st) \<longleftrightarrow> stream \<in> dn_open st \<and> [] \<notin> set (chunks_in stream reads))"
proof (induction reads arbitrary: st)
  case (Cons ready reads)
  obtain s r where ready: "ready = (s, r)" by (cases ready)
  let ?st = "read_stream limits tick ready st"
  have rest: "dn_failure (fold (read_stream limits tick) reads ?st) = None" using Cons.prems by simp
  from read_all_failure [OF this] have ok: "dn_failure ?st = None" by simp
  have step: "dn_buffer ?st stream = dn_buffer st stream @
      (if s = stream \<and> stream \<in> dn_open st then case r of Chunk c \<Rightarrow> c | Blocked \<Rightarrow> [] else [])"
    "stream \<in> dn_open ?st \<longleftrightarrow> stream \<in> dn_open st \<and> \<not> (s = stream \<and> r = Chunk [])"
    using ok by (auto simp: read_stream_def ready kill_once_def split: read_outcome.splits if_splits)
  with Cons.IH [OF rest] show ?case by (auto simp: ready contents_def chunks_in_def split: read_outcome.splits)
qed (simp add: contents_def chunks_in_def)

text \<open>the chunks of a stream in a run\<close>

definition stream_chunks :: "worker_stream \<Rightarrow> drain_tick list \<Rightarrow> string list" where
  "stream_chunks stream ticks = concat (map (\<lambda>tick. chunks_in stream (tk_reads tick)) ticks)"

lemma drain_loop_complete:
  assumes "drain_loop limits deadline ticks st = Some st'" and "dn_failure st' = None" and "dn_termination st = None"
  shows "\<exists>k \<le> length ticks. (\<forall>tick \<in> set (take k ticks). calm deadline tick) \<and>
    (\<forall>stream. dn_buffer st' stream =
       dn_buffer st stream @ (if stream \<in> dn_open st then contents (stream_chunks stream (take k ticks)) else []) \<and>
      (stream \<in> dn_open st \<longrightarrow> [] \<in> set (stream_chunks stream (take k ticks))))"
  using assms
proof (induction ticks arbitrary: st)
  case (Cons tick ticks)
  define seen where "seen = observe deadline tick st"
  define after where "after = fold (read_stream limits tick) (tk_reads tick) seen"
  note step = drain_loop_Cons [OF after_def [unfolded seen_def], folded seen_def, of ticks]
  show ?case
  proof (cases "dn_open st = {} \<and> \<not> tk_running tick")
    case True
    with Cons.prems(1) step have "st' = st" by simp
    with True show ?thesis by (intro exI [of _ 0]) simp
  next
    case running: False
    have no_stop: "\<not> overdue (tk_now tick) seen"
    proof
      assume stop: "overdue (tk_now tick) seen"
      have "st' = seen" using Cons.prems(1) unfolding step if_not_P [OF running] if_P [OF stop] by simp
      with Cons.prems(2) have "dn_failure (observe deadline tick st) = None" by (simp add: seen_def)
      from observe_calm(5) [OF this] Cons.prems(3) stop show False by (simp add: overdue_def seen_def)
    qed
    have no_exit: "\<not> (dn_failure after \<noteq> None \<and> tk_exited tick \<and> dn_open after = {})"
    proof
      assume exit: "dn_failure after \<noteq> None \<and> tk_exited tick \<and> dn_open after = {}"
      have "st' = after" using Cons.prems(1) unfolding step if_not_P [OF running] if_not_P [OF no_stop] if_P [OF exit] by simp
      with exit Cons.prems(2) show False by simp
    qed
    have rest: "drain_loop limits deadline ticks after = Some st'"
      using Cons.prems(1) unfolding step if_not_P [OF running] if_not_P [OF no_stop] if_not_P [OF no_exit] .
    have clean: "dn_failure after = None" using drain_loop_failure [OF rest] Cons.prems(2) by blast
    note fold = read_all_failure [OF clean [unfolded after_def]]
    note calm = observe_calm [OF fold [THEN conjunct1, unfolded seen_def]]
    have "dn_termination after = None" using fold calm(5) Cons.prems(3) by (simp add: after_def seen_def)
    from Cons.IH [OF rest Cons.prems(2) this] obtain k where k: "k \<le> length ticks" "\<forall>tick \<in> set (take k ticks). calm deadline tick"
      "\<And>stream. dn_buffer st' stream =
       dn_buffer after stream @ (if stream \<in> dn_open after then contents (stream_chunks stream (take k ticks)) else []) \<and>
      (stream \<in> dn_open after \<longrightarrow> [] \<in> set (stream_chunks stream (take k ticks)))" by blast
    show ?thesis
    proof (intro exI [of _ "Suc k"] conjI allI)
      fix stream
      note reads = read_all_reads [OF clean [unfolded after_def], of stream, folded after_def]
      show "dn_buffer st' stream = dn_buffer st stream @
          (if stream \<in> dn_open st then contents (stream_chunks stream (take (Suc k) (tick # ticks))) else [])"
        using k(3) [of stream] reads calm(3,4) by (auto simp: stream_chunks_def contents_append seen_def)
      show "stream \<in> dn_open st \<longrightarrow> [] \<in> set (stream_chunks stream (take (Suc k) (tick # ticks)))"
        using k(3) [of stream] reads calm(3) by (auto simp: stream_chunks_def seen_def)
    qed (use k calm(1) in simp_all)
  qed
qed simp

section \<open>The bounds\<close>

definition within_bounds :: "perception_limits \<Rightarrow> drain_state \<Rightarrow> bool" where
  "within_bounds limits st \<longleftrightarrow> (\<forall>stream. int (length (dn_buffer st stream)) \<le> stream_bound limits stream)"

lemma observe_bounds: "within_bounds limits (observe deadline tick st) \<longleftrightarrow> within_bounds limits st"
  by (simp add: observe_def kill_once_def within_bounds_def Let_def)

lemma read_stream_bounds: "within_bounds limits st \<Longrightarrow> within_bounds limits (read_stream limits tick ready st)"
  by (auto simp: read_stream_def kill_once_def within_bounds_def not_less split: prod.splits read_outcome.splits)

lemma read_all_bounds: "within_bounds limits st \<Longrightarrow> within_bounds limits (fold (read_stream limits tick) reads st)"
  by (induction reads arbitrary: st) (auto simp: read_stream_bounds)

lemma drain_loop_bounds:
  "drain_loop limits deadline ticks st = Some st' \<Longrightarrow> within_bounds limits st \<Longrightarrow> within_bounds limits st'"
proof (induction ticks arbitrary: st)
  case (Cons tick ticks)
  define after where "after = fold (read_stream limits tick) (tk_reads tick) (observe deadline tick st)"
  have "within_bounds limits after" unfolding after_def using Cons.prems(2) by (intro read_all_bounds) (simp add: observe_bounds)
  with Cons drain_loop_Cons [OF after_def, of ticks] show ?case by (auto simp: observe_bounds split: if_split_asm)
qed simp

lemma drain_loop_run:
  assumes "drain_loop limits deadline ticks drain_start = Some st" and "dn_failure st = None" and "perception_limits_post limits = None"
  shows "within_bounds limits st"
    and "\<exists>k \<le> length ticks. (\<forall>tick \<in> set (take k ticks). calm deadline tick) \<and>
      (\<forall>stream. dn_buffer st stream = contents (stream_chunks stream (take k ticks)) \<and>
        [] \<in> set (stream_chunks stream (take k ticks)))"
proof -
  have "0 \<le> stream_bound limits stream" for stream
    using assms(3) by (cases stream) (simp_all add: perception_limits_post_def run_checks_ConsN)
  then have "within_bounds limits drain_start" by (simp add: within_bounds_def drain_start_def)
  from drain_loop_bounds [OF assms(1) this] show "within_bounds limits st" .
  have start: "\<And>stream. stream \<in> dn_open drain_start" "\<And>stream. dn_buffer drain_start stream = []" "dn_termination drain_start = None"
    by (auto simp: drain_start_def intro: worker_stream.exhaust)
  from drain_loop_complete [OF assms(1,2) start(3)] show "\<exists>k \<le> length ticks. (\<forall>tick \<in> set (take k ticks). calm deadline tick) \<and>
      (\<forall>stream. dn_buffer st stream = contents (stream_chunks stream (take k ticks)) \<and>
        [] \<in> set (stream_chunks stream (take k ticks)))" by (simp add: start)
qed

section \<open>The end of the loop\<close>

text \<open>a unit that was killed is waited for until the time \<open>limit\<close> at most\<close>

definition stops_by :: "rat \<Rightarrow> drain_state \<Rightarrow> bool" where
  "stops_by limit st \<longleftrightarrow> dn_killed st = (dn_termination st \<noteq> None) \<and> (\<forall>t. dn_termination st = Some t \<longrightarrow> t \<le> limit)"

lemma kill_once_stops:
  "stops_by limit st \<Longrightarrow> dn_killed st \<or> clock + 2 \<le> limit \<Longrightarrow> stops_by limit (kill_once clock st) \<and> dn_killed (kill_once clock st)"
  by (auto simp: stops_by_def kill_once_def)

lemma stops_by_frame [simp]:
  "stops_by limit (st\<lparr>dn_failure := f\<rparr>) = stops_by limit st" "stops_by limit (st\<lparr>dn_open := s\<rparr>) = stops_by limit st"
  "stops_by limit (st\<lparr>dn_buffer := b\<rparr>) = stops_by limit st"
  "stops_by limit (st\<lparr>dn_cpu_peak := m, dn_memory_peak := n, dn_failure := f\<rparr>) = stops_by limit st"
  by (simp_all add: stops_by_def)

lemma observe_stops:
  assumes "stops_by limit st" and "dn_killed st \<or> tk_kill_clock tick + 2 \<le> limit"
  shows "stops_by limit (observe deadline tick st)" "dn_killed st \<or> \<not> calm deadline tick \<Longrightarrow> dn_killed (observe deadline tick st)"
  using assms
  by (auto simp: observe_def Let_def calm_def kill_once_def stops_by_def not_less split: option.splits bool.splits if_splits)

lemma read_stream_stops:
  "stops_by limit st \<Longrightarrow> dn_killed st \<or> tk_kill_clock tick + 2 \<le> limit \<Longrightarrow>
   stops_by limit (read_stream limits tick ready st) \<and> (dn_killed st \<longrightarrow> dn_killed (read_stream limits tick ready st))"
  using kill_once_stops [of limit "st\<lparr>dn_failure := Some LIMIT_EXCEEDED\<rparr>" "tk_kill_clock tick"]
  by (auto simp: read_stream_def split: prod.splits read_outcome.splits)

lemma read_all_stops:
  "stops_by limit st \<Longrightarrow> dn_killed st \<or> tk_kill_clock tick + 2 \<le> limit \<Longrightarrow>
   stops_by limit (fold (read_stream limits tick) reads st) \<and> (dn_killed st \<longrightarrow> dn_killed (fold (read_stream limits tick) reads st))"
proof (induction reads arbitrary: st)
  case (Cons ready reads)
  note step = read_stream_stops [OF Cons.prems, of limits ready]
  have "dn_killed (read_stream limits tick ready st) \<or> tk_kill_clock tick + 2 \<le> limit" using step Cons.prems(2) by blast
  from Cons.IH [OF step [THEN conjunct1] this] step show ?case unfolding fold_simps by blast
qed simp

lemma drain_loop_killed:
  assumes "stops_by (tk_now final) st" and "dn_killed st" and "final \<in> set ticks"
  shows "drain_loop limits deadline ticks st \<noteq> None"
  using assms
proof (induction ticks arbitrary: st)
  case (Cons tick ticks)
  define seen where "seen = observe deadline tick st"
  define after where "after = fold (read_stream limits tick) (tk_reads tick) seen"
  note step = drain_loop_Cons [OF after_def [unfolded seen_def], folded seen_def, of ticks]
  have seen: "stops_by (tk_now final) seen" "dn_killed seen"
    using observe_stops [OF Cons.prems(1), of tick deadline] Cons.prems(2) by (simp_all add: seen_def)
  have after: "stops_by (tk_now final) after" "dn_killed after"
    using read_all_stops [OF seen(1), of tick limits "tk_reads tick"] seen(2) by (simp_all add: after_def)
  show ?case
  proof (cases "tick = final")
    case True
    have "overdue (tk_now tick) seen" using seen by (auto simp: overdue_def stops_by_def True)
    then show ?thesis unfolding step by (cases "dn_open st = {} \<and> \<not> tk_running tick") (simp_all only: if_True if_False, simp_all)
  next
    case False
    then have "drain_loop limits deadline ticks after \<noteq> None" using Cons.IH [OF after] Cons.prems(3) by simp
    then show ?thesis unfolding step by (simp split: if_split)
  qed
qed simp

lemma drain_loop_ends:
  assumes "stops_by (tk_now final) st" and "\<not> calm deadline late" and "final \<in> set later"
    and "\<forall>tick \<in> set (before @ [late]). tk_kill_clock tick + 2 \<le> tk_now final"
  shows "drain_loop limits deadline (before @ late # later) st \<noteq> None"
  using assms(1,4)
proof (induction before arbitrary: st)
  case Nil
  define seen where "seen = observe deadline late st"
  define after where "after = fold (read_stream limits late) (tk_reads late) seen"
  note step = drain_loop_Cons [OF after_def [unfolded seen_def], folded seen_def, of later]
  have seen: "stops_by (tk_now final) seen" "dn_killed seen"
    using observe_stops [OF Nil.prems(1), of late deadline] Nil.prems(2) assms(2) by (simp_all add: seen_def)
  have "stops_by (tk_now final) after" "dn_killed after"
    using read_all_stops [OF seen(1), of late limits "tk_reads late"] seen(2) by (simp_all add: after_def)
  then have "drain_loop limits deadline later after \<noteq> None" using drain_loop_killed assms(3) by blast
  then show ?case unfolding append_Nil step by (simp split: if_split)
next
  case (Cons tick before)
  define seen where "seen = observe deadline tick st"
  define after where "after = fold (read_stream limits tick) (tk_reads tick) seen"
  note step = drain_loop_Cons [OF after_def [unfolded seen_def], folded seen_def, of "before @ late # later"]
  have "stops_by (tk_now final) seen"
    using observe_stops [OF Cons.prems(1), of tick deadline] Cons.prems(2) by (simp add: seen_def)
  then have "stops_by (tk_now final) after"
    using read_all_stops [of "tk_now final" seen tick limits "tk_reads tick"] Cons.prems(2) by (simp add: after_def)
  with Cons.IH [of after] Cons.prems(2) have "drain_loop limits deadline (before @ late # later) after \<noteq> None" by simp
  then show ?case unfolding append_Cons step by (simp split: if_split)
qed

end
