(* ===== verification/Isolated_Theorems.thy ===== *)
theory Isolated_Theorems
  imports Detector_Theorems Isolated_Facts Worker_Process
begin

text \<open>
  What the isolated worker promises: it answers only in time, for the bytes it was asked about and for the
  output its process wrote; its answers are detections; the errors that can leave it; and what the
  supervision of the process keeps, up to the end of every run.
\<close>

section \<open>Properties of \<open>infer\<close>\<close>

text \<open>
  C15: the isolated worker answers only when no check of the cancellation event found it set and every
  check of the clock was before the deadline, the limits were valid, every requested index was within the
  limit on frames, and the sealed copy of the file had the digest and the size the source claims; the
  answer is then what one run of the process wrote, decoded against that request, and this run had the
  caller's limits but no more time than was left before the deadline.
\<close>

theorem isolated_worker_answers:
  assumes "isolated_infer nfc loads sys w src frames = Inr (answer, w')"
    and "deadline = ws_clock sys 0 + pl_wall_timeout_ms (iw_limits w) * 1000000"
  shows "w' = w \<and> perception_limits_post (iw_limits w) = None \<and>
    (\<forall>k \<le> 7. ws_cancelled sys k = Some False) \<and> (\<forall>k \<in> {1..7}. ws_clock sys k < deadline) \<and>
    (\<forall>f \<in> set frames. int_of_decimal (fr_decode_index f) < pl_max_frames (iw_limits w)) \<and>
    (\<exists>digest n ms run. ws_snapshot sys = Inr (digest, n) \<and> digest = fp_digest (so_fingerprint src) \<and>
       show_int n = fp_bytes (so_fingerprint src) \<and>
       1 \<le> ms \<and> ms \<le> pl_wall_timeout_ms (iw_limits w) \<and> ws_clock sys 5 + ms * 1000000 \<le> deadline \<and>
       ws_run sys (iw_limits w\<lparr>pl_wall_timeout_ms := ms\<rparr>) (requested_indices frames) = Inr run \<and>
       decode_worker_output nfc loads run src frames digest n (iw_limits w) = Inr answer)"
proof -
  note facts = isolated_infer_Inr [OF assms(1), folded assms(2)]
  have "ws_cancelled sys k = Some False" if "k \<le> 7" for k
  proof (cases "k = 0")
    case False
    then have "k \<in> {1..7}" using that by simp
    with facts(6) show ?thesis by (simp add: answered_in_time_def)
  qed (simp add: facts(4))
  with facts show ?thesis by (simp add: answered_in_time_def)
qed

text \<open>
  C14: an answer of the isolated worker is a detection: \<open>detect\<close> turns it into a complete result with one
  observation for every detection of the worker, and fails only when two observations have the same
  content-derived identifier.
\<close>

theorem isolated_output_detected:
  assumes "nfc_ascii nfc" and "\<forall>f \<in> set frames. frame_valid nfc f"
    and "isolated_infer nfc loads sys (vd_worker s) src frames = Inr (answer, w)" and "supported (vd_worker s) = Some True"
  shows "case detect nfc supported (isolated_infer nfc loads sys) s src frames of
      Inl e \<Rightarrow> e = duplicate_ids
    | Inr (r, s') \<Rightarrow> dr_state r = COMPLETE \<and> vd_worker s' = w \<and>
        length (dr_observations r) = (\<Sum>f \<leftarrow> wr_frames answer. length (wf_detections f))"
proof -
  obtain by_frame where accepted: "perception_frames nfc src frames DETECTOR ''detect'' = Inr by_frame"
    using assms(3) by (auto simp: isolated_infer_def bindE_Inr_iff)
  note D = isolated.infer_detected [OF assms(1) accepted assms(2,3)]
  have "one_stream frames"
    using isolated.answers_request [OF assms(1) accepted assms(2,3)] by (simp add: full_answer_def answered_def)
  moreover from this have nonempty: "frames \<noteq> []" by (simp add: one_stream_def)
  ultimately have "detect_core nfc supported (isolated_infer nfc loads sys) (vd_worker s) src frames =
      bindE (observations_of_output nfc src frames answer) (\<lambda>r. Inr (r, w))"
    using D(1) assms(4) one_stream_iff [OF nonempty] by (simp add: detect_core_def)
  with D(2) show ?thesis by (auto simp: detect_unfold [OF accepted])
qed

text \<open>
  C28: an exception that leaves the isolated worker is a port error of the detector, or the refusal of an
  empty batch, which the detector never sends, or exactly one a system step raised and the code around
  that step does not name: anything the platform query or the boundary of the perception runtime raises,
  anything but a port error from the media boundary and from opening the source, anything but a port
  error or an operating-system error from taking the snapshot, and anything but these and a subprocess
  error from the run.  The checks, the clock and the decoder of the output add nothing.
\<close>

theorem isolated_worker_errors:
  assumes "isolated_infer nfc loads sys w src frames = Inl e"
  shows "(\<exists>c. e = PortError c DETECTOR ''detect'') \<or>
    frames = [] \<and> e = ValueError ''the adapter does not invoke a worker for an empty batch'' \<or>
    ws_supported sys = Inl e \<or> ws_perception_boundary sys = Some e \<or>
    (\<nexists>c port operation. e = PortError c port operation) \<and>
      (ws_media_boundary sys = Some e \<or> ws_open_source sys = Some e \<or>
       (\<nexists>m. e = OSError m) \<and>
         (ws_snapshot sys = Inl e \<or>
          (\<nexists>m. e = SubprocessError m) \<and> (\<exists>limits. ws_run sys limits (requested_indices frames) = Inl e)))"
  using isolated_infer_error [OF assms]
  by (cases e) (auto simp: detector_error_def unhandled_def)

section \<open>Properties of the supervision\<close>

lemma run_worker_process_Inr:
  assumes "run_worker_process limits p = Some (Inr run)"
  obtains st returncode
    where "drain_loop limits (wp_clock p + of_int (pl_wall_timeout_ms limits) / 1000) (wp_ticks p) drain_start = Some st"
      and "dn_failure st = None" and "wx_stdout run = dn_buffer st STDOUT" and "wx_stderr run = dn_buffer st STDERR"
proof -
  obtain st where st: "drain_loop limits (wp_clock p + of_int (pl_wall_timeout_ms limits) / 1000) (wp_ticks p) drain_start = Some st"
    using assms by (auto simp: run_worker_process_def drain_worker_def split: if_split_asm)
  moreover have "dn_failure st = None" "wx_stdout run = dn_buffer st STDOUT" "wx_stderr run = dn_buffer st STDERR"
    using assms st by (auto simp: run_worker_process_def drain_worker_def split: if_split_asm option.splits)
  ultimately show ?thesis using that by blast
qed

text \<open>
  C17: a run that does not fail has read both streams of the process to their end and dropped nothing: its
  output is exactly the chunks of the stream up to the first empty one, within the limits on both streams,
  and every iteration that read them found the event clear and the clock before the deadline.
\<close>

theorem worker_run_complete:
  assumes "run_worker_process limits p = Some (Inr run)" and "perception_limits_post limits = None"
    and "deadline = wp_clock p + of_int (pl_wall_timeout_ms limits) / 1000"
  shows "int (length (wx_stdout run)) \<le> pl_max_stdout_bytes limits \<and> int (length (wx_stderr run)) \<le> pl_max_stderr_bytes limits \<and>
    (\<exists>k \<le> length (wp_ticks p).
       (\<forall>tick \<in> set (take k (wp_ticks p)). tk_cancelled tick = Some False \<and> tk_now tick < deadline) \<and>
       wx_stdout run = contents (stream_chunks STDOUT (take k (wp_ticks p))) \<and>
       wx_stderr run = contents (stream_chunks STDERR (take k (wp_ticks p))) \<and>
       [] \<in> set (stream_chunks STDOUT (take k (wp_ticks p))) \<and> [] \<in> set (stream_chunks STDERR (take k (wp_ticks p))))"
proof -
  obtain st where st: "drain_loop limits deadline (wp_ticks p) drain_start = Some st" "dn_failure st = None"
    "wx_stdout run = dn_buffer st STDOUT" "wx_stderr run = dn_buffer st STDERR"
    using run_worker_process_Inr [OF assms(1)] unfolding assms(3) by metis
  note drained = drain_loop_run [OF st(1,2) assms(2)]
  have "int (length (dn_buffer st stream)) \<le> stream_bound limits stream" for stream
    using drained(1) by (simp add: within_bounds_def)
  from this [of STDOUT] this [of STDERR] drained(2) st(3,4) show ?thesis by (auto simp: calm_def)
qed

text \<open>
  C16: the supervision returns: once an iteration finds the event set or the deadline passed, it ends at the
  latest with the first later iteration whose clock is two seconds past the signals sent so far, whatever
  the process does.
\<close>

theorem worker_run_ends:
  assumes "wp_ticks p = before @ late # later"
    and "tk_cancelled late \<noteq> Some False \<or> wp_clock p + of_int (pl_wall_timeout_ms limits) / 1000 \<le> tk_now late"
    and "final \<in> set later" and "\<forall>tick \<in> set (before @ [late]). tk_kill_clock tick + 2 \<le> tk_now final"
  shows "\<exists>outcome. run_worker_process limits p = Some outcome"
proof -
  have "stops_by (tk_now final) drain_start" by (simp add: stops_by_def drain_start_def)
  moreover have "\<not> calm (wp_clock p + of_int (pl_wall_timeout_ms limits) / 1000) late"
    using assms(2) by (auto simp: calm_def)
  ultimately have "drain_loop limits (wp_clock p + of_int (pl_wall_timeout_ms limits) / 1000) (before @ late # later) drain_start \<noteq> None"
    using drain_loop_ends assms(3,4) by blast
  then show ?thesis by (auto simp: run_worker_process_def drain_worker_def assms(1))
qed

section \<open>Witnesses\<close>

definition clip_system :: worker_system where
  "clip_system = \<lparr>ws_supported = Inr True, ws_cancelled = (\<lambda>_. Some False), ws_clock = (\<lambda>_. 0), ws_runtime_copied = True,
     ws_media_boundary = None, ws_perception_boundary = None, ws_open_source = None, ws_source_wrapped = True,
     ws_snapshot = Inr (sha256_hex [], 1), ws_snapshot_wrapped = True, ws_source_closed = True, ws_snapshot_closed = True,
     ws_run = (\<lambda>_ _. Inr clip_run)\<rparr>"

definition clip_isolated :: isolated_worker where
  "clip_isolated = \<lparr>iw_limits = default_perception_limits\<rparr>"

lemma default_limits_valid: "perception_limits_post default_perception_limits = None"
  by (simp add: perception_limits_post_def default_perception_limits_def run_checks.simps(2) MAX_PORT_BATCH_ITEMS_def MAX_I31_def)

lemma clip_inferred: "isolated_infer id clip_loads clip_system clip_isolated clip_source [clip_frame] = Inr (clip_answer, clip_isolated)"
proof -
  have index: "requested_indices [clip_frame] = [0]"
    by (simp add: requested_indices_def clip_frame_def one_decimals)
  have fingerprint: "fp_digest (so_fingerprint clip_source) = sha256_hex []" "fp_bytes (so_fingerprint clip_source) = show_int 1"
    by (simp_all add: clip_source_def clip_fingerprint_def show_one)
  have check: "checkpoint_at clip_system k 300000000000 = Inr 0" for k
    by (simp add: checkpoint_at_Inr) (simp add: clip_system_def)
  have limits: "pl_wall_timeout_ms default_perception_limits = 300000" "\<not> pl_max_frames default_perception_limits \<le> 0"
    by (simp_all add: default_perception_limits_def)
  have never: "checkpoint_failure (Some False) 0 300000000000 = None" by (simp add: checkpoint_failure_def)
  have snapshot: "take_snapshot clip_system 300000000000 = Inr (sha256_hex [], 1)"
    by (simp add: take_snapshot_def clip_system_def never)
  have same: "default_perception_limits\<lparr>pl_wall_timeout_ms := 300000\<rparr> = default_perception_limits"
    by (simp add: default_perception_limits_def)
  have remaining: "remaining_worker_limits default_perception_limits (Some False) 0 300000000000 = Inr default_perception_limits"
    using limits(1) default_limits_valid
    by (simp add: remaining_worker_limits_def checkpoint_def never copy_perception_limits_def checked_def Let_def same)
  have sandbox: "run_in_sandbox clip_system default_perception_limits 300000000000 [0] = Inr clip_run"
    using check [of 6] by (simp add: run_in_sandbox_def Let_def) (simp add: clip_system_def remaining)
  have steps: "ws_media_boundary clip_system = None" "ws_perception_boundary clip_system = None" "ws_open_source clip_system = None"
    "ws_source_wrapped clip_system" by (simp_all add: clip_system_def)
  have "infer_within id clip_loads clip_system default_perception_limits 300000000000 clip_source [clip_frame] = Inr clip_answer"
    by (simp add: infer_within_def check index fingerprint recoded_def checked_def snapshot sandbox steps clip_decoded limits)
  moreover have "ws_supported clip_system = Inr True" "ws_runtime_copied clip_system" "ws_cancelled clip_system 0 = Some False"
    "ws_clock clip_system 0 = 0" by (simp_all add: clip_system_def)
  moreover have "copy_perception_limits default_perception_limits None = Inr default_perception_limits"
    by (simp add: copy_perception_limits_Inr default_limits_valid)
  ultimately show ?thesis using clip_request limits by (simp add: isolated_infer_def clip_isolated_def)
qed

lemma isolated_worker_answers_witness:
  "\<exists>ms run. ws_run clip_system (default_perception_limits\<lparr>pl_wall_timeout_ms := ms\<rparr>) (requested_indices [clip_frame]) = Inr run \<and>
     1 \<le> ms \<and> ms \<le> 300000 \<and>
     decode_worker_output id clip_loads run clip_source [clip_frame] (sha256_hex []) 1 default_perception_limits = Inr clip_answer"
proof -
  from isolated_worker_answers [OF clip_inferred refl] obtain digest n ms run
    where run: "ws_snapshot clip_system = Inr (digest, n)" "1 \<le> ms" "ms \<le> pl_wall_timeout_ms (iw_limits clip_isolated)"
      "ws_run clip_system (iw_limits clip_isolated\<lparr>pl_wall_timeout_ms := ms\<rparr>) (requested_indices [clip_frame]) = Inr run"
      "decode_worker_output id clip_loads run clip_source [clip_frame] digest n (iw_limits clip_isolated) = Inr clip_answer" by blast
  have limits: "iw_limits clip_isolated = default_perception_limits" by (simp add: clip_isolated_def)
  have timeout: "pl_wall_timeout_ms default_perception_limits = 300000" by (simp add: default_perception_limits_def)
  have "digest = sha256_hex []" "n = 1" using run(1) by (simp_all add: clip_system_def)
  with run(2-5) show ?thesis unfolding limits timeout by blast
qed

lemma isolated_output_detected_witness:
  "case detect id (\<lambda>_. Some True) (isolated_infer id clip_loads clip_system) \<lparr>vd_worker = clip_isolated, vd_calls = []\<rparr>
       clip_source [clip_frame] of
     Inl e \<Rightarrow> e = duplicate_ids
   | Inr (r, s') \<Rightarrow> dr_state r = COMPLETE \<and> vd_worker s' = clip_isolated \<and> length (dr_observations r) = 1"
proof -
  have frames: "\<forall>f \<in> set [clip_frame]. frame_valid id f" using clip_frame_valid by simp
  have total: "(\<Sum>f \<leftarrow> wr_frames clip_answer. length (wf_detections f)) = 1" by (simp add: clip_answer_def)
  from isolated_output_detected [where s = "\<lparr>vd_worker = clip_isolated, vd_calls = []\<rparr>" and supported = "\<lambda>_. Some True" and w = clip_isolated
      and sys = clip_system and src = clip_source and loads = clip_loads and answer = clip_answer, OF nfc_id frames] clip_inferred
  show ?thesis unfolding total by simp
qed

text \<open>the file name cannot be encoded: \<open>os.fsencode\<close> raises inside \<open>_open_source\<close>, and nothing catches it\<close>

lemma isolated_worker_errors_witness:
  "\<exists>e. isolated_infer id clip_loads (clip_system\<lparr>ws_open_source := Some (ValueError ''surrogates not allowed'')\<rparr>)
       clip_isolated clip_source [clip_frame] = Inl e \<and>
     e = ValueError ''surrogates not allowed'' \<and> (\<nexists>c. e = PortError c DETECTOR ''detect'')"
proof -
  let ?sys = "clip_system\<lparr>ws_open_source := Some (ValueError ''surrogates not allowed'')\<rparr>"
  have index: "requested_indices [clip_frame] = [0]"
    by (simp add: requested_indices_def clip_frame_def one_decimals)
  have check: "checkpoint_at ?sys k 300000000000 = Inr 0" for k
    by (simp add: checkpoint_at_Inr) (simp add: clip_system_def)
  have steps: "ws_media_boundary ?sys = None" "ws_perception_boundary ?sys = None" "ws_supported ?sys = Inr True"
    "ws_runtime_copied ?sys" "ws_cancelled ?sys 0 = Some False" "ws_clock ?sys 0 = 0" by (simp_all add: clip_system_def)
  have limits: "pl_wall_timeout_ms default_perception_limits = 300000" "\<not> pl_max_frames default_perception_limits \<le> 0"
    by (simp_all add: default_perception_limits_def)
  have "infer_within id clip_loads ?sys default_perception_limits 300000000000 clip_source [clip_frame] =
      Inl (ValueError ''surrogates not allowed'')"
    by (simp add: infer_within_def check index recoded_def reraise_def checked_def steps limits)
  moreover have "copy_perception_limits default_perception_limits None = Inr default_perception_limits"
    by (simp add: copy_perception_limits_Inr default_limits_valid)
  ultimately have e: "isolated_infer id clip_loads ?sys clip_isolated clip_source [clip_frame] =
      Inl (ValueError ''surrogates not allowed'')"
    using clip_request limits steps by (simp add: isolated_infer_def clip_isolated_def)
  from isolated_worker_errors [OF e] e show ?thesis by simp
qed

text \<open>a process that writes one byte to each stream, closes them and ends; and one that only waits\<close>

definition ex_tick :: "rat \<Rightarrow> bool \<Rightarrow> (worker_stream \<times> read_outcome) list \<Rightarrow> drain_tick" where
  "ex_tick now running reads = \<lparr>tk_running = running, tk_now = now, tk_cpu_usec = 0, tk_memory_peak = 0, tk_memory_current = 0,
     tk_cancelled = Some False, tk_kill_clock = now, tk_reads = reads, tk_exited = \<not> running\<rparr>"

definition ex_process :: "drain_tick list \<Rightarrow> worker_process" where
  "ex_process ticks = \<lparr>wp_started = True, wp_clock = 0, wp_ticks = ticks,
     wp_exit = \<lparr>dx_returncode = Some 0, dx_clock = 1, dx_stopped = True\<rparr>, wp_stopped = True\<rparr>"

definition ex_reads :: "drain_tick list" where
  "ex_reads = [ex_tick 0 True [(STDOUT, Chunk ''a''), (STDERR, Blocked)], ex_tick 1 True [(STDERR, Chunk ''b''), (STDOUT, Chunk [])],
     ex_tick 2 True [(STDERR, Chunk [])], ex_tick 3 False []]"

lemma ex_run: "run_worker_process default_perception_limits (ex_process ex_reads) =
    Some (Inr \<lparr>wx_stdout = ''a'', wx_stderr = ''b'', wx_returncode = 0, wx_wall_ms = 1000, wx_cpu_ms = 0, wx_memory_peak_bytes = 0\<rparr>)"
  by (simp add: run_worker_process_def drain_worker_def ex_process_def ex_reads_def ex_tick_def drain_loop.simps(2) drain_start_def
      observe_def read_stream_def overdue_def default_perception_limits_def Let_def)

lemma worker_run_complete_witness:
  "\<exists>k \<le> 4. ''a'' = contents (stream_chunks STDOUT (take k ex_reads)) \<and> ''b'' = contents (stream_chunks STDERR (take k ex_reads))"
proof -
  have "length (wp_ticks (ex_process ex_reads)) = 4" "wp_ticks (ex_process ex_reads) = ex_reads"
    by (simp_all add: ex_process_def ex_reads_def)
  with worker_run_complete [OF ex_run default_limits_valid refl] show ?thesis by auto
qed

lemma worker_run_ends_witness:
  "\<exists>outcome. run_worker_process default_perception_limits (ex_process [ex_tick 0 True [], ex_tick 300 True [], ex_tick 301 True [], ex_tick 302 True []]) =
     Some outcome"
  by (rule worker_run_ends [where before = "[ex_tick 0 True []]" and late = "ex_tick 300 True []"
        and later = "[ex_tick 301 True [], ex_tick 302 True []]" and final = "ex_tick 302 True []"])
    (simp_all add: ex_process_def ex_tick_def default_perception_limits_def)

end
