(* ===== verification/Spec2Isabelle.thy ===== *)
theory Spec2Isabelle
  imports Geometry_Images Fake_Stores Sampling Record_Properties Record_Errors Tracker_Theorems Materialization_Theorems Isolated_Theorems
begin

text \<open>
  A model of the VisualWorld core, the Python package \<open>src/visualworld\<close>: it turns a video into frames
  with exact times, detections into observations, observations into tracklets, and tracklets into crops
  of the original pixels that serve as evidence, and it stores all of these as canonical,
  content-addressed records.

  \<^bold>\<open>The parts and how they interact.\<close>  A frame sampler picks decoded frames on an exact grid of
  presentation times; a detector maps boxes of the model's input back to source pixels and makes
  observations; a tracker joins the observations of consecutive frames to tracklets; an evidence selector
  ranks the observations of each tracklet and plans crops; the materialiser reads the planned frames
  through the original-frame port and cuts the crops.  Each of them is a port of \<open>ports.py\<close> with an
  in-memory fake beside the real component.  All values that cross a port are records of \<open>ingestion.py\<close>
  and \<open>perception.py\<close>, and every port copies and validates again what it receives.

  \<^bold>\<open>Theories and the code they model.\<close>

  \<^item> \<open>Prelude\<close>: exceptions as the datatype \<open>exn\<close>, results as \<open>'a res = exn + 'a\<close>, checks as optional
    exceptions run in order (\<open>run_checks\<close>), \<open>try ... except (TypeError, ValueError)\<close> as \<open>except_value\<close>,
    loops over lists that may raise (\<open>mapE\<close>), and the collection \<open>outcome\<close> of their facts.
  \<^item> \<open>Sha256\<close>: SHA-256 and HMAC-SHA256 of the standard library, on 32-bit words.  \<open>Validators\<close>,
    \<open>Decimal\<close>: the scalar validators, the shape check of JSON values, the canonical writer and decimal
    numbers of \<open>ingestion.py\<close>.  \<open>Json_Text\<close>: the strict UTF-8 decoder and JSON reader behind
    \<open>_parse_json\<close>; \<open>Json_Canonical\<close>: the reader inverts the writer.
  \<^item> \<open>Ingestion_Values\<close>, \<open>Ingestion\<close>: the value classes and the four records of \<open>ingestion.py\<close> (source,
    frame reference, evidence reference, run manifest), one record type per class, its \<open>__post_init__\<close>
    as \<open>..._post\<close>, its \<open>create\<close>, \<open>to_mapping\<close> and \<open>from_mapping\<close>.  \<open>Perception\<close>: the same for
    \<open>perception.py\<close> (frame discontinuities, observations, track points, tracklets).  \<open>Ingestion_Codec\<close>,
    \<open>Loading\<close>: reading back what was written, and the bounded loaders.
  \<^item> \<open>Ports\<close>, \<open>Fake_Stores\<close>, \<open>Fake_Perception\<close>: the vocabulary of \<open>ports.py\<close>, its in-memory stores and
    its scripted perception ports.
  \<^item> \<open>Geometry\<close>: \<open>geometry.py\<close>, the exact rational inverse of resizing, letterboxing and rotation, and
    RGB24 crops.
  \<^item> \<open>Sampling\<close>: \<open>sampling.py\<close>, \<open>ExactPtsFrameSampler\<close> with its cursor.
  \<^item> \<open>Assignment\<close>: \<open>_maximum_assignment\<close> of \<open>tracking.py\<close>, loop by loop.  \<open>Tracking\<close>, \<open>Tracker\<close>: the rest of
    \<open>tracking.py\<close>, from the image-change score and the box overlap to the sealed cursor, the pages and
    \<open>GlobalLastBoxTracker\<close>.
  \<^item> \<open>Evidence\<close>, \<open>Evidence_Selector\<close>: \<open>evidence.py\<close>, scores and intents, and \<open>BestFrameEvidenceSelector\<close>.
  \<^item> \<open>Frame_Access\<close>: \<open>frame_access.py\<close>, original frames and the in-memory reader.  \<open>Materialization\<close>:
    \<open>perception_materialization.py\<close>, \<open>OriginalFrameDiscontinuityProvider\<close> and \<open>OriginalFrameMaterializer\<close>.
  \<^item> \<open>Detection\<close>, \<open>Detection_Decode\<close>, \<open>Detector\<close>: \<open>detection.py\<close>, the records and limits of a perception
    worker, the decoder of its output, and \<open>OpenVinoVehicleDetector\<close> over any worker.  \<open>Isolated_Worker\<close>:
    \<open>IsolatedPerceptionWorker.infer\<close> and the command line of its sandbox, over a record of what the
    operating system answers.  \<open>Worker_Process\<close>: \<open>_drain_worker\<close> and \<open>_run_worker\<close>, the loop that
    supervises the process, over what each of its iterations observes.
  \<^item> The other theories hold lemmas (\<open>Geometry_Images\<close>, \<open>Assignment_Optimal\<close>, \<open>Tracker_Facts\<close>, \<open>Tracker_Pages\<close>,
    \<open>Tracker_Paging\<close>, \<open>Tracker_Properties\<close>, \<open>Evidence_Facts\<close>, \<open>Evidence_Plans\<close>, \<open>Evidence_Crops\<close>,
    \<open>Evidence_Codec\<close>, \<open>Frame_Readers\<close>, \<open>Materialization_Facts\<close>, \<open>Materialization_Runs\<close>, \<open>Port_Errors\<close>,
    \<open>Record_Sizes\<close>, \<open>Detector_Facts\<close>, \<open>Detector_Runs\<close>, \<open>Detector_Decoding\<close>, \<open>Isolated_Facts\<close>),
    concrete records (\<open>..._Examples\<close>) and the properties of each part (\<open>..._Theorems\<close>,
    \<open>Record_Properties\<close>, \<open>Record_Errors\<close>).

  \<^bold>\<open>How the code is rendered.\<close>  A class is a record whose fields carry a two-letter prefix; building an
  object runs its post-initialisation checks in the order of the code, each with the exception it raises.
  An operation that changes its object returns the new state with its result; one that raises returns no
  state, because the operations modelled change the object after their last check.  A Python \<open>str\<close> is its
  UTF-8 bytes, \<open>bytes\<close> are HOL strings too, an \<open>int\<close> is \<open>int\<close>, a \<open>Fraction\<close> is \<open>rat\<close>; a dictionary that is
  iterated is an association list in insertion order and one that is only looked up is a map.  A test
  such as \<open>type(x) is int\<close> that the typing of HOL makes true has no counterpart; where data arrive as JSON
  the tests are there, as matches on the constructors of \<open>json\<close>.  \<open>MAX_U64\<close>, \<open>MAX_I31\<close> and the other widths
  are checks of the code and are kept as such.  Five things come from outside the repository and are
  arguments: Unicode normalisation (\<open>nfc\<close>; the documented fact that it leaves ASCII alone is the predicate
  \<open>nfc_ascii\<close>), the interpreter's recursion limit in the JSON reader, the cancellation event another
  thread may set (\<open>cancel n\<close> is the answer of the \<open>n\<close>-th \<open>is_set()\<close> of a call), the value and the text
  \<open>json\<close> makes of a worker's output (\<open>loads\<close>), and the answers of the operating system to the isolated
  worker (\<open>worker_system\<close>, \<open>worker_process\<close>).  A system step may raise any exception of \<open>exn\<close>, whose
  \<open>OSError\<close> and \<open>SubprocessError\<close> occur only there; an interrupt and a lack of memory are not modelled, nor
  is an \<open>os.read\<close> of the supervision that fails otherwise than by blocking.  \<open>get\<close> reads a member whose
  presence the field check before it has established; a missing one would read as \<open>JNull\<close>.

  \<^bold>\<open>What the lemmas show.\<close>

  \<^item> Records: an accepted record says what the documents promise (identifiers are hashes of the content,
    numbers are in range, boxes lie in their images); the canonical bytes of a record are read back as that
    record; a loader takes one byte more than its bound from its reader and no other.
  \<^item> Geometry: the coefficients invert the display transform exactly; a mapped box covers the image of
    the detector's box and stays in the frame, and is refused exactly when no point inside the frame is
    mapped into the detector's box (\<open>Geometry_Images\<close>); a crop is the rectangle of pixels its box names.
  \<^item> Sampling: the frames chosen are the nearest to the ticks of the grid, and sampling page by page gives
    what sampling at once gives.
  \<^item> Tracking: the assignment returns on every input and is optimal; pages conserve observations and
    compose; the points of a tracklet overlap, follow each other closely and never cross a cut.
  \<^item> Evidence: a plan takes the best observations and no others; a materialised crop holds the original
    pixels; the changes between frames are measured on the frames' own pixels, whatever the paging.
  \<^item> Detection: the observations are the worker's detections, mapped to the source and fit for the tracker;
    an output the decoder accepts never fails in the detector; the isolated worker answers only in time,
    for the bytes it was asked about, with what its process wrote; a run of the process keeps every byte
    of both streams within their limits, and its supervision ends.
  \<^item> Errors: the sampler, the tracker and the selector raise only their own \<open>PortError\<close>s; the detector
    those, its worker's, and a bare \<open>ValueError\<close> when SHA-256 collides on two observations of one answer; the
    isolated worker its own and what a system step raises that the code around that step does not name.

  \<^bold>\<open>Interfaces.\<close>  What a client may rely on is a locale, and every locale is interpreted on the model's own
  definitions: \<open>evidence_store_port\<close> and \<open>world_store_port\<close> (\<open>Fake_Stores\<close>) on the in-memory stores;
  \<open>tracker_port\<close> and \<open>evidence_port\<close> (\<open>Perception_Ports\<close>) on the real components and on their scripted
  fakes, with \<open>perception_chain\<close> for a caller that joins the two; \<open>frame_reader\<close> and \<open>evidence_planner\<close>
  (\<open>Materialization_Facts\<close>) on the in-memory reader and the best-frame selector, and \<open>materialization\<close>
  for runs over both; \<open>perception_worker\<close> (\<open>Isolated_Facts\<close>) on the isolated worker.  The properties rest on these interpretations.

  \<^bold>\<open>Bounds and termination.\<close>  Every loop over a list is structural recursion.  The two open loops of
  \<open>_maximum_assignment\<close> are partial functions; the model is shown to return a value on every input.  The
  recursion limit of the JSON reader is any number; the round trips ask for one above \<open>MAX_DEPTH\<close>, the
  bound the validator puts on nesting.  The loop of \<open>_drain_worker\<close> runs over the list of what its iterations
  observe and is \<open>None\<close> while it has not ended; it is shown to end two seconds after it gave up on the
  process.  No other fuel is used.

  \<^bold>\<open>Not modelled.\<close>  \<open>storage.py\<close> and \<open>write_rgb24_crop\<close> (files, locks and \<open>fsync\<close>: what they do is what the
  system calls do), \<open>world_store.py\<close> and \<open>world_store_v2.py\<close> (the logic is SQL text run by SQLite),
  \<open>media.py\<close>, \<open>original_frame_runtime.py\<close> and the verification of the runtime's files in \<open>detection.py\<close> (child
  processes, shared memory, and the hashing of directory trees), \<open>coordinator.py\<close> but for the result record the materialiser returns (it drives
  the durable stores and the media worker), the command line, the workers that run inside the sandbox,
  the benchmark and provisioning scripts, experiments and tests.  Locks and the interleaving of threads are
  not modelled: an operation is one step, and cancellation is seen where the code looks for it.
\<close>

end
